(* ===== verification/Prelude.thy ===== *)
theory Prelude
  imports Main "HOL-Library.Word" "HOL-Library.Multiset"
begin

text \<open>
  Shared vocabulary of the development: identifiers, instants, machine integers as the Go
  code and the SQL columns use them, table scans and updates, and Go's string helpers.
\<close>

named_theorems table_simps "facts about scanning and updating tables"
named_theorems go_defs "unfolding rules of the small helpers of the Go code"

section \<open>Identifiers and machine integers\<close>

text \<open>
  Row identifiers are \<open>int64\<close>; they are only compared, so \<open>int\<close> carries them. Instants are
  nanoseconds. \<open>i64\<close> is the wrap-around of Go's \<open>int64\<close> arithmetic; \<open>int4\<close> is the range of
  an SQL \<open>INT\<close> column, outside of which PostgreSQL raises an error instead of wrapping.
\<close>

type_synonym id = int
type_synonym instant = int

definition i64 :: "int \<Rightarrow> int" where
  "i64 x = (x + 2 ^ 63) mod 2 ^ 64 - 2 ^ 63"

lemma i64_in_range: "- (2 ^ 63) \<le> x \<Longrightarrow> x < 2 ^ 63 \<Longrightarrow> i64 x = x"
  by (simp add: i64_def)

lemma i64_range: "- (2 ^ 63) \<le> i64 x \<and> i64 x < 2 ^ 63"
proof -
  have "0 \<le> (x + 2 ^ 63) mod (2 ^ 64 :: int)" and "(x + 2 ^ 63) mod (2 ^ 64 :: int) < 2 ^ 64"
    by simp_all
  then show ?thesis unfolding i64_def by simp
qed

definition int4 :: "int \<Rightarrow> bool" where
  "int4 x \<longleftrightarrow> - (2 ^ 31) \<le> x \<and> x < 2 ^ 31"

section \<open>Results\<close>

text \<open>A Go function returning \<open>(value, error)\<close> returns \<open>Inl\<close> the error or \<open>Inr\<close> the value.\<close>

fun is_ok :: "'e + 'a \<Rightarrow> bool" where
  "is_ok (Inl _) = False"
| "is_ok (Inr _) = True"

lemma is_ok_iff: "is_ok r \<longleftrightarrow> (\<exists>x. r = Inr x)"
  by (cases r) auto

section \<open>Tables\<close>

text \<open>
  A table is the list of its rows. \<open>update_where P f\<close> is \<open>UPDATE ... SET f WHERE P\<close>,
  \<open>delete_where P\<close> is \<open>DELETE ... WHERE P\<close>.
\<close>

definition update_where :: "('r \<Rightarrow> bool) \<Rightarrow> ('r \<Rightarrow> 'r) \<Rightarrow> 'r list \<Rightarrow> 'r list" where
  "update_where P f t = map (\<lambda>r. if P r then f r else r) t"

definition delete_where :: "('r \<Rightarrow> bool) \<Rightarrow> 'r list \<Rightarrow> 'r list" where
  "delete_where P t = filter (\<lambda>r. \<not> P r) t"

lemma set_update_where [table_simps]:
  "set (update_where P f t) = (\<lambda>r. if P r then f r else r) ` set t"
  by (simp add: update_where_def)

lemma length_update_where [table_simps]: "length (update_where P f t) = length t"
  by (simp add: update_where_def)

lemma update_where_none [table_simps]:
  "\<forall>r \<in> set t. \<not> P r \<Longrightarrow> update_where P f t = t"
  by (induction t) (auto simp: update_where_def)

lemma map_update_where [table_simps]:
  "(\<And>r. k (f r) = k r) \<Longrightarrow> map k (update_where P f t) = map k t"
  by (simp add: update_where_def)

lemma set_delete_where [table_simps]: "set (delete_where P t) = {r \<in> set t. \<not> P r}"
  by (simp add: delete_where_def)

lemma find_Some_iff_mem:
  "List.find P xs = Some x \<Longrightarrow> x \<in> set xs \<and> P x"
  by (induction xs) (auto split: if_splits)

lemma find_None_iff_all: "List.find P xs = None \<longleftrightarrow> (\<forall>x \<in> set xs. \<not> P x)"
  by (induction xs) auto

lemma find_snoc: "List.find P (xs @ [x])
    = (case List.find P xs of None \<Rightarrow> if P x then Some x else None | Some y \<Rightarrow> Some y)"
  by (induction xs) auto

lemma find_update_where [table_simps]:
  "(\<And>r. K (f r) = K r) \<Longrightarrow>
   List.find K (update_where P f t) = map_option (\<lambda>r. if P r then f r else r) (List.find K t)"
  by (induction t) (auto simp: update_where_def)

lemma find_delete_where:
  "List.find K (delete_where P t) = List.find (\<lambda>r. K r \<and> \<not> P r) t"
  by (induction t) (auto simp: delete_where_def)

lemma distinct_map_delete_where [table_simps]:
  "distinct (map k t) \<Longrightarrow> distinct (map k (delete_where P t))"
  by (simp add: delete_where_def distinct_map_filter)

text \<open>Under a unique key, a statement restricted to one key sees at most one row.\<close>

lemma list_ex_unique_key:
  "distinct (map k t) \<Longrightarrow>
   list_ex (\<lambda>r. k r = x \<and> Q r) t \<longleftrightarrow> (\<exists>r. List.find (\<lambda>r. k r = x) t = Some r \<and> Q r)"
  by (induction t) (auto simp: list_ex_iff image_iff)

lemma find_unique_key:
  "distinct (map k t) \<Longrightarrow> List.find (\<lambda>r. k r = x) t = Some r \<longleftrightarrow> r \<in> set t \<and> k r = x"
  by (induction t) (auto simp: image_iff)

lemma filter_at_most_one:
  "distinct (map k xs) \<Longrightarrow> (\<And>a b. a \<in> set xs \<Longrightarrow> b \<in> set xs \<Longrightarrow> P a \<Longrightarrow> P b \<Longrightarrow> k a = k b) \<Longrightarrow>
   filter P xs = (case List.find P xs of None \<Rightarrow> [] | Some x \<Rightarrow> [x])"
proof (induction xs)
  case (Cons x xs)
  show ?case
  proof (cases "P x")
    case True
    have "\<not> P y" if "y \<in> set xs" for y
      using Cons.prems(1) Cons.prems(2) [of x y] that True by (auto simp: image_iff)
    then have "filter P xs = []" by (simp add: filter_empty_conv)
    then show ?thesis using True by simp
  next
    case False
    have "filter P xs = (case List.find P xs of None \<Rightarrow> [] | Some x \<Rightarrow> [x])"
      using Cons.prems by (intro Cons.IH) simp_all
    then show ?thesis using False by simp
  qed
qed simp

lemma filter_update_where_other:
  "(\<And>r. r \<in> set t \<Longrightarrow> K r \<Longrightarrow> P r \<Longrightarrow> False) \<Longrightarrow> (\<And>r. r \<in> set t \<Longrightarrow> P r \<Longrightarrow> \<not> K (f r)) \<Longrightarrow>
   filter K (update_where P f t) = filter K t"
  by (induction t) (auto simp: update_where_def)

text \<open>\<open>ORDER BY\<close> a comparison: an insertion sort that keeps rows with equal keys in table order.\<close>

fun insert_by :: "('r \<Rightarrow> 'r \<Rightarrow> bool) \<Rightarrow> 'r \<Rightarrow> 'r list \<Rightarrow> 'r list" where
  "insert_by le x [] = [x]"
| "insert_by le x (y # ys) = (if le x y then x # y # ys else y # insert_by le x ys)"

definition order_by :: "('r \<Rightarrow> 'r \<Rightarrow> bool) \<Rightarrow> 'r list \<Rightarrow> 'r list" where
  "order_by le xs = foldr (insert_by le) xs []"

lemma set_insert_by [simp]: "set (insert_by le x xs) = insert x (set xs)"
  by (induction xs) auto

lemma set_order_by [simp]: "set (order_by le xs) = set xs"
  by (induction xs) (simp_all add: order_by_def)

lemma order_by_sorted:
  "sorted_wrt le xs \<Longrightarrow> order_by le xs = xs"
proof (induction xs)
  case (Cons x xs)
  then have "order_by le (x # xs) = insert_by le x xs" by (simp add: order_by_def)
  also have "\<dots> = x # xs" using Cons.prems by (cases xs) simp_all
  finally show ?case .
qed (simp add: order_by_def)

lemma sorted_insert_by:
  assumes "\<And>a b. le a b \<or> le b a" "\<And>a b c. le a b \<Longrightarrow> le b c \<Longrightarrow> le a c" "sorted_wrt le xs"
  shows "sorted_wrt le (insert_by le x xs)"
  using assms(3)
proof (induction xs)
  case (Cons y ys)
  then show ?case using assms(1) [of x y] assms(2) by (auto dest: assms(2))
qed simp

lemma sorted_order_by:
  assumes "\<And>a b. le a b \<or> le b a" "\<And>a b c. le a b \<Longrightarrow> le b c \<Longrightarrow> le a c"
  shows "sorted_wrt le (order_by le xs)"
  by (induction xs) (simp_all add: order_by_def sorted_insert_by [OF assms])

lemma mset_insert_by [simp]: "mset (insert_by le x xs) = add_mset x (mset xs)"
  by (induction xs) simp_all

lemma mset_order_by [simp]: "mset (order_by le xs) = mset xs"
  by (induction xs) (simp_all add: order_by_def)

lemma length_order_by [simp]: "length (order_by le xs) = length xs"
  by (metis mset_order_by size_mset)

lemma filter_insert_by:
  assumes "\<And>a b c. le a b \<Longrightarrow> le b c \<Longrightarrow> le a c" "sorted_wrt le xs"
  shows "filter Q (insert_by le x xs) = (if Q x then insert_by le x (filter Q xs) else filter Q xs)"
  using assms(2)
proof (induction xs)
  case (Cons y ys)
  have "insert_by le x (filter Q ys) = x # filter Q ys" if "le x y"
  proof (cases "filter Q ys")
    case (Cons z zs)
    then have "z \<in> set ys" by (metis filter_is_subset list.set_intros(1) subsetD)
    then have "le x z" using that Cons.prems assms(1) by auto
    then show ?thesis using Cons by simp
  qed simp
  then show ?case using Cons by auto
qed simp

lemma filter_order_by:
  assumes "\<And>a b. le a b \<or> le b a" "\<And>a b c. le a b \<Longrightarrow> le b c \<Longrightarrow> le a c"
  shows "filter Q (order_by le xs) = order_by le (filter Q xs)"
proof (induction xs)
  case (Cons x xs)
  have "sorted_wrt le (order_by le xs)" by (rule sorted_order_by [OF assms])
  from filter_insert_by [OF assms(2) this] show ?case using Cons by (simp add: order_by_def)
qed (simp add: order_by_def)

lemma distinct_map_order_by: "distinct (map k xs) \<Longrightarrow> distinct (map k (order_by le xs))"
  by (metis mset_eq_imp_distinct_iff mset_map mset_order_by)

text \<open>Consecutive \<open>LIMIT n OFFSET k * n\<close> pages.\<close>

lemma concat_pages:
  "concat (map (\<lambda>k. take n (drop (k * n) xs)) [0..<m]) = take (m * n) xs"
proof (induction m)
  case (Suc m)
  have "take (m * n) xs @ take n (drop (m * n) xs) = take (m * n + n) xs" by (rule take_add [symmetric])
  then show ?case using Suc by (simp add: add.commute)
qed simp

section \<open>Loops\<close>

text \<open>A \<open>for\<close> loop over a slice whose body may return early with an error.\<close>

fun try_all :: "('x \<Rightarrow> 's \<Rightarrow> 'e + 's) \<Rightarrow> 'x list \<Rightarrow> 's \<Rightarrow> 'e + 's" where
  "try_all f [] s = Inr s"
| "try_all f (x # xs) s = (case f x s of Inl e \<Rightarrow> Inl e | Inr s' \<Rightarrow> try_all f xs s')"

lemma try_all_invariant:
  assumes "try_all f xs s = Inr s'" "I s"
    and "\<And>x a b. x \<in> set xs \<Longrightarrow> f x a = Inr b \<Longrightarrow> I a \<Longrightarrow> I b"
  shows "I s'"
  using assms
proof (induction xs arbitrary: s)
  case (Cons x xs)
  then obtain s1 where "f x s = Inr s1" "try_all f xs s1 = Inr s'" by (auto split: sum.splits)
  then show ?case using Cons.IH [of s1] Cons.prems by (meson list.set_intros)
qed simp

lemma try_all_error:
  "try_all f xs s = Inl e \<Longrightarrow> \<exists>x \<in> set xs. \<exists>a. f x a = Inl e"
  by (induction xs arbitrary: s) (auto split: sum.splits)

lemma try_all_append:
  "try_all f (xs @ ys) s = (case try_all f xs s of Inl e \<Rightarrow> Inl e | Inr s' \<Rightarrow> try_all f ys s')"
  by (induction xs arbitrary: s) (auto split: sum.splits)

section \<open>Transactions\<close>

text \<open>
  The repositories wrap their statements as \<open>Begin; defer Rollback; body; Commit\<close>. The driver may
  fail to begin or to commit; the body may return an error. The state is the committed database.
\<close>

datatype tx_fault = NoFault | BeginFault | CommitFault

definition run_tx ::
  "tx_fault \<Rightarrow> 'e \<Rightarrow> ('s \<Rightarrow> 'e + 'a \<times> 's) \<Rightarrow> 's \<Rightarrow> ('e + 'a) \<times> 's" where
  "run_tx flt dberr body s =
     (if flt = BeginFault then (Inl dberr, s)
      else (case body s of
              Inl e \<Rightarrow> (Inl e, s)
            | Inr (a, s') \<Rightarrow> if flt = CommitFault then (Inl dberr, s) else (Inr a, s')))"

lemma run_tx_error: "run_tx flt d body s = (Inl e, s') \<Longrightarrow> s' = s"
  by (auto simp: run_tx_def split: if_splits sum.splits)

lemma run_tx_ok:
  "run_tx flt d body s = (Inr a, s') \<longleftrightarrow> flt = NoFault \<and> body s = Inr (a, s')"
  by (cases flt) (auto simp: run_tx_def split: sum.splits)

lemma run_tx_cases:
  "run_tx flt d body s = (r, s') \<Longrightarrow> s' = s \<or> (\<exists>a. r = Inr a \<and> body s = Inr (a, s'))"
  by (cases r) (auto simp: run_tx_ok dest: run_tx_error)

section \<open>Request validation\<close>

text \<open>
  Every \<open>Validate\<close> method normalises the request in place (trimming, defaulting) and returns an
  error or nothing. The contract the services rely on: an accepted request satisfies its
  well-formedness predicate, and a well-formed request passes unchanged.
\<close>

locale request_validator =
  fixes validate :: "'r \<Rightarrow> 'e + 'r" and wf_req :: "'r \<Rightarrow> bool"
  assumes accepts_wf: "validate r = Inr r' \<Longrightarrow> wf_req r'"
    and wf_fixed: "wf_req r \<Longrightarrow> validate r = Inr r"
begin

lemma validate_idem: "validate r = Inr r' \<Longrightarrow> validate r' = Inr r'"
  by (rule wf_fixed) (rule accepts_wf)

lemma wf_iff_fixed: "wf_req r \<longleftrightarrow> validate r = Inr r"
  using accepts_wf wf_fixed by blast

end

end
