(* ===== verification/Go_Strings.thy ===== *)
theory Go_Strings
  imports Prelude "HOL-Library.Sublist"
begin

text \<open>
  Go strings are byte sequences; the program's strings come from JSON and from PostgreSQL and are
  valid UTF-8. A \<open>string\<close> here is that byte sequence, one \<open>char\<close> per byte. The section models the
  functions of \<open>strings\<close>, \<open>unicode/utf8\<close> and \<open>strconv\<close> the code calls, on UTF-8 text.
\<close>

section \<open>Runes\<close>

text \<open>A continuation byte is \<open>10xxxxxx\<close>; each rune has exactly one byte that is not.\<close>

definition cont_byte :: "char \<Rightarrow> bool" where
  "cont_byte c \<longleftrightarrow> 128 \<le> (of_char c :: nat) \<and> (of_char c :: nat) < 192"

text \<open>\<open>utf8.RuneCountInString\<close>.\<close>

definition rune_count :: "string \<Rightarrow> nat" where
  "rune_count s = length (filter (\<lambda>c. \<not> cont_byte c) s)"

text \<open>\<open>string([]rune(s)[:n])\<close>, the first \<open>n\<close> runes.\<close>

fun take_runes :: "nat \<Rightarrow> string \<Rightarrow> string" where
  "take_runes n [] = []"
| "take_runes n (c # cs) =
     (if cont_byte c then c # take_runes n cs
      else (case n of 0 \<Rightarrow> [] | Suc m \<Rightarrow> c # take_runes m cs))"

lemma rune_count_Nil [simp]: "rune_count [] = 0"
  by (simp add: rune_count_def)

lemma rune_count_Cons [simp]:
  "rune_count (c # cs) = (if cont_byte c then rune_count cs else Suc (rune_count cs))"
  by (simp add: rune_count_def)

lemma rune_count_take_runes: "rune_count (take_runes n s) = min n (rune_count s)"
  by (induction n s rule: take_runes.induct) (auto split: nat.splits)

lemma take_runes_short: "rune_count s \<le> n \<Longrightarrow> take_runes n s = s"
  by (induction n s rule: take_runes.induct) (auto split: nat.splits if_splits)

lemma prefix_take_runes: "prefix (take_runes n s) s"
  by (induction n s rule: take_runes.induct) (auto split: nat.splits)

section \<open>White space\<close>

text \<open>The UTF-8 encodings of the runes \<open>unicode.IsSpace\<close> accepts.\<close>

definition space_encodings :: "string list" where
  "space_encodings =
     [[CHR 0x20], [CHR 0x09], [CHR 0x0A], [CHR 0x0B], [CHR 0x0C], [CHR 0x0D],
      [CHR 0xC2, CHR 0x85], [CHR 0xC2, CHR 0xA0], [CHR 0xE1, CHR 0x9A, CHR 0x80],
      [CHR 0xE2, CHR 0x80, CHR 0x80], [CHR 0xE2, CHR 0x80, CHR 0x81],
      [CHR 0xE2, CHR 0x80, CHR 0x82], [CHR 0xE2, CHR 0x80, CHR 0x83],
      [CHR 0xE2, CHR 0x80, CHR 0x84], [CHR 0xE2, CHR 0x80, CHR 0x85],
      [CHR 0xE2, CHR 0x80, CHR 0x86], [CHR 0xE2, CHR 0x80, CHR 0x87],
      [CHR 0xE2, CHR 0x80, CHR 0x88], [CHR 0xE2, CHR 0x80, CHR 0x89],
      [CHR 0xE2, CHR 0x80, CHR 0x8A], [CHR 0xE2, CHR 0x80, CHR 0xA8],
      [CHR 0xE2, CHR 0x80, CHR 0xA9], [CHR 0xE2, CHR 0x80, CHR 0xAF],
      [CHR 0xE2, CHR 0x81, CHR 0x9F], [CHR 0xE3, CHR 0x80, CHR 0x80]]"

lemma space_encodings_nonempty: "e \<in> set space_encodings \<Longrightarrow> e \<noteq> []"
  by (auto simp: space_encodings_def)

function strip_left :: "string \<Rightarrow> string" where
  "strip_left s = (case List.find (\<lambda>e. prefix e s) space_encodings of
     None \<Rightarrow> s | Some e \<Rightarrow> strip_left (drop (length e) s))"
  by pat_completeness auto
termination
proof (relation "measure length", goal_cases)
  case (2 s e)
  then have "e \<in> set space_encodings" "prefix e s" using find_Some_iff_mem by fastforce+
  then have "0 < length e" "length e \<le> length s"
    using space_encodings_nonempty prefix_length_le by auto
  then show ?case by (auto intro: diff_less)
qed simp

function strip_right :: "string \<Rightarrow> string" where
  "strip_right s = (case List.find (\<lambda>e. suffix e s) space_encodings of
     None \<Rightarrow> s | Some e \<Rightarrow> strip_right (take (length s - length e) s))"
  by pat_completeness auto
termination
proof (relation "measure length", goal_cases)
  case (2 s e)
  then have "e \<in> set space_encodings" "suffix e s" using find_Some_iff_mem by fastforce+
  then have "0 < length e" "length e \<le> length s"
    using space_encodings_nonempty suffix_length_le by auto
  then show ?case by (auto intro: diff_less)
qed simp

declare strip_left.simps [simp del] strip_right.simps [simp del]

text \<open>\<open>strings.TrimSpace\<close>.\<close>

definition trim_space :: "string \<Rightarrow> string" where
  "trim_space s = strip_right (strip_left s)"

lemma strip_left_clean: "e \<in> set space_encodings \<Longrightarrow> \<not> prefix e (strip_left s)"
proof (induction s rule: strip_left.induct)
  case (1 s)
  show ?case
  proof (cases "List.find (\<lambda>e. prefix e s) space_encodings")
    case None
    then show ?thesis
      using "1.prems" by (simp add: strip_left.simps [of s]) (simp add: find_None_iff_all)
  next
    case (Some e')
    then show ?thesis using "1.IH" [OF Some "1.prems"] by (simp add: strip_left.simps [of s])
  qed
qed

lemma strip_right_clean: "e \<in> set space_encodings \<Longrightarrow> \<not> suffix e (strip_right s)"
proof (induction s rule: strip_right.induct)
  case (1 s)
  show ?case
  proof (cases "List.find (\<lambda>e. suffix e s) space_encodings")
    case None
    then show ?thesis
      using "1.prems" by (simp add: strip_right.simps [of s]) (simp add: find_None_iff_all)
  next
    case (Some e')
    then show ?thesis using "1.IH" [OF Some "1.prems"] by (simp add: strip_right.simps [of s])
  qed
qed

lemma prefix_strip_right: "prefix (strip_right s) s"
proof (induction s rule: strip_right.induct)
  case (1 s)
  show ?case
  proof (cases "List.find (\<lambda>e. suffix e s) space_encodings")
    case None
    then show ?thesis by (simp add: strip_right.simps [of s])
  next
    case (Some e)
    then have "prefix (strip_right s) (take (length s - length e) s)"
      using "1.IH" [OF Some] by (simp add: strip_right.simps [of s])
    then show ?thesis using take_is_prefix prefix_order.trans by blast
  qed
qed

lemma strip_left_id: "\<forall>e \<in> set space_encodings. \<not> prefix e s \<Longrightarrow> strip_left s = s"
  by (simp add: strip_left.simps [of s] find_None_iff_all [THEN iffD2])

lemma strip_right_id: "\<forall>e \<in> set space_encodings. \<not> suffix e s \<Longrightarrow> strip_right s = s"
  by (simp add: strip_right.simps [of s] find_None_iff_all [THEN iffD2])

lemma trim_space_clean_left: "e \<in> set space_encodings \<Longrightarrow> \<not> prefix e (trim_space s)"
  unfolding trim_space_def
  using strip_left_clean prefix_strip_right prefix_order.trans by blast

lemma trim_space_clean_right: "e \<in> set space_encodings \<Longrightarrow> \<not> suffix e (trim_space s)"
  unfolding trim_space_def by (rule strip_right_clean)

text \<open>Trimming a trimmed string changes nothing: validated requests can be validated again.\<close>

lemma trim_space_idem [simp]: "trim_space (trim_space s) = trim_space s"
proof -
  have "strip_left (trim_space s) = trim_space s"
    by (rule strip_left_id) (simp add: trim_space_clean_left)
  moreover have "strip_right (trim_space s) = trim_space s"
    by (rule strip_right_id) (simp add: trim_space_clean_right)
  ultimately show ?thesis by (simp add: trim_space_def [of "trim_space s"])
qed

lemma trim_space_Nil [simp]: "trim_space [] = []"
  unfolding trim_space_def
  by (subst strip_left_id) (auto simp: strip_right_id space_encodings_nonempty prefix_Nil suffix_Nil)

section \<open>Decimal numbers and joining\<close>

text \<open>\<open>strconv.FormatInt(n, 10)\<close> and the \<open>%d\<close> verb.\<close>

fun digits_of_nat :: "nat \<Rightarrow> string" where
  "digits_of_nat n =
     (if n < 10 then [char_of (48 + n)] else digits_of_nat (n div 10) @ [char_of (48 + n mod 10)])"

declare digits_of_nat.simps [simp del]

definition string_of_int :: "int \<Rightarrow> string" where
  "string_of_int n = (if n < 0 then CHR ''-'' # digits_of_nat (nat (- n)) else digits_of_nat (nat n))"

text \<open>\<open>strings.Join\<close>.\<close>

fun join_with :: "string \<Rightarrow> string list \<Rightarrow> string" where
  "join_with sep [] = []"
| "join_with sep [x] = x"
| "join_with sep (x # y # ys) = x @ sep @ join_with sep (y # ys)"

text \<open>\<open>strings.EqualFold\<close> against an ASCII word without the letters \<open>k\<close> and \<open>s\<close>, to which no rune
  outside ASCII folds, compares the words in lower case.\<close>

definition ascii_lower :: "char \<Rightarrow> char" where
  "ascii_lower c = (if (65 :: nat) \<le> of_char c \<and> (of_char c :: nat) \<le> 90 then char_of ((of_char c :: nat) + 32) else c)"

end
