(* ===== verification/Inventory.thy ===== *)
theory Inventory
  imports Go_Strings
begin

text \<open>
  Stock keeping: the tables \<open>inventory_locations\<close> and \<open>inventory_items\<close>, the repository of
  \<open>internal/repository/postgres/inventory_repo.go\<close> (one definition per statement) and the service of
  \<open>internal/service/catalog/inventory.go\<close>. Quantities are SQL \<open>INT\<close> columns: a value outside the
  32-bit range makes the statement fail. The result of \<open>nextval\<close> (a row's new id), \<open>NOW()\<close>, the
  collation of \<open>ORDER BY name\<close> and the foreign key to \<open>product_variants\<close> are arguments.
\<close>

section \<open>Data\<close>

datatype inv_error =
    ErrLocationNotFound | ErrItemNotFound | ErrLocationCodeConflict | ErrItemConflict
  | ErrInvalidName | ErrInvalidLocationCode | ErrInvalidQuantity | ErrInsufficientStock
  | InvDbError

record location =
  loc_id :: id
  loc_name :: string
  loc_code :: "string option"
  loc_active :: bool

record item =
  it_id :: id
  it_variant :: id
  it_location :: id
  it_available :: int
  it_reserved :: int
  it_incoming :: int
  it_updated :: instant

record stock_summary =
  ss_variant :: id
  ss_available :: int
  ss_reserved :: int
  ss_incoming :: int

record inv_store =
  locations :: "location list"
  items :: "item list"

section \<open>Requests\<close>

record create_location_req =
  cl_name :: string
  cl_code :: "string option"
  cl_active :: "bool option"

record update_location_req =
  ul_name :: "string option"
  ul_code :: "string option"
  ul_active :: "bool option"

record upsert_item_req =
  ui_variant :: id
  ui_location :: id
  ui_available :: int
  ui_reserved :: int
  ui_incoming :: int

definition CreateLocationRequest_Validate ::
  "create_location_req \<Rightarrow> inv_error + create_location_req" where
  "CreateLocationRequest_Validate r =
     (let r1 = r\<lparr>cl_name := trim_space (cl_name r)\<rparr> in
      if cl_name r1 = [] \<or> 150 < rune_count (cl_name r1) then Inl ErrInvalidName
      else case cl_code r1 of
             None \<Rightarrow> Inr r1
           | Some c \<Rightarrow> let r2 = r1\<lparr>cl_code := Some (trim_space c)\<rparr> in
               if 50 < rune_count (trim_space c) then Inl ErrInvalidLocationCode else Inr r2)"

definition UpdateLocationRequest_Validate ::
  "update_location_req \<Rightarrow> inv_error + update_location_req" where
  "UpdateLocationRequest_Validate r =
     (let r1 = r\<lparr>ul_name := map_option trim_space (ul_name r)\<rparr> in
      if (case ul_name r1 of None \<Rightarrow> False | Some n \<Rightarrow> n = [] \<or> 150 < rune_count n)
      then Inl ErrInvalidName
      else let r2 = r1\<lparr>ul_code := map_option trim_space (ul_code r1)\<rparr> in
           if (case ul_code r2 of None \<Rightarrow> False | Some c \<Rightarrow> 50 < rune_count c)
           then Inl ErrInvalidLocationCode else Inr r2)"

definition UpsertItemRequest_Validate :: "upsert_item_req \<Rightarrow> inv_error + upsert_item_req" where
  "UpsertItemRequest_Validate r =
     (if ui_available r < 0 \<or> ui_reserved r < 0 \<or> ui_incoming r < 0
      then Inl ErrInvalidQuantity else Inr r)"

section \<open>Repository: locations\<close>

text \<open>The \<open>UNIQUE\<close> constraint on \<open>location_code\<close> ignores NULLs.\<close>

definition code_taken :: "string option \<Rightarrow> (location \<Rightarrow> bool) \<Rightarrow> location list \<Rightarrow> bool" where
  "code_taken c other ls \<longleftrightarrow> c \<noteq> None \<and> list_ex (\<lambda>l. other l \<and> loc_code l = c) ls"

definition repo_CreateLocation :: "id \<Rightarrow> location \<Rightarrow> inv_store \<Rightarrow> (inv_error + location) \<times> inv_store" where
  "repo_CreateLocation nid l s =
     (if code_taken (loc_code l) (\<lambda>_. True) (locations s) then (Inl ErrLocationCodeConflict, s)
      else let l' = l\<lparr>loc_id := nid\<rparr> in (Inr l', s\<lparr>locations := locations s @ [l']\<rparr>))"

definition repo_GetLocationByID :: "id \<Rightarrow> inv_store \<Rightarrow> inv_error + location" where
  "repo_GetLocationByID i s =
     (case List.find (\<lambda>l. loc_id l = i) (locations s) of
        None \<Rightarrow> Inl ErrLocationNotFound | Some l \<Rightarrow> Inr l)"

definition repo_UpdateLocation :: "location \<Rightarrow> inv_store \<Rightarrow> (inv_error + unit) \<times> inv_store" where
  "repo_UpdateLocation l s =
     (let hit = (\<lambda>r. loc_id r = loc_id l) in
      if \<not> list_ex hit (locations s) then (Inl ErrLocationNotFound, s)
      else if code_taken (loc_code l) (\<lambda>r. \<not> hit r) (locations s)
           then (Inl ErrLocationCodeConflict, s)
      else (Inr (), s\<lparr>locations := update_where hit
              (\<lambda>r. r\<lparr>loc_name := loc_name l, loc_code := loc_code l, loc_active := loc_active l\<rparr>)
              (locations s)\<rparr>))"

text \<open>\<open>ON DELETE CASCADE\<close> removes the items of a deleted location.\<close>

definition repo_DeleteLocation :: "id \<Rightarrow> inv_store \<Rightarrow> (inv_error + unit) \<times> inv_store" where
  "repo_DeleteLocation i s =
     (if \<not> list_ex (\<lambda>l. loc_id l = i) (locations s) then (Inl ErrLocationNotFound, s)
      else (Inr (), \<lparr>locations = delete_where (\<lambda>l. loc_id l = i) (locations s),
                    items = delete_where (\<lambda>r. it_location r = i) (items s)\<rparr>))"

definition repo_ListLocations ::
  "(string \<Rightarrow> string \<Rightarrow> bool) \<Rightarrow> bool \<Rightarrow> inv_store \<Rightarrow> location list" where
  "repo_ListLocations collate active_only s =
     order_by (\<lambda>a b. collate (loc_name a) (loc_name b))
       (filter (\<lambda>l. active_only \<longrightarrow> loc_active l) (locations s))"

section \<open>Repository: items\<close>

definition is_row :: "id \<Rightarrow> id \<Rightarrow> item \<Rightarrow> bool" where
  "is_row v l r \<longleftrightarrow> it_variant r = v \<and> it_location r = l"

definition scanItem :: "(item \<Rightarrow> bool) \<Rightarrow> inv_store \<Rightarrow> inv_error + item" where
  "scanItem P s = (case List.find P (items s) of None \<Rightarrow> Inl ErrItemNotFound | Some r \<Rightarrow> Inr r)"

definition repo_GetItemByID :: "id \<Rightarrow> inv_store \<Rightarrow> inv_error + item" where
  "repo_GetItemByID i s = scanItem (\<lambda>r. it_id r = i) s"

definition repo_GetItemByVariantAndLocation :: "id \<Rightarrow> id \<Rightarrow> inv_store \<Rightarrow> inv_error + item" where
  "repo_GetItemByVariantAndLocation v l s = scanItem (is_row v l) s"

text \<open>The join with the locations, ordered by location name; a row is an item with name and code.\<close>

definition repo_GetItemsByVariant ::
  "(string \<Rightarrow> string \<Rightarrow> bool) \<Rightarrow> id \<Rightarrow> inv_store \<Rightarrow> (item \<times> string \<times> string option) list" where
  "repo_GetItemsByVariant collate v s =
     order_by (\<lambda>(_, a, _) (_, b, _). collate a b)
       (concat (map (\<lambda>r. map (\<lambda>l. (r, loc_name l, loc_code l))
                           (filter (\<lambda>l. loc_id l = it_location r) (locations s)))
                  (filter (\<lambda>r. it_variant r = v) (items s))))"

definition repo_GetStockSummary :: "id \<Rightarrow> inv_store \<Rightarrow> stock_summary" where
  "repo_GetStockSummary v s =
     (let rs = filter (\<lambda>r. it_variant r = v) (items s) in
      \<lparr>ss_variant = v, ss_available = sum_list (map it_available rs),
       ss_reserved = sum_list (map it_reserved rs), ss_incoming = sum_list (map it_incoming rs)\<rparr>)"

text \<open>\<open>INSERT ... ON CONFLICT (variant_id, location_id) DO UPDATE\<close>, with the two foreign keys.\<close>

definition upsertItemTx ::
  "id \<Rightarrow> instant \<Rightarrow> (id \<Rightarrow> bool) \<Rightarrow> item \<Rightarrow> inv_store \<Rightarrow> inv_error + item \<times> inv_store" where
  "upsertItemTx nid now vexists it s =
     (if \<not> (int4 (it_available it) \<and> int4 (it_reserved it) \<and> int4 (it_incoming it)) then Inl InvDbError
      else case List.find (is_row (it_variant it) (it_location it)) (items s) of
             None \<Rightarrow>
               if vexists (it_variant it) \<and> list_ex (\<lambda>l. loc_id l = it_location it) (locations s)
               then let r = it\<lparr>it_id := nid, it_updated := now\<rparr>
                    in Inr (r, s\<lparr>items := items s @ [r]\<rparr>)
               else Inl InvDbError
           | Some old \<Rightarrow>
               Inr (it\<lparr>it_id := it_id old, it_updated := now\<rparr>,
                    s\<lparr>items := update_where (is_row (it_variant it) (it_location it))
                       (\<lambda>r. r\<lparr>it_available := it_available it, it_reserved := it_reserved it,
                              it_incoming := it_incoming it, it_updated := now\<rparr>) (items s)\<rparr>))"

definition adjustAvailableTx ::
  "instant \<Rightarrow> id \<Rightarrow> id \<Rightarrow> int \<Rightarrow> item list \<Rightarrow> inv_error + item list" where
  "adjustAvailableTx now v l \<delta> t =
     (let hit = (\<lambda>r. is_row v l r \<and> 0 \<le> it_available r + \<delta>) in
      if \<not> int4 \<delta> \<or> list_ex (\<lambda>r. is_row v l r \<and> \<not> int4 (it_available r + \<delta>)) t then Inl InvDbError
      else if list_ex hit t
           then Inr (update_where hit
                  (\<lambda>r. r\<lparr>it_available := it_available r + \<delta>, it_updated := now\<rparr>) t)
      else if \<not> list_ex (is_row v l) t then Inl ErrItemNotFound
      else Inl ErrInsufficientStock)"

definition reserveTx ::
  "instant \<Rightarrow> id \<Rightarrow> id \<Rightarrow> int \<Rightarrow> item list \<Rightarrow> inv_error + item list" where
  "reserveTx now v l q t =
     (let hit = (\<lambda>r. is_row v l r \<and> q \<le> it_available r) in
      if \<not> int4 q
         \<or> list_ex (\<lambda>r. hit r \<and> \<not> (int4 (it_available r - q) \<and> int4 (it_reserved r + q))) t
      then Inl InvDbError
      else if list_ex hit t
           then Inr (update_where hit
                  (\<lambda>r. r\<lparr>it_available := it_available r - q, it_reserved := it_reserved r + q,
                         it_updated := now\<rparr>) t)
      else if \<not> list_ex (is_row v l) t then Inl ErrItemNotFound
      else Inl ErrInsufficientStock)"

definition releaseTx ::
  "instant \<Rightarrow> id \<Rightarrow> id \<Rightarrow> int \<Rightarrow> item list \<Rightarrow> inv_error + item list" where
  "releaseTx now v l q t =
     (let hit = (\<lambda>r. is_row v l r \<and> q \<le> it_reserved r) in
      if \<not> int4 q
         \<or> list_ex (\<lambda>r. hit r \<and> \<not> (int4 (it_reserved r - q) \<and> int4 (it_available r + q))) t
      then Inl InvDbError
      else if list_ex hit t
           then Inr (update_where hit
                  (\<lambda>r. r\<lparr>it_reserved := it_reserved r - q, it_available := it_available r + q,
                         it_updated := now\<rparr>) t)
      else Inl ErrItemNotFound)"

text \<open>The exported methods run the statement in a transaction of their own when given none.\<close>

definition on_items :: "(item list \<Rightarrow> inv_error + item list) \<Rightarrow> inv_store \<Rightarrow> inv_error + unit \<times> inv_store" where
  "on_items f s = (case f (items s) of Inl e \<Rightarrow> Inl e | Inr t \<Rightarrow> Inr ((), s\<lparr>items := t\<rparr>))"

definition repo_UpsertItem where
  "repo_UpsertItem flt nid now vexists it s = run_tx flt InvDbError (upsertItemTx nid now vexists it) s"

definition repo_AdjustAvailable where
  "repo_AdjustAvailable flt now v l \<delta> s = run_tx flt InvDbError (on_items (adjustAvailableTx now v l \<delta>)) s"

definition repo_Reserve where
  "repo_Reserve flt now v l q s = run_tx flt InvDbError (on_items (reserveTx now v l q)) s"

definition repo_Release where
  "repo_Release flt now v l q s = run_tx flt InvDbError (on_items (releaseTx now v l q)) s"

definition repo_DeleteItem :: "id \<Rightarrow> id \<Rightarrow> inv_store \<Rightarrow> (inv_error + unit) \<times> inv_store" where
  "repo_DeleteItem v l s =
     (if \<not> list_ex (is_row v l) (items s) then (Inl ErrItemNotFound, s)
      else (Inr (), s\<lparr>items := delete_where (is_row v l) (items s)\<rparr>))"

section \<open>Service\<close>

definition CreateLocation ::
  "id \<Rightarrow> create_location_req \<Rightarrow> inv_store \<Rightarrow> (inv_error + location) \<times> inv_store" where
  "CreateLocation nid req s =
     (case CreateLocationRequest_Validate req of
        Inl e \<Rightarrow> (Inl e, s)
      | Inr r \<Rightarrow> repo_CreateLocation nid
          \<lparr>loc_id = 0, loc_name = cl_name r, loc_code = cl_code r,
           loc_active = (case cl_active r of None \<Rightarrow> True | Some b \<Rightarrow> b)\<rparr> s)"

definition UpdateLocation ::
  "id \<Rightarrow> update_location_req \<Rightarrow> inv_store \<Rightarrow> (inv_error + location) \<times> inv_store" where
  "UpdateLocation i req s =
     (case UpdateLocationRequest_Validate req of
        Inl e \<Rightarrow> (Inl e, s)
      | Inr r \<Rightarrow> (case repo_GetLocationByID i s of
          Inl e \<Rightarrow> (Inl e, s)
        | Inr l \<Rightarrow>
            let l1 = (case ul_name r of None \<Rightarrow> l | Some n \<Rightarrow> l\<lparr>loc_name := n\<rparr>);
                l2 = (case ul_active r of None \<Rightarrow> l1 | Some b \<Rightarrow> l1\<lparr>loc_active := b\<rparr>);
                l3 = (case ul_code r of None \<Rightarrow> l2
                      | Some c \<Rightarrow> l2\<lparr>loc_code := if c = [] then None else Some c\<rparr>)
            in (case repo_UpdateLocation l3 s of
                  (Inl e, s') \<Rightarrow> (Inl e, s') | (Inr _, s') \<Rightarrow> (Inr l3, s'))))"

definition DeleteLocation :: "id \<Rightarrow> inv_store \<Rightarrow> (inv_error + unit) \<times> inv_store" where
  "DeleteLocation i s = repo_DeleteLocation i s"

definition UpsertInventoryItem ::
  "tx_fault \<Rightarrow> id \<Rightarrow> instant \<Rightarrow> (id \<Rightarrow> bool) \<Rightarrow> upsert_item_req \<Rightarrow> inv_store
     \<Rightarrow> (inv_error + item) \<times> inv_store" where
  "UpsertInventoryItem flt nid now vexists req s =
     (case UpsertItemRequest_Validate req of
        Inl e \<Rightarrow> (Inl e, s)
      | Inr r \<Rightarrow> (case repo_GetLocationByID (ui_location r) s of
          Inl e \<Rightarrow> (Inl e, s)
        | Inr _ \<Rightarrow> repo_UpsertItem flt nid now vexists
            \<lparr>it_id = 0, it_variant = ui_variant r, it_location = ui_location r,
             it_available = ui_available r, it_reserved = ui_reserved r,
             it_incoming = ui_incoming r, it_updated = 0\<rparr> s))"

definition AdjustAvailableStock ::
  "tx_fault \<Rightarrow> instant \<Rightarrow> id \<Rightarrow> id \<Rightarrow> int \<Rightarrow> inv_store \<Rightarrow> (inv_error + unit) \<times> inv_store" where
  "AdjustAvailableStock flt now v l \<delta> s =
     (case repo_GetItemByVariantAndLocation v l s of
        Inl e \<Rightarrow> (Inl e, s)
      | Inr _ \<Rightarrow> repo_AdjustAvailable flt now v l \<delta> s)"

definition ReserveStock ::
  "tx_fault \<Rightarrow> instant \<Rightarrow> id \<Rightarrow> id \<Rightarrow> int \<Rightarrow> inv_store \<Rightarrow> (inv_error + unit) \<times> inv_store" where
  "ReserveStock flt now v l q s =
     (if q \<le> 0 then (Inl ErrInvalidQuantity, s) else repo_Reserve flt now v l q s)"

definition ReleaseStock ::
  "tx_fault \<Rightarrow> instant \<Rightarrow> id \<Rightarrow> id \<Rightarrow> int \<Rightarrow> inv_store \<Rightarrow> (inv_error + unit) \<times> inv_store" where
  "ReleaseStock flt now v l q s =
     (if q \<le> 0 then (Inl ErrInvalidQuantity, s) else repo_Release flt now v l q s)"

definition DeleteInventoryItem :: "id \<Rightarrow> id \<Rightarrow> inv_store \<Rightarrow> (inv_error + unit) \<times> inv_store" where
  "DeleteInventoryItem v l s = repo_DeleteItem v l s"


section \<open>Request validation\<close>

definition wf_create_location :: "create_location_req \<Rightarrow> bool" where
  "wf_create_location r \<longleftrightarrow>
     trim_space (cl_name r) = cl_name r \<and> cl_name r \<noteq> [] \<and> rune_count (cl_name r) \<le> 150 \<and>
     (\<forall>c. cl_code r = Some c \<longrightarrow> trim_space c = c \<and> rune_count c \<le> 50)"

definition wf_update_location :: "update_location_req \<Rightarrow> bool" where
  "wf_update_location r \<longleftrightarrow>
     (\<forall>n. ul_name r = Some n \<longrightarrow> trim_space n = n \<and> n \<noteq> [] \<and> rune_count n \<le> 150) \<and>
     (\<forall>c. ul_code r = Some c \<longrightarrow> trim_space c = c \<and> rune_count c \<le> 50)"

definition wf_upsert_item :: "upsert_item_req \<Rightarrow> bool" where
  "wf_upsert_item r \<longleftrightarrow> 0 \<le> ui_available r \<and> 0 \<le> ui_reserved r \<and> 0 \<le> ui_incoming r"

interpretation create_location: request_validator CreateLocationRequest_Validate wf_create_location
  by unfold_locales
    (auto simp: CreateLocationRequest_Validate_def wf_create_location_def Let_def
       split: if_splits option.splits)

interpretation update_location: request_validator UpdateLocationRequest_Validate wf_update_location
  by unfold_locales
    (auto simp: UpdateLocationRequest_Validate_def wf_update_location_def Let_def
       option.map_ident_strong split: if_splits option.splits)

interpretation upsert_item: request_validator UpsertItemRequest_Validate wf_upsert_item
  by unfold_locales
    (auto simp: UpsertItemRequest_Validate_def wf_upsert_item_def split: if_splits)

section \<open>The store invariant\<close>

text \<open>
  The keys of the two tables are unique, every item lies at an existing location, and every
  quantity is a natural number that fits its column.
\<close>

definition item_ok :: "item \<Rightarrow> bool" where
  "item_ok r \<longleftrightarrow> 0 \<le> it_available r \<and> 0 \<le> it_reserved r \<and> 0 \<le> it_incoming r \<and>
     int4 (it_available r) \<and> int4 (it_reserved r) \<and> int4 (it_incoming r)"

definition row_key :: "item \<Rightarrow> id \<times> id" where
  "row_key r = (it_variant r, it_location r)"

definition codes_unique :: "location list \<Rightarrow> bool" where
  "codes_unique ls \<longleftrightarrow> (\<forall>a \<in> set ls. \<forall>b \<in> set ls.
     loc_code a = loc_code b \<and> loc_code a \<noteq> None \<longrightarrow> loc_id a = loc_id b)"

definition inv_wf :: "inv_store \<Rightarrow> bool" where
  "inv_wf s \<longleftrightarrow>
     distinct (map loc_id (locations s)) \<and> codes_unique (locations s) \<and>
     distinct (map it_id (items s)) \<and> distinct (map row_key (items s)) \<and>
     (\<forall>r \<in> set (items s). item_ok r \<and> it_location r \<in> loc_id ` set (locations s))"

lemma codes_unique_subset: "codes_unique ls \<Longrightarrow> set ls' \<subseteq> set ls \<Longrightarrow> codes_unique ls'"
  unfolding codes_unique_def by (meson subsetD)

lemma codes_unique_snoc:
  assumes "codes_unique ls" "\<not> code_taken (loc_code l) (\<lambda>_. True) ls"
  shows "codes_unique (ls @ [l])"
  unfolding codes_unique_def
proof (intro ballI impI)
  fix a b
  assume ab: "a \<in> set (ls @ [l])" "b \<in> set (ls @ [l])" "loc_code a = loc_code b \<and> loc_code a \<noteq> None"
  have "loc_code x \<noteq> loc_code l" if "x \<in> set ls" "loc_code l \<noteq> None" for x
    using assms(2) that by (auto simp: code_taken_def list_ex_iff)
  moreover have "a = l \<or> a \<in> set ls" "b = l \<or> b \<in> set ls" using ab by auto
  ultimately show "loc_id a = loc_id b" using assms(1) ab(3) unfolding codes_unique_def by metis
qed

lemma codes_unique_update:
  assumes "codes_unique ls" "\<not> code_taken c (\<lambda>r. loc_id r \<noteq> i) ls"
    and "\<And>r. loc_id (f r) = loc_id r" "\<And>r. loc_code (f r) = c"
  shows "codes_unique (update_where (\<lambda>r. loc_id r = i) f ls)"
proof -
  let ?g = "\<lambda>r. if loc_id r = i then f r else r"
  have "loc_id (?g a) = loc_id (?g b)"
    if "a \<in> set ls" "b \<in> set ls" "loc_code (?g a) = loc_code (?g b)" "loc_code (?g a) \<noteq> None" for a b
  proof -
    have "c \<noteq> None \<Longrightarrow> x \<in> set ls \<Longrightarrow> loc_id x \<noteq> i \<Longrightarrow> loc_code x \<noteq> c" for x
      using assms(2) by (auto simp: code_taken_def list_ex_iff)
    then show ?thesis
      using that assms(1,3,4) unfolding codes_unique_def by (metis (full_types))
  qed
  then show ?thesis unfolding codes_unique_def set_update_where by blast
qed

lemma is_row_key: "is_row v l = (\<lambda>r. row_key r = (v, l))"
  by (auto simp: is_row_def row_key_def)

lemma list_ex_is_row:
  "distinct (map row_key t) \<Longrightarrow>
   list_ex (\<lambda>r. is_row v l r \<and> Q r) t \<longleftrightarrow> (\<exists>r. List.find (is_row v l) t = Some r \<and> Q r)"
  unfolding is_row_key by (rule list_ex_unique_key)

text \<open>A statement on one row that keeps the keys and the row's invariant keeps the store's.\<close>

lemma inv_wf_update_items:
  assumes "inv_wf s"
    and "\<And>r. row_key (f r) = row_key r" "\<And>r. it_id (f r) = it_id r"
    and "\<And>r. r \<in> set (items s) \<Longrightarrow> P r \<Longrightarrow> item_ok r \<Longrightarrow> item_ok (f r)"
  shows "inv_wf (s\<lparr>items := update_where P f (items s)\<rparr>)"
proof -
  have "it_location (f r) = it_location r" for r
    using assms(2) [of r] by (simp add: row_key_def)
  then show ?thesis
    using assms by (auto simp: inv_wf_def map_update_where set_update_where)
qed

text \<open>Each stock statement keeps the row invariant: the guards of its \<open>WHERE\<close> clause are what does it.\<close>

lemma adjustAvailableTx_wf:
  assumes "adjustAvailableTx now v l \<delta> (items s) = Inr t" "inv_wf s"
  shows "inv_wf (s\<lparr>items := t\<rparr>)"
  using assms by (auto simp: adjustAvailableTx_def Let_def list_ex_iff split: if_splits
      intro!: inv_wf_update_items) (auto simp: row_key_def item_ok_def)

lemma reserveTx_wf:
  assumes "reserveTx now v l q (items s) = Inr t" "inv_wf s" "0 < q"
  shows "inv_wf (s\<lparr>items := t\<rparr>)"
  using assms by (auto simp: reserveTx_def Let_def list_ex_iff split: if_splits
      intro!: inv_wf_update_items) (auto simp: row_key_def item_ok_def)

lemma releaseTx_wf:
  assumes "releaseTx now v l q (items s) = Inr t" "inv_wf s" "0 < q"
  shows "inv_wf (s\<lparr>items := t\<rparr>)"
  using assms by (auto simp: releaseTx_def Let_def list_ex_iff split: if_splits
      intro!: inv_wf_update_items) (auto simp: row_key_def item_ok_def)

lemma upsertItemTx_wf:
  assumes "upsertItemTx nid now vx it s = Inr (r, s')" "inv_wf s"
    and "nid \<notin> it_id ` set (items s)"
    and "0 \<le> it_available it" "0 \<le> it_reserved it" "0 \<le> it_incoming it"
  shows "inv_wf s'"
proof (cases "List.find (is_row (it_variant it) (it_location it)) (items s)")
  case None
  then have "row_key it \<notin> row_key ` set (items s)"
    by (auto simp: find_None_iff_all is_row_def row_key_def)
  with None show ?thesis
    using assms by (auto simp: upsertItemTx_def Let_def inv_wf_def item_ok_def row_key_def
        list_ex_iff split: if_splits) (metis imageI)
next
  case (Some old)
  then show ?thesis
    using assms by (auto simp: upsertItemTx_def Let_def split: if_splits
        intro!: inv_wf_update_items) (auto simp: row_key_def item_ok_def)
qed

lemma on_items_ok: "on_items f s = Inr (u, s') \<Longrightarrow> \<exists>t. f (items s) = Inr t \<and> s' = s\<lparr>items := t\<rparr>"
  by (auto simp: on_items_def split: sum.splits)

section \<open>The operations as a state machine\<close>

text \<open>
  A call of the service, with whatever the database chose: the fault of the transaction, the new
  row's id (unused so far), the clock, the foreign key to the variants.
\<close>

inductive inv_step :: "inv_store \<Rightarrow> bool \<Rightarrow> inv_store \<Rightarrow> bool" where
  create_location: "nid \<notin> loc_id ` set (locations s) \<Longrightarrow> CreateLocation nid req s = (r, s')
     \<Longrightarrow> inv_step s (is_ok r) s'"
| update_location: "UpdateLocation i req s = (r, s') \<Longrightarrow> inv_step s (is_ok r) s'"
| delete_location: "DeleteLocation i s = (r, s') \<Longrightarrow> inv_step s (is_ok r) s'"
| upsert: "nid \<notin> it_id ` set (items s) \<Longrightarrow> UpsertInventoryItem flt nid now vx req s = (r, s')
     \<Longrightarrow> inv_step s (is_ok r) s'"
| adjust: "AdjustAvailableStock flt now v l \<delta> s = (r, s') \<Longrightarrow> inv_step s (is_ok r) s'"
| reserve: "ReserveStock flt now v l q s = (r, s') \<Longrightarrow> inv_step s (is_ok r) s'"
| release: "ReleaseStock flt now v l q s = (r, s') \<Longrightarrow> inv_step s (is_ok r) s'"
| delete_item: "DeleteInventoryItem v l s = (r, s') \<Longrightarrow> inv_step s (is_ok r) s'"

inductive inv_reach :: "inv_store \<Rightarrow> bool" where
  empty: "inv_reach \<lparr>locations = [], items = []\<rparr>"
| step: "inv_reach s \<Longrightarrow> inv_step s ok s' \<Longrightarrow> inv_reach s'"

lemma CreateLocation_wf:
  assumes "CreateLocation nid req s = (r, s')" "inv_wf s" "nid \<notin> loc_id ` set (locations s)"
  shows "inv_wf s'"
  using assms codes_unique_snoc
  by (auto simp: CreateLocation_def repo_CreateLocation_def inv_wf_def Let_def
      split: sum.splits if_splits)

lemma repo_UpdateLocation_wf:
  assumes "repo_UpdateLocation l s = (r, s')" "inv_wf s"
  shows "inv_wf s'"
proof -
  let ?f = "\<lambda>r. r\<lparr>loc_name := loc_name l, loc_code := loc_code l, loc_active := loc_active l\<rparr>"
  let ?t = "update_where (\<lambda>r. loc_id r = loc_id l) ?f (locations s)"
  have keys: "map loc_id ?t = map loc_id (locations s)" by (simp add: map_update_where)
  then have "loc_id ` set ?t = loc_id ` set (locations s)" by (metis set_map)
  with keys show ?thesis
    using assms codes_unique_update
    by (auto simp: repo_UpdateLocation_def Let_def inv_wf_def split: if_splits)
qed

lemma UpdateLocation_wf: "UpdateLocation i req s = (r, s') \<Longrightarrow> inv_wf s \<Longrightarrow> inv_wf s'"
  by (auto simp: UpdateLocation_def Let_def split: sum.splits prod.splits
      dest: repo_UpdateLocation_wf)

lemma DeleteLocation_wf: "DeleteLocation i s = (r, s') \<Longrightarrow> inv_wf s \<Longrightarrow> inv_wf s'"
  by (auto simp: DeleteLocation_def repo_DeleteLocation_def inv_wf_def set_delete_where
      distinct_map_delete_where image_iff intro: codes_unique_subset split: if_splits) metis

lemma DeleteInventoryItem_wf: "DeleteInventoryItem v l s = (r, s') \<Longrightarrow> inv_wf s \<Longrightarrow> inv_wf s'"
  by (auto simp: DeleteInventoryItem_def repo_DeleteItem_def inv_wf_def set_delete_where
      distinct_map_delete_where split: if_splits)

lemma UpsertInventoryItem_wf:
  assumes "UpsertInventoryItem flt nid now vx req s = (r, s')" "inv_wf s"
    and "nid \<notin> it_id ` set (items s)"
  shows "inv_wf s'"
  using assms
  by (auto simp: UpsertInventoryItem_def UpsertItemRequest_Validate_def repo_UpsertItem_def
      split: sum.splits if_splits dest!: run_tx_cases intro: upsertItemTx_wf)

lemma stock_ops_wf:
  assumes "inv_wf s"
  shows "AdjustAvailableStock flt now v l \<delta> s = (r, s') \<Longrightarrow> inv_wf s'"
    and "ReserveStock flt now v l q s = (r, s') \<Longrightarrow> inv_wf s'"
    and "ReleaseStock flt now v l q s = (r, s') \<Longrightarrow> inv_wf s'"
  using assms adjustAvailableTx_wf reserveTx_wf releaseTx_wf
  by (auto simp: AdjustAvailableStock_def ReserveStock_def ReleaseStock_def
      repo_AdjustAvailable_def repo_Reserve_def repo_Release_def
      split: sum.splits if_splits dest!: run_tx_cases on_items_ok)

lemma inv_step_wf: "inv_step s ok s' \<Longrightarrow> inv_wf s \<Longrightarrow> inv_wf s'"
  by (induction rule: inv_step.induct)
    (blast intro: CreateLocation_wf UpdateLocation_wf DeleteLocation_wf UpsertInventoryItem_wf
      stock_ops_wf DeleteInventoryItem_wf)+

section \<open>The ledger: what the stock statements promise\<close>

text \<open>
  The abstract view of the table: for a variant and a location, the quantities (available,
  reserved, incoming), or nothing. Each stock statement is a function of the one cell it names.
\<close>

type_synonym cell = "int \<times> int \<times> int"
type_synonym ledger = "id \<Rightarrow> id \<Rightarrow> cell option"

definition quantities :: "item \<Rightarrow> cell" where
  "quantities r = (it_available r, it_reserved r, it_incoming r)"

definition ledger_of :: "item list \<Rightarrow> ledger" where
  "ledger_of t v l = map_option quantities (List.find (is_row v l) t)"

definition put_cell :: "id \<Rightarrow> id \<Rightarrow> cell \<Rightarrow> ledger \<Rightarrow> ledger" where
  "put_cell v l c L = (\<lambda>v' l'. if v' = v \<and> l' = l then Some c else L v' l')"

definition reserve_cell :: "int \<Rightarrow> cell option \<Rightarrow> inv_error + cell" where
  "reserve_cell q c =
     (if \<not> int4 q then Inl InvDbError
      else case c of
        None \<Rightarrow> Inl ErrItemNotFound
      | Some (a, r, i) \<Rightarrow>
          if a < q then Inl ErrInsufficientStock
          else if int4 (a - q) \<and> int4 (r + q) then Inr (a - q, r + q, i) else Inl InvDbError)"

definition release_cell :: "int \<Rightarrow> cell option \<Rightarrow> inv_error + cell" where
  "release_cell q c =
     (if \<not> int4 q then Inl InvDbError
      else case c of
        None \<Rightarrow> Inl ErrItemNotFound
      | Some (a, r, i) \<Rightarrow>
          if r < q then Inl ErrItemNotFound
          else if int4 (r - q) \<and> int4 (a + q) then Inr (a + q, r - q, i) else Inl InvDbError)"

definition adjust_cell :: "int \<Rightarrow> cell option \<Rightarrow> inv_error + cell" where
  "adjust_cell \<delta> c =
     (if \<not> int4 \<delta> then Inl InvDbError
      else case c of
        None \<Rightarrow> Inl ErrItemNotFound
      | Some (a, r, i) \<Rightarrow>
          if \<not> int4 (a + \<delta>) then Inl InvDbError
          else if a + \<delta> < 0 then Inl ErrInsufficientStock else Inr (a + \<delta>, r, i))"

text \<open>What a statement that maps a table to a table does when it implements a cell function.\<close>

definition implements_cell ::
  "(item list \<Rightarrow> inv_error + item list) \<Rightarrow> id \<Rightarrow> id \<Rightarrow> (cell option \<Rightarrow> inv_error + cell)
     \<Rightarrow> item list \<Rightarrow> bool" where
  "implements_cell f v l g t \<longleftrightarrow>
     (case g (ledger_of t v l) of
        Inl e \<Rightarrow> f t = Inl e
      | Inr c \<Rightarrow> \<exists>t'. f t = Inr t' \<and> ledger_of t' = put_cell v l c (ledger_of t))"

lemma ledger_of_update:
  assumes "\<And>r. row_key (f r) = row_key r" "\<And>r. P r \<Longrightarrow> is_row v l r"
    and "List.find (is_row v l) t = Some r" "P r" "quantities (f r) = c"
  shows "ledger_of (update_where P f t) = put_cell v l c (ledger_of t)"
proof (intro ext)
  fix v' l'
  have find: "List.find (is_row v' l') (update_where P f t)
      = map_option (\<lambda>r. if P r then f r else r) (List.find (is_row v' l') t)"
    using assms(1) by (intro find_update_where) (simp add: is_row_key)
  show "ledger_of (update_where P f t) v' l' = put_cell v l c (ledger_of t) v' l'"
  proof (cases "v' = v \<and> l' = l")
    case True
    then show ?thesis using assms(3-5) find by (simp add: ledger_of_def put_cell_def)
  next
    case False
    have "\<not> P x" if "List.find (is_row v' l') t = Some x" for x
      using find_Some_iff_mem [OF that] assms(2) [of x] False by (auto simp: is_row_def)
    then show ?thesis using False find
      by (cases "List.find (is_row v' l') t") (auto simp: ledger_of_def put_cell_def)
  qed
qed

lemma reserveTx_implements:
  assumes "distinct (map row_key t)"
  shows "implements_cell (reserveTx now v l q) v l (reserve_cell q) t"
proof (cases "List.find (is_row v l) t")
  case None
  then have "\<forall>r \<in> set t. \<not> is_row v l r" by (simp add: find_None_iff_all)
  with None show ?thesis
    by (auto simp: implements_cell_def reserve_cell_def ledger_of_def reserveTx_def Let_def list_ex_iff)
next
  case (Some r)
  let ?P = "\<lambda>r. is_row v l r \<and> q \<le> it_available r"
  let ?f = "\<lambda>r. r\<lparr>it_available := it_available r - q, it_reserved := it_reserved r + q,
                   it_updated := now\<rparr>"
  have mem: "list_ex (is_row v l) t" "is_row v l r"
    using find_Some_iff_mem [OF Some] by (auto simp: list_ex_iff)
  have "ledger_of (update_where ?P ?f t)
      = put_cell v l (it_available r - q, it_reserved r + q, it_incoming r) (ledger_of t)"
    if "q \<le> it_available r"
    using that Some mem by (intro ledger_of_update [where r = r]) (auto simp: row_key_def quantities_def)
  then show ?thesis using Some mem list_ex_is_row [OF assms]
    by (auto simp: implements_cell_def reserve_cell_def ledger_of_def reserveTx_def Let_def
        quantities_def conj_assoc)
qed

lemma releaseTx_implements:
  assumes "distinct (map row_key t)"
  shows "implements_cell (releaseTx now v l q) v l (release_cell q) t"
proof (cases "List.find (is_row v l) t")
  case None
  then have "\<forall>r \<in> set t. \<not> is_row v l r" by (simp add: find_None_iff_all)
  with None show ?thesis
    by (auto simp: implements_cell_def release_cell_def ledger_of_def releaseTx_def Let_def list_ex_iff)
next
  case (Some r)
  let ?P = "\<lambda>r. is_row v l r \<and> q \<le> it_reserved r"
  let ?f = "\<lambda>r. r\<lparr>it_reserved := it_reserved r - q, it_available := it_available r + q,
                   it_updated := now\<rparr>"
  have mem: "list_ex (is_row v l) t" "is_row v l r"
    using find_Some_iff_mem [OF Some] by (auto simp: list_ex_iff)
  have "ledger_of (update_where ?P ?f t)
      = put_cell v l (it_available r + q, it_reserved r - q, it_incoming r) (ledger_of t)"
    if "q \<le> it_reserved r"
    using that Some mem by (intro ledger_of_update [where r = r]) (auto simp: row_key_def quantities_def)
  then show ?thesis using Some mem list_ex_is_row [OF assms]
    by (auto simp: implements_cell_def release_cell_def ledger_of_def releaseTx_def Let_def
        quantities_def conj_assoc)
qed

lemma adjustAvailableTx_implements:
  assumes "distinct (map row_key t)"
  shows "implements_cell (adjustAvailableTx now v l \<delta>) v l (adjust_cell \<delta>) t"
proof (cases "List.find (is_row v l) t")
  case None
  then have "\<forall>r \<in> set t. \<not> is_row v l r" by (simp add: find_None_iff_all)
  with None show ?thesis
    by (auto simp: implements_cell_def adjust_cell_def ledger_of_def adjustAvailableTx_def Let_def list_ex_iff)
next
  case (Some r)
  let ?P = "\<lambda>r. is_row v l r \<and> 0 \<le> it_available r + \<delta>"
  let ?f = "\<lambda>r. r\<lparr>it_available := it_available r + \<delta>, it_updated := now\<rparr>"
  have mem: "list_ex (is_row v l) t" "is_row v l r"
    using find_Some_iff_mem [OF Some] by (auto simp: list_ex_iff)
  have "ledger_of (update_where ?P ?f t)
      = put_cell v l (it_available r + \<delta>, it_reserved r, it_incoming r) (ledger_of t)"
    if "0 \<le> it_available r + \<delta>"
    using that Some mem by (intro ledger_of_update [where r = r]) (auto simp: row_key_def quantities_def)
  then show ?thesis using Some mem list_ex_is_row [OF assms]
    by (auto simp: implements_cell_def adjust_cell_def ledger_of_def adjustAvailableTx_def Let_def
        quantities_def)
qed

text \<open>
  The contract the order service relies on: reserving keeps the table well formed, moves the
  quantity from available to reserved in the one cell, and never takes more than is there.
\<close>

definition demand :: "id \<Rightarrow> id \<Rightarrow> (id \<times> id \<times> int) list \<Rightarrow> int" where
  "demand v l rs = sum_list (map (\<lambda>(v', l', q). if v' = v \<and> l' = l then q else 0) rs)"

lemma demand_simps [simp]:
  "demand v l [] = 0"
  "demand v l ((v', l', q) # rs) = (if v' = v \<and> l' = l then q else 0) + demand v l rs"
  by (simp_all add: demand_def)

lemma demand_nonneg: "\<forall>(v', l', q) \<in> set rs. 0 < q \<Longrightarrow> 0 \<le> demand v l rs"
  by (induction rs) auto

text \<open>\<open>drained d c c'\<close>: the cell \<open>c\<close> gave up \<open>d\<close>, no more than it had, and became \<open>c'\<close>.\<close>

definition drained :: "int \<Rightarrow> cell option \<Rightarrow> cell option \<Rightarrow> bool" where
  "drained d c c' \<longleftrightarrow>
     (case c of
        None \<Rightarrow> d = 0 \<and> c' = None
      | Some (a, r, i) \<Rightarrow> (d \<noteq> 0 \<longrightarrow> d \<le> a) \<and> c' = Some (a - d, r + d, i))"

lemma drained_refl: "drained 0 c c"
  by (auto simp: drained_def split: option.splits)

lemma drained_step:
  "q \<le> a \<Longrightarrow> drained d (Some (a - q, r + q, i)) c' \<Longrightarrow> drained (q + d) (Some (a, r, i)) c'"
  by (auto simp: drained_def)

locale stock_ledger =
  fixes ok :: "'t \<Rightarrow> bool"
    and cells :: "'t \<Rightarrow> ledger"
    and reserve :: "id \<Rightarrow> id \<Rightarrow> int \<Rightarrow> 't \<Rightarrow> 'e + 't"
  assumes reserve_ok: "ok t \<Longrightarrow> 0 < q \<Longrightarrow> reserve v l q t = Inr t' \<Longrightarrow> ok t'"
    and reserve_moves: "ok t \<Longrightarrow> 0 < q \<Longrightarrow> reserve v l q t = Inr t' \<Longrightarrow>
      \<exists>a r i. cells t v l = Some (a, r, i) \<and> q \<le> a \<and>
        cells t' = put_cell v l (a - q, r + q, i) (cells t)"
begin

lemma reserve_many:
  assumes "try_all (\<lambda>(v, l, q). reserve v l q) rs t = Inr t'"
    and "ok t" "\<forall>(v, l, q) \<in> set rs. 0 < q"
  shows "ok t' \<and> drained (demand v l rs) (cells t v l) (cells t' v l)"
  using assms
proof (induction rs arbitrary: t)
  case Nil
  then show ?case by (simp add: drained_refl)
next
  case (Cons x rs)
  obtain v0 l0 q0 where x: "x = (v0, l0, q0)" by (cases x)
  from Cons.prems x obtain t1 where t1: "reserve v0 l0 q0 t = Inr t1"
    "try_all (\<lambda>(v, l, q). reserve v l q) rs t1 = Inr t'" and q0: "0 < q0"
    by (auto split: sum.splits)
  obtain a r i where c: "cells t v0 l0 = Some (a, r, i)" "q0 \<le> a"
    "cells t1 = put_cell v0 l0 (a - q0, r + q0, i) (cells t)"
    using reserve_moves [OF Cons.prems(2) q0 t1(1)] by blast
  have "ok t' \<and> drained (demand v l rs) (cells t1 v l) (cells t' v l)"
    using Cons.IH [OF t1(2)] reserve_ok [OF Cons.prems(2) q0 t1(1)] Cons.prems(3) by auto
  then show ?case
    using c x by (cases "v = v0 \<and> l = l0") (auto simp: put_cell_def intro: drained_step)
qed

end

definition stock_ok :: "item list \<Rightarrow> bool" where
  "stock_ok t \<longleftrightarrow> distinct (map row_key t) \<and> (\<forall>r \<in> set t. item_ok r)"

lemma stock_ok_update:
  assumes "stock_ok t" "\<And>r. row_key (f r) = row_key r"
    and "\<And>r. r \<in> set t \<Longrightarrow> P r \<Longrightarrow> item_ok r \<Longrightarrow> item_ok (f r)"
  shows "stock_ok (update_where P f t)"
  using assms by (auto simp: stock_ok_def map_update_where set_update_where)

lemma reserveTx_moves:
  assumes "distinct (map row_key t)" "reserveTx now v l q t = Inr t'"
  shows "\<exists>a r i. ledger_of t v l = Some (a, r, i) \<and> q \<le> a \<and>
    ledger_of t' = put_cell v l (a - q, r + q, i) (ledger_of t)"
  using reserveTx_implements [OF assms(1), of now v l q] assms(2)
  by (cases "ledger_of t v l")
    (auto simp: implements_cell_def reserve_cell_def split: if_splits)

interpretation stock: stock_ledger stock_ok ledger_of "reserveTx now" for now
proof unfold_locales
  fix t v l q t'
  assume *: "stock_ok t" "0 < q" "reserveTx now v l q t = Inr t'"
  show "stock_ok t'"
    using * by (auto simp: reserveTx_def Let_def list_ex_iff split: if_splits
        intro!: stock_ok_update) (auto simp: row_key_def item_ok_def)
  show "\<exists>a r i. ledger_of t v l = Some (a, r, i) \<and> q \<le> a \<and>
      ledger_of t' = put_cell v l (a - q, r + q, i) (ledger_of t)"
    using * reserveTx_moves by (simp add: stock_ok_def)
qed

section \<open>Service calls on the ledger\<close>

text \<open>A fault-free service call that implements a cell function on the one row it names.\<close>

definition call_refines ::
  "(inv_store \<Rightarrow> (inv_error + unit) \<times> inv_store) \<Rightarrow> id \<Rightarrow> id \<Rightarrow> (cell option \<Rightarrow> inv_error + cell)
     \<Rightarrow> inv_store \<Rightarrow> bool" where
  "call_refines call v l g s \<longleftrightarrow>
     (case g (ledger_of (items s) v l) of
        Inl e \<Rightarrow> call s = (Inl e, s)
      | Inr c \<Rightarrow> \<exists>s'. call s = (Inr (), s') \<and> locations s' = locations s \<and>
          ledger_of (items s') = put_cell v l c (ledger_of (items s)))"

lemma call_refines_tx:
  assumes "implements_cell f v l g (items s)"
  shows "call_refines (run_tx NoFault InvDbError (on_items f)) v l g s"
  using assms by (auto simp: call_refines_def implements_cell_def run_tx_def on_items_def
      split: sum.splits)

lemma call_refines_eq:
  assumes "call_refines call v l g s" "call' s = call s"
    and "g' (ledger_of (items s) v l) = g (ledger_of (items s) v l)"
  shows "call_refines call' v l g' s"
  using assms by (auto simp: call_refines_def split: sum.splits)

lemma ledger_of_None_iff: "ledger_of (items s) v l = None \<longleftrightarrow> scanItem (is_row v l) s = Inl ErrItemNotFound"
  by (auto simp: ledger_of_def scanItem_def split: option.splits)

lemma scanItem_cases: "scanItem P s = Inl e \<Longrightarrow> e = ErrItemNotFound"
  by (auto simp: scanItem_def split: option.splits)

lemma AdjustAvailableStock_refines:
  assumes "distinct (map row_key (items s))"
  shows "call_refines (AdjustAvailableStock NoFault now v l \<delta>) v l
     (\<lambda>c. if c = None then Inl ErrItemNotFound else adjust_cell \<delta> c) s"
proof (cases "ledger_of (items s) v l")
  case None
  then show ?thesis
    by (simp add: call_refines_def AdjustAvailableStock_def
        repo_GetItemByVariantAndLocation_def ledger_of_None_iff)
next
  case (Some c)
  then obtain r where "scanItem (is_row v l) s = Inr r"
    using ledger_of_None_iff [of s v l] scanItem_cases by (cases "scanItem (is_row v l) s") force+
  then have "AdjustAvailableStock NoFault now v l \<delta> s
      = run_tx NoFault InvDbError (on_items (adjustAvailableTx now v l \<delta>)) s"
    by (simp add: AdjustAvailableStock_def repo_GetItemByVariantAndLocation_def
        repo_AdjustAvailable_def)
  with Some show ?thesis
    by (intro call_refines_eq [OF call_refines_tx [OF adjustAvailableTx_implements [OF assms]]]) auto
qed

lemma ReserveStock_refines:
  assumes "distinct (map row_key (items s))"
  shows "call_refines (ReserveStock NoFault now v l q) v l
     (\<lambda>c. if q \<le> 0 then Inl ErrInvalidQuantity else reserve_cell q c) s"
proof (cases "q \<le> 0")
  case True
  then show ?thesis by (simp add: call_refines_def ReserveStock_def)
next
  case False
  then show ?thesis
    by (intro call_refines_eq [OF call_refines_tx [OF reserveTx_implements [OF assms]]])
      (auto simp: ReserveStock_def repo_Reserve_def)
qed

lemma ReleaseStock_refines:
  assumes "distinct (map row_key (items s))"
  shows "call_refines (ReleaseStock NoFault now v l q) v l
     (\<lambda>c. if q \<le> 0 then Inl ErrInvalidQuantity else release_cell q c) s"
proof (cases "q \<le> 0")
  case True
  then show ?thesis by (simp add: call_refines_def ReleaseStock_def)
next
  case False
  then show ?thesis
    by (intro call_refines_eq [OF call_refines_tx [OF releaseTx_implements [OF assms]]])
      (auto simp: ReleaseStock_def repo_Release_def)
qed

section \<open>Totals\<close>

lemma sum_list_update_where:
  "(\<And>r. r \<in> set t \<Longrightarrow> g (f r) = (g r :: int)) \<Longrightarrow> (\<And>r. K (f r) = K r) \<Longrightarrow>
   sum_list (map g (filter K (update_where P f t))) = sum_list (map g (filter K t))"
  by (induction t) (auto simp: update_where_def)

definition in_stock :: "id \<Rightarrow> inv_store \<Rightarrow> int \<times> int" where
  "in_stock v s = (let m = repo_GetStockSummary v s in
     (ss_available m + ss_reserved m, ss_incoming m))"

lemma in_stock_alt:
  "in_stock v s =
     (sum_list (map (\<lambda>r. it_available r + it_reserved r) (filter (\<lambda>r. it_variant r = v) (items s))),
      sum_list (map it_incoming (filter (\<lambda>r. it_variant r = v) (items s))))"
  by (simp add: in_stock_def repo_GetStockSummary_def Let_def sum_list_addf)

lemma reserveTx_totals:
  "reserveTx now v l q (items s) = Inr t \<Longrightarrow> in_stock w (s\<lparr>items := t\<rparr>) = in_stock w s"
  by (auto simp: in_stock_alt reserveTx_def Let_def sum_list_update_where split: if_splits)

lemma releaseTx_totals:
  "releaseTx now v l q (items s) = Inr t \<Longrightarrow> in_stock w (s\<lparr>items := t\<rparr>) = in_stock w s"
  by (auto simp: in_stock_alt releaseTx_def Let_def sum_list_update_where split: if_splits)

section \<open>Properties\<close>

lemma inv_step_failure:
  "inv_step s ok s' \<Longrightarrow> \<not> ok \<Longrightarrow> s' = s"
proof (induction rule: inv_step.induct)
  case (create_location nid s req r s')
  then show ?case
    by (auto simp: CreateLocation_def repo_CreateLocation_def Let_def split: sum.splits if_splits)
next
  case (update_location i req s r s')
  then show ?case
    by (auto simp: UpdateLocation_def repo_UpdateLocation_def Let_def
        split: sum.splits if_splits prod.splits)
next
  case (delete_location i s r s')
  then show ?case by (auto simp: DeleteLocation_def repo_DeleteLocation_def split: if_splits)
next
  case (upsert nid s flt now vx req r s')
  then show ?case
    by (cases r) (auto simp: UpsertInventoryItem_def repo_UpsertItem_def
        split: sum.splits dest: run_tx_error)
next
  case (adjust flt now v l \<delta> s r s')
  then show ?case
    by (cases r) (auto simp: AdjustAvailableStock_def repo_AdjustAvailable_def
        split: sum.splits dest: run_tx_error)
next
  case (reserve flt now v l q s r s')
  then show ?case
    by (cases r) (auto simp: ReserveStock_def repo_Reserve_def split: if_splits dest: run_tx_error)
next
  case (release flt now v l q s r s')
  then show ?case
    by (cases r) (auto simp: ReleaseStock_def repo_Release_def split: if_splits dest: run_tx_error)
next
  case (delete_item v l s r s')
  then show ?case by (auto simp: DeleteInventoryItem_def repo_DeleteItem_def split: if_splits)
qed

definition sample_store :: inv_store where
  "sample_store =
     \<lparr>locations = [\<lparr>loc_id = 1, loc_name = ''Main'', loc_code = Some ''M1'', loc_active = True\<rparr>],
      items = [\<lparr>it_id = 7, it_variant = 3, it_location = 1, it_available = 10, it_reserved = 0,
                it_incoming = 5, it_updated = 0\<rparr>]\<rparr>"

lemma sample_reach: "inv_reach sample_store"
proof -
  let ?s0 = "\<lparr>locations = [], items = []\<rparr> :: inv_store"
  let ?s1 = "\<lparr>locations = locations sample_store, items = []\<rparr>"
  have "CreateLocation 1 \<lparr>cl_name = ''Main '', cl_code = Some '' M1'', cl_active = None\<rparr> ?s0
      = (Inr (hd (locations sample_store)), ?s1)"
    by code_simp
  then have "inv_step ?s0 True ?s1"
    using inv_step.create_location [of 1 ?s0] by fastforce
  moreover have "UpsertInventoryItem NoFault 7 0 (\<lambda>v. v = 3)
      \<lparr>ui_variant = 3, ui_location = 1, ui_available = 10, ui_reserved = 0, ui_incoming = 5\<rparr> ?s1
      = (Inr (hd (items sample_store)), sample_store)"
    by code_simp
  then have "inv_step ?s1 True sample_store"
    using inv_step.upsert [of 7 ?s1] by fastforce
  ultimately show ?thesis using inv_reach.intros by blast
qed

lemma ledger_of_ok:
  assumes "inv_wf s" "ledger_of (items s) v l = Some (a, r, i)"
  shows "0 \<le> a \<and> 0 \<le> r \<and> 0 \<le> i \<and> int4 a \<and> int4 r \<and> int4 i"
  using assms by (auto simp: ledger_of_def quantities_def inv_wf_def item_ok_def
      dest!: find_Some_iff_mem)

lemma inv_wf_row_keys: "inv_wf s \<Longrightarrow> distinct (map row_key (items s))"
  by (simp add: inv_wf_def)

lemma inv_reach_wf: "inv_reach s \<Longrightarrow> inv_wf s"
proof (induction rule: inv_reach.induct)
  case empty
  show ?case by (simp add: inv_wf_def codes_unique_def)
qed (rule inv_step_wf)

lemma put_cell_same [simp]: "L v l = Some c \<Longrightarrow> put_cell v l c L = L"
  by (intro ext) (simp add: put_cell_def)

lemma put_cell_twice [simp]: "put_cell v l c (put_cell v l d L) = put_cell v l c L"
  by (intro ext) (simp add: put_cell_def)

lemma put_cell_at [simp]: "put_cell v l c L v l = Some c"
  by (simp add: put_cell_def)

text \<open>C1. In every store the service can reach, row keys are unique, every item lies at an existing
  location and no quantity (available, reserved, incoming) is negative or out of its column's range,
  whatever the calls, their order, their errors and the database's faults.\<close>

theorem inventory_invariant:
  assumes "inv_reach s"
  shows "inv_wf s"
  using assms by (rule inv_reach_wf)

theorem inventory_invariant_witness: "inv_wf sample_store \<and> items sample_store \<noteq> []"
  using inventory_invariant [OF sample_reach] by (simp add: sample_store_def)

text \<open>C2. Reserve, release and adjust are functions of the one cell (variant, location) they name:
  with no database fault, each returns the error its cell function gives and leaves the store as it
  is, or puts the new cell and touches nothing else.\<close>

theorem stock_calls_refine_ledger:
  assumes "inv_reach s"
  shows "call_refines (ReserveStock NoFault now v l q) v l
           (\<lambda>c. if q \<le> 0 then Inl ErrInvalidQuantity else reserve_cell q c) s
    \<and> call_refines (ReleaseStock NoFault now v l q) v l
           (\<lambda>c. if q \<le> 0 then Inl ErrInvalidQuantity else release_cell q c) s
    \<and> call_refines (AdjustAvailableStock NoFault now v l q) v l
           (\<lambda>c. if c = None then Inl ErrItemNotFound else adjust_cell q c) s"
  using inv_wf_row_keys [OF inv_reach_wf [OF assms]]
  by (simp add: ReserveStock_refines ReleaseStock_refines AdjustAvailableStock_refines)

theorem stock_calls_refine_ledger_witness:
  "call_refines (ReserveStock NoFault 9 3 1 4) 3 1
     (\<lambda>c. if (4::int) \<le> 0 then Inl ErrInvalidQuantity else reserve_cell 4 c) sample_store"
  using stock_calls_refine_ledger [OF sample_reach, of 9 3 1 4] by (rule conjunct1)

text \<open>C3. Reserving and releasing only move units: whatever their outcome and the transaction's
  fault, available plus reserved and incoming of every variant, as the stock summary reports them,
  stay the same.\<close>

theorem stock_conserved:
  assumes "ReserveStock flt now v l q s = (r, s') \<or> ReleaseStock flt now v l q s = (r, s')"
  shows "in_stock w s' = in_stock w s"
  using assms reserveTx_totals releaseTx_totals
  by (auto simp: ReserveStock_def ReleaseStock_def repo_Reserve_def repo_Release_def
      split: if_splits dest!: run_tx_cases on_items_ok)

theorem stock_conserved_witness:
  "in_stock 3 (snd (ReserveStock NoFault 9 3 1 4 sample_store)) = in_stock 3 sample_store"
  using stock_conserved [of NoFault 9 3 1 4 sample_store "Inr ()"
      "snd (ReserveStock NoFault 9 3 1 4 sample_store)" 3]
  by (simp add: ReserveStock_def repo_Reserve_def run_tx_def on_items_def reserveTx_def
      sample_store_def is_row_def int4_def Let_def)

text \<open>C4. Releasing what was just reserved always succeeds and restores every cell.\<close>

theorem reserve_release_roundtrip:
  assumes "inv_reach s"
    and "ReserveStock NoFault now v l q s = (Inr (), s1)"
    and "ReleaseStock NoFault now' v l q s1 = (r, s2)"
  shows "r = Inr () \<and> locations s2 = locations s \<and> ledger_of (items s2) = ledger_of (items s)"
proof -
  note wf = inv_reach_wf [OF assms(1)]
  have q: "\<not> q \<le> 0" using assms(2) by (auto simp: ReserveStock_def)
  obtain a b i where c: "ledger_of (items s) v l = Some (a, b, i)" "q \<le> a" "int4 q"
    and s1: "locations s1 = locations s"
      "ledger_of (items s1) = put_cell v l (a - q, b + q, i) (ledger_of (items s))"
    using ReserveStock_refines [OF inv_wf_row_keys [OF wf], of now v l q] assms(2) q
    by (cases "ledger_of (items s) v l")
      (auto simp: call_refines_def reserve_cell_def split: if_splits)
  have "release_cell q (ledger_of (items s1) v l) = Inr (a, b, i)"
    using c s1 ledger_of_ok [OF wf c(1)] by (simp add: release_cell_def)
  moreover have "inv_wf s1" using stock_ops_wf(2) [OF wf assms(2)] .
  ultimately show ?thesis
    using ReleaseStock_refines [OF inv_wf_row_keys, of s1 now' v l q] assms(3) q c s1
    by (auto simp: call_refines_def)
qed

theorem reserve_release_roundtrip_witness:
  "\<exists>s1 s2. ReserveStock NoFault 9 3 1 4 sample_store = (Inr (), s1)
     \<and> ReleaseStock NoFault 10 3 1 4 s1 = (Inr (), s2)
     \<and> ledger_of (items s2) = ledger_of (items sample_store)"
proof -
  obtain s1 where s1: "ReserveStock NoFault 9 3 1 4 sample_store = (Inr (), s1)"
    by (simp add: ReserveStock_def repo_Reserve_def run_tx_def on_items_def reserveTx_def
        sample_store_def is_row_def int4_def Let_def)
  obtain r s2 where s2: "ReleaseStock NoFault 10 3 1 4 s1 = (r, s2)" by fastforce
  show ?thesis
    using s1 s2 reserve_release_roundtrip [OF sample_reach s1 s2] by blast
qed

text \<open>A call that returns an error leaves the whole store as it was: validation errors, missing
  rows, conflicts, insufficient stock, failures to begin or to commit.\<close>

theorem inventory_error_changes_nothing:
  assumes "inv_step s False s'"
  shows "s' = s"
  using assms inv_step_failure by blast

theorem inventory_error_changes_nothing_witness:
  "snd (ReserveStock NoFault 9 3 1 400 sample_store) = sample_store"
proof -
  have "ReserveStock NoFault 9 3 1 400 sample_store = (Inl ErrInsufficientStock,
      snd (ReserveStock NoFault 9 3 1 400 sample_store))"
    by (simp add: ReserveStock_def repo_Reserve_def run_tx_def on_items_def reserveTx_def
        sample_store_def is_row_def int4_def Let_def)
  then have "inv_step sample_store False (snd (ReserveStock NoFault 9 3 1 400 sample_store))"
    using inv_step.reserve by fastforce
  then show ?thesis by (rule inventory_error_changes_nothing)
qed

text \<open>A location created with a blank code stores the empty string, which the unique constraint
  counts, where an update stores NULL, which it does not: a second location with a blank code is
  refused.\<close>

theorem blank_location_code_conflicts:
  assumes "CreateLocation n1 \<lparr>cl_name = a, cl_code = Some c, cl_active = x\<rparr> s = (Inr l, s1)"
    and "trim_space c = []" and "trim_space d = []"
    and "trim_space b \<noteq> []" and "rune_count (trim_space b) \<le> 150"
  shows "CreateLocation n2 \<lparr>cl_name = b, cl_code = Some d, cl_active = y\<rparr> s1
       = (Inl ErrLocationCodeConflict, s1)"
  using assms by (auto simp: CreateLocation_def CreateLocationRequest_Validate_def
      repo_CreateLocation_def code_taken_def list_ex_iff Let_def split: if_splits)

theorem blank_location_code_conflicts_witness:
  "\<exists>s1. CreateLocation 2 \<lparr>cl_name = ''B'', cl_code = Some '' '', cl_active = None\<rparr> s1
       = (Inl ErrLocationCodeConflict, s1)"
proof -
  let ?r = "CreateLocation 1 \<lparr>cl_name = ''A'', cl_code = Some [], cl_active = None\<rparr>
      \<lparr>locations = [], items = []\<rparr>"
  have "?r = (Inr (hd (locations (snd ?r))), snd ?r)" by code_simp
  moreover have "trim_space '' '' = []" "trim_space ''B'' \<noteq> []" "rune_count (trim_space ''B'') \<le> 150"
    by code_simp+
  ultimately show ?thesis
    using blank_location_code_conflicts [of 1 "''A''" "[]" None "\<lparr>locations = [], items = []\<rparr>"]
    by fastforce
qed

end
