(* ===== verification/Float64.thy ===== *)
theory Float64
  imports Prelude "HOL-Library.Log_Nat"
begin

text \<open>
  Go's \<open>float64\<close>. A finite binary64 number is the rational it denotes; an operation is the exact
  operation followed by rounding to nearest, ties to even, with 53 significant bits and the
  smallest exponent \<open>-1074\<close> (so subnormal numbers are rounded as the hardware does). The exponent
  is not bounded above: overflow to an infinity, NaN and the sign of zero are outside the model.
  The amounts of the program are \<open>DECIMAL(12,2)\<close> columns, far below the overflow threshold.
\<close>

type_synonym f64 = rat

text \<open>The exponent of the binade of a positive number: \<open>2 powi ilog2 x \<le> x < 2 powi (ilog2 x + 1)\<close>.\<close>

definition ilog2 :: "rat \<Rightarrow> int" where
  "ilog2 x = (let (p, q) = quotient_of x; k = bitlen p - bitlen q
              in if 2 powi k \<le> x then k else k - 1)"

definition round_even :: "rat \<Rightarrow> int" where
  "round_even x = (let f = \<lfloor>x\<rfloor>; d = x - of_int f
                   in if d < 1 / 2 then f else if 1 / 2 < d then f + 1
                      else if even f then f else f + 1)"

definition ulp_exp :: "rat \<Rightarrow> int" where
  "ulp_exp x = max (- 1074) (ilog2 \<bar>x\<bar> - 52)"

definition rnd :: "rat \<Rightarrow> f64" where
  "rnd x = (if x = 0 then 0
            else of_int (round_even (x / 2 powi ulp_exp x)) * 2 powi ulp_exp x)"

definition fadd :: "f64 \<Rightarrow> f64 \<Rightarrow> f64" where "fadd a b = rnd (a + b)"
definition fsub :: "f64 \<Rightarrow> f64 \<Rightarrow> f64" where "fsub a b = rnd (a - b)"
definition fmul :: "f64 \<Rightarrow> f64 \<Rightarrow> f64" where "fmul a b = rnd (a * b)"
definition fdiv :: "f64 \<Rightarrow> f64 \<Rightarrow> f64" where "fdiv a b = rnd (a / b)"

text \<open>\<open>float64(n)\<close> of an integer and \<open>int64(x)\<close>, which truncates towards zero.\<close>

definition of_i64 :: "int \<Rightarrow> f64" where "of_i64 n = rnd (of_int n)"

definition to_i64 :: "f64 \<Rightarrow> int" where
  "to_i64 x = (if 0 \<le> x then \<lfloor>x\<rfloor> else - \<lfloor>- x\<rfloor>)"

definition representable :: "rat \<Rightarrow> bool" where
  "representable x \<longleftrightarrow> rnd x = x"

section \<open>Rounding to an integer\<close>

lemma round_even_of_int [simp]: "round_even (of_int n) = n"
  by (simp add: round_even_def)

lemma round_even_near: "\<bar>of_int (round_even x) - x\<bar> \<le> 1 / 2"
  unfolding round_even_def Let_def using floor_correct [of x] by (auto simp: abs_le_iff)

lemma round_even_mono: "x \<le> y \<Longrightarrow> round_even x \<le> round_even y"
proof -
  assume le: "x \<le> y"
  show ?thesis
  proof (cases "\<lfloor>x\<rfloor> = \<lfloor>y\<rfloor>")
    case True
    with le show ?thesis by (auto simp: round_even_def Let_def)
  next
    case False
    with floor_mono [OF le] have "\<lfloor>x\<rfloor> + 1 \<le> \<lfloor>y\<rfloor>" by linarith
    then show ?thesis by (auto simp: round_even_def Let_def)
  qed
qed

lemma round_even_ge: "of_int n \<le> x \<Longrightarrow> n \<le> round_even x"
  using round_even_mono [of "of_int n" x] by simp

lemma round_even_le: "x \<le> of_int n \<Longrightarrow> round_even x \<le> n"
  using round_even_mono [of x "of_int n"] by simp

lemma round_even_minus: "round_even (- x) = - round_even x"
proof (cases "x \<in> \<int>")
  case True
  then obtain n where "x = of_int n" by (auto elim: Ints_cases)
  then show ?thesis by (simp flip: of_int_minus)
next
  case False
  then have "x \<noteq> of_int \<lfloor>x\<rfloor>" by (metis Ints_of_int)
  then have "\<lfloor>- x\<rfloor> = - \<lfloor>x\<rfloor> - 1"
    using ceiling_altdef [of x] by (simp add: ceiling_def)
  then show ?thesis by (auto simp: round_even_def Let_def)
qed

section \<open>Binades\<close>

lemma powi_pos [simp]: "(0::rat) < 2 powi a"
  by (simp add: zero_less_power_int)

lemma powi_nonzero [simp]: "(2::rat) powi a \<noteq> 0"
  by (simp add: power_int_not_zero)

lemma powi_less_iff: "(2::rat) powi a < 2 powi b \<longleftrightarrow> a < b"
  by (metis linorder_less_linear not_less_iff_gr_or_eq numeral_less_iff one_less_numeral_iff
      power_int_strict_increasing semiring_norm(76))

lemma powi_le_iff: "(2::rat) powi a \<le> 2 powi b \<longleftrightarrow> a \<le> b"
  by (meson linorder_not_less powi_less_iff)

lemma powi_diff_int: "b \<le> a \<Longrightarrow> (2::rat) powi a = of_int (2 ^ nat (a - b)) * 2 powi b"
proof -
  assume "b \<le> a"
  then have "(2::rat) powi a = 2 powi (int (nat (a - b)) + b)" by simp
  also have "\<dots> = 2 powi int (nat (a - b)) * 2 powi b" by (rule power_int_add) simp
  also have "2 powi int (nat (a - b)) = (of_int (2 ^ nat (a - b)) :: rat)"
    by (simp only: power_int_of_nat of_int_power of_int_numeral)
  finally show ?thesis .
qed

lemma bitlen_rat_bounds:
  assumes "0 < n" shows "2 powi (bitlen n - 1) \<le> (of_int n :: rat)" "of_int n < (2 powi bitlen n :: rat)"
proof -
  have b: "1 \<le> bitlen n" using assms compute_bitlen [of n] bitlen_nonneg [of "n div 2"] by simp
  have "(of_int (2 ^ nat (bitlen n - 1)) :: rat) \<le> of_int n" "(of_int n :: rat) < of_int (2 ^ nat (bitlen n))"
    using bitlen_bounds [OF assms] by (simp_all only: of_int_le_iff of_int_less_iff)
  with b show "2 powi (bitlen n - 1) \<le> (of_int n :: rat)" "of_int n < (2 powi bitlen n :: rat)"
    by (simp_all add: power_int_def)
qed

lemma ilog2_bounds:
  assumes "0 < x" shows "2 powi ilog2 x \<le> x" "x < 2 powi (ilog2 x + 1)"
proof -
  obtain p q where pq: "quotient_of x = (p, q)" by (cases "quotient_of x")
  then have q: "0 < q" and x: "x = of_int p / of_int q"
    using quotient_of_denom_pos quotient_of_div by blast+
  with assms have p: "0 < p" by (simp add: zero_less_divide_iff)
  define k where "k = bitlen p - bitlen q"
  have up: "x < 2 powi (k + 1)"
  proof -
    have "of_int p < (2 powi bitlen p :: rat)" by (rule bitlen_rat_bounds [OF p])
    also have "\<dots> = 2 powi (k + 1) * 2 powi (bitlen q - 1)"
      by (simp add: k_def flip: power_int_add)
    also have "\<dots> \<le> 2 powi (k + 1) * of_int q"
      using bitlen_rat_bounds(1) [OF q] by simp
    finally show ?thesis using q by (simp add: x pos_divide_less_eq)
  qed
  have lo: "2 powi (k - 1) \<le> x"
  proof -
    have "2 powi (k - 1) * of_int q \<le> 2 powi (k - 1) * (2 powi bitlen q :: rat)"
      using bitlen_rat_bounds(2) [OF q] by simp
    also have "\<dots> = 2 powi (bitlen p - 1)" by (simp add: k_def flip: power_int_add)
    also have "\<dots> \<le> of_int p" by (rule bitlen_rat_bounds [OF p])
    finally show ?thesis using q by (simp add: x pos_le_divide_eq)
  qed
  have il: "ilog2 x = (if 2 powi k \<le> x then k else k - 1)"
    by (simp add: ilog2_def pq k_def Let_def)
  show "2 powi ilog2 x \<le> x" "x < 2 powi (ilog2 x + 1)"
    using up lo by (auto simp: il)
qed

lemma ilog2_le: "0 < x \<Longrightarrow> x < 2 powi (j + 1) \<Longrightarrow> ilog2 x \<le> j"
  using ilog2_bounds(1) [of x] powi_less_iff [of "ilog2 x" "j + 1"] by fastforce

lemma ilog2_ge: "0 < x \<Longrightarrow> 2 powi j \<le> x \<Longrightarrow> j \<le> ilog2 x"
  using ilog2_bounds(2) [of x] powi_less_iff [of j "ilog2 x + 1"] by fastforce

lemma ilog2_mono: "0 < x \<Longrightarrow> x \<le> y \<Longrightarrow> ilog2 x \<le> ilog2 y"
  using ilog2_bounds(1) [of x] by (intro ilog2_ge) auto

section \<open>Rounding\<close>

lemma rnd_0 [simp]: "rnd 0 = 0"
  by (simp add: rnd_def)

lemma rnd_minus: "rnd (- x) = - rnd x"
  by (simp add: rnd_def ulp_exp_def round_even_minus)

lemma rnd_near: "\<bar>rnd x - x\<bar> \<le> 2 powi ulp_exp x / 2"
proof (cases "x = 0")
  case False
  let ?s = "2 powi ulp_exp x :: rat"
  have "\<bar>of_int (round_even (x / ?s)) - x / ?s\<bar> * ?s \<le> 1 / 2 * ?s"
    by (intro mult_right_mono round_even_near) simp
  moreover have "rnd x - x = (of_int (round_even (x / ?s)) - x / ?s) * ?s"
    using False by (simp add: rnd_def left_diff_distrib)
  ultimately show ?thesis by (simp add: abs_mult)
qed simp

text \<open>A point of the grid of \<open>x\<close> that bounds \<open>x\<close> bounds the rounding of \<open>x\<close>.\<close>

lemma rnd_le_grid:
  assumes "x \<le> of_int m * 2 powi j" "ulp_exp x \<le> j" "x \<noteq> 0"
  shows "rnd x \<le> of_int m * 2 powi j"
proof -
  let ?e = "ulp_exp x"
  have g: "of_int m * 2 powi j = of_int (m * 2 ^ nat (j - ?e)) * (2 powi ?e :: rat)"
    using powi_diff_int [OF assms(2)] by simp
  with assms(1) have "x / 2 powi ?e \<le> of_int (m * 2 ^ nat (j - ?e))"
    by (simp add: pos_divide_le_eq)
  then have "round_even (x / 2 powi ?e) \<le> m * 2 ^ nat (j - ?e)" by (rule round_even_le)
  then have "of_int (round_even (x / 2 powi ?e)) * 2 powi ?e
      \<le> of_int (m * 2 ^ nat (j - ?e)) * (2 powi ?e :: rat)"
    by (intro mult_right_mono) (simp_all only: of_int_le_iff, simp)
  then show ?thesis unfolding g rnd_def using assms(3) by simp
qed

lemma rnd_ge_grid:
  assumes "of_int m * 2 powi j \<le> x" "ulp_exp x \<le> j" "x \<noteq> 0"
  shows "of_int m * 2 powi j \<le> rnd x"
  using rnd_le_grid [of "- x" "- m" j] assms by (simp add: rnd_minus ulp_exp_def)

lemma rnd_nonneg: "0 \<le> x \<Longrightarrow> 0 \<le> rnd x"
  using rnd_ge_grid [of 0 "ulp_exp x" x] by (cases "x = 0") auto

lemma rnd_nonpos: "x \<le> 0 \<Longrightarrow> rnd x \<le> 0"
  using rnd_nonneg [of "- x"] by (simp add: rnd_minus)

lemma rnd_mono_pos:
  assumes "0 < x" "x \<le> y" shows "rnd x \<le> rnd y"
proof (cases "ulp_exp x = ulp_exp y")
  case True
  have "x / 2 powi ulp_exp y \<le> y / 2 powi ulp_exp y"
    using assms by (simp add: divide_right_mono)
  then have "round_even (x / 2 powi ulp_exp y) \<le> round_even (y / 2 powi ulp_exp y)"
    by (rule round_even_mono)
  with True assms show ?thesis by (simp add: rnd_def mult_right_mono)
next
  case False
  let ?j = "ilog2 y"
  from assms have lg: "ilog2 x \<le> ?j" by (rule ilog2_mono)
  with False assms have j: "ulp_exp x < ulp_exp y" "ilog2 x < ?j" "ulp_exp y \<le> ?j" "ulp_exp x \<le> ?j"
    by (auto simp: ulp_exp_def max_def split: if_splits)
  have "x < 2 powi (ilog2 x + 1)" using assms ilog2_bounds by blast
  also have "\<dots> \<le> 2 powi ?j" using j by (simp add: powi_le_iff)
  finally have "rnd x \<le> of_int 1 * 2 powi ?j"
    using assms j by (intro rnd_le_grid) auto
  also have "\<dots> \<le> rnd y"
    using assms j ilog2_bounds(1) [of y] by (intro rnd_ge_grid) auto
  finally show ?thesis .
qed

lemma rnd_mono: "x \<le> y \<Longrightarrow> rnd x \<le> rnd y"
proof -
  assume le: "x \<le> y"
  consider "0 < x" | "y < 0" | "x \<le> 0" "0 \<le> y" by linarith
  then show ?thesis
  proof cases
    case 1
    then show ?thesis using le by (rule rnd_mono_pos)
  next
    case 2
    then have "rnd (- y) \<le> rnd (- x)" using le by (intro rnd_mono_pos) auto
    then show ?thesis by (simp add: rnd_minus)
  next
    case 3
    then show ?thesis using rnd_nonpos rnd_nonneg by (meson order_trans)
  qed
qed

text \<open>Numbers with at most 53 significant bits are not changed by rounding.\<close>

lemma rnd_exact_strict:
  assumes "\<bar>m\<bar> < 2 ^ 53" "- 1074 \<le> j" shows "rnd (of_int m * 2 powi j) = of_int m * 2 powi j"
proof (cases "m = 0")
  case False
  let ?z = "of_int m * 2 powi j :: rat"
  have z: "?z \<noteq> 0" using False by simp
  have "\<bar>?z\<bar> = of_int \<bar>m\<bar> * 2 powi j" by (simp add: abs_mult)
  also have "\<dots> < of_int (2 ^ 53) * 2 powi j"
    using assms(1) by (intro mult_strict_right_mono) (simp_all only: of_int_less_iff, simp)
  also have "\<dots> = 2 powi (52 + j + 1)" by (simp add: power_int_add)
  finally have "ilog2 \<bar>?z\<bar> \<le> 52 + j" using z by (intro ilog2_le) auto
  then have "ulp_exp ?z \<le> j" using assms(2) by (simp add: ulp_exp_def)
  then show ?thesis using rnd_le_grid [of ?z m j] rnd_ge_grid [of m j ?z] z by auto
qed simp

lemma rnd_exact:
  assumes "\<bar>m\<bar> \<le> 2 ^ 53" "- 1074 \<le> j" shows "rnd (of_int m * 2 powi j) = of_int m * 2 powi j"
proof (cases "\<bar>m\<bar> = 2 ^ 53")
  case True
  define s :: int where "s = (if 0 \<le> m then 1 else - 1)"
  have s: "m = s * 2 ^ 52 * 2" "s = 1 \<or> s = - 1"
    using True by (auto simp: s_def)
  then have "of_int m * 2 powi j = of_int (s * 2 ^ 52) * (2 powi (j + 1) :: rat)"
    by (simp add: power_int_add)
  moreover have "\<bar>s * 2 ^ 52\<bar> < 2 ^ 53" using s by auto
  ultimately show ?thesis using rnd_exact_strict [of "s * 2 ^ 52" "j + 1"] assms(2) by simp
next
  case False
  with assms show ?thesis by (intro rnd_exact_strict) auto
qed

lemma rnd_of_int: "\<bar>n\<bar> \<le> 2 ^ 53 \<Longrightarrow> rnd (of_int n) = of_int n"
  using rnd_exact [of n 0] by simp

lemma of_i64_exact: "\<bar>n\<bar> \<le> 2 ^ 53 \<Longrightarrow> of_i64 n = of_int n"
  by (simp add: of_i64_def rnd_of_int)

lemma rnd_numeral [simp]: "(numeral k :: int) \<le> 2 ^ 53 \<Longrightarrow> rnd (numeral k) = numeral k"
  using rnd_of_int [of "numeral k"] by simp

lemma rnd_representable: "representable z \<Longrightarrow> x \<le> z \<Longrightarrow> rnd x \<le> z"
  using rnd_mono [of x z] by (simp add: representable_def)

lemma rnd_representable_ge: "representable z \<Longrightarrow> z \<le> x \<Longrightarrow> z \<le> rnd x"
  using rnd_mono [of z x] by (simp add: representable_def)

lemma round_even_bound:
  assumes "x \<noteq> 0" shows "\<bar>round_even (x / 2 powi ulp_exp x)\<bar> \<le> 2 ^ 53"
proof -
  let ?s = "2 powi ulp_exp x :: rat"
  have "\<bar>x\<bar> < 2 powi (ilog2 \<bar>x\<bar> + 1)" using assms ilog2_bounds(2) [of "\<bar>x\<bar>"] by simp
  also have "\<dots> \<le> 2 powi (ulp_exp x + 53)" by (simp add: powi_le_iff ulp_exp_def)
  also have "\<dots> = of_int (2 ^ 53) * ?s" by (simp add: power_int_add)
  finally have "\<bar>x\<bar> / ?s \<le> of_int (2 ^ 53)" by (simp add: pos_divide_le_eq)
  then have "x / ?s \<le> of_int (2 ^ 53)" "of_int (- (2 ^ 53)) \<le> x / ?s"
    by (simp_all add: abs_le_iff pos_divide_le_eq pos_le_divide_eq)
  then show ?thesis using round_even_le round_even_ge by (metis abs_leI minus_le_iff)
qed

lemma representable_rnd: "representable (rnd x)"
proof (cases "x = 0")
  case False
  have "- 1074 \<le> ulp_exp x" by (simp add: ulp_exp_def)
  then show ?thesis
    using rnd_exact [OF round_even_bound [OF False]] False by (simp add: representable_def rnd_def)
qed (simp add: representable_def)

lemma representable_of_int: "\<bar>n\<bar> \<le> 2 ^ 53 \<Longrightarrow> representable (of_int n)"
  by (simp add: representable_def rnd_of_int)

text \<open>The rounding error below a power of two.\<close>

lemma rnd_error:
  assumes "0 \<le> x" "x < 2 powi k" "- 1021 \<le> k"
  shows "\<bar>rnd x - x\<bar> \<le> 2 powi (k - 54)"
proof (cases "x = 0")
  case False
  then have "ilog2 \<bar>x\<bar> \<le> k - 1" using assms by (intro ilog2_le) simp_all
  then have "ulp_exp x \<le> k - 53" using assms(3) by (simp add: ulp_exp_def)
  then have "2 powi ulp_exp x \<le> (2 :: rat) powi (k - 53)" by (simp add: powi_le_iff)
  moreover have "(2 :: rat) powi (k - 53) = 2 powi (k - 54) * 2"
    using power_int_add_1 [of "2 :: rat" "k - 54"] by simp
  ultimately show ?thesis using rnd_near [of x] by simp
qed simp

end
