(* ===== verification/Delivery.thy ===== *)
theory Delivery
  imports Go_Strings Float64
begin

text \<open>
  Delivery settings: the policy and the order snapshot of \<open>internal/domain/delivery\<close>, and the
  repository of \<open>internal/repository/postgres/delivery.go\<close> on the shipping tables of migration
  \<open>009_delivery_information.sql\<close>. Fees are \<open>DECIMAL\<close> columns, exact rationals.
\<close>

section \<open>Policy, update request and snapshot\<close>

datatype delivery_error = ErrConflict | ErrInvalid | DeliveryDbError

record policy =
  pol_method :: id
  pol_version :: int
  pol_mode :: string
  pol_currency :: string
  pol_nairobi_fee :: int
  pol_info :: string
  pol_message :: string
  pol_coverage :: string
  pol_included :: bool
  pol_updated :: instant

record delivery_update =
  du_expected_version :: int
  du_nairobi_fee :: int
  du_info :: string

record snapshot =
  snap_version :: "int option"
  snap_method :: "id option"
  snap_status :: string
  snap_included :: bool
  snap_fee :: "int option"
  snap_currency :: string
  snap_notice :: string

definition FallbackNotice :: string where
  "FallbackNotice = ''Delivery charges are confirmed separately and are not included in the order total.''"

definition Update_Validate :: "delivery_update \<Rightarrow> delivery_error + delivery_update" where
  "Update_Validate u =
     (if du_expected_version u < 1 \<or> du_nairobi_fee u < 1 \<or> 100000 < du_nairobi_fee u
         \<or> 1000 < rune_count (du_info u)
      then Inl ErrInvalid else Inr u)"

definition Prepare :: "policy \<Rightarrow> policy" where
  "Prepare p =
     (let msg = ''We deliver across Kenya. Standard Nairobi delivery is typically KES ''
            @ string_of_int (pol_nairobi_fee p)
            @ ''; the actual fee depends on your location. We will contact you to confirm delivery charges. Delivery is not included in your order total.'';
          note = trim_space (pol_info p)
      in p\<lparr>pol_coverage := ''Kenya nationwide'', pol_included := False,
           pol_message := (if note = [] then msg else msg @ '' '' @ note)\<rparr>)"

definition NewSnapshot :: "policy option \<Rightarrow> snapshot" where
  "NewSnapshot p =
     (let s = \<lparr>snap_version = None, snap_method = None, snap_status = ''pending_confirmation'',
               snap_included = False, snap_fee = None, snap_currency = ''KES'',
               snap_notice = FallbackNotice\<rparr>
      in case p of None \<Rightarrow> s
         | Some p \<Rightarrow> s\<lparr>snap_version := Some (pol_version p), snap_method := Some (pol_method p),
                       snap_notice := pol_message p\<rparr>)"

section \<open>Tables\<close>

record ship_method =
  sm_id :: id
  sm_code :: "string option"
  sm_mode :: string
  sm_version :: int
  sm_description :: "string option"
  sm_active :: bool
  sm_updated :: instant
  sm_updated_by :: "id option"

record ship_zone =
  sz_id :: id
  sz_code :: "string option"
  sz_region :: "string option"
  sz_active :: bool

record ship_rate =
  sr_method :: id
  sr_zone :: id
  sr_fee :: "rat option"
  sr_currency :: string
  sr_type :: string

record ship_db =
  methods :: "ship_method list"
  zones :: "ship_zone list"
  zone_countries :: "(id \<times> string) list"
  rates :: "ship_rate list"

text \<open>The cast \<open>numeric::bigint\<close> rounds halves away from zero.\<close>

definition numeric_to_bigint :: "rat \<Rightarrow> int" where
  "numeric_to_bigint x = (if 0 \<le> x then \<lfloor>x + 1 / 2\<rfloor> else - \<lfloor>1 / 2 - x\<rfloor>)"

definition nairobi_zone :: "ship_zone \<Rightarrow> bool" where
  "nairobi_zone z \<longleftrightarrow> sz_code z = Some ''ke-nairobi'' \<and> sz_active z"

definition nairobi_rate :: "ship_rate \<Rightarrow> bool" where
  "nairobi_rate r \<longleftrightarrow> sr_type r = ''indicative'' \<and> sr_currency r = ''KES''"

definition standard_method :: "ship_method \<Rightarrow> bool" where
  "standard_method m \<longleftrightarrow>
     sm_code m = Some ''standard-delivery'' \<and> sm_active m \<and> sm_mode m = ''informational''"

text \<open>The two \<open>EXISTS\<close> conditions of the query.\<close>

definition zone_in_kenya :: "ship_db \<Rightarrow> id \<Rightarrow> bool" where
  "zone_in_kenya d z \<longleftrightarrow> (z, ''KE'') \<in> set (zone_countries d)"

definition nationwide_quote :: "ship_db \<Rightarrow> id \<Rightarrow> bool" where
  "nationwide_quote d m \<longleftrightarrow>
     list_ex (\<lambda>nr. list_ex (\<lambda>nz. sr_zone nr = sz_id nz \<and> zone_in_kenya d (sz_id nz)
         \<and> sr_method nr = m \<and> sz_code nz = Some ''ke-nationwide'' \<and> sz_active nz
         \<and> sr_type nr = ''quote_required'' \<and> sr_fee nr = None \<and> sr_currency nr = ''KES'')
       (zones d)) (rates d)"

definition policy_row :: "ship_db \<Rightarrow> ship_method \<Rightarrow> ship_rate \<Rightarrow> ship_zone \<Rightarrow> bool" where
  "policy_row d m r z \<longleftrightarrow>
     standard_method m \<and> sr_method r = sm_id m \<and> sz_id z = sr_zone r
     \<and> nairobi_zone z \<and> sz_region z = Some ''KE-30'' \<and> nairobi_rate r
     \<and> (case sr_fee r of None \<Rightarrow> False | Some f \<Rightarrow> 0 < f)
     \<and> zone_in_kenya d (sz_id z) \<and> nationwide_quote d (sm_id m)"

text \<open>\<open>deliveryPolicyQuery\<close>: the rows of the three-way join, of which \<open>QueryRow\<close> scans the first.\<close>

definition deliveryPolicyQuery :: "ship_db \<Rightarrow> policy list" where
  "deliveryPolicyQuery d =
     concat (map (\<lambda>m. concat (map (\<lambda>r. map (\<lambda>z.
         \<lparr>pol_method = sm_id m, pol_version = sm_version m, pol_mode = sm_mode m,
          pol_currency = sr_currency r,
          pol_nairobi_fee = (case sr_fee r of None \<Rightarrow> 0 | Some f \<Rightarrow> numeric_to_bigint f),
          pol_info = (case sm_description m of None \<Rightarrow> [] | Some t \<Rightarrow> t),
          pol_message = [], pol_coverage = [], pol_included = False, pol_updated = sm_updated m\<rparr>)
       (filter (policy_row d m r) (zones d))) (rates d))) (methods d))"

definition delivery_Get :: "ship_db \<Rightarrow> delivery_error + policy" where
  "delivery_Get d = (case deliveryPolicyQuery d of [] \<Rightarrow> Inl DeliveryDbError | p # _ \<Rightarrow> Inr (Prepare p))"

text \<open>
  \<open>Update\<close>: the guarded \<open>UPDATE\<close> of the method (optimistic concurrency on the version), the update
  of the Nairobi rate, which must hit exactly one row, and the read-back, in one transaction.
\<close>

definition bump_method :: "instant \<Rightarrow> delivery_update \<Rightarrow> id \<Rightarrow> ship_method \<Rightarrow> ship_method" where
  "bump_method now u admin m =
     m\<lparr>sm_description := Some (trim_space (du_info u)), sm_version := sm_version m + 1,
       sm_updated := now, sm_updated_by := Some admin\<rparr>"

definition expected_method :: "int \<Rightarrow> ship_method \<Rightarrow> bool" where
  "expected_method n m \<longleftrightarrow> standard_method m \<and> sm_version m = n"

definition fee_rate :: "id \<Rightarrow> id list \<Rightarrow> ship_rate \<Rightarrow> bool" where
  "fee_rate m zs r \<longleftrightarrow> sr_method r = m \<and> zs \<noteq> [] \<and> sr_zone r = hd zs \<and> nairobi_rate r"

definition set_fee :: "int \<Rightarrow> ship_rate \<Rightarrow> ship_rate" where
  "set_fee fee r = r\<lparr>sr_fee := Some (of_int fee)\<rparr>"

definition delivery_update_tx ::
  "instant \<Rightarrow> delivery_update \<Rightarrow> id \<Rightarrow> ship_db \<Rightarrow> delivery_error + policy \<times> ship_db" where
  "delivery_update_tx now u admin d =
     (let hit = expected_method (du_expected_version u) in
      case List.find hit (methods d) of
        None \<Rightarrow> Inl ErrConflict
      | Some m \<Rightarrow>
          if \<not> int4 (sm_version m + 1) then Inl DeliveryDbError
          else
            let d1 = d\<lparr>methods := update_where hit (bump_method now u admin) (methods d)\<rparr>;
                zs = map sz_id (filter nairobi_zone (zones d1));
                d2 = d1\<lparr>rates := update_where (fee_rate (sm_id m) zs)
                           (set_fee (du_nairobi_fee u)) (rates d1)\<rparr>
            in if length (filter (fee_rate (sm_id m) zs) (rates d1)) \<noteq> 1 then Inl ErrInvalid
               else case deliveryPolicyQuery d2 of
                      [] \<Rightarrow> Inl DeliveryDbError
                    | p # _ \<Rightarrow> Inr (p, d2))"

definition delivery_Update ::
  "tx_fault \<Rightarrow> instant \<Rightarrow> delivery_update \<Rightarrow> id \<Rightarrow> ship_db \<Rightarrow> (delivery_error + policy) \<times> ship_db" where
  "delivery_Update flt now u admin d =
     (case Update_Validate u of
        Inl e \<Rightarrow> (Inl e, d)
      | Inr _ \<Rightarrow> (case run_tx flt DeliveryDbError (delivery_update_tx now u admin) d of
          (Inl e, d') \<Rightarrow> (Inl e, d') | (Inr p, d') \<Rightarrow> (Inr (Prepare p), d')))"

section \<open>Handlers\<close>

text \<open>The status codes of \<open>internal/handlers/delivery/handler.go\<close>. Decoding the body, which rejects
  unknown fields, trailing data and bodies over 8192 bytes, is the argument.\<close>

definition handler_Get :: "ship_db \<Rightarrow> nat \<times> policy option" where
  "handler_Get d = (case delivery_Get d of Inl _ \<Rightarrow> (503, None) | Inr p \<Rightarrow> (200, Some p))"

definition handler_Update ::
  "tx_fault \<Rightarrow> instant \<Rightarrow> id option \<Rightarrow> delivery_update option \<Rightarrow> ship_db
     \<Rightarrow> (nat \<times> policy option) \<times> ship_db" where
  "handler_Update flt now identity body d =
     (case identity of
        None \<Rightarrow> ((401, None), d)
      | Some admin \<Rightarrow> (case body of
          None \<Rightarrow> ((400, None), d)
        | Some u \<Rightarrow> (case Update_Validate u of
            Inl _ \<Rightarrow> ((400, None), d)
          | Inr _ \<Rightarrow> (case delivery_Update flt now u admin d of
              (Inl ErrConflict, d') \<Rightarrow> ((409, None), d')
            | (Inl ErrInvalid, d') \<Rightarrow> ((400, None), d')
            | (Inl DeliveryDbError, d') \<Rightarrow> ((500, None), d')
            | (Inr p, d') \<Rightarrow> ((200, Some p), d')))))"

section \<open>Key constraints\<close>

text \<open>The \<open>UNIQUE\<close> columns \<open>shipping_methods.code\<close> and \<open>shipping_zones.code\<close>.\<close>

definition ship_keys :: "ship_db \<Rightarrow> bool" where
  "ship_keys d \<longleftrightarrow>
     (\<forall>a \<in> set (methods d). \<forall>b \<in> set (methods d). sm_code a = sm_code b \<and> sm_code a \<noteq> None \<longrightarrow> a = b)
   \<and> (\<forall>a \<in> set (zones d). \<forall>b \<in> set (zones d). sz_code a = sz_code b \<and> sz_code a \<noteq> None \<longrightarrow> a = b)"

lemma standard_method_unique:
  "ship_keys d \<Longrightarrow> a \<in> set (methods d) \<Longrightarrow> b \<in> set (methods d) \<Longrightarrow>
   standard_method a \<Longrightarrow> standard_method b \<Longrightarrow> a = b"
  unfolding ship_keys_def standard_method_def by (metis option.distinct(1))

lemma nairobi_zone_unique:
  "ship_keys d \<Longrightarrow> a \<in> set (zones d) \<Longrightarrow> b \<in> set (zones d) \<Longrightarrow>
   nairobi_zone a \<Longrightarrow> nairobi_zone b \<Longrightarrow> a = b"
  unfolding ship_keys_def nairobi_zone_def by (metis option.distinct(1))

lemma numeric_to_bigint_of_int [simp]: "numeric_to_bigint (of_int n) = n"
proof -
  have "\<lfloor>rat_of_int m + 1 / 2\<rfloor> = m" for m by (rule floor_unique) auto
  from this [of n] this [of "- n"] show ?thesis
    by (simp add: numeric_to_bigint_def add.commute)
qed

lemma deliveryPolicyQuery_row:
  assumes "p \<in> set (deliveryPolicyQuery d)"
  obtains m r z where "m \<in> set (methods d)" "r \<in> set (rates d)" "z \<in> set (zones d)"
    "policy_row d m r z" "pol_version p = sm_version m"
    "pol_info p = (case sm_description m of None \<Rightarrow> [] | Some t \<Rightarrow> t)"
    "pol_nairobi_fee p = (case sr_fee r of None \<Rightarrow> 0 | Some f \<Rightarrow> numeric_to_bigint f)"
  using assms by (fastforce simp: deliveryPolicyQuery_def)

text \<open>What the transaction did when it committed.\<close>

lemma delivery_update_tx_ok:
  assumes "delivery_update_tx now u admin d = Inr (p, d')"
  obtains m where "m \<in> set (methods d)" "expected_method (du_expected_version u) m"
    "methods d' = update_where (expected_method (du_expected_version u)) (bump_method now u admin) (methods d)"
    "zones d' = zones d"
    "rates d' = update_where (fee_rate (sm_id m) (map sz_id (filter nairobi_zone (zones d))))
       (set_fee (du_nairobi_fee u)) (rates d)"
    "\<exists>ps. deliveryPolicyQuery d' = p # ps"
proof -
  obtain m where m: "List.find (expected_method (du_expected_version u)) (methods d) = Some m"
    using assms by (auto simp: delivery_update_tx_def Let_def split: option.splits)
  show ?thesis
    using assms m find_Some_iff_mem [OF m]
    by (intro that [of m]) (auto simp: delivery_update_tx_def Let_def split: if_splits list.splits)
qed

text \<open>The one standard method of the new table is the bumped one.\<close>

lemma updated_standard_method:
  assumes "ship_keys d" "m0 \<in> set (methods d)" "expected_method n m0"
    and "m \<in> set (update_where (expected_method n) (bump_method now u admin) (methods d))"
    and "standard_method m"
  shows "m = bump_method now u admin m0"
proof -
  obtain m1 where m1: "m1 \<in> set (methods d)"
    "m = (if expected_method n m1 then bump_method now u admin m1 else m1)"
    using assms(4) by (auto simp: set_update_where)
  have std: "standard_method m1"
    using m1(2) assms(5) by (auto simp: standard_method_def bump_method_def split: if_splits)
  have "m1 = m0"
    using standard_method_unique [OF assms(1) m1(1) assms(2) std] assms(3)
    by (simp add: expected_method_def)
  then show ?thesis using m1(2) assms(3) by simp
qed

text \<open>After a committed update the policy query sees the new version, note and fee.\<close>

lemma delivery_update_tx_policy:
  assumes "ship_keys d" "delivery_update_tx now u admin d = Inr (p, d')"
  shows "pol_version p = du_expected_version u + 1 \<and> pol_info p = trim_space (du_info u)
     \<and> pol_nairobi_fee p = du_nairobi_fee u"
proof -
  let ?zs = "map sz_id (filter nairobi_zone (zones d))"
  obtain m0 where tx: "m0 \<in> set (methods d)" "expected_method (du_expected_version u) m0"
    "methods d' = update_where (expected_method (du_expected_version u)) (bump_method now u admin) (methods d)"
    "zones d' = zones d"
    "rates d' = update_where (fee_rate (sm_id m0) ?zs) (set_fee (du_nairobi_fee u)) (rates d)"
    "\<exists>ps. deliveryPolicyQuery d' = p # ps"
    by (rule delivery_update_tx_ok [OF assms(2)])
  have "p \<in> set (deliveryPolicyQuery d')" using tx(6) by auto
  then obtain m r z where row: "m \<in> set (methods d')" "r \<in> set (rates d')" "z \<in> set (zones d')"
    "policy_row d' m r z" "pol_version p = sm_version m"
    "pol_info p = (case sm_description m of None \<Rightarrow> [] | Some t \<Rightarrow> t)"
    "pol_nairobi_fee p = (case sr_fee r of None \<Rightarrow> 0 | Some f \<Rightarrow> numeric_to_bigint f)"
    by (rule deliveryPolicyQuery_row)
  have m: "m = bump_method now u admin m0"
    using updated_standard_method [OF assms(1) tx(1,2)] row(1,4) tx(3) by (simp add: policy_row_def)
  have z: "z \<in> set (zones d)" "nairobi_zone z" "sz_id z = sr_zone r" "sr_method r = sm_id m0"
    "nairobi_rate r"
    using row(3,4) tx(4) m by (simp_all add: policy_row_def bump_method_def)
  have "z' = z" if "z' \<in> set (filter nairobi_zone (zones d))" for z'
    using that nairobi_zone_unique [OF assms(1) _ z(1) _ z(2)] by simp
  then have hd: "?zs \<noteq> [] \<and> hd ?zs = sz_id z"
    using z(1,2) by (cases "filter nairobi_zone (zones d)") (auto simp: filter_empty_conv)
  obtain r0 where r0: "r = (if fee_rate (sm_id m0) ?zs r0 then set_fee (du_nairobi_fee u) r0 else r0)"
    using row(2) unfolding tx(5) set_update_where by (rule imageE)
  have "fee_rate (sm_id m0) ?zs r"
    using z hd by (simp add: fee_rate_def)
  then have "fee_rate (sm_id m0) ?zs r0"
    using r0 by (auto simp: fee_rate_def set_fee_def nairobi_rate_def split: if_splits)
  then have "sr_fee r = Some (of_int (du_nairobi_fee u))" using r0 by (simp add: set_fee_def)
  then show ?thesis using row(5-7) m tx(2) by (simp add: bump_method_def expected_method_def)
qed

lemma delivery_Update_ok:
  assumes "delivery_Update flt now u admin d = (Inr p, d')"
  obtains p0 where "Update_Validate u = Inr u" "delivery_update_tx now u admin d = Inr (p0, d')"
    "p = Prepare p0"
  using assms by (auto simp: delivery_Update_def Update_Validate_def run_tx_ok
      split: sum.splits prod.splits if_splits)

lemma Prepare_fields [simp]:
  "pol_version (Prepare p) = pol_version p" "pol_info (Prepare p) = pol_info p"
  "pol_nairobi_fee (Prepare p) = pol_nairobi_fee p" "pol_included (Prepare p) = False"
  by (simp_all add: Prepare_def Let_def)

text \<open>A successful update is what the next read returns: the version is one higher than the
  expected one, the fee is the requested one and the note the trimmed one, and \<open>Get\<close> answers with
  the policy the update returned.\<close>

theorem delivery_update_readback:
  assumes "ship_keys d" "delivery_Update flt now u admin d = (Inr p, d')"
  shows "delivery_Get d' = Inr p \<and> pol_version p = du_expected_version u + 1
     \<and> pol_nairobi_fee p = du_nairobi_fee u \<and> pol_info p = trim_space (du_info u)
     \<and> \<not> pol_included p"
proof -
  obtain p0 where p0: "delivery_update_tx now u admin d = Inr (p0, d')" "p = Prepare p0"
    using delivery_Update_ok [OF assms(2)] by blast
  have "\<exists>ps. deliveryPolicyQuery d' = p0 # ps"
    by (rule delivery_update_tx_ok [OF p0(1)])
  then have "delivery_Get d' = Inr p" using p0(2) by (auto simp: delivery_Get_def)
  then show ?thesis using delivery_update_tx_policy [OF assms(1) p0(1)] p0(2) by simp
qed


text \<open>The rows the migration inserts.\<close>

definition seeded :: ship_db where
  "seeded =
     \<lparr>methods = [\<lparr>sm_id = 1, sm_code = Some ''standard-delivery'', sm_mode = ''informational'',
        sm_version = 1, sm_description = Some [], sm_active = True, sm_updated = 0,
        sm_updated_by = None\<rparr>],
      zones = [\<lparr>sz_id = 1, sz_code = Some ''ke-nationwide'', sz_region = None, sz_active = True\<rparr>,
               \<lparr>sz_id = 2, sz_code = Some ''ke-nairobi'', sz_region = Some ''KE-30'', sz_active = True\<rparr>],
      zone_countries = [(1, ''KE''), (2, ''KE'')],
      rates = [\<lparr>sr_method = 1, sr_zone = 1, sr_fee = None, sr_currency = ''KES'', sr_type = ''quote_required''\<rparr>,
               \<lparr>sr_method = 1, sr_zone = 2, sr_fee = Some 300, sr_currency = ''KES'', sr_type = ''indicative''\<rparr>]\<rparr>"

abbreviation sample_update :: delivery_update where
  "sample_update \<equiv> \<lparr>du_expected_version = 1, du_nairobi_fee = 350, du_info = '' call us ''\<rparr>"

lemma seeded_keys: "ship_keys seeded"
  by (simp add: ship_keys_def seeded_def)

lemma seeded_update:
  "\<exists>p d1. delivery_Update NoFault 5 sample_update 9 seeded = (Inr p, d1)"
proof -
  have "is_ok (fst (delivery_Update NoFault 5 sample_update 9 seeded))" by code_simp
  then show ?thesis by (metis is_ok_iff prod.collapse)
qed

theorem delivery_update_readback_witness:
  "\<exists>p d1. delivery_Get d1 = Inr p \<and> pol_version p = 2 \<and> pol_nairobi_fee p = 350"
  using seeded_update delivery_update_readback [OF seeded_keys, of NoFault 5 sample_update 9]
  by fastforce


end
