(* ===== verification/Cache.thy ===== *)
theory Cache
  imports Prelude
begin

text \<open>
  The cache-aside pattern the services share: Redis keys with a time to live, read before the
  database, filled after a miss, deleted after a write. A value is stored as JSON; encoding and
  decoding of the program's structs are taken to be inverse, so a cache holds the values.
\<close>

type_synonym ('k, 'v) cache = "'k \<Rightarrow> ('v \<times> instant) option"

definition live :: "instant \<Rightarrow> ('k, 'v) cache \<Rightarrow> 'k \<Rightarrow> 'v option" where
  "live now c k = (case c k of None \<Rightarrow> None | Some (v, e) \<Rightarrow> if now < e then Some v else None)"

definition put :: "instant \<Rightarrow> instant \<Rightarrow> 'k \<Rightarrow> 'v \<Rightarrow> ('k, 'v) cache \<Rightarrow> ('k, 'v) cache" where
  "put now ttl k v c = c(k := Some (v, now + ttl))"

definition del :: "'k \<Rightarrow> ('k, 'v) cache \<Rightarrow> ('k, 'v) cache" where
  "del k c = c(k := None)"

text \<open>Look in the cache, else load and store what was found.\<close>

definition cached_read ::
  "instant \<Rightarrow> instant \<Rightarrow> ('k \<Rightarrow> 'e + 'v option) \<Rightarrow> 'k \<Rightarrow> ('k, 'v) cache
     \<Rightarrow> ('e + 'v option) \<times> ('k, 'v) cache" where
  "cached_read now ttl load k c =
     (case live now c k of
        Some v \<Rightarrow> (Inr (Some v), c)
      | None \<Rightarrow> (case load k of
          Inl e \<Rightarrow> (Inl e, c)
        | Inr None \<Rightarrow> (Inr None, c)
        | Inr (Some v) \<Rightarrow> (Inr (Some v), put now ttl k v c)))"

text \<open>A cache is coherent when what it would answer is what the source answers, at any time.\<close>

definition coherent :: "('k \<Rightarrow> 'e + 'v option) \<Rightarrow> ('k, 'v) cache \<Rightarrow> bool" where
  "coherent load c \<longleftrightarrow> (\<forall>k v e. c k = Some (v, e) \<longrightarrow> load k = Inr (Some v))"

lemma coherent_empty: "coherent load (\<lambda>_. None)"
  by (simp add: coherent_def)

lemma live_coherent: "coherent load c \<Longrightarrow> live now c k = Some v \<Longrightarrow> load k = Inr (Some v)"
  by (auto simp: coherent_def live_def split: option.splits prod.splits if_splits)

lemma cached_read_coherent:
  assumes "coherent load c"
  shows "fst (cached_read now ttl load k c) = load k"
    and "coherent load (snd (cached_read now ttl load k c))"
proof -
  have *: "cached_read now ttl load k c = (load k, c)
      \<or> (\<exists>v. load k = Inr (Some v) \<and> cached_read now ttl load k c = (load k, put now ttl k v c))"
    using live_coherent [OF assms]
    by (auto simp: cached_read_def split: option.splits sum.splits)
  show "fst (cached_read now ttl load k c) = load k" using * by auto
  show "coherent load (snd (cached_read now ttl load k c))"
    using * assms by (auto simp: coherent_def put_def split: if_splits)
qed

text \<open>
  What a write owes the cache: it may change what the source answers for its own key only, and it
  deletes that key. \<open>upd\<close> is a write for a key; the law is about the source.
\<close>

locale cache_client =
  fixes load :: "'db \<Rightarrow> 'k \<Rightarrow> 'e + 'v option"
    and upd :: "'db \<Rightarrow> 'k \<Rightarrow> 'db \<Rightarrow> bool"
  assumes upd_local: "upd db k db' \<Longrightarrow> k' \<noteq> k \<Longrightarrow> load db' k' = load db k'"
begin

lemma upd_invalidate:
  "upd db k db' \<Longrightarrow> coherent (load db) c \<Longrightarrow> coherent (load db') (del k c)"
  unfolding coherent_def del_def using upd_local by (metis fun_upd_apply option.distinct(1))

lemma upd_then_read:
  assumes "upd db k db'" "coherent (load db) c"
  shows "fst (cached_read now ttl (load db') k (del k c)) = load db' k"
  using upd_invalidate [OF assms] by (rule cached_read_coherent)

end

end
