(* ===== verification/Cart.thy ===== *)
theory Cart
  imports Go_Strings Cache
begin

text \<open>
  The shopping cart: the tables \<open>carts\<close> and \<open>cart_items\<close> with the partial unique index of migration
  \<open>005_cart_index.sql\<close>, the repository \<open>internal/repository/postgres/cart.go\<close> and the service
  \<open>internal/service/cart/service.go\<close> with its Redis cache. A price is the text the client sent; the
  cast to \<open>DECIMAL(12,2)\<close> and back is the argument \<open>decimal\<close>. The foreign keys to users, products and
  variants are predicates; the product card of an item is the argument \<open>cards\<close>.
\<close>

section \<open>Data\<close>

datatype cart_error =
    ErrInvalidInput | ErrCartNotFound | ErrCartItemNotFound | ErrForbidden | ErrVariantRequired
  | CartNoRows | CartDbError | CartPanic

datatype cart_status = CartStatusActive | CartStatusConverted | CartStatusAbandoned

record cart_row =
  ct_id :: id
  ct_user :: id
  ct_status :: cart_status
  ct_created :: instant
  ct_updated :: instant

record cart_item =
  ci_id :: id
  ci_cart :: id
  ci_product :: id
  ci_variant :: id
  ci_quantity :: int
  ci_price :: string
  ci_added :: instant

record cart_input =
  in_product :: id
  in_variant :: id
  in_quantity :: int
  in_price :: string

record cart_db =
  carts :: "cart_row list"
  cart_items :: "cart_item list"

text \<open>What a client sees: the cart and its items, each with its product card.\<close>

record 'c cart =
  cart_of :: cart_row
  items_of :: "(cart_item \<times> 'c) list"

text \<open>What the database knows besides the two tables.\<close>

record 'c catalog_view =
  decimal :: "string \<Rightarrow> string option"
  user_exists :: "id \<Rightarrow> bool"
  product_exists :: "id \<Rightarrow> bool"
  variant_exists :: "id \<Rightarrow> bool"
  cards :: "id \<Rightarrow> 'c list"

section \<open>Repository\<close>

definition active_for :: "id \<Rightarrow> cart_row \<Rightarrow> bool" where
  "active_for u c \<longleftrightarrow> ct_user c = u \<and> ct_status c = CartStatusActive"

definition getOrCreateTx ::
  "'c catalog_view \<Rightarrow> id \<Rightarrow> instant \<Rightarrow> id \<Rightarrow> cart_db \<Rightarrow> cart_error + cart_row \<times> cart_db" where
  "getOrCreateTx w nid now u d =
     (case List.find (active_for u) (carts d) of
        Some c \<Rightarrow> Inr (c, d)
      | None \<Rightarrow>
          if \<not> user_exists w u then Inl CartDbError
          else let c = \<lparr>ct_id = nid, ct_user = u, ct_status = CartStatusActive,
                        ct_created = now, ct_updated = now\<rparr>
               in Inr (c, d\<lparr>carts := carts d @ [c]\<rparr>))"

definition GetOrCreateActiveCartForUser ::
  "'c catalog_view \<Rightarrow> tx_fault \<Rightarrow> id \<Rightarrow> instant \<Rightarrow> id \<Rightarrow> cart_db \<Rightarrow> (cart_error + cart_row) \<times> cart_db"
  where
  "GetOrCreateActiveCartForUser w flt nid now u d =
     (if u \<le> 0 then (Inl CartDbError, d)
      else run_tx flt CartDbError (getOrCreateTx w nid now u) d)"

text \<open>\<open>hydratedProduct[0]\<close> panics when the query returned no card.\<close>

fun with_cards :: "(id \<Rightarrow> 'c list) \<Rightarrow> cart_item list \<Rightarrow> cart_error + (cart_item \<times> 'c) list" where
  "with_cards f [] = Inr []"
| "with_cards f (it # its) =
     (case f (ci_product it) of
        [] \<Rightarrow> Inl CartPanic
      | x # _ \<Rightarrow> (case with_cards f its of Inl e \<Rightarrow> Inl e | Inr ys \<Rightarrow> Inr ((it, x) # ys)))"

definition GetCartItems :: "'c catalog_view \<Rightarrow> id \<Rightarrow> cart_db \<Rightarrow> cart_error + (cart_item \<times> 'c) list" where
  "GetCartItems w cid d =
     with_cards (cards w)
       (order_by (\<lambda>a b. ci_id a \<le> ci_id b) (filter (\<lambda>it. ci_cart it = cid) (cart_items d)))"

definition GetActiveCartWithItemsForUser ::
  "'c catalog_view \<Rightarrow> cart_db \<Rightarrow> id \<Rightarrow> cart_error + 'c cart option" where
  "GetActiveCartWithItemsForUser w d u =
     (case order_by (\<lambda>a b. ct_id b \<le> ct_id a) (filter (active_for u) (carts d)) of
        [] \<Rightarrow> Inr None
      | c # _ \<Rightarrow> (case GetCartItems w (ct_id c) d of
          Inl e \<Rightarrow> Inl e | Inr its \<Rightarrow> Inr (Some \<lparr>cart_of = c, items_of = its\<rparr>)))"

definition touch_cart :: "id \<Rightarrow> instant \<Rightarrow> cart_db \<Rightarrow> cart_db" where
  "touch_cart cid now d =
     d\<lparr>carts := update_where (\<lambda>c. ct_id c = cid) (\<lambda>c. c\<lparr>ct_updated := now\<rparr>) (carts d)\<rparr>"

definition same_line :: "id \<Rightarrow> id \<Rightarrow> cart_item \<Rightarrow> bool" where
  "same_line cid v it \<longleftrightarrow> ci_cart it = cid \<and> ci_variant it = v"

definition UpsertCartItem ::
  "'c catalog_view \<Rightarrow> id \<Rightarrow> instant \<Rightarrow> id \<Rightarrow> cart_input \<Rightarrow> cart_db \<Rightarrow> (cart_error + cart_item) \<times> cart_db"
  where
  "UpsertCartItem w nid now cid i d =
     (if cid \<le> 0 \<or> in_product i \<le> 0 \<or> in_variant i \<le> 0 \<or> in_quantity i \<le> 0 then (Inl CartDbError, d)
      else if \<not> int4 (in_quantity i) \<or> \<not> product_exists w (in_product i)
              \<or> \<not> variant_exists w (in_variant i) \<or> \<not> list_ex (\<lambda>c. ct_id c = cid) (carts d)
           then (Inl CartDbError, d)
      else case decimal w (in_price i) of
             None \<Rightarrow> (Inl CartDbError, d)
           | Some p \<Rightarrow>
               (case List.find (same_line cid (in_variant i)) (cart_items d) of
                  None \<Rightarrow>
                    let it = \<lparr>ci_id = nid, ci_cart = cid, ci_product = in_product i,
                              ci_variant = in_variant i, ci_quantity = in_quantity i,
                              ci_price = p, ci_added = now\<rparr>
                    in (Inr it, touch_cart cid now (d\<lparr>cart_items := cart_items d @ [it]\<rparr>))
                | Some old \<Rightarrow>
                    let upd = (\<lambda>it. it\<lparr>ci_product := in_product i, ci_quantity := in_quantity i,
                                      ci_price := p, ci_added := now\<rparr>)
                    in (Inr (upd old), touch_cart cid now
                          (d\<lparr>cart_items := update_where (same_line cid (in_variant i)) upd (cart_items d)\<rparr>))))"

definition RemoveCartItem :: "instant \<Rightarrow> id \<Rightarrow> id \<Rightarrow> cart_db \<Rightarrow> (cart_error + unit) \<times> cart_db" where
  "RemoveCartItem now cid i d =
     (let hit = (\<lambda>it. ci_id it = i \<and> ci_cart it = cid) in
      if cid \<le> 0 \<or> i \<le> 0 then (Inl CartDbError, d)
      else if \<not> list_ex hit (cart_items d) then (Inl CartNoRows, d)
      else (Inr (), touch_cart cid now (d\<lparr>cart_items := delete_where hit (cart_items d)\<rparr>)))"

definition ClearCart :: "instant \<Rightarrow> id \<Rightarrow> cart_db \<Rightarrow> (cart_error + unit) \<times> cart_db" where
  "ClearCart now cid d =
     (if cid \<le> 0 then (Inl CartDbError, d)
      else (Inr (), touch_cart cid now
              (d\<lparr>cart_items := delete_where (\<lambda>it. ci_cart it = cid) (cart_items d)\<rparr>)))"

definition MarkCartConverted :: "instant \<Rightarrow> id \<Rightarrow> cart_db \<Rightarrow> (cart_error + unit) \<times> cart_db" where
  "MarkCartConverted now cid d =
     (let hit = (\<lambda>c. ct_id c = cid \<and> ct_status c = CartStatusActive) in
      if \<not> list_ex hit (carts d) then (Inl CartNoRows, d)
      else (Inr (), d\<lparr>carts := update_where hit
              (\<lambda>c. c\<lparr>ct_status := CartStatusConverted, ct_updated := now\<rparr>) (carts d)\<rparr>))"

section \<open>Service\<close>

text \<open>The database and the cache of active carts by user, which may be disabled.\<close>

record 'c cart_state =
  cdb :: cart_db
  ccache :: "(id, 'c cart) cache option"

definition cartTTL :: instant where "cartTTL = 15 * 10 ^ 9"

definition invalidate :: "id \<Rightarrow> 'c cart_state \<Rightarrow> 'c cart_state" where
  "invalidate u s = s\<lparr>ccache := map_option (del u) (ccache s)\<rparr>"

definition GetActiveCart ::
  "'c catalog_view \<Rightarrow> instant \<Rightarrow> id \<Rightarrow> 'c cart_state \<Rightarrow> (cart_error + 'c cart option) \<times> 'c cart_state"
  where
  "GetActiveCart w now u s =
     (if u \<le> 0 then (Inl ErrInvalidInput, s)
      else case ccache s of
             None \<Rightarrow> (GetActiveCartWithItemsForUser w (cdb s) u, s)
           | Some c \<Rightarrow>
               (case cached_read now cartTTL (GetActiveCartWithItemsForUser w (cdb s)) u c of
                  (r, c') \<Rightarrow> (r, s\<lparr>ccache := Some c'\<rparr>)))"

definition AddOrUpdateItem ::
  "'c catalog_view \<Rightarrow> tx_fault \<Rightarrow> id \<Rightarrow> id \<Rightarrow> instant \<Rightarrow> id \<Rightarrow> cart_input \<Rightarrow> 'c cart_state
     \<Rightarrow> (cart_error + 'c cart option) \<times> 'c cart_state" where
  "AddOrUpdateItem w flt nid1 nid2 now u i s =
     (if u \<le> 0 then (Inl ErrInvalidInput, s)
      else if in_variant i \<le> 0 then (Inl ErrVariantRequired, s)
      else if in_product i \<le> 0 \<or> in_quantity i \<le> 0 then (Inl ErrInvalidInput, s)
      else if in_price i = [] then (Inl ErrInvalidInput, s)
      else case GetOrCreateActiveCartForUser w flt nid1 now u (cdb s) of
             (Inl e, d) \<Rightarrow> (Inl e, s\<lparr>cdb := d\<rparr>)
           | (Inr c, d) \<Rightarrow> (case UpsertCartItem w nid2 now (ct_id c) i d of
               (Inl e, d') \<Rightarrow> (Inl e, s\<lparr>cdb := d'\<rparr>)
             | (Inr _, d') \<Rightarrow> GetActiveCart w now u (invalidate u (s\<lparr>cdb := d'\<rparr>))))"

definition RemoveItem ::
  "'c catalog_view \<Rightarrow> instant \<Rightarrow> id \<Rightarrow> id \<Rightarrow> 'c cart_state
     \<Rightarrow> (cart_error + 'c cart option) \<times> 'c cart_state" where
  "RemoveItem w now u i s =
     (if u \<le> 0 \<or> i \<le> 0 then (Inl ErrInvalidInput, s)
      else case GetActiveCartWithItemsForUser w (cdb s) u of
             Inl e \<Rightarrow> (Inl e, s)
           | Inr None \<Rightarrow> (Inl ErrCartNotFound, s)
           | Inr (Some c) \<Rightarrow> (case RemoveCartItem now (ct_id (cart_of c)) i (cdb s) of
               (Inl _, d) \<Rightarrow> (Inl ErrCartItemNotFound, s\<lparr>cdb := d\<rparr>)
             | (Inr _, d) \<Rightarrow> GetActiveCart w now u (invalidate u (s\<lparr>cdb := d\<rparr>))))"

definition ClearActiveCart ::
  "'c catalog_view \<Rightarrow> instant \<Rightarrow> id \<Rightarrow> 'c cart_state \<Rightarrow> (cart_error + unit) \<times> 'c cart_state" where
  "ClearActiveCart w now u s =
     (if u \<le> 0 then (Inl ErrInvalidInput, s)
      else case GetActiveCartWithItemsForUser w (cdb s) u of
             Inl e \<Rightarrow> (Inl e, s)
           | Inr None \<Rightarrow> (Inr (), s)
           | Inr (Some c) \<Rightarrow> (case ClearCart now (ct_id (cart_of c)) (cdb s) of
               (Inl e, d) \<Rightarrow> (Inl e, s\<lparr>cdb := d\<rparr>)
             | (Inr _, d) \<Rightarrow> (Inr (), invalidate u (s\<lparr>cdb := d\<rparr>))))"

section \<open>Handlers\<close>

text \<open>The status of an error (\<open>handleErr\<close> of \<open>internal/handlers/cart/handler.go\<close>).\<close>

fun cart_status_code :: "cart_error \<Rightarrow> nat" where
  "cart_status_code ErrInvalidInput = 400"
| "cart_status_code ErrVariantRequired = 400"
| "cart_status_code ErrCartNotFound = 404"
| "cart_status_code ErrCartItemNotFound = 404"
| "cart_status_code _ = 500"

section \<open>Invariant\<close>

text \<open>
  Unique ids, at most one active cart per user (the partial unique index), one line per cart and
  variant, lines belong to carts and have positive quantities.
\<close>

definition line_key :: "cart_item \<Rightarrow> id \<times> id" where
  "line_key it = (ci_cart it, ci_variant it)"

definition one_active :: "cart_row list \<Rightarrow> bool" where
  "one_active cs \<longleftrightarrow> (\<forall>a \<in> set cs. \<forall>b \<in> set cs. \<forall>u.
     active_for u a \<and> active_for u b \<longrightarrow> ct_id a = ct_id b)"

definition carts_ok :: "cart_row list \<Rightarrow> bool" where
  "carts_ok cs \<longleftrightarrow> distinct (map ct_id cs) \<and> (\<forall>c \<in> set cs. 0 < ct_id c) \<and> one_active cs"

definition lines_ok :: "id set \<Rightarrow> cart_item list \<Rightarrow> bool" where
  "lines_ok ids its \<longleftrightarrow> distinct (map ci_id its) \<and> distinct (map line_key its)
     \<and> (\<forall>it \<in> set its. 0 < ci_quantity it \<and> int4 (ci_quantity it) \<and> ci_cart it \<in> ids)"

definition cart_wf :: "cart_db \<Rightarrow> bool" where
  "cart_wf d \<longleftrightarrow> carts_ok (carts d) \<and> lines_ok (ct_id ` set (carts d)) (cart_items d)"

lemma one_activeD: "one_active cs \<Longrightarrow> a \<in> set cs \<Longrightarrow> b \<in> set cs \<Longrightarrow> active_for u a \<Longrightarrow>
    active_for u b \<Longrightarrow> ct_id a = ct_id b"
  unfolding one_active_def by blast

lemma carts_ok_update:
  assumes "carts_ok cs" "\<And>c. ct_id (f c) = ct_id c" "\<And>c u. active_for u (f c) \<Longrightarrow> active_for u c"
  shows "carts_ok (update_where P f cs)" "ct_id ` set (update_where P f cs) = ct_id ` set cs"
proof -
  let ?g = "\<lambda>c. if P c then f c else c"
  have keys: "map ct_id (update_where P f cs) = map ct_id cs"
    using assms(2) by (simp add: map_update_where)
  then show ids: "ct_id ` set (update_where P f cs) = ct_id ` set cs" by (metis set_map)
  have "one_active (update_where P f cs)"
    unfolding one_active_def set_update_where
  proof (intro ballI allI impI, elim imageE conjE, hypsubst)
    fix u a b
    assume "a \<in> set cs" "b \<in> set cs" "active_for u (?g a)" "active_for u (?g b)"
    then have "ct_id a = ct_id b"
      using assms(1,3) one_activeD [of cs a b u] unfolding carts_ok_def by (metis (full_types))
    then show "ct_id (?g a) = ct_id (?g b)" using assms(2) by simp
  qed
  moreover have "\<forall>c \<in> set (update_where P f cs). 0 < ct_id c"
    using ids assms(1) unfolding carts_ok_def by (metis imageE imageI)
  ultimately show "carts_ok (update_where P f cs)"
    using assms(1) keys by (simp add: carts_ok_def)
qed

lemma carts_ok_snoc:
  assumes "carts_ok cs" "ct_id c \<notin> ct_id ` set cs" "0 < ct_id c"
    and "\<And>u x. active_for u c \<Longrightarrow> x \<in> set cs \<Longrightarrow> \<not> active_for u x"
  shows "carts_ok (cs @ [c])"
proof -
  have "one_active (cs @ [c])"
    unfolding one_active_def
  proof (intro ballI allI impI, elim conjE)
    fix a b u
    assume "a \<in> set (cs @ [c])" "b \<in> set (cs @ [c])" "active_for u a" "active_for u b"
    moreover from this have "a \<in> set cs \<or> a = c" "b \<in> set cs \<or> b = c" by auto
    ultimately show "ct_id a = ct_id b"
      using assms(1,4) one_activeD [of cs a b u] unfolding carts_ok_def by metis
  qed
  then show ?thesis using assms(1-3) by (simp add: carts_ok_def)
qed

lemma lines_ok_update:
  assumes "lines_ok ids its" "\<And>it. ci_id (f it) = ci_id it" "\<And>it. line_key (f it) = line_key it"
    and "\<And>it. 0 < ci_quantity (f it) \<and> int4 (ci_quantity (f it))"
  shows "lines_ok ids (update_where P f its)"
proof -
  have "ci_cart (f it) = ci_cart it" for it using assms(3) [of it] by (simp add: line_key_def)
  then show ?thesis
    using assms by (auto simp: lines_ok_def map_update_where set_update_where)
qed

lemma lines_ok_delete: "lines_ok ids its \<Longrightarrow> lines_ok ids (delete_where P its)"
  by (simp add: lines_ok_def distinct_map_delete_where set_delete_where)

lemma same_line_key: "same_line c v = (\<lambda>it. line_key it = (c, v))"
  by (auto simp: same_line_def line_key_def)

lemma active_filter:
  "cart_wf d \<Longrightarrow> filter (active_for u) (carts d)
     = (case List.find (active_for u) (carts d) of None \<Rightarrow> [] | Some c \<Rightarrow> [c])"
  by (rule filter_at_most_one [where k = ct_id])
    (auto simp: cart_wf_def carts_ok_def intro: one_activeD)

lemma active_cart_load:
  assumes "cart_wf d"
  shows "GetActiveCartWithItemsForUser w d u =
     (case List.find (active_for u) (carts d) of
        None \<Rightarrow> Inr None
      | Some c \<Rightarrow> (case GetCartItems w (ct_id c) d of
          Inl e \<Rightarrow> Inl e | Inr its \<Rightarrow> Inr (Some \<lparr>cart_of = c, items_of = its\<rparr>)))"
  unfolding GetActiveCartWithItemsForUser_def active_filter [OF assms]
  by (auto simp: order_by_def split: option.splits)

text \<open>A write to the lines of one cart of one user, with a new timestamp for that cart.\<close>

lemma carts_touch [simp]: "cart_items (touch_cart c now d) = cart_items d"
  by (simp add: touch_cart_def)

lemma find_touch:
  "List.find (active_for u) (carts (touch_cart c now d))
     = map_option (\<lambda>r. if ct_id r = c then r\<lparr>ct_updated := now\<rparr> else r) (List.find (active_for u) (carts d))"
  unfolding touch_cart_def by (simp add: active_for_def find_update_where)

lemma cart_wf_touch: "cart_wf d \<Longrightarrow> cart_wf (touch_cart c now d)"
  unfolding touch_cart_def cart_wf_def
  using carts_ok_update [of "carts d" "\<lambda>c. c\<lparr>ct_updated := now\<rparr>"] by (simp add: active_for_def)

lemma cart_wf_delete:
  "cart_wf d \<Longrightarrow> cart_wf (d\<lparr>cart_items := delete_where P (cart_items d)\<rparr>)"
  unfolding cart_wf_def by (simp add: lines_ok_delete)

lemma getOrCreateTx_wf:
  assumes "getOrCreateTx w nid now u d = Inr (c, d')" "cart_wf d"
    and "nid \<notin> ct_id ` set (carts d)" "0 < nid"
  shows "cart_wf d'" "c \<in> set (carts d')" "active_for u c" "cart_items d' = cart_items d"
proof -
  have "cart_wf d' \<and> c \<in> set (carts d') \<and> active_for u c \<and> cart_items d' = cart_items d"
  proof (cases "List.find (active_for u) (carts d)")
    case None
    let ?c = "\<lparr>ct_id = nid, ct_user = u, ct_status = CartStatusActive, ct_created = now, ct_updated = now\<rparr>"
    have "\<not> active_for u c" if "c \<in> set (carts d)" for c
      using that None by (simp add: find_None_iff_all)
    then have "carts_ok (carts d @ [?c])"
      using assms by (intro carts_ok_snoc) (auto simp: cart_wf_def active_for_def)
    moreover have "lines_ok (insert nid (ct_id ` set (carts d))) (cart_items d)"
      using assms(2) by (auto simp: cart_wf_def lines_ok_def)
    moreover have "c = ?c" "d' = d\<lparr>carts := carts d @ [?c]\<rparr>"
      using assms(1) None by (auto simp: getOrCreateTx_def Let_def split: if_splits)
    ultimately show ?thesis by (simp add: cart_wf_def active_for_def)
  next
    case (Some c0)
    then show ?thesis using assms find_Some_iff_mem [OF Some] by (simp add: getOrCreateTx_def)
  qed
  then show "cart_wf d'" "c \<in> set (carts d')" "active_for u c" "cart_items d' = cart_items d"
    by blast+
qed

lemma UpsertCartItem_wf:
  assumes "UpsertCartItem w nid now cid i d = (r, d')" "cart_wf d" "nid \<notin> ci_id ` set (cart_items d)"
  shows "cart_wf d'"
proof -
  let ?f = "\<lambda>p it. it\<lparr>ci_product := in_product i, ci_quantity := in_quantity i, ci_price := p, ci_added := now\<rparr>"
  have upd: "cart_wf (d\<lparr>cart_items := update_where P (?f p) (cart_items d)\<rparr>)"
    if "0 < in_quantity i" "int4 (in_quantity i)" for P p
    using assms(2) that lines_ok_update [of _ "cart_items d" "?f p" P]
    by (simp add: cart_wf_def line_key_def)
  have ins: "cart_wf (d\<lparr>cart_items := cart_items d @ [it]\<rparr>)"
    if "List.find (same_line cid (in_variant i)) (cart_items d) = None" "ci_id it = nid"
      "ci_cart it = cid" "ci_variant it = in_variant i" "0 < ci_quantity it" "int4 (ci_quantity it)"
      "list_ex (\<lambda>c. ct_id c = cid) (carts d)" for it
  proof -
    have "line_key it \<notin> line_key ` set (cart_items d)"
      using that by (auto simp: find_None_iff_all same_line_def line_key_def)
    moreover have "cid \<in> ct_id ` set (carts d)" using that(7) by (auto simp: list_ex_iff)
    ultimately show ?thesis using assms(2,3) that by (simp add: cart_wf_def lines_ok_def)
  qed
  have "d' = d
      \<or> (\<exists>it. d' = touch_cart cid now (d\<lparr>cart_items := cart_items d @ [it]\<rparr>)
           \<and> cart_wf (d\<lparr>cart_items := cart_items d @ [it]\<rparr>))
      \<or> (\<exists>P p. d' = touch_cart cid now (d\<lparr>cart_items := update_where P (?f p) (cart_items d)\<rparr>)
           \<and> cart_wf (d\<lparr>cart_items := update_where P (?f p) (cart_items d)\<rparr>))"
  proof (cases "d' = d")
    case False
    then have g: "0 < in_quantity i" "int4 (in_quantity i)" "list_ex (\<lambda>c. ct_id c = cid) (carts d)"
      using assms(1) by (auto simp: UpsertCartItem_def split: if_splits)
    obtain p where p: "decimal w (in_price i) = Some p"
      using assms(1) False by (auto simp: UpsertCartItem_def split: if_splits option.splits)
    show ?thesis
    proof (cases "List.find (same_line cid (in_variant i)) (cart_items d)")
      case None
      show ?thesis using assms(1) False p None g ins [OF None, of "\<lparr>ci_id = nid, ci_cart = cid,
          ci_product = in_product i, ci_variant = in_variant i, ci_quantity = in_quantity i,
          ci_price = p, ci_added = now\<rparr>"]
        by (auto simp: UpsertCartItem_def Let_def split: if_splits)
    next
      case (Some old)
      show ?thesis using assms(1) False p Some upd [OF g(1,2), of "same_line cid (in_variant i)" p]
        by (auto simp: UpsertCartItem_def Let_def split: if_splits)
    qed
  qed simp
  then show ?thesis using assms(2) cart_wf_touch by blast
qed

lemma RemoveCartItem_wf: "RemoveCartItem now c i d = (r, d') \<Longrightarrow> cart_wf d \<Longrightarrow> cart_wf d'"
  by (auto simp: RemoveCartItem_def Let_def split: if_splits intro!: cart_wf_touch cart_wf_delete)

lemma ClearCart_wf: "ClearCart now c d = (r, d') \<Longrightarrow> cart_wf d \<Longrightarrow> cart_wf d'"
  by (auto simp: ClearCart_def split: if_splits intro!: cart_wf_touch cart_wf_delete)

lemma MarkCartConverted_wf:
  assumes "MarkCartConverted now c d = (r, d')" "cart_wf d"
  shows "cart_wf d'"
proof -
  let ?f = "\<lambda>c. c\<lparr>ct_status := CartStatusConverted, ct_updated := now\<rparr>"
  have "cart_wf (d\<lparr>carts := update_where P ?f (carts d)\<rparr>)" for P
    using assms(2) carts_ok_update [of "carts d" ?f P] by (simp add: cart_wf_def active_for_def)
  then show ?thesis using assms by (auto simp: MarkCartConverted_def Let_def split: if_splits)
qed

section \<open>Writes are local to a user: the cache contract\<close>

definition user_write :: "cart_db \<Rightarrow> id \<Rightarrow> cart_db \<Rightarrow> bool" where
  "user_write d u d' \<longleftrightarrow>
     (\<forall>u'. u' \<noteq> u \<longrightarrow> filter (active_for u') (carts d') = filter (active_for u') (carts d)) \<and>
     (\<exists>cid. (\<forall>c \<in> set (carts d). ct_id c = cid \<longrightarrow> ct_user c = u) \<and>
        filter (\<lambda>it. ci_cart it \<noteq> cid) (cart_items d') = filter (\<lambda>it. ci_cart it \<noteq> cid) (cart_items d))"

lemma user_write_load:
  assumes "user_write d u d'" "u' \<noteq> u"
  shows "GetActiveCartWithItemsForUser w d' u' = GetActiveCartWithItemsForUser w d u'"
proof -
  obtain cid where cid: "\<forall>c \<in> set (carts d). ct_id c = cid \<longrightarrow> ct_user c = u"
    "filter (\<lambda>it. ci_cart it \<noteq> cid) (cart_items d') = filter (\<lambda>it. ci_cart it \<noteq> cid) (cart_items d)"
    using assms(1) by (auto simp: user_write_def)
  have carts: "filter (active_for u') (carts d') = filter (active_for u') (carts d)"
    using assms by (auto simp: user_write_def)
  have items: "GetCartItems w (ct_id c) d' = GetCartItems w (ct_id c) d"
    if "c \<in> set (filter (active_for u') (carts d))" for c
  proof -
    have "ct_id c \<noteq> cid" using that cid(1) assms(2) by (auto simp: active_for_def)
    then have "filter (\<lambda>it. ci_cart it = ct_id c) its
        = filter (\<lambda>it. ci_cart it = ct_id c) (filter (\<lambda>it. ci_cart it \<noteq> cid) its)" for its
      by (induction its) auto
    then show ?thesis unfolding GetCartItems_def using cid(2) by metis
  qed
  show ?thesis
  proof (cases "order_by (\<lambda>a b. ct_id b \<le> ct_id a) (filter (active_for u') (carts d))")
    case Nil
    then show ?thesis by (simp add: GetActiveCartWithItemsForUser_def carts)
  next
    case (Cons c cs)
    then have "c \<in> set (filter (active_for u') (carts d))"
      by (metis list.set_intros(1) set_order_by)
    then show ?thesis using Cons items by (simp add: GetActiveCartWithItemsForUser_def carts)
  qed
qed

interpretation cart_cache: cache_client "GetActiveCartWithItemsForUser w" user_write for w
  by unfold_locales (rule user_write_load)

lemma filter_touch_other:
  assumes "cart_wf d" "c \<in> set (carts d)" "ct_user c = u" "u' \<noteq> u"
  shows "filter (active_for u') (carts (touch_cart (ct_id c) now d)) = filter (active_for u') (carts d)"
proof -
  have "ct_user r = u" if "r \<in> set (carts d)" "ct_id r = ct_id c" for r
    using that assms(1-3) by (auto simp: cart_wf_def carts_ok_def distinct_map inj_on_def)
  then show ?thesis using assms(4) unfolding touch_cart_def
    by (auto simp: active_for_def intro!: filter_update_where_other)
qed

lemma user_write_line:
  assumes "cart_wf d" "c \<in> set (carts d)" "ct_user c = u"
    and "filter (\<lambda>it. ci_cart it \<noteq> ct_id c) its = filter (\<lambda>it. ci_cart it \<noteq> ct_id c) (cart_items d)"
  shows "user_write d u (touch_cart (ct_id c) now (d\<lparr>cart_items := its\<rparr>))"
proof -
  have "ct_user r = u" if "r \<in> set (carts d)" "ct_id r = ct_id c" for r
    using that assms(1-3) by (auto simp: cart_wf_def carts_ok_def distinct_map inj_on_def)
  moreover have "filter (active_for u') (carts (touch_cart (ct_id c) now (d\<lparr>cart_items := its\<rparr>)))
      = filter (active_for u') (carts d)" if "u' \<noteq> u" for u'
    using filter_touch_other [OF assms(1-3) that] by (simp add: touch_cart_def)
  ultimately show ?thesis using assms(4) by (auto simp: user_write_def)
qed

lemma getOrCreateTx_write:
  assumes "getOrCreateTx w nid now u d = Inr (c, d')" "nid \<notin> ct_id ` set (carts d)" "0 < nid"
  shows "user_write d u d'"
proof -
  have "filter (active_for u') (carts d') = filter (active_for u') (carts d)" if "u' \<noteq> u" for u'
    using assms(1) that
    by (auto simp: getOrCreateTx_def active_for_def Let_def split: option.splits if_splits)
  moreover have "cart_items d' = cart_items d"
    using assms(1) by (auto simp: getOrCreateTx_def Let_def split: option.splits if_splits)
  moreover have "\<forall>c \<in> set (carts d). ct_id c = nid \<longrightarrow> ct_user c = u" using assms(2) by auto
  ultimately show ?thesis unfolding user_write_def by auto
qed

lemma UpsertCartItem_write:
  assumes "UpsertCartItem w nid now (ct_id c) i d = (Inr it, d')" "cart_wf d"
    and "c \<in> set (carts d)" "ct_user c = u"
  shows "user_write d u d'"
proof -
  have "filter (\<lambda>it. ci_cart it \<noteq> ct_id c) (update_where (same_line (ct_id c) v) f its)
      = filter (\<lambda>it. ci_cart it \<noteq> ct_id c) its" if "\<And>it. ci_cart (f it) = ci_cart it" for v f its
    using that by (intro filter_update_where_other) (auto simp: same_line_def)
  then show ?thesis using assms
    by (auto simp: UpsertCartItem_def Let_def split: if_splits option.splits intro!: user_write_line)
qed

lemma filter_delete_where: "(\<And>r. P r \<Longrightarrow> \<not> K r) \<Longrightarrow> filter K (delete_where P t) = filter K t"
  by (induction t) (auto simp: delete_where_def)

lemma RemoveCartItem_write:
  assumes "RemoveCartItem now (ct_id c) i d = (Inr (), d')" "cart_wf d"
    and "c \<in> set (carts d)" "ct_user c = u"
  shows "user_write d u d'"
proof -
  have "filter (\<lambda>it. ci_cart it \<noteq> cid) (delete_where (\<lambda>it. ci_id it = i \<and> ci_cart it = cid) its)
      = filter (\<lambda>it. ci_cart it \<noteq> cid) its" for cid its
    by (rule filter_delete_where) simp
  then show ?thesis
    using assms by (auto simp: RemoveCartItem_def Let_def split: if_splits intro!: user_write_line)
qed

lemma ClearCart_write:
  assumes "ClearCart now (ct_id c) d = (Inr (), d')" "cart_wf d"
    and "c \<in> set (carts d)" "ct_user c = u"
  shows "user_write d u d'"
  using assms by (auto simp: ClearCart_def filter_delete_where split: if_splits
      intro!: user_write_line)

section \<open>The service keeps the database well formed and the cache coherent\<close>

definition cart_inv :: "'c catalog_view \<Rightarrow> 'c cart_state \<Rightarrow> bool" where
  "cart_inv w s \<longleftrightarrow> cart_wf (cdb s) \<and>
     (case ccache s of None \<Rightarrow> True | Some c \<Rightarrow> coherent (GetActiveCartWithItemsForUser w (cdb s)) c)"

lemma GetActiveCart_inv:
  assumes "cart_inv w s" "GetActiveCart w now u s = (r, s')"
  shows "cart_inv w s'" "cdb s' = cdb s"
    and "0 < u \<Longrightarrow> r = GetActiveCartWithItemsForUser w (cdb s) u"
  using assms cached_read_coherent [of "GetActiveCartWithItemsForUser w (cdb s)" _ now cartTTL u]
  by (auto simp: GetActiveCart_def cart_inv_def split: if_splits option.splits prod.splits) (metis fst_conv snd_conv)+

lemma cart_inv_write:
  assumes "cart_inv w s" "user_write (cdb s) u d'" "cart_wf d'"
  shows "cart_inv w (invalidate u (s\<lparr>cdb := d'\<rparr>))"
  using assms cart_cache.upd_invalidate
  by (auto simp: cart_inv_def invalidate_def split: option.splits)

lemma invalidate_twice: "invalidate u ((invalidate u (s\<lparr>cdb := d\<rparr>))\<lparr>cdb := d'\<rparr>) = invalidate u (s\<lparr>cdb := d'\<rparr>)"
  by (cases "ccache s") (simp_all add: invalidate_def del_def)

lemma getOrCreateTx_coherent:
  assumes "getOrCreateTx w nid now u d = Inr (c, d')" "cart_wf d"
    and "nid \<notin> ct_id ` set (carts d)" "0 < nid"
    and "coherent (GetActiveCartWithItemsForUser w d) ch"
  shows "coherent (GetActiveCartWithItemsForUser w d') ch"
proof (cases "List.find (active_for u) (carts d)")
  case None
  then have "GetActiveCartWithItemsForUser w d u = Inr None"
    by (simp add: active_cart_load [OF assms(2)])
  then have "ch u = None" using assms(5) by (cases "ch u") (auto simp: coherent_def)
  moreover have "GetActiveCartWithItemsForUser w d' k = GetActiveCartWithItemsForUser w d k" if "k \<noteq> u" for k
    using user_write_load [OF getOrCreateTx_write [OF assms(1,3,4)] that] .
  ultimately show ?thesis using assms(5) unfolding coherent_def by (metis option.distinct(1))
next
  case (Some c0)
  then show ?thesis using assms(1,5) by (simp add: getOrCreateTx_def)
qed

lemma UpsertCartItem_error: "UpsertCartItem w nid now cid i d = (Inl e, d') \<Longrightarrow> d' = d"
  by (auto simp: UpsertCartItem_def Let_def split: if_splits option.splits)

lemma AddOrUpdateItem_steps:
  assumes "AddOrUpdateItem w flt n1 n2 now u i s = (r, s')"
  obtains "s' = s" "\<not> is_ok r"
  | c d where "getOrCreateTx w n1 now u (cdb s) = Inr (c, d)" "s' = s\<lparr>cdb := d\<rparr>" "\<not> is_ok r" "0 < u"
  | c d it d' where "getOrCreateTx w n1 now u (cdb s) = Inr (c, d)"
      "UpsertCartItem w n2 now (ct_id c) i d = (Inr it, d')"
      "GetActiveCart w now u (invalidate u (s\<lparr>cdb := d'\<rparr>)) = (r, s')" "0 < u"
proof -
  show ?thesis
  proof (cases "u \<le> 0 \<or> in_variant i \<le> 0 \<or> in_product i \<le> 0 \<or> in_quantity i \<le> 0 \<or> in_price i = []")
    case True
    then show ?thesis using assms that(1) by (auto simp: AddOrUpdateItem_def split: if_splits)
  next
    case guard: False
    obtain g d where g: "GetOrCreateActiveCartForUser w flt n1 now u (cdb s) = (g, d)" by fastforce
    show ?thesis
    proof (cases g)
      case (Inl e)
      then have "d = cdb s"
        using g guard by (auto simp: GetOrCreateActiveCartForUser_def dest: run_tx_error)
      then show ?thesis using assms guard g Inl that(1) by (auto simp: AddOrUpdateItem_def)
    next
      case (Inr c)
      then have tx: "getOrCreateTx w n1 now u (cdb s) = Inr (c, d)"
        using g guard by (auto simp: GetOrCreateActiveCartForUser_def run_tx_ok)
      obtain q d' where q: "UpsertCartItem w n2 now (ct_id c) i d = (q, d')" by fastforce
      show ?thesis
      proof (cases q)
        case (Inl e)
        then show ?thesis
          using assms guard g Inr q tx that(2) UpsertCartItem_error [of w n2 now "ct_id c" i d e d']
          by (auto simp: AddOrUpdateItem_def)
      next
        case (Inr it)
        then show ?thesis using assms guard g \<open>g = Inr c\<close> q tx that(3)
          by (auto simp: AddOrUpdateItem_def)
      qed
    qed
  qed
qed

text \<open>The calls of the service, with fresh row ids.\<close>

inductive cart_step :: "'c catalog_view \<Rightarrow> 'c cart_state \<Rightarrow> 'c cart_state \<Rightarrow> bool" for w where
  add: "n1 \<notin> ct_id ` set (carts (cdb s)) \<Longrightarrow> 0 < n1 \<Longrightarrow> n2 \<notin> ci_id ` set (cart_items (cdb s)) \<Longrightarrow>
    AddOrUpdateItem w flt n1 n2 now u i s = (r, s') \<Longrightarrow> cart_step w s s'"
| remove: "RemoveItem w now u i s = (r, s') \<Longrightarrow> cart_step w s s'"
| clear: "ClearActiveCart w now u s = (r', s') \<Longrightarrow> cart_step w s s'"
| get: "GetActiveCart w now u s = (r, s') \<Longrightarrow> cart_step w s s'"

inductive cart_reach :: "'c catalog_view \<Rightarrow> 'c cart_state \<Rightarrow> bool" for w where
  start: "ch = None \<or> ch = Some (\<lambda>_. None) \<Longrightarrow>
    cart_reach w \<lparr>cdb = \<lparr>carts = [], cart_items = []\<rparr>, ccache = ch\<rparr>"
| step: "cart_reach w s \<Longrightarrow> cart_step w s s' \<Longrightarrow> cart_reach w s'"

lemma AddOrUpdateItem_inv:
  assumes "AddOrUpdateItem w flt n1 n2 now u i s = (r, s')" "cart_inv w s"
    and "n1 \<notin> ct_id ` set (carts (cdb s))" "0 < n1" "n2 \<notin> ci_id ` set (cart_items (cdb s))"
  shows "cart_inv w s'"
  using assms(1)
proof (cases rule: AddOrUpdateItem_steps)
  case (2 c d)
  then show ?thesis using assms(2-4) getOrCreateTx_wf(1) getOrCreateTx_coherent
    by (fastforce simp: cart_inv_def split: option.splits)
next
  case (3 c d it d')
  have wf: "cart_wf (cdb s)" using assms(2) by (simp add: cart_inv_def)
  note g = getOrCreateTx_wf [OF 3(1) wf assms(3,4)]
  have "cart_inv w (invalidate u (s\<lparr>cdb := d\<rparr>))"
    using cart_inv_write [OF assms(2) getOrCreateTx_write [OF 3(1) assms(3,4)] g(1)] .
  moreover have "cart_wf d'" using UpsertCartItem_wf [OF 3(2) g(1)] g(4) assms(5) by simp
  moreover have "user_write d u d'"
    using UpsertCartItem_write [OF 3(2) g(1,2)] g(3) by (simp add: active_for_def)
  ultimately have "cart_inv w (invalidate u ((invalidate u (s\<lparr>cdb := d\<rparr>))\<lparr>cdb := d'\<rparr>))"
    using cart_inv_write by (fastforce simp: invalidate_def)
  then show ?thesis using GetActiveCart_inv(1) 3(3) by (simp add: invalidate_twice)
qed (use assms(2) in simp)

lemma loaded_cart:
  assumes "cart_wf d" "GetActiveCartWithItemsForUser w d u = Inr (Some c)"
  shows "cart_of c \<in> set (carts d) \<and> ct_user (cart_of c) = u
    \<and> List.find (active_for u) (carts d) = Some (cart_of c)"
  using assms(2) find_Some_iff_mem unfolding active_cart_load [OF assms(1)]
  by (fastforce simp: active_for_def split: option.splits sum.splits)

lemma RemoveItem_inv:
  assumes "RemoveItem w now u i s = (r, s')" "cart_inv w s"
  shows "cart_inv w s'"
proof -
  have wf: "cart_wf (cdb s)" using assms(2) by (simp add: cart_inv_def)
  have err: "RemoveCartItem now cid i d = (Inl e, d') \<Longrightarrow> d' = d" for cid d e d'
    by (auto simp: RemoveCartItem_def Let_def split: if_splits)
  have ok: "cart_inv w (invalidate u (s\<lparr>cdb := d'\<rparr>))"
    if "GetActiveCartWithItemsForUser w (cdb s) u = Inr (Some c)"
      "RemoveCartItem now (ct_id (cart_of c)) i (cdb s) = (Inr x, d')" for c x d'
    using that loaded_cart [OF wf that(1)] RemoveCartItem_write [OF _ wf] RemoveCartItem_wf [OF _ wf]
    by (intro cart_inv_write [OF assms(2)]) auto
  show ?thesis
    using assms ok by (auto simp: RemoveItem_def split: if_splits sum.splits option.splits prod.splits
        dest!: err dest: GetActiveCart_inv(1))
qed

lemma ClearActiveCart_inv:
  assumes "ClearActiveCart w now u s = (r, s')" "cart_inv w s"
  shows "cart_inv w s'"
proof -
  have wf: "cart_wf (cdb s)" using assms(2) by (simp add: cart_inv_def)
  have err: "ClearCart now cid d = (Inl e, d') \<Longrightarrow> d' = d" for cid d e d'
    by (auto simp: ClearCart_def split: if_splits)
  have ok: "cart_inv w (invalidate u (s\<lparr>cdb := d'\<rparr>))"
    if "GetActiveCartWithItemsForUser w (cdb s) u = Inr (Some c)"
      "ClearCart now (ct_id (cart_of c)) (cdb s) = (Inr x, d')" for c x d'
    using that loaded_cart [OF wf that(1)] ClearCart_write [OF _ wf] ClearCart_wf [OF _ wf]
    by (intro cart_inv_write [OF assms(2)]) auto
  show ?thesis
    using assms ok by (auto simp: ClearActiveCart_def split: if_splits sum.splits option.splits prod.splits
        dest!: err)
qed

lemma cart_step_inv: "cart_step w s s' \<Longrightarrow> cart_inv w s \<Longrightarrow> cart_inv w s'"
  by (induction rule: cart_step.induct)
    (blast intro: AddOrUpdateItem_inv RemoveItem_inv ClearActiveCart_inv GetActiveCart_inv)+

lemma cart_reach_inv: "cart_reach w s \<Longrightarrow> cart_inv w s"
proof (induction rule: cart_reach.induct)
  case (start ch)
  then show ?case
    by (auto simp: cart_inv_def cart_wf_def carts_ok_def lines_ok_def one_active_def coherent_empty)
qed (rule cart_step_inv)

section \<open>The basket: what a cart means to its owner\<close>

definition basket :: "cart_db \<Rightarrow> id \<Rightarrow> id \<Rightarrow> int option" where
  "basket d u v =
     (case List.find (active_for u) (carts d) of
        None \<Rightarrow> None
      | Some c \<Rightarrow> map_option ci_quantity (List.find (same_line (ct_id c) v) (cart_items d)))"

lemma basket_touch [simp]: "basket (touch_cart c now d) u = basket d u"
  by (intro ext) (auto simp: basket_def find_touch split: option.splits)

lemma basket_items:
  "List.find (active_for u) (carts d) = Some c \<Longrightarrow>
   basket (d\<lparr>cart_items := its\<rparr>) u v = map_option ci_quantity (List.find (same_line (ct_id c) v) its)"
  by (simp add: basket_def)

lemma basket_getOrCreate:
  assumes "getOrCreateTx w nid now u d = Inr (c, d')" "cart_wf d" "nid \<notin> ct_id ` set (carts d)"
  shows "basket d' u = basket d u \<and> List.find (active_for u) (carts d') = Some c"
proof (cases "List.find (active_for u) (carts d)")
  case None
  have "List.find (same_line nid v) (cart_items d) = None" for v
    using assms(2,3) by (auto simp: find_None_iff_all same_line_def cart_wf_def lines_ok_def)
  then show ?thesis using assms(1) None
    by (auto simp: getOrCreateTx_def basket_def find_snoc active_for_def Let_def split: if_splits)
next
  case (Some c0)
  then show ?thesis using assms(1) by (simp add: getOrCreateTx_def)
qed

lemma basket_upsert:
  assumes "UpsertCartItem w nid now (ct_id c) i d = (Inr it, d')"
    and "List.find (active_for u) (carts d) = Some c"
  shows "basket d' u = (basket d u)(in_variant i \<mapsto> in_quantity i)"
proof (intro ext)
  fix v
  have find_upd: "List.find (same_line (ct_id c) v) (update_where P f (cart_items d))
      = map_option (\<lambda>r. if P r then f r else r) (List.find (same_line (ct_id c) v) (cart_items d))"
    if "\<And>it. line_key (f it) = line_key it" for P f
    using that by (intro find_update_where) (simp add: same_line_key)
  obtain p where p: "decimal w (in_price i) = Some p"
    using assms(1) by (auto simp: UpsertCartItem_def split: if_splits option.splits)
  show "basket d' u v = ((basket d u)(in_variant i \<mapsto> in_quantity i)) v"
  proof (cases "List.find (same_line (ct_id c) (in_variant i)) (cart_items d)")
    case None
    then show ?thesis using assms p
      by (auto simp: UpsertCartItem_def Let_def basket_items basket_def [of d] find_snoc same_line_def
          split: if_splits option.splits)
  next
    case (Some old)
    let ?f = "\<lambda>it. it\<lparr>ci_product := in_product i, ci_quantity := in_quantity i, ci_price := p, ci_added := now\<rparr>"
    have "d' = touch_cart (ct_id c) now (d\<lparr>cart_items :=
        update_where (same_line (ct_id c) (in_variant i)) ?f (cart_items d)\<rparr>)"
      using assms(1) p Some by (auto simp: UpsertCartItem_def Let_def split: if_splits)
    moreover have "\<not> same_line (ct_id c) (in_variant i) x"
      if "List.find (same_line (ct_id c) v) (cart_items d) = Some x" "v \<noteq> in_variant i" for x
      using find_Some_iff_mem [OF that(1)] that(2) by (auto simp: same_line_def)
    moreover have "same_line (ct_id c) (in_variant i) old"
      using find_Some_iff_mem [OF Some] by simp
    ultimately show ?thesis
      using assms(2) Some find_upd [of ?f]
      by (cases "v = in_variant i"; cases "List.find (same_line (ct_id c) v) (cart_items d)")
        (auto simp: basket_items basket_def [of d] line_key_def)
  qed
qed

lemma find_cong_set: "(\<And>x. x \<in> set xs \<Longrightarrow> P x = Q x) \<Longrightarrow> List.find P xs = List.find Q xs"
  by (induction xs) auto

lemma basket_remove:
  assumes "RemoveCartItem now (ct_id c) i d = (Inr (), d')" "cart_wf d"
    and "List.find (active_for u) (carts d) = Some c"
  shows "\<exists>it \<in> set (cart_items d). ci_id it = i \<and> ci_cart it = ct_id c
    \<and> basket d' u = (basket d u)(ci_variant it := None)"
proof -
  obtain it where it: "it \<in> set (cart_items d)" "ci_id it = i" "ci_cart it = ct_id c"
    using assms(1) by (auto simp: RemoveCartItem_def Let_def list_ex_iff split: if_splits)
  have ids: "r = it" if "r \<in> set (cart_items d)" "ci_id r = i" for r
    using assms(2) it that by (auto simp: cart_wf_def lines_ok_def distinct_map inj_on_def)
  have keys: "r = it" if "r \<in> set (cart_items d)" "same_line (ct_id c) (ci_variant it) r" for r
    using assms(2) it that
    by (auto simp: cart_wf_def lines_ok_def distinct_map inj_on_def line_key_def same_line_def)
  have d': "d' = touch_cart (ct_id c) now
      (d\<lparr>cart_items := delete_where (\<lambda>r. ci_id r = i \<and> ci_cart r = ct_id c) (cart_items d)\<rparr>)"
    using assms(1) by (auto simp: RemoveCartItem_def Let_def split: if_splits)
  have "basket d' u v = ((basket d u)(ci_variant it := None)) v" for v
  proof (cases "v = ci_variant it")
    case True
    have "List.find (\<lambda>r. same_line (ct_id c) v r \<and> \<not> (ci_id r = i \<and> ci_cart r = ct_id c)) (cart_items d) = None"
      using keys it True by (auto simp: find_None_iff_all)
    then show ?thesis using True d' assms(3) by (simp add: basket_items find_delete_where)
  next
    case False
    have "List.find (\<lambda>r. same_line (ct_id c) v r \<and> \<not> (ci_id r = i \<and> ci_cart r = ct_id c)) (cart_items d)
        = List.find (same_line (ct_id c) v) (cart_items d)"
      using ids False by (intro find_cong_set) (auto simp: same_line_def)
    then show ?thesis using False d' assms(3) by (simp add: basket_items basket_def [of d] find_delete_where)
  qed
  then show ?thesis using it by blast
qed

lemma basket_clear:
  assumes "ClearCart now (ct_id c) d = (Inr (), d')" "List.find (active_for u) (carts d) = Some c"
  shows "basket d' u = (\<lambda>_. None)"
proof -
  have "List.find (\<lambda>r. same_line (ct_id c) v r \<and> ci_cart r \<noteq> ct_id c) (cart_items d) = None" for v
    by (auto simp: find_None_iff_all same_line_def)
  then show ?thesis using assms
    by (intro ext) (auto simp: ClearCart_def basket_items find_delete_where split: if_splits)
qed

section \<open>Properties\<close>

definition demo_view :: "string catalog_view" where
  "demo_view = \<lparr>decimal = Some, user_exists = (\<lambda>u. u = 4), product_exists = (\<lambda>p. p < 100),
     variant_exists = (\<lambda>v. v < 100), cards = (\<lambda>p. [''card''])\<rparr>"

abbreviation empty_carts :: "string cart_state" where
  "empty_carts \<equiv> \<lparr>cdb = \<lparr>carts = [], cart_items = []\<rparr>, ccache = Some (\<lambda>_. None)\<rparr>"

abbreviation demo_line :: cart_input where
  "demo_line \<equiv> \<lparr>in_product = 5, in_variant = 6, in_quantity = 2, in_price = ''10.00''\<rparr>"

lemma demo_empty: "cart_reach demo_view empty_carts"
  by (rule cart_reach.start) simp

lemma demo_add:
  "\<exists>c s. AddOrUpdateItem demo_view NoFault 1 1 0 4 demo_line empty_carts = (Inr c, s)"
proof -
  have "is_ok (fst (AddOrUpdateItem demo_view NoFault 1 1 0 4 demo_line empty_carts))" by code_simp
  then show ?thesis by (metis is_ok_iff prod.collapse)
qed

lemma demo_step:
  "AddOrUpdateItem demo_view NoFault 1 1 0 4 demo_line empty_carts = (r, s) \<Longrightarrow> cart_reach demo_view s"
  by (rule cart_reach.step [OF demo_empty], rule cart_step.add [of 1 _ 1]) auto



text \<open>A successful \<open>AddOrUpdateItem\<close> sets the quantity of the one variant it names (it replaces
  an older quantity, it does not add to it), leaves the other lines of the user's basket, and returns
  the user's active cart as it now is in the database.\<close>

theorem add_or_update_item_sets_line:
  assumes "cart_reach w s"
    and "n1 \<notin> ct_id ` set (carts (cdb s))" "0 < n1" "n2 \<notin> ci_id ` set (cart_items (cdb s))"
    and "AddOrUpdateItem w flt n1 n2 now u i s = (Inr r, s')"
  shows "basket (cdb s') u = (basket (cdb s) u)(in_variant i \<mapsto> in_quantity i)
    \<and> Inr r = GetActiveCartWithItemsForUser w (cdb s') u \<and> r \<noteq> None"
proof -
  note inv = cart_reach_inv [OF assms(1)]
  then have wf: "cart_wf (cdb s)" by (simp add: cart_inv_def)
  show ?thesis using assms(5)
  proof (cases rule: AddOrUpdateItem_steps)
    case (3 c d it d')
    note g = basket_getOrCreate [OF 3(1) wf assms(2)] and wfd = getOrCreateTx_wf(1) [OF 3(1) wf assms(2,3)]
    have b: "basket d' u = (basket (cdb s) u)(in_variant i \<mapsto> in_quantity i)"
      using basket_upsert [OF 3(2)] g by simp
    have "cart_inv w s'" by (rule AddOrUpdateItem_inv [OF assms(5) inv assms(2-4)])
    have "cdb s' = d'" and r: "Inr r = GetActiveCartWithItemsForUser w d' u"
    proof -
      have "cart_inv w (invalidate u (s\<lparr>cdb := d'\<rparr>))"
        using cart_inv_write [OF cart_inv_write [OF inv getOrCreateTx_write [OF 3(1) assms(2,3)] wfd],
            of u d'] UpsertCartItem_write [OF 3(2) wfd] UpsertCartItem_wf [OF 3(2) wfd]
          getOrCreateTx_wf [OF 3(1) wf assms(2,3)] assms(4)
        by (simp add: invalidate_twice active_for_def) (simp add: invalidate_def)
      then show "cdb s' = d'" "Inr r = GetActiveCartWithItemsForUser w d' u"
        using GetActiveCart_inv(2,3) [OF _ 3(3)] 3(4) by (simp_all add: invalidate_def)
    qed
    moreover have "List.find (active_for u) (carts d') \<noteq> None"
    proof
      assume "List.find (active_for u) (carts d') = None"
      then have "basket d' u (in_variant i) = None" by (simp add: basket_def)
      then show False using b by simp
    qed
    ultimately show ?thesis
      using b UpsertCartItem_wf [OF 3(2) wfd] getOrCreateTx_wf(4) [OF 3(1) wf assms(2,3)] assms(4)
      by (auto simp: active_cart_load split: option.splits sum.splits)
  qed simp_all
qed

theorem add_or_update_item_sets_line_witness:
  "\<exists>s :: string cart_state. basket (cdb s) 4 = [6 \<mapsto> 2]"
proof -
  obtain c s where a: "AddOrUpdateItem demo_view NoFault 1 1 0 4 demo_line empty_carts = (Inr c, s)"
    using demo_add by blast
  have "basket (cdb s) 4 = (basket (cdb empty_carts) 4)(6 \<mapsto> 2)"
    using add_or_update_item_sets_line [OF demo_empty _ _ _ a] by simp
  moreover have "basket (cdb empty_carts) 4 = (\<lambda>_. None)" by (simp add: basket_def fun_eq_iff)
  ultimately show ?thesis by metis
qed

lemma RemoveItem_basket:
  assumes "cart_inv w s" "RemoveItem w now u i s = (Inr r, s')"
  shows "user_write (cdb s) u (cdb s') \<and> (\<exists>it \<in> set (cart_items (cdb s)).
      ci_id it = i \<and> basket (cdb s') u = (basket (cdb s) u)(ci_variant it := None))"
proof -
  have wf: "cart_wf (cdb s)" using assms(1) by (simp add: cart_inv_def)
  obtain c d' where c: "GetActiveCartWithItemsForUser w (cdb s) u = Inr (Some c)"
    "RemoveCartItem now (ct_id (cart_of c)) i (cdb s) = (Inr (), d')"
    "GetActiveCart w now u (invalidate u (s\<lparr>cdb := d'\<rparr>)) = (Inr r, s')"
    using assms(2) by (auto simp: RemoveItem_def split: if_splits sum.splits option.splits prod.splits)
  note l = loaded_cart [OF wf c(1)]
  have w: "user_write (cdb s) u d'" "cart_wf d'"
    using RemoveCartItem_write [OF c(2) wf] RemoveCartItem_wf [OF c(2) wf] l by blast+
  have "cdb s' = d'"
    using GetActiveCart_inv(2) [OF cart_inv_write [OF assms(1) w] c(3)] by (simp add: invalidate_def)
  then show ?thesis using basket_remove [OF c(2) wf] l w by blast
qed

lemma ClearActiveCart_basket:
  assumes "cart_inv w s" "ClearActiveCart w now u s = (Inr (), s')"
  shows "s' = s \<and> basket (cdb s) u = (\<lambda>_. None)
    \<or> user_write (cdb s) u (cdb s') \<and> basket (cdb s') u = (\<lambda>_. None)"
proof -
  have wf: "cart_wf (cdb s)" using assms(1) by (simp add: cart_inv_def)
  show ?thesis
  proof (cases "GetActiveCartWithItemsForUser w (cdb s) u = Inr None")
    case True
    then have "s' = s" using assms(2) by (auto simp: ClearActiveCart_def split: if_splits)
    moreover have "List.find (active_for u) (carts (cdb s)) = None"
      using True by (auto simp: active_cart_load [OF wf] split: option.splits sum.splits)
    ultimately show ?thesis by (auto simp: basket_def fun_eq_iff)
  next
    case False
    then obtain c d' where c: "GetActiveCartWithItemsForUser w (cdb s) u = Inr (Some c)"
      "ClearCart now (ct_id (cart_of c)) (cdb s) = (Inr (), d')" "cdb s' = d'"
      using assms(2) by (auto simp: ClearActiveCart_def invalidate_def
          split: if_splits sum.splits option.splits prod.splits)
    note l = loaded_cart [OF wf c(1)]
    have "user_write (cdb s) u d'" using ClearCart_write [OF c(2) wf] l by blast
    then show ?thesis using basket_clear [OF c(2)] l c(3) by blast
  qed
qed

text \<open>A successful \<open>RemoveItem\<close> takes exactly the line with that id out of the caller's own
  active cart and leaves every other user's cart as it was.\<close>

theorem remove_item_basket:
  assumes "cart_reach w s" "RemoveItem w now u i s = (Inr r, s')"
  shows "(\<exists>it \<in> set (cart_items (cdb s)). ci_id it = i
      \<and> basket (cdb s') u = (basket (cdb s) u)(ci_variant it := None))
    \<and> (v = u \<or> GetActiveCartWithItemsForUser w (cdb s') v = GetActiveCartWithItemsForUser w (cdb s) v)"
  using RemoveItem_basket [OF cart_reach_inv [OF assms(1)] assms(2)] user_write_load by metis

theorem remove_item_basket_witness:
  "\<exists>s x s'. RemoveItem demo_view 1 4 1 s = (Inr x, s') \<and> (\<exists>it \<in> set (cart_items (cdb s)).
      ci_id it = 1 \<and> basket (cdb s') 4 = (basket (cdb s) 4)(ci_variant it := None))"
proof -
  let ?s = "snd (AddOrUpdateItem demo_view NoFault 1 1 0 4 demo_line empty_carts)"
  let ?r = "RemoveItem demo_view 1 4 1 (snd (AddOrUpdateItem demo_view NoFault 1 1 0 4 demo_line empty_carts))"
  have "is_ok (fst ?r)" by code_simp
  then obtain x where x: "?r = (Inr x, snd ?r)" by (metis is_ok_iff prod.collapse)
  have "cart_reach demo_view ?s" by (rule demo_step) (rule prod.collapse [symmetric])
  from remove_item_basket [OF this x, of 4] x show ?thesis by blast
qed

end
