(* ===== verification/Addresses.thy ===== *)
theory Addresses
  imports Prelude
begin

text \<open>
  Saved addresses: \<open>internal/repository/postgres/user_address_repo.go\<close> and
  \<open>internal/service/user/service.go\<close>. Whether the columns accept an address (lengths, the foreign key
  to the user) is the argument \<open>fits\<close>. \<open>GetAddressByID\<close> compares the driver's error with
  \<open>sql.ErrNoRows\<close> by \<open>==\<close>; whether the driver's own \<open>ErrNoRows\<close> is that very value is the argument
  \<open>same_sentinel\<close>.
\<close>

section \<open>Data\<close>

datatype address_error = ErrNotFound | AddressOfOther | AddressDbError

record address =
  ad_id :: id
  ad_user :: id
  ad_full_name :: string
  ad_phone :: string
  ad_country :: string
  ad_county :: "string option"
  ad_city :: string
  ad_area :: "string option"
  ad_postal :: "string option"
  ad_line1 :: string
  ad_line2 :: "string option"
  ad_default :: bool
  ad_created :: instant

record create_address_req =
  ca_full_name :: string
  ca_phone :: string
  ca_country :: string
  ca_county :: "string option"
  ca_city :: string
  ca_area :: "string option"
  ca_postal :: "string option"
  ca_line1 :: string
  ca_line2 :: "string option"
  ca_default :: bool

record update_address_req =
  ua_full_name :: "string option"
  ua_phone :: "string option"
  ua_country :: "string option"
  ua_county :: "string option"
  ua_city :: "string option"
  ua_area :: "string option"
  ua_postal :: "string option"
  ua_line1 :: "string option"
  ua_line2 :: "string option"
  ua_default :: "bool option"

type_synonym addresses = "address list"

section \<open>Repository\<close>

definition addr_Create ::
  "(address \<Rightarrow> bool) \<Rightarrow> id \<Rightarrow> instant \<Rightarrow> address \<Rightarrow> addresses \<Rightarrow> (address_error + address) \<times> addresses" where
  "addr_Create fits nid now a t =
     (let a' = a\<lparr>ad_id := nid, ad_created := now\<rparr> in
      if fits a' then (Inr a', t @ [a']) else (Inl AddressDbError, t))"

definition addr_GetByID :: "bool \<Rightarrow> id \<Rightarrow> addresses \<Rightarrow> address_error + address" where
  "addr_GetByID same_sentinel i t =
     (case List.find (\<lambda>a. ad_id a = i) t of
        None \<Rightarrow> Inl (if same_sentinel then ErrNotFound else AddressDbError)
      | Some a \<Rightarrow> Inr a)"

text \<open>\<open>ORDER BY is_default DESC, created_at DESC\<close>.\<close>

definition before :: "address \<Rightarrow> address \<Rightarrow> bool" where
  "before a b \<longleftrightarrow> (ad_default a \<and> \<not> ad_default b) \<or> (ad_default a = ad_default b \<and> ad_created b \<le> ad_created a)"

definition addr_ListByUser :: "id \<Rightarrow> addresses \<Rightarrow> address list" where
  "addr_ListByUser u t = order_by before (filter (\<lambda>a. ad_user a = u) t)"

definition addr_Update ::
  "(address \<Rightarrow> bool) \<Rightarrow> address \<Rightarrow> addresses \<Rightarrow> (address_error + unit) \<times> addresses" where
  "addr_Update fits a t =
     (if \<not> list_ex (\<lambda>r. ad_id r = ad_id a) t then (Inl ErrNotFound, t)
      else if \<not> fits a then (Inl AddressDbError, t)
      else (Inr (), update_where (\<lambda>r. ad_id r = ad_id a)
        (\<lambda>r. r\<lparr>ad_full_name := ad_full_name a, ad_phone := ad_phone a, ad_country := ad_country a,
               ad_county := ad_county a, ad_city := ad_city a, ad_area := ad_area a,
               ad_postal := ad_postal a, ad_line1 := ad_line1 a, ad_line2 := ad_line2 a,
               ad_default := ad_default a\<rparr>) t))"

definition addr_Delete :: "id \<Rightarrow> addresses \<Rightarrow> (address_error + unit) \<times> addresses" where
  "addr_Delete i t =
     (if \<not> list_ex (\<lambda>a. ad_id a = i) t then (Inl ErrNotFound, t)
      else (Inr (), delete_where (\<lambda>a. ad_id a = i) t))"

text \<open>Clear the user's default, then set the one address, in a transaction.\<close>

definition set_default_tx :: "id \<Rightarrow> id \<Rightarrow> addresses \<Rightarrow> address_error + unit \<times> addresses" where
  "set_default_tx u i t =
     (let t1 = update_where (\<lambda>a. ad_user a = u) (\<lambda>a. a\<lparr>ad_default := False\<rparr>) t;
          hit = (\<lambda>a. ad_id a = i \<and> ad_user a = u)
      in if \<not> list_ex hit t1 then Inl ErrNotFound
         else Inr ((), update_where hit (\<lambda>a. a\<lparr>ad_default := True\<rparr>) t1))"

definition addr_SetDefault ::
  "tx_fault \<Rightarrow> id \<Rightarrow> id \<Rightarrow> addresses \<Rightarrow> (address_error + unit) \<times> addresses" where
  "addr_SetDefault flt u i t = run_tx flt AddressDbError (set_default_tx u i) t"

section \<open>Service\<close>

definition promote ::
  "tx_fault \<Rightarrow> id \<Rightarrow> address \<Rightarrow> addresses \<Rightarrow> (address_error + address) \<times> addresses" where
  "promote flt u a t =
     (if ad_default a
      then (case addr_SetDefault flt u (ad_id a) t of (Inl e, t') \<Rightarrow> (Inl e, t') | (Inr _, t') \<Rightarrow> (Inr a, t'))
      else (Inr a, t))"

definition CreateAddress ::
  "(address \<Rightarrow> bool) \<Rightarrow> tx_fault \<Rightarrow> id \<Rightarrow> instant \<Rightarrow> id \<Rightarrow> create_address_req \<Rightarrow> addresses
     \<Rightarrow> (address_error + address) \<times> addresses" where
  "CreateAddress fits flt nid now u r t =
     (case addr_Create fits nid now
        \<lparr>ad_id = 0, ad_user = u, ad_full_name = ca_full_name r, ad_phone = ca_phone r,
         ad_country = ca_country r, ad_county = ca_county r, ad_city = ca_city r, ad_area = ca_area r,
         ad_postal = ca_postal r, ad_line1 = ca_line1 r, ad_line2 = ca_line2 r,
         ad_default = ca_default r, ad_created = 0\<rparr> t of
        (Inl e, t') \<Rightarrow> (Inl e, t')
      | (Inr a, t') \<Rightarrow> promote flt u a t')"

definition GetAddressByID :: "bool \<Rightarrow> id \<Rightarrow> id \<Rightarrow> addresses \<Rightarrow> address_error + address" where
  "GetAddressByID ss u i t =
     (case addr_GetByID ss i t of
        Inl e \<Rightarrow> Inl e
      | Inr a \<Rightarrow> if ad_user a \<noteq> u then Inl AddressOfOther else Inr a)"

definition or_keep :: "'a option \<Rightarrow> 'a \<Rightarrow> 'a" where
  "or_keep m x = (case m of None \<Rightarrow> x | Some y \<Rightarrow> y)"

definition or_keep_opt :: "'a option \<Rightarrow> 'a option \<Rightarrow> 'a option" where
  "or_keep_opt m x = (case m of None \<Rightarrow> x | Some y \<Rightarrow> Some y)"

definition UpdateAddress ::
  "(address \<Rightarrow> bool) \<Rightarrow> bool \<Rightarrow> tx_fault \<Rightarrow> id \<Rightarrow> id \<Rightarrow> update_address_req \<Rightarrow> addresses
     \<Rightarrow> (address_error + address) \<times> addresses" where
  "UpdateAddress fits ss flt u i r t =
     (case GetAddressByID ss u i t of
        Inl e \<Rightarrow> (Inl e, t)
      | Inr a \<Rightarrow>
          let a' = a\<lparr>ad_full_name := or_keep (ua_full_name r) (ad_full_name a),
                     ad_phone := or_keep (ua_phone r) (ad_phone a),
                     ad_country := or_keep (ua_country r) (ad_country a),
                     ad_county := or_keep_opt (ua_county r) (ad_county a),
                     ad_city := or_keep (ua_city r) (ad_city a),
                     ad_area := or_keep_opt (ua_area r) (ad_area a),
                     ad_postal := or_keep_opt (ua_postal r) (ad_postal a),
                     ad_line1 := or_keep (ua_line1 r) (ad_line1 a),
                     ad_line2 := or_keep_opt (ua_line2 r) (ad_line2 a),
                     ad_default := or_keep (ua_default r) (ad_default a)\<rparr>
          in (case addr_Update fits a' t of
                (Inl e, t') \<Rightarrow> (Inl e, t')
              | (Inr _, t') \<Rightarrow> promote flt u a' t'))"

definition DeleteAddress :: "bool \<Rightarrow> id \<Rightarrow> id \<Rightarrow> addresses \<Rightarrow> (address_error + unit) \<times> addresses" where
  "DeleteAddress ss u i t =
     (case GetAddressByID ss u i t of Inl e \<Rightarrow> (Inl e, t) | Inr _ \<Rightarrow> addr_Delete i t)"

definition SetDefaultAddress ::
  "bool \<Rightarrow> tx_fault \<Rightarrow> id \<Rightarrow> id \<Rightarrow> addresses \<Rightarrow> (address_error + unit) \<times> addresses" where
  "SetDefaultAddress ss flt u i t =
     (case GetAddressByID ss u i t of Inl e \<Rightarrow> (Inl e, t) | Inr _ \<Rightarrow> addr_SetDefault flt u i t)"

text \<open>\<open>handleError\<close> of \<open>internal/handlers/user/handler.go\<close>.\<close>

fun address_status_code :: "address_error \<Rightarrow> nat" where
  "address_status_code ErrNotFound = 404"
| "address_status_code _ = 500"

section \<open>Invariant\<close>

text \<open>Ids are unique; a user has at most one default address.\<close>

definition one_default :: "addresses \<Rightarrow> bool" where
  "one_default t \<longleftrightarrow> (\<forall>a \<in> set t. \<forall>b \<in> set t.
     ad_user a = ad_user b \<and> ad_default a \<and> ad_default b \<longrightarrow> ad_id a = ad_id b)"

definition addr_wf :: "addresses \<Rightarrow> bool" where
  "addr_wf t \<longleftrightarrow> distinct (map ad_id t) \<and> one_default t"

lemma one_defaultI:
  "(\<And>a b. a \<in> set t \<Longrightarrow> b \<in> set t \<Longrightarrow> ad_user a = ad_user b \<Longrightarrow> ad_default a \<Longrightarrow> ad_default b
     \<Longrightarrow> ad_id a = ad_id b) \<Longrightarrow> one_default t"
  unfolding one_default_def by blast

lemma one_defaultD:
  "one_default t \<Longrightarrow> a \<in> set t \<Longrightarrow> b \<in> set t \<Longrightarrow> ad_user a = ad_user b \<Longrightarrow> ad_default a
     \<Longrightarrow> ad_default b \<Longrightarrow> ad_id a = ad_id b"
  unfolding one_default_def by blast

lemma one_default_mono:
  assumes "one_default t"
    and "\<And>a. a \<in> set t' \<Longrightarrow> ad_default a \<Longrightarrow>
      \<exists>b \<in> set t. ad_id b = ad_id a \<and> ad_user b = ad_user a \<and> ad_default b"
  shows "one_default t'"
proof (rule one_defaultI)
  fix a b
  assume ab: "a \<in> set t'" "b \<in> set t'" "ad_user a = ad_user b" "ad_default a" "ad_default b"
  obtain x where "x \<in> set t" "ad_id x = ad_id a" "ad_user x = ad_user a" "ad_default x"
    using assms(2) [OF ab(1,4)] by blast
  moreover obtain y where "y \<in> set t" "ad_id y = ad_id b" "ad_user y = ad_user b" "ad_default y"
    using assms(2) [OF ab(2,5)] by blast
  ultimately show "ad_id a = ad_id b" using one_defaultD [OF assms(1), of x y] ab(3) by simp
qed

lemma one_default_subset:
  "one_default t \<Longrightarrow> \<forall>a \<in> set t'. ad_default a \<longrightarrow> a \<in> set t \<Longrightarrow> one_default t'"
  by (erule one_default_mono) blast

text \<open>The rows of the other users.\<close>

definition others :: "id \<Rightarrow> addresses \<Rightarrow> addresses" where
  "others u t = filter (\<lambda>a. ad_user a \<noteq> u) t"

lemma others_update_where:
  "(\<And>a. a \<in> set t \<Longrightarrow> P a \<Longrightarrow> ad_user a = u) \<Longrightarrow> (\<And>a. ad_user (f a) = ad_user a) \<Longrightarrow>
   others u (update_where P f t) = others u t"
  unfolding others_def by (rule filter_update_where_other) auto

lemma set_default_tx_spec:
  assumes "set_default_tx u i t = Inr (x, t')"
  shows "others u t' = others u t" "map ad_id t' = map ad_id t"
    "\<And>a. a \<in> set t' \<Longrightarrow> ad_user a = u \<Longrightarrow> ad_default a \<longleftrightarrow> ad_id a = i"
    "\<exists>a \<in> set t'. ad_user a = u \<and> ad_id a = i \<and> ad_default a"
proof -
  let ?t1 = "update_where (\<lambda>a. ad_user a = u) (\<lambda>a. a\<lparr>ad_default := False\<rparr>) t"
  have t': "t' = update_where (\<lambda>a. ad_id a = i \<and> ad_user a = u) (\<lambda>a. a\<lparr>ad_default := True\<rparr>) ?t1"
    and hit: "list_ex (\<lambda>a. ad_id a = i \<and> ad_user a = u) ?t1"
    using assms by (auto simp: set_default_tx_def Let_def split: if_splits)
  have "others u ?t1 = others u t" by (rule others_update_where) simp_all
  moreover have "others u t' = others u ?t1" unfolding t' by (rule others_update_where) simp_all
  ultimately show "others u t' = others u t" by simp
  show "map ad_id t' = map ad_id t" unfolding t' by (simp add: map_update_where)
  show "\<And>a. a \<in> set t' \<Longrightarrow> ad_user a = u \<Longrightarrow> ad_default a \<longleftrightarrow> ad_id a = i"
  proof -
    fix a
    assume "a \<in> set t'" "ad_user a = u"
    then obtain c where c: "c \<in> set ?t1"
      "a = (if ad_id c = i \<and> ad_user c = u then c\<lparr>ad_default := True\<rparr> else c)"
      unfolding t' set_update_where by blast
    then obtain b where "c = (if ad_user b = u then b\<lparr>ad_default := False\<rparr> else b)"
      unfolding set_update_where by blast
    with c(2) \<open>ad_user a = u\<close> show "ad_default a \<longleftrightarrow> ad_id a = i" by (simp split: if_splits)
  qed
  obtain a where "a \<in> set ?t1" "ad_id a = i" "ad_user a = u" using hit by (auto simp: list_ex_iff)
  moreover from this have "a\<lparr>ad_default := True\<rparr> \<in> set t'" unfolding t' set_update_where [of _ _ ?t1]
    by (intro image_eqI [of _ _ a]) simp_all
  ultimately show "\<exists>a \<in> set t'. ad_user a = u \<and> ad_id a = i \<and> ad_default a"
    by (intro bexI [of _ "a\<lparr>ad_default := True\<rparr>"]) simp_all
qed

text \<open>Setting the default repairs the caller's rows, given that the others' are in order.\<close>

lemma set_default_tx_wf:
  assumes "set_default_tx u i t = Inr (x, t')" "distinct (map ad_id t)" "one_default (others u t)"
  shows "addr_wf t'"
proof -
  note s = set_default_tx_spec [OF assms(1)]
  have "ad_id a = ad_id b"
    if "a \<in> set t'" "b \<in> set t'" "ad_user a = ad_user b" "ad_default a" "ad_default b" for a b
  proof (cases "ad_user a = u")
    case True
    then show ?thesis using s(3) [OF that(1)] s(3) [OF that(2)] that(3-5) by simp
  next
    case False
    then have "a \<in> set (others u t')" "b \<in> set (others u t')" using that by (simp_all add: others_def)
    then show ?thesis
      using one_defaultD [OF assms(3) _ _ that(3-5)] unfolding s(1) by blast
  qed
  then have "one_default t'" by (rule one_defaultI)
  then show ?thesis using assms(2) s(2) by (simp add: addr_wf_def)
qed

lemma one_default_others: "one_default t \<Longrightarrow> one_default (others u t)"
  by (erule one_default_subset) (simp add: others_def)

lemma promote_spec:
  assumes "promote flt u a t = (r, t')"
  shows "(t' = t \<and> (ad_default a \<longrightarrow> \<not> is_ok r)) \<or> (\<exists>x. set_default_tx u (ad_id a) t = Inr (x, t'))"
  using assms by (auto simp: promote_def addr_SetDefault_def run_tx_def split: if_splits sum.splits)

lemma addr_wf_snoc:
  assumes "addr_wf t" "ad_id a \<notin> ad_id ` set t" "\<not> ad_default a"
  shows "addr_wf (t @ [a])"
proof -
  have "one_default (t @ [a])"
    using assms(1,3) by - (rule one_default_subset [of t], simp_all add: addr_wf_def)
  then show ?thesis using assms(1,2) by (simp add: addr_wf_def)
qed

lemma addr_wf_delete:
  assumes "addr_wf t"
  shows "addr_wf (delete_where P t)"
proof -
  have "one_default (delete_where P t)"
    using assms by - (rule one_default_subset [of t], simp_all add: addr_wf_def set_delete_where)
  then show ?thesis using assms by (simp add: addr_wf_def distinct_map_delete_where)
qed

lemma GetAddressByID_ok:
  "GetAddressByID ss u i t = Inr a \<Longrightarrow> a \<in> set t \<and> ad_id a = i \<and> ad_user a = u"
  using find_Some_iff_mem
  by (fastforce simp: GetAddressByID_def addr_GetByID_def split: option.splits sum.splits if_splits)

text \<open>What \<open>CreateAddress\<close> and \<open>UpdateAddress\<close> did before the promotion.\<close>

lemma CreateAddress_steps:
  assumes "CreateAddress fits flt nid now u r t = (x, t')"
  shows "t' = t \<or> (\<exists>a. ad_id a = nid \<and> ad_user a = u \<and> ad_default a = ca_default r
    \<and> promote flt u a (t @ [a]) = (x, t'))"
proof -
  let ?a = "\<lparr>ad_id = nid, ad_user = u, ad_full_name = ca_full_name r, ad_phone = ca_phone r,
      ad_country = ca_country r, ad_county = ca_county r, ad_city = ca_city r, ad_area = ca_area r,
      ad_postal = ca_postal r, ad_line1 = ca_line1 r, ad_line2 = ca_line2 r,
      ad_default = ca_default r, ad_created = now\<rparr>"
  have "t' = t \<or> promote flt u ?a (t @ [?a]) = (x, t')"
    using assms by (simp add: CreateAddress_def addr_Create_def Let_def split: if_splits)
  then show ?thesis by (elim disjE) (simp, intro disjI2 exI [of _ ?a], simp)
qed

lemma UpdateAddress_steps:
  assumes "UpdateAddress fits ss flt u i r t = (x, t')" "distinct (map ad_id t)"
  shows "t' = t \<or> (\<exists>a' f. ad_id a' = i \<and> (\<forall>b. ad_id (f b) = ad_id b \<and> ad_user (f b) = ad_user b
        \<and> ad_default (f b) = ad_default a')
      \<and> (\<forall>b \<in> set t. ad_id b = i \<longrightarrow> ad_user b = u)
      \<and> promote flt u a' (update_where (\<lambda>b. ad_id b = i) f t) = (x, t'))"
proof (cases "GetAddressByID ss u i t")
  case (Inl e)
  then show ?thesis using assms(1) by (simp add: UpdateAddress_def)
next
  case (Inr a)
  then have a: "a \<in> set t" "ad_id a = i" "ad_user a = u" using GetAddressByID_ok by auto
  then have own: "\<forall>b \<in> set t. ad_id b = i \<longrightarrow> ad_user b = u"
    using assms(2) by (auto simp: distinct_map inj_on_def)
  let ?a = "a\<lparr>ad_full_name := or_keep (ua_full_name r) (ad_full_name a),
      ad_phone := or_keep (ua_phone r) (ad_phone a), ad_country := or_keep (ua_country r) (ad_country a),
      ad_county := or_keep_opt (ua_county r) (ad_county a), ad_city := or_keep (ua_city r) (ad_city a),
      ad_area := or_keep_opt (ua_area r) (ad_area a), ad_postal := or_keep_opt (ua_postal r) (ad_postal a),
      ad_line1 := or_keep (ua_line1 r) (ad_line1 a), ad_line2 := or_keep_opt (ua_line2 r) (ad_line2 a),
      ad_default := or_keep (ua_default r) (ad_default a)\<rparr>"
  let ?f = "\<lambda>b. b\<lparr>ad_full_name := ad_full_name ?a, ad_phone := ad_phone ?a, ad_country := ad_country ?a,
      ad_county := ad_county ?a, ad_city := ad_city ?a, ad_area := ad_area ?a,
      ad_postal := ad_postal ?a, ad_line1 := ad_line1 ?a, ad_line2 := ad_line2 ?a,
      ad_default := ad_default ?a\<rparr>"
  show ?thesis
  proof (cases "t' = t")
    case False
    then have "promote flt u ?a (update_where (\<lambda>b. ad_id b = i) ?f t) = (x, t')"
      using assms(1) Inr a by (auto simp: UpdateAddress_def addr_Update_def Let_def split: if_splits)
    then show ?thesis using own a by (intro disjI2 exI [of _ ?a] exI [of _ ?f]) simp
  qed simp
qed

inductive addr_step :: "tx_fault \<Rightarrow> id \<Rightarrow> addresses \<Rightarrow> bool \<Rightarrow> addresses \<Rightarrow> bool" for flt where
  create: "nid \<notin> ad_id ` set t \<Longrightarrow> CreateAddress fits flt nid now u r t = (x, t') \<Longrightarrow>
    addr_step flt u t (is_ok x) t'"
| update: "UpdateAddress fits ss flt u i r' t = (x, t') \<Longrightarrow> addr_step flt u t (is_ok x) t'"
| delete: "DeleteAddress ss u i t = (y, t') \<Longrightarrow> addr_step flt u t (is_ok y) t'"
| set_default: "SetDefaultAddress ss flt u i t = (y, t') \<Longrightarrow> addr_step flt u t (is_ok y) t'"

lemma promote_others: "promote flt u a t = (x, t') \<Longrightarrow> others u t' = others u t"
  using promote_spec set_default_tx_spec(1) by metis

lemma DeleteAddress_others:
  assumes "DeleteAddress ss u i t = (y, t')" "distinct (map ad_id t)"
  shows "others u t' = others u t"
proof (cases "t' = t")
  case False
  then obtain a where a: "a \<in> set t" "ad_id a = i" "ad_user a = u"
    and t': "t' = delete_where (\<lambda>a. ad_id a = i) t"
    using assms(1) GetAddressByID_ok
    by (fastforce simp: DeleteAddress_def addr_Delete_def split: sum.splits if_splits)
  have "ad_user b = u" if "b \<in> set t" "ad_id b = i" for b
    using assms(2) a that by (auto simp: distinct_map inj_on_def)
  then show ?thesis unfolding t' others_def delete_where_def filter_filter
    by (intro filter_cong) auto
qed simp

lemma SetDefaultAddress_others:
  assumes "SetDefaultAddress ss flt u i t = (y, t')"
  shows "others u t' = others u t"
proof (cases "t' = t")
  case False
  then show ?thesis
    using assms set_default_tx_spec(1) run_tx_cases [of flt AddressDbError "set_default_tx u i" t y t']
    by (auto simp: SetDefaultAddress_def addr_SetDefault_def split: sum.splits)
qed simp

lemma CreateAddress_others:
  assumes "CreateAddress fits flt nid now u r t = (x, t')"
  shows "others u t' = others u t"
  using CreateAddress_steps [OF assms]
proof (elim disjE exE conjE)
  fix a assume "ad_user a = u" "promote flt u a (t @ [a]) = (x, t')"
  then show ?thesis using promote_others [of flt u a "t @ [a]" x t'] by (simp add: others_def)
qed simp

lemma UpdateAddress_others:
  assumes "UpdateAddress fits ss flt u i r t = (x, t')" "distinct (map ad_id t)"
  shows "others u t' = others u t"
  using UpdateAddress_steps [OF assms]
proof (elim disjE exE conjE)
  fix a f
  assume "\<forall>b. ad_id (f b) = ad_id b \<and> ad_user (f b) = ad_user b \<and> ad_default (f b) = ad_default a"
    "\<forall>b \<in> set t. ad_id b = i \<longrightarrow> ad_user b = u"
    "promote flt u a (update_where (\<lambda>b. ad_id b = i) f t) = (x, t')"
  then show ?thesis using promote_others others_update_where [of t "\<lambda>b. ad_id b = i" u f] by metis
qed simp

lemma addr_step_others:
  "addr_step flt u t ok t' \<Longrightarrow> distinct (map ad_id t) \<Longrightarrow> others u t' = others u t"
  by (erule addr_step.cases)
    (simp_all add: CreateAddress_others UpdateAddress_others DeleteAddress_others
      SetDefaultAddress_others)

lemma promote_wf:
  assumes "promote NoFault u a t = (x, t')" "distinct (map ad_id t)" "one_default (others u t)"
    and "\<not> ad_default a \<Longrightarrow> addr_wf t"
    and "ad_default a \<Longrightarrow> \<exists>b \<in> set t. ad_id b = ad_id a \<and> ad_user b = u"
  shows "addr_wf t'"
proof (cases "ad_default a")
  case False
  then show ?thesis using assms(1,4) by (auto simp: promote_def)
next
  case True
  then obtain b where b: "b \<in> set t" "ad_id b = ad_id a" "ad_user b = u" using assms(5) by blast
  let ?t1 = "update_where (\<lambda>a. ad_user a = u) (\<lambda>a. a\<lparr>ad_default := False\<rparr>) t"
  have "b\<lparr>ad_default := False\<rparr> \<in> set ?t1"
    unfolding set_update_where using b by (intro image_eqI [of _ _ b]) auto
  then have "list_ex (\<lambda>c. ad_id c = ad_id a \<and> ad_user c = u) ?t1"
    using b by (auto simp: list_ex_iff intro!: bexI [of _ "b\<lparr>ad_default := False\<rparr>"])
  then obtain x' t'' where "set_default_tx u (ad_id a) t = Inr (x', t'')"
    by (auto simp: set_default_tx_def Let_def)
  then show ?thesis
    using assms(1) True set_default_tx_wf [OF _ assms(2,3)]
    by (auto simp: promote_def addr_SetDefault_def run_tx_def)
qed

lemma addr_step_wf:
  assumes "addr_step NoFault u t ok t'" "addr_wf t"
  shows "addr_wf t'"
  using assms(1)
proof (cases rule: addr_step.cases)
  case (create nid fits now r x)
  show ?thesis
  proof (cases "t' = t")
    case False
    then obtain a where a: "ad_id a = nid" "ad_user a = u"
      "promote NoFault u a (t @ [a]) = (x, t')" using CreateAddress_steps [OF create(3)] by blast
    show ?thesis
    proof (rule promote_wf [OF a(3)])
      show "distinct (map ad_id (t @ [a]))" using create(2) assms(2) a(1) by (simp add: addr_wf_def)
      show "one_default (others u (t @ [a]))"
        using assms(2) a(2) one_default_others [of t u] by (simp add: others_def addr_wf_def)
      show "addr_wf (t @ [a])" if "\<not> ad_default a"
        using addr_wf_snoc assms(2) create(2) a(1) that by simp
    qed (use a in auto)
  qed (use assms(2) in simp)
next
  case (update fits ss i r x)
  have d: "distinct (map ad_id t)" using assms(2) by (simp add: addr_wf_def)
  show ?thesis
  proof (cases "t' = t")
    case False
    then obtain a f where a: "ad_id a = i"
      "\<And>b. ad_id (f b) = ad_id b \<and> ad_user (f b) = ad_user b \<and> ad_default (f b) = ad_default a"
      "\<forall>b \<in> set t. ad_id b = i \<longrightarrow> ad_user b = u"
      "promote NoFault u a (update_where (\<lambda>b. ad_id b = i) f t) = (x, t')"
      using UpdateAddress_steps [OF update(2) d] by metis
    have ex: "\<exists>b \<in> set t. ad_id b = i"
      using update(2) False GetAddressByID_ok [of ss u i t]
      by (auto simp: UpdateAddress_def split: sum.splits)
    show ?thesis
    proof (rule promote_wf [OF a(4)])
      show "distinct (map ad_id (update_where (\<lambda>b. ad_id b = i) f t))"
        using d a(2) by (simp add: map_update_where)
      show "one_default (others u (update_where (\<lambda>b. ad_id b = i) f t))"
        using others_update_where [of t "\<lambda>b. ad_id b = i" u f] a(2,3) assms(2) one_default_others
        by (simp add: addr_wf_def)
      show "addr_wf (update_where (\<lambda>b. ad_id b = i) f t)" if "\<not> ad_default a"
      proof -
        have "one_default (update_where (\<lambda>b. ad_id b = i) f t)"
          using assms(2) a(2) that
          by - (rule one_default_subset [of t], simp add: addr_wf_def, auto simp: set_update_where)
        then show ?thesis using d a(2) by (simp add: addr_wf_def map_update_where)
      qed
      show "\<exists>b \<in> set (update_where (\<lambda>b. ad_id b = i) f t). ad_id b = ad_id a \<and> ad_user b = u"
      proof -
        obtain b where b: "b \<in> set t" "ad_id b = i" using ex by blast
        then have "f b \<in> set (update_where (\<lambda>b. ad_id b = i) f t)"
          unfolding set_update_where by (intro image_eqI [of _ _ b]) auto
        then show ?thesis using a b by (intro bexI [of _ "f b"]) auto
      qed
    qed
  qed (use assms(2) in simp)
next
  case (delete ss i y)
  then show ?thesis using assms(2)
    by (auto simp: DeleteAddress_def addr_Delete_def addr_wf_delete split: sum.splits if_splits)
next
  case (set_default ss i y)
  show ?thesis
  proof (cases "t' = t")
    case False
    then have "\<exists>x. set_default_tx u i t = Inr (x, t')"
      using set_default(2) run_tx_cases [of NoFault AddressDbError "set_default_tx u i" t y t']
      by (auto simp: SetDefaultAddress_def addr_SetDefault_def split: sum.splits)
    then show ?thesis
      using set_default_tx_wf assms(2) one_default_others unfolding addr_wf_def by blast
  qed (use assms(2) in simp)
qed

section \<open>Properties\<close>

inductive addr_reach :: "addresses \<Rightarrow> bool" where
  empty: "addr_reach []"
| step: "addr_reach t \<Longrightarrow> addr_step NoFault u t ok t' \<Longrightarrow> addr_reach t'"

lemma addr_reach_wf: "addr_reach t \<Longrightarrow> addr_wf t"
proof (induction rule: addr_reach.induct)
  case empty
  show ?case by (simp add: addr_wf_def one_default_def)
qed (rule addr_step_wf)

abbreviation home_req :: "bool \<Rightarrow> create_address_req" where
  "home_req d \<equiv> \<lparr>ca_full_name = ''A'', ca_phone = ''1'', ca_country = ''KE'', ca_county = None,
     ca_city = ''N'', ca_area = None, ca_postal = None, ca_line1 = ''x'', ca_line2 = None, ca_default = d\<rparr>"

abbreviation two_addresses :: addresses where
  "two_addresses \<equiv> snd (CreateAddress (\<lambda>_. True) NoFault 2 6 4 (home_req True)
     (snd (CreateAddress (\<lambda>_. True) NoFault 1 5 4 (home_req True) [])))"

lemma two_addresses_reach: "addr_reach two_addresses"
proof -
  let ?a = "snd (CreateAddress (\<lambda>_. True) NoFault 1 5 4 (home_req True) [])"
  have "1 \<notin> ad_id ` set []" by simp
  from addr_reach.step [OF addr_reach.empty addr_step.create [OF this prod.collapse [symmetric]]]
  have "addr_reach ?a" .
  moreover have "2 \<notin> ad_id ` set ?a" by code_simp
  ultimately show ?thesis
    using addr_reach.step addr_step.create [OF _ prod.collapse [symmetric]] by blast
qed

text \<open>C7. While the transactions neither fail to begin nor to commit, no sequence of calls ever
  gives a user two default addresses.\<close>

theorem address_invariant:
  assumes "addr_reach t"
  shows "addr_wf t"
  using assms by (rule addr_reach_wf)

theorem address_invariant_witness: "one_default two_addresses \<and> length two_addresses = 2"
proof -
  have "length two_addresses = 2" by code_simp
  then show ?thesis using address_invariant [OF two_addresses_reach] by (simp add: addr_wf_def)
qed

text \<open>Whatever a user calls, with whatever address id and database fault, the addresses of all
  other users stay as they are, in value and order.\<close>

theorem address_isolation:
  assumes "addr_step flt u t ok t'" "distinct (map ad_id t)"
  shows "others u t' = others u t"
  using assms by (rule addr_step_others)

theorem address_isolation_witness:
  "others 9 (snd (SetDefaultAddress True NoFault 9 1 two_addresses)) = others 9 two_addresses"
proof -
  have "distinct (map ad_id two_addresses)" by code_simp
  moreover have "addr_step NoFault 9 two_addresses
      (is_ok (fst (SetDefaultAddress True NoFault 9 1 two_addresses)))
      (snd (SetDefaultAddress True NoFault 9 1 two_addresses))"
    by (rule addr_step.set_default) (rule prod.collapse [symmetric])
  ultimately show ?thesis by (rule address_isolation [rotated])
qed

text \<open>Creating a default address is not atomic: when the second transaction fails, the call
  returns an error and the new row stays, flagged default beside the old default.\<close>

theorem create_default_address_not_atomic:
  assumes "fits (\<lparr>ad_id = nid, ad_user = u, ad_full_name = ca_full_name r, ad_phone = ca_phone r,
      ad_country = ca_country r, ad_county = ca_county r, ad_city = ca_city r, ad_area = ca_area r,
      ad_postal = ca_postal r, ad_line1 = ca_line1 r, ad_line2 = ca_line2 r,
      ad_default = ca_default r, ad_created = now\<rparr>)"
    and "ca_default r" "nid \<notin> ad_id ` set t"
    and "a \<in> set t" "ad_user a = u" "ad_default a"
  shows "\<exists>t'. CreateAddress fits BeginFault nid now u r t = (Inl AddressDbError, t') \<and> \<not> one_default t'"
proof -
  let ?n = "\<lparr>ad_id = nid, ad_user = u, ad_full_name = ca_full_name r, ad_phone = ca_phone r,
      ad_country = ca_country r, ad_county = ca_county r, ad_city = ca_city r, ad_area = ca_area r,
      ad_postal = ca_postal r, ad_line1 = ca_line1 r, ad_line2 = ca_line2 r,
      ad_default = ca_default r, ad_created = now\<rparr>"
  have "\<not> one_default (t @ [?n])"
  proof
    assume "one_default (t @ [?n])"
    from one_defaultD [OF this, of a ?n] have "ad_id a = ad_id ?n" using assms by simp
    then show False using assms(3,4) by auto
  qed
  moreover have "CreateAddress fits BeginFault nid now u r t = (Inl AddressDbError, t @ [?n])"
    using assms(1,2) by (simp add: CreateAddress_def addr_Create_def promote_def addr_SetDefault_def
        run_tx_def Let_def)
  ultimately show ?thesis by blast
qed

theorem create_default_address_not_atomic_witness:
  "\<exists>t'. CreateAddress (\<lambda>_. True) BeginFault 3 7 4 (home_req True) two_addresses
     = (Inl AddressDbError, t') \<and> \<not> one_default t'"
proof -
  obtain a where a: "a \<in> set two_addresses" "ad_user a = 4" "ad_default a"
  proof -
    have "list_ex (\<lambda>a. ad_user a = 4 \<and> ad_default a) two_addresses" by code_simp
    then show ?thesis using that unfolding list_ex_iff by blast
  qed
  moreover have "3 \<notin> ad_id ` set two_addresses" by code_simp
  ultimately show ?thesis by (intro create_default_address_not_atomic [where a = a]) simp_all
qed

end
