(* ===== verification/Orders.thy ===== *)
theory Orders
  imports Inventory Cart Delivery Addresses
begin

text \<open>
  Orders: the service of \<open>internal/service/order\<close> and the repository
  \<open>internal/repository/postgres/order.go\<close>, on the stock of \<^theory_text>\<open>Inventory\<close>, the carts of
  \<^theory_text>\<open>Cart\<close>, the delivery snapshot of \<^theory_text>\<open>Delivery\<close> and the addresses of \<^theory_text>\<open>Addresses\<close>.
  Prices are \<open>float64\<close>. What a \<open>DECIMAL(12,2)\<close> column returns for a float is the argument \<open>dec\<close>
  (\<open>None\<close>: out of range). Products and variants are lookups. Mail is best effort and not modelled.
\<close>

section \<open>Data\<close>

datatype order_error =
    ErrInvalidInput | ErrOutOfStock | ErrCartNotFound | ErrAddressNotFound | ErrVariantNotFound
  | ErrProductNotFound | ErrNotFound | OrderDbError

text \<open>\<open>OrderStatus\<close> is a string; the five constants and anything else a request may carry.\<close>

datatype order_status =
    OrderStatusPending | OrderStatusCompleted | OrderStatusCancelled | OrderStatusShipped
  | OrderStatusDelivered | OtherStatus string

record shipping =
  sp_name :: string
  sp_phone :: string
  sp_country :: string
  sp_county :: "string option"
  sp_city :: string
  sp_area :: "string option"
  sp_postal :: "string option"
  sp_line1 :: string
  sp_line2 :: "string option"

record create_item =
  cr_product :: id
  cr_variant :: id
  cr_quantity :: int

record order_item =
  oi_id :: id
  oi_order :: id
  oi_product :: id
  oi_variant :: "id option"
  oi_name :: string
  oi_slug :: "string option"
  oi_price :: f64
  oi_quantity :: int
  oi_discount :: f64
  oi_tax_rate :: f64
  oi_total :: f64
  oi_currency :: string

text \<open>The Go struct, and a row of \<open>orders\<close> (whose items are rows of \<open>order_items\<close>, and whose
  \<open>reminder_sent_at\<close> is a column the struct does not have).\<close>

record order =
  o_delivery :: snapshot
  o_id :: id
  o_user :: "id option"
  o_cart :: "id option"
  o_number :: string
  o_status :: order_status
  o_subtotal :: f64
  o_discount :: f64
  o_tax :: f64
  o_ship_fee :: f64
  o_total :: f64
  o_currency :: string
  o_shipping :: shipping
  o_created :: instant
  o_updated :: instant
  o_items :: "order_item list"
  o_reminder :: "instant option"

record guest_request =
  gr_items :: "create_item list"
  gr_shipping :: shipping

record user_request =
  ur_cart :: "id option"
  ur_items :: "create_item list"
  ur_address :: "id option"

record product_row =
  p_id :: id
  p_name :: string
  p_slug :: string

record variant_row =
  v_id :: id
  v_product :: id
  v_active :: bool
  v_price :: f64

record shop =
  sh_stock :: inv_store
  sh_orders :: "order list"
  sh_order_items :: "order_item list"

text \<open>What the order code takes from outside: lookups, column casts, the random order number, row
  ids, the clock, the driver's faults and the outcome of reading the delivery policy.\<close>

record order_env =
  e_products :: "id \<Rightarrow> product_row option"
  e_variants :: "id \<Rightarrow> variant_row option"
  e_dec :: "f64 \<Rightarrow> f64 option"
  e_fits :: "order \<Rightarrow> bool"
  e_number :: string
  e_order_id :: id
  e_item_id :: id
  e_now :: instant
  e_fault :: tx_fault
  e_policy :: "(delivery_error + policy) option"

section \<open>Repository\<close>

definition createTx_header :: "order_env \<Rightarrow> order \<Rightarrow> order \<Rightarrow> order option" where
  "createTx_header e o1 row =
     (case (e_dec e (o_subtotal o1), e_dec e (o_discount o1), e_dec e (o_tax o1),
            e_dec e (o_ship_fee o1), e_dec e (o_total o1)) of
        (Some a, Some b, Some c, Some d, Some t) \<Rightarrow>
          Some (row\<lparr>o_subtotal := a, o_discount := b, o_tax := c, o_ship_fee := d, o_total := t\<rparr>)
      | _ \<Rightarrow> None)"

definition stored_item :: "order_env \<Rightarrow> order_item \<Rightarrow> order_item option" where
  "stored_item e it =
     (case (e_dec e (oi_price it), e_dec e (oi_discount it), e_dec e (oi_total it)) of
        (Some p, Some d, Some t) \<Rightarrow>
          if int4 (oi_quantity it) then Some (it\<lparr>oi_price := p, oi_discount := d, oi_total := t\<rparr>)
          else None
      | _ \<Rightarrow> None)"

text \<open>Items get consecutive ids from \<open>nextval\<close>.\<close>

fun insert_items :: "order_env \<Rightarrow> id \<Rightarrow> id \<Rightarrow> order_item list
    \<Rightarrow> (order_item list \<times> order_item list) option" where
  "insert_items e oid iid [] = Some ([], [])"
| "insert_items e oid iid (it # its) =
     (let it1 = it\<lparr>oi_order := oid, oi_id := iid\<rparr> in
      case stored_item e it1 of
        None \<Rightarrow> None
      | Some row \<Rightarrow> (case insert_items e oid (iid + 1) its of
          None \<Rightarrow> None | Some (structs, rows) \<Rightarrow> Some (it1 # structs, row # rows)))"

definition createTx :: "order_env \<Rightarrow> order \<Rightarrow> shop \<Rightarrow> order_error + order \<times> shop" where
  "createTx e o0 s =
     (let o1 = o0\<lparr>o_id := e_order_id e, o_created := e_now e, o_updated := e_now e\<rparr> in
      if \<not> e_fits e o1 \<or> list_ex (\<lambda>r. o_number r = o_number o1) (sh_orders s) then Inl OrderDbError
      else case createTx_header e o1 (o1\<lparr>o_items := [], o_reminder := None\<rparr>) of
             None \<Rightarrow> Inl OrderDbError
           | Some row \<Rightarrow> (case insert_items e (e_order_id e) (e_item_id e) (o_items o1) of
               None \<Rightarrow> Inl OrderDbError
             | Some (structs, rows) \<Rightarrow>
                 Inr (o1\<lparr>o_items := structs\<rparr>,
                      s\<lparr>sh_orders := sh_orders s @ [row], sh_order_items := sh_order_items s @ rows\<rparr>)))"

definition getOrderItems :: "id \<Rightarrow> shop \<Rightarrow> order_item list" where
  "getOrderItems oid s =
     order_by (\<lambda>a b. oi_id a \<le> oi_id b) (filter (\<lambda>it. oi_order it = oid) (sh_order_items s))"

definition repo_GetOrderByID :: "id \<Rightarrow> shop \<Rightarrow> order_error + order" where
  "repo_GetOrderByID i s =
     (if i \<le> 0 then Inl ErrInvalidInput
      else case List.find (\<lambda>r. o_id r = i) (sh_orders s) of
             None \<Rightarrow> Inl ErrNotFound
           | Some r \<Rightarrow> Inr (r\<lparr>o_items := getOrderItems (o_id r) s\<rparr>))"

definition repo_GetOrderByNumber :: "string \<Rightarrow> shop \<Rightarrow> order_error + order" where
  "repo_GetOrderByNumber n0 s =
     (let n = trim_space n0 in
      if n = [] then Inl ErrInvalidInput
      else case List.find (\<lambda>r. o_number r = n) (sh_orders s) of
             None \<Rightarrow> Inl ErrNotFound
           | Some r \<Rightarrow> Inr (r\<lparr>o_items := getOrderItems (o_id r) s\<rparr>))"

definition blank_status :: "order_status \<Rightarrow> bool" where
  "blank_status st = (case st of OtherStatus t \<Rightarrow> trim_space t = [] | _ \<Rightarrow> False)"

definition repo_UpdateOrderStatus ::
  "instant \<Rightarrow> id \<Rightarrow> order_status \<Rightarrow> shop \<Rightarrow> (order_error + order) \<times> shop" where
  "repo_UpdateOrderStatus now i st s =
     (if i \<le> 0 \<or> blank_status st then (Inl ErrInvalidInput, s)
      else case List.find (\<lambda>r. o_id r = i) (sh_orders s) of
             None \<Rightarrow> (Inl ErrNotFound, s)
           | Some r \<Rightarrow>
               let s' = s\<lparr>sh_orders := update_where (\<lambda>r. o_id r = i)
                          (\<lambda>r. r\<lparr>o_status := st, o_updated := now\<rparr>) (sh_orders s)\<rparr>
               in (Inr (r\<lparr>o_status := st, o_updated := now, o_items := getOrderItems i s'\<rparr>), s'))"

section \<open>Listing\<close>

datatype sort_column = SortId | SortCreatedAt | SortTotalAmount

record list_filter =
  lf_order :: "id option"
  lf_number :: "string option"
  lf_user :: "id option"
  lf_cart :: "id option"
  lf_statuses :: "order_status list"
  lf_from :: "instant option"
  lf_to :: "instant option"
  lf_limit :: int
  lf_offset :: int
  lf_sort :: "sort_column option"
  lf_desc :: bool

definition positive :: "id option \<Rightarrow> bool" where
  "positive x = (case x of None \<Rightarrow> False | Some i \<Rightarrow> 0 < i)"

text \<open>\<open>buildOrdersWhere\<close>: each filter that is set and not blank adds a clause.\<close>

definition buildOrdersWhere :: "list_filter \<Rightarrow> order \<Rightarrow> bool" where
  "buildOrdersWhere f r \<longleftrightarrow>
     (positive (lf_order f) \<longrightarrow> lf_order f = Some (o_id r)) \<and>
     (case lf_number f of None \<Rightarrow> True | Some n \<Rightarrow> trim_space n \<noteq> [] \<longrightarrow> o_number r = trim_space n) \<and>
     (positive (lf_user f) \<longrightarrow> lf_user f = o_user r) \<and>
     (positive (lf_cart f) \<longrightarrow> lf_cart f = o_cart r) \<and>
     (lf_statuses f \<noteq> [] \<longrightarrow> o_status r \<in> set (lf_statuses f)) \<and>
     (case lf_from f of None \<Rightarrow> True | Some t \<Rightarrow> t \<le> o_created r) \<and>
     (case lf_to f of None \<Rightarrow> True | Some t \<Rightarrow> o_created r \<le> t)"

definition sort_le :: "sort_column \<Rightarrow> order \<Rightarrow> order \<Rightarrow> bool" where
  "sort_le c a b = (case c of SortId \<Rightarrow> o_id a \<le> o_id b | SortCreatedAt \<Rightarrow> o_created a \<le> o_created b
     | SortTotalAmount \<Rightarrow> o_total a \<le> o_total b)"

definition effective_limit :: "int \<Rightarrow> int" where
  "effective_limit l = (if l \<le> 0 \<or> 200 < l then 50 else l)"

definition ListOrders :: "list_filter \<Rightarrow> shop \<Rightarrow> order list \<times> int" where
  "ListOrders f s =
     (let rows = filter (buildOrdersWhere f) (sh_orders s);
          col = (case lf_sort f of None \<Rightarrow> SortCreatedAt | Some c \<Rightarrow> c);
          le = (if lf_desc f then (\<lambda>a b. sort_le col b a) else sort_le col);
          off = (if lf_offset f < 0 then 0 else lf_offset f)
      in (take (nat (effective_limit (lf_limit f))) (drop (nat off) (order_by le rows)), int (length rows)))"

section \<open>Service\<close>

definition deliverySnapshot :: "order_env \<Rightarrow> snapshot" where
  "deliverySnapshot e = (case e_policy e of
     None \<Rightarrow> NewSnapshot None
   | Some (Inl _) \<Rightarrow> NewSnapshot None
   | Some (Inr p) \<Rightarrow> NewSnapshot (Some p))"

text \<open>\<open>SELECT location_id ... ORDER BY location_id ASC LIMIT 1\<close>.\<close>

definition first_location :: "id \<Rightarrow> item list \<Rightarrow> id option" where
  "first_location v t =
     (case order_by (\<le>) (map it_location (filter (\<lambda>r. it_variant r = v) t)) of [] \<Rightarrow> None | l # _ \<Rightarrow> Some l)"

text \<open>The body of the loop: validate, look up, reserve at the first location, price the line.\<close>

definition order_line ::
  "order_env \<Rightarrow> create_item \<Rightarrow> item list \<times> order \<Rightarrow> order_error + item list \<times> order" where
  "order_line e it st =
     (if cr_product it \<le> 0 \<or> cr_variant it \<le> 0 \<or> cr_quantity it \<le> 0 then Inl ErrInvalidInput
      else case e_products e (cr_product it) of
        None \<Rightarrow> Inl ErrProductNotFound
      | Some p \<Rightarrow> (case e_variants e (cr_variant it) of
          None \<Rightarrow> Inl ErrVariantNotFound
        | Some v \<Rightarrow>
            if v_product v \<noteq> p_id p \<or> \<not> v_active v then Inl ErrInvalidInput
            else (case first_location (cr_variant it) (fst st) of
              None \<Rightarrow> Inl ErrOutOfStock
            | Some l \<Rightarrow> (case reserveTx (e_now e) (cr_variant it) l (cr_quantity it) (fst st) of
                Inl _ \<Rightarrow> Inl ErrOutOfStock
              | Inr t \<Rightarrow>
                  let o1 = snd st; line = fmul (v_price v) (of_i64 (cr_quantity it));
                      oi = \<lparr>oi_id = 0, oi_order = 0, oi_product = p_id p, oi_variant = Some (v_id v),
                            oi_name = p_name p, oi_slug = Some (p_slug p), oi_price = v_price v,
                            oi_quantity = cr_quantity it, oi_discount = 0, oi_tax_rate = 0,
                            oi_total = line, oi_currency = o_currency o1\<rparr>
                  in Inr (t, o1\<lparr>o_subtotal := fadd (o_subtotal o1) line,
                                o_total := fadd (o_total o1) line, o_items := o_items o1 @ [oi]\<rparr>)))))"

definition new_order :: "order_env \<Rightarrow> id option \<Rightarrow> id option \<Rightarrow> shipping \<Rightarrow> order" where
  "new_order e u c sp =
     \<lparr>o_delivery = deliverySnapshot e, o_id = 0, o_user = u, o_cart = c,
      o_number = ''ZNT-'' @ e_number e, o_status = OrderStatusPending, o_subtotal = 0, o_discount = 0,
      o_tax = 0, o_ship_fee = 0, o_total = 0, o_currency = ''KES'', o_shipping = sp,
      o_created = e_now e, o_updated = e_now e, o_items = [], o_reminder = None\<rparr>"

definition order_body ::
  "order_env \<Rightarrow> id option \<Rightarrow> id option \<Rightarrow> create_item list \<Rightarrow> shipping \<Rightarrow> shop
     \<Rightarrow> order_error + order \<times> shop" where
  "order_body e u c its sp s =
     (case try_all (order_line e) its (items (sh_stock s), new_order e u c sp) of
        Inl er \<Rightarrow> Inl er
      | Inr (t, o1) \<Rightarrow> createTx e o1 (s\<lparr>sh_stock := (sh_stock s)\<lparr>items := t\<rparr>\<rparr>))"

definition createOrderFromItems ::
  "order_env \<Rightarrow> id option \<Rightarrow> id option \<Rightarrow> create_item list \<Rightarrow> shipping \<Rightarrow> shop
     \<Rightarrow> (order_error + order) \<times> shop" where
  "createOrderFromItems e u c its sp s = run_tx (e_fault e) OrderDbError (order_body e u c its sp) s"

definition CreateGuestOrder :: "order_env \<Rightarrow> guest_request option \<Rightarrow> shop \<Rightarrow> (order_error + order) \<times> shop" where
  "CreateGuestOrder e req s =
     (case req of
        None \<Rightarrow> (Inl ErrInvalidInput, s)
      | Some r \<Rightarrow>
          let sp = gr_shipping r in
          if gr_items r = [] then (Inl ErrInvalidInput, s)
          else if sp_name sp = [] \<or> sp_phone sp = [] \<or> sp_country sp = [] \<or> sp_city sp = []
                  \<or> sp_line1 sp = [] then (Inl ErrInvalidInput, s)
          else createOrderFromItems e None None (gr_items r) sp s)"

definition mapAddressToShipping :: "address \<Rightarrow> shipping" where
  "mapAddressToShipping a =
     \<lparr>sp_name = ad_full_name a, sp_phone = ad_phone a, sp_country = ad_country a,
      sp_county = ad_county a, sp_city = ad_city a, sp_area = ad_area a, sp_postal = ad_postal a,
      sp_line1 = ad_line1 a, sp_line2 = ad_line2 a\<rparr>"

definition resolveShippingForUser :: "bool \<Rightarrow> id \<Rightarrow> id option \<Rightarrow> addresses \<Rightarrow> order_error + shipping" where
  "resolveShippingForUser ss u aid t =
     (if positive aid
      then (case addr_GetByID ss (the aid) t of
              Inl _ \<Rightarrow> Inl ErrAddressNotFound
            | Inr a \<Rightarrow> if ad_user a \<noteq> u then Inl ErrAddressNotFound else Inr (mapAddressToShipping a))
      else (case addr_ListByUser u t of
              [] \<Rightarrow> Inl ErrAddressNotFound
            | a0 # as \<Rightarrow> (case List.find ad_default (a0 # as) of
                Some a \<Rightarrow> Inr (mapAddressToShipping a)
              | None \<Rightarrow> Inr (mapAddressToShipping a0))))"

text \<open>Everything a user's order touches.\<close>

record 'c market =
  mk_shop :: shop
  mk_cart :: "'c cart_state"
  mk_addresses :: addresses

definition CreateUserOrder ::
  "order_env \<Rightarrow> 'c catalog_view \<Rightarrow> bool \<Rightarrow> id \<Rightarrow> user_request option \<Rightarrow> 'c market
     \<Rightarrow> (order_error + order) \<times> 'c market" where
  "CreateUserOrder e w ss u req m =
     (if u \<le> 0 then (Inl ErrInvalidInput, m)
      else case req of
        None \<Rightarrow> (Inl ErrInvalidInput, m)
      | Some r \<Rightarrow> (case resolveShippingForUser ss u (ur_address r) (mk_addresses m) of
          Inl er \<Rightarrow> (Inl er, m)
        | Inr sp \<Rightarrow>
            if positive (ur_cart r)
            then (case GetActiveCartWithItemsForUser w (cdb (mk_cart m)) u of
                Inl _ \<Rightarrow> (Inl OrderDbError, m)
              | Inr None \<Rightarrow> (Inl ErrCartNotFound, m)
              | Inr (Some c) \<Rightarrow>
                  if Some (ct_id (cart_of c)) \<noteq> ur_cart r then (Inl ErrCartNotFound, m)
                  else
                    let its = map (\<lambda>(it, _). \<lparr>cr_product = ci_product it, cr_variant = ci_variant it,
                                              cr_quantity = ci_quantity it\<rparr>) (items_of c)
                    in (case createOrderFromItems e (Some u) (ur_cart r) its sp (mk_shop m) of
                          (Inl er, s') \<Rightarrow> (Inl er, m\<lparr>mk_shop := s'\<rparr>)
                        | (Inr ord, s') \<Rightarrow>
                            let d1 = snd (ClearCart (e_now e) (the (ur_cart r)) (cdb (mk_cart m)));
                                d2 = snd (MarkCartConverted (e_now e) (the (ur_cart r)) d1)
                            in (Inr ord, m\<lparr>mk_shop := s', mk_cart := (mk_cart m)\<lparr>cdb := d2\<rparr>\<rparr>)))
            else if ur_items r = [] then (Inl ErrInvalidInput, m)
            else (case createOrderFromItems e (Some u) None (ur_items r) sp (mk_shop m) of
                    (res, s') \<Rightarrow> (res, m\<lparr>mk_shop := s'\<rparr>))))"

definition GetOrderByID :: "id \<Rightarrow> shop \<Rightarrow> order_error + order" where
  "GetOrderByID i s = repo_GetOrderByID i s"

definition GetOrderByNumber :: "string \<Rightarrow> shop \<Rightarrow> order_error + order" where
  "GetOrderByNumber n s = repo_GetOrderByNumber n s"

definition known_status :: "order_status \<Rightarrow> bool" where
  "known_status st = (case st of OtherStatus _ \<Rightarrow> False | _ \<Rightarrow> True)"

definition UpdateOrderStatus ::
  "instant \<Rightarrow> id \<Rightarrow> order_status \<Rightarrow> shop \<Rightarrow> (order_error + order) \<times> shop" where
  "UpdateOrderStatus now i st s =
     (if \<not> known_status st then (Inl ErrInvalidInput, s) else repo_UpdateOrderStatus now i st s)"

text \<open>\<open>handleErr\<close> of \<open>internal/handlers/order/handler.go\<close>.\<close>

fun order_status_code :: "order_error \<Rightarrow> nat" where
  "order_status_code ErrInvalidInput = 400"
| "order_status_code ErrOutOfStock = 409"
| "order_status_code OrderDbError = 500"
| "order_status_code _ = 404"

section \<open>The loop\<close>

lemma reserveTx_keys: "reserveTx now v l q t = Inr t' \<Longrightarrow> map row_key t' = map row_key t"
  unfolding reserveTx_def Let_def
  by (simp split: if_splits) (drule sym, simp add: map_update_where row_key_def)

lemma first_location_keys: "map row_key t' = map row_key t \<Longrightarrow> first_location v t' = first_location v t"
proof -
  assume keys: "map row_key t' = map row_key t"
  have "map it_location (filter (\<lambda>r. it_variant r = v) t)
      = map snd (filter (\<lambda>k. fst k = v) (map row_key t))" for t
    by (induction t) (auto simp: row_key_def)
  then have "map it_location (filter (\<lambda>r. it_variant r = v) t')
      = map it_location (filter (\<lambda>r. it_variant r = v) t)" using keys by metis
  then show ?thesis by (simp add: first_location_def)
qed

text \<open>Where the loop reserves what, given the table it starts from.\<close>

definition allocation :: "create_item list \<Rightarrow> item list \<Rightarrow> (id \<times> id \<times> int) list" where
  "allocation its t =
     map (\<lambda>it. (cr_variant it, the (first_location (cr_variant it) t), cr_quantity it)) its"

lemma allocation_keys: "map row_key t' = map row_key t \<Longrightarrow> allocation its t' = allocation its t"
  unfolding allocation_def using first_location_keys [of t' t] by simp

text \<open>The line an item becomes.\<close>

definition priced :: "order_env \<Rightarrow> create_item \<Rightarrow> order_item \<Rightarrow> bool" where
  "priced e it oi \<longleftrightarrow> (\<exists>p v. e_products e (cr_product it) = Some p \<and> e_variants e (cr_variant it) = Some v
     \<and> v_product v = p_id p \<and> v_active v \<and> 0 < cr_quantity it
     \<and> oi_product oi = p_id p \<and> oi_variant oi = Some (v_id v) \<and> oi_name oi = p_name p
     \<and> oi_price oi = v_price v \<and> oi_quantity oi = cr_quantity it
     \<and> oi_total oi = fmul (v_price v) (of_i64 (cr_quantity it)))"

lemma order_line_ok:
  assumes "order_line e it (t, o1) = Inr (t', o2)"
  obtains l oi where "first_location (cr_variant it) t = Some l" "0 < cr_quantity it"
    "reserveTx (e_now e) (cr_variant it) l (cr_quantity it) t = Inr t'" "priced e it oi"
    "o2 = o1\<lparr>o_subtotal := fadd (o_subtotal o1) (oi_total oi), o_total := fadd (o_total o1) (oi_total oi),
             o_items := o_items o1 @ [oi]\<rparr>"
proof -
  obtain p v l where pv: "e_products e (cr_product it) = Some p" "e_variants e (cr_variant it) = Some v"
    "v_product v = p_id p" "v_active v" "first_location (cr_variant it) t = Some l"
    "reserveTx (e_now e) (cr_variant it) l (cr_quantity it) t = Inr t'"
    "0 < cr_product it" "0 < cr_variant it" "0 < cr_quantity it"
    using assms by (auto simp: order_line_def Let_def split: if_splits option.splits sum.splits)
  let ?oi = "\<lparr>oi_id = 0, oi_order = 0, oi_product = p_id p, oi_variant = Some (v_id v),
      oi_name = p_name p, oi_slug = Some (p_slug p), oi_price = v_price v,
      oi_quantity = cr_quantity it, oi_discount = 0, oi_tax_rate = 0,
      oi_total = fmul (v_price v) (of_i64 (cr_quantity it)), oi_currency = o_currency o1\<rparr>"
  show ?thesis
  proof (rule that [of l ?oi])
    show "priced e it ?oi" using pv by (simp add: priced_def)
    show "o2 = o1\<lparr>o_subtotal := fadd (o_subtotal o1) (oi_total ?oi),
        o_total := fadd (o_total o1) (oi_total ?oi), o_items := o_items o1 @ [?oi]\<rparr>"
      using assms pv by (simp add: order_line_def Let_def)
  qed (use pv in simp_all)
qed

lemma order_loop_ok:
  assumes "try_all (order_line e) its (t, o1) = Inr (t', o2)"
  shows "\<exists>ls. list_all2 (priced e) its ls
    \<and> o2 = o1\<lparr>o_subtotal := foldl fadd (o_subtotal o1) (map oi_total ls),
              o_total := foldl fadd (o_total o1) (map oi_total ls), o_items := o_items o1 @ ls\<rparr>
    \<and> try_all (\<lambda>(v, l, q). reserveTx (e_now e) v l q) (allocation its t) t = Inr t'
    \<and> (\<forall>(v, l, q) \<in> set (allocation its t). 0 < q)"
  using assms
proof (induction its arbitrary: t o1)
  case Nil
  then show ?case by (simp add: allocation_def)
next
  case (Cons it its)
  obtain t1 o3 where 1: "order_line e it (t, o1) = Inr (t1, o3)"
    "try_all (order_line e) its (t1, o3) = Inr (t', o2)"
    using Cons.prems by (auto split: sum.splits)
  obtain l oi where l: "first_location (cr_variant it) t = Some l" "0 < cr_quantity it"
    "reserveTx (e_now e) (cr_variant it) l (cr_quantity it) t = Inr t1" "priced e it oi"
    "o3 = o1\<lparr>o_subtotal := fadd (o_subtotal o1) (oi_total oi), o_total := fadd (o_total o1) (oi_total oi),
             o_items := o_items o1 @ [oi]\<rparr>"
    by (rule order_line_ok [OF 1(1)])
  obtain ls where ls: "list_all2 (priced e) its ls"
    "o2 = o3\<lparr>o_subtotal := foldl fadd (o_subtotal o3) (map oi_total ls),
             o_total := foldl fadd (o_total o3) (map oi_total ls), o_items := o_items o3 @ ls\<rparr>"
    "try_all (\<lambda>(v, l, q). reserveTx (e_now e) v l q) (allocation its t1) t1 = Inr t'"
    "\<forall>(v, l, q) \<in> set (allocation its t1). 0 < q"
    using Cons.IH [OF 1(2)] by blast
  have alloc: "allocation its t1 = allocation its t"
    by (rule allocation_keys [OF reserveTx_keys [OF l(3)]])
  have hd: "allocation (it # its) t = (cr_variant it, l, cr_quantity it) # allocation its t"
    using l(1) by (simp add: allocation_def)
  show ?case
  proof (intro exI [of _ "oi # ls"] conjI)
    show "list_all2 (priced e) (it # its) (oi # ls)" using l(4) ls(1) by simp
    show "o2 = o1\<lparr>o_subtotal := foldl fadd (o_subtotal o1) (map oi_total (oi # ls)),
        o_total := foldl fadd (o_total o1) (map oi_total (oi # ls)), o_items := o_items o1 @ oi # ls\<rparr>"
      using ls(2) l(5) by simp
    show "try_all (\<lambda>(v, l, q). reserveTx (e_now e) v l q) (allocation (it # its) t) t = Inr t'"
      using l(3) ls(3) alloc hd by simp
    show "\<forall>(v, l, q) \<in> set (allocation (it # its) t). 0 < q"
      using hd l(2) ls(4) alloc by simp
  qed
qed

lemma createTx_ok:
  assumes "createTx e o1 s = Inr (ord, s')"
  obtains row rows structs where
    "insert_items e (e_order_id e) (e_item_id e) (o_items o1) = Some (structs, rows)"
    "createTx_header e o1 (o1\<lparr>o_id := e_order_id e, o_created := e_now e, o_updated := e_now e,
       o_items := [], o_reminder := None\<rparr>) = Some row"
    "ord = o1\<lparr>o_id := e_order_id e, o_created := e_now e, o_updated := e_now e, o_items := structs\<rparr>"
    "s' = s\<lparr>sh_orders := sh_orders s @ [row], sh_order_items := sh_order_items s @ rows\<rparr>"
    "\<not> list_ex (\<lambda>r. o_number r = o_number o1) (sh_orders s)"
  using assms
  by (fastforce simp: createTx_def createTx_header_def Let_def split: if_splits option.splits)

lemma createOrderFromItems_ok:
  assumes "createOrderFromItems e u c its sp s = (Inr ord, s')"
  obtains t o1 where
    "try_all (order_line e) its (items (sh_stock s), new_order e u c sp) = Inr (t, o1)"
    "createTx e o1 (s\<lparr>sh_stock := (sh_stock s)\<lparr>items := t\<rparr>\<rparr>) = Inr (ord, s')"
  using assms by (auto simp: createOrderFromItems_def order_body_def run_tx_ok split: sum.splits)

section \<open>What is stored and read back\<close>

lemma insert_items_spec:
  assumes "insert_items e oid iid its = Some (structs, rows)"
  shows "list_all2 (\<lambda>st row. stored_item e st = Some row) structs rows
    \<and> (\<forall>row \<in> set rows. oi_order row = oid \<and> iid \<le> oi_id row)
    \<and> sorted_wrt (\<lambda>a b. oi_id a \<le> oi_id b) rows
    \<and> list_all2 (\<lambda>it st. \<exists>k. st = it\<lparr>oi_order := oid, oi_id := k\<rparr>) its structs"
  using assms
proof (induction its arbitrary: iid structs rows)
  case (Cons it its)
  let ?it = "it\<lparr>oi_order := oid, oi_id := iid\<rparr>"
  obtain row structs' rows' where r: "stored_item e ?it = Some row"
    "insert_items e oid (iid + 1) its = Some (structs', rows')"
    "structs = ?it # structs'" "rows = row # rows'"
    using Cons.prems by (auto simp: Let_def split: option.splits)
  have row: "oi_order row = oid" "oi_id row = iid"
    using r(1) by (auto simp: stored_item_def split: option.splits if_splits)
  have IH: "list_all2 (\<lambda>st row. stored_item e st = Some row) structs' rows'"
    "\<forall>row \<in> set rows'. oi_order row = oid \<and> iid + 1 \<le> oi_id row"
    "sorted_wrt (\<lambda>a b. oi_id a \<le> oi_id b) rows'"
    "list_all2 (\<lambda>it st. \<exists>k. st = it\<lparr>oi_order := oid, oi_id := k\<rparr>) its structs'"
    using Cons.IH [OF r(2)] by blast+
  show ?case
  proof (intro conjI)
    show "list_all2 (\<lambda>it st. \<exists>k. st = it\<lparr>oi_order := oid, oi_id := k\<rparr>) (it # its) structs"
      using IH(4) r(3) by auto
    show "\<forall>row \<in> set rows. oi_order row = oid \<and> iid \<le> oi_id row"
      using IH(2) r(4) row by force
    show "sorted_wrt (\<lambda>a b. oi_id a \<le> oi_id b) rows"
      using IH(2,3) r(4) row by force
  qed (use IH r in simp)
qed simp

definition amounts_stored :: "order_env \<Rightarrow> order \<Rightarrow> order \<Rightarrow> bool" where
  "amounts_stored e o1 r \<longleftrightarrow> e_dec e (o_subtotal o1) = Some (o_subtotal r)
     \<and> e_dec e (o_discount o1) = Some (o_discount r) \<and> e_dec e (o_tax o1) = Some (o_tax r)
     \<and> e_dec e (o_ship_fee o1) = Some (o_ship_fee r) \<and> e_dec e (o_total o1) = Some (o_total r)"

lemma createTx_header_ok:
  assumes "createTx_header e o1 row0 = Some row"
  shows "amounts_stored e o1 row \<and> (\<exists>a b c d t. row = row0\<lparr>o_subtotal := a, o_discount := b, o_tax := c,
      o_ship_fee := d, o_total := t\<rparr>)"
proof -
  obtain a b c d t where "e_dec e (o_subtotal o1) = Some a" "e_dec e (o_discount o1) = Some b"
    "e_dec e (o_tax o1) = Some c" "e_dec e (o_ship_fee o1) = Some d" "e_dec e (o_total o1) = Some t"
    using assms by (auto simp: createTx_header_def split: option.splits)
  then show ?thesis using assms by (force simp: createTx_header_def amounts_stored_def)
qed

text \<open>The stored order: the header as created, its amounts and lines as the columns hold them.\<close>

definition recorded_as :: "order_env \<Rightarrow> order \<Rightarrow> order \<Rightarrow> bool" where
  "recorded_as e o1 r \<longleftrightarrow> o_id r = o_id o1 \<and> o_user r = o_user o1 \<and> o_cart r = o_cart o1
     \<and> o_number r = o_number o1 \<and> o_status r = o_status o1 \<and> o_shipping r = o_shipping o1
     \<and> o_delivery r = o_delivery o1 \<and> o_created r = o_created o1 \<and> o_currency r = o_currency o1
     \<and> amounts_stored e o1 r \<and> list_all2 (\<lambda>i j. stored_item e i = Some j) (o_items o1) (o_items r)"

lemma createTx_readback:
  assumes "createTx e o1 s = Inr (ord, s')" "0 < e_order_id e"
    and "\<forall>r \<in> set (sh_orders s). o_id r \<noteq> e_order_id e"
    and "\<forall>it \<in> set (sh_order_items s). oi_order it \<noteq> e_order_id e"
  shows "\<exists>r. repo_GetOrderByID (o_id ord) s' = Inr r \<and> recorded_as e ord r"
proof -
  obtain row rows structs where tx:
    "insert_items e (e_order_id e) (e_item_id e) (o_items o1) = Some (structs, rows)"
    "createTx_header e o1 (o1\<lparr>o_id := e_order_id e, o_created := e_now e, o_updated := e_now e,
       o_items := [], o_reminder := None\<rparr>) = Some row"
    "ord = o1\<lparr>o_id := e_order_id e, o_created := e_now e, o_updated := e_now e, o_items := structs\<rparr>"
    "s' = s\<lparr>sh_orders := sh_orders s @ [row], sh_order_items := sh_order_items s @ rows\<rparr>"
    by (rule createTx_ok [OF assms(1)])
  have row: "o_id row = e_order_id e" "amounts_stored e o1 row" "o_user row = o_user o1" "o_cart row = o_cart o1"
    "o_number row = o_number o1" "o_status row = o_status o1" "o_shipping row = o_shipping o1"
    "o_delivery row = o_delivery o1" "o_created row = e_now e" "o_currency row = o_currency o1"
    using createTx_header_ok [OF tx(2)] by auto
  have items: "list_all2 (\<lambda>st row. stored_item e st = Some row) structs rows"
    "\<forall>row \<in> set rows. oi_order row = e_order_id e" "sorted_wrt (\<lambda>a b. oi_id a \<le> oi_id b) rows"
    using insert_items_spec [OF tx(1)] by blast+
  have "List.find (\<lambda>r. o_id r = e_order_id e) (sh_orders s) = None"
    using assms(3) by (simp add: find_None_iff_all)
  then have find: "List.find (\<lambda>r. o_id r = e_order_id e) (sh_orders s') = Some row"
    using tx(4) row(1) by (simp add: find_snoc)
  have "filter (\<lambda>it. oi_order it = e_order_id e) (sh_order_items s') = rows"
    using assms(4) items(2) tx(4) by (simp add: filter_empty_conv)
  then have its: "getOrderItems (e_order_id e) s' = rows"
    using items(3) by (simp add: getOrderItems_def order_by_sorted)
  have "repo_GetOrderByID (o_id ord) s' = Inr (row\<lparr>o_items := rows\<rparr>)"
    using find its assms(2) tx(3) row(1) by (simp add: repo_GetOrderByID_def)
  moreover have "recorded_as e ord (row\<lparr>o_items := rows\<rparr>)"
    using row items(1) tx(3) by (simp add: recorded_as_def amounts_stored_def)
  ultimately show ?thesis by blast
qed

section \<open>Exact totals\<close>

lemma fadd_of_int: "\<bar>a + b\<bar> \<le> 2 ^ 53 \<Longrightarrow> fadd (of_int a) (of_int b) = of_int (a + b)"
  unfolding fadd_def using rnd_of_int [of "a + b"] by simp

lemma fmul_of_int: "\<bar>a * b\<bar> \<le> 2 ^ 53 \<Longrightarrow> fmul (of_int a) (of_int b) = of_int (a * b)"
  unfolding fmul_def using rnd_of_int [of "a * b"] by simp

lemma foldl_fadd_exact:
  assumes "0 \<le> a" "\<forall>m \<in> set ms. 0 \<le> m" "a + sum_list ms \<le> 2 ^ 53"
  shows "foldl fadd (of_int a) (map of_int ms) = of_int (a + sum_list ms)"
  using assms
proof (induction ms arbitrary: a)
  case (Cons m ms)
  have "0 \<le> sum_list ms" using Cons.prems(2) by (simp add: sum_list_nonneg)
  then have "fadd (of_int a) (of_int m) = of_int (a + m)"
    using Cons.prems by (intro fadd_of_int) simp
  then show ?case using Cons.IH [of "a + m"] Cons.prems by (simp add: add.assoc)
qed simp

section \<open>Properties\<close>

definition sample_env :: order_env where
  "sample_env =
     \<lparr>e_products = (\<lambda>i. if i = 5 then Some \<lparr>p_id = 5, p_name = ''Lamp'', p_slug = ''lamp''\<rparr> else None),
      e_variants = (\<lambda>i. if i = 3 then Some \<lparr>v_id = 3, v_product = 5, v_active = True, v_price = 250\<rparr> else None),
      e_dec = Some, e_fits = (\<lambda>_. True), e_number = ''ab'', e_order_id = 1, e_item_id = 1,
      e_now = 9, e_fault = NoFault, e_policy = None\<rparr>"

abbreviation sample_shipping :: shipping where
  "sample_shipping \<equiv> \<lparr>sp_name = ''A'', sp_phone = ''1'', sp_country = ''KE'', sp_county = None,
     sp_city = ''N'', sp_area = None, sp_postal = None, sp_line1 = ''x'', sp_line2 = None\<rparr>"

definition sample_shop :: shop where
  "sample_shop = \<lparr>sh_stock = sample_store, sh_orders = [], sh_order_items = []\<rparr>"

abbreviation sample_items :: "create_item list" where
  "sample_items \<equiv> [\<lparr>cr_product = 5, cr_variant = 3, cr_quantity = 4\<rparr>, \<lparr>cr_product = 5, cr_variant = 3, cr_quantity = 2\<rparr>]"

lemma sample_order:
  obtains ord s where "createOrderFromItems sample_env None None sample_items sample_shipping sample_shop = (Inr ord, s)"
proof -
  have "is_ok (fst (createOrderFromItems sample_env None None sample_items sample_shipping sample_shop))"
    by code_simp
  then show ?thesis using that by (metis is_ok_iff prod.collapse)
qed

lemma sample_stock_ok: "stock_ok (items (sh_stock sample_shop))"
  by (simp add: stock_ok_def sample_shop_def sample_store_def item_ok_def int4_def)

lemma createOrderFromItems_error:
  "createOrderFromItems e u c its sp s = (Inl er, s') \<Longrightarrow> s' = s"
  by (auto simp: createOrderFromItems_def dest: run_tx_error)

text \<open>C8. Creating an order is all or nothing: when any item, lookup, reservation, insert, begin or
  commit fails, the stock, the orders and their items are as before, whoever ordered.\<close>

theorem order_creation_atomic:
  assumes "CreateUserOrder e w ss u req m = (Inl er, m') \<or>
    (\<exists>g s'. CreateGuestOrder e g (mk_shop m) = (Inl er, s') \<and> m' = m\<lparr>mk_shop := s'\<rparr>)"
  shows "m' = m"
  using assms
proof (elim disjE exE conjE)
  assume "CreateUserOrder e w ss u req m = (Inl er, m')"
  then show ?thesis
    by (auto simp: CreateUserOrder_def Let_def split: if_splits option.splits sum.splits prod.splits
        dest!: createOrderFromItems_error)
next
  fix g s'
  assume "CreateGuestOrder e g (mk_shop m) = (Inl er, s')" "m' = m\<lparr>mk_shop := s'\<rparr>"
  then show ?thesis
    by (auto simp: CreateGuestOrder_def Let_def split: if_splits option.splits
        dest!: createOrderFromItems_error)
qed

abbreviation sample_market :: "string market" where
  "sample_market \<equiv> \<lparr>mk_shop = sample_shop, mk_cart = empty_carts, mk_addresses = two_addresses\<rparr>"

theorem order_creation_atomic_witness:
  "snd (CreateUserOrder sample_env demo_view True 4
     (Some \<lparr>ur_cart = None, ur_items = sample_items @ sample_items, ur_address = None\<rparr>) sample_market)
   = sample_market"
proof -
  let ?r = "CreateUserOrder sample_env demo_view True 4
     (Some \<lparr>ur_cart = None, ur_items = sample_items @ sample_items, ur_address = None\<rparr>) sample_market"
  have "fst ?r = Inl order_error.ErrOutOfStock" by code_simp
  then have "?r = (Inl order_error.ErrOutOfStock, snd ?r)" by (metis prod.collapse)
  then show ?thesis by (intro order_creation_atomic) (rule disjI1)
qed

text \<open>C9. A created order holds exactly the stock it sells: for every variant and location the
  available quantity drops and the reserved one rises by what the order's items ask of that cell
  (repeated items add up), never by more than was available, and nothing else in the stock moves.\<close>

theorem order_reserves_stock:
  assumes "createOrderFromItems e u c its sp s = (Inr ord, s')" "stock_ok (items (sh_stock s))"
  shows "locations (sh_stock s') = locations (sh_stock s) \<and> stock_ok (items (sh_stock s'))
    \<and> drained (demand v l (allocation its (items (sh_stock s))))
        (ledger_of (items (sh_stock s)) v l) (ledger_of (items (sh_stock s')) v l)"
proof -
  obtain t o1 where t: "try_all (order_line e) its (items (sh_stock s), new_order e u c sp) = Inr (t, o1)"
    "createTx e o1 (s\<lparr>sh_stock := (sh_stock s)\<lparr>items := t\<rparr>\<rparr>) = Inr (ord, s')"
    by (rule createOrderFromItems_ok [OF assms(1)])
  have "sh_stock s' = (sh_stock s)\<lparr>items := t\<rparr>"
    by (rule createTx_ok [OF t(2)]) simp
  moreover have "try_all (\<lambda>(v, l, q). reserveTx (e_now e) v l q) (allocation its (items (sh_stock s)))
      (items (sh_stock s)) = Inr t"
    "\<forall>(v, l, q) \<in> set (allocation its (items (sh_stock s))). 0 < q"
    using order_loop_ok [OF t(1)] by blast+
  ultimately show ?thesis using stock.reserve_many [OF _ assms(2)] by simp
qed

theorem order_reserves_stock_witness:
  "\<exists>s :: shop. drained 6 (ledger_of (items sample_store) 3 1) (ledger_of (items (sh_stock s)) 3 1)"
proof -
  obtain ord s where o1: "createOrderFromItems sample_env None None sample_items sample_shipping sample_shop
      = (Inr ord, s)" by (rule sample_order)
  have "demand 3 1 (allocation sample_items (items (sh_stock sample_shop))) = 6" by code_simp
  then show ?thesis
    using order_reserves_stock [OF o1 sample_stock_ok, of 3 1] by (auto simp: sample_shop_def)
qed

lemma createOrderFromItems_lines:
  assumes "createOrderFromItems e u c its sp s = (Inr ord, s')"
  shows "list_all2 (priced e) its (o_items ord)
    \<and> o_subtotal ord = foldl fadd 0 (map oi_total (o_items ord))
    \<and> o_total ord = foldl fadd 0 (map oi_total (o_items ord))"
proof -
  obtain t o1 where t: "try_all (order_line e) its (items (sh_stock s), new_order e u c sp) = Inr (t, o1)"
    "createTx e o1 (s\<lparr>sh_stock := (sh_stock s)\<lparr>items := t\<rparr>\<rparr>) = Inr (ord, s')"
    by (rule createOrderFromItems_ok [OF assms])
  obtain ls where ls: "list_all2 (priced e) its ls" "o_items o1 = ls"
    "o_subtotal o1 = foldl fadd 0 (map oi_total ls)" "o_total o1 = foldl fadd 0 (map oi_total ls)"
    using order_loop_ok [OF t(1)] by (auto simp: new_order_def)
  obtain row rows structs where st: "insert_items e (e_order_id e) (e_item_id e) ls = Some (structs, rows)"
    "ord = o1\<lparr>o_id := e_order_id e, o_created := e_now e, o_updated := e_now e, o_items := structs\<rparr>"
    using createTx_ok [OF t(2)] ls(2) by metis
  have ids: "list_all2 (\<lambda>it st. \<exists>k. st = it\<lparr>oi_order := e_order_id e, oi_id := k\<rparr>) ls structs"
    using insert_items_spec [OF st(1)] by blast
  have "priced e a st" if "priced e a oi" "\<exists>k. st = oi\<lparr>oi_order := e_order_id e, oi_id := k\<rparr>" for a oi st
    using that by (auto simp: priced_def)
  then have "list_all2 (priced e) its structs"
    using list_all2_trans [OF _ ls(1) ids] by blast
  moreover have "map oi_total structs = map oi_total ls"
    using ids by (induction rule: list_all2_induct) auto
  ultimately show ?thesis using ls st(2) by simp
qed

lemma member_le_sum: "\<forall>m \<in> set ms. (0 :: int) \<le> m \<Longrightarrow> m \<in> set ms \<Longrightarrow> m \<le> sum_list ms"
proof (induction ms)
  case (Cons a ms)
  have "0 \<le> sum_list ms" using Cons.prems(1) by (simp add: sum_list_nonneg)
  then show ?case using Cons by (cases "m = a") (auto simp: add_increasing)
qed simp

lemma list_all2_right: "list_all2 P xs ys \<Longrightarrow> y \<in> set ys \<Longrightarrow> \<exists>x \<in> set xs. P x y"
  by (induction rule: list_all2_induct) auto

lemma list_all2_left: "list_all2 P xs ys \<Longrightarrow> x \<in> set xs \<Longrightarrow> \<exists>y \<in> set ys. P x y"
  by (induction rule: list_all2_induct) auto

lemma createOrderFromItems_int4:
  assumes "createOrderFromItems e u c its sp s = (Inr ord, s')" "oi \<in> set (o_items ord)"
  shows "int4 (oi_quantity oi)"
proof -
  obtain t o1 where "try_all (order_line e) its (items (sh_stock s), new_order e u c sp) = Inr (t, o1)"
    and tx: "createTx e o1 (s\<lparr>sh_stock := (sh_stock s)\<lparr>items := t\<rparr>\<rparr>) = Inr (ord, s')"
    by (rule createOrderFromItems_ok [OF assms(1)])
  obtain rows structs where st: "insert_items e (e_order_id e) (e_item_id e) (o_items o1) = Some (structs, rows)"
    "ord = o1\<lparr>o_id := e_order_id e, o_created := e_now e, o_updated := e_now e, o_items := structs\<rparr>"
    by (rule createTx_ok [OF tx])
  have "\<exists>row. stored_item e oi = Some row"
    using list_all2_left [of "\<lambda>st row. stored_item e st = Some row" structs rows oi]
      insert_items_spec [OF st(1)] st(2) assms(2) by auto
  then show ?thesis by (auto simp: stored_item_def split: option.splits if_splits)
qed

text \<open>C10. The lines of a created order are the requested items in order, each for an existing
  active variant of an existing product at the variant's price, and subtotal and total are the
  left-to-right float sum of the line totals. When the prices are whole and the sum of price times
  quantity is at most 2^53, that total is the exact sum, with no rounding error.\<close>

theorem order_lines_and_totals:
  assumes "createOrderFromItems e u c its sp s = (Inr ord, s')"
    and "\<forall>oi \<in> set (o_items ord). oi_price oi = of_int (price oi) \<and> 0 \<le> price oi"
    and "sum_list (map (\<lambda>oi. price oi * oi_quantity oi) (o_items ord)) \<le> 2 ^ 53"
  shows "list_all2 (priced e) its (o_items ord) \<and> o_subtotal ord = o_total ord
    \<and> o_total ord = of_int (sum_list (map (\<lambda>oi. price oi * oi_quantity oi) (o_items ord)))"
proof -
  let ?m = "\<lambda>oi. price oi * oi_quantity oi"
  note l = createOrderFromItems_lines [OF assms(1)]
  have q: "0 < oi_quantity oi \<and> oi_total oi = fmul (oi_price oi) (of_i64 (oi_quantity oi))
      \<and> oi_quantity oi < 2 ^ 53" if mem: "oi \<in> set (o_items ord)" for oi
  proof -
    obtain it where "priced e it oi" using list_all2_right [OF conjunct1 [OF l] mem] by blast
    moreover have "oi_quantity oi < 2 ^ 53"
      using createOrderFromItems_int4 [OF assms(1) mem] by (simp add: int4_def)
    ultimately show ?thesis by (auto simp: priced_def)
  qed
  have nonneg: "0 \<le> ?m oi" if "oi \<in> set (o_items ord)" for oi
    using q [OF that] assms(2) that by (simp add: less_imp_le)
  have "?m oi \<le> 2 ^ 53" if "oi \<in> set (o_items ord)" for oi
  proof -
    have "?m oi \<le> sum_list (map ?m (o_items ord))"
      using that nonneg by (intro member_le_sum) auto
    then show ?thesis using assms(3) by simp
  qed
  then have "oi_total oi = of_int (?m oi)" if "oi \<in> set (o_items ord)" for oi
    using q [OF that] assms(2) that nonneg [OF that] fmul_of_int [of "price oi" "oi_quantity oi"]
    by (simp add: of_i64_exact)
  then have eq: "map oi_total (o_items ord) = map of_int (map ?m (o_items ord))" by simp
  have "foldl fadd 0 (map oi_total (o_items ord)) = of_int (sum_list (map ?m (o_items ord)))"
    using foldl_fadd_exact [of 0 "map ?m (o_items ord)"] nonneg assms(3)
    unfolding eq by (simp del: map_map)
  then show ?thesis using l by simp
qed

theorem order_lines_and_totals_witness:
  "\<exists>ord :: order. o_total ord = 1500 \<and> length (o_items ord) = 2"
proof -
  let ?r = "createOrderFromItems sample_env None None sample_items sample_shipping sample_shop"
  obtain ord s where o1: "?r = (Inr ord, s)" by (rule sample_order)
  have "case fst ?r of Inl _ \<Rightarrow> False | Inr x \<Rightarrow> map oi_price (o_items x) = [250, 250]
      \<and> map oi_quantity (o_items x) = [4, 2]" by code_simp
  then have its: "map oi_price (o_items ord) = [250, 250]" "map oi_quantity (o_items ord) = [4, 2]"
    using o1 by simp_all
  then obtain x y where xy: "o_items ord = [x, y]" by (auto simp: map_eq_Cons_conv)
  show ?thesis
    using order_lines_and_totals [OF o1, of "\<lambda>_. 250"] its xy by (intro exI [of _ ord]) simp
qed

text \<open>A created order can be read back: \<open>GetOrderByID\<close> on the id it was given returns its
  header (owner, cart, number, shipping address, delivery notice, status pending) and its lines in
  order, with the amounts as the decimal columns hold them.\<close>

theorem order_recorded:
  assumes "createOrderFromItems e u c its sp s = (Inr ord, s')" "0 < e_order_id e"
    and "\<forall>r \<in> set (sh_orders s). o_id r \<noteq> e_order_id e"
    and "\<forall>it \<in> set (sh_order_items s). oi_order it \<noteq> e_order_id e"
  shows "\<exists>r. GetOrderByID (o_id ord) s' = Inr r \<and> recorded_as e ord r \<and> o_user r = u \<and> o_cart r = c
    \<and> o_shipping r = sp \<and> o_status r = OrderStatusPending \<and> \<not> snap_included (o_delivery r)"
proof -
  obtain t o1 where t: "try_all (order_line e) its (items (sh_stock s), new_order e u c sp) = Inr (t, o1)"
    "createTx e o1 (s\<lparr>sh_stock := (sh_stock s)\<lparr>items := t\<rparr>\<rparr>) = Inr (ord, s')"
    by (rule createOrderFromItems_ok [OF assms(1)])
  have "o_user o1 = u" "o_cart o1 = c" "o_shipping o1 = sp" "o_status o1 = OrderStatusPending"
    "\<not> snap_included (o_delivery o1)"
    using order_loop_ok [OF t(1)]
    by (auto simp: new_order_def deliverySnapshot_def NewSnapshot_def split: option.splits sum.splits)
  moreover have "o_user ord = o_user o1" "o_cart ord = o_cart o1" "o_shipping ord = o_shipping o1"
    "o_status ord = o_status o1" "o_delivery ord = o_delivery o1"
    by (rule createTx_ok [OF t(2)]; simp)+
  ultimately show ?thesis
    using createTx_readback [OF t(2) assms(2)] assms(3,4)
    by (auto simp: GetOrderByID_def recorded_as_def)
qed

theorem order_recorded_witness:
  "\<exists>r (s :: shop). GetOrderByID 1 s = Inr r \<and> o_status r = OrderStatusPending"
proof -
  obtain ord s where o1: "createOrderFromItems sample_env None None sample_items sample_shipping sample_shop
      = (Inr ord, s)" by (rule sample_order)
  have "o_id ord = 1"
  proof -
    have "case fst (createOrderFromItems sample_env None None sample_items sample_shipping sample_shop)
      of Inl _ \<Rightarrow> False | Inr x \<Rightarrow> o_id x = 1" by code_simp
    then show ?thesis using o1 by simp
  qed
  then show ?thesis
    using order_recorded [OF o1] by (auto simp: sample_env_def sample_shop_def)
qed

lemma createOrderFromItems_nil:
  assumes "e_fault e = NoFault" "\<And>x. e_fits e x" "e_dec e 0 = Some 0"
    and "\<forall>r \<in> set (sh_orders s). o_number r \<noteq> ''ZNT-'' @ e_number e"
  shows "\<exists>ord s'. createOrderFromItems e u c [] sp s = (Inr ord, s') \<and> o_items ord = [] \<and> o_total ord = 0"
proof -
  have "\<not> list_ex (\<lambda>r. o_number r = ''ZNT-'' @ e_number e) (sh_orders s)"
    using assms(4) by (auto simp: list_ex_iff)
  then show ?thesis
    using assms(1-3) by (simp add: createOrderFromItems_def run_tx_def order_body_def createTx_def
        createTx_header_def new_order_def Let_def)
qed

text \<open>An order from the cart is not refused when the cart is empty: the order is created with no
  lines and a total of zero, where a direct order with no items is an invalid input.\<close>

theorem empty_cart_is_ordered:
  assumes "0 < u" "resolveShippingForUser ss u a (mk_addresses m) = Inr sp"
    and "GetActiveCartWithItemsForUser w (cdb (mk_cart m)) u = Inr (Some c)" "items_of c = []"
    and "0 < ct_id (cart_of c)" "e_fault e = NoFault" "\<And>x. e_fits e x" "e_dec e 0 = Some 0"
    and "\<forall>r \<in> set (sh_orders (mk_shop m)). o_number r \<noteq> ''ZNT-'' @ e_number e"
  shows "(\<exists>ord m'. CreateUserOrder e w ss u
        (Some \<lparr>ur_cart = Some (ct_id (cart_of c)), ur_items = its, ur_address = a\<rparr>) m = (Inr ord, m')
        \<and> o_items ord = [] \<and> o_total ord = 0)
    \<and> CreateUserOrder e w ss u (Some \<lparr>ur_cart = None, ur_items = [], ur_address = a\<rparr>) m
        = (Inl ErrInvalidInput, m)"
proof -
  obtain ord s' where o1: "createOrderFromItems e (Some u) (Some (ct_id (cart_of c))) [] sp (mk_shop m)
      = (Inr ord, s')" "o_items ord = []" "o_total ord = 0"
    using createOrderFromItems_nil [OF assms(6-9)] by blast
  show ?thesis using assms(1-5) o1 by (simp add: CreateUserOrder_def positive_def Let_def)
qed

definition market_with_empty_cart :: "string market" where
  "market_with_empty_cart =
     \<lparr>mk_shop = sample_shop,
      mk_cart = \<lparr>cdb = \<lparr>carts = [\<lparr>ct_id = 7, ct_user = 4, ct_status = CartStatusActive, ct_created = 0,
                          ct_updated = 0\<rparr>], cart_items = []\<rparr>, ccache = None\<rparr>,
      mk_addresses = two_addresses\<rparr>"

theorem empty_cart_is_ordered_witness:
  "\<exists>ord m'. CreateUserOrder sample_env demo_view True 4
     (Some \<lparr>ur_cart = Some 7, ur_items = [], ur_address = None\<rparr>) market_with_empty_cart = (Inr ord, m')
     \<and> o_items ord = []"
proof -
  let ?c = "\<lparr>cart_of = hd (carts (cdb (mk_cart market_with_empty_cart))), items_of = []\<rparr> :: string cart"
  have a: "is_ok (resolveShippingForUser True 4 None (mk_addresses market_with_empty_cart))" by code_simp
  obtain sp where sp: "resolveShippingForUser True 4 None (mk_addresses market_with_empty_cart) = Inr sp"
    using a by (auto simp: is_ok_iff)
  have c: "GetActiveCartWithItemsForUser demo_view (cdb (mk_cart market_with_empty_cart)) 4 = Inr (Some ?c)"
    by code_simp
  have i: "ct_id (cart_of ?c) = 7" by code_simp
  have "(\<exists>ord m'. CreateUserOrder sample_env demo_view True 4
        (Some \<lparr>ur_cart = Some (ct_id (cart_of ?c)), ur_items = [], ur_address = None\<rparr>)
        market_with_empty_cart = (Inr ord, m') \<and> o_items ord = [] \<and> o_total ord = 0)"
    using empty_cart_is_ordered [OF _ sp c, of sample_env "[]"]
    by (simp add: i) (simp add: sample_env_def market_with_empty_cart_def sample_shop_def)
  then show ?thesis unfolding i by blast
qed

text \<open>Only the variant's first location (lowest id) is tried: an item is out of stock as soon as
  that one row has too little, whatever the other locations hold.\<close>

theorem order_tries_first_location_only:
  assumes "e_fault e = NoFault" "e_products e (cr_product it) = Some p" "e_variants e (cr_variant it) = Some v"
    and "v_product v = p_id p" "v_active v" "0 < cr_product it" "0 < cr_variant it" "0 < cr_quantity it"
    and "distinct (map row_key (items (sh_stock s)))"
    and "first_location (cr_variant it) (items (sh_stock s)) = Some l"
    and "ledger_of (items (sh_stock s)) (cr_variant it) l = Some (a, r, i)" "a < cr_quantity it"
  shows "createOrderFromItems e u c (it # its) sp s = (Inl ErrOutOfStock, s)"
proof -
  obtain er where "reserveTx (e_now e) (cr_variant it) l (cr_quantity it) (items (sh_stock s)) = Inl er"
    using reserveTx_implements [OF assms(9), of "e_now e" "cr_variant it" l "cr_quantity it"] assms(11,12)
    by (auto simp: implements_cell_def reserve_cell_def split: if_splits)
  then have "order_line e it (items (sh_stock s), new_order e u c sp) = Inl ErrOutOfStock"
    using assms by (simp add: order_line_def)
  then show ?thesis
    using assms(1) by (simp add: createOrderFromItems_def run_tx_def order_body_def)
qed

definition split_stock :: shop where
  "split_stock = \<lparr>sh_stock = \<lparr>locations = [],
     items = [\<lparr>it_id = 1, it_variant = 3, it_location = 2, it_available = 500, it_reserved = 0,
               it_incoming = 0, it_updated = 0\<rparr>,
              \<lparr>it_id = 2, it_variant = 3, it_location = 1, it_available = 0, it_reserved = 0,
               it_incoming = 0, it_updated = 0\<rparr>]\<rparr>, sh_orders = [], sh_order_items = []\<rparr>"

theorem order_tries_first_location_only_witness:
  "createOrderFromItems sample_env None None [\<lparr>cr_product = 5, cr_variant = 3, cr_quantity = 1\<rparr>]
     sample_shipping split_stock = (Inl ErrOutOfStock, split_stock)
   \<and> ledger_of (items (sh_stock split_stock)) 3 2 = Some (500, 0, 0)"
proof -
  have "first_location 3 (items (sh_stock split_stock)) = Some 1"
    "ledger_of (items (sh_stock split_stock)) 3 1 = Some (0, 0, 0)"
    "ledger_of (items (sh_stock split_stock)) 3 2 = Some (500, 0, 0)"
    "distinct (map row_key (items (sh_stock split_stock)))" by code_simp+
  then show ?thesis
    by (intro conjI order_tries_first_location_only) (simp_all add: sample_env_def, simp_all)
qed

text \<open>\<open>UpdateOrderStatus\<close> takes any existing order from any status to any known status (a
  delivered order back to pending too) and touches neither the stock nor any other order: cancelling
  does not release what the order reserved. Unknown statuses are refused.\<close>

theorem status_update_unrestricted:
  assumes "0 < i" "List.find (\<lambda>r. o_id r = i) (sh_orders s) = Some r"
  shows "(known_status st \<longrightarrow> (\<exists>ord s'. UpdateOrderStatus now i st s = (Inr ord, s') \<and> o_status ord = st
      \<and> sh_stock s' = sh_stock s \<and> sh_order_items s' = sh_order_items s
      \<and> filter (\<lambda>x. o_id x \<noteq> i) (sh_orders s') = filter (\<lambda>x. o_id x \<noteq> i) (sh_orders s)))
    \<and> (\<not> known_status st \<longrightarrow> UpdateOrderStatus now i st s = (Inl ErrInvalidInput, s))"
proof -
  have "filter (\<lambda>x. o_id x \<noteq> i) (update_where (\<lambda>r. o_id r = i)
      (\<lambda>r. r\<lparr>o_status := st, o_updated := now\<rparr>) t) = filter (\<lambda>x. o_id x \<noteq> i) t" for t :: "order list"
    by (rule filter_update_where_other) simp_all
  moreover have "known_status st \<Longrightarrow> \<not> blank_status st"
    by (cases st) (simp_all add: known_status_def blank_status_def)
  ultimately show ?thesis
    using assms by (simp add: UpdateOrderStatus_def repo_UpdateOrderStatus_def Let_def)
qed

theorem status_update_unrestricted_witness:
  "\<exists>ord (s :: shop) s'. UpdateOrderStatus 10 1 OrderStatusCancelled s = (Inr ord, s') \<and> sh_stock s' = sh_stock s"
proof -
  let ?s = "snd (createOrderFromItems sample_env None None sample_items sample_shipping sample_shop)"
  have "List.find (\<lambda>r. o_id r = 1) (sh_orders ?s) \<noteq> None" by code_simp
  then obtain r where "List.find (\<lambda>r. o_id r = 1) (sh_orders ?s) = Some r" by blast
  from status_update_unrestricted [OF _ this, of OrderStatusCancelled 10] show ?thesis
    by (auto simp: known_status_def)
qed

lemma MarkCartConverted_none:
  assumes "cart_wf d" "c \<in> set (carts d)" "active_for u c"
  shows "List.find (active_for u) (carts (snd (MarkCartConverted now (ct_id c) d))) = None"
proof -
  have "ct_id x = ct_id c" if "x \<in> set (carts d)" "active_for u x" for x
    using one_activeD [OF _ that(1) assms(2) that(2) assms(3)] assms(1)
    by (simp add: cart_wf_def carts_ok_def)
  moreover have "list_ex (\<lambda>x. ct_id x = ct_id c \<and> ct_status x = CartStatusActive) (carts d)"
    using assms(2,3) by (auto simp: list_ex_iff active_for_def)
  ultimately show ?thesis
    by (fastforce simp: MarkCartConverted_def Let_def find_None_iff_all set_update_where active_for_def)
qed

lemma CreateUserOrder_cart_ok:
  assumes "CreateUserOrder e w ss u (Some r) m = (Inr ord, m')" "positive (ur_cart r)"
  obtains c where "GetActiveCartWithItemsForUser w (cdb (mk_cart m)) u = Inr (Some c)" "0 < u"
    "ur_cart r = Some (ct_id (cart_of c))" "0 < ct_id (cart_of c)"
    "mk_cart m' = (mk_cart m)\<lparr>cdb := snd (MarkCartConverted (e_now e) (ct_id (cart_of c))
        (snd (ClearCart (e_now e) (ct_id (cart_of c)) (cdb (mk_cart m)))))\<rparr>"
  using assms
  by (auto simp: CreateUserOrder_def positive_def Let_def
      split: if_splits option.splits sum.splits prod.splits)

text \<open>After an order from the cart the database has no active cart for the user, but the service
  that created it does not delete the cached cart: until it expires, the user still sees the old one.\<close>

theorem order_leaves_stale_cart:
  assumes "CreateUserOrder e w ss u (Some r) m = (Inr ord, m')" "positive (ur_cart r)"
    and "cart_wf (cdb (mk_cart m))" "ccache (mk_cart m) = Some ch" "live now ch u = Some old"
  shows "GetActiveCartWithItemsForUser w (cdb (mk_cart m')) u = Inr None
    \<and> fst (GetActiveCart w now u (mk_cart m')) = Inr (Some old)"
proof -
  obtain c where c: "GetActiveCartWithItemsForUser w (cdb (mk_cart m)) u = Inr (Some c)" "0 < u"
    "0 < ct_id (cart_of c)"
    "mk_cart m' = (mk_cart m)\<lparr>cdb := snd (MarkCartConverted (e_now e) (ct_id (cart_of c))
        (snd (ClearCart (e_now e) (ct_id (cart_of c)) (cdb (mk_cart m)))))\<rparr>"
    by (rule CreateUserOrder_cart_ok [OF assms(1,2)])
  let ?d = "snd (ClearCart (e_now e) (ct_id (cart_of c)) (cdb (mk_cart m)))"
  have wf: "cart_wf ?d" using ClearCart_wf [OF prod.collapse [symmetric] assms(3)] .
  have "List.find (active_for u) (carts (cdb (mk_cart m))) = Some (cart_of c)"
    using loaded_cart [OF assms(3) c(1)] by blast
  then obtain c' where c': "List.find (active_for u) (carts ?d) = Some c'" "ct_id c' = ct_id (cart_of c)"
    using c(3) by (simp add: ClearCart_def find_touch)
  have "List.find (active_for u) (carts (snd (MarkCartConverted (e_now e) (ct_id c') ?d))) = None"
    using MarkCartConverted_none [OF wf] find_Some_iff_mem [OF c'(1)] by blast
  moreover have "cart_wf (cdb (mk_cart m'))"
    using MarkCartConverted_wf [OF prod.collapse [symmetric] wf] c(4) by simp
  ultimately have "GetActiveCartWithItemsForUser w (cdb (mk_cart m')) u = Inr None"
    using c(4) c'(2) by (simp add: active_cart_load)
  moreover have "fst (GetActiveCart w now u (mk_cart m')) = Inr (Some old)"
    using c(2,4) assms(4,5) by (simp add: GetActiveCart_def cached_read_def)
  ultimately show ?thesis by blast
qed

definition market_with_cached_cart :: "string market" where
  "market_with_cached_cart = market_with_empty_cart\<lparr>mk_cart :=
     snd (GetActiveCart demo_view 0 4 ((mk_cart market_with_empty_cart)\<lparr>ccache := Some (\<lambda>_. None)\<rparr>))\<rparr>"

theorem order_leaves_stale_cart_witness:
  "\<exists>ord m' old. CreateUserOrder sample_env demo_view True 4
       (Some \<lparr>ur_cart = Some 7, ur_items = [], ur_address = None\<rparr>) market_with_cached_cart = (Inr ord, m')
     \<and> GetActiveCartWithItemsForUser demo_view (cdb (mk_cart m')) 4 = Inr None
     \<and> fst (GetActiveCart demo_view 10 4 (mk_cart m')) = Inr (Some old)"
proof -
  let ?q = "Some \<lparr>ur_cart = Some 7, ur_items = [], ur_address = None\<rparr>"
  let ?r = "CreateUserOrder sample_env demo_view True 4 ?q market_with_cached_cart"
  have "is_ok (fst ?r)" by code_simp
  then obtain ord where ord: "?r = (Inr ord, snd ?r)" by (metis is_ok_iff prod.collapse)
  have "(case ccache (mk_cart market_with_cached_cart) of None \<Rightarrow> False
      | Some ch \<Rightarrow> live 10 ch 4 \<noteq> None)" by code_simp
  then obtain ch old where ch: "ccache (mk_cart market_with_cached_cart) = Some ch" "live 10 ch 4 = Some old"
    by (auto split: option.splits)
  have "cdb (mk_cart market_with_cached_cart) = cdb (mk_cart market_with_empty_cart)" by code_simp
  moreover have "cart_wf (cdb (mk_cart market_with_empty_cart))"
    by (simp add: market_with_empty_cart_def cart_wf_def carts_ok_def lines_ok_def one_active_def)
  ultimately have "cart_wf (cdb (mk_cart market_with_cached_cart))" by simp
  from order_leaves_stale_cart [OF ord _ this ch] ord show ?thesis
    by (auto simp: positive_def)
qed

definition page_le :: "list_filter \<Rightarrow> order \<Rightarrow> order \<Rightarrow> bool" where
  "page_le f = (let col = (case lf_sort f of None \<Rightarrow> SortCreatedAt | Some c \<Rightarrow> c) in
     if lf_desc f then (\<lambda>a b. sort_le col b a) else sort_le col)"

lemma page_le_total: "page_le f a b \<or> page_le f b a"
  by (auto simp: page_le_def sort_le_def Let_def split: sort_column.splits)

lemma page_le_trans: "page_le f a b \<Longrightarrow> page_le f b c \<Longrightarrow> page_le f a c"
  by (auto simp: page_le_def sort_le_def Let_def split: sort_column.splits if_splits)

lemma ListOrders_alt:
  "ListOrders f s = (take (nat (effective_limit (lf_limit f)))
      (drop (nat (if lf_offset f < 0 then 0 else lf_offset f))
        (order_by (page_le f) (filter (buildOrdersWhere f) (sh_orders s)))),
     int (length (filter (buildOrdersWhere f) (sh_orders s))))"
  by (auto simp: ListOrders_def page_le_def Let_def)

text \<open>\<open>ListOrders\<close> returns only orders that satisfy every filter, at most 200 of them, in the
  requested order, with the number of all matches; and consecutive offsets give consecutive
  pages: no match is skipped or repeated.\<close>

theorem list_orders_pages:
  assumes "ListOrders f s = (rows, cnt)" "0 < n" "n \<le> 200"
  shows "(\<forall>r \<in> set rows. r \<in> set (sh_orders s) \<and> buildOrdersWhere f r) \<and> length rows \<le> 200
    \<and> sorted_wrt (page_le f) rows \<and> cnt = int (length (filter (buildOrdersWhere f) (sh_orders s)))
    \<and> concat (map (\<lambda>k. fst (ListOrders (f\<lparr>lf_limit := int n, lf_offset := int (k * n)\<rparr>) s)) [0..<m])
      = take (m * n) (order_by (page_le f) (filter (buildOrdersWhere f) (sh_orders s)))"
proof -
  let ?all = "order_by (page_le f) (filter (buildOrdersWhere f) (sh_orders s))"
  have sorted: "sorted_wrt (page_le f) ?all" by (rule sorted_order_by) (rule page_le_total, rule page_le_trans)
  have same: "page_le (f\<lparr>lf_limit := a, lf_offset := b\<rparr>) = page_le f"
    "buildOrdersWhere (f\<lparr>lf_limit := a, lf_offset := b\<rparr>) = buildOrdersWhere f" for a b
    by (simp_all add: page_le_def buildOrdersWhere_def fun_eq_iff)
  obtain a b where rows: "rows = take a (drop b ?all)" "a \<le> 200"
  proof
    show "rows = take (nat (effective_limit (lf_limit f)))
        (drop (nat (if lf_offset f < 0 then 0 else lf_offset f)) ?all)"
      using assms(1) by (simp add: ListOrders_alt)
    show "nat (effective_limit (lf_limit f)) \<le> 200" by (auto simp: effective_limit_def)
  qed
  have "set rows \<subseteq> set (filter (buildOrdersWhere f) (sh_orders s))"
    unfolding rows(1) by (metis set_drop_subset set_order_by set_take_subset subset_trans)
  then have "\<forall>r \<in> set rows. r \<in> set (sh_orders s) \<and> buildOrdersWhere f r" by auto
  moreover have "length rows \<le> 200" using rows(2) unfolding rows(1) by simp
  moreover have "sorted_wrt (page_le f) rows"
    unfolding rows(1) using sorted by (simp add: sorted_wrt_drop sorted_wrt_take)
  moreover have "cnt = int (length (filter (buildOrdersWhere f) (sh_orders s)))"
    using assms(1) by (simp add: ListOrders_alt)
  moreover have "fst (ListOrders (f\<lparr>lf_limit := int n, lf_offset := int (k * n)\<rparr>) s)
      = take n (drop (k * n) ?all)" for k
  proof -
    have "\<not> int (k * n) < 0" "nat (int (k * n)) = k * n" by (simp_all only: nat_int of_nat_less_0_iff not_False_eq_True)
    then show ?thesis using assms(2,3)
      by (simp add: ListOrders_alt same effective_limit_def del: of_nat_mult)
  qed
  then have "concat (map (\<lambda>k. fst (ListOrders (f\<lparr>lf_limit := int n, lf_offset := int (k * n)\<rparr>) s)) [0..<m])
      = take (m * n) ?all" by (simp only: concat_pages)
  ultimately show ?thesis by blast
qed

theorem list_orders_pages_witness:
  "length (fst (ListOrders \<lparr>lf_order = None, lf_number = None, lf_user = None, lf_cart = None,
     lf_statuses = [], lf_from = None, lf_to = None, lf_limit = 0, lf_offset = 0, lf_sort = None,
     lf_desc = True\<rparr> sample_shop)) \<le> 200"
  using list_orders_pages [OF prod.collapse [symmetric], of 1 _ sample_shop 1] by simp

end
