(* ===== verification/Forest.thy ===== *)
theory Forest
  imports Prelude
begin

text \<open>
  Forests given by a parent function, and what happens to the ancestor chains when a leaf is added,
  a leaf is removed, or a node with its subtree is moved under another parent. The category tree and
  its closure table are an instance.
\<close>

fun up :: "(id \<Rightarrow> id option) \<Rightarrow> nat \<Rightarrow> id \<Rightarrow> id option" where
  "up p 0 d = Some d"
| "up p (Suc n) d = (case p d of None \<Rightarrow> None | Some q \<Rightarrow> up p n q)"

definition forest :: "id set \<Rightarrow> (id \<Rightarrow> id option) \<Rightarrow> bool" where
  "forest N p \<longleftrightarrow> (\<forall>d \<in> N. \<forall>q. p d = Some q \<longrightarrow> q \<in> N) \<and> (\<forall>d \<in> N. \<exists>n. up p n d = None)"

definition closure_of :: "id set \<Rightarrow> (id \<Rightarrow> id option) \<Rightarrow> (id \<times> id \<times> nat) set" where
  "closure_of N p = {(a, d, n). d \<in> N \<and> up p n d = Some a}"

lemma up_add: "up p (m + n) d = (case up p m d of None \<Rightarrow> None | Some q \<Rightarrow> up p n q)"
  by (induction m arbitrary: d) (auto split: option.splits)

lemma up_None_mono: "up p n d = None \<Longrightarrow> n \<le> m \<Longrightarrow> up p m d = None"
  using up_add [of p n "m - n" d] by simp

lemma up_in: "forest N p \<Longrightarrow> d \<in> N \<Longrightarrow> up p n d = Some a \<Longrightarrow> a \<in> N"
  by (induction n arbitrary: d) (auto simp: forest_def split: option.splits)

lemma no_cycle:
  assumes "forest N p" "d \<in> N" "up p n d = Some d"
  shows "n = 0"
proof (rule ccontr)
  assume "n \<noteq> 0"
  have "up p (k * n) d = Some d" for k
    using assms(3) by (induction k) (auto simp: up_add)
  moreover obtain m where "up p m d = None" using assms(1,2) by (auto simp: forest_def)
  ultimately show False
    using up_None_mono [of p m d "m * n"] \<open>n \<noteq> 0\<close> by (metis le_add1 mult_0_right mult_is_0
        mult_le_mono nat_mult_1_right not_one_le_zero option.distinct(1) One_nat_def Suc_leI neq0_conv order_refl)
qed

lemma up_unique:
  assumes "forest N p" "d \<in> N" "up p m d = Some a" "up p n d = Some a"
  shows "m = n"
proof -
  have *: "i = j" if "up p i d = Some a" "up p j d = Some a" "i \<le> j" for i j
  proof -
    have "up p (j - i) a = Some a" using that up_add [of p i "j - i" d] by simp
    then show ?thesis
      using no_cycle [OF assms(1) up_in [OF assms(1,2) that(1)]] that(3) by fastforce
  qed
  show ?thesis using * [OF assms(3,4)] * [OF assms(4,3)] by (cases "m \<le> n") auto
qed

text \<open>Changing the parent of a node does not matter to chains that do not pass it.\<close>

lemma up_avoid:
  "(\<And>k. k < n \<Longrightarrow> up p k d \<noteq> Some x) \<Longrightarrow> up (p(x := v)) n d = up p n d"
proof (induction n arbitrary: d)
  case (Suc n)
  have d: "d \<noteq> x" using Suc.prems [of 0] by simp
  show ?case
  proof (cases "p d")
    case (Some q)
    have "up (p(x := v)) n q = up p n q"
    proof (rule Suc.IH)
      fix k assume "k < n"
      then show "up p k q \<noteq> Some x" using Suc.prems [of "Suc k"] Some by simp
    qed
    then show ?thesis using Some d by (simp del: fun_upd_apply add: fun_upd_other)
  qed (use d in simp)
qed simp

lemma up_before:
  assumes "forest N p" "d \<in> N" "up p m d = Some x" "n \<le> m"
  shows "up (p(x := v)) n d = up p n d"
proof (rule up_avoid)
  fix k
  assume "k < n"
  then show "up p k d \<noteq> Some x" using up_unique [OF assms(1-3), of k] assms(4) by auto
qed

text \<open>A new leaf.\<close>

lemma forest_add_leaf:
  assumes "forest N p" "x \<notin> N" "v = None \<or> (\<exists>q \<in> N. v = Some q)"
  shows "forest (insert x N) (p(x := v))"
    "closure_of (insert x N) (p(x := v)) = closure_of N p \<union> {(x, x, 0)}
       \<union> {(a, x, Suc n) | a n. \<exists>q. v = Some q \<and> (a, q, n) \<in> closure_of N p}"
proof -
  have old: "up (p(x := v)) n d = up p n d" if "d \<in> N" for n d
    using up_in [OF assms(1) that] assms(2) by (intro up_avoid) auto
  have new: "up (p(x := v)) (Suc n) x = (case v of None \<Rightarrow> None | Some q \<Rightarrow> up p n q)" for n
    using assms(3) old by (auto split: option.splits)
  have "\<exists>n. up (p(x := v)) n d = None" if "d \<in> insert x N" for d
  proof (cases "d = x")
    case True
    have "\<exists>n. (case v of None \<Rightarrow> None | Some q \<Rightarrow> up p n q) = None"
      using assms(1,3) by (auto simp: forest_def)
    then show ?thesis using True new by metis
  next
    case False
    then show ?thesis using that old assms(1) by (auto simp: forest_def)
  qed
  then show "forest (insert x N) (p(x := v))"
    using assms by (auto simp: forest_def)
  show "closure_of (insert x N) (p(x := v)) = closure_of N p \<union> {(x, x, 0)}
       \<union> {(a, x, Suc n) | a n. \<exists>q. v = Some q \<and> (a, q, n) \<in> closure_of N p}" (is "?L = ?R")
  proof (rule set_eqI)
    fix r :: "id \<times> id \<times> nat"
    obtain a d n where r: "r = (a, d, n)" by (cases r)
    show "r \<in> ?L \<longleftrightarrow> r \<in> ?R"
    proof (cases "d = x")
      case True
      show ?thesis
      proof (cases n)
        case 0
        then show ?thesis using True r by (auto simp: closure_of_def)
      next
        case (Suc m)
        then show ?thesis
          using True r new [of m] assms(2,3) by (auto simp: closure_of_def split: option.splits)
      qed
    next
      case False
      then show ?thesis using r old by (auto simp: closure_of_def)
    qed
  qed
qed

text \<open>A leaf taken away.\<close>

lemma forest_remove_leaf:
  assumes "forest N p" "\<And>d. d \<in> N \<Longrightarrow> p d \<noteq> Some x"
    and "\<And>d. d \<in> N - {x} \<Longrightarrow> p' d = p d"
  shows "forest (N - {x}) p'"
    "closure_of (N - {x}) p' = {(a, d, n) \<in> closure_of N p. a \<noteq> x \<and> d \<noteq> x}"
proof -
  have same: "up p' n d = up p n d \<and> (\<forall>a. up p n d = Some a \<longrightarrow> a \<in> N - {x})" if "d \<in> N - {x}" for n d
    using that
  proof (induction n arbitrary: d)
    case (Suc n)
    show ?case
    proof (cases "p d")
      case None
      then show ?thesis using assms(3) [OF Suc.prems] by simp
    next
      case (Some q)
      then have "q \<in> N - {x}" using assms(1,2) Suc.prems by (auto simp: forest_def)
      then show ?thesis using Suc.IH [of q] Some assms(3) [OF Suc.prems] by simp
    qed
  qed simp
  have "q \<in> N - {x}" if "d \<in> N - {x}" "p' d = Some q" for d q
  proof -
    have "p d = Some q" using assms(3) [OF that(1)] that(2) by simp
    then have "up p (Suc 0) d = Some q" by simp
    then show ?thesis using same [OF that(1), of "Suc 0"] by blast
  qed
  moreover have "\<exists>n. up p' n d = None" if d: "d \<in> N - {x}" for d
  proof -
    obtain n where "up p n d = None" using assms(1) d unfolding forest_def by blast
    then have "up p' n d = None" using same [OF d, of n] by simp
    then show ?thesis by blast
  qed
  ultimately show "forest (N - {x}) p'" unfolding forest_def by blast
  show "closure_of (N - {x}) p' = {(a, d, n) \<in> closure_of N p. a \<noteq> x \<and> d \<noteq> x}"
  proof (rule set_eqI)
    fix r :: "id \<times> id \<times> nat"
    obtain a d n where r: "r = (a, d, n)" by (cases r)
    show "r \<in> closure_of (N - {x}) p' \<longleftrightarrow> r \<in> {(a, d, n) \<in> closure_of N p. a \<noteq> x \<and> d \<noteq> x}"
    proof (cases "d \<in> N - {x}")
      case True
      have "a \<noteq> x" if "up p n d = Some a" using same [OF True, of n] that by blast
      then show ?thesis using True conjunct1 [OF same [OF True, of n]]
        unfolding r closure_of_def mem_Collect_eq split_conv by auto
    qed (simp add: r closure_of_def, blast?)
  qed
qed

text \<open>A subtree moved: \<open>x\<close> and its descendants go under \<open>v\<close>, which is not one of them.\<close>

definition below :: "id set \<Rightarrow> (id \<Rightarrow> id option) \<Rightarrow> id \<Rightarrow> id set" where
  "below N p x = {d \<in> N. \<exists>n. up p n d = Some x}"

lemma up_outside:
  assumes "d \<in> N" "d \<notin> below N p x"
  shows "up (p(x := v)) n d = up p n d"
  using assms by (intro up_avoid) (auto simp: below_def)

lemma up_inside:
  assumes "forest N p" "d \<in> N" "up p m d = Some x" "v = None \<or> (\<exists>q. v = Some q \<and> q \<in> N - below N p x)"
  shows "up (p(x := v)) (m + n) d
    = (case n of 0 \<Rightarrow> Some x | Suc k \<Rightarrow> (case v of None \<Rightarrow> None | Some q \<Rightarrow> up p k q))"
proof -
  have "up (p(x := v)) m d = Some x" using up_before [OF assms(1-3) order_refl] assms(3) by simp
  then show ?thesis
    using up_add [of "p(x := v)" m n d] assms(4) up_outside [of _ N p x]
    by (cases n) (auto split: option.splits)
qed

lemma forest_move:
  assumes "forest N p" "x \<in> N" "v = None \<or> (\<exists>q. v = Some q \<and> q \<in> N - below N p x)"
  shows "forest N (p(x := v))"
proof -
  have "\<exists>n. up (p(x := v)) n d = None" if "d \<in> N" for d
  proof (cases "d \<in> below N p x")
    case True
    then obtain m where m: "up p m d = Some x" by (auto simp: below_def)
    have "\<exists>k. (case v of None \<Rightarrow> None | Some q \<Rightarrow> up p k q) = None"
      using assms(1,3) by (auto simp: forest_def)
    then obtain k where "(case v of None \<Rightarrow> None | Some q \<Rightarrow> up p k q) = None" by blast
    then have "up (p(x := v)) (m + Suc k) d = None"
      using up_inside [OF assms(1) that m assms(3), of "Suc k"] by (simp only: nat.case)
    then show ?thesis by blast
  next
    case False
    then show ?thesis using up_outside [OF that False] assms(1) that by (auto simp: forest_def)
  qed
  then show ?thesis using assms by (auto simp: forest_def)
qed

lemma closure_move:
  assumes "forest N p" "x \<in> N" "v = None \<or> (\<exists>q. v = Some q \<and> q \<in> N - below N p x)"
  shows "closure_of N (p(x := v))
    = {(a, d, n) \<in> closure_of N p. d \<in> below N p x \<longrightarrow> a \<in> below N p x}
      \<union> {(a, d, Suc (k + m)) | a d k m. \<exists>q. v = Some q \<and> (a, q, k) \<in> closure_of N p \<and> (x, d, m) \<in> closure_of N p}"
    (is "?L = ?R")
proof (rule set_eqI)
  fix r :: "id \<times> id \<times> nat"
  obtain a d n where r: "r = (a, d, n)" by (cases r)
  show "r \<in> ?L \<longleftrightarrow> r \<in> ?R"
  proof (cases "d \<in> below N p x")
    case False
    then have "(x, d, m) \<notin> closure_of N p" for m by (auto simp: below_def closure_of_def)
    then show ?thesis using False r up_outside [OF _ False] by (auto simp: closure_of_def)
  next
    case True
    then obtain m where m: "up p m d = Some x" and d: "d \<in> N" by (auto simp: below_def)
    have only: "(x, d, m') \<in> closure_of N p \<longleftrightarrow> m' = m" for m'
      unfolding closure_of_def using up_unique [OF assms(1) d _ m] m d by blast
    have R: "r \<in> ?R \<longleftrightarrow> (up p n d = Some a \<and> a \<in> below N p x)
        \<or> (\<exists>k q. n = Suc (k + m) \<and> v = Some q \<and> q \<in> N \<and> up p k q = Some a)"
      unfolding r using True d only by (auto simp: closure_of_def)
    have L: "r \<in> ?L \<longleftrightarrow> up (p(x := v)) n d = Some a" unfolding r closure_of_def using d by simp
    show ?thesis
    proof (cases "n \<le> m")
      case True
      have "a \<in> below N p x" if "up p n d = Some a"
      proof -
        have "up p (m - n) a = Some x" using m up_add [of p n "m - n" d] that True by simp
        then show ?thesis using up_in [OF assms(1) d that] by (auto simp: below_def)
      qed
      moreover have "n \<noteq> Suc (k + m)" for k using True by simp
      ultimately show ?thesis unfolding L R up_before [OF assms(1) d m True] by blast
    next
      case False
      then obtain k where k: "n = m + Suc k" by (metis add_Suc_right less_natE not_le)
      have "a \<notin> below N p x" if "up p n d = Some a"
      proof
        assume "a \<in> below N p x"
        then obtain j where "up p j a = Some x" by (auto simp: below_def)
        then have "up p (n + j) d = Some x" using that by (simp add: up_add)
        from up_unique [OF assms(1) d m this] show False using k by simp
      qed
      moreover have "up (p(x := v)) n d = (case v of None \<Rightarrow> None | Some q \<Rightarrow> up p k q)"
        using up_inside [OF assms(1) d m assms(3), of "Suc k"] unfolding k by (simp only: nat.case)
      moreover have "n = Suc (k' + m) \<longleftrightarrow> k' = k" for k' using k by auto
      ultimately show ?thesis
        unfolding L R using assms(3) by (cases v) (simp_all, blast?)
    qed
  qed
qed

end
