(* ===== verification/Category.thy ===== *)
theory Category
  imports Go_Strings Forest
begin

text \<open>
  The category tree: \<open>internal/domain/category\<close>, the repository
  \<open>internal/repository/postgres/category_repo.go\<close>, the service \<open>internal/service/catalog/category.go\<close>
  and the trigger \<open>fn_maintain_category_closure\<close> (migration \<open>002_category_closure_triggers.sql\<close>)
  that keeps the closure table. Unicode classes and lower-casing, URL parsing, the image upload and
  the collation are arguments.
\<close>

section \<open>Data\<close>

datatype cat_error =
    ErrNotFound | ErrSlugConflict | ErrCircularParent | ErrInvalidName | ErrInvalidParent
  | ErrInvalidCategoryID | ErrInvalidImage | ErrImageUpload | ErrSlugExhausted | CatDbError

record cat =
  c_id :: id
  c_name :: string
  c_slug :: string
  c_parent :: "id option"
  c_active :: bool
  c_image :: "string option"
  c_created :: instant

record closure_row =
  cl_anc :: id
  cl_desc :: id
  cl_depth :: int

text \<open>\<open>cat_uploads\<close> are the file ids the external image store keeps.\<close>

record cat_db =
  cats :: "cat list"
  closure :: "closure_row list"
  links :: "(id \<times> id) list"
  cat_uploads :: "string list"

record cat_create_req =
  cc_image :: "string option"
  cc_name :: string
  cc_parent :: "id option"
  cc_active :: "bool option"

record cat_update_req =
  cu_image :: "string option"
  cu_name :: "string option"
  cu_parent :: "id option"
  cu_active :: "bool option"

text \<open>Rune classes and case mapping of \<open>unicode\<close> and \<open>regexp\<close>; \<open>net/url\<close>'s parse as scheme, host and
  whether there is user information.\<close>

record unicode =
  to_lower :: "string \<Rightarrow> string"
  letter_or_number :: "string \<Rightarrow> bool"
  control_rune :: "string \<Rightarrow> bool"
  parse_url :: "string \<Rightarrow> (string \<times> string \<times> bool) option"

text \<open>An uploaded file, whose content may fail to be read, and the services an upload needs: the image
  decoder and encoder, and the image store with its reply (URL and file id) to an upload.\<close>

record upload =
  up_name :: string
  up_size :: int
  up_data :: "string option"

record image_env =
  decode_config :: "string \<Rightarrow> (string \<times> int \<times> int) option"
  to_webp :: "string \<Rightarrow> string option"
  kit_on :: bool
  kit_reply :: "string \<Rightarrow> string \<Rightarrow> (string \<times> string) option option"
  kit_deletes :: bool

section \<open>Slugs\<close>

text \<open>The runes of a string: each first byte with the continuation bytes after it.\<close>

function runes :: "string \<Rightarrow> string list" where
  "runes [] = []"
| "runes (c # cs) = (c # takeWhile cont_byte cs) # runes (dropWhile cont_byte cs)"
  by pat_completeness auto
termination
  by (relation "measure length") (auto simp: length_dropWhile_le less_Suc_eq_le)

text \<open>\<open>reNonAlphanumeric.ReplaceAllString(s, "-")\<close>, on runes.\<close>

function replace_runs :: "(string \<Rightarrow> bool) \<Rightarrow> string list \<Rightarrow> string list" where
  "replace_runs ok [] = []"
| "replace_runs ok (r # rs) =
     (if ok r then r # replace_runs ok rs else ''-'' # replace_runs ok (dropWhile (\<lambda>x. \<not> ok x) rs))"
  by pat_completeness auto
termination
  by (relation "measure (\<lambda>(ok, rs). length rs)") (auto simp: length_dropWhile_le less_Suc_eq_le)

text \<open>\<open>reMultipleDash.ReplaceAllString(s, "-")\<close>.\<close>

fun squeeze_dashes :: "string list \<Rightarrow> string list" where
  "squeeze_dashes (a # b # rs) =
     (if a = ''-'' \<and> b = ''-'' then squeeze_dashes (b # rs) else a # squeeze_dashes (b # rs))"
| "squeeze_dashes rs = rs"

definition trim_dashes :: "string list \<Rightarrow> string list" where
  "trim_dashes rs = rev (dropWhile ((=) ''-'') (rev (dropWhile ((=) ''-'') rs)))"

definition slug_runes :: "unicode \<Rightarrow> string \<Rightarrow> string list" where
  "slug_runes u name =
     (let s = runes (to_lower u (trim_space name))
      in filter (\<lambda>r. \<not> control_rune u r)
           (trim_dashes (squeeze_dashes (replace_runs (letter_or_number u) s))))"

definition GenerateSlug :: "unicode \<Rightarrow> string \<Rightarrow> string" where
  "GenerateSlug u name = concat (slug_runes u name)"

section \<open>Validation\<close>

definition has_space :: "string \<Rightarrow> bool" where
  "has_space s \<longleftrightarrow> list_ex (\<lambda>k. list_ex (\<lambda>e. prefix e (drop k s)) space_encodings) [0..<length s]"

definition NormalizeImageURL :: "unicode \<Rightarrow> string option \<Rightarrow> cat_error + string option" where
  "NormalizeImageURL u v =
     (case v of
        None \<Rightarrow> Inr None
      | Some raw \<Rightarrow>
          let s = trim_space raw in
          if s = [] then Inr None
          else if 2048 < length s \<or> has_space s then Inl ErrInvalidImage
          else case parse_url u s of
                 None \<Rightarrow> Inl ErrInvalidImage
               | Some (scheme, host, user) \<Rightarrow>
                   if (scheme \<noteq> ''https'' \<and> scheme \<noteq> ''http'') \<or> host = [] \<or> user then Inl ErrInvalidImage
                   else Inr (Some s))"

definition CreateRequest_Validate :: "unicode \<Rightarrow> cat_create_req \<Rightarrow> cat_error + cat_create_req" where
  "CreateRequest_Validate u r =
     (case NormalizeImageURL u (cc_image r) of
        Inl e \<Rightarrow> Inl e
      | Inr _ \<Rightarrow>
          let r1 = r\<lparr>cc_name := trim_space (cc_name r)\<rparr> in
          if cc_name r1 = [] \<or> 255 < rune_count (cc_name r1) then Inl ErrInvalidName
          else if (case cc_parent r1 of None \<Rightarrow> False | Some p \<Rightarrow> p \<le> 0) then Inl ErrInvalidParent
          else Inr r1)"

definition UpdateRequest_Validate :: "unicode \<Rightarrow> cat_update_req \<Rightarrow> cat_error + cat_update_req" where
  "UpdateRequest_Validate u r =
     (case NormalizeImageURL u (cu_image r) of
        Inl e \<Rightarrow> Inl e
      | Inr _ \<Rightarrow>
          let r1 = r\<lparr>cu_name := map_option trim_space (cu_name r)\<rparr> in
          if (case cu_name r1 of None \<Rightarrow> False | Some n \<Rightarrow> n = [] \<or> 255 < rune_count n) then Inl ErrInvalidName
          else if (case cu_parent r1 of None \<Rightarrow> False | Some p \<Rightarrow> p < 0) then Inl ErrInvalidParent
          else Inr r1)"

section \<open>The closure trigger\<close>

text \<open>Rows are inserted one by one under the primary key \<open>(ancestor_id, descendant_id)\<close>.\<close>

definition cl_key :: "closure_row \<Rightarrow> id \<times> id" where
  "cl_key r = (cl_anc r, cl_desc r)"

fun pk_insert :: "closure_row list \<Rightarrow> closure_row list \<Rightarrow> closure_row list option" where
  "pk_insert [] t = Some t"
| "pk_insert (r # rs) t = (if cl_key r \<in> set (map cl_key t) then None else pk_insert rs (t @ [r]))"

definition trigger_insert :: "id \<Rightarrow> id option \<Rightarrow> closure_row list \<Rightarrow> closure_row list option" where
  "trigger_insert x p t =
     (case pk_insert [\<lparr>cl_anc = x, cl_desc = x, cl_depth = 0\<rparr>] t of
        None \<Rightarrow> None
      | Some t1 \<Rightarrow> (case p of
          None \<Rightarrow> Some t1
        | Some q \<Rightarrow> pk_insert (map (\<lambda>r. \<lparr>cl_anc = cl_anc r, cl_desc = x, cl_depth = cl_depth r + 1\<rparr>)
                              (filter (\<lambda>r. cl_desc r = q) t1)) t1))"

definition trigger_update ::
  "id \<Rightarrow> id option \<Rightarrow> id option \<Rightarrow> closure_row list \<Rightarrow> closure_row list option" where
  "trigger_update x old_p new_p t =
     (if old_p = new_p then Some t
      else
        let sub = map cl_desc (filter (\<lambda>r. cl_anc r = x) t);
            t1 = filter (\<lambda>r. \<not> (cl_desc r \<in> set sub \<and> cl_anc r \<notin> set sub)) t
        in case new_p of
             None \<Rightarrow> Some t1
           | Some q \<Rightarrow> pk_insert
               (concat (map (\<lambda>p. map (\<lambda>c. \<lparr>cl_anc = cl_anc p, cl_desc = cl_desc c,
                                           cl_depth = cl_depth p + cl_depth c + 1\<rparr>)
                                  (filter (\<lambda>c. cl_anc c = x) t1))
                            (filter (\<lambda>p. cl_desc p = q) t1))) t1)"

definition trigger_delete :: "id \<Rightarrow> closure_row list \<Rightarrow> closure_row list" where
  "trigger_delete x t = filter (\<lambda>r. \<not> (cl_desc r = x \<or> cl_anc r = x)) t"

section \<open>Repository\<close>

definition cat_exists :: "id \<Rightarrow> cat_db \<Rightarrow> bool" where
  "cat_exists i d \<longleftrightarrow> list_ex (\<lambda>c. c_id c = i) (cats d)"

text \<open>\<open>insertCategory\<close>: the slug it inserts is the generated one, whatever the caller set.\<close>

definition insertCategory ::
  "unicode \<Rightarrow> id \<Rightarrow> instant \<Rightarrow> cat \<Rightarrow> cat_db \<Rightarrow> cat_error + cat \<times> cat_db" where
  "insertCategory u nid now c0 d =
     (let c = c0\<lparr>c_slug := GenerateSlug u (c_name c0), c_id := nid, c_created := now\<rparr> in
      if 255 < rune_count (c_slug c) \<or> 255 < rune_count (c_name c) then Inl CatDbError
      else if list_ex (\<lambda>r. c_slug r = c_slug c) (cats d) then Inl ErrSlugConflict
      else if (case c_parent c of None \<Rightarrow> False | Some p \<Rightarrow> \<not> cat_exists p d) then Inl CatDbError
      else case trigger_insert nid (c_parent c) (closure d) of
             None \<Rightarrow> Inl CatDbError
           | Some t \<Rightarrow> Inr (c, d\<lparr>cats := cats d @ [c], closure := t\<rparr>))"

definition repo_CreateCategory ::
  "unicode \<Rightarrow> tx_fault \<Rightarrow> id \<Rightarrow> instant \<Rightarrow> cat \<Rightarrow> cat_db \<Rightarrow> (cat_error + cat) \<times> cat_db" where
  "repo_CreateCategory u flt nid now c d = run_tx flt CatDbError (insertCategory u nid now c) d"

definition repo_GetCategoryByID :: "id \<Rightarrow> cat_db \<Rightarrow> cat_error + cat" where
  "repo_GetCategoryByID i d =
     (case List.find (\<lambda>c. c_id c = i) (cats d) of None \<Rightarrow> Inl ErrNotFound | Some c \<Rightarrow> Inr c)"

definition repo_GetCategoryBySlug :: "string \<Rightarrow> cat_db \<Rightarrow> cat_error + cat" where
  "repo_GetCategoryBySlug s d =
     (case List.find (\<lambda>c. c_slug c = s) (cats d) of None \<Rightarrow> Inl ErrNotFound | Some c \<Rightarrow> Inr c)"

definition cat_edit :: "cat \<Rightarrow> cat \<Rightarrow> cat" where
  "cat_edit c r = r\<lparr>c_name := c_name c, c_slug := c_slug c, c_parent := c_parent c,
                    c_active := c_active c, c_image := c_image c\<rparr>"

definition repo_UpdateCategory :: "cat \<Rightarrow> cat_db \<Rightarrow> (cat_error + unit) \<times> cat_db" where
  "repo_UpdateCategory c d =
     (case List.find (\<lambda>r. c_id r = c_id c) (cats d) of
        None \<Rightarrow> (Inl ErrNotFound, d)
      | Some old \<Rightarrow>
          if 255 < rune_count (c_slug c) \<or> 255 < rune_count (c_name c) then (Inl CatDbError, d)
          else if list_ex (\<lambda>r. c_id r \<noteq> c_id c \<and> c_slug r = c_slug c) (cats d) then (Inl ErrSlugConflict, d)
          else if (case c_parent c of None \<Rightarrow> False | Some p \<Rightarrow> \<not> cat_exists p d) then (Inl CatDbError, d)
          else case trigger_update (c_id c) (c_parent old) (c_parent c) (closure d) of
                 None \<Rightarrow> (Inl CatDbError, d)
               | Some t \<Rightarrow> (Inr (), d\<lparr>cats := update_where (\<lambda>r. c_id r = c_id c) (cat_edit c) (cats d),
                                      closure := t\<rparr>))"

text \<open>The foreign key of \<open>parent_id\<close> has no cascade, the one of the product links has.\<close>

definition repo_DeleteCategory :: "id \<Rightarrow> cat_db \<Rightarrow> (cat_error + unit) \<times> cat_db" where
  "repo_DeleteCategory i d =
     (if \<not> cat_exists i d then (Inl ErrNotFound, d)
      else if list_ex (\<lambda>c. c_parent c = Some i) (cats d) then (Inl CatDbError, d)
      else (Inr (), d\<lparr>cats := delete_where (\<lambda>c. c_id c = i) (cats d),
                     closure := trigger_delete i (closure d),
                     links := filter (\<lambda>l. snd l \<noteq> i) (links d)\<rparr>))"

definition ListCategories ::
  "(string \<Rightarrow> string \<Rightarrow> bool) \<Rightarrow> id option \<Rightarrow> bool \<Rightarrow> cat_db \<Rightarrow> cat list" where
  "ListCategories collate parent active_only d =
     order_by (\<lambda>a b. collate (c_name a) (c_name b))
       (filter (\<lambda>c. (active_only \<longrightarrow> c_active c) \<and>
          (case parent of None \<Rightarrow> True
           | Some p \<Rightarrow> if p = 0 then c_parent c = None else c_parent c = Some p)) (cats d))"

definition GetCategoryAncestors :: "id \<Rightarrow> cat_db \<Rightarrow> closure_row list" where
  "GetCategoryAncestors i d =
     order_by (\<lambda>a b. cl_depth b \<le> cl_depth a) (filter (\<lambda>r. cl_desc r = i \<and> cl_anc r \<noteq> i) (closure d))"

definition GetCategoryDescendants :: "id \<Rightarrow> cat_db \<Rightarrow> closure_row list" where
  "GetCategoryDescendants i d =
     order_by (\<lambda>a b. cl_depth a \<le> cl_depth b) (filter (\<lambda>r. cl_anc r = i \<and> cl_desc r \<noteq> i) (closure d))"

definition IsAncestor :: "id \<Rightarrow> id \<Rightarrow> cat_db \<Rightarrow> bool" where
  "IsAncestor i pot d \<longleftrightarrow> i = pot
     \<or> list_ex (\<lambda>r. cl_anc r = pot \<and> cl_desc r = i \<and> 0 < cl_depth r) (closure d)"

definition AddProductCategory :: "(id \<Rightarrow> bool) \<Rightarrow> id \<Rightarrow> id \<Rightarrow> cat_db \<Rightarrow> (cat_error + unit) \<times> cat_db" where
  "AddProductCategory pexists p c d =
     (if \<not> pexists p \<or> \<not> cat_exists c d then (Inl CatDbError, d)
      else (Inr (), d\<lparr>links := (if (p, c) \<in> set (links d) then links d else links d @ [(p, c)])\<rparr>))"

definition RemoveProductCategory :: "id \<Rightarrow> id \<Rightarrow> cat_db \<Rightarrow> (cat_error + unit) \<times> cat_db" where
  "RemoveProductCategory p c d =
     (if (p, c) \<notin> set (links d) then (Inl ErrNotFound, d)
      else (Inr (), d\<lparr>links := filter (\<lambda>l. l \<noteq> (p, c)) (links d)\<rparr>))"

definition link_one :: "(id \<Rightarrow> bool) \<Rightarrow> id \<Rightarrow> id \<Rightarrow> cat_db \<Rightarrow> cat_error + cat_db" where
  "link_one pexists p c d = (case AddProductCategory pexists p c d of (Inl e, _) \<Rightarrow> Inl e | (Inr _, d') \<Rightarrow> Inr d')"

definition setProductCategoriesTx ::
  "(id \<Rightarrow> bool) \<Rightarrow> id \<Rightarrow> id list \<Rightarrow> cat_db \<Rightarrow> cat_error + unit \<times> cat_db" where
  "setProductCategoriesTx pexists p cs d =
     (case try_all (link_one pexists p) cs (d\<lparr>links := filter (\<lambda>l. fst l \<noteq> p) (links d)\<rparr>) of
        Inl e \<Rightarrow> Inl e | Inr d' \<Rightarrow> Inr ((), d'))"

definition SetProductCategories ::
  "tx_fault \<Rightarrow> (id \<Rightarrow> bool) \<Rightarrow> id \<Rightarrow> id list \<Rightarrow> cat_db \<Rightarrow> (cat_error + unit) \<times> cat_db" where
  "SetProductCategories flt pexists p cs d = run_tx flt CatDbError (setProductCategoriesTx pexists p cs) d"

definition GetProductCategories ::
  "(string \<Rightarrow> string \<Rightarrow> bool) \<Rightarrow> id \<Rightarrow> cat_db \<Rightarrow> cat list" where
  "GetProductCategories collate p d =
     order_by (\<lambda>a b. collate (c_name a) (c_name b)) (filter (\<lambda>c. (p, c_id c) \<in> set (links d)) (cats d))"

section \<open>Service\<close>

text \<open>\<open>fmt.Sprintf("%s-%d", base, attempt)\<close> from the second attempt on.\<close>

definition attempt_slug :: "string \<Rightarrow> nat \<Rightarrow> string" where
  "attempt_slug base k = (if 1 < k then base @ ''-'' @ digits_of_nat k else base)"

text \<open>\<open>left\<close> attempts are left of ten; the current one is \<open>11 - left\<close>.\<close>

fun create_retry ::
  "unicode \<Rightarrow> (nat \<Rightarrow> tx_fault) \<Rightarrow> id \<Rightarrow> instant \<Rightarrow> string \<Rightarrow> nat \<Rightarrow> cat \<Rightarrow> cat_db
     \<Rightarrow> (cat_error + cat) \<times> cat_db" where
  "create_retry u flt nid now base 0 c d = (Inl ErrSlugExhausted, d)"
| "create_retry u flt nid now base (Suc n) c d =
     (case repo_CreateCategory u (flt (10 - n)) nid now (c\<lparr>c_slug := attempt_slug base (10 - n)\<rparr>) d of
        (Inr c', d') \<Rightarrow> (Inr c', d')
      | (Inl e, d') \<Rightarrow> if e = ErrSlugConflict then create_retry u flt nid now base n c d' else (Inl e, d'))"

definition createCategoryWithSlugRetry where
  "createCategoryWithSlugRetry u flt nid now base c d = create_retry u flt nid now base 10 c d"

fun update_retry :: "string \<Rightarrow> nat \<Rightarrow> cat \<Rightarrow> cat_db \<Rightarrow> (cat_error + cat) \<times> cat_db" where
  "update_retry base 0 c d = (Inl ErrSlugExhausted, d)"
| "update_retry base (Suc n) c d =
     (let c1 = c\<lparr>c_slug := attempt_slug base (10 - n)\<rparr> in
      case repo_UpdateCategory c1 d of
        (Inr _, d') \<Rightarrow> (Inr c1, d')
      | (Inl e, d') \<Rightarrow> if e = ErrSlugConflict then update_retry base n c d' else (Inl e, d'))"

definition updateCategoryWithSlugRetry :: "unicode \<Rightarrow> cat \<Rightarrow> cat_db \<Rightarrow> (cat_error + cat) \<times> cat_db" where
  "updateCategoryWithSlugRetry u c d = update_retry (GenerateSlug u (c_name c)) 10 c d"

text \<open>\<open>filepath.Base\<close>, \<open>filepath.Ext\<close> of a base name, and \<open>buildFilename\<close>.\<close>

definition file_base :: "string \<Rightarrow> string" where
  "file_base s =
     (if s = [] then ''.''
      else let t = rev (dropWhile ((=) CHR ''/'') (rev s))
           in if t = [] then ''/'' else rev (takeWhile ((\<noteq>) CHR ''/'') (rev t)))"

definition file_ext :: "string \<Rightarrow> string" where
  "file_ext b = (if CHR ''.'' \<in> set b then CHR ''.'' # rev (takeWhile ((\<noteq>) CHR ''.'') (rev b)) else [])"

definition buildFilename :: "instant \<Rightarrow> string \<Rightarrow> string" where
  "buildFilename now original =
     (let base = file_base original;
          name = take (length base - length (file_ext base)) base
      in digits_of_nat (nat now) @ ''_'' @ map (\<lambda>c. if c = CHR '' '' then CHR ''_'' else c) name @ ''.webp'')"

definition uploadImageKitFile ::
  "image_env \<Rightarrow> string \<Rightarrow> string \<Rightarrow> string list \<Rightarrow> (string option \<times> string) \<times> string list" where
  "uploadImageKitFile e fname data ups =
     (case kit_reply e fname data of
        None \<Rightarrow> ((None, []), ups)
      | Some None \<Rightarrow> ((None, []), ups)
      | Some (Some (url, fid)) \<Rightarrow> ((if url = [] then None else Some url, fid), fid # ups))"

definition cleanup_upload :: "image_env \<Rightarrow> string \<Rightarrow> string list \<Rightarrow> string list" where
  "cleanup_upload e fid ups = (if fid = [] \<or> \<not> kit_deletes e then ups else filter (\<lambda>f. f \<noteq> fid) ups)"

definition image_shape_ok :: "string \<times> int \<times> int \<Rightarrow> bool" where
  "image_shape_ok = (\<lambda>(fmt, w, h). fmt \<in> {''jpeg'', ''png'', ''gif'', ''webp''} \<and> 1 \<le> w \<and> 1 \<le> h
     \<and> w \<le> 8192 \<and> h \<le> 8192 \<and> w * h \<le> 16000000 \<and> h \<le> 10 * w \<and> w \<le> 10 * h)"

definition uploadCategoryImage ::
  "unicode \<Rightarrow> image_env \<Rightarrow> instant \<Rightarrow> upload \<Rightarrow> string list \<Rightarrow> (cat_error + string \<times> string) \<times> string list" where
  "uploadCategoryImage u e now f ups =
     (if up_size f \<le> 0 \<or> 8388608 < up_size f then (Inl ErrInvalidImage, ups)
      else (case up_data f of
        None \<Rightarrow> (Inl ErrInvalidImage, ups)
      | Some raw \<Rightarrow>
          if 8388608 < int (length raw) then (Inl ErrInvalidImage, ups)
          else if (case decode_config e raw of None \<Rightarrow> True | Some c \<Rightarrow> \<not> image_shape_ok c) then (Inl ErrInvalidImage, ups)
          else (case to_webp e raw of
            None \<Rightarrow> (Inl ErrInvalidImage, ups)
          | Some data \<Rightarrow>
              if \<not> kit_on e then (Inl ErrImageUpload, ups)
              else (case uploadImageKitFile e (buildFilename now (up_name f)) data ups of
                ((None, fid), ups') \<Rightarrow> (Inl ErrImageUpload, cleanup_upload e fid ups')
              | ((Some url, fid), ups') \<Rightarrow> (case NormalizeImageURL u (Some url) of
                  Inr (Some s) \<Rightarrow> (Inr (s, fid), ups')
                | _ \<Rightarrow> (Inl ErrImageUpload, cleanup_upload e fid ups'))))))"

text \<open>The image of a request: its URL, or the one uploaded file. The uploaded file is deleted again
  when the call fails afterwards.\<close>

definition with_upload ::
  "unicode \<Rightarrow> image_env \<Rightarrow> instant \<Rightarrow> upload list \<Rightarrow> bool \<Rightarrow> string option \<Rightarrow> cat_db
     \<Rightarrow> (string option \<Rightarrow> cat_db \<Rightarrow> (cat_error + cat) \<times> cat_db) \<Rightarrow> (cat_error + cat) \<times> cat_db" where
  "with_upload u e now files has_url url d k =
     (case files of
        [] \<Rightarrow> k url d
      | f # rest \<Rightarrow>
          if rest \<noteq> [] \<or> has_url then (Inl ErrInvalidImage, d)
          else (case uploadCategoryImage u e now f (cat_uploads d) of
            (Inl err, ups) \<Rightarrow> (Inl err, d\<lparr>cat_uploads := ups\<rparr>)
          | (Inr (img, fid), ups) \<Rightarrow> (case k (Some img) (d\<lparr>cat_uploads := ups\<rparr>) of
              (Inl err, d') \<Rightarrow> (Inl err, d'\<lparr>cat_uploads := cleanup_upload e fid (cat_uploads d')\<rparr>)
            | (Inr c, d') \<Rightarrow> (Inr c, d'))))"

definition CreateCategory ::
  "unicode \<Rightarrow> image_env \<Rightarrow> (nat \<Rightarrow> tx_fault) \<Rightarrow> id \<Rightarrow> instant \<Rightarrow> cat_create_req \<Rightarrow> upload list \<Rightarrow> cat_db
     \<Rightarrow> (cat_error + cat) \<times> cat_db" where
  "CreateCategory u e flt nid now req files d =
     (case CreateRequest_Validate u req of
        Inl err \<Rightarrow> (Inl err, d)
      | Inr r \<Rightarrow> (case (case cc_parent r of None \<Rightarrow> Inr () | Some p \<Rightarrow> (case repo_GetCategoryByID p d of
                     Inl e \<Rightarrow> Inl e | Inr _ \<Rightarrow> Inr ())) of
          Inl e \<Rightarrow> (Inl e, d)
        | Inr _ \<Rightarrow> (case NormalizeImageURL u (cc_image r) of
            Inl e \<Rightarrow> (Inl e, d)
          | Inr url \<Rightarrow> with_upload u e now files (url \<noteq> None) url d (\<lambda>img d.
              createCategoryWithSlugRetry u flt nid now (GenerateSlug u (cc_name r))
                \<lparr>c_id = 0, c_name = cc_name r, c_slug = [], c_parent = cc_parent r,
                 c_active = (case cc_active r of None \<Rightarrow> True | Some b \<Rightarrow> b), c_image = img,
                 c_created = 0\<rparr> d))))"

text \<open>The parent a request asks for: keep, clear, refuse or set.\<close>

definition new_parent :: "id \<Rightarrow> cat_update_req \<Rightarrow> cat \<Rightarrow> cat_db \<Rightarrow> cat_error + id option" where
  "new_parent i r c d =
     (case cu_parent r of
        None \<Rightarrow> Inr (c_parent c)
      | Some p \<Rightarrow>
          if p = 0 then Inr None
          else if p = i then Inl ErrCircularParent
          else (case repo_GetCategoryByID p d of
                  Inl e \<Rightarrow> Inl e
                | Inr _ \<Rightarrow> if IsAncestor p i d then Inl ErrCircularParent else Inr (Some p)))"

definition UpdateCategory ::
  "unicode \<Rightarrow> image_env \<Rightarrow> instant \<Rightarrow> id \<Rightarrow> cat_update_req \<Rightarrow> upload list \<Rightarrow> cat_db
     \<Rightarrow> (cat_error + cat) \<times> cat_db" where
  "UpdateCategory u e now i req files d =
     (case UpdateRequest_Validate u req of
        Inl err \<Rightarrow> (Inl err, d)
      | Inr r \<Rightarrow> (case repo_GetCategoryByID i d of
          Inl e \<Rightarrow> (Inl e, d)
        | Inr c \<Rightarrow>
            let renamed = (case cu_name r of None \<Rightarrow> False | Some n \<Rightarrow> n \<noteq> c_name c);
                c1 = (if renamed then c\<lparr>c_name := the (cu_name r)\<rparr> else c)
            in (case new_parent i r c1 d of
                  Inl e \<Rightarrow> (Inl e, d)
                | Inr p \<Rightarrow>
                    let c2 = c1\<lparr>c_parent := p\<rparr>;
                        c3 = (case cu_active r of None \<Rightarrow> c2 | Some b \<Rightarrow> c2\<lparr>c_active := b\<rparr>)
                    in (case (case cu_image r of None \<Rightarrow> Inr (c_image c3) | Some _ \<Rightarrow> NormalizeImageURL u (cu_image r)) of
                          Inl e \<Rightarrow> (Inl e, d)
                        | Inr img \<Rightarrow> with_upload u e now files (cu_image r \<noteq> None \<and> cu_image r \<noteq> Some []) img d (\<lambda>img d.
                            let c4 = c3\<lparr>c_image := img\<rparr> in
                            if renamed then updateCategoryWithSlugRetry u c4 d
                            else (case repo_UpdateCategory c4 d of
                                    (Inl e, d') \<Rightarrow> (Inl e, d') | (Inr _, d') \<Rightarrow> (Inr c4, d')))))))"

text \<open>The admin handler links a product to categories one by one, each in its own statement.\<close>

definition SetProductCategoriesRequest_Validate :: "id list \<Rightarrow> cat_error + id list" where
  "SetProductCategoriesRequest_Validate cs = (if list_ex (\<lambda>i. i \<le> 0) cs then Inl ErrInvalidCategoryID else Inr cs)"

fun link_loop :: "(id \<Rightarrow> bool) \<Rightarrow> id \<Rightarrow> id list \<Rightarrow> cat_db \<Rightarrow> (cat_error + unit) \<times> cat_db" where
  "link_loop pexists p [] d = (Inr (), d)"
| "link_loop pexists p (c # cs) d =
     (case AddProductCategory pexists p c d of
        (Inl e, d') \<Rightarrow> (Inl e, d')
      | (Inr _, d') \<Rightarrow> link_loop pexists p cs d')"

definition handle_AddProductCategory ::
  "(id \<Rightarrow> bool) \<Rightarrow> id \<Rightarrow> id list \<Rightarrow> cat_db \<Rightarrow> (cat_error + unit) \<times> cat_db" where
  "handle_AddProductCategory pexists p cs d =
     (case SetProductCategoriesRequest_Validate cs of
        Inl e \<Rightarrow> (Inl e, d)
      | Inr cs' \<Rightarrow> link_loop pexists p cs' d)"

definition DeleteCategory :: "id \<Rightarrow> cat_db \<Rightarrow> (cat_error + unit) \<times> cat_db" where
  "DeleteCategory i d = repo_DeleteCategory i d"

definition GetCategoryTree :: "id \<Rightarrow> cat_db \<Rightarrow> cat_error + cat \<times> closure_row list" where
  "GetCategoryTree i d =
     (case repo_GetCategoryByID i d of Inl e \<Rightarrow> Inl e | Inr c \<Rightarrow> Inr (c, GetCategoryAncestors i d))"

section \<open>The closure table mirrors the tree\<close>

definition ids :: "cat_db \<Rightarrow> id set" where
  "ids d = set (map c_id (cats d))"

definition parent :: "cat_db \<Rightarrow> id \<Rightarrow> id option" where
  "parent d i = (case List.find (\<lambda>c. c_id c = i) (cats d) of None \<Rightarrow> None | Some c \<Rightarrow> c_parent c)"

definition row_of :: "id \<times> id \<times> nat \<Rightarrow> closure_row" where
  "row_of = (\<lambda>(a, x, n). \<lparr>cl_anc = a, cl_desc = x, cl_depth = int n\<rparr>)"

definition cat_wf :: "cat_db \<Rightarrow> bool" where
  "cat_wf d \<longleftrightarrow> distinct (map c_id (cats d)) \<and> distinct (map c_slug (cats d))
     \<and> forest (ids d) (parent d)
     \<and> set (closure d) = row_of ` closure_of (ids d) (parent d) \<and> distinct (map cl_key (closure d))"

lemma cat_exists_iff [simp]: "cat_exists i d \<longleftrightarrow> i \<in> ids d"
  by (auto simp: cat_exists_def ids_def list_ex_iff)

lemma parent_iff:
  "distinct (map c_id (cats d)) \<Longrightarrow> c \<in> set (cats d) \<Longrightarrow> parent d (c_id c) = c_parent c"
  using find_unique_key [of c_id "cats d" "c_id c" c] by (simp add: parent_def)

lemma row_of_sel [simp]:
  "cl_anc (row_of (a, x, n)) = a" "cl_desc (row_of (a, x, n)) = x" "cl_depth (row_of (a, x, n)) = int n"
  by (simp_all add: row_of_def)

lemma row_of_image:
  "r \<in> row_of ` C \<longleftrightarrow> 0 \<le> cl_depth r \<and> (cl_anc r, cl_desc r, nat (cl_depth r)) \<in> C"
proof
  assume r: "0 \<le> cl_depth r \<and> (cl_anc r, cl_desc r, nat (cl_depth r)) \<in> C"
  then have "r = row_of (cl_anc r, cl_desc r, nat (cl_depth r))" by (cases r) (simp add: row_of_def)
  then show "r \<in> row_of ` C" using r by blast
qed (auto simp: row_of_def)

lemma closure_row_iff:
  assumes "cat_wf d"
  shows "r \<in> set (closure d) \<longleftrightarrow> cl_desc r \<in> ids d \<and> 0 \<le> cl_depth r
    \<and> up (parent d) (nat (cl_depth r)) (cl_desc r) = Some (cl_anc r)"
proof -
  have "set (closure d) = row_of ` closure_of (ids d) (parent d)" using assms by (simp add: cat_wf_def)
  then show ?thesis by (simp only: row_of_image) (auto simp: closure_of_def)
qed

lemma pk_insert_iff:
  "pk_insert rs t = Some t' \<longleftrightarrow> t' = t @ rs \<and> distinct (map cl_key rs) \<and> cl_key ` set rs \<inter> cl_key ` set t = {}"
  by (induction rs arbitrary: t) (auto simp: image_iff)

lemma pk_insert_distinct:
  "pk_insert rs t = Some t' \<Longrightarrow> distinct (map cl_key t) \<Longrightarrow> distinct (map cl_key t')"
  by (auto simp: pk_insert_iff)

lemma trigger_insert_distinct:
  "trigger_insert x v t = Some t' \<Longrightarrow> distinct (map cl_key t) \<Longrightarrow> distinct (map cl_key t')"
  unfolding trigger_insert_def by (simp split: option.splits del: pk_insert.simps) (blast dest: pk_insert_distinct)+

lemma trigger_update_distinct:
  "trigger_update x p v t = Some t' \<Longrightarrow> distinct (map cl_key t) \<Longrightarrow> distinct (map cl_key t')"
  unfolding trigger_update_def Let_def
  by (cases v) (auto simp: distinct_map_filter simp del: pk_insert.simps split: if_splits elim!: pk_insert_distinct)

text \<open>The three statements of the trigger, on the set of rows.\<close>

lemma trigger_insert_rows:
  assumes "trigger_insert x v t = Some t'" "v \<noteq> Some x" "set t = row_of ` C"
  shows "set t' = row_of ` (C \<union> {(x, x, 0)} \<union> {(a, x, Suc n) | a n. \<exists>q. v = Some q \<and> (a, q, n) \<in> C})"
proof (cases v)
  case None
  then have "set t' = set t \<union> {row_of (x, x, 0)}" using assms(1)
    by (auto simp: trigger_insert_def pk_insert_iff row_of_def simp del: pk_insert.simps split: option.splits)
  then show ?thesis using assms(3) None by simp
next
  case (Some q)
  let ?f = "\<lambda>r. \<lparr>cl_anc = cl_anc r, cl_desc = x, cl_depth = cl_depth r + 1\<rparr>"
  have "set t' = set t \<union> {row_of (x, x, 0)} \<union> ?f ` {r \<in> set t. cl_desc r = q}"
    using assms(1,2) Some
    by (auto simp: trigger_insert_def pk_insert_iff row_of_def simp del: pk_insert.simps split: option.splits)
  moreover have "?f ` {r \<in> row_of ` C. cl_desc r = q} = row_of ` {(a, x, Suc n) | a n. (a, q, n) \<in> C}"
  proof -
    have "{r \<in> row_of ` C. cl_desc r = q} = row_of ` {(a, q, n) | a n. (a, q, n) \<in> C}"
      by (rule set_eqI) (simp only: mem_Collect_eq row_of_image, auto)
    moreover have "{(a, x, Suc n) | a n. (a, q, n) \<in> C} = (\<lambda>(a, _, n). (a, x, Suc n)) ` {(a, q, n) | a n. (a, q, n) \<in> C}"
      by (auto simp: image_iff)
    ultimately show ?thesis by (simp add: image_image) (auto simp: row_of_def intro!: image_cong)
  qed
  ultimately show ?thesis using assms(3) Some by (simp add: image_Un)
qed

lemma trigger_delete_rows:
  "set t = row_of ` C \<Longrightarrow> set (trigger_delete x t) = row_of ` {(a, d, n) \<in> C. a \<noteq> x \<and> d \<noteq> x}"
  by (rule set_eqI) (auto simp: trigger_delete_def row_of_image)

definition in_subtree :: "(id \<times> id \<times> nat) set \<Rightarrow> id \<Rightarrow> id set" where
  "in_subtree C x = {d. \<exists>n. (x, d, n) \<in> C}"

lemma subtree_rows:
  assumes "set t = row_of ` C"
  shows "set (map cl_desc (filter (\<lambda>r. cl_anc r = x) t)) = in_subtree C x"
proof -
  have "cl_desc ` {r \<in> row_of ` C. cl_anc r = x} = in_subtree C x"
    by (force simp: in_subtree_def row_of_def)
  then show ?thesis using assms by simp
qed

lemma cross_rows:
  "{\<lparr>cl_anc = cl_anc p, cl_desc = cl_desc c, cl_depth = cl_depth p + cl_depth c + 1\<rparr> | p c.
      p \<in> row_of ` C \<and> cl_desc p = q \<and> c \<in> row_of ` C \<and> cl_anc c = x}
   = row_of ` {(a, d, Suc (k + m)) | a d k m. (a, q, k) \<in> C \<and> (x, d, m) \<in> C}" (is "?L = ?R")
proof
  show "?L \<subseteq> ?R"
  proof
    fix r
    assume "r \<in> ?L"
    then obtain p c where r: "r = \<lparr>cl_anc = cl_anc p, cl_desc = cl_desc c, cl_depth = cl_depth p + cl_depth c + 1\<rparr>"
      and "p \<in> row_of ` C" "cl_desc p = q" "c \<in> row_of ` C" "cl_anc c = x" by blast
    then have p: "0 \<le> cl_depth p" "(cl_anc p, q, nat (cl_depth p)) \<in> C"
      and c: "0 \<le> cl_depth c" "(x, cl_desc c, nat (cl_depth c)) \<in> C" by (auto simp: row_of_image)
    have "r = row_of (cl_anc p, cl_desc c, Suc (nat (cl_depth p) + nat (cl_depth c)))"
      using p(1) c(1) by (simp add: r row_of_def)
    then show "r \<in> ?R" using p(2) c(2) by blast
  qed
  show "?R \<subseteq> ?L"
  proof
    fix r
    assume "r \<in> ?R"
    then obtain a d k m where "r = row_of (a, d, Suc (k + m))" "(a, q, k) \<in> C" "(x, d, m) \<in> C" by blast
    then show "r \<in> ?L"
      by (intro CollectI exI [of _ "row_of (a, q, k)"] exI [of _ "row_of (x, d, m)"] conjI imageI)
         (simp_all add: row_of_def)
  qed
qed

lemma cross_set:
  "set (concat (map (\<lambda>p. map (f p) (filter Q t)) (filter P t))) = {f p c | p c. p \<in> set t \<and> P p \<and> c \<in> set t \<and> Q c}"
  by auto

lemma trigger_update_rows:
  assumes "trigger_update x p v t = Some t'" "p \<noteq> v" "set t = row_of ` C"
    and "x \<in> in_subtree C x"
  shows "set t' = row_of ` ({(a, d, n) \<in> C. d \<in> in_subtree C x \<longrightarrow> a \<in> in_subtree C x}
      \<union> {(a, d, Suc (k + m)) | a d k m. \<exists>q. v = Some q \<and> (a, q, k) \<in> C \<and> (x, d, m) \<in> C
            \<and> (q \<in> in_subtree C x \<longrightarrow> a \<in> in_subtree C x)})"
proof -
  let ?sub = "set (map cl_desc (filter (\<lambda>r. cl_anc r = x) t))"
  let ?C1 = "{(a, d, n) \<in> C. d \<in> in_subtree C x \<longrightarrow> a \<in> in_subtree C x}"
  let ?t1 = "filter (\<lambda>r. \<not> (cl_desc r \<in> ?sub \<and> cl_anc r \<notin> ?sub)) t"
  have sub: "?sub = in_subtree C x" by (rule subtree_rows) fact
  have t1: "set ?t1 = row_of ` ?C1"
    unfolding sub using assms(3) by (intro set_eqI) (auto simp: row_of_image)
  show ?thesis
  proof (cases v)
    case None
    then show ?thesis using assms(1,2) t1 by (auto simp: trigger_update_def Let_def)
  next
    case (Some q)
    let ?add = "concat (map (\<lambda>p. map (\<lambda>c. \<lparr>cl_anc = cl_anc p, cl_desc = cl_desc c,
          cl_depth = cl_depth p + cl_depth c + 1\<rparr>) (filter (\<lambda>c. cl_anc c = x) ?t1))
        (filter (\<lambda>p. cl_desc p = q) ?t1))"
    have "pk_insert ?add ?t1 = Some t'"
      using assms(1,2) Some by (simp only: trigger_update_def Let_def if_False option.case)
    then have "set t' = set ?t1 \<union> set ?add" by (simp only: pk_insert_iff set_append)
    also have "set ?add = {\<lparr>cl_anc = cl_anc p, cl_desc = cl_desc c, cl_depth = cl_depth p + cl_depth c + 1\<rparr> | p c.
        p \<in> set ?t1 \<and> cl_desc p = q \<and> c \<in> set ?t1 \<and> cl_anc c = x}"
      by (rule cross_set)
    also have "set ?t1 \<union> \<dots> = row_of ` (?C1 \<union> {(a, d, Suc (k + m)) | a d k m. (a, q, k) \<in> ?C1 \<and> (x, d, m) \<in> ?C1})"
      unfolding t1 image_Un by (simp only: cross_rows)
    also have "{(a, d, Suc (k + m)) | a d k m. (a, q, k) \<in> ?C1 \<and> (x, d, m) \<in> ?C1}
        = {(a, d, Suc (k + m)) | a d k m. \<exists>q. v = Some q \<and> (a, q, k) \<in> C \<and> (x, d, m) \<in> C
            \<and> (q \<in> in_subtree C x \<longrightarrow> a \<in> in_subtree C x)}"
      using Some assms(4) by auto
    finally show ?thesis .
  qed
qed

text \<open>A parent inside the moved subtree would insert the key \<open>(x, x)\<close> twice.\<close>

lemma trigger_update_no_cycle:
  assumes "trigger_update x p (Some q) t = Some t'" "p \<noteq> Some q" "set t = row_of ` C" "(x, x, 0) \<in> C"
  shows "q \<notin> in_subtree C x"
proof
  assume q: "q \<in> in_subtree C x"
  let ?sub = "set (map cl_desc (filter (\<lambda>r. cl_anc r = x) t))"
  let ?t1 = "filter (\<lambda>r. \<not> (cl_desc r \<in> ?sub \<and> cl_anc r \<notin> ?sub)) t"
  let ?f = "\<lambda>p c. \<lparr>cl_anc = cl_anc p, cl_desc = cl_desc c, cl_depth = cl_depth p + cl_depth c + 1\<rparr>"
  let ?add = "concat (map (\<lambda>p. map (?f p) (filter (\<lambda>c. cl_anc c = x) ?t1)) (filter (\<lambda>p. cl_desc p = q) ?t1))"
  have sub: "?sub = in_subtree C x" by (rule subtree_rows) fact
  have x: "x \<in> in_subtree C x" using assms(4) by (auto simp: in_subtree_def)
  obtain m where m: "(x, q, m) \<in> C" using q by (auto simp: in_subtree_def)
  have "row_of (x, q, m) \<in> set ?t1" "row_of (x, x, 0) \<in> set ?t1"
    unfolding sub using assms(4) m x by (simp_all add: assms(3) imageI)
  then have "?f (row_of (x, q, m)) (row_of (x, x, 0)) \<in> set ?add" "row_of (x, x, 0) \<in> set ?t1"
    unfolding cross_set by (blast intro: row_of_sel)+
  then have "(x, x) \<in> cl_key ` set ?add \<inter> cl_key ` set ?t1"
    by (intro IntI image_eqI) (simp_all only: cl_key_def row_of_sel closure_row.select_convs)
  moreover have "pk_insert ?add ?t1 = Some t'"
    using assms(1,2) by (simp only: trigger_update_def Let_def if_False option.case)
  ultimately show False unfolding pk_insert_iff by blast
qed

lemma in_subtree_closure: "in_subtree (closure_of N p) x = below N p x"
  by (auto simp: in_subtree_def closure_of_def below_def)

lemma distinct_update_key:
  "distinct (map k t) \<Longrightarrow> distinct (map g t) \<Longrightarrow> (\<And>r. r \<in> set t \<Longrightarrow> k r \<noteq> x \<Longrightarrow> g r \<noteq> v) \<Longrightarrow>
   (\<And>r. g (f r) = v) \<Longrightarrow> distinct (map g (update_where (\<lambda>r. k r = x) f t))"
  by (induction t) (auto simp: update_where_def image_iff split: if_splits)

lemma cat_edit_id [simp]: "c_id (cat_edit c r) = c_id r" "c_slug (cat_edit c r) = c_slug c"
    "c_parent (cat_edit c r) = c_parent c"
  by (simp_all add: cat_edit_def)

lemma find_id_outside: "i \<notin> ids d \<Longrightarrow> List.find (\<lambda>c. c_id c = i) (cats d) = None"
  by (auto simp: ids_def find_None_iff_all)

lemma insertCategory_wf:
  assumes "cat_wf d" "nid \<notin> ids d" "insertCategory u nid now c0 d = Inr (c, d')"
  shows "cat_wf d'"
proof -
  let ?v = "c_parent c"
  obtain t where t: "trigger_insert nid ?v (closure d) = Some t" and d': "d' = d\<lparr>cats := cats d @ [c], closure := t\<rparr>"
    and c: "c_id c = nid" "\<forall>r \<in> set (cats d). c_slug r \<noteq> c_slug c" and v: "?v = None \<or> (\<exists>q \<in> ids d. ?v = Some q)"
    using assms(3) by (auto simp: insertCategory_def Let_def list_ex_iff split: if_splits option.splits)
  have ids: "ids d' = insert nid (ids d)" using d' c by (simp add: ids_def)
  have par: "parent d' = (parent d)(nid := ?v)"
    using find_id_outside [OF assms(2)] d' c(1)
    by (intro ext) (auto simp: parent_def find_snoc split: option.splits)
  have "?v \<noteq> Some nid" using v assms(2) by auto
  note rows = trigger_insert_rows [OF t this]
  note add = forest_add_leaf [of "ids d" "parent d" nid ?v]
  have wf: "set (closure d) = row_of ` closure_of (ids d) (parent d)" "forest (ids d) (parent d)"
    "distinct (map cl_key (closure d))" "distinct (map c_id (cats d))" "distinct (map c_slug (cats d))"
    using assms(1) by (simp_all add: cat_wf_def)
  have "set t = row_of ` closure_of (ids d') (parent d')"
    unfolding ids par add(2) [OF wf(2) assms(2) v] by (rule rows) (rule wf)
  moreover have "forest (ids d') (parent d')" unfolding ids par by (rule add) (use wf v assms in simp_all)
  moreover have "distinct (map cl_key t)"
    using t wf(3) by (rule trigger_insert_distinct)
  ultimately show ?thesis
    using wf(4,5) c assms(2) by (auto simp: cat_wf_def d' ids_def)
qed

lemma trigger_update_tree:
  assumes "trigger_update x (p x) v t = Some t'" "forest N p" "set t = row_of ` closure_of N p" "x \<in> N"
    and "v = None \<or> (\<exists>q \<in> N. v = Some q)"
  shows "forest N (p(x := v)) \<and> set t' = row_of ` closure_of N (p(x := v))"
proof (cases "p x = v")
  case True
  then have "p(x := v) = p" by auto
  then show ?thesis using True assms by (simp add: trigger_update_def)
next
  case False
  have xx: "(x, x, 0) \<in> closure_of N p" using assms(4) by (simp add: closure_of_def)
  have out: "q \<notin> below N p x" if "v = Some q" for q
    using trigger_update_no_cycle [OF assms(1) [unfolded that] _ assms(3) xx] False that
    by (simp add: in_subtree_closure)
  then have v: "v = None \<or> (\<exists>q. v = Some q \<and> q \<in> N - below N p x)" using assms(5) by auto
  have "x \<in> in_subtree (closure_of N p) x" using xx by (auto simp: in_subtree_def)
  from trigger_update_rows [OF assms(1) False assms(3) this]
  have "set t' = row_of ` ({(a, d, n) \<in> closure_of N p. d \<in> below N p x \<longrightarrow> a \<in> below N p x}
      \<union> {(a, d, Suc (k + m)) | a d k m. \<exists>q. v = Some q \<and> (a, q, k) \<in> closure_of N p \<and> (x, d, m) \<in> closure_of N p
            \<and> (q \<in> below N p x \<longrightarrow> a \<in> below N p x)})" (is "_ = row_of ` (?A \<union> ?B)")
    unfolding in_subtree_closure .
  also have "?B = {(a, d, Suc (k + m)) | a d k m. \<exists>q. v = Some q \<and> (a, q, k) \<in> closure_of N p \<and> (x, d, m) \<in> closure_of N p}"
    using out by blast
  finally show ?thesis unfolding closure_move [OF assms(2,4) v] using forest_move [OF assms(2,4) v] by blast
qed

lemma repo_UpdateCategory_wf:
  assumes "cat_wf d" "repo_UpdateCategory c d = (r, d')"
  shows "cat_wf d'"
proof (cases r)
  case (Inl e)
  then show ?thesis using assms by (auto simp: repo_UpdateCategory_def split: option.splits if_splits)
next
  case (Inr _)
  let ?x = "c_id c" and ?v = "c_parent c"
  obtain old t where old: "List.find (\<lambda>r. c_id r = ?x) (cats d) = Some old"
    and t: "trigger_update ?x (c_parent old) ?v (closure d) = Some t"
    and d': "d' = d\<lparr>cats := update_where (\<lambda>r. c_id r = ?x) (cat_edit c) (cats d), closure := t\<rparr>"
    and slug: "\<And>r. r \<in> set (cats d) \<Longrightarrow> c_id r \<noteq> ?x \<Longrightarrow> c_slug r \<noteq> c_slug c"
    and v: "?v = None \<or> (\<exists>q \<in> ids d. ?v = Some q)"
    using assms(2) Inr by (auto simp: repo_UpdateCategory_def list_ex_iff split: option.splits if_splits)
  have wf: "set (closure d) = row_of ` closure_of (ids d) (parent d)" "forest (ids d) (parent d)"
    "distinct (map cl_key (closure d))" "distinct (map c_id (cats d))" "distinct (map c_slug (cats d))"
    using assms(1) by (simp_all add: cat_wf_def)
  have x: "?x \<in> ids d" using find_Some_iff_mem [OF old] by (metis ids_def image_eqI list.set_map)
  have old_p: "parent d ?x = c_parent old" using old by (simp add: parent_def)
  have keys: "map c_id (cats d') = map c_id (cats d)" unfolding d' by (simp add: map_update_where)
  then have ids: "ids d' = ids d" unfolding ids_def by (rule arg_cong)
  have par: "parent d' = (parent d)(?x := ?v)"
  proof
    fix i
    show "parent d' i = ((parent d)(?x := ?v)) i"
      using old d' by (auto simp: parent_def find_update_where split: option.splits dest: find_Some_iff_mem)
  qed
  have tree: "forest (ids d) ((parent d)(?x := ?v)) \<and> set t = row_of ` closure_of (ids d) ((parent d)(?x := ?v))"
    using t wf(2,1) x v unfolding old_p [symmetric] by (rule trigger_update_tree)
  have "distinct (map cl_key t)"
    using t wf(3) by (rule trigger_update_distinct)
  moreover have "distinct (map c_slug (cats d'))"
    unfolding d' using distinct_update_key [OF wf(4,5) slug] by simp
  ultimately show ?thesis using tree wf(4) unfolding cat_wf_def ids par keys by (simp add: d')
qed

lemma repo_DeleteCategory_wf:
  assumes "cat_wf d" "repo_DeleteCategory i d = (r, d')"
  shows "cat_wf d'"
proof (cases r)
  case (Inl e)
  then show ?thesis using assms by (auto simp: repo_DeleteCategory_def split: if_splits)
next
  case (Inr _)
  have wf: "set (closure d) = row_of ` closure_of (ids d) (parent d)" "forest (ids d) (parent d)"
    "distinct (map cl_key (closure d))" "distinct (map c_id (cats d))" "distinct (map c_slug (cats d))"
    using assms(1) by (simp_all add: cat_wf_def)
  have d': "cats d' = delete_where (\<lambda>c. c_id c = i) (cats d)" "closure d' = trigger_delete i (closure d)"
    and leaf: "\<And>c. c \<in> set (cats d) \<Longrightarrow> c_parent c \<noteq> Some i"
    using assms(2) Inr by (auto simp: repo_DeleteCategory_def list_ex_iff split: if_splits)
  have ids: "ids d' = ids d - {i}" using d' by (auto simp: ids_def set_delete_where)
  have leaf': "parent d x \<noteq> Some i" for x
    using leaf by (auto simp: parent_def split: option.splits dest: find_Some_iff_mem)
  have par: "parent d' x = parent d x" if "x \<in> ids d - {i}" for x
  proof -
    have "(\<lambda>c :: cat. c_id c = x \<and> c_id c \<noteq> i) = (\<lambda>c. c_id c = x)" using that by auto
    then show ?thesis by (simp add: parent_def d' find_delete_where)
  qed
  have "forest (ids d - {i}) (parent d') \<and> closure_of (ids d - {i}) (parent d')
      = {(a, x, n) \<in> closure_of (ids d) (parent d). a \<noteq> i \<and> x \<noteq> i}"
    by (intro conjI forest_remove_leaf [OF wf(2)]) (simp_all add: leaf' par)
  then have "set (closure d') = row_of ` closure_of (ids d') (parent d')" "forest (ids d') (parent d')"
    unfolding ids d'(2) using trigger_delete_rows [OF wf(1), of i] by simp_all
  then show ?thesis
    using wf(3-5) unfolding cat_wf_def d'
    by (simp add: trigger_delete_def distinct_map_filter distinct_map_delete_where)
qed

text \<open>The product links: no duplicates, no link to a missing category.\<close>

definition cat_inv :: "cat_db \<Rightarrow> bool" where
  "cat_inv d \<longleftrightarrow> cat_wf d \<and> distinct (links d) \<and> (\<forall>l \<in> set (links d). snd l \<in> ids d)"

lemma cat_wf_cong:
  "cats d' = cats d \<Longrightarrow> closure d' = closure d \<Longrightarrow> cat_wf d' = cat_wf d"
  by (simp add: cat_wf_def ids_def parent_def [abs_def])

lemma cat_inv_uploads [simp]: "cat_inv (d\<lparr>cat_uploads := x\<rparr>) = cat_inv d"
  using cat_wf_cong [of "d\<lparr>cat_uploads := x\<rparr>" d] by (simp add: cat_inv_def ids_def)

lemma ids_uploads [simp]: "ids (d\<lparr>cat_uploads := x\<rparr>) = ids d"
  by (simp add: ids_def)

lemma cat_inv_links:
  "cat_inv d \<Longrightarrow> distinct ls \<Longrightarrow> (\<And>l. l \<in> set ls \<Longrightarrow> snd l \<in> ids d) \<Longrightarrow> cat_inv (d\<lparr>links := ls\<rparr>)"
  using cat_wf_cong [of "d\<lparr>links := ls\<rparr>" d] by (simp add: cat_inv_def ids_def)

lemma insertCategory_inv:
  assumes "cat_inv d" "nid \<notin> ids d" "insertCategory u nid now c0 d = Inr (c, d')"
  shows "cat_inv d'"
proof -
  have "cat_wf d'" using assms(1) insertCategory_wf [OF _ assms(2,3)] by (simp add: cat_inv_def)
  moreover have "links d' = links d" "ids d \<subseteq> ids d'"
    using assms(3) by (auto simp: insertCategory_def Let_def ids_def split: if_splits option.splits)
  ultimately show ?thesis using assms(1) by (auto simp: cat_inv_def)
qed

lemma repo_CreateCategory_inv:
  "cat_inv d \<Longrightarrow> nid \<notin> ids d \<Longrightarrow> repo_CreateCategory u flt nid now c d = (r, d') \<Longrightarrow> cat_inv d'"
  using run_tx_cases [of flt CatDbError "insertCategory u nid now c" d r d'] insertCategory_inv
  unfolding repo_CreateCategory_def by blast

lemma repo_CreateCategory_error: "repo_CreateCategory u flt nid now c d = (Inl e, d') \<Longrightarrow> d' = d"
  unfolding repo_CreateCategory_def by (rule run_tx_error)

lemma repo_UpdateCategory_error: "repo_UpdateCategory c d = (Inl e, d') \<Longrightarrow> d' = d"
  by (auto simp: repo_UpdateCategory_def split: option.splits if_splits)

lemma repo_UpdateCategory_inv:
  assumes "cat_inv d" "repo_UpdateCategory c d = (r, d')"
  shows "cat_inv d'"
proof -
  have "cat_wf d'" using assms(1) repo_UpdateCategory_wf [OF _ assms(2)] by (simp add: cat_inv_def)
  moreover have "links d' = links d \<and> map c_id (cats d') = map c_id (cats d)"
    using assms(2) by (auto simp: repo_UpdateCategory_def map_update_where split: if_splits option.splits)
  ultimately show ?thesis using assms(1) by (simp add: cat_inv_def ids_def del: set_map)
qed

lemma repo_DeleteCategory_inv:
  assumes "cat_inv d" "repo_DeleteCategory i d = (r, d')"
  shows "cat_inv d'"
proof -
  have "cat_wf d'" using assms(1) repo_DeleteCategory_wf [OF _ assms(2)] by (simp add: cat_inv_def)
  moreover have "ids (d\<lparr>cats := delete_where (\<lambda>c. c_id c = i) (cats d), closure := t, links := ls\<rparr>) = ids d - {i}" for t ls
    by (auto simp: ids_def set_delete_where)
  then have "distinct (links d')" "\<forall>l \<in> set (links d'). snd l \<in> ids d'"
    using assms by (auto simp: repo_DeleteCategory_def cat_inv_def split: if_splits dest: bspec)
  ultimately show ?thesis by (simp add: cat_inv_def)
qed

lemma AddProductCategory_inv:
  "cat_inv d \<Longrightarrow> AddProductCategory pexists p c d = (r, d') \<Longrightarrow> cat_inv d'"
  by (auto simp: AddProductCategory_def split: if_splits intro!: cat_inv_links)
     (auto simp: cat_inv_def)

lemma RemoveProductCategory_inv:
  "cat_inv d \<Longrightarrow> RemoveProductCategory p c d = (r, d') \<Longrightarrow> cat_inv d'"
  by (auto simp: RemoveProductCategory_def split: if_splits intro!: cat_inv_links) (auto simp: cat_inv_def)

lemma SetProductCategories_inv:
  assumes "cat_inv d" "SetProductCategories flt pexists p cs d = (r, d')"
  shows "cat_inv d'"
proof -
  have "cat_inv (d\<lparr>links := filter (\<lambda>l. fst l \<noteq> p) (links d)\<rparr>)"
    using assms(1) by (intro cat_inv_links) (auto simp: cat_inv_def)
  moreover have "cat_inv b" if "link_one pexists p c a = Inr b" "cat_inv a" for c a b
    using that by (auto simp: link_one_def split: prod.splits sum.splits intro: AddProductCategory_inv)
  ultimately have "cat_inv s" if "try_all (link_one pexists p) cs (d\<lparr>links := filter (\<lambda>l. fst l \<noteq> p) (links d)\<rparr>) = Inr s" for s
    using try_all_invariant [where I = cat_inv, OF that] by blast
  then show ?thesis
    using run_tx_cases [OF assms(2) [unfolded SetProductCategories_def]] assms(1)
    by (auto simp: setProductCategoriesTx_def split: sum.splits)
qed

lemma create_retry_inv:
  "cat_inv d \<Longrightarrow> nid \<notin> ids d \<Longrightarrow> create_retry u flt nid now base n c d = (r, d') \<Longrightarrow> cat_inv d'"
proof (induction n)
  case (Suc n)
  obtain r1 d1 where 1: "repo_CreateCategory u (flt (10 - n)) nid now (c\<lparr>c_slug := attempt_slug base (10 - n)\<rparr>) d = (r1, d1)"
    by fastforce
  show ?case
  proof (cases r1)
    case (Inl e)
    then have "d1 = d" using 1 repo_CreateCategory_error by blast
    then show ?thesis using Suc 1 Inl by (auto split: if_splits)
  next
    case (Inr c')
    then show ?thesis using Suc.prems 1 repo_CreateCategory_inv [OF Suc.prems(1,2) 1] by simp
  qed
qed simp

lemma create_retry_error: "create_retry u flt nid now base n c d = (Inl e, d') \<Longrightarrow> d' = d"
  by (induction n) (auto split: prod.splits sum.splits if_splits dest: repo_CreateCategory_error)

lemma update_retry_inv: "cat_inv d \<Longrightarrow> update_retry base n c d = (r, d') \<Longrightarrow> cat_inv d'"
proof (induction n arbitrary: r d')
  case (Suc n)
  obtain r1 d1 where 1: "repo_UpdateCategory (c\<lparr>c_slug := attempt_slug base (10 - n)\<rparr>) d = (r1, d1)"
    by fastforce
  show ?case
  proof (cases r1)
    case (Inl e)
    then have "d1 = d" using 1 repo_UpdateCategory_error by blast
    then show ?thesis using Suc 1 Inl by (auto simp: Let_def split: if_splits)
  next
    case (Inr c')
    then show ?thesis using Suc.prems 1 repo_UpdateCategory_inv [OF Suc.prems(1) 1] by (simp add: Let_def)
  qed
qed simp

lemma update_retry_error: "update_retry base n c d = (Inl e, d') \<Longrightarrow> d' = d"
  by (induction n) (auto simp: Let_def split: prod.splits sum.splits if_splits dest: repo_UpdateCategory_error)

text \<open>\<open>with_upload\<close> touches the image store only, around one call of its continuation.\<close>

lemma with_upload_cases:
  assumes "with_upload u e now files h url d k = (r, d')"
  obtains (refused) err ups where "r = Inl err" "d' = d\<lparr>cat_uploads := ups\<rparr>"
  | (called) img ups d1 ups' where "k img (d\<lparr>cat_uploads := ups\<rparr>) = (r, d1)" "d' = d1\<lparr>cat_uploads := ups'\<rparr>"
proof (cases files)
  case Nil
  have "k url (d\<lparr>cat_uploads := cat_uploads d\<rparr>) = (r, d')" "d' = d'\<lparr>cat_uploads := cat_uploads d'\<rparr>"
    using assms Nil by (simp_all add: with_upload_def)
  then show ?thesis by (rule called)
next
  case (Cons f rest)
  obtain ur ups where u: "uploadCategoryImage u e now f (cat_uploads d) = (ur, ups)" by fastforce
  show ?thesis
  proof (cases "rest \<noteq> [] \<or> h")
    case True
    then show ?thesis using assms Cons by (intro refused [of ErrInvalidImage "cat_uploads d"]) (auto simp: with_upload_def)
  next
    case False
    show ?thesis
    proof (cases ur)
      case (Inl err)
      then show ?thesis using assms Cons False u by (intro refused [of err ups]) (auto simp: with_upload_def)
    next
      case (Inr v)
      obtain img fid where v: "v = (img, fid)" by fastforce
      obtain r1 d1 where k: "k (Some img) (d\<lparr>cat_uploads := ups\<rparr>) = (r1, d1)" by fastforce
      have "r1 = r" using assms Cons False u Inr v k by (auto simp: with_upload_def split: sum.splits)
      moreover have "d' = d1\<lparr>cat_uploads := case r1 of Inl _ \<Rightarrow> cleanup_upload e fid (cat_uploads d1) | Inr _ \<Rightarrow> cat_uploads d1\<rparr>"
        using assms Cons False u Inr v k by (auto simp: with_upload_def split: sum.splits)
      ultimately show ?thesis using k by (intro called) simp_all
    qed
  qed
qed

lemma CreateCategory_cases:
  assumes "CreateCategory u e flt nid now req files d = (r, d')"
  obtains (refused) err where "r = Inl err" "d' = d"
  | (called) h url base c where "with_upload u e now files h url d
      (\<lambda>img d. create_retry u flt nid now base 10 (c img) d) = (r, d')"
  using assms unfolding CreateCategory_def createCategoryWithSlugRetry_def
  by (auto split: sum.splits option.splits)

lemma UpdateCategory_cases:
  assumes "UpdateCategory u e now i req files d = (r, d')"
  obtains (refused) err where "r = Inl err" "d' = d"
  | (called) h url c ren where "with_upload u e now files h url d
      (\<lambda>img d. if ren then update_retry (GenerateSlug u (c_name (c img))) 10 (c img) d
               else (case repo_UpdateCategory (c img) d of
                      (Inl e, d') \<Rightarrow> (Inl e, d') | (Inr _, d') \<Rightarrow> (Inr (c img), d'))) = (r, d')"
  using assms unfolding UpdateCategory_def updateCategoryWithSlugRetry_def Let_def
  by (auto split: sum.splits option.splits) (metis refused)

lemma CreateCategory_inv:
  assumes "CreateCategory u e flt nid now req files d = (r, d')" "cat_inv d" "nid \<notin> ids d"
  shows "cat_inv d'"
  using assms(1)
proof (cases rule: CreateCategory_cases)
  case (called h url base c)
  then show ?thesis using assms(2,3) by (cases rule: with_upload_cases) (auto dest!: create_retry_inv [rotated 2])
qed (use assms in simp)

lemma UpdateCategory_inv:
  assumes "UpdateCategory u e now i req files d = (r, d')" "cat_inv d"
  shows "cat_inv d'"
  using assms(1)
proof (cases rule: UpdateCategory_cases)
  case (called h url c ren)
  then show ?thesis using assms(2)
    by (cases rule: with_upload_cases)
       (auto split: if_splits prod.splits sum.splits dest!: update_retry_inv [rotated] repo_UpdateCategory_inv [rotated])
qed (use assms in simp)

text \<open>A step is one statement of the repository with whatever arguments (so calls may interleave and
  act on stale reads), or one service call; ids come from a sequence.\<close>

inductive cat_step :: "unicode \<Rightarrow> (id \<Rightarrow> bool) \<Rightarrow> cat_db \<Rightarrow> cat_db \<Rightarrow> bool" for u pexists where
  Insert: "nid \<notin> ids d \<Longrightarrow> repo_CreateCategory u flt nid now c d = (r1, d') \<Longrightarrow> cat_step u pexists d d'"
| Update: "repo_UpdateCategory c d = (r2, d') \<Longrightarrow> cat_step u pexists d d'"
| Delete: "DeleteCategory i d = (r3, d') \<Longrightarrow> cat_step u pexists d d'"
| Link: "AddProductCategory pexists p i d = (r3, d') \<Longrightarrow> cat_step u pexists d d'"
| Unlink: "RemoveProductCategory p i d = (r3, d') \<Longrightarrow> cat_step u pexists d d'"
| SetLinks: "SetProductCategories flt' pexists p is d = (r3, d') \<Longrightarrow> cat_step u pexists d d'"
| Create: "nid \<notin> ids d \<Longrightarrow> CreateCategory u e flt'' nid now cr files d = (r1, d') \<Longrightarrow> cat_step u pexists d d'"
| Change: "UpdateCategory u e now i ur files d = (r1, d') \<Longrightarrow> cat_step u pexists d d'"

inductive cat_reach :: "unicode \<Rightarrow> (id \<Rightarrow> bool) \<Rightarrow> cat_db \<Rightarrow> bool" for u pexists where
  Start: "cat_reach u pexists \<lparr>cats = [], closure = [], links = [], cat_uploads = []\<rparr>"
| Step: "cat_reach u pexists d \<Longrightarrow> cat_step u pexists d d' \<Longrightarrow> cat_reach u pexists d'"

lemma cat_step_inv: "cat_step u pexists d d' \<Longrightarrow> cat_inv d \<Longrightarrow> cat_inv d'"
  by (induction rule: cat_step.induct)
     (auto simp: DeleteCategory_def intro: repo_CreateCategory_inv repo_UpdateCategory_inv
       repo_DeleteCategory_inv AddProductCategory_inv RemoveProductCategory_inv SetProductCategories_inv
       CreateCategory_inv UpdateCategory_inv)

lemma cat_reach_inv: "cat_reach u pexists d \<Longrightarrow> cat_inv d"
proof (induction rule: cat_reach.induct)
  case Start
  show ?case by (simp add: cat_inv_def cat_wf_def forest_def closure_of_def ids_def)
qed (rule cat_step_inv)




lemma GetByID_iff:
  "(\<exists>c. repo_GetCategoryByID p d = Inr c) \<longleftrightarrow> p \<in> ids d" "p \<notin> ids d \<Longrightarrow> repo_GetCategoryByID p d = Inl ErrNotFound"
  by (auto simp: repo_GetCategoryByID_def ids_def find_None_iff_all split: option.splits dest: find_Some_iff_mem)

lemma ancestors_depths:
  assumes "cat_wf d" "i \<in> ids d"
  shows "\<exists>n. map cl_depth (GetCategoryAncestors i d) = rev (map int [1..<Suc n]) \<and> up (parent d) (Suc n) i = None"
proof -
  let ?p = "parent d" and ?l = "GetCategoryAncestors i d"
  let ?F = "filter (\<lambda>r. cl_desc r = i \<and> cl_anc r \<noteq> i) (closure d)"
  have wf: "forest (ids d) ?p" "distinct (map cl_key (closure d))" using assms(1) by (simp_all add: cat_wf_def)
  define N where "N = (LEAST n. up ?p n i = None)"
  have N: "up ?p N i = None" unfolding N_def using wf(1) assms(2) by (auto simp: forest_def intro: LeastI)
  have less: "up ?p n i \<noteq> None" if "n < N" for n using that not_less_Least unfolding N_def by blast
  obtain n where n: "N = Suc n" using N by (cases N) auto
  have row: "r \<in> set ?F \<longleftrightarrow> cl_desc r = i \<and> 0 < cl_depth r \<and> up ?p (nat (cl_depth r)) i = Some (cl_anc r)" for r
    using closure_row_iff [OF assms(1), of r] assms(2) no_cycle [OF wf(1) assms(2), of "nat (cl_depth r)"]
    by (cases "cl_depth r = 0") auto
  have "cl_depth ` set ?F = set (map int [1..<Suc n])"
  proof (intro set_eqI iffI)
    fix k
    assume "k \<in> cl_depth ` set ?F"
    then obtain r where r: "r \<in> set ?F" "k = cl_depth r" by blast
    then have "nat k < N" using row up_None_mono [OF N] by (metis not_less option.distinct(1))
    moreover have "0 < k" using r row [of r] by (simp del: set_filter)
    ultimately have "nat k \<in> set [1..<Suc n]" "k = int (nat k)" using n by auto
    then show "k \<in> set (map int [1..<Suc n])" unfolding list.set_map by (rule image_eqI [rotated])
  next
    fix k
    assume "k \<in> set (map int [1..<Suc n])"
    then obtain m where m: "k = int m" "0 < m" "m < N" using n by auto
    then obtain a where "up ?p m i = Some a" using less by blast
    then have "row_of (a, i, m) \<in> set ?F" unfolding row using m by simp
    then show "k \<in> cl_depth ` set ?F" using m(1) by (metis image_eqI row_of_sel(3))
  qed
  then have "set (rev (map cl_depth ?l)) = set (map int [1..<Suc n])" by (simp add: GetCategoryAncestors_def)
  moreover have "distinct (map cl_depth ?F)"
  proof -
    have d: "distinct (map cl_key ?F)" using wf(2) by (rule distinct_map_filter)
    have "inj_on cl_depth (set ?F)"
    proof (rule inj_onI)
      fix a b assume ab: "a \<in> set ?F" "b \<in> set ?F" "cl_depth a = cl_depth b"
      then have "cl_key a = cl_key b" using row [of a] row [of b] by (simp add: cl_key_def del: set_filter)
      then show "a = b" using d ab(1,2) unfolding distinct_map by (blast dest: inj_onD)
    qed
    then show ?thesis using d by (simp add: distinct_map del: set_filter)
  qed
  then have "distinct (rev (map cl_depth ?l))"
    unfolding GetCategoryAncestors_def distinct_rev by (rule distinct_map_order_by)
  moreover have "sorted (rev (map cl_depth ?l))"
  proof -
    have "sorted_wrt (\<lambda>a b. cl_depth b \<le> cl_depth a) ?l"
      unfolding GetCategoryAncestors_def by (rule sorted_order_by) linarith+
    then show ?thesis by (simp add: sorted_wrt_rev sorted_wrt_map)
  qed
  ultimately have "rev (map cl_depth ?l) = map int [1..<Suc n]"
    by (intro sorted_distinct_set_unique) (simp_all add: distinct_map sorted_wrt_map del: upt_Suc)
  then have "map cl_depth ?l = rev (map int [1..<Suc n])" by (metis rev_rev_ident)
  then show ?thesis using N n by blast
qed

lemma uploadCategoryImage_clean:
  assumes "uploadCategoryImage u e now f ups = (r, ups')" "kit_deletes e"
    and "\<forall>fname data url fid. kit_reply e fname data = Some (Some (url, fid)) \<longrightarrow> fid \<noteq> [] \<and> fid \<notin> set ups"
  shows "case r of Inl _ \<Rightarrow> ups' = ups | Inr (_, fid) \<Rightarrow> cleanup_upload e fid ups' = ups"
proof -
  have clean: "cleanup_upload e fid ups2 = ups"
    if "uploadImageKitFile e fname data ups = ((uo, fid), ups2)" for fname data uo fid ups2
  proof (cases "kit_reply e fname data")
    case (Some rep)
    show ?thesis
    proof (cases rep)
      case (Some v)
      obtain url fid' where v: "v = (url, fid')" by fastforce
      then have "fid' \<noteq> []" "fid' \<notin> set ups" "fid = fid'" "ups2 = fid' # ups"
        using assms(3) that Some \<open>kit_reply e fname data = Some rep\<close> by (auto simp: uploadImageKitFile_def)
      moreover from this(2) have "filter (\<lambda>g. g \<noteq> fid') ups = ups" by (auto simp: filter_id_conv)
      ultimately show ?thesis using assms(2) by (simp add: cleanup_upload_def)
    qed (use that \<open>kit_reply e fname data = Some rep\<close> in \<open>auto simp: uploadImageKitFile_def cleanup_upload_def\<close>)
  qed (use that in \<open>auto simp: uploadImageKitFile_def cleanup_upload_def\<close>)
  show ?thesis
    using assms(1) clean unfolding uploadCategoryImage_def
    by (auto split: if_splits option.splits prod.splits sum.splits)
qed

lemma with_upload_error:
  assumes "with_upload u e now files h url d k = (Inl err, d')" "kit_deletes e"
    and "\<forall>fname data url fid. kit_reply e fname data = Some (Some (url, fid)) \<longrightarrow> fid \<noteq> [] \<and> fid \<notin> set (cat_uploads d)"
    and "\<And>img d er d'. k img d = (Inl er, d') \<Longrightarrow> d' = d"
  shows "d' = d"
proof (cases files)
  case Nil
  then show ?thesis using assms(1,4) by (simp add: with_upload_def)
next
  case (Cons f rest)
  obtain ur ups where u: "uploadCategoryImage u e now f (cat_uploads d) = (ur, ups)" by fastforce
  note clean = uploadCategoryImage_clean [OF u assms(2,3)]
  show ?thesis
  proof (cases "rest \<noteq> [] \<or> h")
    case False
    show ?thesis
    proof (cases ur)
      case (Inr v)
      obtain img fid where v: "v = (img, fid)" by fastforce
      obtain r1 d1 where k: "k (Some img) (d\<lparr>cat_uploads := ups\<rparr>) = (r1, d1)" by fastforce
      show ?thesis
      proof (cases r1)
        case (Inl er)
        then have "d1 = d\<lparr>cat_uploads := ups\<rparr>" using k assms(4) by blast
        then show ?thesis using assms(1) Cons False u Inr v k Inl clean by (auto simp: with_upload_def)
      qed (use assms(1) Cons False u Inr v k in \<open>auto simp: with_upload_def\<close>)
    qed (use assms(1) Cons False u clean in \<open>auto simp: with_upload_def\<close>)
  qed (use assms(1) Cons in \<open>auto simp: with_upload_def\<close>)
qed

lemma update_retry_first_free:
  assumes "update_retry base n c d = (Inr c', d')" "n \<le> 10"
  shows "\<exists>k. 11 - n \<le> k \<and> k \<le> 10 \<and> c' = c\<lparr>c_slug := attempt_slug base k\<rparr>
    \<and> (\<forall>j. 11 - n \<le> j \<and> j < k \<longrightarrow> (\<exists>r \<in> set (cats d). c_id r \<noteq> c_id c \<and> c_slug r = attempt_slug base j))
    \<and> repo_UpdateCategory c' d = (Inr (), d')"
  using assms
proof (induction n)
  case (Suc n)
  let ?c = "c\<lparr>c_slug := attempt_slug base (10 - n)\<rparr>"
  obtain r1 d1 where 1: "repo_UpdateCategory ?c d = (r1, d1)" by fastforce
  show ?case
  proof (cases r1)
    case (Inr v)
    then show ?thesis using Suc.prems 1 by (intro exI [of _ "10 - n"]) (auto simp: Let_def)
  next
    case (Inl er)
    have d1: "d1 = d" using 1 Inl repo_UpdateCategory_error by blast
    have er: "er = ErrSlugConflict" using Suc.prems 1 Inl by (auto simp: Let_def split: if_splits)
    have taken: "\<exists>r \<in> set (cats d). c_id r \<noteq> c_id c \<and> c_slug r = attempt_slug base (10 - n)"
      using 1 Inl er by (auto simp: repo_UpdateCategory_def list_ex_iff split: option.splits if_splits)
    obtain k where k: "11 - n \<le> k" "k \<le> 10" "c' = c\<lparr>c_slug := attempt_slug base k\<rparr>"
      "\<forall>j. 11 - n \<le> j \<and> j < k \<longrightarrow> (\<exists>r \<in> set (cats d). c_id r \<noteq> c_id c \<and> c_slug r = attempt_slug base j)"
      "repo_UpdateCategory c' d = (Inr (), d')"
      using Suc 1 Inl er d1 by (auto simp: Let_def)
    have "\<exists>r \<in> set (cats d). c_id r \<noteq> c_id c \<and> c_slug r = attempt_slug base j" if "11 - Suc n \<le> j" "j < k" for j
      using taken k(4) that Suc.prems(2) by (cases "j = 10 - n") auto
    then show ?thesis using k Suc.prems(2) by (intro exI [of _ k]) auto
  qed
qed simp

lemma create_retry_taken:
  assumes "\<exists>r \<in> set (cats d). c_slug r = GenerateSlug u (c_name c)" "\<forall>k. flt k = NoFault"
    and "rune_count (GenerateSlug u (c_name c)) \<le> 255" "rune_count (c_name c) \<le> 255"
  shows "create_retry u flt nid now base n c d = (Inl ErrSlugExhausted, d)"
proof (induction n)
  case (Suc n)
  have "repo_CreateCategory u (flt (10 - n)) nid now (c\<lparr>c_slug := s\<rparr>) d = (Inl ErrSlugConflict, d)" for s
    using assms by (auto simp: repo_CreateCategory_def run_tx_def insertCategory_def Let_def list_ex_iff)
  then show ?case using Suc by simp
qed simp

lemma squeeze_hd [simp]: "squeeze_dashes rs = [] \<longleftrightarrow> rs = []"
  by (induction rs rule: squeeze_dashes.induct) auto

definition no_double_dash :: "string list \<Rightarrow> bool" where
  "no_double_dash rs \<longleftrightarrow> (\<forall>k. Suc k < length rs \<longrightarrow> \<not> (rs ! k = ''-'' \<and> rs ! Suc k = ''-''))"

lemma no_double_dash_Cons:
  "no_double_dash (a # rs) \<longleftrightarrow> \<not> (a = ''-'' \<and> rs \<noteq> [] \<and> hd rs = ''-'') \<and> no_double_dash rs"
proof -
  have "(\<forall>k. Q k) \<longleftrightarrow> Q 0 \<and> (\<forall>k. Q (Suc k))" for Q :: "nat \<Rightarrow> bool" by (metis not0_implies_Suc)
  from this [of "\<lambda>k. Suc k < length (a # rs) \<longrightarrow> \<not> ((a # rs) ! k = ''-'' \<and> (a # rs) ! Suc k = ''-'')"]
  show ?thesis unfolding no_double_dash_def by (auto simp: hd_conv_nth)
qed

lemma squeeze_hd_eq: "rs \<noteq> [] \<Longrightarrow> hd (squeeze_dashes rs) = hd rs"
  by (induction rs rule: squeeze_dashes.induct) auto

lemma squeeze_no_double: "no_double_dash (squeeze_dashes rs)"
  by (induction rs rule: squeeze_dashes.induct)
     (auto simp: no_double_dash_Cons squeeze_hd_eq, auto simp: no_double_dash_def)

lemma no_double_dash_take: "no_double_dash rs \<Longrightarrow> no_double_dash (take n rs)"
  by (auto simp: no_double_dash_def)

lemma no_double_dash_drop: "no_double_dash rs \<Longrightarrow> no_double_dash (drop n rs)"
  by (auto simp: no_double_dash_def)

lemma trim_dashes_part: "\<exists>m n. trim_dashes rs = take m (drop n rs)"
proof -
  obtain n where n: "dropWhile ((=) ''-'') rs = drop n rs" using dropWhile_eq_drop by blast
  obtain k where "dropWhile ((=) ''-'') (rev (drop n rs)) = drop k (rev (drop n rs))" using dropWhile_eq_drop by blast
  then have "trim_dashes rs = take (length (drop n rs) - k) (drop n rs)"
    by (simp add: trim_dashes_def n drop_rev)
  then show ?thesis by blast
qed

lemma trim_dashes_ends:
  assumes "trim_dashes rs \<noteq> []"
  shows "hd (trim_dashes rs) \<noteq> ''-'' \<and> last (trim_dashes rs) \<noteq> ''-''"
proof
  let ?l = "dropWhile ((=) ''-'') rs"
  have ne: "dropWhile ((=) ''-'') (rev ?l) \<noteq> []" using assms by (auto simp: trim_dashes_def)
  then show "last (trim_dashes rs) \<noteq> ''-''"
    using hd_dropWhile [OF ne] by (simp add: trim_dashes_def last_rev)
  have "?l \<noteq> []" using ne by (metis dropWhile.simps(1) rev.simps(1))
  obtain ys where "rev ?l = ys @ dropWhile ((=) ''-'') (rev ?l)" by (metis takeWhile_dropWhile_id)
  then have "?l = trim_dashes rs @ rev ys" by (metis rev_append rev_rev_ident trim_dashes_def)
  then have "hd (trim_dashes rs) = hd ?l" using assms by (metis hd_append2)
  then show "hd (trim_dashes rs) \<noteq> ''-''" using hd_dropWhile [OF \<open>?l \<noteq> []\<close>] by simp
qed

lemma replace_runs_set: "r \<in> set (replace_runs ok rs) \<Longrightarrow> ok r \<or> r = ''-''"
  by (induction ok rs rule: replace_runs.induct) (auto split: if_splits)

lemma squeeze_set: "set (squeeze_dashes rs) = set rs"
  by (induction rs rule: squeeze_dashes.induct) auto

text \<open>What an accepted request looks like.\<close>

definition wf_cat_create :: "unicode \<Rightarrow> cat_create_req \<Rightarrow> bool" where
  "wf_cat_create u r \<longleftrightarrow> is_ok (NormalizeImageURL u (cc_image r)) \<and> trim_space (cc_name r) = cc_name r
     \<and> cc_name r \<noteq> [] \<and> rune_count (cc_name r) \<le> 255 \<and> (case cc_parent r of None \<Rightarrow> True | Some p \<Rightarrow> 0 < p)"

definition wf_cat_update :: "unicode \<Rightarrow> cat_update_req \<Rightarrow> bool" where
  "wf_cat_update u r \<longleftrightarrow> is_ok (NormalizeImageURL u (cu_image r))
     \<and> (case cu_name r of None \<Rightarrow> True | Some n \<Rightarrow> trim_space n = n \<and> n \<noteq> [] \<and> rune_count n \<le> 255)
     \<and> (case cu_parent r of None \<Rightarrow> True | Some p \<Rightarrow> 0 \<le> p)"

interpretation cat_create: request_validator "CreateRequest_Validate u" "wf_cat_create u" for u
  by unfold_locales
    (auto simp: CreateRequest_Validate_def wf_cat_create_def Let_def is_ok_iff
       split: if_splits option.splits sum.splits)

interpretation cat_update: request_validator "UpdateRequest_Validate u" "wf_cat_update u" for u
  by unfold_locales
    (auto simp: UpdateRequest_Validate_def wf_cat_update_def Let_def is_ok_iff
       split: if_splits option.splits sum.splits)

section \<open>Properties\<close>

definition sample_unicode :: unicode where
  "sample_unicode = \<lparr>to_lower = map (\<lambda>c. if c = CHR ''T'' then CHR ''t'' else c),
     letter_or_number = (\<lambda>r. r \<noteq> '' '' \<and> r \<noteq> ''-'' \<and> r \<noteq> ''&''), control_rune = (\<lambda>r. False),
     parse_url = (\<lambda>s. if s = [] then None else Some (''https'', ''host'', False))\<rparr>"

definition sample_images :: image_env where
  "sample_images = \<lparr>decode_config = (\<lambda>raw. Some (''png'', 100, 50)), to_webp = (\<lambda>raw. Some raw), kit_on = True,
     kit_reply = (\<lambda>fname data. Some (Some (''https://host/a'', ''file7''))), kit_deletes = True\<rparr>"

text \<open>Tools (1), its child Hand Tools (2) and grandchild Saws (3).\<close>

definition sample_cats :: cat_db where
  "sample_cats = \<lparr>cats = [
       \<lparr>c_id = 1, c_name = ''Tools'', c_slug = ''tools'', c_parent = None, c_active = True, c_image = None, c_created = 10\<rparr>,
       \<lparr>c_id = 2, c_name = ''Hand Tools'', c_slug = ''Hand-tools'', c_parent = Some 1, c_active = True, c_image = None, c_created = 11\<rparr>,
       \<lparr>c_id = 3, c_name = ''Saws'', c_slug = ''Saws'', c_parent = Some 2, c_active = True, c_image = None, c_created = 12\<rparr>],
     closure = [\<lparr>cl_anc = 1, cl_desc = 1, cl_depth = 0\<rparr>,
       \<lparr>cl_anc = 2, cl_desc = 2, cl_depth = 0\<rparr>, \<lparr>cl_anc = 1, cl_desc = 2, cl_depth = 1\<rparr>,
       \<lparr>cl_anc = 3, cl_desc = 3, cl_depth = 0\<rparr>, \<lparr>cl_anc = 2, cl_desc = 3, cl_depth = 1\<rparr>,
       \<lparr>cl_anc = 1, cl_desc = 3, cl_depth = 2\<rparr>],
     links = [], cat_uploads = []\<rparr>"

definition sample_req :: "string \<Rightarrow> id option \<Rightarrow> cat_create_req" where
  "sample_req n p = \<lparr>cc_image = None, cc_name = n, cc_parent = p, cc_active = None\<rparr>"

definition sample_create :: "id \<Rightarrow> instant \<Rightarrow> string \<Rightarrow> id option \<Rightarrow> cat_db \<Rightarrow> cat_db" where
  "sample_create i now n p d =
     snd (CreateCategory sample_unicode sample_images (\<lambda>_. NoFault) i now (sample_req n p) [] d)"

lemma sample_cats_built:
  "sample_create 3 12 ''Saws'' (Some 2) (sample_create 2 11 ''Hand Tools'' (Some 1)
     (sample_create 1 10 ''Tools'' None \<lparr>cats = [], closure = [], links = [], cat_uploads = []\<rparr>)) = sample_cats"
  by code_simp

lemma sample_cats_reach: "cat_reach sample_unicode p sample_cats"
proof -
  have s: "cat_reach sample_unicode p d \<Longrightarrow> i \<notin> ids d \<Longrightarrow> cat_reach sample_unicode p (sample_create i now n par d)"
    for d i now n par
    unfolding sample_create_def
    by (rule cat_reach.Step, assumption, rule cat_step.Create, assumption, rule prod.collapse [symmetric])
  have i: "1 \<notin> ids \<lparr>cats = [], closure = [], links = [], cat_uploads = []\<rparr>"
    "2 \<notin> ids (sample_create 1 10 ''Tools'' None \<lparr>cats = [], closure = [], links = [], cat_uploads = []\<rparr>)"
    "3 \<notin> ids (sample_create 2 11 ''Hand Tools'' (Some 1)
       (sample_create 1 10 ''Tools'' None \<lparr>cats = [], closure = [], links = [], cat_uploads = []\<rparr>))"
    unfolding cat_exists_iff [symmetric] by code_simp+
  show ?thesis
    unfolding sample_cats_built [symmetric] by (intro s cat_reach.Start i)
qed



text \<open>C12. \<open>GetCategoryAncestors\<close> is the breadcrumb: every row is the category reached after that many
  parent steps, the depths count down to 1 and the first row is a root.\<close>

theorem ancestors_are_the_path:
  assumes "cat_reach u pexists d" "i \<in> ids d" "l = GetCategoryAncestors i d"
  shows "(\<forall>j < length l. cl_desc (l ! j) = i \<and> cl_depth (l ! j) = int (length l - j)
      \<and> up (parent d) (length l - j) i = Some (cl_anc (l ! j)))
    \<and> up (parent d) (Suc (length l)) i = None"
proof -
  have wf: "cat_wf d" using cat_reach_inv [OF assms(1)] by (simp add: cat_inv_def)
  obtain n where n: "map cl_depth l = rev (map int [1..<Suc n])" "up (parent d) (Suc n) i = None"
    using ancestors_depths [OF wf assms(2)] assms(3) by blast
  have len: "length l = n" using arg_cong [OF n(1), of length] by simp
  have "cl_desc (l ! j) = i \<and> cl_depth (l ! j) = int (n - j) \<and> up (parent d) (n - j) i = Some (cl_anc (l ! j))"
    if "j < n" for j
  proof -
    have "cl_depth (l ! j) = map cl_depth l ! j" using that len by simp
    also have "\<dots> = int (n - j)" unfolding n(1) using that by (simp add: rev_nth del: upt_Suc)
    finally have depth: "cl_depth (l ! j) = int (n - j)" .
    have "l ! j \<in> set l" using that len by simp
    then have "l ! j \<in> set (closure d)" "cl_desc (l ! j) = i" by (simp_all add: assms(3) GetCategoryAncestors_def)
    then show ?thesis using closure_row_iff [OF wf, of "l ! j"] depth by simp
  qed
  then show ?thesis using n(2) len by simp
qed

theorem ancestors_are_the_path_witness:
  "map cl_anc (GetCategoryAncestors 3 sample_cats) = [1, 2] \<and> up (parent sample_cats) 3 3 = None"
proof -
  have i: "3 \<in> ids sample_cats" unfolding cat_exists_iff [symmetric] by code_simp
  have l: "GetCategoryAncestors 3 sample_cats = [\<lparr>cl_anc = 1, cl_desc = 3, cl_depth = 2\<rparr>, \<lparr>cl_anc = 2, cl_desc = 3, cl_depth = 1\<rparr>]"
    by code_simp
  show ?thesis using ancestors_are_the_path [OF sample_cats_reach i refl] unfolding l by (simp add: eval_nat_numeral)
qed



text \<open>Creating a category whose slug is taken fails after ten identical attempts, with nothing
  changed: the suffix the service appends is overwritten by the repository.\<close>

theorem create_slug_retry_never_helps:
  assumes "CreateRequest_Validate u req = Inr r" "case cc_parent r of None \<Rightarrow> True | Some p \<Rightarrow> p \<in> ids d"
    and "\<exists>x \<in> set (cats d). c_slug x = GenerateSlug u (cc_name r)"
    and "rune_count (GenerateSlug u (cc_name r)) \<le> 255" "\<forall>k. flt k = NoFault"
  shows "CreateCategory u e flt nid now req [] d = (Inl ErrSlugExhausted, d)"
proof -
  have name: "rune_count (cc_name r) \<le> 255" and img: "\<exists>v. NormalizeImageURL u (cc_image r) = Inr v"
    using assms(1) by (auto simp: CreateRequest_Validate_def Let_def split: sum.splits if_splits)
  obtain v where "NormalizeImageURL u (cc_image r) = Inr v" using img by blast
  moreover have "(case cc_parent r of None \<Rightarrow> Inr () | Some p \<Rightarrow> (case repo_GetCategoryByID p d of
      Inl e \<Rightarrow> Inl e | Inr _ \<Rightarrow> Inr ())) = Inr ()"
  proof (cases "cc_parent r")
    case (Some p)
    then obtain c where "repo_GetCategoryByID p d = Inr c" using assms(2) GetByID_iff(1) [of p d] by auto
    then show ?thesis using Some by simp
  qed simp
  ultimately show ?thesis
    using assms(1) name create_retry_taken [OF _ assms(5)] assms(3,4)
    by (simp add: CreateCategory_def with_upload_def createCategoryWithSlugRetry_def)
qed

theorem create_slug_retry_never_helps_witness:
  "CreateCategory sample_unicode sample_images (\<lambda>_. NoFault) 4 20 (sample_req ''Tools &'' (Some 2)) [] sample_cats
     = (Inl ErrSlugExhausted, sample_cats)"
proof (rule create_slug_retry_never_helps [where r = "sample_req ''Tools &'' (Some 2)"])
  show "CreateRequest_Validate sample_unicode (sample_req ''Tools &'' (Some 2)) = Inr (sample_req ''Tools &'' (Some 2))"
    by code_simp
  show "case cc_parent (sample_req ''Tools &'' (Some 2)) of None \<Rightarrow> True | Some p \<Rightarrow> p \<in> ids sample_cats"
    unfolding cat_exists_iff [symmetric] by code_simp
  have "list_ex (\<lambda>x. c_slug x = GenerateSlug sample_unicode (cc_name (sample_req ''Tools &'' (Some 2)))) (cats sample_cats)"
    by code_simp
  then show "\<exists>x \<in> set (cats sample_cats). c_slug x = GenerateSlug sample_unicode (cc_name (sample_req ''Tools &'' (Some 2)))"
    by (simp add: list_ex_iff)
  show "rune_count (GenerateSlug sample_unicode (cc_name (sample_req ''Tools &'' (Some 2)))) \<le> 255" by code_simp
qed simp

text \<open>Renaming a category does get the first free slug of the base and its suffixes -2 to -10.\<close>

theorem rename_takes_first_free_slug:
  assumes "updateCategoryWithSlugRetry u c d = (Inr c', d')" "cat_reach u pexists d"
  shows "\<exists>k. 1 \<le> k \<and> k \<le> 10 \<and> c' = c\<lparr>c_slug := attempt_slug (GenerateSlug u (c_name c)) k\<rparr>
    \<and> (\<forall>j. 1 \<le> j \<and> j < k \<longrightarrow>
         (\<exists>r \<in> set (cats d). c_id r \<noteq> c_id c \<and> c_slug r = attempt_slug (GenerateSlug u (c_name c)) j))
    \<and> (\<forall>r \<in> set (cats d). c_id r \<noteq> c_id c \<longrightarrow> c_slug r \<noteq> c_slug c')
    \<and> (\<exists>r. repo_GetCategoryByID (c_id c) d' = Inr r \<and> c_slug r = c_slug c' \<and> c_name r = c_name c)"
proof -
  obtain k where k: "1 \<le> k" "k \<le> 10" "c' = c\<lparr>c_slug := attempt_slug (GenerateSlug u (c_name c)) k\<rparr>"
    "\<forall>j. 1 \<le> j \<and> j < k \<longrightarrow> (\<exists>r \<in> set (cats d). c_id r \<noteq> c_id c \<and> c_slug r = attempt_slug (GenerateSlug u (c_name c)) j)"
    "repo_UpdateCategory c' d = (Inr (), d')"
    using update_retry_first_free [of "GenerateSlug u (c_name c)" 10 c d c' d'] assms(1)
    unfolding updateCategoryWithSlugRetry_def by auto
  have same: "c_id c' = c_id c" "c_name c' = c_name c" using k(3) by simp_all
  have free: "\<forall>r \<in> set (cats d). c_id r \<noteq> c_id c \<longrightarrow> c_slug r \<noteq> c_slug c'"
    using k(5) same by (auto simp: repo_UpdateCategory_def list_ex_iff split: option.splits if_splits)
  obtain old t where old: "List.find (\<lambda>r. c_id r = c_id c') (cats d) = Some old"
    and d': "cats d' = update_where (\<lambda>r. c_id r = c_id c') (cat_edit c') (cats d)"
    using k(5) by (auto simp: repo_UpdateCategory_def split: option.splits if_splits)
  have "repo_GetCategoryByID (c_id c) d' = Inr (cat_edit c' old)"
    using old d' find_Some_iff_mem [OF old] same(1)
    by (simp add: repo_GetCategoryByID_def find_update_where)
  then have "\<exists>r. repo_GetCategoryByID (c_id c) d' = Inr r \<and> c_slug r = c_slug c' \<and> c_name r = c_name c"
    using same(2) by (auto simp: cat_edit_def)
  then show ?thesis using k(1-4) free by blast
qed

definition renamed_saws :: cat where
  "renamed_saws = \<lparr>c_id = 3, c_name = ''Tools'', c_slug = ''Saws'', c_parent = Some 2, c_active = True, c_image = None, c_created = 12\<rparr>"

theorem rename_takes_first_free_slug_witness:
  "\<exists>c' d'. updateCategoryWithSlugRetry sample_unicode renamed_saws sample_cats = (Inr c', d')
     \<and> c_slug c' = ''tools-2'' \<and> (\<forall>r \<in> set (cats sample_cats). c_id r \<noteq> 3 \<longrightarrow> c_slug r \<noteq> c_slug c')"
proof -
  let ?r = "updateCategoryWithSlugRetry sample_unicode renamed_saws sample_cats"
  have ok: "is_ok (fst ?r)" by code_simp
  then obtain c' d' where r: "?r = (Inr c', d')" by (metis is_ok_iff prod.collapse)
  have "(case fst ?r of Inl _ \<Rightarrow> False | Inr c \<Rightarrow> c_slug c = ''tools-2'')" by code_simp
  then have s: "c_slug c' = ''tools-2''" using r by simp
  have "c_id renamed_saws = 3" by (simp add: renamed_saws_def)
  then show ?thesis
    using rename_takes_first_free_slug [OF r sample_cats_reach [of "\<lambda>_. True"]] r s by auto
qed

text \<open>A refused or failed create or update leaves nothing behind, neither a row nor an uploaded image,
  as long as the image store hands out new file ids and carries out deletions.\<close>

theorem failed_category_call_leaves_no_trace:
  assumes "kit_deletes e"
    and "\<forall>fname data url fid. kit_reply e fname data = Some (Some (url, fid)) \<longrightarrow> fid \<noteq> [] \<and> fid \<notin> set (cat_uploads d)"
  shows "(CreateCategory u e flt nid now cr files d = (Inl e1, d1) \<longrightarrow> d1 = d)
    \<and> (UpdateCategory u e now i ur files d = (Inl e2, d2) \<longrightarrow> d2 = d)"
proof (intro conjI impI)
  assume "CreateCategory u e flt nid now cr files d = (Inl e1, d1)"
  then show "d1 = d"
  proof (cases rule: CreateCategory_cases)
    case (called h url base c)
    then show ?thesis by (rule with_upload_error [OF _ assms]) (rule create_retry_error)
  qed
next
  assume "UpdateCategory u e now i ur files d = (Inl e2, d2)"
  then show "d2 = d"
  proof (cases rule: UpdateCategory_cases)
    case (called h url c ren)
    then show ?thesis
      by (rule with_upload_error [OF _ assms])
         (auto split: if_splits prod.splits sum.splits dest: update_retry_error repo_UpdateCategory_error)
  qed
qed

definition sample_file :: upload where
  "sample_file = \<lparr>up_name = ''a b.png'', up_size = 3, up_data = Some ''raw''\<rparr>"

theorem failed_category_call_leaves_no_trace_witness:
  "snd (CreateCategory sample_unicode sample_images (\<lambda>_. NoFault) 4 20 (sample_req ''Tools'' None) [sample_file] sample_cats)
     = sample_cats"
proof -
  let ?r = "CreateCategory sample_unicode sample_images (\<lambda>_. NoFault) 4 20 (sample_req ''Tools'' None) [sample_file] sample_cats"
  have "\<not> is_ok (fst ?r)" by code_simp
  then obtain e1 d1 where r: "?r = (Inl e1, d1)" by (metis is_ok_iff old.sum.exhaust prod.collapse)
  have h: "kit_deletes sample_images" "\<forall>fname data url fid. kit_reply sample_images fname data = Some (Some (url, fid))
      \<longrightarrow> fid \<noteq> [] \<and> fid \<notin> set (cat_uploads sample_cats)"
    by (simp_all add: sample_images_def sample_cats_def)
  show ?thesis
    using failed_category_call_leaves_no_trace [OF h, of sample_unicode "\<lambda>_. NoFault" 4 20 "sample_req ''Tools'' None" "[sample_file]" e1 d1] r
    by simp
qed

text \<open>A generated slug holds letters, digits and dashes only, does not start or end with a dash and has
  no two dashes in a row.\<close>

theorem slug_shape:
  assumes "\<forall>r. letter_or_number u r \<longrightarrow> \<not> control_rune u r \<and> r \<noteq> ''-''" "\<not> control_rune u ''-''"
    and "rs = slug_runes u name"
  shows "GenerateSlug u name = concat rs \<and> (\<forall>r \<in> set rs. letter_or_number u r \<or> r = ''-'')
    \<and> (rs \<noteq> [] \<longrightarrow> hd rs \<noteq> ''-'' \<and> last rs \<noteq> ''-'')
    \<and> (\<forall>k. Suc k < length rs \<longrightarrow> \<not> (rs ! k = ''-'' \<and> rs ! Suc k = ''-''))"
proof -
  let ?q = "squeeze_dashes (replace_runs (letter_or_number u) (runes (to_lower u (trim_space name))))"
  obtain m n where part: "trim_dashes ?q = take m (drop n ?q)" using trim_dashes_part by blast
  have chars: "letter_or_number u r \<or> r = ''-''" if "r \<in> set (trim_dashes ?q)" for r
    using that replace_runs_set unfolding part
    by (metis in_set_dropD in_set_takeD squeeze_set)
  then have rs: "rs = trim_dashes ?q"
    using assms by (auto simp: slug_runes_def Let_def filter_id_conv)
  have "no_double_dash rs"
    unfolding rs part by (intro no_double_dash_take no_double_dash_drop squeeze_no_double)
  then show ?thesis
    using chars trim_dashes_ends [of ?q] unfolding rs [symmetric] no_double_dash_def
    by (simp add: GenerateSlug_def assms(3))
qed

theorem slug_shape_witness: "GenerateSlug sample_unicode '' & Tools -- kit &'' = ''tools-kit''
  \<and> hd (slug_runes sample_unicode '' & Tools -- kit &'') \<noteq> ''-''"
proof -
  have h: "\<forall>r. letter_or_number sample_unicode r \<longrightarrow> \<not> control_rune sample_unicode r \<and> r \<noteq> ''-''"
    "\<not> control_rune sample_unicode ''-''" by (simp_all add: sample_unicode_def)
  have v: "GenerateSlug sample_unicode '' & Tools -- kit &'' = ''tools-kit''" by code_simp
  have "slug_runes sample_unicode '' & Tools -- kit &'' \<noteq> []" by code_simp
  then show ?thesis using slug_shape [OF h refl, of "'' & Tools -- kit &''"] v by blast
qed

end
