(* ===== verification/Discount.thy ===== *)
theory Discount
  imports Go_Strings Float64
begin

text \<open>
  Discounts: \<open>internal/domain/discount\<close>, the repository \<open>discount_repo.go\<close> and the discount part of
  the catalog service. What the \<open>DECIMAL\<close> and \<open>TIMESTAMP\<close> columns give back for a stored value is an
  argument; so is the set of users a redemption may refer to.
\<close>

section \<open>Data\<close>

datatype disc_error =
    ErrNotFound | ErrCodeConflict | ErrRedemptionConflict | ErrInvalidName | ErrInvalidCode
  | ErrInvalidType | ErrInvalidValue | ErrInvalidPercentage | ErrInvalidDateRange | ErrInvalidTargetType
  | ErrExpired | ErrNotStarted | ErrInactive | ErrMaxRedemptions | ErrMinOrderAmount | DiscDbError

record disc =
  dc_id :: id
  dc_name :: string
  dc_code :: "string option"
  dc_type :: string
  dc_value :: f64
  dc_min :: "f64 option"
  dc_max :: "int option"
  dc_starts :: "instant option"
  dc_ends :: "instant option"
  dc_active :: bool
  dc_created :: instant

record disc_target =
  tg_disc :: id
  tg_type :: string
  tg_id :: id

record redemption =
  rd_id :: id
  rd_disc :: id
  rd_order :: id
  rd_user :: "id option"
  rd_at :: instant

record disc_create_req =
  xc_name :: string
  xc_code :: "string option"
  xc_type :: string
  xc_value :: f64
  xc_min :: "f64 option"
  xc_max :: "int option"
  xc_starts :: "instant option"
  xc_ends :: "instant option"
  xc_active :: "bool option"
  xc_targets :: "(string \<times> id) list"

record disc_update_req =
  xu_name :: "string option"
  xu_code :: "string option"
  xu_type :: "string option"
  xu_value :: "f64 option"
  xu_min :: "f64 option"
  xu_max :: "int option"
  xu_starts :: "instant option"
  xu_ends :: "instant option"
  xu_active :: "bool option"

record redeem_req =
  xr_code :: string
  xr_order :: id
  xr_user :: "id option"
  xr_amount :: f64

record disc_db =
  discs :: "disc list"
  disc_targets :: "disc_target list"
  redemptions :: "redemption list"

text \<open>\<open>col_value\<close> and \<open>col_min\<close> are \<open>DECIMAL(10,2)\<close> and \<open>DECIMAL(12,2)\<close> (nothing when the amount does not
  fit), \<open>col_time\<close> is \<open>TIMESTAMP\<close>.\<close>

record disc_env =
  col_value :: "f64 \<Rightarrow> f64 option"
  col_min :: "f64 \<Rightarrow> f64 option"
  col_time :: "instant \<Rightarrow> instant"
  known_user :: "id \<Rightarrow> bool"

section \<open>Validation\<close>

definition known_target :: "string \<Rightarrow> bool" where
  "known_target t \<longleftrightarrow> t \<in> {''product'', ''category'', ''brand''}"

definition ends_before :: "instant option \<Rightarrow> instant option \<Rightarrow> bool" where
  "ends_before s e = (case s of None \<Rightarrow> False | Some a \<Rightarrow> (case e of None \<Rightarrow> False | Some b \<Rightarrow> b < a))"

definition DiscCreate_Validate :: "disc_create_req \<Rightarrow> disc_error + disc_create_req" where
  "DiscCreate_Validate r0 =
     (let r = r0\<lparr>xc_name := trim_space (xc_name r0)\<rparr> in
      if xc_name r = [] \<or> 255 < rune_count (xc_name r) then Inl ErrInvalidName
      else let r1 = r\<lparr>xc_code := map_option trim_space (xc_code r)\<rparr> in
      if (case xc_code r1 of None \<Rightarrow> False | Some c \<Rightarrow> 50 < rune_count c) then Inl ErrInvalidCode
      else if xc_type r1 \<noteq> ''percentage'' \<and> xc_type r1 \<noteq> ''fixed'' then Inl ErrInvalidType
      else if xc_value r1 \<le> 0 then Inl ErrInvalidValue
      else if xc_type r1 = ''percentage'' \<and> 100 < xc_value r1 then Inl ErrInvalidPercentage
      else if ends_before (xc_starts r1) (xc_ends r1) then Inl ErrInvalidDateRange
      else if list_ex (\<lambda>t. \<not> known_target (fst t)) (xc_targets r1) then Inl ErrInvalidTargetType
      else Inr r1)"

definition DiscUpdate_Validate :: "disc_update_req \<Rightarrow> disc_error + disc_update_req" where
  "DiscUpdate_Validate r0 =
     (let r = r0\<lparr>xu_name := map_option trim_space (xu_name r0)\<rparr> in
      if (case xu_name r of None \<Rightarrow> False | Some n \<Rightarrow> n = [] \<or> 255 < rune_count n) then Inl ErrInvalidName
      else let r1 = r\<lparr>xu_code := map_option trim_space (xu_code r)\<rparr> in
      if (case xu_code r1 of None \<Rightarrow> False | Some c \<Rightarrow> 50 < rune_count c) then Inl ErrInvalidCode
      else if (case xu_type r1 of None \<Rightarrow> False | Some t \<Rightarrow> t \<noteq> ''percentage'' \<and> t \<noteq> ''fixed'') then Inl ErrInvalidType
      else if (case xu_value r1 of None \<Rightarrow> False | Some v \<Rightarrow> v \<le> 0) then Inl ErrInvalidValue
      else if xu_type r1 = Some ''percentage'' \<and> (case xu_value r1 of None \<Rightarrow> False | Some v \<Rightarrow> 100 < v)
        then Inl ErrInvalidPercentage
      else if ends_before (xu_starts r1) (xu_ends r1) then Inl ErrInvalidDateRange
      else Inr r1)"

section \<open>Repository\<close>

text \<open>The row the columns hold for a discount, if every value fits.\<close>

definition disc_row :: "disc_env \<Rightarrow> disc \<Rightarrow> disc option" where
  "disc_row e d =
     (case col_value e (dc_value d) of
        None \<Rightarrow> None
      | Some v \<Rightarrow> (case (case dc_min d of None \<Rightarrow> Some None | Some m \<Rightarrow> map_option Some (col_min e m)) of
          None \<Rightarrow> None
        | Some m \<Rightarrow>
            if (case dc_max d of None \<Rightarrow> False | Some k \<Rightarrow> \<not> int4 k) \<or> 255 < rune_count (dc_name d)
               \<or> (case dc_code d of None \<Rightarrow> False | Some c \<Rightarrow> 50 < rune_count c) \<or> 20 < rune_count (dc_type d)
            then None
            else Some (d\<lparr>dc_value := v, dc_min := m, dc_starts := map_option (col_time e) (dc_starts d),
                         dc_ends := map_option (col_time e) (dc_ends d)\<rparr>)))"

definition disc_code_taken :: "id option \<Rightarrow> string option \<Rightarrow> disc_db \<Rightarrow> bool" where
  "disc_code_taken self c s \<longleftrightarrow> c \<noteq> None \<and> list_ex (\<lambda>r. Some (dc_id r) \<noteq> self \<and> dc_code r = c) (discs s)"

definition insertTargetTx :: "disc_target \<Rightarrow> disc_db \<Rightarrow> disc_error + disc_db" where
  "insertTargetTx t s =
     (if 20 < rune_count (tg_type t) \<or> \<not> list_ex (\<lambda>r. dc_id r = tg_disc t) (discs s) then Inl DiscDbError
      else Inr (s\<lparr>disc_targets := (if t \<in> set (disc_targets s) then disc_targets s else disc_targets s @ [t])\<rparr>))"

definition insertDiscountGraph ::
  "disc_env \<Rightarrow> id \<Rightarrow> instant \<Rightarrow> disc \<Rightarrow> disc_target list \<Rightarrow> disc_db
     \<Rightarrow> disc_error + (disc \<times> disc_target list) \<times> disc_db" where
  "insertDiscountGraph e nid now d0 ts s =
     (case disc_row e d0 of
        None \<Rightarrow> Inl DiscDbError
      | Some row \<Rightarrow>
          if disc_code_taken None (dc_code d0) s then Inl ErrCodeConflict
          else
            let ts' = map (\<lambda>t. t\<lparr>tg_disc := nid\<rparr>) ts
            in case try_all insertTargetTx ts' (s\<lparr>discs := discs s @ [row\<lparr>dc_id := nid, dc_created := now\<rparr>]\<rparr>) of
                 Inl err \<Rightarrow> Inl err
               | Inr s' \<Rightarrow> Inr ((d0\<lparr>dc_id := nid, dc_created := now\<rparr>, ts'), s'))"

definition repo_CreateDiscount where
  "repo_CreateDiscount e flt nid now d ts s = run_tx flt DiscDbError (insertDiscountGraph e nid now d ts) s"

definition repo_GetDiscountByID :: "id \<Rightarrow> disc_db \<Rightarrow> disc_error + disc" where
  "repo_GetDiscountByID i s =
     (case List.find (\<lambda>r. dc_id r = i) (discs s) of None \<Rightarrow> Inl ErrNotFound | Some d \<Rightarrow> Inr d)"

definition repo_GetDiscountByCode :: "string \<Rightarrow> disc_db \<Rightarrow> disc_error + disc" where
  "repo_GetDiscountByCode c s =
     (case List.find (\<lambda>r. dc_code r = Some c) (discs s) of None \<Rightarrow> Inl ErrNotFound | Some d \<Rightarrow> Inr d)"

definition GetTargets :: "id \<Rightarrow> disc_db \<Rightarrow> disc_target list" where
  "GetTargets i s = filter (\<lambda>t. tg_disc t = i) (disc_targets s)"

definition GetDiscountWithTargets :: "id \<Rightarrow> disc_db \<Rightarrow> disc_error + disc \<times> disc_target list" where
  "GetDiscountWithTargets i s =
     (case repo_GetDiscountByID i s of Inl e \<Rightarrow> Inl e | Inr d \<Rightarrow> Inr (d, GetTargets i s))"

definition repo_UpdateDiscount :: "disc_env \<Rightarrow> disc \<Rightarrow> disc_db \<Rightarrow> (disc_error + unit) \<times> disc_db" where
  "repo_UpdateDiscount e d s =
     (case disc_row e d of
        None \<Rightarrow> (Inl DiscDbError, s)
      | Some row \<Rightarrow>
          if \<not> list_ex (\<lambda>r. dc_id r = dc_id d) (discs s) then (Inl ErrNotFound, s)
          else if disc_code_taken (Some (dc_id d)) (dc_code d) s then (Inl ErrCodeConflict, s)
          else (Inr (), s\<lparr>discs := update_where (\<lambda>r. dc_id r = dc_id d)
                                  (\<lambda>r. row\<lparr>dc_created := dc_created r\<rparr>) (discs s)\<rparr>))"

text \<open>Targets and redemptions are deleted with their discount.\<close>

definition repo_DeleteDiscount :: "id \<Rightarrow> disc_db \<Rightarrow> (disc_error + unit) \<times> disc_db" where
  "repo_DeleteDiscount i s =
     (if \<not> list_ex (\<lambda>r. dc_id r = i) (discs s) then (Inl ErrNotFound, s)
      else (Inr (), s\<lparr>discs := delete_where (\<lambda>r. dc_id r = i) (discs s),
                      disc_targets := delete_where (\<lambda>t. tg_disc t = i) (disc_targets s),
                      redemptions := delete_where (\<lambda>r. rd_disc r = i) (redemptions s)\<rparr>))"

definition repo_ListDiscounts :: "bool \<Rightarrow> string option \<Rightarrow> disc_db \<Rightarrow> disc list" where
  "repo_ListDiscounts active_only code s =
     order_by (\<lambda>a b. dc_created b \<le> dc_created a)
       (filter (\<lambda>r. (active_only \<longrightarrow> dc_active r) \<and> (case code of None \<Rightarrow> True | Some c \<Rightarrow> dc_code r = Some c)) (discs s))"

definition CountRedemptions :: "id \<Rightarrow> disc_db \<Rightarrow> int" where
  "CountRedemptions i s = int (length (filter (\<lambda>r. rd_disc r = i) (redemptions s)))"

definition insertRedemptionTx ::
  "disc_env \<Rightarrow> id \<Rightarrow> instant \<Rightarrow> redemption \<Rightarrow> disc_db \<Rightarrow> disc_error + redemption \<times> disc_db" where
  "insertRedemptionTx e nid now r s =
     (if list_ex (\<lambda>x. rd_disc x = rd_disc r \<and> rd_order x = rd_order r) (redemptions s) then Inl ErrRedemptionConflict
      else if \<not> list_ex (\<lambda>d. dc_id d = rd_disc r) (discs s) then Inl DiscDbError
      else if (case rd_user r of None \<Rightarrow> False | Some u \<Rightarrow> \<not> known_user e u) then Inl DiscDbError
      else let row = r\<lparr>rd_id := nid, rd_at := now\<rparr>
           in Inr (row, s\<lparr>redemptions := redemptions s @ [row]\<rparr>))"

definition RecordRedemption ::
  "disc_env \<Rightarrow> tx_fault \<Rightarrow> id \<Rightarrow> instant \<Rightarrow> redemption \<Rightarrow> disc_db \<Rightarrow> (disc_error + redemption) \<times> disc_db" where
  "RecordRedemption e flt nid now r s = run_tx flt DiscDbError (insertRedemptionTx e nid now r) s"

definition setTargetsTx :: "id \<Rightarrow> disc_target list \<Rightarrow> disc_db \<Rightarrow> disc_error + unit \<times> disc_db" where
  "setTargetsTx i ts s =
     (case try_all insertTargetTx (map (\<lambda>t. t\<lparr>tg_disc := i\<rparr>) ts)
             (s\<lparr>disc_targets := delete_where (\<lambda>t. tg_disc t = i) (disc_targets s)\<rparr>) of
        Inl e \<Rightarrow> Inl e | Inr s' \<Rightarrow> Inr ((), s'))"

definition SetTargets :: "tx_fault \<Rightarrow> id \<Rightarrow> disc_target list \<Rightarrow> disc_db \<Rightarrow> (disc_error + unit) \<times> disc_db" where
  "SetTargets flt i ts s = run_tx flt DiscDbError (setTargetsTx i ts) s"

section \<open>Service\<close>

definition buildDiscountEntity :: "disc_create_req \<Rightarrow> disc" where
  "buildDiscountEntity r =
     \<lparr>dc_id = 0, dc_name = xc_name r, dc_code = xc_code r, dc_type = xc_type r, dc_value = xc_value r,
      dc_min = xc_min r, dc_max = xc_max r, dc_starts = xc_starts r, dc_ends = xc_ends r,
      dc_active = (case xc_active r of None \<Rightarrow> True | Some b \<Rightarrow> b), dc_created = 0\<rparr>"

definition buildTargets :: "(string \<times> id) list \<Rightarrow> disc_target list" where
  "buildTargets ts = map (\<lambda>t. \<lparr>tg_disc = 0, tg_type = fst t, tg_id = snd t\<rparr>) ts"

definition CreateDiscount ::
  "disc_env \<Rightarrow> tx_fault \<Rightarrow> id \<Rightarrow> instant \<Rightarrow> disc_create_req \<Rightarrow> disc_db
     \<Rightarrow> (disc_error + disc \<times> disc_target list) \<times> disc_db" where
  "CreateDiscount e flt nid now req s =
     (case DiscCreate_Validate req of
        Inl err \<Rightarrow> (Inl err, s)
      | Inr r \<Rightarrow> repo_CreateDiscount e flt nid now (buildDiscountEntity r) (buildTargets (xc_targets r)) s)"

definition GetDiscountByCode :: "string \<Rightarrow> disc_db \<Rightarrow> disc_error + disc \<times> disc_target list" where
  "GetDiscountByCode c s =
     (case repo_GetDiscountByCode c s of Inl e \<Rightarrow> Inl e | Inr d \<Rightarrow> Inr (d, GetTargets (dc_id d) s))"

definition opt_or :: "'a option \<Rightarrow> 'a \<Rightarrow> 'a" where
  "opt_or x d = (case x of None \<Rightarrow> d | Some v \<Rightarrow> v)"

definition opt_set :: "'a option \<Rightarrow> 'a option \<Rightarrow> 'a option" where
  "opt_set x d = (case x of None \<Rightarrow> d | Some v \<Rightarrow> Some v)"

definition disc_patch :: "disc_update_req \<Rightarrow> disc \<Rightarrow> disc" where
  "disc_patch r d = d\<lparr>dc_name := opt_or (xu_name r) (dc_name d),
     dc_code := (case xu_code r of None \<Rightarrow> dc_code d | Some c \<Rightarrow> if c = [] then None else Some c),
     dc_type := opt_or (xu_type r) (dc_type d), dc_value := opt_or (xu_value r) (dc_value d),
     dc_min := opt_set (xu_min r) (dc_min d), dc_max := opt_set (xu_max r) (dc_max d),
     dc_starts := opt_set (xu_starts r) (dc_starts d), dc_ends := opt_set (xu_ends r) (dc_ends d),
     dc_active := opt_or (xu_active r) (dc_active d)\<rparr>"

definition UpdateDiscount ::
  "disc_env \<Rightarrow> id \<Rightarrow> disc_update_req \<Rightarrow> disc_db \<Rightarrow> (disc_error + disc) \<times> disc_db" where
  "UpdateDiscount e i req s =
     (case DiscUpdate_Validate req of
        Inl err \<Rightarrow> (Inl err, s)
      | Inr r \<Rightarrow> (case repo_GetDiscountByID i s of
          Inl err \<Rightarrow> (Inl err, s)
        | Inr d \<Rightarrow> (case repo_UpdateDiscount e (disc_patch r d) s of
            (Inl err, s') \<Rightarrow> (Inl err, s')
          | (Inr _, s') \<Rightarrow> (Inr (disc_patch r d), s'))))"

definition SetDiscountTargets ::
  "tx_fault \<Rightarrow> id \<Rightarrow> (string \<times> id) list \<Rightarrow> disc_db \<Rightarrow> (disc_error + unit) \<times> disc_db" where
  "SetDiscountTargets flt i ts s =
     (case repo_GetDiscountByID i s of
        Inl e \<Rightarrow> (Inl e, s)
      | Inr _ \<Rightarrow> if list_ex (\<lambda>t. \<not> known_target (fst t)) ts then (Inl ErrInvalidTargetType, s)
                else SetTargets flt i (buildTargets ts) s)"

definition DeleteDiscount :: "id \<Rightarrow> disc_db \<Rightarrow> (disc_error + unit) \<times> disc_db" where
  "DeleteDiscount i s = repo_DeleteDiscount i s"

definition validateDiscount :: "instant \<Rightarrow> disc \<Rightarrow> f64 \<Rightarrow> disc_error + unit" where
  "validateDiscount now d amount =
     (if \<not> dc_active d then Inl ErrInactive
      else if (case dc_starts d of None \<Rightarrow> False | Some t \<Rightarrow> now < t) then Inl ErrNotStarted
      else if (case dc_ends d of None \<Rightarrow> False | Some t \<Rightarrow> t < now) then Inl ErrExpired
      else if (case dc_min d of None \<Rightarrow> False | Some m \<Rightarrow> amount < m) then Inl ErrMinOrderAmount
      else Inr ())"

definition calculateDiscount :: "disc \<Rightarrow> f64 \<Rightarrow> f64" where
  "calculateDiscount d amount =
     (if dc_type d = ''percentage'' then fdiv (fmul amount (dc_value d)) 100
      else if dc_type d = ''fixed'' then (if amount < dc_value d then amount else dc_value d)
      else 0)"

text \<open>The reads of a redemption, then its one write. Other calls may run in between.\<close>

definition redeem_check :: "instant \<Rightarrow> redeem_req \<Rightarrow> disc_db \<Rightarrow> disc_error + disc" where
  "redeem_check now req s =
     (case repo_GetDiscountByCode (xr_code req) s of
        Inl e \<Rightarrow> Inl e
      | Inr d \<Rightarrow> (case validateDiscount now d (xr_amount req) of
          Inl e \<Rightarrow> Inl e
        | Inr _ \<Rightarrow>
            if (case dc_max d of None \<Rightarrow> False | Some m \<Rightarrow> m \<le> CountRedemptions (dc_id d) s)
            then Inl ErrMaxRedemptions else Inr d))"

definition redeem_record ::
  "disc_env \<Rightarrow> tx_fault \<Rightarrow> id \<Rightarrow> instant \<Rightarrow> redeem_req \<Rightarrow> disc \<Rightarrow> disc_db
     \<Rightarrow> (disc_error + disc \<times> f64) \<times> disc_db" where
  "redeem_record e flt nid now req d s =
     (case RecordRedemption e flt nid now
             \<lparr>rd_id = 0, rd_disc = dc_id d, rd_order = xr_order req, rd_user = xr_user req, rd_at = 0\<rparr> s of
        (Inl err, s') \<Rightarrow> (Inl err, s')
      | (Inr _, s') \<Rightarrow> (Inr (d, calculateDiscount d (xr_amount req)), s'))"

definition ValidateAndRedeem ::
  "disc_env \<Rightarrow> tx_fault \<Rightarrow> id \<Rightarrow> instant \<Rightarrow> redeem_req \<Rightarrow> disc_db
     \<Rightarrow> (disc_error + disc \<times> f64) \<times> disc_db" where
  "ValidateAndRedeem e flt nid now req s =
     (case redeem_check now req s of
        Inl err \<Rightarrow> (Inl err, s)
      | Inr d \<Rightarrow> redeem_record e flt nid now req d s)"

section \<open>Lemmas\<close>

text \<open>What an accepted request looks like. An update is checked on its own: the stored type is not
  looked at.\<close>

definition wf_disc_create :: "disc_create_req \<Rightarrow> bool" where
  "wf_disc_create r \<longleftrightarrow> trim_space (xc_name r) = xc_name r \<and> xc_name r \<noteq> [] \<and> rune_count (xc_name r) \<le> 255
     \<and> (case xc_code r of None \<Rightarrow> True | Some c \<Rightarrow> trim_space c = c \<and> rune_count c \<le> 50)
     \<and> (xc_type r = ''percentage'' \<and> xc_value r \<le> 100 \<or> xc_type r = ''fixed'') \<and> 0 < xc_value r
     \<and> \<not> ends_before (xc_starts r) (xc_ends r) \<and> list_all (\<lambda>t. known_target (fst t)) (xc_targets r)"

definition wf_disc_update :: "disc_update_req \<Rightarrow> bool" where
  "wf_disc_update r \<longleftrightarrow>
     (case xu_name r of None \<Rightarrow> True | Some n \<Rightarrow> trim_space n = n \<and> n \<noteq> [] \<and> rune_count n \<le> 255)
     \<and> (case xu_code r of None \<Rightarrow> True | Some c \<Rightarrow> trim_space c = c \<and> rune_count c \<le> 50)
     \<and> (case xu_type r of None \<Rightarrow> True | Some t \<Rightarrow> t = ''percentage'' \<or> t = ''fixed'')
     \<and> (case xu_value r of None \<Rightarrow> True | Some v \<Rightarrow> 0 < v \<and> (xu_type r = Some ''percentage'' \<longrightarrow> v \<le> 100))
     \<and> \<not> ends_before (xu_starts r) (xu_ends r)"

interpretation disc_create: request_validator DiscCreate_Validate wf_disc_create
proof
  fix r r'
  assume "DiscCreate_Validate r = Inr r'"
  then show "wf_disc_create r'"
    by (cases "xc_code r")
       (auto simp: DiscCreate_Validate_def Let_def wf_disc_create_def not_less list_all_iff list_ex_iff split: if_splits)
next
  fix r
  assume "wf_disc_create r"
  then show "DiscCreate_Validate r = Inr r"
    by (cases "xc_code r")
       (auto simp: DiscCreate_Validate_def Let_def wf_disc_create_def not_less list_all_iff list_ex_iff)
qed

lemma DiscUpdate_Validate_iff:
  "DiscUpdate_Validate r = Inr r' \<longleftrightarrow> r' = r\<lparr>xu_name := map_option trim_space (xu_name r), xu_code := map_option trim_space (xu_code r)\<rparr>
     \<and> (\<forall>n. xu_name r' = Some n \<longrightarrow> n \<noteq> [] \<and> rune_count n \<le> 255) \<and> (\<forall>c. xu_code r' = Some c \<longrightarrow> rune_count c \<le> 50)
     \<and> (\<forall>t. xu_type r' = Some t \<longrightarrow> t = ''percentage'' \<or> t = ''fixed'')
     \<and> (\<forall>v. xu_value r' = Some v \<longrightarrow> 0 < v \<and> (xu_type r' = Some ''percentage'' \<longrightarrow> v \<le> 100))
     \<and> \<not> ends_before (xu_starts r') (xu_ends r')"
proof -
  have o: "(case x of None \<Rightarrow> False | Some c \<Rightarrow> P c) \<longleftrightarrow> \<not> (\<forall>c. x = Some c \<longrightarrow> \<not> P c)" for x :: "'z option" and P
    by (cases x) auto
  have i: "(if b then Inl e else x) = Inr y \<longleftrightarrow> \<not> b \<and> x = Inr y" for b and e :: disc_error and x and y :: "'w"
    by simp
  show ?thesis
    unfolding DiscUpdate_Validate_def Let_def o
    by (simp only: i sum.inject) (auto simp: not_less)
qed

interpretation disc_update: request_validator DiscUpdate_Validate wf_disc_update
proof
  fix r r'
  assume "DiscUpdate_Validate r = Inr r'"
  then show "wf_disc_update r'"
    unfolding DiscUpdate_Validate_iff wf_disc_update_def by (auto split: option.split)
next
  fix r
  assume r: "wf_disc_update r"
  then have "map_option trim_space (xu_code r) = xu_code r" "map_option trim_space (xu_name r) = xu_name r"
    by (auto simp: wf_disc_update_def split: option.splits)
  then show "DiscUpdate_Validate r = Inr r"
    unfolding DiscUpdate_Validate_iff using r by (auto simp: wf_disc_update_def split: option.split_asm)
qed

lemma redeem_check_ok:
  assumes "redeem_check now req s = Inr d"
  shows "d \<in> set (discs s) \<and> dc_code d = Some (xr_code req) \<and> dc_active d
    \<and> (\<forall>t. dc_starts d = Some t \<longrightarrow> t \<le> now) \<and> (\<forall>t. dc_ends d = Some t \<longrightarrow> now \<le> t)
    \<and> (\<forall>m. dc_min d = Some m \<longrightarrow> m \<le> xr_amount req)
    \<and> (\<forall>k. dc_max d = Some k \<longrightarrow> CountRedemptions (dc_id d) s < k)"
  using assms
  by (auto simp: redeem_check_def repo_GetDiscountByCode_def validateDiscount_def
      split: sum.splits option.splits if_splits dest: find_Some_iff_mem)

lemma redeem_record_ok:
  assumes "redeem_record e flt nid now req d s = (Inr (d', a), s')"
  shows "d' = d \<and> a = calculateDiscount d (xr_amount req) \<and> flt = NoFault
    \<and> (\<forall>r \<in> set (redemptions s). \<not> (rd_disc r = dc_id d \<and> rd_order r = xr_order req))
    \<and> s' = s\<lparr>redemptions := redemptions s @ [\<lparr>rd_id = nid, rd_disc = dc_id d, rd_order = xr_order req,
                                               rd_user = xr_user req, rd_at = now\<rparr>]\<rparr>"
  using assms
  by (auto simp: redeem_record_def RecordRedemption_def run_tx_ok insertRedemptionTx_def Let_def list_ex_iff
      split: prod.splits sum.splits if_splits)

text \<open>Two checks before either write: the limit is passed by one.\<close>

lemma redemption_limit_race:
  assumes "dc_max d = Some k" "CountRedemptions (dc_id d) s = k - 1"
    and "redeem_check now a s = Inr d" "redeem_check now b s = Inr d"
    and "redeem_record e f1 n1 now a d s = (Inr r1, s1)" "redeem_record e f2 n2 now b d s1 = (Inr r2, s2)"
  shows "CountRedemptions (dc_id d) s2 = k + 1"
proof -
  obtain d1 x1 d2 x2 where r: "r1 = (d1, x1)" "r2 = (d2, x2)" by (cases r1, cases r2) auto
  have "redemptions s1 = redemptions s @ [\<lparr>rd_id = n1, rd_disc = dc_id d, rd_order = xr_order a,
      rd_user = xr_user a, rd_at = now\<rparr>]"
    using redeem_record_ok [OF assms(5) [unfolded r]] by simp
  moreover have "redemptions s2 = redemptions s1 @ [\<lparr>rd_id = n2, rd_disc = dc_id d, rd_order = xr_order b,
      rd_user = xr_user b, rd_at = now\<rparr>]"
    using redeem_record_ok [OF assms(6) [unfolded r]] by simp
  ultimately show ?thesis using assms(2) by (simp add: CountRedemptions_def)
qed

lemma find_update_id:
  "List.find (\<lambda>r. dc_id r = i) xs = Some d \<Longrightarrow> dc_id (f d) = i \<Longrightarrow>
   List.find (\<lambda>r. dc_id r = i) (update_where (\<lambda>r. dc_id r = i) f xs) = Some (f d)"
  by (induction xs) (auto simp: update_where_def split: if_splits)

section \<open>Properties\<close>

definition sample_disc_env :: disc_env where
  "sample_disc_env = \<lparr>col_value = (\<lambda>v. if v < 100000000 then Some v else None),
     col_min = (\<lambda>v. if v < 10000000000 then Some v else None), col_time = (\<lambda>t. t), known_user = (\<lambda>u. u = 8)\<rparr>"

definition sample_disc :: disc where
  "sample_disc = \<lparr>dc_id = 5, dc_name = ''Spring'', dc_code = Some ''SPRING'', dc_type = ''percentage'', dc_value = 10,
     dc_min = Some 50, dc_max = Some 1, dc_starts = Some 100, dc_ends = Some 200, dc_active = True, dc_created = 1\<rparr>"

definition sample_discs :: disc_db where
  "sample_discs = \<lparr>discs = [sample_disc], disc_targets = [], redemptions = []\<rparr>"

definition sample_redeem :: redeem_req where
  "sample_redeem = \<lparr>xr_code = ''SPRING'', xr_order = 77, xr_user = Some 8, xr_amount = 120\<rparr>"

text \<open>C14. A redemption goes through only for an active discount of that code, inside its period, at or above
  its minimum amount, below its redemption limit and once per order; it then records exactly one
  redemption, stays within the limit, and returns the amount computed from the discount.\<close>

theorem redemption_rules:
  assumes "ValidateAndRedeem e flt nid now req s = (Inr (d, a), s')"
  shows "d \<in> set (discs s) \<and> dc_code d = Some (xr_code req) \<and> dc_active d
    \<and> (\<forall>t. dc_starts d = Some t \<longrightarrow> t \<le> now) \<and> (\<forall>t. dc_ends d = Some t \<longrightarrow> now \<le> t)
    \<and> (\<forall>m. dc_min d = Some m \<longrightarrow> m \<le> xr_amount req)
    \<and> (\<forall>r \<in> set (redemptions s). \<not> (rd_disc r = dc_id d \<and> rd_order r = xr_order req))
    \<and> CountRedemptions (dc_id d) s' = CountRedemptions (dc_id d) s + 1
    \<and> (\<forall>k. dc_max d = Some k \<longrightarrow> CountRedemptions (dc_id d) s' \<le> k)
    \<and> discs s' = discs s \<and> disc_targets s' = disc_targets s
    \<and> a = calculateDiscount d (xr_amount req)"
proof -
  obtain d0 where c: "redeem_check now req s = Inr d0" and w0: "redeem_record e flt nid now req d0 s = (Inr (d, a), s')"
    using assms by (auto simp: ValidateAndRedeem_def split: sum.splits)
  have "d = d0" using redeem_record_ok [OF w0] by blast
  note w = redeem_record_ok [OF w0 [folded this]] and c' = redeem_check_ok [OF c [folded this]]
  have s': "discs s' = discs s" "disc_targets s' = disc_targets s"
    "CountRedemptions (dc_id d) s' = CountRedemptions (dc_id d) s + 1"
    using conjunct2 [OF conjunct2 [OF conjunct2 [OF conjunct2 [OF w]]]] by (simp_all add: CountRedemptions_def)
  moreover have "\<forall>k. dc_max d = Some k \<longrightarrow> CountRedemptions (dc_id d) s' \<le> k" using c' s'(3) by auto
  ultimately show ?thesis using c' w by blast
qed

theorem redemption_rules_witness:
  "\<exists>d a s'. ValidateAndRedeem sample_disc_env NoFault 1 150 sample_redeem sample_discs = (Inr (d, a), s')
     \<and> CountRedemptions (dc_id d) s' = CountRedemptions (dc_id d) sample_discs + 1 \<and> a = 12"
proof -
  let ?r = "ValidateAndRedeem sample_disc_env NoFault 1 150 sample_redeem sample_discs"
  have calc: "calculateDiscount sample_disc 120 = 12"
    by (simp add: calculateDiscount_def sample_disc_def fmul_def fdiv_def)
  have "redeem_check 150 sample_redeem sample_discs = Inr sample_disc"
    by (simp add: redeem_check_def repo_GetDiscountByCode_def validateDiscount_def CountRedemptions_def
        sample_redeem_def sample_discs_def sample_disc_def)
  then have "\<exists>s'. ?r = (Inr (sample_disc, 12), s')"
    using calc
    by (simp add: ValidateAndRedeem_def redeem_record_def RecordRedemption_def run_tx_def insertRedemptionTx_def Let_def
        sample_redeem_def sample_discs_def sample_disc_env_def)
  then obtain s' where r: "?r = (Inr (sample_disc, 12), s')" by blast
  then show ?thesis using redemption_rules [OF r] by blast
qed

text \<open>A discount is never negative and never more than the order: for a fixed discount always, for a
  percentage of at most 100 when 100 times the amount is itself a float64 (so that the product is not
  rounded up past it).\<close>

theorem discount_within_order:
  assumes "0 \<le> a" "0 < dc_value d" "representable a"
    and "dc_type d = ''percentage'' \<longrightarrow> dc_value d \<le> 100 \<and> representable (100 * a)"
  shows "0 \<le> calculateDiscount d a \<and> calculateDiscount d a \<le> a"
proof (cases "dc_type d = ''percentage''")
  case True
  have v: "dc_value d \<le> 100" "representable (100 * a)" using assms(4) True by simp_all
  have "a * dc_value d \<le> a * 100" using assms(1) v(1) by (intro mult_left_mono) simp_all
  then have up: "fmul a (dc_value d) \<le> 100 * a"
    unfolding fmul_def by (intro rnd_representable v) (simp add: mult.commute)
  have "0 \<le> fmul a (dc_value d)" unfolding fmul_def using assms(1,2) by (intro rnd_nonneg) simp
  then have "0 \<le> fdiv (fmul a (dc_value d)) 100" unfolding fdiv_def by (intro rnd_nonneg) simp
  moreover have "fdiv (fmul a (dc_value d)) 100 \<le> a"
    unfolding fdiv_def using up by (intro rnd_representable assms(3)) simp
  ultimately show ?thesis using True by (simp add: calculateDiscount_def)
qed (use assms(1,2) in \<open>auto simp: calculateDiscount_def\<close>)

theorem discount_within_order_witness: "0 \<le> calculateDiscount sample_disc 120 \<and> calculateDiscount sample_disc 120 \<le> 120"
proof (rule discount_within_order)
  show "representable 120" using representable_of_int [of 120] by simp
  show "dc_type sample_disc = ''percentage'' \<longrightarrow> dc_value sample_disc \<le> 100 \<and> representable (100 * 120)"
    using representable_of_int [of 12000] by (simp add: sample_disc_def)
qed (simp_all add: sample_disc_def)

text \<open>An update that gives only a value is accepted for a percentage discount whatever the value, so a
  percentage above 100 is stored; the type cap is checked only against the request's own type.\<close>

theorem update_lifts_percentage_cap:
  assumes "repo_GetDiscountByID i s = Inr d" "dc_type d = ''percentage''" "0 < v"
    and "disc_row e (d\<lparr>dc_value := v\<rparr>) = Some row" "\<not> disc_code_taken (Some i) (dc_code d) s"
    and "req = \<lparr>xu_name = None, xu_code = None, xu_type = None, xu_value = Some v, xu_min = None, xu_max = None,
                xu_starts = None, xu_ends = None, xu_active = None\<rparr>"
  shows "\<exists>s' r. UpdateDiscount e i req s = (Inr (d\<lparr>dc_value := v\<rparr>), s') \<and> repo_GetDiscountByID i s' = Inr r
    \<and> dc_type r = ''percentage'' \<and> Some (dc_value r) = col_value e v"
proof -
  have "wf_disc_update req" using assms(3) by (simp add: wf_disc_update_def assms(6) ends_before_def)
  then have val: "DiscUpdate_Validate req = Inr req" by (rule disc_update.wf_fixed)
  have patch: "disc_patch req d = d\<lparr>dc_value := v\<rparr>"
    by (simp add: disc_patch_def assms(6) opt_or_def opt_set_def)
  have find: "List.find (\<lambda>r. dc_id r = i) (discs s) = Some d"
    using assms(1) by (simp add: repo_GetDiscountByID_def split: option.splits)
  note i = find_Some_iff_mem [OF find]
  have row: "dc_id row = dc_id d" "dc_type row = dc_type d" "Some (dc_value row) = col_value e v"
    using assms(4) by (auto simp: disc_row_def split: option.splits if_splits)
  let ?d = "row\<lparr>dc_created := dc_created d\<rparr>"
  let ?s = "s\<lparr>discs := update_where (\<lambda>r. dc_id r = i) (\<lambda>r. row\<lparr>dc_created := dc_created r\<rparr>) (discs s)\<rparr>"
  have "list_ex (\<lambda>r. dc_id r = i) (discs s)" using i by (auto simp: list_ex_iff)
  then have "repo_UpdateDiscount e (d\<lparr>dc_value := v\<rparr>) s = (Inr (), ?s)"
    unfolding repo_UpdateDiscount_def assms(4) using assms(5) conjunct2 [OF i] by simp
  then have u: "UpdateDiscount e i req s = (Inr (d\<lparr>dc_value := v\<rparr>), ?s)"
    unfolding UpdateDiscount_def val sum.case assms(1) patch by simp
  have "List.find (\<lambda>r. dc_id r = i) (discs ?s) = Some ?d"
    using find_update_id [OF find, of "\<lambda>r. row\<lparr>dc_created := dc_created r\<rparr>"] row(1) i by simp
  then have "repo_GetDiscountByID i ?s = Inr ?d" by (simp add: repo_GetDiscountByID_def)
  moreover have "dc_type ?d = ''percentage''" "Some (dc_value ?d) = col_value e v" using row(2,3) assms(2) by simp_all
  ultimately show ?thesis using u by blast
qed

theorem update_lifts_percentage_cap_witness:
  "\<exists>s' r. UpdateDiscount sample_disc_env 5 \<lparr>xu_name = None, xu_code = None, xu_type = None, xu_value = Some 150,
      xu_min = None, xu_max = None, xu_starts = None, xu_ends = None, xu_active = None\<rparr> sample_discs
      = (Inr (sample_disc\<lparr>dc_value := 150\<rparr>), s') \<and> repo_GetDiscountByID 5 s' = Inr r \<and> dc_type r = ''percentage''
    \<and> Some (dc_value r) = Some 150 \<and> 120 < calculateDiscount (sample_disc\<lparr>dc_value := 150\<rparr>) 120"
proof -
  have g: "repo_GetDiscountByID 5 sample_discs = Inr sample_disc" "dc_type sample_disc = ''percentage''"
    "\<not> disc_code_taken (Some 5) (dc_code sample_disc) sample_discs"
    by (simp_all add: repo_GetDiscountByID_def sample_discs_def sample_disc_def disc_code_taken_def)
  have row: "disc_row sample_disc_env (sample_disc\<lparr>dc_value := 150\<rparr>) = Some (sample_disc\<lparr>dc_value := 150\<rparr>)"
    by (simp add: disc_row_def sample_disc_def sample_disc_env_def int4_def rune_count_def cont_byte_def)
  have "120 < calculateDiscount (sample_disc\<lparr>dc_value := 150\<rparr>) 120"
    by (simp add: calculateDiscount_def sample_disc_def fmul_def fdiv_def)
  moreover have "col_value sample_disc_env 150 = Some 150" by (simp add: sample_disc_env_def)
  ultimately show ?thesis
    using update_lifts_percentage_cap [OF g(1,2) _ row g(3) refl] by simp
qed

end
