(* ===== verification/Merchant_Domain.thy ===== *)
theory Merchant_Domain
  imports Go_Strings Float64
begin

text \<open>
  The merchant feed's domain layer (\<open>internal/merchant/domain\<close>) and its hydration service
  (\<open>application/hydration\<close>): money, availability, pricing, images, titles, labels, and the flat feed
  item. Amounts are far inside \<open>int64\<close> (\<open>DECIMAL(12,2)\<close> columns), so cents are plain integers.
\<close>

section \<open>Enumerations\<close>

datatype merchant_error =
    ErrNoVariants | ErrMissingTitle | ErrMissingLink | ErrMissingImageLink | ErrMissingPrice
  | ErrInvalidAvailability | ErrInvalidCondition | ErrTitleTooLong | ErrDescriptionTooLong | ErrMissingID
  | MerchantDbError

definition Availability_Valid :: "string \<Rightarrow> bool" where
  "Availability_Valid a \<longleftrightarrow> a \<in> {''in_stock'', ''out_of_stock'', ''preorder'', ''backorder''}"

definition Condition_Valid :: "string \<Rightarrow> bool" where
  "Condition_Valid c \<longleftrightarrow> c \<in> {''new'', ''refurbished'', ''used''}"

section \<open>Formatting\<close>

text \<open>Integer division and remainder that truncate towards zero.\<close>

definition go_quot :: "int \<Rightarrow> int \<Rightarrow> int" where
  "go_quot a b = sgn a * sgn b * (\<bar>a\<bar> div \<bar>b\<bar>)"

definition go_rem :: "int \<Rightarrow> int \<Rightarrow> int" where
  "go_rem a b = a - b * go_quot a b"

text \<open>\<open>%02d\<close> and \<open>%04d\<close>: zero padding to a width that counts the sign.\<close>

definition zero_pad :: "nat \<Rightarrow> int \<Rightarrow> string" where
  "zero_pad w n =
     (let ds = digits_of_nat (nat \<bar>n\<bar>); sign = (if n < 0 then ''-'' else [])
      in sign @ replicate (w - (length sign + length ds)) CHR ''0'' @ ds)"

text \<open>The proleptic Gregorian date of a day count since 1970-01-01.\<close>

definition civil_date :: "int \<Rightarrow> int \<times> int \<times> int" where
  "civil_date days =
     (let z = days + 719468; era = z div 146097; doe = z mod 146097;
          yoe = (doe - doe div 1460 + doe div 36524 - doe div 146096) div 365;
          doy = doe - (365 * yoe + yoe div 4 - yoe div 100);
          mp = (5 * doy + 2) div 153;
          d = doy - (153 * mp + 2) div 5 + 1;
          m = (if mp < 10 then mp + 3 else mp - 9)
      in (yoe + era * 400 + (if m \<le> 2 then 1 else 0), m, d))"

definition format_date :: "instant \<Rightarrow> string" where
  "format_date t =
     (let (y, m, d) = civil_date (t div 1000000000 div 86400)
      in zero_pad 4 y @ ''-'' @ zero_pad 2 m @ ''-'' @ zero_pad 2 d)"

definition format_rfc3339 :: "instant \<Rightarrow> string" where
  "format_rfc3339 t =
     (let s = t div 1000000000; r = s mod 86400
      in format_date t @ ''T'' @ zero_pad 2 (r div 3600) @ '':'' @ zero_pad 2 (r div 60 mod 60)
           @ '':'' @ zero_pad 2 (r mod 60) @ ''Z'')"

text \<open>\<open>%.0f\<close> of a finite float64.\<close>

definition format_f0 :: "f64 \<Rightarrow> string" where
  "format_f0 x = string_of_int (round_even x)"

section \<open>Money and pricing\<close>

record money =
  cents :: int
  cur :: string

definition Money_Format :: "money \<Rightarrow> string" where
  "Money_Format m =
     (if cents m = 0 then ''0.00 '' @ cur m
      else string_of_int (go_quot (cents m) 100) @ ''.'' @ zero_pad 2 (go_rem (cents m) 100) @ '' '' @ cur m)"

definition MoneyFromDecimal :: "f64 \<Rightarrow> string \<Rightarrow> money" where
  "MoneyFromDecimal amount c = \<lparr>cents = to_i64 (fmul amount 100), cur = c\<rparr>"

record shipping =
  sh_country :: string
  sh_service :: string
  sh_price :: money

definition Shipping_Format :: "shipping \<Rightarrow> string" where
  "Shipping_Format s = sh_country s @ '':'' @ sh_service s @ '':'' @ Money_Format (sh_price s)"

record tax =
  tx_country :: string
  tx_rate :: f64
  tx_ship :: bool

record pricing =
  pr_price :: money
  pr_sale :: money
  pr_start :: "instant option"
  pr_end :: "instant option"
  pr_percent :: f64
  pr_type :: string
  pr_cogs :: money

definition HasSalePrice :: "pricing \<Rightarrow> bool" where
  "HasSalePrice p \<longleftrightarrow> cents (pr_sale p) \<noteq> 0 \<and> cents (pr_sale p) < cents (pr_price p)"

definition SalePriceEffectiveDateRange :: "pricing \<Rightarrow> string" where
  "SalePriceEffectiveDateRange p =
     (case (pr_start p, pr_end p) of
        (Some a, Some b) \<Rightarrow> format_rfc3339 a @ ''/'' @ format_rfc3339 b
      | _ \<Rightarrow> [])"

section \<open>Availability\<close>

record availability =
  av_status :: string
  av_available :: int
  av_reserved :: int
  av_incoming :: int
  av_date :: "instant option"

definition NetQty :: "availability \<Rightarrow> int" where
  "NetQty a = av_available a - av_reserved a"

definition ResolveAvailability :: "int \<Rightarrow> int \<Rightarrow> int \<Rightarrow> string" where
  "ResolveAvailability available reserved incoming =
     (if 0 < available - reserved then ''in_stock''
      else if 0 < incoming then ''preorder''
      else ''out_of_stock'')"

section \<open>Images, links, labels\<close>

record image =
  im_url :: string
  im_primary :: bool

definition ensure_https :: "string \<Rightarrow> string" where
  "ensure_https u = (if prefix ''http://'' u then ''https://'' @ drop 7 u else u)"

definition EnsureHTTPS :: "image \<Rightarrow> image" where
  "EnsureHTTPS i = i\<lparr>im_url := ensure_https (im_url i)\<rparr>"

definition trim_right_slash :: "string \<Rightarrow> string" where
  "trim_right_slash s = rev (dropWhile ((=) CHR ''/'') (rev s))"

definition BuildProductURL :: "string \<Rightarrow> string \<Rightarrow> string" where
  "BuildProductURL base slug = trim_right_slash base @ ''/products/'' @ slug"

definition BuildVariantURL :: "string \<Rightarrow> string \<Rightarrow> id \<Rightarrow> string" where
  "BuildVariantURL base slug v = trim_right_slash base @ ''/products/'' @ slug @ ''?variant='' @ string_of_int v"

definition BuildItemGroupID :: "id \<Rightarrow> string" where
  "BuildItemGroupID p = ''product-'' @ string_of_int p"

record labels =
  lb0 :: string
  lb1 :: string
  lb2 :: string
  lb3 :: string
  lb4 :: string

definition AsSlice :: "labels \<Rightarrow> string list" where
  "AsSlice l = [lb0 l, lb1 l, lb2 l, lb3 l, lb4 l]"

section \<open>The hydrated variant\<close>

record merchant_variant =
  v_id :: string
  v_group :: string
  v_sku :: string
  v_gtin :: string
  v_mpn :: string
  v_product :: id
  v_variant :: id
  v_slug :: string
  v_name :: string
  v_title :: string
  v_desc :: string
  v_link :: string
  v_mobile :: string
  v_image :: string
  v_more_images :: "string list"
  v_avail :: availability
  v_pricing :: pricing
  v_cond :: string
  v_brand :: string
  v_google_cat :: string
  v_type :: string
  v_path :: string
  v_color :: string
  v_size :: string
  v_gender :: string
  v_age :: string
  v_material :: string
  v_pattern :: string
  v_weight :: f64
  v_multipack :: int
  v_shipping :: "shipping list"
  v_tax :: "tax list"
  v_labels :: labels
  v_adult :: bool
  v_has_ident :: bool
  v_expires :: "instant option"
  v_energy :: string
  v_unit :: string
  v_unit_base :: string
  v_ads :: string
  v_pickup :: string
  v_sla :: string
  v_updated :: instant

definition FeedItemID :: "merchant_variant \<Rightarrow> string" where
  "FeedItemID v = string_of_int (v_product v) @ ''-'' @ string_of_int (v_variant v)"

definition MerchantVariant_Validate :: "merchant_variant \<Rightarrow> merchant_error + unit" where
  "MerchantVariant_Validate v =
     (if trim_space (v_title v) = [] then Inl ErrMissingTitle
      else if 150 < rune_count (v_title v) then Inl ErrTitleTooLong
      else if 5000 < rune_count (v_desc v) then Inl ErrDescriptionTooLong
      else if trim_space (v_link v) = [] then Inl ErrMissingLink
      else if trim_space (v_image v) = [] then Inl ErrMissingImageLink
      else if cents (pr_price (v_pricing v)) = 0 then Inl ErrMissingPrice
      else if \<not> Availability_Valid (av_status (v_avail v)) then Inl ErrInvalidAvailability
      else if \<not> Condition_Valid (v_cond v) then Inl ErrInvalidCondition
      else Inr ())"

text \<open>Keeps the first occurrence of each URL that is not in \<open>seen\<close>.\<close>

fun dedup :: "string list \<Rightarrow> string list \<Rightarrow> string list" where
  "dedup seen [] = []"
| "dedup seen (u # us) = (if u \<in> set seen then dedup seen us else u # dedup (u # seen) us)"

definition NormalizeImages :: "merchant_variant \<Rightarrow> merchant_variant" where
  "NormalizeImages v =
     (let main = ensure_https (v_image v)
      in v\<lparr>v_image := main, v_more_images := take 10 (dedup [main] (map ensure_https (v_more_images v)))\<rparr>)"

definition truncateRunes :: "nat \<Rightarrow> string \<Rightarrow> string" where
  "truncateRunes n s = (if rune_count s \<le> n then s else take_runes n s)"

definition NormalizeTitle :: "merchant_variant \<Rightarrow> merchant_variant" where
  "NormalizeTitle v = v\<lparr>v_title := truncateRunes 150 (trim_space (v_title v))\<rparr>"

definition NormalizeDescription :: "merchant_variant \<Rightarrow> merchant_variant" where
  "NormalizeDescription v = v\<lparr>v_desc := truncateRunes 5000 (trim_space (v_desc v))\<rparr>"

section \<open>Hydration\<close>

text \<open>The raw product and its variants; attributes are a Go map, absent keys read as the empty string.\<close>

record raw_variant =
  rv_id :: id
  rv_sku :: string
  rv_price :: f64
  rv_weight :: f64
  rv_active :: bool
  rv_available :: int
  rv_reserved :: int
  rv_incoming :: int
  rv_percent :: f64
  rv_dtype :: string
  rv_start :: "instant option"
  rv_end :: "instant option"
  rv_attrs :: "string \<Rightarrow> string option"
  rv_gtin :: string
  rv_mpn :: string

record merchant_product =
  mp_id :: id
  mp_name :: string
  mp_slug :: string
  mp_desc :: string
  mp_brand :: string
  mp_brand_slug :: string
  mp_rating :: f64
  mp_category :: id
  mp_path :: string
  mp_google_cat :: string
  mp_images :: "image list"
  mp_variants :: "raw_variant list"
  mp_updated :: instant

record hydration_cfg =
  hc_omit_shipping :: bool
  hc_base :: string
  hc_currency :: string
  hc_condition :: string
  hc_country :: string
  hc_fee :: money
  hc_tax :: f64
  hc_map :: "(id \<Rightarrow> string option) option"

definition attr :: "(string \<Rightarrow> string option) \<Rightarrow> string \<Rightarrow> string" where
  "attr m k = (case m k of None \<Rightarrow> [] | Some v \<Rightarrow> v)"

definition no_money :: money where
  "no_money = \<lparr>cents = 0, cur = []\<rparr>"

definition no_sale :: "money \<Rightarrow> f64 \<Rightarrow> string \<Rightarrow> pricing" where
  "no_sale regular pct dtype = \<lparr>pr_price = regular, pr_sale = no_money, pr_start = None, pr_end = None,
     pr_percent = pct, pr_type = dtype, pr_cogs = no_money\<rparr>"

definition with_sale :: "int \<Rightarrow> string \<Rightarrow> instant option \<Rightarrow> instant option \<Rightarrow> pricing \<Rightarrow> pricing" where
  "with_sale c currency s e p = p\<lparr>pr_sale := \<lparr>cents = c, cur = currency\<rparr>, pr_start := s, pr_end := e\<rparr>"

definition percent_sale :: "int \<Rightarrow> f64 \<Rightarrow> int" where
  "percent_sale c pct = to_i64 (fmul (of_i64 c) (fsub 1 (fdiv pct 100)))"

definition resolvePricing :: "raw_variant \<Rightarrow> string \<Rightarrow> pricing" where
  "resolvePricing v currency =
     (let regular = MoneyFromDecimal (rv_price v) currency;
          p = no_sale regular (rv_percent v) (rv_dtype v)
      in if rv_percent v \<le> 0 then p
         else
           let sale = (if rv_dtype v = ''fixed''
                       then cents regular - to_i64 (fmul (fdiv (rv_percent v) 100) (of_i64 (cents regular)))
                       else percent_sale (cents regular) (rv_percent v))
           in with_sale (if sale < 0 then 0 else sale) currency (rv_start v) (rv_end v) p)"

text \<open>The loop over the images, and the fallback to the first one.\<close>

fun partition_loop :: "image list \<Rightarrow> string \<Rightarrow> string list \<Rightarrow> string \<times> string list" where
  "partition_loop [] main extra = (main, extra)"
| "partition_loop (i # is) main extra =
     (let url = ensure_https (im_url i) in
      if im_primary i \<and> main = [] then partition_loop is url extra
      else if length extra < 10 then partition_loop is main (extra @ [url])
      else partition_loop is main extra)"

definition partitionImages :: "image list \<Rightarrow> string \<times> string list" where
  "partitionImages is =
     (let (main, extra) = partition_loop is [] []
      in (if main = [] \<and> is \<noteq> [] then ensure_https (im_url (hd is)) else main, extra))"

definition buildShipping :: "hydration_cfg \<Rightarrow> shipping list" where
  "buildShipping cfg =
     (if hc_omit_shipping cfg \<or> hc_country cfg = [] then []
      else let fee = (if cur (hc_fee cfg) = [] then (hc_fee cfg)\<lparr>cur := hc_currency cfg\<rparr> else hc_fee cfg)
           in [\<lparr>sh_country = hc_country cfg, sh_service = ''Standard Shipping'', sh_price = fee\<rparr>])"

definition buildTax :: "hydration_cfg \<Rightarrow> tax list" where
  "buildTax cfg =
     (if hc_tax cfg = 0 \<or> hc_country cfg = [] then []
      else [\<lparr>tx_country = hc_country cfg, tx_rate = hc_tax cfg, tx_ship = False\<rparr>])"

definition buildTitle :: "string \<Rightarrow> (string \<Rightarrow> string option) \<Rightarrow> string" where
  "buildTitle name m =
     (let parts = filter (\<lambda>s. s \<noteq> []) [attr m ''color'', attr m ''size'', attr m ''storage'']
      in if parts = [] then name else name @ '' - '' @ join_with '' / '' parts)"

definition buildVariantName :: "(string \<Rightarrow> string option) \<Rightarrow> string" where
  "buildVariantName m =
     join_with '' / '' (filter (\<lambda>s. s \<noteq> []) (map (attr m) [''color'', ''size'', ''storage'', ''weight'']))"

definition buildCustomLabels :: "raw_variant \<Rightarrow> merchant_product \<Rightarrow> labels" where
  "buildCustomLabels v p =
     (let net = rv_available v - rv_reserved v in
      \<lparr>lb0 = (if 30 \<le> rv_percent v then ''sale-high'' else if 0 < rv_percent v then ''sale-low'' else ''no-sale''),
       lb1 = (if net \<le> 0 then ''out-of-stock'' else if net \<le> 5 then ''low-stock'' else ''in-stock''),
       lb2 = (if 9 / 2 \<le> mp_rating p then ''top-rated'' else if 7 / 2 \<le> mp_rating p then ''well-rated'' else []),
       lb3 = mp_brand_slug p, lb4 = []\<rparr>)"

definition hydrate_variant :: "hydration_cfg \<Rightarrow> merchant_product \<Rightarrow> raw_variant \<Rightarrow> merchant_variant" where
  "hydrate_variant cfg p v =
     (let currency = (if hc_currency cfg = [] then ''KES'' else hc_currency cfg);
          cond = (if Condition_Valid (hc_condition cfg) then hc_condition cfg else ''new'');
          (main, extra) = partitionImages (mp_images p);
          gpc = (if mp_google_cat p = []
                 then (case hc_map cfg of None \<Rightarrow> []
                       | Some m \<Rightarrow> (case m (mp_category p) of None \<Rightarrow> [] | Some g \<Rightarrow> g))
                 else mp_google_cat p);
          link = BuildVariantURL (hc_base cfg) (mp_slug p) (rv_id v)
      in NormalizeImages
           \<lparr>v_id = string_of_int (mp_id p) @ ''-'' @ string_of_int (rv_id v), v_group = BuildItemGroupID (mp_id p),
            v_sku = rv_sku v, v_gtin = rv_gtin v, v_mpn = rv_mpn v, v_product = mp_id p, v_variant = rv_id v,
            v_slug = mp_slug p, v_name = buildVariantName (rv_attrs v),
            v_title = truncateRunes 150 (buildTitle (mp_name p) (rv_attrs v)),
            v_desc = truncateRunes 5000 (trim_space (mp_desc p)),
            v_link = link, v_mobile = link, v_image = main, v_more_images = extra,
            v_avail = \<lparr>av_status = ResolveAvailability (rv_available v) (rv_reserved v) (rv_incoming v),
                       av_available = rv_available v, av_reserved = rv_reserved v, av_incoming = rv_incoming v,
                       av_date = None\<rparr>,
            v_pricing = resolvePricing v currency, v_cond = cond, v_brand = mp_brand p, v_google_cat = gpc,
            v_type = mp_path p, v_path = mp_path p, v_color = attr (rv_attrs v) ''color'',
            v_size = attr (rv_attrs v) ''size'', v_gender = attr (rv_attrs v) ''gender'',
            v_age = attr (rv_attrs v) ''age_group'', v_material = attr (rv_attrs v) ''material'',
            v_pattern = attr (rv_attrs v) ''pattern'', v_weight = rv_weight v, v_multipack = 0,
            v_shipping = buildShipping cfg, v_tax = buildTax cfg, v_labels = buildCustomLabels v p,
            v_adult = False, v_has_ident = (rv_gtin v \<noteq> [] \<or> rv_mpn v \<noteq> []), v_expires = None,
            v_energy = [], v_unit = [], v_unit_base = [], v_ads = [], v_pickup = [], v_sla = [],
            v_updated = mp_updated p\<rparr>)"

definition HydrateProduct :: "hydration_cfg \<Rightarrow> merchant_product \<Rightarrow> merchant_error + merchant_variant list" where
  "HydrateProduct cfg p =
     (if mp_variants p = [] then Inl ErrNoVariants
      else let items = map (hydrate_variant cfg p) (filter rv_active (mp_variants p))
           in if items = [] then Inl ErrNoVariants else Inr items)"

section \<open>Properties\<close>

text \<open>Converting a stored price to cents truncates: for a price of \<open>c\<close> cents it gives \<open>c\<close> or \<open>c - 1\<close>,
  never anything else.\<close>

theorem money_within_a_cent:
  assumes "0 \<le> c" "c \<le> 2 ^ 40"
  shows "cents (MoneyFromDecimal (rnd (of_int c / 100)) k) \<in> {c - 1, c} \<and> cur (MoneyFromDecimal (rnd (of_int c / 100)) k) = k"
proof -
  let ?x = "rnd (of_int c / 100)" and ?y = "fmul (rnd (of_int c / 100)) 100"
  have c: "(0 :: rat) \<le> of_int c" "(of_int c :: rat) \<le> 2 ^ 40" using assms by (simp_all add: of_int_le_iff [of c "2 ^ 40", simplified])
  have p: "(2 :: rat) powi 35 = 34359738368" "(2 :: rat) powi (35 - 54) = 1 / 524288"
    "(2 :: rat) powi 42 = 4398046511104" "(2 :: rat) powi (42 - 54) = 1 / 4096"
    by (simp_all add: power_int_def power_one_over)
  have x0: "0 \<le> ?x" using c(1) by (intro rnd_nonneg) simp
  have "\<bar>?x - of_int c / 100\<bar> \<le> 2 powi (35 - 54)"
    using c by (intro rnd_error) (simp_all add: p)
  then have x: "\<bar>?x * 100 - of_int c\<bar> \<le> 100 / 524288" unfolding p by (simp add: abs_le_iff field_simps)
  have y0: "0 \<le> ?x * 100" using x0 by simp
  have "\<bar>?y - ?x * 100\<bar> \<le> 2 powi (42 - 54)"
    unfolding fmul_def
  proof (rule rnd_error [OF y0])
    have "(2 :: rat) ^ 40 = 1099511627776" by simp
    then show "?x * 100 < 2 powi 42" using x c(2) unfolding p by linarith
  qed simp
  then have y: "of_int c - 1 < ?y" "?y < of_int c + 1" using x unfolding p by linarith+
  have "0 \<le> ?y" unfolding fmul_def using y0 by (rule rnd_nonneg)
  moreover have "\<lfloor>?y\<rfloor> = c - 1 \<or> \<lfloor>?y\<rfloor> = c"
  proof -
    have "c - 1 \<le> \<lfloor>?y\<rfloor>" "\<lfloor>?y\<rfloor> < c + 1" using y by (simp_all add: le_floor_iff floor_le_iff)
    then show ?thesis by linarith
  qed
  ultimately show ?thesis by (auto simp: MoneyFromDecimal_def to_i64_def)
qed

theorem money_within_a_cent_witness:
  "cents (MoneyFromDecimal (rnd (1999 / 100)) ''KES'') = 1998 \<and> Money_Format (MoneyFromDecimal (rnd (1999 / 100)) ''KES'') = ''19.98 KES''"
proof -
  have "cents (MoneyFromDecimal (rnd (1999 / 100)) ''KES'') \<noteq> 1999" by code_simp
  then have m: "MoneyFromDecimal (rnd (1999 / 100)) ''KES'' = \<lparr>cents = 1998, cur = ''KES''\<rparr>"
    using money_within_a_cent [of 1999 "''KES''"] by (cases "MoneyFromDecimal (rnd (1999 / 100)) ''KES''") simp
  have "Money_Format \<lparr>cents = 1998, cur = ''KES''\<rparr> = ''19.98 KES''" by code_simp
  then show ?thesis unfolding m by simp
qed

end
