(* ===== verification/Merchant_Feed.thy ===== *)
theory Merchant_Feed
  imports Merchant_Domain
begin

text \<open>
  The merchant feed itself: the repository's paged query and row scanner
  (\<open>merchant/infrastructure/postgres\<close>), the generator's loop with its normalisation and validation
  (\<open>application/feedgen\<close>) and the RSS items (\<open>application/feedxml\<close>). A \<open>source\<close> is what the query's
  joins give for one product variant; the eligibility filter, the paging, the stock filter, the choice
  of the discount and everything computed from the row are modelled.
\<close>

section \<open>Feed items\<close>

record feed_item =
  fi_id :: string
  fi_title :: string
  fi_desc :: string
  fi_link :: string
  fi_image :: string
  fi_avail :: string
  fi_price :: string
  fi_cond :: string
  fi_brand :: string
  fi_gtin :: string
  fi_mpn :: string
  fi_group :: string
  fi_sale :: string
  fi_sale_dates :: string
  fi_images :: "string list"
  fi_google_cat :: string
  fi_type :: string
  fi_color :: string
  fi_size :: string
  fi_gender :: string
  fi_age :: string
  fi_material :: string
  fi_pattern :: string
  fi_weight :: string
  fi_shipping :: "string list"
  fi_tax :: "tax list"
  fi_ident :: string
  fi_labels :: labels
  fi_mobile :: string
  fi_energy :: string
  fi_unit :: string
  fi_unit_base :: string
  fi_multipack :: int
  fi_adult :: string
  fi_expires :: string
  fi_avail_date :: string
  fi_cogs :: string
  fi_ads :: string
  fi_pickup :: string
  fi_sla :: string

definition blank_labels :: labels where
  "blank_labels = \<lparr>lb0 = [], lb1 = [], lb2 = [], lb3 = [], lb4 = []\<rparr>"

definition sale_of :: "pricing \<Rightarrow> string" where
  "sale_of p = (if HasSalePrice p then Money_Format (pr_sale p) else [])"

definition sale_dates_of :: "pricing \<Rightarrow> string" where
  "sale_dates_of p = (if HasSalePrice p then SalePriceEffectiveDateRange p else [])"

definition yes_no :: "bool \<Rightarrow> string" where
  "yes_no b = (if b then ''yes'' else ''no'')"

definition FeedItemFromVariant :: "merchant_variant \<Rightarrow> feed_item" where
  "FeedItemFromVariant v =
     \<lparr>fi_id = FeedItemID v, fi_title = v_title v, fi_desc = v_desc v, fi_link = v_link v, fi_image = v_image v,
      fi_avail = av_status (v_avail v), fi_price = Money_Format (pr_price (v_pricing v)), fi_cond = v_cond v,
      fi_brand = v_brand v, fi_gtin = v_gtin v, fi_mpn = v_mpn v, fi_group = v_group v,
      fi_sale = sale_of (v_pricing v), fi_sale_dates = sale_dates_of (v_pricing v),
      fi_images = v_more_images v, fi_google_cat = v_google_cat v, fi_type = v_type v, fi_color = v_color v,
      fi_size = v_size v, fi_gender = v_gender v, fi_age = v_age v, fi_material = v_material v,
      fi_pattern = v_pattern v,
      fi_weight = (if 0 < v_weight v then format_f0 (v_weight v) @ '' g'' else []),
      fi_shipping = map Shipping_Format (v_shipping v), fi_tax = v_tax v,
      fi_ident = yes_no (v_gtin v \<noteq> [] \<or> v_mpn v \<noteq> []), fi_labels = v_labels v, fi_mobile = v_mobile v,
      fi_energy = v_energy v, fi_unit = v_unit v, fi_unit_base = v_unit_base v, fi_multipack = v_multipack v,
      fi_adult = yes_no (v_adult v),
      fi_expires = (case v_expires v of None \<Rightarrow> [] | Some t \<Rightarrow> format_date t),
      fi_avail_date = (case av_date (v_avail v) of None \<Rightarrow> [] | Some t \<Rightarrow> format_rfc3339 t),
      fi_cogs = (if cents (pr_cogs (v_pricing v)) = 0 then [] else Money_Format (pr_cogs (v_pricing v))),
      fi_ads = v_ads v, fi_pickup = v_pickup v, fi_sla = v_sla v\<rparr>"

section \<open>The feed query\<close>

record source =
  so_variant :: id
  so_product :: id
  so_created :: instant
  so_active :: bool
  so_status :: string
  so_digital :: bool
  so_updated :: instant
  so_brand_id :: "id option"
  so_cats :: "id list"
  so_price :: f64
  so_discounts :: "(string \<times> f64 \<times> instant option \<times> instant option \<times> bool) list"
  so_stock :: "(int \<times> int \<times> int) list"
  so_slug :: string
  so_gtin :: string
  so_mpn :: string
  so_title :: string
  so_desc :: string
  so_brand :: string
  so_path :: string
  so_image :: string
  so_images :: "string list"
  so_weight :: f64
  so_color :: string
  so_size :: string
  so_gender :: string
  so_age :: string
  so_material :: string
  so_pattern :: string

record feed_filter =
  ff_in_stock :: bool
  ff_active :: bool
  ff_no_digital :: bool
  ff_cats :: "id list"
  ff_brands :: "id list"
  ff_after :: "instant option"
  ff_cursor :: id
  ff_limit :: nat

definition DefaultFeedFilter :: feed_filter where
  "DefaultFeedFilter = \<lparr>ff_in_stock = False, ff_active = True, ff_no_digital = False, ff_cats = [],
     ff_brands = [], ff_after = None, ff_cursor = 0, ff_limit = 500\<rparr>"

text \<open>The gate without the cursor; \<open>so_cats\<close> are the categories of the product and their ancestors.\<close>

definition eligible :: "feed_filter \<Rightarrow> source \<Rightarrow> bool" where
  "eligible f s \<longleftrightarrow> so_active s \<and> (ff_active f \<longrightarrow> so_status s = ''active'') \<and> so_status s \<noteq> ''archived''
     \<and> (ff_no_digital f \<longrightarrow> \<not> so_digital s)
     \<and> (ff_brands f = [] \<or> (case so_brand_id s of None \<Rightarrow> False | Some b \<Rightarrow> b \<in> set (ff_brands f)))
     \<and> (ff_cats f = [] \<or> list_ex (\<lambda>c. c \<in> set (ff_cats f)) (so_cats s))
     \<and> (case ff_after f of None \<Rightarrow> True | Some t \<Rightarrow> t < so_updated s \<or> t < so_created s)"

definition stock_sum :: "source \<Rightarrow> int \<times> int \<times> int" where
  "stock_sum s = (sum_list (map fst (so_stock s)), sum_list (map (fst \<circ> snd) (so_stock s)),
                  sum_list (map (snd \<circ> snd) (so_stock s)))"

definition net_stock :: "source \<Rightarrow> int" where
  "net_stock s = (let (a, r, i) = stock_sum s in a - r)"

text \<open>One page: gate, order and \<open>LIMIT\<close> first, the stock filter after them.\<close>

definition by_variant :: "source \<Rightarrow> source \<Rightarrow> bool" where
  "by_variant a b \<longleftrightarrow> so_variant a \<le> so_variant b"

definition feed_page :: "feed_filter \<Rightarrow> source list \<Rightarrow> source list" where
  "feed_page f t =
     filter (\<lambda>s. ff_in_stock f \<longrightarrow> 0 < net_stock s)
       (take (ff_limit f) (order_by by_variant (filter (\<lambda>s. ff_cursor f < so_variant s \<and> eligible f s) t)))"

definition CountEligibleVariants :: "feed_filter \<Rightarrow> source list \<Rightarrow> int" where
  "CountEligibleVariants f t =
     int (length (filter (\<lambda>s. eligible f s \<and> (ff_in_stock f \<longrightarrow> so_stock s \<noteq> [] \<and> 0 < net_stock s)) t))"

text \<open>The discount with the highest percentage; \<open>pg_percent v p\<close> is the rounded \<open>v / p * 100\<close>. A zero price
  has no percentage, which sorts first and reads as 0.\<close>

definition live_discounts :: "instant \<Rightarrow> source \<Rightarrow> (string \<times> f64 \<times> instant option \<times> instant option \<times> bool) list" where
  "live_discounts now s =
     filter (\<lambda>(ty, v, a, b, act). act \<and> (case a of None \<Rightarrow> True | Some x \<Rightarrow> x \<le> now)
        \<and> (case b of None \<Rightarrow> True | Some x \<Rightarrow> now \<le> x)) (so_discounts s)"

definition discount_percent :: "(f64 \<Rightarrow> f64 \<Rightarrow> f64) \<Rightarrow> f64 \<Rightarrow> string \<Rightarrow> f64 \<Rightarrow> f64 option" where
  "discount_percent pg_percent price ty v =
     (if ty = ''percentage'' then Some v else if price = 0 then None else Some (pg_percent v price))"

definition percent_ge :: "f64 option \<Rightarrow> f64 option \<Rightarrow> bool" where
  "percent_ge a b = (case a of None \<Rightarrow> True | Some x \<Rightarrow> (case b of None \<Rightarrow> False | Some y \<Rightarrow> y \<le> x))"

definition best_discount ::
  "(f64 \<Rightarrow> f64 \<Rightarrow> f64) \<Rightarrow> instant \<Rightarrow> source \<Rightarrow> f64 \<times> string \<times> instant option \<times> instant option" where
  "best_discount pg_percent now s =
     (case order_by (\<lambda>x y. percent_ge (fst x) (fst y))
             (map (\<lambda>(ty, v, a, b, act). (discount_percent pg_percent (so_price s) ty v, ty, a, b)) (live_discounts now s)) of
        [] \<Rightarrow> (0, [], None, None)
      | (pct, ty, a, b) # _ \<Rightarrow> (case pct of None \<Rightarrow> 0 | Some x \<Rightarrow> x, ty, a, b))"

section \<open>The row scanner\<close>

definition scan_https :: "string \<Rightarrow> string" where
  "scan_https u = (if 7 < length u \<and> prefix ''http://'' u then ''https://'' @ drop 7 u else u)"

definition scan_pricing ::
  "f64 \<Rightarrow> f64 \<Rightarrow> string \<Rightarrow> instant option \<Rightarrow> instant option \<Rightarrow> pricing" where
  "scan_pricing price pct dtype a b =
     (let regular = MoneyFromDecimal price ''KES''; p = no_sale regular pct dtype
      in if pct \<le> 0 then p
         else if dtype = ''percentage'' then with_sale (percent_sale (cents regular) pct) ''KES'' a b p
         else with_sale (max 0 (cents regular - to_i64 (fmul pct 100))) ''KES'' a b p)"

definition scan_row :: "(f64 \<Rightarrow> f64 \<Rightarrow> f64) \<Rightarrow> instant \<Rightarrow> source \<Rightarrow> feed_item" where
  "scan_row pg_percent now s =
     (let (a, r, i) = stock_sum s; (pct, ty, st, en) = best_discount pg_percent now s;
          pr = scan_pricing (so_price s) pct ty st en
      in \<lparr>fi_id = string_of_int (so_product s) @ ''-'' @ string_of_int (so_variant s), fi_title = so_title s,
          fi_desc = so_desc s,
          fi_link = ''__STORE_URL__/products/'' @ so_slug s @ ''?variant='' @ string_of_int (so_variant s),
          fi_image = scan_https (so_image s), fi_avail = ResolveAvailability a r i,
          fi_price = Money_Format (pr_price pr), fi_cond = ''new'', fi_brand = so_brand s,
          fi_gtin = so_gtin s, fi_mpn = so_mpn s, fi_group = BuildItemGroupID (so_product s),
          fi_sale = sale_of pr, fi_sale_dates = sale_dates_of pr,
          fi_images = map scan_https (so_images s), fi_google_cat = [], fi_type = so_path s,
          fi_color = so_color s, fi_size = so_size s, fi_gender = so_gender s, fi_age = so_age s,
          fi_material = so_material s, fi_pattern = so_pattern s,
          fi_weight = (if 0 < so_weight s then format_f0 (fmul (so_weight s) 1000) @ '' g'' else []),
          fi_shipping = [], fi_tax = [], fi_ident = yes_no (so_gtin s \<noteq> [] \<or> so_mpn s \<noteq> []),
          fi_labels = blank_labels, fi_mobile = [], fi_energy = [], fi_unit = [], fi_unit_base = [],
          fi_multipack = 0, fi_adult = [], fi_expires = [], fi_avail_date = [], fi_cogs = [], fi_ads = [],
          fi_pickup = [], fi_sla = []\<rparr>)"

record batch =
  ba_items :: "feed_item list"
  ba_total :: int
  ba_next :: id
  ba_has_more :: bool

definition LoadFeedBatch :: "(f64 \<Rightarrow> f64 \<Rightarrow> f64) \<Rightarrow> instant \<Rightarrow> feed_filter \<Rightarrow> source list \<Rightarrow> batch" where
  "LoadFeedBatch pg_percent now f t =
     (let page = feed_page f t
      in \<lparr>ba_items = map (scan_row pg_percent now) page, ba_total = 0,
          ba_next = (if page = [] then 0 else so_variant (last page)), ba_has_more = (length page = ff_limit f)\<rparr>)"

section \<open>The generator\<close>

text \<open>\<open>[ \<close>tab\<open>]{2,}\<close> to one blank and \<open>\n{3,}\<close> to two newlines.\<close>

definition blank_char :: "char \<Rightarrow> bool" where
  "blank_char c \<longleftrightarrow> c = CHR 0x20 \<or> c = CHR 0x09"

function squeeze_runs :: "(char \<Rightarrow> bool) \<Rightarrow> nat \<Rightarrow> string \<Rightarrow> string \<Rightarrow> string" where
  "squeeze_runs p n r [] = []"
| "squeeze_runs p n r (c # cs) =
     (if p c then
        (let run = c # takeWhile p cs
         in (if n \<le> length run then r else run) @ squeeze_runs p n r (dropWhile p cs))
      else c # squeeze_runs p n r cs)"
  by pat_completeness auto
termination
  by (relation "measure (\<lambda>(p, n, r, s). length s)") (auto simp: length_dropWhile_le less_Suc_eq_le)

definition multi_space :: "string \<Rightarrow> string" where
  "multi_space s = squeeze_runs blank_char 2 '' '' s"

definition multi_newline :: "string \<Rightarrow> string" where
  "multi_newline s = squeeze_runs ((=) CHR 0x0A) 3 [CHR 0x0A, CHR 0x0A] s"

definition normaliseURL :: "string \<Rightarrow> string" where
  "normaliseURL u0 = (let u = ensure_https (trim_space u0) in if prefix ''https://'' u then u else [])"

text \<open>The loop stops after ten images.\<close>

definition deduplicateImages :: "string \<Rightarrow> string list \<Rightarrow> string list" where
  "deduplicateImages main xs =
     take 10 (dedup (if main = [] then [] else [main]) (filter (\<lambda>u. u \<noteq> []) (map normaliseURL xs)))"

definition normaliseTitle :: "string \<Rightarrow> string" where
  "normaliseTitle s = take_runes 150 (multi_space (trim_space s))"

definition normaliseDescription :: "string \<Rightarrow> string" where
  "normaliseDescription s = take_runes 5000 (multi_space (multi_newline (trim_space s)))"

definition trim_labels :: "labels \<Rightarrow> labels" where
  "trim_labels l = \<lparr>lb0 = trim_space (lb0 l), lb1 = trim_space (lb1 l), lb2 = trim_space (lb2 l),
     lb3 = trim_space (lb3 l), lb4 = trim_space (lb4 l)\<rparr>"

definition identifier_field :: "feed_item \<Rightarrow> string" where
  "identifier_field i =
     (if trim_space (fi_gtin i) \<noteq> [] \<or> trim_space (fi_mpn i) \<noteq> [] then ''yes''
      else if fi_brand i \<noteq> [] \<and> map ascii_lower (fi_brand i) \<noteq> ''generic'' then []
      else ''no'')"

definition normaliseItem :: "feed_item \<Rightarrow> feed_item" where
  "normaliseItem i =
     (let main = normaliseURL (fi_image i); no_sale = (fi_sale i = [] \<or> fi_sale i = fi_price i) in
      i\<lparr>fi_image := main, fi_images := deduplicateImages main (fi_images i),
        fi_title := normaliseTitle (fi_title i), fi_desc := normaliseDescription (fi_desc i),
        fi_gtin := trim_space (fi_gtin i), fi_mpn := trim_space (fi_mpn i), fi_ident := identifier_field i,
        fi_sale := (if no_sale then [] else fi_sale i), fi_sale_dates := (if no_sale then [] else fi_sale_dates i),
        fi_weight := (if fi_weight i = ''0 g'' \<or> fi_weight i = ''1 g'' then [] else fi_weight i),
        fi_multipack := (if fi_multipack i \<le> 1 then 0 else fi_multipack i),
        fi_adult := (if fi_adult i \<noteq> ''yes'' then [] else fi_adult i),
        fi_size := trim_space (fi_size i), fi_gender := trim_space (fi_gender i), fi_age := trim_space (fi_age i),
        fi_material := trim_space (fi_material i), fi_pattern := trim_space (fi_pattern i),
        fi_color := trim_space (fi_color i), fi_energy := trim_space (fi_energy i), fi_unit := trim_space (fi_unit i),
        fi_unit_base := trim_space (fi_unit_base i), fi_ads := trim_space (fi_ads i),
        fi_pickup := trim_space (fi_pickup i), fi_sla := trim_space (fi_sla i),
        fi_expires := trim_space (fi_expires i), fi_avail_date := trim_space (fi_avail_date i),
        fi_cogs := trim_space (fi_cogs i), fi_labels := trim_labels (fi_labels i),
        fi_google_cat := trim_space (fi_google_cat i)\<rparr>)"

definition isValidHTTPSURL :: "string \<Rightarrow> bool" where
  "isValidHTTPSURL u \<longleftrightarrow> prefix ''https://'' u \<and> 10 < length u"

definition validateFeedItem :: "feed_item \<Rightarrow> merchant_error + unit" where
  "validateFeedItem i =
     (if fi_id i = [] then Inl ErrMissingID
      else if trim_space (fi_title i) = [] then Inl ErrMissingTitle
      else if \<not> isValidHTTPSURL (fi_link i) then Inl ErrMissingLink
      else if \<not> isValidHTTPSURL (fi_image i) then Inl ErrMissingImageLink
      else if fi_price i = [] then Inl ErrMissingPrice
      else if \<not> Availability_Valid (fi_avail i) then Inl ErrInvalidAvailability
      else if \<not> Condition_Valid (fi_cond i) then Inl ErrInvalidCondition
      else Inr ())"

definition resolveLink :: "string \<Rightarrow> string \<Rightarrow> string" where
  "resolveLink link base = (if prefix ''__STORE_URL__'' link then base @ drop 13 link else link)"

text \<open>What one item of a batch becomes: skipped for want of an image, invalid, or kept.\<close>

datatype outcome = NoImage | Invalid | Kept feed_item

definition process_item :: "string \<Rightarrow> feed_item \<Rightarrow> outcome" where
  "process_item base i0 =
     (let link = resolveLink (fi_link i0) base; i = normaliseItem (i0\<lparr>fi_link := link, fi_mobile := link\<rparr>)
      in if fi_image i = [] then NoImage
         else (case validateFeedItem i of Inl _ \<Rightarrow> Invalid | Inr _ \<Rightarrow> Kept i))"

fun kept :: "outcome list \<Rightarrow> feed_item list" where
  "kept [] = []"
| "kept (Kept i # os) = i # kept os"
| "kept (_ # os) = kept os"

record run_state =
  rs_batches :: "batch list"
  rs_valid :: int
  rs_invalid :: int
  rs_skipped :: int

text \<open>One turn: the batch's items are processed and the batch is kept, even if none of them is.\<close>

definition absorb :: "string \<Rightarrow> int \<Rightarrow> batch \<Rightarrow> run_state \<Rightarrow> run_state" where
  "absorb base cnt b r =
     (let os = map (process_item base) (ba_items b) in
      \<lparr>rs_batches = rs_batches r @ [b\<lparr>ba_items := kept os, ba_total := cnt\<rparr>],
       rs_valid = rs_valid r + int (length (kept os)),
       rs_invalid = rs_invalid r + int (length (filter ((=) Invalid) os)),
       rs_skipped = rs_skipped r + int (length (filter ((=) NoImage) os))\<rparr>)"

text \<open>The loop of \<open>run\<close>. \<open>load\<close> is the batch query, which may fail; running out of fuel is \<open>None\<close>.\<close>

fun run_loop ::
  "nat \<Rightarrow> (feed_filter \<Rightarrow> merchant_error + batch) \<Rightarrow> string \<Rightarrow> int \<Rightarrow> feed_filter \<Rightarrow> run_state
     \<Rightarrow> (merchant_error + run_state) option" where
  "run_loop 0 load base cnt f r = None"
| "run_loop (Suc n) load base cnt f r =
     (case load f of
        Inl e \<Rightarrow> Some (Inl e)
      | Inr b \<Rightarrow>
          if ba_items b = [] then Some (Inr r)
          else if \<not> ba_has_more b then Some (Inr (absorb base cnt b r))
          else run_loop n load base cnt (f\<lparr>ff_cursor := ba_next b\<rparr>) (absorb base cnt b r))"

definition start_state :: run_state where
  "start_state = \<lparr>rs_batches = [], rs_valid = 0, rs_invalid = 0, rs_skipped = 0\<rparr>"

record metadata =
  md_id :: string
  md_total :: int
  md_valid :: int
  md_invalid :: int

definition run_feed ::
  "nat \<Rightarrow> (feed_filter \<Rightarrow> merchant_error + batch) \<Rightarrow> (feed_filter \<Rightarrow> merchant_error + int) \<Rightarrow> string \<Rightarrow> string
     \<Rightarrow> feed_filter \<Rightarrow> (merchant_error + metadata \<times> batch list) option" where
  "run_feed fuel load cntq base mode f =
     (case cntq f of
        Inl e \<Rightarrow> Some (Inl e)
      | Inr n_all \<Rightarrow> (case run_loop fuel load base n_all (f\<lparr>ff_cursor := 0\<rparr>) start_state of
          None \<Rightarrow> None
        | Some (Inl e) \<Rightarrow> Some (Inl e)
        | Some (Inr r) \<Rightarrow> Some (Inr (\<lparr>md_id = ''zentora-feed-'' @ mode, md_total = n_all, md_valid = rs_valid r,
                                     md_invalid = rs_invalid r\<rparr>, rs_batches r))))"

definition GenerateFull where
  "GenerateFull fuel load cntq base f = run_feed fuel load cntq base ''full'' f"

definition GenerateIncremental where
  "GenerateIncremental fuel load cntq base f since =
     run_feed fuel load cntq base ''incremental'' (f\<lparr>ff_after := Some since\<rparr>)"

section \<open>RSS items\<close>

definition ps :: "string \<Rightarrow> string option" where
  "ps s = (let t = trim_space s in if t = [] then None else Some t)"

text \<open>\<open>splitN(s, ":", n)\<close>.\<close>

fun split_colon :: "nat \<Rightarrow> string \<Rightarrow> string list" where
  "split_colon 0 s = [s]"
| "split_colon (Suc 0) s = [s]"
| "split_colon (Suc (Suc n)) s =
     (if CHR '':'' \<in> set s
      then takeWhile ((\<noteq>) CHR '':'') s # split_colon (Suc n) (tl (dropWhile ((\<noteq>) CHR '':'') s))
      else [s])"

definition parseShippingString :: "string \<Rightarrow> string \<times> string \<times> string" where
  "parseShippingString s = (case split_colon 3 s of [a, b, c] \<Rightarrow> (a, b, c) | _ \<Rightarrow> ([], [], []))"

text \<open>An optional element is absent when its field is blank.\<close>

record rss_item =
  ri_id :: string
  ri_title :: string
  ri_desc :: string
  ri_link :: string
  ri_image :: string
  ri_avail :: string
  ri_price :: string
  ri_cond :: string
  ri_brand :: string
  ri_gtin :: "string option"
  ri_mpn :: "string option"
  ri_group :: "string option"
  ri_sale :: "string option"
  ri_sale_dates :: "string option"
  ri_google_cat :: "string option"
  ri_type :: "string option"
  ri_color :: "string option"
  ri_size :: "string option"
  ri_gender :: "string option"
  ri_age :: "string option"
  ri_material :: "string option"
  ri_pattern :: "string option"
  ri_weight :: "string option"
  ri_ident :: "string option"
  ri_mobile :: "string option"
  ri_energy :: "string option"
  ri_unit :: "string option"
  ri_unit_base :: "string option"
  ri_adult :: "string option"
  ri_expires :: "string option"
  ri_avail_date :: "string option"
  ri_cogs :: "string option"
  ri_ads :: "string option"
  ri_pickup :: "string option"
  ri_sla :: "string option"
  ri_images :: "string list"
  ri_shipping :: "(string \<times> string \<times> string) list"
  ri_labels :: "string option list"
  ri_multipack :: "int option"

definition toRSSItem :: "feed_item \<Rightarrow> rss_item" where
  "toRSSItem i =
     \<lparr>ri_id = fi_id i, ri_title = fi_title i, ri_desc = fi_desc i, ri_link = fi_link i,
      ri_image = fi_image i, ri_avail = fi_avail i, ri_price = fi_price i, ri_cond = fi_cond i,
      ri_brand = fi_brand i, ri_gtin = ps (fi_gtin i), ri_mpn = ps (fi_mpn i), ri_group = ps (fi_group i),
      ri_sale = ps (fi_sale i), ri_sale_dates = ps (fi_sale_dates i), ri_google_cat = ps (fi_google_cat i),
      ri_type = ps (fi_type i), ri_color = ps (fi_color i), ri_size = ps (fi_size i),
      ri_gender = ps (fi_gender i), ri_age = ps (fi_age i), ri_material = ps (fi_material i),
      ri_pattern = ps (fi_pattern i), ri_weight = ps (fi_weight i), ri_ident = ps (fi_ident i),
      ri_mobile = ps (fi_mobile i), ri_energy = ps (fi_energy i), ri_unit = ps (fi_unit i),
      ri_unit_base = ps (fi_unit_base i), ri_adult = ps (fi_adult i), ri_expires = ps (fi_expires i),
      ri_avail_date = ps (fi_avail_date i), ri_cogs = ps (fi_cogs i), ri_ads = ps (fi_ads i),
      ri_pickup = ps (fi_pickup i), ri_sla = ps (fi_sla i), ri_images = fi_images i,
      ri_shipping = filter (\<lambda>p. fst p \<noteq> []) (map parseShippingString (fi_shipping i)),
      ri_labels = map ps (AsSlice (fi_labels i)),
      ri_multipack = (if 1 < fi_multipack i then Some (fi_multipack i) else None)\<rparr>"

record rss_feed =
  rf_title :: string
  rf_link :: string
  rf_desc :: string
  rf_items :: "rss_item list"

definition BuildRSSFeed :: "instant \<Rightarrow> feed_item list \<Rightarrow> string \<Rightarrow> string \<Rightarrow> rss_feed" where
  "BuildRSSFeed generated items url title =
     \<lparr>rf_title = title, rf_link = url,
      rf_desc = ''Google Merchant Center feed '' @ [CHR 0xE2, CHR 0x80, CHR 0x93] @ '' generated '' @ format_rfc3339 generated,
      rf_items = map toRSSItem items\<rparr>"

text \<open>The handler puts the items of all batches in one channel.\<close>

definition stream_items :: "batch list \<Rightarrow> feed_item list" where
  "stream_items bs = concat (map ba_items bs)"

lemma colon_split:
  assumes "CHR '':'' \<notin> set a"
  shows "takeWhile ((\<noteq>) CHR '':'') (a @ CHR '':'' # s) = a" "dropWhile ((\<noteq>) CHR '':'') (a @ CHR '':'' # s) = CHR '':'' # s"
  using assms by (induction a) auto

lemma shipping_roundtrip:
  assumes "CHR '':'' \<notin> set (sh_country s)" "CHR '':'' \<notin> set (sh_service s)"
  shows "parseShippingString (Shipping_Format s) = (sh_country s, sh_service s, Money_Format (sh_price s))"
  using colon_split [OF assms(1)] colon_split [OF assms(2)]
  by (simp add: parseShippingString_def Shipping_Format_def eval_nat_numeral)

section \<open>Keyset paging\<close>

definition page_of :: "nat \<Rightarrow> (id \<times> feed_item) list \<Rightarrow> batch" where
  "page_of n rows =
     (let pg = take n rows
      in \<lparr>ba_items = map snd pg, ba_total = 0, ba_next = (if pg = [] then 0 else fst (last pg)),
          ba_has_more = (length pg = n)\<rparr>)"

text \<open>The contract of a keyset-paged query: a page is the next rows after the cursor, in key order. A
  client that follows the cursor sees every row once.\<close>

locale keyset_pages =
  fixes ok :: "'t \<Rightarrow> bool" and load :: "'t \<Rightarrow> feed_filter \<Rightarrow> batch"
    and rows :: "'t \<Rightarrow> feed_filter \<Rightarrow> (id \<times> feed_item) list"
  assumes keys_sorted: "ok t \<Longrightarrow> sorted_wrt (<) (map fst (rows t f))"
    and keys_positive: "ok t \<Longrightarrow> r \<in> set (rows t f) \<Longrightarrow> 0 < fst r"
    and rows_cursor: "rows t (f\<lparr>ff_cursor := c\<rparr>) = rows t f"
    and page: "ok t \<Longrightarrow> \<not> ff_in_stock f \<Longrightarrow> load t f = page_of (ff_limit f) (filter (\<lambda>r. ff_cursor f < fst r) (rows t f))"
begin

lemma after_key:
  "sorted_wrt (<) (map fst xs) \<Longrightarrow> j < length xs \<Longrightarrow> filter (\<lambda>r. fst (xs ! j) < fst r) xs = drop (Suc j) xs"
  for xs :: "(id \<times> feed_item) list"
proof (induction xs arbitrary: j)
  case (Cons x xs)
  have x: "\<forall>r \<in> set xs. fst x < fst r" using Cons.prems(1) by auto
  show ?case
  proof (cases j)
    case 0
    then show ?thesis using x by simp
  next
    case (Suc i)
    then have "fst x < fst (xs ! i)" using x Cons.prems(2) by simp
    then have "\<not> fst (xs ! i) < fst x" by simp
    then show ?thesis using Cons Suc by simp
  qed
qed simp

lemma loop_covers:
  assumes "ok t" "\<not> ff_in_stock f" "0 < ff_limit f"
    and "filter (\<lambda>r. ff_cursor f < fst r) (rows t f) = drop k (rows t f)" "length (rows t f) - k < n"
  shows "\<exists>r'. run_loop n (\<lambda>f. Inr (load t f)) base cnt f r = Some (Inr r')
    \<and> stream_items (rs_batches r') = stream_items (rs_batches r) @ kept (map (process_item base \<circ> snd) (drop k (rows t f)))
    \<and> rs_valid r' + rs_invalid r' + rs_skipped r'
        = rs_valid r + rs_invalid r + rs_skipped r + int (length (drop k (rows t f)))
    \<and> rs_valid r' - int (length (stream_items (rs_batches r'))) = rs_valid r - int (length (stream_items (rs_batches r)))"
  using assms(2-)
proof (induction n arbitrary: f k r)
  case (Suc n)
  let ?rows = "rows t f" and ?b = "load t f"
  let ?pg = "take (ff_limit f) (drop k ?rows)"
  let ?r = "absorb base cnt ?b r"
  have b: "ba_items ?b = map snd ?pg" "ba_has_more ?b = (length ?pg = ff_limit f)"
    "?pg \<noteq> [] \<Longrightarrow> ba_next ?b = fst (last ?pg)"
    using page [OF assms(1) Suc.prems(1)] Suc.prems(3) by (simp_all add: page_of_def Let_def)
  have split: "length os = length (kept os) + length (filter ((=) Invalid) os) + length (filter ((=) NoImage) os)" for os
    by (induction os rule: kept.induct) auto
  have abs: "stream_items (rs_batches ?r) = stream_items (rs_batches r) @ kept (map (process_item base \<circ> snd) ?pg)"
    "rs_valid ?r + rs_invalid ?r + rs_skipped ?r = rs_valid r + rs_invalid r + rs_skipped r + int (length ?pg)"
    "rs_valid ?r - int (length (stream_items (rs_batches ?r))) = rs_valid r - int (length (stream_items (rs_batches r)))"
    using split [of "map (process_item base) (map snd ?pg)"]
    by (simp_all add: absorb_def Let_def stream_items_def b(1) del: length_map length_take)
       (simp_all add: comp_def)
  show ?case
  proof (cases "ff_limit f \<le> length (drop k ?rows)")
    case False
    then have pg: "?pg = drop k ?rows" by simp
    show ?thesis
    proof (cases "drop k ?rows = []")
      case True
      then show ?thesis using b(1) by (simp add: stream_items_def)
    next
      case ne: False
      have "\<not> ba_has_more ?b" unfolding b(2) using False pg by simp
      moreover have "ba_items ?b \<noteq> []" using ne pg b(1) by simp
      ultimately have "run_loop (Suc n) (\<lambda>f. Inr (load t f)) base cnt f r = Some (Inr ?r)" by simp
      then show ?thesis using abs unfolding pg by blast
    qed
  next
    case True
    let ?j = "k + ff_limit f - 1" and ?f = "f\<lparr>ff_cursor := ba_next ?b\<rparr>"
    have full: "length ?pg = ff_limit f" "?pg \<noteq> []" using True Suc.prems(2) by auto
    have j: "?j < length ?rows" "last ?pg = ?rows ! ?j" "Suc ?j = k + ff_limit f"
      using True Suc.prems(2) full by (auto simp: last_conv_nth)
    have cursor: "ba_next ?b = fst (?rows ! ?j)" using b(3) [OF full(2)] j(2) by simp
    have plain: "\<not> ff_in_stock ?f" "0 < ff_limit ?f" using Suc.prems(1,2) by simp_all
    have "filter (\<lambda>r. ff_cursor ?f < fst r) (rows t ?f) = drop (k + ff_limit f) (rows t ?f)"
      using after_key [OF keys_sorted [OF assms(1)] j(1)] j(3) cursor rows_cursor by simp
    moreover have "length (rows t ?f) - (k + ff_limit f) < n" using Suc.prems(2,4) True rows_cursor by simp
    ultimately obtain r' where r': "run_loop n (\<lambda>f. Inr (load t f)) base cnt ?f ?r = Some (Inr r')"
      "stream_items (rs_batches r') = stream_items (rs_batches ?r)
          @ kept (map (process_item base \<circ> snd) (drop (k + ff_limit f) (rows t ?f)))"
      "rs_valid r' + rs_invalid r' + rs_skipped r'
        = rs_valid ?r + rs_invalid ?r + rs_skipped ?r + int (length (drop (k + ff_limit f) (rows t ?f)))"
      "rs_valid r' - int (length (stream_items (rs_batches r'))) = rs_valid ?r - int (length (stream_items (rs_batches ?r)))"
      using Suc.IH [of ?f "k + ff_limit f" ?r] plain by blast
    have parts: "drop k ?rows = ?pg @ drop (k + ff_limit f) ?rows"
      by (metis append_take_drop_id drop_drop add.commute)
    have kept_append: "kept (xs @ ys) = kept xs @ kept ys" for xs ys by (induction xs rule: kept.induct) auto
    have "run_loop (Suc n) (\<lambda>f. Inr (load t f)) base cnt f r = Some (Inr r')"
      using r'(1) b(1,2) full by simp
    moreover have "kept (map (process_item base \<circ> snd) (drop k ?rows)) = kept (map (process_item base \<circ> snd) ?pg)
        @ kept (map (process_item base \<circ> snd) (drop (k + ff_limit f) ?rows))"
      using arg_cong [OF parts, of "\<lambda>xs. kept (map (process_item base \<circ> snd) xs)"]
      by (simp only: map_append kept_append)
    moreover have "length (drop k ?rows) = length ?pg + length (drop (k + ff_limit f) ?rows)"
      using arg_cong [OF parts, of length] by (simp only: length_append)
    ultimately show ?thesis
      using r'(2-) abs unfolding rows_cursor by (intro exI [of _ r'] conjI) (simp_all only: append_assoc of_nat_add add.assoc)
  qed
qed simp

end

text \<open>The program's query keeps the contract when the stock filter is off.\<close>

definition table_ok :: "source list \<Rightarrow> bool" where
  "table_ok t \<longleftrightarrow> distinct (map so_variant t) \<and> (\<forall>s \<in> set t. 0 < so_variant s)"

definition feed_rows ::
  "(f64 \<Rightarrow> f64 \<Rightarrow> f64) \<Rightarrow> instant \<Rightarrow> source list \<Rightarrow> feed_filter \<Rightarrow> (id \<times> feed_item) list" where
  "feed_rows pg_percent now t f =
     map (\<lambda>s. (so_variant s, scan_row pg_percent now s)) (order_by by_variant (filter (eligible f) t))"

lemma by_variant_order: "by_variant a b \<or> by_variant b a" "by_variant a b \<Longrightarrow> by_variant b c \<Longrightarrow> by_variant a c"
  by (auto simp: by_variant_def)

lemma eligible_cursor [simp]: "eligible (f\<lparr>ff_cursor := c\<rparr>) = eligible f"
  by (intro ext) (simp add: eligible_def split: option.splits)

lemma strictly_by_variant:
  assumes "distinct (map so_variant t)"
  shows "sorted_wrt (<) (map so_variant (order_by by_variant t))"
proof -
  have "sorted_wrt by_variant (order_by by_variant t)"
    by (rule sorted_order_by) (rule by_variant_order, rule by_variant_order)
  then have "sorted (map so_variant (order_by by_variant t))"
    by (simp add: sorted_wrt_map by_variant_def [abs_def])
  moreover have "distinct (map so_variant (order_by by_variant t))" using assms by (rule distinct_map_order_by)
  ultimately show ?thesis by (simp add: strict_sorted_iff)
qed

interpretation feed: keyset_pages table_ok "\<lambda>t f. LoadFeedBatch pg_percent now f t" "feed_rows pg_percent now"
  for pg_percent now
proof
  fix t f r c
  show "feed_rows pg_percent now t (f\<lparr>ff_cursor := c\<rparr>) = feed_rows pg_percent now t f" by (simp add: feed_rows_def)
  assume t: "table_ok t"
  then have "distinct (map so_variant (filter (eligible f) t))" by (simp add: table_ok_def distinct_map_filter)
  then show "sorted_wrt (<) (map fst (feed_rows pg_percent now t f))"
    using strictly_by_variant by (simp add: feed_rows_def comp_def)
  show "0 < fst r" if "r \<in> set (feed_rows pg_percent now t f)"
    using that t by (auto simp: feed_rows_def table_ok_def)
  assume "\<not> ff_in_stock f"
  moreover have "order_by by_variant (filter (\<lambda>s. ff_cursor f < so_variant s \<and> eligible f s) t)
      = filter (\<lambda>s. ff_cursor f < so_variant s) (order_by by_variant (filter (eligible f) t))"
  proof -
    have "filter (\<lambda>s. ff_cursor f < so_variant s) (order_by by_variant (filter (eligible f) t))
        = order_by by_variant (filter (\<lambda>s. ff_cursor f < so_variant s) (filter (eligible f) t))"
      by (rule filter_order_by) (rule by_variant_order, erule (1) by_variant_order)
    then show ?thesis by (simp add: conj_commute)
  qed
  ultimately show "LoadFeedBatch pg_percent now f t
      = page_of (ff_limit f) (filter (\<lambda>r. ff_cursor f < fst r) (feed_rows pg_percent now t f))"
    by (simp add: LoadFeedBatch_def feed_page_def page_of_def feed_rows_def Let_def filter_map take_map comp_def last_map)
qed

section \<open>What the generator lets through\<close>

definition feed_item_ok :: "feed_item \<Rightarrow> bool" where
  "feed_item_ok i \<longleftrightarrow> fi_id i \<noteq> [] \<and> trim_space (fi_title i) \<noteq> [] \<and> rune_count (fi_title i) \<le> 150
     \<and> rune_count (fi_desc i) \<le> 5000 \<and> isValidHTTPSURL (fi_link i) \<and> fi_mobile i = fi_link i
     \<and> isValidHTTPSURL (fi_image i) \<and> length (fi_images i) \<le> 10 \<and> distinct (fi_image i # fi_images i)
     \<and> (\<forall>u \<in> set (fi_images i). prefix ''https://'' u) \<and> fi_price i \<noteq> [] \<and> fi_sale i \<noteq> fi_price i
     \<and> Availability_Valid (fi_avail i) \<and> Condition_Valid (fi_cond i)
     \<and> fi_ident i \<in> {''yes'', ''no'', []} \<and> fi_multipack i \<noteq> 1 \<and> fi_adult i \<in> {''yes'', []}"

lemma dedup_props:
  "distinct (dedup seen us)" "set (dedup seen us) \<inter> set seen = {}" "set (dedup seen us) \<subseteq> set us"
  by (induction seen us rule: dedup.induct) auto

lemma normaliseURL_https: "normaliseURL u \<noteq> [] \<Longrightarrow> prefix ''https://'' (normaliseURL u)"
  by (simp add: normaliseURL_def Let_def split: if_splits)

lemma take_dedup_distinct: "distinct (main # take n (dedup [main] us))"
proof -
  have "main \<notin> set (dedup [main] us)" using dedup_props(2) [of "[main]" us] by simp
  then have "main \<notin> set (take n (dedup [main] us))" using set_take_subset by (rule contra_subsetD [rotated])
  moreover have "distinct (take n (dedup [main] us))" by (rule distinct_take) (rule dedup_props)
  ultimately show ?thesis by simp
qed

lemma take_dedup_in: "u \<in> set (take n (dedup [main] us)) \<Longrightarrow> u \<in> set us"
  by (rule subsetD [OF dedup_props(3)], rule in_set_takeD)

lemma deduplicateImages_props:
  assumes "main \<noteq> []"
  shows "length (deduplicateImages main xs) \<le> 10" "distinct (main # deduplicateImages main xs)"
    "\<forall>u \<in> set (deduplicateImages main xs). prefix ''https://'' u"
proof -
  define us where "us = filter (\<lambda>u. u \<noteq> []) (map normaliseURL xs)"
  have https: "prefix ''https://'' u" if mem: "u \<in> set us" for u
  proof -
    obtain x where "u = normaliseURL x" "u \<noteq> []" using mem unfolding us_def by auto
    then show ?thesis using normaliseURL_https by blast
  qed
  have out: "deduplicateImages main xs = take 10 (dedup [main] us)"
    unfolding deduplicateImages_def us_def using assms by (simp only: if_False)
  show "length (deduplicateImages main xs) \<le> 10" unfolding out length_take by (rule min.cobounded2)
  show "distinct (main # deduplicateImages main xs)" unfolding out by (rule take_dedup_distinct)
  show "\<forall>u \<in> set (deduplicateImages main xs). prefix ''https://'' u" unfolding out using take_dedup_in https by blast
qed

lemma process_item_ok: "process_item base i0 = Kept i \<Longrightarrow> feed_item_ok i"
proof -
  assume p: "process_item base i0 = Kept i"
  let ?j = "i0\<lparr>fi_link := resolveLink (fi_link i0) base, fi_mobile := resolveLink (fi_link i0) base\<rparr>"
  have i: "i = normaliseItem ?j" and image: "fi_image i \<noteq> []" and v: "validateFeedItem i = Inr ()"
    using p by (auto simp: process_item_def Let_def split: if_splits sum.splits)
  have f: "fi_image i = normaliseURL (fi_image ?j)" "fi_images i = deduplicateImages (fi_image i) (fi_images ?j)"
    "fi_title i = normaliseTitle (fi_title ?j)" "fi_desc i = normaliseDescription (fi_desc ?j)" "fi_mobile i = fi_link i"
    "fi_ident i = identifier_field ?j" "fi_price i = fi_price ?j"
    "fi_sale i = (if fi_sale ?j = [] \<or> fi_sale ?j = fi_price ?j then [] else fi_sale ?j)"
    "fi_multipack i = (if fi_multipack ?j \<le> 1 then 0 else fi_multipack ?j)"
    "fi_adult i = (if fi_adult ?j \<noteq> ''yes'' then [] else fi_adult ?j)"
    unfolding i normaliseItem_def Let_def by simp_all
  have checks: "fi_id i \<noteq> []" "trim_space (fi_title i) \<noteq> []" "isValidHTTPSURL (fi_link i)" "isValidHTTPSURL (fi_image i)"
    "fi_price i \<noteq> []" "Availability_Valid (fi_avail i)" "Condition_Valid (fi_cond i)"
    using v by (auto simp: validateFeedItem_def split: if_splits)
  have "rune_count (fi_title i) \<le> 150" "rune_count (fi_desc i) \<le> 5000"
    unfolding f(3,4) normaliseTitle_def normaliseDescription_def by (simp_all add: rune_count_take_runes)
  moreover have "fi_ident i \<in> {''yes'', ''no'', []}" unfolding f(6) identifier_field_def by simp
  moreover have "fi_sale i \<noteq> fi_price i" using checks(5) unfolding f(7,8) by auto
  moreover have "fi_multipack i \<noteq> 1" "fi_adult i \<in> {''yes'', []}" unfolding f(9,10) by auto
  ultimately show ?thesis
    using checks f(5) deduplicateImages_props [OF image] unfolding feed_item_ok_def f(2) by blast
qed

lemma kept_iff: "i \<in> set (kept os) \<longleftrightarrow> Kept i \<in> set os"
  by (induction os rule: kept.induct) auto

lemma absorb_ok:
  "\<forall>i \<in> set (stream_items (rs_batches r)). feed_item_ok i \<Longrightarrow> \<forall>i \<in> set (stream_items (rs_batches (absorb base cnt b r))). feed_item_ok i"
  by (auto simp: absorb_def Let_def stream_items_def kept_iff dest!: sym [of "Kept _"] intro: process_item_ok)

lemma run_loop_ok:
  "run_loop n load base cnt f r = Some (Inr r') \<Longrightarrow> \<forall>i \<in> set (stream_items (rs_batches r)). feed_item_ok i \<Longrightarrow>
   \<forall>i \<in> set (stream_items (rs_batches r')). feed_item_ok i"
proof (induction n arbitrary: f r)
  case (Suc n)
  obtain b where b: "load f = Inr b" using Suc.prems(1) by (cases "load f") auto
  show ?case
    using Suc.prems b Suc.IH [of "f\<lparr>ff_cursor := ba_next b\<rparr>" "absorb base cnt b r"] absorb_ok [OF Suc.prems(2), of base cnt b]
    by (simp split: if_splits)
qed simp

section \<open>Properties\<close>

lemma fmul_hundred: "\<bar>p\<bar> \<le> 2 ^ 40 \<Longrightarrow> fmul (of_int p) 100 = of_int (100 * p)"
proof -
  assume "\<bar>p\<bar> \<le> 2 ^ 40"
  then have "\<bar>100 * p\<bar> \<le> 2 ^ 53" by simp
  moreover have "fmul (of_int p) 100 = rnd (of_int (100 * p))" by (simp add: fmul_def mult.commute)
  ultimately show ?thesis by (simp only: rnd_of_int)
qed

lemma to_i64_of_int [simp]: "to_i64 (of_int n) = n"
  by (simp add: to_i64_def)

lemma percent_factor_nonneg: "pct \<le> 100 \<Longrightarrow> 0 \<le> fsub 1 (fdiv pct 100)"
proof -
  assume "pct \<le> 100"
  moreover have "representable 1" by (simp add: representable_def rnd_of_int [of 1, simplified])
  ultimately have "fdiv pct 100 \<le> 1" unfolding fdiv_def by (intro rnd_representable) simp_all
  then show ?thesis unfolding fsub_def by (intro rnd_nonneg) simp
qed

lemma percent_sale_nonneg: "0 \<le> c \<Longrightarrow> pct \<le> 100 \<Longrightarrow> 0 \<le> percent_sale c pct"
  unfolding percent_sale_def to_i64_def fmul_def of_i64_def
  using percent_factor_nonneg by (simp add: rnd_nonneg)

text \<open>For a percentage discount of at most 100 the two pricing routines of the module, the feed query's
  row scanner and the hydration service, compute the same prices and the same sale window.\<close>

theorem feed_and_hydration_price_alike:
  assumes "rv_dtype v = ''percentage''" "rv_percent v \<le> 100" "0 \<le> rv_price v"
  shows "scan_pricing (rv_price v) (rv_percent v) (rv_dtype v) (rv_start v) (rv_end v) = resolvePricing v ''KES''"
proof -
  have "0 \<le> cents (MoneyFromDecimal (rv_price v) ''KES'')"
    using assms(3) by (simp add: MoneyFromDecimal_def to_i64_def fmul_def rnd_nonneg)
  from percent_sale_nonneg [OF this assms(2)] show ?thesis
    by (simp add: scan_pricing_def resolvePricing_def Let_def assms(1) not_less [symmetric])
qed

definition sample_raw :: raw_variant where
  "sample_raw = \<lparr>rv_id = 7, rv_sku = ''S'', rv_price = 2000, rv_weight = 0, rv_active = True, rv_available = 3,
     rv_reserved = 0, rv_incoming = 0, rv_percent = 25, rv_dtype = ''percentage'', rv_start = None, rv_end = None,
     rv_attrs = (\<lambda>k. None), rv_gtin = [], rv_mpn = []\<rparr>"

theorem feed_and_hydration_price_alike_witness:
  "scan_pricing 2000 25 ''percentage'' None None = resolvePricing sample_raw ''KES''
     \<and> cents (pr_sale (resolvePricing sample_raw ''KES'')) = 150000"
proof -
  have "scan_pricing 2000 25 ''percentage'' None None = resolvePricing sample_raw ''KES''"
    using feed_and_hydration_price_alike [of sample_raw] by (simp add: sample_raw_def)
  moreover have "cents (pr_sale (resolvePricing sample_raw ''KES'')) = 150000" by code_simp
  ultimately show ?thesis by simp
qed

text \<open>A fixed discount reaches the row scanner as the percentage \<open>q\<close> it is of the price, and the scanner
  takes \<open>q\<close> currency units off instead of the discount's value \<open>v\<close>: the price is the intended one only
  for an article of 100.\<close>

theorem fixed_discount_is_misread:
  assumes "q * p = 100 * v" "0 < v" "0 < p" "q \<le> p" "p \<le> 2 ^ 40"
    and "so_price s = of_int p" "live_discounts now s = [(''fixed'', of_int v, a, b, True)]"
    and "pg_percent (of_int v) (of_int p) = of_int q"
  shows "case best_discount pg_percent now s of (pct, ty, st, en) \<Rightarrow>
     cents (pr_sale (scan_pricing (so_price s) pct ty st en)) = 100 * p - 100 * q
       \<and> (100 * p - 100 * q = 100 * (p - v) \<longleftrightarrow> p = 100)"
proof -
  have "0 < q * p" using assms(1,2) by simp
  with assms(3,4) have q: "0 < q" "0 < p" by (auto simp: zero_less_mult_iff)
  have best: "best_discount pg_percent now s = (of_int q, ''fixed'', a, b)"
    using assms(6-8) q by (simp add: best_discount_def discount_percent_def order_by_def)
  have price: "cents (MoneyFromDecimal (so_price s) ''KES'') = 100 * p"
    using assms(5,6) q by (simp add: MoneyFromDecimal_def fmul_hundred del: of_int_mult)
  have off: "to_i64 (fmul (of_int q) 100) = 100 * q"
    using assms(4,5) q by (simp add: fmul_hundred del: of_int_mult)
  have "cents (pr_sale (scan_pricing (so_price s) (of_int q) ''fixed'' a b)) = 100 * p - 100 * q"
    using assms(4) q by (simp add: scan_pricing_def Let_def price off with_sale_def)
  moreover have "q = v \<longleftrightarrow> p = 100" using assms(1,2) q by auto
  ultimately show ?thesis unfolding best by auto
qed

definition sample_source :: "id \<Rightarrow> (int \<times> int \<times> int) list \<Rightarrow> source" where
  "sample_source n stock = \<lparr>so_variant = n, so_product = 1, so_created = 0, so_active = True, so_status = ''active'',
     so_digital = False, so_updated = 0, so_brand_id = None, so_cats = [], so_price = 2000,
     so_discounts = [(''fixed'', 500, None, None, True)], so_stock = stock, so_slug = ''mug'', so_gtin = [], so_mpn = [],
     so_title = ''Mug'', so_desc = ''A mug'', so_brand = ''Acme'', so_path = ''Kitchen'',
     so_image = ''http://cdn.shop/mug.jpg'', so_images = [], so_weight = 0, so_color = [], so_size = [], so_gender = [],
     so_age = [], so_material = [], so_pattern = []\<rparr>"

definition sample_percent :: "f64 \<Rightarrow> f64 \<Rightarrow> f64" where
  "sample_percent v p = v / p * 100"

theorem fixed_discount_is_misread_witness:
  "case best_discount sample_percent 0 (sample_source 1 []) of (pct, ty, st, en) \<Rightarrow>
     cents (pr_sale (scan_pricing 2000 pct ty st en)) = 197500"
  using fixed_discount_is_misread [of 25 2000 500 "sample_source 1 []" 0 None None sample_percent]
  by (simp add: sample_source_def live_discounts_def sample_percent_def)


definition sample_table :: "source list" where
  "sample_table = [sample_source 3 [(4, 0, 0)], sample_source 1 [(0, 0, 0)], sample_source 2 []]"


text \<open>With the stock filter on the loop stops at the first page that holds no variant in stock, because
  the page is cut before the filter: the feed is empty however much stock the later variants have.\<close>

theorem in_stock_feed_stops_early:
  assumes "ff_in_stock f" "0 < fuel"
    and "\<forall>s \<in> set (take (ff_limit f) (order_by by_variant (filter (\<lambda>s. 0 < so_variant s \<and> eligible f s) t))). net_stock s \<le> 0"
  shows "GenerateFull fuel (\<lambda>f. Inr (LoadFeedBatch pg_percent now f t)) (\<lambda>f. Inr (CountEligibleVariants f t)) base f
       = Some (Inr (\<lparr>md_id = ''zentora-feed-full'', md_total = CountEligibleVariants f t, md_valid = 0, md_invalid = 0\<rparr>, []))"
proof -
  have "feed_page (f\<lparr>ff_cursor := 0\<rparr>) t = []"
    using assms(1,3) by (auto simp: feed_page_def filter_empty_conv not_less)
  then have "ba_items (LoadFeedBatch pg_percent now (f\<lparr>ff_cursor := 0\<rparr>) t) = []" by (simp add: LoadFeedBatch_def)
  moreover obtain n where "fuel = Suc n" using assms(2) by (cases fuel) auto
  ultimately show ?thesis by (simp add: GenerateFull_def run_feed_def start_state_def)
qed

theorem in_stock_feed_stops_early_witness:
  "map_option (map_sum id (\<lambda>(md, bs). (md_total md, bs)))
     (GenerateFull 4 (\<lambda>f. Inr (LoadFeedBatch sample_percent 0 f sample_table)) (\<lambda>f. Inr (CountEligibleVariants f sample_table))
        ''https://shop.example'' (DefaultFeedFilter\<lparr>ff_limit := 2, ff_in_stock := True\<rparr>))
   = Some (Inr (1, []))"
proof -
  let ?f = "DefaultFeedFilter\<lparr>ff_limit := 2, ff_in_stock := True\<rparr>"
  have "list_all (\<lambda>s. net_stock s \<le> 0)
      (take (ff_limit ?f) (order_by by_variant (filter (\<lambda>s. 0 < so_variant s \<and> eligible ?f s) sample_table)))" by code_simp
  moreover have "CountEligibleVariants ?f sample_table = 1" by code_simp
  ultimately show ?thesis
    using in_stock_feed_stops_early [of ?f 4 sample_table sample_percent 0 "''https://shop.example''"]
    by (simp add: list_all_iff DefaultFeedFilter_def)
qed

text \<open>C16. Whatever the database returns, every item of a generated feed is well formed: it has an
  identifier, a title of at most 150 runes, \<open>https\<close> links, at most ten distinct further images, a price,
  a sale price that differs from it, and known availability and condition values.\<close>

theorem feed_items_well_formed:
  assumes "GenerateFull fuel load cntq base f = Some (Inr (md, bs)) \<or> GenerateIncremental fuel load cntq base f since = Some (Inr (md, bs))"
  shows "\<forall>i \<in> set (stream_items bs). feed_item_ok i"
proof -
  have start: "\<forall>i \<in> set (stream_items (rs_batches start_state)). feed_item_ok i" by (simp add: start_state_def stream_items_def)
  have "\<forall>i \<in> set (stream_items bs). feed_item_ok i" if run: "run_feed fuel load cntq base mode g = Some (Inr (md, bs))" for mode g
    using run run_loop_ok [OF _ start, of fuel load base] by (auto simp: run_feed_def split: sum.splits option.splits)
  then show ?thesis using assms unfolding GenerateFull_def GenerateIncremental_def by blast
qed

theorem feed_items_well_formed_witness:
  "\<exists>md i. GenerateFull 2 (\<lambda>f. Inr (LoadFeedBatch sample_percent 0 f sample_table)) (\<lambda>f. Inr (CountEligibleVariants f sample_table))
        ''https://shop.example'' (DefaultFeedFilter\<lparr>ff_limit := 3, ff_in_stock := True\<rparr>)
     = Some (Inr (md, [\<lparr>ba_items = [i], ba_total = 1, ba_next = 3, ba_has_more = False\<rparr>]))
   \<and> fi_id i = ''1-3'' \<and> fi_image i = ''https://cdn.shop/mug.jpg'' \<and> feed_item_ok i"
proof -
  have "map_option (map_sum id (\<lambda>(md, bs). map (\<lambda>b. (map (\<lambda>i. (fi_id i, fi_image i)) (ba_items b), ba_total b, ba_next b, ba_has_more b)) bs))
      (GenerateFull 2 (\<lambda>f. Inr (LoadFeedBatch sample_percent 0 f sample_table)) (\<lambda>f. Inr (CountEligibleVariants f sample_table))
        ''https://shop.example'' (DefaultFeedFilter\<lparr>ff_limit := 3, ff_in_stock := True\<rparr>))
    = Some (Inr [([(''1-3'', ''https://cdn.shop/mug.jpg'')], 1, 3, False)])" by code_simp
  then obtain y where y: "GenerateFull 2 (\<lambda>f. Inr (LoadFeedBatch sample_percent 0 f sample_table)) (\<lambda>f. Inr (CountEligibleVariants f sample_table))
        ''https://shop.example'' (DefaultFeedFilter\<lparr>ff_limit := 3, ff_in_stock := True\<rparr>) = Some y"
    "map_sum id (\<lambda>(md, bs). map (\<lambda>b. (map (\<lambda>i. (fi_id i, fi_image i)) (ba_items b), ba_total b, ba_next b, ba_has_more b)) bs) y
       = Inr [([(''1-3'', ''https://cdn.shop/mug.jpg'')], 1, 3, False)]" by auto
  from y(2) obtain md bs where "y = Inr (md, bs)"
    "map (\<lambda>b. (map (\<lambda>i. (fi_id i, fi_image i)) (ba_items b), ba_total b, ba_next b, ba_has_more b)) bs
       = [([(''1-3'', ''https://cdn.shop/mug.jpg'')], 1, 3, False)]" by (cases y) auto
  with y(1) obtain b i where run: "GenerateFull 2 (\<lambda>f. Inr (LoadFeedBatch sample_percent 0 f sample_table)) (\<lambda>f. Inr (CountEligibleVariants f sample_table))
        ''https://shop.example'' (DefaultFeedFilter\<lparr>ff_limit := 3, ff_in_stock := True\<rparr>) = Some (Inr (md, [b]))"
    "ba_items b = [i]" "ba_total b = 1" "ba_next b = 3" "\<not> ba_has_more b" "fi_id i = ''1-3''" "fi_image i = ''https://cdn.shop/mug.jpg''"
    by (auto simp: map_eq_Cons_conv)
  moreover have "feed_item_ok i" using feed_items_well_formed [OF disjI1 [OF run(1)]] run(2) by (simp add: stream_items_def)
  moreover have "b = \<lparr>ba_items = [i], ba_total = 1, ba_next = 3, ba_has_more = False\<rparr>" using run(2-5) by (cases b) simp
  ultimately show ?thesis by blast
qed

end
