(* ===== verification/Merchant_Service.thy ===== *)
theory Merchant_Service
  imports Merchant_Feed Inventory
begin

text \<open>
  The orchestrator of the merchant feed (\<open>internal/merchant/service\<close>), the repository's single-product and
  single-variant loads, and what the feed's stock arithmetic means for the inventory ledger.
\<close>

section \<open>Configuration\<close>

record merchant_config =
  mc_base :: string
  mc_title :: string
  mc_currency :: string
  mc_country :: string
  mc_fee :: f64
  mc_tax :: f64
  mc_batch :: nat

definition DefaultConfig :: merchant_config where
  "DefaultConfig = \<lparr>mc_base = ''https://zentorashop.co.ke'', mc_title = ''Zentora Shop'', mc_currency = ''KES'',
     mc_country = ''KE'', mc_fee = 200, mc_tax = rnd (16 / 100), mc_batch = 500\<rparr>"

definition ZentoraCategoryMap :: "id \<Rightarrow> string option" where
  "ZentoraCategoryMap = map_of
    [(1, ''Electronics''), (12, ''Home & Garden > Kitchen & Dining''), (13, ''Home & Garden''),
     (14, ''Health & Beauty > Personal Care''), (15, ''Sporting Goods''), (16, ''Apparel & Accessories''),
     (17, ''Baby & Toddler''), (18, ''Health & Beauty''), (19, ''Vehicles & Parts''), (20, ''Media > Books''),
     (23, ''Vehicles & Parts > Vehicle Parts & Accessories''), (24, ''Hardware > Tools > Hand Tools''),
     (25, ''Electronics > Electronics Accessories > Power > Portable Power Stations''),
     (26, ''Hardware > Tools > Power Tools > Air Compressors''), (27, ''Electronics > Computers > Tablet Computers''),
     (28, ''Electronics > Communications > Telephony > Mobile Phones''),
     (29, ''Electronics > Networking > Smart Home Devices''), (30, ''Electronics > Computers > Tablet Computers''),
     (31, ''Business & Industrial > Agriculture''), (32, ''Hardware > Tools'')]"

definition New_cfg :: "merchant_config \<Rightarrow> hydration_cfg" where
  "New_cfg c = \<lparr>hc_omit_shipping = True, hc_base = mc_base c, hc_currency = mc_currency c, hc_condition = ''new'',
     hc_country = mc_country c, hc_fee = MoneyFromDecimal (mc_fee c) (mc_currency c), hc_tax = mc_tax c,
     hc_map = Some ZentoraCategoryMap\<rparr>"

text \<open>The service's two entry points: the default filter with a page size of 500, whatever \<open>BatchSize\<close> says.\<close>

definition Service_GenerateFull where
  "Service_GenerateFull fuel load cntq c =
     GenerateFull fuel load cntq (hc_base (New_cfg c)) (DefaultFeedFilter\<lparr>ff_limit := 500\<rparr>)"

definition Service_GenerateIncremental where
  "Service_GenerateIncremental fuel load cntq c since =
     GenerateIncremental fuel load cntq (hc_base (New_cfg c)) (DefaultFeedFilter\<lparr>ff_limit := 500\<rparr>) since"

section \<open>Single loads\<close>

definition sellable :: "source \<Rightarrow> bool" where
  "sellable s \<longleftrightarrow> so_active s \<and> so_status s = ''active''"

definition assembleMerchantProduct :: "id \<Rightarrow> feed_item list \<Rightarrow> merchant_product option" where
  "assembleMerchantProduct pid is =
     (case is of [] \<Rightarrow> None
      | i # _ \<Rightarrow> Some \<lparr>mp_id = pid, mp_name = fi_title i, mp_slug = [], mp_desc = [], mp_brand = fi_brand i,
          mp_brand_slug = [], mp_rating = 0, mp_category = 0, mp_path = fi_type i, mp_google_cat = fi_google_cat i,
          mp_images = [], mp_variants = [], mp_updated = 0\<rparr>)"

definition LoadProduct ::
  "(f64 \<Rightarrow> f64 \<Rightarrow> f64) \<Rightarrow> instant \<Rightarrow> id \<Rightarrow> source list \<Rightarrow> merchant_error + merchant_product option" where
  "LoadProduct pg_percent now pid t =
     (let is = map (scan_row pg_percent now) (order_by by_variant (filter (\<lambda>s. so_product s = pid \<and> sellable s) t))
      in if is = [] then Inl MerchantDbError else Inr (assembleMerchantProduct pid is))"

definition no_pricing :: pricing where
  "no_pricing = no_sale no_money 0 []"

definition feedItemToVariant :: "feed_item \<Rightarrow> merchant_variant" where
  "feedItemToVariant i =
     \<lparr>v_id = fi_id i, v_group = fi_group i, v_sku = [], v_gtin = fi_gtin i, v_mpn = fi_mpn i, v_product = 0,
      v_variant = 0, v_slug = [], v_name = [], v_title = fi_title i, v_desc = fi_desc i, v_link = fi_link i,
      v_mobile = [], v_image = fi_image i, v_more_images = fi_images i,
      v_avail = \<lparr>av_status = [], av_available = 0, av_reserved = 0, av_incoming = 0, av_date = None\<rparr>,
      v_pricing = no_pricing, v_cond = fi_cond i, v_brand = fi_brand i, v_google_cat = fi_google_cat i,
      v_type = fi_type i, v_path = [], v_color = fi_color i, v_size = fi_size i, v_gender = [], v_age = [],
      v_material = fi_material i, v_pattern = fi_pattern i, v_weight = 0, v_multipack = 0, v_shipping = [],
      v_tax = [], v_labels = blank_labels, v_adult = False, v_has_ident = False, v_expires = None, v_energy = [],
      v_unit = [], v_unit_base = [], v_ads = [], v_pickup = [], v_sla = [], v_updated = 0\<rparr>"

definition LoadVariant ::
  "(f64 \<Rightarrow> f64 \<Rightarrow> f64) \<Rightarrow> instant \<Rightarrow> id \<Rightarrow> source list \<Rightarrow> merchant_error + merchant_variant" where
  "LoadVariant pg_percent now vid t =
     (case map (scan_row pg_percent now) (filter (\<lambda>s. so_variant s = vid \<and> sellable s) t) of
        [] \<Rightarrow> Inl MerchantDbError
      | i # _ \<Rightarrow> Inr (feedItemToVariant i))"

text \<open>Variants by the later of the two stamps and then by id, both descending.\<close>

definition newest_first :: "source \<Rightarrow> source \<Rightarrow> bool" where
  "newest_first a b \<longleftrightarrow>
     (let x = max (so_updated a) (so_created a); y = max (so_updated b) (so_created b)
      in y < x \<or> y = x \<and> so_variant b \<le> so_variant a)"

definition LoadUpdatedVariantIDs :: "instant \<Rightarrow> nat \<Rightarrow> source list \<Rightarrow> id list" where
  "LoadUpdatedVariantIDs since k t =
     map so_variant (take k (order_by newest_first
       (filter (\<lambda>s. sellable s \<and> (since < so_updated s \<or> since < so_created s)) t)))"

text \<open>The variant a single load returns has no price, so the domain's own validation refuses it.\<close>

lemma LoadVariant_never_valid:
  "LoadVariant pg_percent now vid t = Inr v \<Longrightarrow> \<exists>e. MerchantVariant_Validate v = Inl e"
  by (auto simp: LoadVariant_def MerchantVariant_Validate_def feedItemToVariant_def no_pricing_def no_sale_def
      no_money_def split: list.splits)

section \<open>The feed and the ledger\<close>

text \<open>The rows of \<open>inventory_items\<close> the feed query sums for a variant.\<close>

definition stock_rows :: "id \<Rightarrow> inv_store \<Rightarrow> (int \<times> int \<times> int) list" where
  "stock_rows v s = map (\<lambda>r. (it_available r, it_reserved r, it_incoming r)) (filter (\<lambda>r. it_variant r = v) (items s))"

lemma net_stock_rows:
  "net_stock (src\<lparr>so_stock := stock_rows v s\<rparr>) = ss_available (repo_GetStockSummary v s) - ss_reserved (repo_GetStockSummary v s)"
  by (simp add: net_stock_def stock_sum_def stock_rows_def repo_GetStockSummary_def comp_def Let_def)

lemma sum_update_one:
  assumes "distinct (map row_key t)" "r \<in> set t" "row_key r = (v, l)" "\<And>x. row_key (f x) = row_key x"
    and "\<And>x. x \<in> set t \<Longrightarrow> P x \<longleftrightarrow> x = r"
  shows "sum_list (map g (filter (\<lambda>r. it_variant r = v) (update_where P f t)))
     = sum_list (map g (filter (\<lambda>r. it_variant r = v) t)) + (g (f r) - g r :: int)"
  using assms
proof (induction t)
  case (Cons x t)
  have key: "it_variant (f x) = it_variant x" for x using Cons.prems(4) by (simp add: row_key_def)
  show ?case
  proof (cases "x = r")
    case True
    then have "r \<notin> set t" using Cons.prems(1) by auto
    then have "update_where P f t = t" using Cons.prems(5) by (auto simp: update_where_def intro!: map_idI)
    then show ?thesis using True Cons.prems(3,5) key by (simp add: update_where_def row_key_def)
  next
    case False
    then show ?thesis using Cons key by (simp add: update_where_def)
  qed
qed simp

lemma reserveTx_net:
  assumes "distinct (map row_key (items s))" "reserveTx now v l q (items s) = Inr t"
  shows "ss_available (repo_GetStockSummary v (s\<lparr>items := t\<rparr>)) = ss_available (repo_GetStockSummary v s) - q"
    "ss_reserved (repo_GetStockSummary v (s\<lparr>items := t\<rparr>)) = ss_reserved (repo_GetStockSummary v s) + q"
proof -
  let ?P = "\<lambda>r. is_row v l r \<and> q \<le> it_available r"
    and ?f = "\<lambda>r. r\<lparr>it_available := it_available r - q, it_reserved := it_reserved r + q, it_updated := now\<rparr>"
  have "list_ex ?P (items s)" and t: "t = update_where ?P ?f (items s)"
    using assms(2) by (auto simp: reserveTx_def Let_def split: if_splits)
  then obtain r where r: "r \<in> set (items s)" "?P r" by (auto simp: list_ex_iff)
  have "?P x \<longleftrightarrow> x = r" if "x \<in> set (items s)" for x
  proof
    assume "?P x"
    then have "row_key x = row_key r" using r(2) by (simp add: is_row_key)
    then show "x = r" using assms(1) that r(1) by (auto simp: distinct_map dest: inj_onD)
  qed (use r(2) in simp)
  note sums = sum_update_one [where P = ?P and f = ?f, OF assms(1) r(1) _ _ this, of v l]
  have "row_key r = (v, l)" using r(2) by (simp add: is_row_key)
  then show "ss_available (repo_GetStockSummary v (s\<lparr>items := t\<rparr>)) = ss_available (repo_GetStockSummary v s) - q"
    "ss_reserved (repo_GetStockSummary v (s\<lparr>items := t\<rparr>)) = ss_reserved (repo_GetStockSummary v s) + q"
    using sums [of it_available] sums [of it_reserved]
    by (simp_all add: t repo_GetStockSummary_def row_key_def Let_def)
qed

section \<open>Properties\<close>

text \<open>A reservation of \<open>q\<close> units moves them out of the available column of the ledger, and the feed
  subtracts the reserved column once more: the net quantity that decides availability falls by \<open>2 * q\<close>.\<close>

theorem feed_counts_reservations_twice:
  assumes "distinct (map row_key (items s))" "ReserveStock NoFault now v l q s = (Inr (), s')"
  shows "net_stock (src\<lparr>so_stock := stock_rows v s'\<rparr>) = net_stock (src\<lparr>so_stock := stock_rows v s\<rparr>) - 2 * q
    \<and> ss_available (repo_GetStockSummary v s') = ss_available (repo_GetStockSummary v s) - q"
proof -
  obtain t where "reserveTx now v l q (items s) = Inr t" "s' = s\<lparr>items := t\<rparr>"
    using assms(2) by (auto simp: ReserveStock_def repo_Reserve_def run_tx_def on_items_def split: if_splits sum.splits)
  then show ?thesis using reserveTx_net [OF assms(1)] by (simp add: net_stock_rows)
qed

theorem feed_counts_reservations_twice_witness:
  "case ReserveStock NoFault 9 3 1 6 sample_store of (r, s') \<Rightarrow>
     r = Inr () \<and> ss_available (repo_GetStockSummary 3 s') = 4
     \<and> net_stock (sample_source 3 (stock_rows 3 s')) = -2
     \<and> fi_avail (scan_row sample_percent 0 (sample_source 3 (stock_rows 3 s'))) = ''preorder''"
proof -
  obtain s' where run: "ReserveStock NoFault 9 3 1 6 sample_store = (Inr (), s')" and rows: "stock_rows 3 s' = [(4, 6, 5)]"
  proof -
    have "fst (ReserveStock NoFault 9 3 1 6 sample_store) = Inr ()" by code_simp
    moreover have "stock_rows 3 (snd (ReserveStock NoFault 9 3 1 6 sample_store)) = [(4, 6, 5)]" by code_simp
    ultimately show ?thesis using that by (metis prod.collapse)
  qed
  have "distinct (map row_key (items sample_store))" by code_simp
  note twice = feed_counts_reservations_twice [OF this run, of "sample_source 3 []"]
  have before: "stock_rows 3 sample_store = [(10, 0, 5)]" "ss_available (repo_GetStockSummary 3 sample_store) = 10"
    by code_simp+
  have src: "(sample_source 3 [])\<lparr>so_stock := st\<rparr> = sample_source 3 st" for st by (simp add: sample_source_def)
  have "net_stock (sample_source 3 [(10, 0, 5)]) = 10" by code_simp
  then have "net_stock (sample_source 3 (stock_rows 3 s')) = -2" "ss_available (repo_GetStockSummary 3 s') = 4"
    using twice unfolding before src by simp_all
  moreover have "fi_avail (scan_row sample_percent 0 (sample_source 3 (stock_rows 3 s'))) = ''preorder''"
    unfolding rows by (simp add: scan_row_def stock_sum_def sample_source_def ResolveAvailability_def Let_def split: prod.splits)
  ultimately show ?thesis using run by simp
qed

end
