(* ===== verification/Go_Numbers.thy ===== *)
theory Go_Numbers
  imports Go_Strings
begin

text \<open>
  Reading numbers and lists from text as \<open>strconv\<close> and \<open>strings\<close> do, and that a printed number reads back.
\<close>

section \<open>Reading numbers\<close>

text \<open>\<open>strconv.ParseInt(s, 10, 64)\<close> and \<open>Atoi\<close>: an optional sign, digits, within 64 bits.\<close>

definition digit_value :: "char \<Rightarrow> int option" where
  "digit_value c = (if 48 \<le> (of_char c :: int) \<and> (of_char c :: int) \<le> 57 then Some (of_char c - 48) else None)"

fun read_digits :: "int \<Rightarrow> string \<Rightarrow> int option" where
  "read_digits n [] = Some n"
| "read_digits n (c # cs) = (case digit_value c of None \<Rightarrow> None | Some v \<Rightarrow> read_digits (10 * n + v) cs)"

definition ParseInt :: "string \<Rightarrow> int option" where
  "ParseInt s =
     (let neg = (s \<noteq> [] \<and> hd s = CHR ''-''); body = (if s \<noteq> [] \<and> (hd s = CHR ''-'' \<or> hd s = CHR ''+'') then tl s else s)
      in if body = [] then None
         else (case read_digits 0 body of None \<Rightarrow> None
           | Some n \<Rightarrow> let v = (if neg then - n else n) in if - (2 ^ 63) \<le> v \<and> v < 2 ^ 63 then Some v else None))"

text \<open>\<open>strings.Split(s, sep)\<close> for a separator of one byte.\<close>

fun split_on :: "char \<Rightarrow> string \<Rightarrow> string \<Rightarrow> string list" where
  "split_on sep acc [] = [acc]"
| "split_on sep acc (c # cs) = (if c = sep then acc # split_on sep [] cs else split_on sep (acc @ [c]) cs)"

text \<open>\<open>strconv.ParseBool\<close>.\<close>

definition ParseBool :: "string \<Rightarrow> bool option" where
  "ParseBool s =
     (if s \<in> set [''1'', ''t'', ''T'', ''true'', ''TRUE'', ''True''] then Some True
      else if s \<in> set [''0'', ''f'', ''F'', ''false'', ''FALSE'', ''False''] then Some False else None)"

text \<open>Query parameters: \<open>c.Query\<close> and \<open>c.DefaultQuery\<close>, whose default is for an absent parameter only.\<close>

type_synonym query = "string \<Rightarrow> string option"

definition Query :: "query \<Rightarrow> string \<Rightarrow> string" where
  "Query q k = (case q k of None \<Rightarrow> [] | Some v \<Rightarrow> v)"

definition DefaultQuery :: "query \<Rightarrow> string \<Rightarrow> string \<Rightarrow> string" where
  "DefaultQuery q k d = (case q k of None \<Rightarrow> d | Some v \<Rightarrow> v)"

section \<open>Printing and reading numbers\<close>

lemma digit_value_of: "n < 10 \<Longrightarrow> digit_value (char_of (48 + n :: nat)) = Some (int n)"
proof -
  assume "n < 10"
  have "(of_char (char_of (48 + n) :: char) :: int) = int (of_char (char_of (48 + n) :: char))"
    by (rule of_nat_of_char [symmetric])
  also have "\<dots> = int (48 + n)" using \<open>n < 10\<close> by (subst of_char_of) simp
  finally show ?thesis using \<open>n < 10\<close> by (simp add: digit_value_def)
qed

lemma read_digits_append:
  "read_digits n (xs @ ys) = (case read_digits n xs of None \<Rightarrow> None | Some m \<Rightarrow> read_digits m ys)"
  by (induction xs arbitrary: n) (auto split: option.splits)

lemma read_digits_of_nat: "read_digits 0 (digits_of_nat n) = Some (int n)"
proof (induction n rule: digits_of_nat.induct)
  case (1 n)
  show ?case
  proof (cases "n < 10")
    case True
    then show ?thesis by (subst digits_of_nat.simps) (simp add: digit_value_of)
  next
    case False
    have "int (n div 10) * 10 + int (n mod 10) = int n" by presburger
    then show ?thesis using 1 False by (subst digits_of_nat.simps) (simp add: digit_value_of read_digits_append algebra_simps)
  qed
qed

lemma digits_of_nat_chars: "c \<in> set (digits_of_nat n) \<Longrightarrow> 48 \<le> (of_char c :: nat) \<and> (of_char c :: nat) < 58"
proof (induction n rule: digits_of_nat.induct)
  case (1 n)
  have "(of_char (char_of (48 + m :: nat)) :: nat) = 48 + m" if "m < 10" for m
    using that by (simp add: of_char_of)
  then show ?case using 1 by (subst (asm) (2) digits_of_nat.simps) (auto split: if_splits)
qed

lemma digits_of_nat_nonempty: "digits_of_nat n \<noteq> []"
  by (subst digits_of_nat.simps) simp

lemma string_of_int_read: "read_digits 0 (if n < 0 then tl (string_of_int n) else string_of_int n) = Some \<bar>n\<bar>"
  by (simp add: string_of_int_def read_digits_of_nat)

lemma digits_no_sign: "hd (digits_of_nat n) \<noteq> CHR ''-''" "hd (digits_of_nat n) \<noteq> CHR ''+''"
proof -
  have "48 \<le> (of_char (hd (digits_of_nat n)) :: nat)"
    using digits_of_nat_chars [of "hd (digits_of_nat n)" n] digits_of_nat_nonempty [of n] by simp
  then show "hd (digits_of_nat n) \<noteq> CHR ''-''" "hd (digits_of_nat n) \<noteq> CHR ''+''" by auto
qed

lemma string_of_int_sign: "hd (string_of_int n) = CHR ''-'' \<longleftrightarrow> n < 0"
  using digits_no_sign by (simp add: string_of_int_def)

lemma string_of_int_inj: "string_of_int m = string_of_int n \<Longrightarrow> m = n"
proof -
  assume eq: "string_of_int m = string_of_int n"
  then have sign: "m < 0 \<longleftrightarrow> n < 0" using string_of_int_sign by metis
  have "Some \<bar>m\<bar> = Some \<bar>n\<bar>" by (simp only: string_of_int_read [symmetric] eq sign)
  then show ?thesis using sign by auto
qed

lemma string_of_int_chars: "c \<in> set (string_of_int n) \<Longrightarrow> c = CHR ''-'' \<or> 48 \<le> (of_char c :: nat) \<and> (of_char c :: nat) < 58"
  using digits_of_nat_chars by (auto simp: string_of_int_def split: if_splits)

lemma string_of_int_plain: "CHR '':'' \<notin> set (string_of_int n)" "CHR '','' \<notin> set (string_of_int n)" "string_of_int n \<noteq> []"
  using string_of_int_chars [of "CHR '':''" n] string_of_int_chars [of "CHR '','' " n] digits_of_nat_nonempty
  by (auto simp: string_of_int_def)

lemma ParseInt_string_of_int: "- (2 ^ 63) \<le> n \<Longrightarrow> n < 2 ^ 63 \<Longrightarrow> ParseInt (string_of_int n) = Some n"
  using digits_no_sign digits_of_nat_nonempty
  by (simp add: ParseInt_def string_of_int_def read_digits_of_nat Let_def)

end
