(* ===== verification/Http.thy ===== *)
theory Http
  imports Go_Numbers
begin

text \<open>
  What the HTTP handlers share: replies, path parameters, request bodies and numbers of the query string. A body is
  what JSON decoding makes of it, \<open>None\<close> when it cannot be decoded.
\<close>

text \<open>A reply is a status and, on success, what the body carries.\<close>

type_synonym 'a reply = "nat \<times> 'a option"

text \<open>\<open>ShouldBindJSON\<close>: a body that does not decode or fails its \<open>binding\<close> tags is answered with 400.\<close>

definition bound :: "('b \<Rightarrow> bool) \<Rightarrow> 'b option \<Rightarrow> 's \<Rightarrow> ('b \<Rightarrow> 'a reply \<times> 's) \<Rightarrow> 'a reply \<times> 's" where
  "bound ok body st h = (case body of None \<Rightarrow> ((400, None), st) | Some b \<Rightarrow> if ok b then h b else ((400, None), st))"

text \<open>The outcome of a service call: \<open>bad\<close> gives the status of an error, \<open>good\<close> the one of success.\<close>

definition handled :: "('e \<Rightarrow> nat) \<Rightarrow> nat \<Rightarrow> ('e + 'a) \<times> 's \<Rightarrow> 'a reply \<times> 's" where
  "handled bad good rs = (case fst rs of Inl e \<Rightarrow> (bad e, None) | Inr v \<Rightarrow> (good, Some v), snd rs)"

definition answered :: "nat \<Rightarrow> nat \<Rightarrow> ('e + 'a) \<times> 's \<Rightarrow> 'a reply \<times> 's" where
  "answered bad good = handled (\<lambda>_. bad) good"

text \<open>A positive number in the path.\<close>

definition path_id :: "string \<Rightarrow> int option" where
  "path_id param = (case ParseInt param of None \<Rightarrow> None | Some i \<Rightarrow> if i \<le> 0 then None else Some i)"

definition with_id :: "string \<Rightarrow> 's \<Rightarrow> (int \<Rightarrow> 'a reply \<times> 's) \<Rightarrow> 'a reply \<times> 's" where
  "with_id param st h = (case path_id param of None \<Rightarrow> ((400, None), st) | Some i \<Rightarrow> h i)"

text \<open>\<open>ShouldBindQuery\<close>: an absent or empty number is 0, text that is no number fails the binding.\<close>

definition query_int :: "query \<Rightarrow> string \<Rightarrow> int option" where
  "query_int q k = (if Query q k = [] then Some 0 else ParseInt (Query q k))"

lemma path_id_printed [simp]: "0 < i \<Longrightarrow> i < 2 ^ 63 \<Longrightarrow> path_id (string_of_int i) = Some i"
  by (simp add: path_id_def ParseInt_string_of_int)

lemma path_id_pos: "path_id p = Some i \<Longrightarrow> 0 < i"
  by (auto simp: path_id_def split: option.splits if_splits)

lemma handled_ok [simp]: "handled bad good (Inr v, s) = ((good, Some v), s)"
  and handled_error [simp]: "handled bad good (Inl e, s) = ((bad e, None), s)"
  by (simp_all add: handled_def)

lemma with_id_ok: "path_id p = Some i \<Longrightarrow> with_id p s h = h i"
  by (simp add: with_id_def)

lemma bound_ok: "ok b \<Longrightarrow> bound ok (Some b) s h = h b"
  by (simp add: bound_def)

end
