(* ===== verification/Merchant_Desk.thy ===== *)
theory Merchant_Desk
  imports Merchant_Service Http
begin

text \<open>
  The validator of feed items (\<open>internal/merchant/application/validator/validator.go\<close>), which nothing calls, and the
  HTTP handlers of the feed (\<open>internal/merchant/handler/handler.go\<close>). The parser of request URIs and of RFC 3339
  stamps are arguments; the texts of the messages and the duration header are left out.
\<close>

section \<open>Formats\<close>

text \<open>\<open>strings.Fields\<close>.\<close>

fun take_word :: "string \<Rightarrow> string" where
  "take_word [] = []"
| "take_word (c # cs) = (if list_ex (\<lambda>e. prefix e (c # cs)) space_encodings then [] else c # take_word cs)"

lemma length_strip_left: "length (strip_left s) \<le> length s"
proof (induction s rule: strip_left.induct)
  case (1 s)
  show ?case
  proof (cases "List.find (\<lambda>e. prefix e s) space_encodings")
    case None
    then show ?thesis by (simp add: strip_left.simps [of s])
  next
    case (Some e)
    then show ?thesis using "1.IH" [OF Some] by (simp add: strip_left.simps [of s])
  qed
qed

lemma take_word_strip: "strip_left s \<noteq> [] \<Longrightarrow> take_word (strip_left s) \<noteq> []"
  using strip_left_clean [of _ s] by (cases "strip_left s") (auto simp: list_ex_iff)

function fields :: "string \<Rightarrow> string list" where
  "fields s =
     (if strip_left s = [] then []
      else take_word (strip_left s) # fields (drop (length (take_word (strip_left s))) (strip_left s)))"
  by pat_completeness auto
termination
proof (relation "measure length", goal_cases)
  case (2 s)
  then have "0 < length (take_word (strip_left s))" "0 < length (strip_left s)" using take_word_strip by blast+
  from less_le_trans [OF diff_less [OF this] length_strip_left] show ?case by simp
qed simp

declare fields.simps [simp del]

definition is_digit :: "char \<Rightarrow> bool" where
  "is_digit c \<longleftrightarrow> 48 \<le> (of_char c :: nat) \<and> (of_char c :: nat) \<le> 57"

definition is_capital :: "char \<Rightarrow> bool" where
  "is_capital c \<longleftrightarrow> 65 \<le> (of_char c :: nat) \<and> (of_char c :: nat) \<le> 90"

text \<open>\<open>^\d+\.\d{2} [A-Z]{3}$\<close> and the four lengths of a trade number.\<close>

definition price_format :: "string \<Rightarrow> bool" where
  "price_format s \<longleftrightarrow> takeWhile is_digit s \<noteq> [] \<and>
     (case dropWhile is_digit s of
        [p, a, b, sp, x, y, z] \<Rightarrow> p = CHR ''.'' \<and> is_digit a \<and> is_digit b \<and> sp = CHR '' '' \<and> is_capital x \<and> is_capital y \<and> is_capital z
      | _ \<Rightarrow> False)"

definition gtin_format :: "string \<Rightarrow> bool" where
  "gtin_format s \<longleftrightarrow> list_all is_digit s \<and> length s \<in> {8, 12, 13, 14}"

definition extractCurrency :: "string \<Rightarrow> string" where
  "extractCurrency s = (case fields s of [_, c] \<Rightarrow> c | _ \<Rightarrow> [])"

text \<open>\<open>url.ParseRequestURI\<close> gives the scheme and the host.\<close>

definition https_url :: "(string \<Rightarrow> (string \<times> string) option) \<Rightarrow> string \<Rightarrow> bool" where
  "https_url uri raw \<longleftrightarrow> raw \<noteq> [] \<and>
     (case uri raw of None \<Rightarrow> False | Some (scheme, host) \<Rightarrow> scheme = ''https'' \<and> host \<noteq> [])"

section \<open>Validator\<close>

text \<open>An error is a field and a code.\<close>

type_synonym field_error = "string \<times> string"

definition check :: "bool \<Rightarrow> string \<Rightarrow> string \<Rightarrow> field_error list" where
  "check bad field code = (if bad then [(field, code)] else [])"

definition checkRequired :: "(string \<Rightarrow> (string \<times> string) option) \<Rightarrow> feed_item \<Rightarrow> field_error list" where
  "checkRequired uri i =
     (if fi_id i = [] then [(''id'', ''MISSING_REQUIRED'')] else check (50 < rune_count (fi_id i)) ''id'' ''TOO_LONG'') @
     (if trim_space (fi_title i) = [] then [(''title'', ''MISSING_REQUIRED'')]
      else check (150 < rune_count (fi_title i)) ''title'' ''TOO_LONG'') @
     check (5000 < rune_count (fi_desc i)) ''description'' ''TOO_LONG'' @
     check (\<not> https_url uri (fi_link i)) ''link'' ''INVALID_URL'' @
     check (\<not> https_url uri (fi_image i)) ''image_link'' ''INVALID_URL'' @
     check (\<not> Availability_Valid (fi_avail i)) ''availability'' ''INVALID_VALUE'' @
     check (\<not> price_format (fi_price i)) ''price'' ''INVALID_FORMAT'' @
     check (\<not> Condition_Valid (fi_cond i)) ''condition'' ''INVALID_VALUE'' @
     (if trim_space (fi_brand i) = [] then [(''brand'', ''MISSING_REQUIRED'')]
      else check (70 < rune_count (fi_brand i)) ''brand'' ''TOO_LONG'')"

definition check_sale :: "feed_item \<Rightarrow> field_error list" where
  "check_sale i =
     (if fi_sale i = [] then []
      else if \<not> price_format (fi_sale i) then [(''sale_price'', ''INVALID_FORMAT'')]
      else check (extractCurrency (fi_price i) \<noteq> extractCurrency (fi_sale i)) ''sale_price'' ''CURRENCY_MISMATCH'')"

definition check_label :: "nat \<Rightarrow> string \<Rightarrow> field_error list" where
  "check_label k l = check (100 < rune_count l) (''custom_label_'' @ string_of_int (int k)) ''TOO_LONG''"

definition checkRecommended ::
  "bool \<Rightarrow> (string \<Rightarrow> (string \<times> string) option) \<Rightarrow> feed_item \<Rightarrow> field_error list" where
  "checkRecommended strict uri i =
     check (fi_gtin i \<noteq> [] \<and> \<not> gtin_format (fi_gtin i)) ''gtin'' ''INVALID_FORMAT'' @
     check (fi_group i = []) ''item_group_id'' ''MISSING_RECOMMENDED'' @
     check_sale i @
     check (10 < length (fi_images i)) ''additional_image_link'' ''TOO_MANY'' @
     concat (map (\<lambda>u. check (\<not> https_url uri u) ''additional_image_link'' ''INVALID_URL'') (fi_images i)) @
     check (fi_ident i \<noteq> ''yes'' \<and> fi_ident i \<noteq> ''no'') ''identifier_exists'' ''INVALID_VALUE'' @
     check (strict \<and> fi_brand i \<noteq> [] \<and> fi_gtin i = [] \<and> fi_mpn i = [] \<and> fi_ident i \<noteq> ''no'')
       ''identifier_exists'' ''MISSING_IDENTIFIER'' @
     concat (map (\<lambda>(k, l). check_label k l) (enumerate 0 (AsSlice (fi_labels i))))"

definition checkOptional :: "(string \<Rightarrow> (string \<times> string) option) \<Rightarrow> feed_item \<Rightarrow> field_error list" where
  "checkOptional uri i =
     check (fi_mobile i \<noteq> [] \<and> \<not> https_url uri (fi_mobile i)) ''mobile_link'' ''INVALID_URL'' @
     check (fi_ads i \<noteq> [] \<and> \<not> https_url uri (fi_ads i)) ''ads_redirect'' ''INVALID_URL'' @
     check (fi_multipack i < 0) ''multipack'' ''INVALID_VALUE'' @
     check (fi_adult i \<noteq> [] \<and> fi_adult i \<noteq> ''yes'' \<and> fi_adult i \<noteq> ''no'') ''adult'' ''INVALID_VALUE''"

record validation_result =
  vr_item :: string
  vr_errors :: "field_error list"

definition IsValid :: "validation_result \<Rightarrow> bool" where
  "IsValid r \<longleftrightarrow> vr_errors r = []"

definition Validate :: "bool \<Rightarrow> (string \<Rightarrow> (string \<times> string) option) \<Rightarrow> feed_item \<Rightarrow> validation_result" where
  "Validate strict uri i = \<lparr>vr_item = fi_id i,
     vr_errors = checkRequired uri i @ checkRecommended strict uri i @ checkOptional uri i\<rparr>"

record batch_summary =
  bs_total :: nat
  bs_valid :: nat
  bs_invalid :: nat
  bs_results :: "validation_result list"

definition tally :: "bool \<Rightarrow> (string \<Rightarrow> (string \<times> string) option) \<Rightarrow> feed_item \<Rightarrow> batch_summary \<Rightarrow> batch_summary" where
  "tally strict uri i s =
     (let r = Validate strict uri i in
      if IsValid r then s\<lparr>bs_valid := bs_valid s + 1\<rparr>
      else s\<lparr>bs_invalid := bs_invalid s + 1, bs_results := bs_results s @ [r]\<rparr>)"

definition ValidateBatch :: "bool \<Rightarrow> (string \<Rightarrow> (string \<times> string) option) \<Rightarrow> feed_item list \<Rightarrow> batch_summary" where
  "ValidateBatch strict uri is =
     fold (tally strict uri) is \<lparr>bs_total = length is, bs_valid = 0, bs_invalid = 0, bs_results = []\<rparr>"

section \<open>Handlers\<close>

text \<open>What \<open>streamXML\<close> sends: the feed, the file name of a download and the headers.\<close>

record feed_reply =
  fr_feed :: rss_feed
  fr_file :: "string option"
  fr_total :: int
  fr_valid :: int
  fr_invalid :: int
  fr_generated :: string
  fr_etag :: "string option"

definition StoreTitle :: string where
  "StoreTitle = ''Zentora Shop''"

definition streamXML :: "merchant_config \<Rightarrow> instant \<Rightarrow> query \<Rightarrow> string \<Rightarrow> string option \<Rightarrow> metadata \<times> batch list \<Rightarrow> feed_reply" where
  "streamXML c generated q file etag r =
     (let (m, bs) = r in
      \<lparr>fr_feed = BuildRSSFeed generated (stream_items bs) (hc_base (New_cfg c)) StoreTitle,
       fr_file = (if Query q ''download'' = ''1'' then Some file else None),
       fr_total = md_total m, fr_valid = md_valid m, fr_invalid = md_invalid m,
       fr_generated = format_rfc3339 generated, fr_etag = etag\<rparr>)"

text \<open>The layouts \<open>20060102150405\<close> and \<open>20060102-1504\<close>.\<close>

definition compact_date :: "instant \<Rightarrow> string" where
  "compact_date t = (let (y, m, d) = civil_date (t div 1000000000 div 86400) in zero_pad 4 y @ zero_pad 2 m @ zero_pad 2 d)"

definition compact_minute :: "instant \<Rightarrow> string" where
  "compact_minute t = (let r = t div 1000000000 mod 86400 in zero_pad 2 (r div 3600) @ zero_pad 2 (r div 60 mod 60))"

definition compact_second :: "instant \<Rightarrow> string" where
  "compact_second t = compact_date t @ compact_minute t @ zero_pad 2 (t div 1000000000 mod 60)"

definition incremental_name :: "instant \<Rightarrow> string" where
  "incremental_name t = ''zentora-merchant-feed-incremental-'' @ compact_date t @ ''-'' @ compact_minute t @ ''.xml''"

text \<open>\<open>generated\<close> is the instant at which the generator finished; without fuel enough there is no reply.\<close>

definition handle_GenerateFull where
  "handle_GenerateFull fuel load cntq c generated q =
     map_option (\<lambda>r. case r of
         Inl (e :: merchant_error) \<Rightarrow> (500 :: nat, None)
       | Inr g \<Rightarrow> (200, Some (streamXML c generated q ''zentora-merchant-feed-full.xml'' None g)))
     (Service_GenerateFull fuel load cntq c)"

definition since_param :: "(string \<Rightarrow> instant option) \<Rightarrow> instant \<Rightarrow> query \<Rightarrow> instant option" where
  "since_param rfc3339 now q =
     (if Query q ''since'' = [] then Some (now - 24 * 3600 * 1000000000) else rfc3339 (Query q ''since''))"

definition handle_GenerateIncremental where
  "handle_GenerateIncremental rfc3339 now fuel load cntq c generated q =
     (case since_param rfc3339 now q of
        None \<Rightarrow> Some (400 :: nat, None)
      | Some since \<Rightarrow> map_option (\<lambda>r. case r of
            Inl (e :: merchant_error) \<Rightarrow> (500, None)
          | Inr g \<Rightarrow> (200, Some (streamXML c generated q (incremental_name generated) None g)))
        (Service_GenerateIncremental fuel load cntq c since))"

definition feed_etag :: "instant \<Rightarrow> int \<Rightarrow> string" where
  "feed_etag generated n = ''W/'' @ [CHR 0x22] @ compact_second generated @ ''-'' @ string_of_int n @ [CHR 0x22]"

definition handle_PublicFeed where
  "handle_PublicFeed fuel load cntq c generated q none_match =
     map_option (\<lambda>r. case r of
         Inl (e :: merchant_error) \<Rightarrow> (503 :: nat, None)
       | Inr g \<Rightarrow> (let etag = feed_etag generated (md_valid (fst g)) in
            if none_match = etag then (304, None)
            else (200, Some (streamXML c generated q ''google-merchant.xml'' (Some etag) g))))
     (Service_GenerateFull fuel load cntq c)"

record feed_stats =
  fs_eligible :: int
  fs_batch :: int
  fs_batches :: int

definition handle_Stats :: "(feed_filter \<Rightarrow> merchant_error + int) \<Rightarrow> feed_stats reply" where
  "handle_Stats cntq =
     (let f = DefaultFeedFilter; lim = int (ff_limit f) in
      case cntq f of
        Inl _ \<Rightarrow> (500, None)
      | Inr n \<Rightarrow> (200, Some \<lparr>fs_eligible = n, fs_batch = lim, fs_batches = go_quot (i64 (i64 (n + lim) - 1)) lim\<rparr>))"

definition handle_Ping :: "string reply" where
  "handle_Ping = (200, Some ''ok'')"

section \<open>The validator against the generator\<close>

lemma check_Nil: "check b f c = [] \<longleftrightarrow> \<not> b"
  by (simp add: check_def)

lemma if_error_Nil: "(if b then [(f, c)] else xs) = [] \<longleftrightarrow> \<not> b \<and> xs = []"
  by simp

lemmas validator_simps = check_Nil if_error_Nil append_is_Nil_conv

text \<open>What the validator accepts, with links in the form the generator asks for, the generator keeps.\<close>

lemma price_format_nonempty: "price_format s \<Longrightarrow> s \<noteq> []"
  by (auto simp: price_format_def)

lemma valid_item_passes_the_generator:
  assumes v: "IsValid (Validate strict uri i)" and u: "isValidHTTPSURL (fi_link i)" "isValidHTTPSURL (fi_image i)"
  shows "validateFeedItem i = Inr ()"
proof -
  have "checkRequired uri i = []" using v by (simp add: IsValid_def Validate_def)
  then have "fi_id i \<noteq> []" "trim_space (fi_title i) \<noteq> []" "Availability_Valid (fi_avail i)" "price_format (fi_price i)"
    "Condition_Valid (fi_cond i)"
    unfolding checkRequired_def validator_simps by blast+
  then show ?thesis using u price_format_nonempty by (simp add: validateFeedItem_def)
qed

text \<open>A branded product without trade numbers, as the generator emits it, is rejected by the validator.\<close>

lemma normalised_fields: "fi_ident (normaliseItem j) = identifier_field j" "fi_gtin (normaliseItem j) = trim_space (fi_gtin j)"
  "fi_mpn (normaliseItem j) = trim_space (fi_mpn j)" "fi_brand (normaliseItem j) = fi_brand j"
  by (simp_all add: normaliseItem_def Let_def)

lemma kept_is_normalised: "process_item base i0 = Kept i \<Longrightarrow> \<exists>j. i = normaliseItem j"
  unfolding process_item_def Let_def by (split if_split_asm, simp, split sum.split_asm, simp, blast)

lemma kept_item_ident:
  assumes "process_item base i0 = Kept i" "fi_gtin i = []" "fi_mpn i = []" "fi_brand i \<noteq> []"
    "map ascii_lower (fi_brand i) \<noteq> ''generic''"
  shows "fi_ident i = []"
proof -
  obtain j where "i = normaliseItem j" using kept_is_normalised [OF assms(1)] by (rule exE)
  then show ?thesis using assms(2-) by (simp only: normalised_fields identifier_field_def simp_thms if_True if_False)
qed

lemma generated_item_fails_validation:
  assumes "process_item base i0 = Kept i" "fi_gtin i = []" "fi_mpn i = []" "fi_brand i \<noteq> []"
    "map ascii_lower (fi_brand i) \<noteq> ''generic''"
  shows "(''identifier_exists'', ''INVALID_VALUE'') \<in> set (vr_errors (Validate strict uri i))"
  using kept_item_ident [OF assms] by (simp add: Validate_def checkRecommended_def check_def)

lemma batch_adds_up:
  "bs_valid (ValidateBatch strict uri is) + bs_invalid (ValidateBatch strict uri is) = bs_total (ValidateBatch strict uri is)"
  "bs_results (ValidateBatch strict uri is) = filter (\<lambda>r. \<not> IsValid r) (map (Validate strict uri) is)"
proof -
  have "bs_valid (fold (tally strict uri) is s) + bs_invalid (fold (tally strict uri) is s) = bs_valid s + bs_invalid s + length is
      \<and> bs_total (fold (tally strict uri) is s) = bs_total s
      \<and> bs_results (fold (tally strict uri) is s) = bs_results s @ filter (\<lambda>r. \<not> IsValid r) (map (Validate strict uri) is)" for s
    by (induction "is" arbitrary: s) (simp_all add: tally_def Let_def)
  from this [of "\<lparr>bs_total = length is, bs_valid = 0, bs_invalid = 0, bs_results = []\<rparr>"]
  show "bs_valid (ValidateBatch strict uri is) + bs_invalid (ValidateBatch strict uri is) = bs_total (ValidateBatch strict uri is)"
    "bs_results (ValidateBatch strict uri is) = filter (\<lambda>r. \<not> IsValid r) (map (Validate strict uri) is)"
    by (simp_all add: ValidateBatch_def)
qed

section \<open>The handlers\<close>

text \<open>A feed of another second has another tag, so it is sent in full, changed or not.\<close>

lemma feed_etag_second:
  assumes "feed_etag t n = feed_etag t' n'" "length (compact_second t) = length (compact_second t')"
  shows "compact_second t = compact_second t'"
  using assms by (simp add: feed_etag_def)

lemma unchanged_feed_is_sent_again:
  assumes "Service_GenerateFull fuel load cntq c = Some (Inr (m, bs))"
    and "length (compact_second generated) = length (compact_second before)" "compact_second generated \<noteq> compact_second before"
  shows "\<exists>r. handle_PublicFeed fuel load cntq c generated q (feed_etag before (md_valid m)) = Some (200, Some r)"
proof -
  have "feed_etag before (md_valid m) \<noteq> feed_etag generated (md_valid m)"
    using feed_etag_second [of before "md_valid m" generated "md_valid m"] assms(2,3) by metis
  then show ?thesis using assms(1) by (simp add: handle_PublicFeed_def Let_def)
qed

text \<open>The estimate of the statistics is the number of pages.\<close>

lemma stats_count_pages:
  assumes "cntq DefaultFeedFilter = Inr n" "0 \<le> n" "n < 2 ^ 62"
  shows "\<exists>s. handle_Stats cntq = (200, Some s) \<and> fs_eligible s = n \<and> n \<le> fs_batches s * fs_batch s \<and> fs_batches s * fs_batch s < n + fs_batch s"
proof -
  have i: "i64 (i64 (n + 500) - 1) = n + 499"
    using assms(2,3) by (simp add: i64_in_range)
  have q: "go_quot (n + 499) 500 = (n + 499) div 500" using assms(2) by (simp add: go_quot_def)
  have "handle_Stats cntq = (200, Some \<lparr>fs_eligible = n, fs_batch = 500, fs_batches = (n + 499) div 500\<rparr>)"
    using assms(1) i q by (simp add: handle_Stats_def DefaultFeedFilter_def Let_def)
  moreover have "(n + 499) div 500 * 500 + (n + 499) mod 500 = n + 499" "0 \<le> (n + 499) mod 500" "(n + 499) mod 500 < 500"
    by simp_all
  then have "n \<le> (n + 499) div 500 * 500" "(n + 499) div 500 * 500 < n + 500" by linarith+
  ultimately show ?thesis by simp
qed

end
