(* ===== verification/Auth_Data.thy ===== *)
theory Auth_Data
  imports Go_Strings
begin

text \<open>
  The tables of the authentication module (\<open>000_auth_init.sql\<close>) and the repository over them
  (\<open>repository/postgres/auth_repo.go\<close>, \<open>auth_mngt.go\<close>). \<open>lc\<close> stands for SQL's \<open>LOWER\<close>, whose result
  depends on the database's locale. Statements see a database that answers; a missing row comes back
  as pgx's own no-rows error. JSON columns are kept as their text. One sequence hands out the ids of
  all tables, as ids of different tables are never compared.
\<close>

section \<open>Errors\<close>

datatype auth_error = ErrNotFound | ErrDuplicateEntry | AuthDbError | AuthErr string

text \<open>The repository tests for \<open>database/sql\<close>'s no-rows value with \<open>==\<close>; pgx returns another value.\<close>

datatype row_error = SqlNoRows | PgxNoRows

definition row_failure :: "row_error \<Rightarrow> auth_error" where
  "row_failure e = (if e = SqlNoRows then ErrNotFound else AuthDbError)"

definition scan_row_of :: "'r option \<Rightarrow> auth_error + 'r" where
  "scan_row_of r = (case r of None \<Rightarrow> Inl (row_failure PgxNoRows) | Some x \<Rightarrow> Inr x)"

section \<open>Rows\<close>

record identity =
  iy_id :: id
  iy_email :: "string option"
  iy_email_verified :: bool
  iy_email_verified_at :: "instant option"
  iy_phone :: "string option"
  iy_phone_verified :: bool
  iy_phone_verified_at :: "instant option"
  iy_status :: string
  iy_last_login :: "instant option"
  iy_failed :: int
  iy_locked :: "instant option"
  iy_created :: instant
  iy_updated :: instant
  iy_deleted :: "instant option"

record provider =
  pv_id :: id
  pv_identity :: id
  pv_provider :: string
  pv_user :: "string option"
  pv_email :: "string option"
  pv_username :: "string option"
  pv_hash :: "string option"
  pv_access :: "string option"
  pv_refresh :: "string option"
  pv_expires :: "instant option"
  pv_data :: "string option"
  pv_primary :: bool
  pv_changed :: "instant option"
  pv_created :: instant
  pv_updated :: instant

record dbsession =
  se_id :: id
  se_identity :: id
  se_token :: string
  se_refresh :: "string option"
  se_provider :: string
  se_ip :: "string option"
  se_agent :: "string option"
  se_device :: "string option"
  se_device_name :: "string option"
  se_fingerprint :: "string option"
  se_status :: string
  se_login :: instant
  se_activity :: instant
  se_expires :: instant
  se_logout :: "instant option"
  se_metadata :: "string option"

record profile =
  pf_id :: id
  pf_identity :: id
  pf_name :: "string option"
  pf_avatar :: "string option"
  pf_bio :: "string option"
  pf_metadata :: "string option"
  pf_created :: instant
  pf_updated :: instant

record vtoken =
  vt_id :: id
  vt_identity :: id
  vt_type :: string
  vt_token :: string
  vt_code :: "string option"
  vt_expires :: instant
  vt_used :: "instant option"
  vt_verified :: "instant option"
  vt_attempts :: int
  vt_metadata :: "string option"
  vt_created :: instant

record role =
  ro_id :: id
  ro_name :: string
  ro_display :: string
  ro_description :: string
  ro_system :: bool
  ro_active :: bool
  ro_created :: instant
  ro_updated :: instant

text \<open>\<open>auth_identity_roles\<close>, \<open>auth_permissions\<close>, \<open>auth_role_permissions\<close>, \<open>auth_identity_permissions\<close>.\<close>

record assignment =
  as_identity :: id
  as_role :: id
  as_by :: "id option"
  as_at :: instant
  as_expires :: "instant option"
  as_active :: bool

record permission =
  pm_id :: id
  pm_name :: string
  pm_active :: bool

record override =
  ov_identity :: id
  ov_permission :: id
  ov_granted :: bool
  ov_expires :: "instant option"

record auth_db =
  identities :: "identity list"
  providers :: "provider list"
  sessions :: "dbsession list"
  profiles :: "profile list"
  vtokens :: "vtoken list"
  roles :: "role list"
  assignments :: "assignment list"
  permissions :: "permission list"
  role_permissions :: "(id \<times> id) list"
  overrides :: "override list"
  ad_next :: id

section \<open>Identities\<close>

definition live_identity :: "identity \<Rightarrow> bool" where
  "live_identity i \<longleftrightarrow> iy_deleted i = None"

definition same_email :: "(string \<Rightarrow> string) \<Rightarrow> string \<Rightarrow> identity \<Rightarrow> bool" where
  "same_email lc e i \<longleftrightarrow> (case iy_email i of None \<Rightarrow> False | Some x \<Rightarrow> lc x = lc e)"

definition FindIdentityByEmail :: "(string \<Rightarrow> string) \<Rightarrow> string \<Rightarrow> auth_db \<Rightarrow> auth_error + identity" where
  "FindIdentityByEmail lc e d = scan_row_of (List.find (\<lambda>i. same_email lc e i \<and> live_identity i) (identities d))"

definition FindIdentityByPhone :: "string \<Rightarrow> auth_db \<Rightarrow> auth_error + identity" where
  "FindIdentityByPhone p d = scan_row_of (List.find (\<lambda>i. iy_phone i = Some p \<and> live_identity i) (identities d))"

definition FindIdentityByID :: "id \<Rightarrow> auth_db \<Rightarrow> auth_error + identity" where
  "FindIdentityByID n d = scan_row_of (List.find (\<lambda>i. iy_id i = n \<and> live_identity i) (identities d))"

definition ExistsByEmail :: "(string \<Rightarrow> string) \<Rightarrow> string \<Rightarrow> auth_db \<Rightarrow> bool" where
  "ExistsByEmail lc e d \<longleftrightarrow> list_ex (\<lambda>i. same_email lc e i \<and> live_identity i) (identities d)"

definition ExistsByPhone :: "string \<Rightarrow> auth_db \<Rightarrow> bool" where
  "ExistsByPhone p d \<longleftrightarrow> list_ex (\<lambda>i. iy_phone i = Some p \<and> live_identity i) (identities d)"

definition account_status :: "string \<Rightarrow> bool" where
  "account_status s \<longleftrightarrow> s \<in> {''active'', ''inactive'', ''suspended'', ''pending_verification''}"

text \<open>The statement inserts the e-mail, the phone and the status; every other column takes its default. The
  partial unique indexes and the check that one of the two contacts is present may refuse it.\<close>

definition CreateIdentity ::
  "(string \<Rightarrow> string) \<Rightarrow> instant \<Rightarrow> string option \<Rightarrow> string option \<Rightarrow> string \<Rightarrow> auth_db \<Rightarrow> (auth_error + identity) \<times> auth_db" where
  "CreateIdentity lc now email phone status d =
     (if email = None \<and> phone = None \<or> \<not> account_status status
         \<or> (case email of None \<Rightarrow> False | Some e \<Rightarrow> ExistsByEmail lc e d)
         \<or> (case phone of None \<Rightarrow> False | Some p \<Rightarrow> ExistsByPhone p d)
      then (Inl AuthDbError, d)
      else let i = \<lparr>iy_id = ad_next d, iy_email = email, iy_email_verified = False, iy_email_verified_at = None,
                    iy_phone = phone, iy_phone_verified = False, iy_phone_verified_at = None, iy_status = status,
                    iy_last_login = None, iy_failed = 0, iy_locked = None, iy_created = now, iy_updated = now,
                    iy_deleted = None\<rparr>
           in (Inr i, d\<lparr>identities := identities d @ [i], ad_next := ad_next d + 1\<rparr>))"

definition update_identity :: "instant \<Rightarrow> id \<Rightarrow> (identity \<Rightarrow> identity) \<Rightarrow> auth_db \<Rightarrow> auth_db" where
  "update_identity now n f d =
     d\<lparr>identities := update_where (\<lambda>i. iy_id i = n) (\<lambda>i. (f i)\<lparr>iy_updated := now\<rparr>) (identities d)\<rparr>"

definition UpdateIdentityLastLogin :: "instant \<Rightarrow> id \<Rightarrow> auth_db \<Rightarrow> auth_db" where
  "UpdateIdentityLastLogin now n =
     update_identity now n (\<lambda>i. i\<lparr>iy_last_login := Some now, iy_failed := 0, iy_locked := None\<rparr>)"

definition IncrementFailedLoginAttempts :: "instant \<Rightarrow> int \<Rightarrow> id \<Rightarrow> auth_db \<Rightarrow> auth_db" where
  "IncrementFailedLoginAttempts now dur n =
     update_identity now n (\<lambda>i. i\<lparr>iy_failed := iy_failed i + 1,
       iy_locked := (if 5 \<le> iy_failed i + 1 then Some (now + dur) else None)\<rparr>)"

definition UpdateIdentityStatus :: "instant \<Rightarrow> id \<Rightarrow> string \<Rightarrow> auth_db \<Rightarrow> auth_db" where
  "UpdateIdentityStatus now n s = update_identity now n (\<lambda>i. i\<lparr>iy_status := s\<rparr>)"

section \<open>Providers\<close>

definition FindProviderByIdentityAndType :: "id \<Rightarrow> string \<Rightarrow> auth_db \<Rightarrow> auth_error + provider" where
  "FindProviderByIdentityAndType n ty d =
     scan_row_of (List.find (\<lambda>p. pv_identity p = n \<and> pv_provider p = ty) (providers d))"

text \<open>The columns an \<open>INSERT\<close> names come from the argument. A \<open>NULL\<close> user id never conflicts.\<close>

definition CreateProvider :: "instant \<Rightarrow> provider \<Rightarrow> auth_db \<Rightarrow> (auth_error + provider) \<times> auth_db" where
  "CreateProvider now p d =
     (if \<not> list_ex (\<lambda>i. iy_id i = pv_identity p) (identities d)
         \<or> (pv_provider p = ''local'') \<noteq> (pv_hash p \<noteq> None)
         \<or> (pv_user p \<noteq> None \<and> list_ex (\<lambda>x. pv_provider x = pv_provider p \<and> pv_user x = pv_user p) (providers d))
      then (Inl AuthDbError, d)
      else let q = p\<lparr>pv_id := ad_next d, pv_changed := None, pv_created := now, pv_updated := now\<rparr>
           in (Inr q, d\<lparr>providers := providers d @ [q], ad_next := ad_next d + 1\<rparr>))"

definition UpdateProviderPassword :: "instant \<Rightarrow> id \<Rightarrow> string \<Rightarrow> auth_db \<Rightarrow> auth_db" where
  "UpdateProviderPassword now n h d =
     d\<lparr>providers := update_where (\<lambda>p. pv_id p = n \<and> pv_provider p = ''local'')
         (\<lambda>p. p\<lparr>pv_hash := Some h, pv_changed := Some now, pv_updated := now\<rparr>) (providers d)\<rparr>"

definition UpdateProviderTokens :: "instant \<Rightarrow> id \<Rightarrow> string \<Rightarrow> string \<Rightarrow> instant \<Rightarrow> auth_db \<Rightarrow> auth_db" where
  "UpdateProviderTokens now n a r e d =
     d\<lparr>providers := update_where (\<lambda>p. pv_id p = n)
         (\<lambda>p. p\<lparr>pv_access := Some a, pv_refresh := Some r, pv_expires := Some e, pv_updated := now\<rparr>) (providers d)\<rparr>"

section \<open>Sessions\<close>

definition db_CreateSession :: "instant \<Rightarrow> dbsession \<Rightarrow> auth_db \<Rightarrow> (auth_error + dbsession) \<times> auth_db" where
  "db_CreateSession now s d =
     (if \<not> list_ex (\<lambda>i. iy_id i = se_identity s) (identities d)
         \<or> list_ex (\<lambda>x. se_token x = se_token s \<or> se_refresh s \<noteq> None \<and> se_refresh x = se_refresh s) (sessions d)
      then (Inl AuthDbError, d)
      else let q = s\<lparr>se_id := ad_next d, se_status := ''active'', se_login := now, se_activity := now, se_logout := None\<rparr>
           in (Inr q, d\<lparr>sessions := sessions d @ [q], ad_next := ad_next d + 1\<rparr>))"

definition usable_session :: "instant \<Rightarrow> string \<Rightarrow> dbsession \<Rightarrow> bool" where
  "usable_session now tok s \<longleftrightarrow> se_token s = tok \<and> se_status s = ''active'' \<and> now < se_expires s"

definition FindSessionByToken :: "instant \<Rightarrow> string \<Rightarrow> auth_db \<Rightarrow> auth_error + dbsession" where
  "FindSessionByToken now tok d = scan_row_of (List.find (usable_session now tok) (sessions d))"

definition db_UpdateSessionActivity :: "instant \<Rightarrow> id \<Rightarrow> auth_db \<Rightarrow> auth_db" where
  "db_UpdateSessionActivity now n d =
     d\<lparr>sessions := update_where (\<lambda>s. se_id s = n) (\<lambda>s. s\<lparr>se_activity := now\<rparr>) (sessions d)\<rparr>"

definition db_InvalidateSession :: "instant \<Rightarrow> id \<Rightarrow> auth_db \<Rightarrow> auth_db" where
  "db_InvalidateSession now n d =
     d\<lparr>sessions := update_where (\<lambda>s. se_id s = n) (\<lambda>s. s\<lparr>se_status := ''revoked'', se_logout := Some now\<rparr>) (sessions d)\<rparr>"

definition db_InvalidateAllUserSessions :: "instant \<Rightarrow> id \<Rightarrow> auth_db \<Rightarrow> auth_db" where
  "db_InvalidateAllUserSessions now n d =
     d\<lparr>sessions := update_where (\<lambda>s. se_identity s = n \<and> se_status s = ''active'')
         (\<lambda>s. s\<lparr>se_status := ''revoked'', se_logout := Some now\<rparr>) (sessions d)\<rparr>"

section \<open>Profiles\<close>

definition GetUserProfile :: "id \<Rightarrow> auth_db \<Rightarrow> auth_error + profile" where
  "GetUserProfile n d = scan_row_of (List.find (\<lambda>p. pf_identity p = n) (profiles d))"

definition CreateUserProfile :: "instant \<Rightarrow> id \<Rightarrow> string option \<Rightarrow> auth_db \<Rightarrow> (auth_error + profile) \<times> auth_db" where
  "CreateUserProfile now n name d =
     (if \<not> list_ex (\<lambda>i. iy_id i = n) (identities d) \<or> list_ex (\<lambda>p. pf_identity p = n) (profiles d)
      then (Inl AuthDbError, d)
      else let p = \<lparr>pf_id = ad_next d, pf_identity = n, pf_name = name, pf_avatar = None, pf_bio = None,
                    pf_metadata = None, pf_created = now, pf_updated = now\<rparr>
           in (Inr p, d\<lparr>profiles := profiles d @ [p], ad_next := ad_next d + 1\<rparr>))"

definition UpdateUserProfile ::
  "instant \<Rightarrow> id \<Rightarrow> string option \<times> string option \<times> string option \<times> string option \<Rightarrow> auth_db \<Rightarrow> (auth_error + unit) \<times> auth_db" where
  "UpdateUserProfile now n r d =
     (if list_ex (\<lambda>p. pf_identity p = n) (profiles d)
      then (Inr (), d\<lparr>profiles := update_where (\<lambda>p. pf_identity p = n)
             (\<lambda>p. p\<lparr>pf_name := fst r, pf_avatar := fst (snd r), pf_bio := fst (snd (snd r)),
                     pf_metadata := snd (snd (snd r)), pf_updated := now\<rparr>) (profiles d)\<rparr>)
      else (Inl ErrNotFound, d))"

section \<open>Verification tokens\<close>

definition CreateVerificationToken ::
  "instant \<Rightarrow> id \<Rightarrow> string \<Rightarrow> string \<Rightarrow> instant \<Rightarrow> auth_db \<Rightarrow> (auth_error + vtoken) \<times> auth_db" where
  "CreateVerificationToken now n ty tok e d =
     (if \<not> list_ex (\<lambda>i. iy_id i = n) (identities d) then (Inl AuthDbError, d)
      else let t = \<lparr>vt_id = ad_next d, vt_identity = n, vt_type = ty, vt_token = tok, vt_code = None, vt_expires = e,
                    vt_used = None, vt_verified = None, vt_attempts = 0, vt_metadata = None, vt_created = now\<rparr>
           in (Inr t, d\<lparr>vtokens := vtokens d @ [t], ad_next := ad_next d + 1\<rparr>))"

definition FindVerificationToken :: "instant \<Rightarrow> string \<Rightarrow> string \<Rightarrow> auth_db \<Rightarrow> auth_error + vtoken" where
  "FindVerificationToken now ty tok d =
     scan_row_of (List.find (\<lambda>t. vt_type t = ty \<and> vt_token t = tok \<and> now < vt_expires t \<and> vt_used t = None) (vtokens d))"

definition MarkTokenAsUsed :: "instant \<Rightarrow> id \<Rightarrow> auth_db \<Rightarrow> auth_db" where
  "MarkTokenAsUsed now n d =
     d\<lparr>vtokens := update_where (\<lambda>t. vt_id t = n) (\<lambda>t. t\<lparr>vt_used := Some now, vt_verified := Some now\<rparr>) (vtokens d)\<rparr>"

definition IncrementTokenAttempts :: "id \<Rightarrow> auth_db \<Rightarrow> auth_db" where
  "IncrementTokenAttempts n d =
     d\<lparr>vtokens := update_where (\<lambda>t. vt_id t = n) (\<lambda>t. t\<lparr>vt_attempts := vt_attempts t + 1\<rparr>) (vtokens d)\<rparr>"

section \<open>Roles and permissions\<close>

definition unexpired :: "instant \<Rightarrow> instant option \<Rightarrow> bool" where
  "unexpired now e \<longleftrightarrow> (case e of None \<Rightarrow> True | Some t \<Rightarrow> now < t)"

definition holds_role :: "instant \<Rightarrow> id \<Rightarrow> assignment \<Rightarrow> bool" where
  "holds_role now n a \<longleftrightarrow> as_identity a = n \<and> as_active a \<and> unexpired now (as_expires a)"

definition GetUserRoles :: "instant \<Rightarrow> id \<Rightarrow> auth_db \<Rightarrow> string list" where
  "GetUserRoles now n d =
     concat (map (\<lambda>a. map ro_name (filter (\<lambda>r. ro_id r = as_role a \<and> ro_active r) (roles d)))
       (filter (holds_role now n) (assignments d)))"

definition from_role :: "instant \<Rightarrow> id \<Rightarrow> auth_db \<Rightarrow> id \<Rightarrow> bool" where
  "from_role now n d p \<longleftrightarrow>
     list_ex (\<lambda>a. holds_role now n a \<and> (as_role a, p) \<in> set (role_permissions d)) (assignments d)"

definition overridden :: "bool \<Rightarrow> instant \<Rightarrow> id \<Rightarrow> auth_db \<Rightarrow> id \<Rightarrow> bool" where
  "overridden g now n d p \<longleftrightarrow>
     list_ex (\<lambda>x. ov_identity x = n \<and> ov_permission x = p \<and> ov_granted x = g \<and> unexpired now (ov_expires x)) (overrides d)"

text \<open>\<open>OR\<close> and \<open>AND\<close> are written without parentheses, so \<open>AND\<close> binds the last three conditions together.\<close>

definition GetUserPermissions :: "instant \<Rightarrow> id \<Rightarrow> auth_db \<Rightarrow> string list" where
  "GetUserPermissions now n d =
     map pm_name (filter (\<lambda>p. from_role now n d (pm_id p)
         \<or> overridden True now n d (pm_id p) \<and> \<not> overridden False now n d (pm_id p) \<and> pm_active p) (permissions d))"

definition AssignRole :: "instant \<Rightarrow> id \<Rightarrow> id \<Rightarrow> id \<Rightarrow> auth_db \<Rightarrow> (auth_error + unit) \<times> auth_db" where
  "AssignRole now n r by_id d =
     (if \<not> list_ex (\<lambda>i. iy_id i = n) (identities d) \<or> \<not> list_ex (\<lambda>x. ro_id x = r) (roles d)
         \<or> \<not> list_ex (\<lambda>i. iy_id i = by_id) (identities d) then (Inl AuthDbError, d)
      else if list_ex (\<lambda>a. as_identity a = n \<and> as_role a = r) (assignments d)
      then (Inr (), d\<lparr>assignments := update_where (\<lambda>a. as_identity a = n \<and> as_role a = r)
              (\<lambda>a. a\<lparr>as_active := True, as_by := Some by_id, as_at := now\<rparr>) (assignments d)\<rparr>)
      else (Inr (), d\<lparr>assignments := assignments d @ [\<lparr>as_identity = n, as_role = r, as_by = Some by_id, as_at = now,
              as_expires = None, as_active = True\<rparr>]\<rparr>))"

definition GetRoleByName :: "string \<Rightarrow> auth_db \<Rightarrow> auth_error + role" where
  "GetRoleByName name d = scan_row_of (List.find (\<lambda>r. ro_name r = name) (roles d))"

definition SuperAdminExists :: "auth_db \<Rightarrow> bool" where
  "SuperAdminExists d \<longleftrightarrow>
     list_ex (\<lambda>a. list_ex (\<lambda>r. ro_id r = as_role a \<and> ro_name r = ''super_admin'') (roles d)) (assignments d)"

definition AssignRoleByName :: "instant \<Rightarrow> id \<Rightarrow> string \<Rightarrow> auth_db \<Rightarrow> (auth_error + unit) \<times> auth_db" where
  "AssignRoleByName now n name d =
     (let new = filter (\<lambda>r. ro_name r = name \<and> \<not> list_ex (\<lambda>a. as_identity a = n \<and> as_role a = ro_id r) (assignments d)) (roles d)
      in if new \<noteq> [] \<and> \<not> list_ex (\<lambda>i. iy_id i = n) (identities d) then (Inl AuthDbError, d)
         else (Inr (), d\<lparr>assignments := assignments d @
                map (\<lambda>r. \<lparr>as_identity = n, as_role = ro_id r, as_by = None, as_at = now, as_expires = None, as_active = True\<rparr>) new\<rparr>))"

end
