(* ===== verification/Session.thy ===== *)
theory Session
  imports Auth_Data
begin

text \<open>
  Redis, the session manager and the rate limiter (\<open>internal/pkg/session\<close>). Redis is an association list of
  typed values with an optional expiry; \<open>up\<close> says whether the server answers. JSON text of a session is
  read back as the session it was written from. The goroutines that \<open>GetSession\<close> starts are kept in \<open>pend\<close>:
  each is run later, in any order, and the refresh of the last activity reads and writes in two commands.
\<close>

section \<open>Redis\<close>

record session_data =
  sd_jti :: string
  sd_identity :: id
  sd_session :: id
  sd_email :: string
  sd_roles :: "string list"
  sd_perms :: "string list"
  sd_device :: string
  sd_device_id :: string
  sd_device_name :: string
  sd_ip :: string
  sd_agent :: string
  sd_provider :: string
  sd_login :: instant
  sd_activity :: instant
  sd_expires :: instant
  sd_active :: bool
  sd_metadata :: "string option"

datatype rval = RSession session_data | RInt int | RStr string | RMeta string int

type_synonym redis = "(string \<times> rval \<times> instant option) list"

definition rget :: "instant \<Rightarrow> string \<Rightarrow> redis \<Rightarrow> rval option" where
  "rget now k R = (case map_of R k of None \<Rightarrow> None | Some (v, e) \<Rightarrow> if unexpired now e then Some v else None)"

definition rput :: "string \<Rightarrow> rval \<times> instant option \<Rightarrow> redis \<Rightarrow> redis" where
  "rput k x R = (k, x) # filter (\<lambda>y. fst y \<noteq> k) R"

text \<open>\<open>SET\<close> with an expiration; go-redis sends none when it is not positive.\<close>

definition rset :: "instant \<Rightarrow> int \<Rightarrow> string \<Rightarrow> rval \<Rightarrow> redis \<Rightarrow> redis" where
  "rset now ttl k v R = rput k (v, if 0 < ttl then Some (now + ttl) else None) R"

definition rdel :: "string \<Rightarrow> redis \<Rightarrow> redis" where
  "rdel k R = filter (\<lambda>y. fst y \<noteq> k) R"

definition rdel_prefix :: "string \<Rightarrow> redis \<Rightarrow> redis" where
  "rdel_prefix p R = filter (\<lambda>y. \<not> prefix p (fst y)) R"

text \<open>\<open>INCR\<close> keeps the expiry of a live key and starts a missing one at 1 without expiry.\<close>

definition rincr :: "instant \<Rightarrow> string \<Rightarrow> redis \<Rightarrow> auth_error + int \<times> redis" where
  "rincr now k R =
     (case rget now k R of
        None \<Rightarrow> Inr (1, rput k (RInt 1, None) R)
      | Some (RInt n) \<Rightarrow> Inr (n + 1, rput k (RInt (n + 1), snd (the (map_of R k))) R)
      | Some _ \<Rightarrow> Inl (AuthErr ''WRONGTYPE''))"

definition rexpire :: "instant \<Rightarrow> int \<Rightarrow> string \<Rightarrow> redis \<Rightarrow> redis" where
  "rexpire now ttl k R = (case rget now k R of None \<Rightarrow> R | Some v \<Rightarrow> rput k (v, Some (now + ttl)) R)"

text \<open>\<open>TTL\<close>: the remaining time of a live key that expires; a negative answer is \<open>None\<close>.\<close>

definition rttl :: "instant \<Rightarrow> string \<Rightarrow> redis \<Rightarrow> int option" where
  "rttl now k R =
     (case map_of R k of Some (v, Some t) \<Rightarrow> if now < t then Some (t - now) else None | _ \<Rightarrow> None)"

lemma map_of_filter_key: "map_of (filter (\<lambda>y. P (fst y)) R) k = (if P k then map_of R k else None)"
  by (induction R) auto

lemma map_of_rput [simp]: "map_of (rput k x R) = (map_of R)(k \<mapsto> x)"
  by (rule ext) (simp add: rput_def map_of_filter_key [of "\<lambda>x. x \<noteq> k"])

lemma map_of_rdel [simp]: "map_of (rdel k R) = (map_of R)(k := None)"
  by (rule ext) (simp add: rdel_def map_of_filter_key [of "\<lambda>x. x \<noteq> k"])

lemma map_of_rdel_prefix [simp]: "map_of (rdel_prefix p R) k = (if prefix p k then None else map_of R k)"
  by (simp add: rdel_prefix_def map_of_filter_key [of "\<lambda>k. \<not> prefix p k"])

lemma rget_rset [simp]:
  "rget t k (rset now ttl k' v R) = (if k = k' then (if 0 < ttl \<and> now + ttl \<le> t then None else Some v) else rget t k R)"
  by (simp add: rget_def rset_def unexpired_def)

lemma rget_rdel [simp]: "rget t k (rdel k' R) = (if k = k' then None else rget t k R)"
  by (simp add: rget_def)

section \<open>The session manager\<close>

datatype async = Touch id string | TouchWrite id string session_data | Restore session_data

record auth_state =
  db :: auth_db
  red :: redis
  pend :: "async list"

definition sessionKey :: "id \<Rightarrow> string \<Rightarrow> string" where
  "sessionKey n jti = ''session:'' @ string_of_int n @ '':'' @ jti"

definition sessionPattern :: "id \<Rightarrow> string" where
  "sessionPattern n = ''session:'' @ string_of_int n @ '':''"

definition blacklistKey :: "string \<Rightarrow> string" where
  "blacklistKey jti = ''blacklist:'' @ jti"

definition mgr_CreateSession :: "bool \<Rightarrow> instant \<Rightarrow> session_data \<Rightarrow> auth_state \<Rightarrow> (auth_error + unit) \<times> auth_state" where
  "mgr_CreateSession up now s st =
     (let ttl = sd_expires s - now in
      if ttl \<le> 0 then (Inl (AuthErr ''session already expired''), st)
      else if \<not> up then (Inl (AuthErr ''failed to store session in redis''), st)
      else (Inr (), st\<lparr>red := rset now ttl (sessionKey (sd_identity s) (sd_jti s)) (RSession s) (red st),
                     db := (if 0 < sd_session s then db_UpdateSessionActivity now (sd_session s) (db st) else db st)\<rparr>))"

definition stringFromNull :: "string option \<Rightarrow> string" where
  "stringFromNull s = (case s of None \<Rightarrow> [] | Some x \<Rightarrow> x)"

definition session_from_db :: "string \<Rightarrow> dbsession \<Rightarrow> auth_db \<Rightarrow> session_data" where
  "session_from_db jti r d =
     \<lparr>sd_jti = jti, sd_identity = se_identity r, sd_session = se_id r,
      sd_email = (case FindIdentityByID (se_identity r) d of Inl _ \<Rightarrow> [] | Inr i \<Rightarrow> stringFromNull (iy_email i)),
      sd_roles = [], sd_perms = [], sd_device = stringFromNull (se_device r), sd_device_id = stringFromNull (se_device r),
      sd_device_name = stringFromNull (se_device_name r), sd_ip = stringFromNull (se_ip r),
      sd_agent = stringFromNull (se_agent r), sd_provider = se_provider r, sd_login = se_login r,
      sd_activity = se_activity r, sd_expires = se_expires r, sd_active = (se_status r = ''active''),
      sd_metadata = se_metadata r\<rparr>"

definition GetSession :: "bool \<Rightarrow> instant \<Rightarrow> id \<Rightarrow> string \<Rightarrow> auth_state \<Rightarrow> (auth_error + session_data) \<times> auth_state" where
  "GetSession up now n jti st =
     (case (if up then rget now (sessionKey n jti) (red st) else None) of
        Some (RSession s) \<Rightarrow> (Inr (s\<lparr>sd_activity := now\<rparr>), st\<lparr>pend := pend st @ [Touch n jti]\<rparr>)
      | Some _ \<Rightarrow> (Inl (AuthErr ''failed to unmarshal session''), st)
      | None \<Rightarrow> (case FindSessionByToken now jti (db st) of
            Inl _ \<Rightarrow> (Inl (AuthErr ''session not found''), st)
          | Inr r \<Rightarrow> if se_identity r \<noteq> n then (Inl (AuthErr ''session identity mismatch''), st)
                     else let s = session_from_db jti r (db st) in (Inr s, st\<lparr>pend := pend st @ [Restore s]\<rparr>)))"

text \<open>\<open>UpdateSessionActivity\<close>: the read, and the write of what was read.\<close>

definition touch_read :: "bool \<Rightarrow> instant \<Rightarrow> id \<Rightarrow> string \<Rightarrow> auth_state \<Rightarrow> session_data option" where
  "touch_read up now n jti st =
     (if up then (case rget now (sessionKey n jti) (red st) of Some (RSession s) \<Rightarrow> Some (s\<lparr>sd_activity := now\<rparr>) | _ \<Rightarrow> None)
      else None)"

definition touch_write :: "bool \<Rightarrow> instant \<Rightarrow> id \<Rightarrow> string \<Rightarrow> session_data \<Rightarrow> auth_state \<Rightarrow> auth_state" where
  "touch_write up now n jti s st =
     (let ttl = sd_expires s - now in
      if 0 < ttl \<and> up then st\<lparr>red := rset now ttl (sessionKey n jti) (RSession s) (red st)\<rparr> else st)"

definition UpdateSessionActivity :: "bool \<Rightarrow> instant \<Rightarrow> id \<Rightarrow> string \<Rightarrow> auth_state \<Rightarrow> auth_state" where
  "UpdateSessionActivity up now n jti st =
     (case touch_read up now n jti st of None \<Rightarrow> st | Some s \<Rightarrow> touch_write up now n jti s st)"

definition restoreToRedis :: "bool \<Rightarrow> instant \<Rightarrow> session_data \<Rightarrow> auth_state \<Rightarrow> auth_state" where
  "restoreToRedis up now s st = snd (mgr_CreateSession up now s st)"

fun run_async :: "bool \<Rightarrow> instant \<Rightarrow> async \<Rightarrow> auth_state \<Rightarrow> auth_state" where
  "run_async up now (Touch n jti) st =
     (case touch_read up now n jti st of None \<Rightarrow> st | Some s \<Rightarrow> st\<lparr>pend := pend st @ [TouchWrite n jti s]\<rparr>)"
| "run_async up now (TouchWrite n jti s) st = touch_write up now n jti s st"
| "run_async up now (Restore s) st = restoreToRedis up now s st"

definition InvalidateSession :: "bool \<Rightarrow> instant \<Rightarrow> id \<Rightarrow> string \<Rightarrow> auth_state \<Rightarrow> (auth_error + unit) \<times> auth_state" where
  "InvalidateSession up now n jti st =
     (let st = (if up then st\<lparr>red := rdel (sessionKey n jti) (red st)\<rparr> else st)
      in (Inr (), case FindSessionByToken now jti (db st) of
              Inl _ \<Rightarrow> st
            | Inr r \<Rightarrow> st\<lparr>db := db_InvalidateSession now (se_id r) (db st)\<rparr>))"

definition InvalidateAllUserSessions :: "bool \<Rightarrow> instant \<Rightarrow> id \<Rightarrow> auth_state \<Rightarrow> (auth_error + unit) \<times> auth_state" where
  "InvalidateAllUserSessions up now n st =
     (let st = (if up then st\<lparr>red := rdel_prefix (sessionPattern n) (red st)\<rparr> else st)
      in (if up then Inr () else Inl (AuthErr ''redis''), st\<lparr>db := db_InvalidateAllUserSessions now n (db st)\<rparr>))"

definition RefreshSession :: "bool \<Rightarrow> instant \<Rightarrow> id \<Rightarrow> string \<Rightarrow> instant \<Rightarrow> auth_state \<Rightarrow> (auth_error + unit) \<times> auth_state" where
  "RefreshSession up now n jti e st =
     (case GetSession up now n jti st of
        (Inl _, st) \<Rightarrow> (Inl (AuthErr ''session not found''), st)
      | (Inr s, st) \<Rightarrow> mgr_CreateSession up now (s\<lparr>sd_expires := e, sd_activity := now\<rparr>) st)"

definition IsTokenBlacklisted :: "bool \<Rightarrow> instant \<Rightarrow> string \<Rightarrow> auth_state \<Rightarrow> auth_error + bool" where
  "IsTokenBlacklisted up now jti st =
     (if up then Inr (rget now (blacklistKey jti) (red st) \<noteq> None) else Inl (AuthErr ''failed to check blacklist''))"

definition BlacklistToken :: "bool \<Rightarrow> instant \<Rightarrow> string \<Rightarrow> int \<Rightarrow> auth_state \<Rightarrow> (auth_error + unit) \<times> auth_state" where
  "BlacklistToken up now jti ttl st =
     (if up then (Inr (), st\<lparr>red := rset now ttl (blacklistKey jti) (RStr ''1'') (red st)\<rparr>)
      else (Inl (AuthErr ''redis''), st))"

fun session_value :: "rval \<Rightarrow> session_data option" where
  "session_value (RSession s) = Some s"
| "session_value _ = None"

definition GetUserActiveSessions :: "bool \<Rightarrow> instant \<Rightarrow> id \<Rightarrow> auth_state \<Rightarrow> auth_error + session_data list" where
  "GetUserActiveSessions up now n st =
     (if up then Inr (List.map_filter (\<lambda>y. if prefix (sessionPattern n) (fst y)
           then Option.bind (rget now (fst y) (red st)) session_value else None) (red st))
      else Inl (AuthErr ''redis''))"

section \<open>The rate limiter\<close>

definition minutes :: "int \<Rightarrow> int" where
  "minutes n = n * 60 * 1000000000"

text \<open>\<open>INCR\<close>, then \<open>EXPIRE\<close> on the first attempt.\<close>

definition bump :: "bool \<Rightarrow> instant \<Rightarrow> string \<Rightarrow> int \<Rightarrow> redis \<Rightarrow> (auth_error + int) \<times> redis" where
  "bump up now k window R =
     (if \<not> up then (Inl (AuthErr ''failed to increment counter''), R)
      else (case rincr now k R of
          Inl e \<Rightarrow> (Inl e, R)
        | Inr (n, R') \<Rightarrow> (Inr n, if n = 1 then rexpire now window k R' else R')))"

definition checkLimit :: "bool \<Rightarrow> instant \<Rightarrow> string \<Rightarrow> int \<Rightarrow> int \<Rightarrow> redis \<Rightarrow> (auth_error + bool) \<times> redis" where
  "checkLimit up now k limit window R = (case bump up now k window R of (r, R') \<Rightarrow> (map_sum id (\<lambda>n. n \<le> limit) r, R'))"

definition login_key :: "string \<Rightarrow> string \<Rightarrow> string" where
  "login_key ip email = ''ratelimit:login:'' @ ip @ '':'' @ email"

definition remaining_of :: "int \<Rightarrow> int \<Rightarrow> int" where
  "remaining_of limit n = (if limit - n < 0 then 0 else limit - n)"

definition CheckLoginAttempt :: "bool \<Rightarrow> instant \<Rightarrow> string \<Rightarrow> string \<Rightarrow> redis \<Rightarrow> (auth_error + bool \<times> int) \<times> redis" where
  "CheckLoginAttempt up now ip email R =
     (case bump up now (login_key ip email) (minutes 15) R of
        (r, R') \<Rightarrow> (map_sum id (\<lambda>n. (n \<le> 5, remaining_of 5 n)) r, R'))"

definition counter_value :: "bool \<Rightarrow> instant \<Rightarrow> string \<Rightarrow> int \<Rightarrow> redis \<Rightarrow> auth_error + int" where
  "counter_value up now k limit R =
     (if \<not> up then Inl (AuthErr ''redis'')
      else (case rget now k R of
          None \<Rightarrow> Inr limit
        | Some (RInt n) \<Rightarrow> Inr (remaining_of limit n)
        | Some _ \<Rightarrow> Inl (AuthErr ''redis'')))"

definition GetRemainingAttempts :: "bool \<Rightarrow> instant \<Rightarrow> string \<Rightarrow> string \<Rightarrow> redis \<Rightarrow> auth_error + int" where
  "GetRemainingAttempts up now ip email R = counter_value up now (login_key ip email) 5 R"

definition ResetLoginAttempts :: "bool \<Rightarrow> string \<Rightarrow> string \<Rightarrow> redis \<Rightarrow> redis" where
  "ResetLoginAttempts up ip email R = (if up then rdel (login_key ip email) R else R)"

definition reset_limit_key :: "string \<Rightarrow> string" where
  "reset_limit_key email = ''ratelimit:password_reset:'' @ email"

definition CheckPasswordResetAttempt :: "bool \<Rightarrow> instant \<Rightarrow> string \<Rightarrow> redis \<Rightarrow> (auth_error + bool) \<times> redis" where
  "CheckPasswordResetAttempt up now email R = checkLimit up now (reset_limit_key email) 3 (minutes 60) R"

definition otp_key :: "id \<Rightarrow> string" where
  "otp_key n = ''ratelimit:otp:'' @ string_of_int n"

definition CheckOTPAttempt :: "bool \<Rightarrow> instant \<Rightarrow> id \<Rightarrow> redis \<Rightarrow> (auth_error + bool) \<times> redis" where
  "CheckOTPAttempt up now n R = checkLimit up now (otp_key n) 5 (minutes 10) R"

definition ResetOTPAttempts :: "bool \<Rightarrow> id \<Rightarrow> redis \<Rightarrow> redis" where
  "ResetOTPAttempts up n R = (if up then rdel (otp_key n) R else R)"

definition CheckAPIRateLimit :: "bool \<Rightarrow> instant \<Rightarrow> id \<Rightarrow> string \<Rightarrow> int \<Rightarrow> int \<Rightarrow> redis \<Rightarrow> (auth_error + bool) \<times> redis" where
  "CheckAPIRateLimit up now n endpoint limit window R =
     checkLimit up now (''ratelimit:api:'' @ string_of_int n @ '':'' @ endpoint) limit window R"

definition lock_key :: "id \<Rightarrow> string" where
  "lock_key n = ''account:locked:'' @ string_of_int n"

definition IsAccountTemporarilyLocked :: "bool \<Rightarrow> instant \<Rightarrow> id \<Rightarrow> redis \<Rightarrow> auth_error + int option" where
  "IsAccountTemporarilyLocked up now n R = (if up then Inr (rttl now (lock_key n) R) else Inl (AuthErr ''redis''))"

definition LockAccount :: "bool \<Rightarrow> instant \<Rightarrow> id \<Rightarrow> int \<Rightarrow> redis \<Rightarrow> redis" where
  "LockAccount up now n dur R = (if up then rset now dur (lock_key n) (RStr ''1'') R else R)"

definition UnlockAccount :: "bool \<Rightarrow> id \<Rightarrow> redis \<Rightarrow> redis" where
  "UnlockAccount up n R = (if up then rdel (lock_key n) R else R)"

definition verify_short_key :: "string \<Rightarrow> string" where
  "verify_short_key email = ''ratelimit:email_verify_short:'' @ email"

definition verify_long_key :: "string \<Rightarrow> string" where
  "verify_long_key email = ''ratelimit:email_verify_long:'' @ email"

definition verify_lock_key :: "string \<Rightarrow> string" where
  "verify_lock_key email = ''email_verify:locked:'' @ email"

definition LockEmailVerification :: "bool \<Rightarrow> instant \<Rightarrow> string \<Rightarrow> int \<Rightarrow> redis \<Rightarrow> redis" where
  "LockEmailVerification up now email dur R = (if up then rset now dur (verify_lock_key email) (RStr ''1'') R else R)"

definition CheckEmailVerificationAttempt :: "bool \<Rightarrow> instant \<Rightarrow> string \<Rightarrow> redis \<Rightarrow> (auth_error + bool) \<times> redis" where
  "CheckEmailVerificationAttempt up now email R =
     (case bump up now (verify_short_key email) (minutes 1) R of
        (Inl e, R1) \<Rightarrow> (Inl e, R1)
      | (Inr n, R1) \<Rightarrow>
          if 1 < n then (Inl (AuthErr ''please wait 1 minute before requesting another code''), R1)
          else (case bump up now (verify_long_key email) (minutes 30) R1 of
              (Inl e, R2) \<Rightarrow> (Inl e, R2)
            | (Inr m, R2) \<Rightarrow>
                if 4 < m then (Inl (AuthErr ''too many verification attempts''), LockEmailVerification up now email (minutes 30) R2)
                else (Inr True, R2)))"

definition IsEmailVerificationLocked :: "bool \<Rightarrow> instant \<Rightarrow> string \<Rightarrow> redis \<Rightarrow> auth_error + int option" where
  "IsEmailVerificationLocked up now email R = (if up then Inr (rttl now (verify_lock_key email) R) else Inl (AuthErr ''redis''))"

definition GetEmailVerificationCooldown :: "bool \<Rightarrow> instant \<Rightarrow> string \<Rightarrow> redis \<Rightarrow> auth_error + int" where
  "GetEmailVerificationCooldown up now email R =
     (if up then Inr (case rttl now (verify_short_key email) R of None \<Rightarrow> 0 | Some t \<Rightarrow> t) else Inl (AuthErr ''redis''))"

definition GetRemainingEmailVerificationAttempts :: "bool \<Rightarrow> instant \<Rightarrow> string \<Rightarrow> redis \<Rightarrow> auth_error + int" where
  "GetRemainingEmailVerificationAttempts up now email R = counter_value up now (verify_long_key email) 4 R"

section \<open>Counting in a window\<close>

text \<open>The state of a window opened at \<open>t0\<close> after \<open>n\<close> attempts.\<close>

definition counted :: "string \<Rightarrow> instant \<Rightarrow> int \<Rightarrow> redis \<Rightarrow> bool" where
  "counted k e n R \<longleftrightarrow> map_of R k = Some (RInt n, Some e)"

lemma bump_opens:
  "rget now k R = None \<Longrightarrow> 0 < window \<Longrightarrow>
   \<exists>R'. bump True now k window R = (Inr 1, R') \<and> counted k (now + window) 1 R'"
  by (simp add: bump_def rincr_def rexpire_def rget_def counted_def unexpired_def)

lemma bump_counts:
  "counted k e n R \<Longrightarrow> now < e \<Longrightarrow> 1 \<le> n \<Longrightarrow>
   \<exists>R'. bump True now k window R = (Inr (n + 1), R') \<and> counted k e (n + 1) R'"
  by (simp add: bump_def rincr_def rget_def counted_def unexpired_def)

text \<open>The answers of a run of attempts at the given times.\<close>

fun answers :: "string \<Rightarrow> int \<Rightarrow> int \<Rightarrow> instant list \<Rightarrow> redis \<Rightarrow> bool list" where
  "answers k limit window [] R = []"
| "answers k limit window (t # ts) R =
     (case checkLimit True t k limit window R of (r, R') \<Rightarrow> (r = Inr True) # answers k limit window ts R')"

lemma answers_counted:
  "counted k e n R \<Longrightarrow> \<forall>t \<in> set ts. t < e \<Longrightarrow> 1 \<le> n \<Longrightarrow>
   answers k limit window ts R = map (\<lambda>i. n + 1 + int i \<le> limit) [0..<length ts]"
proof (induction ts arbitrary: n R)
  case (Cons t ts)
  obtain R' where R': "bump True t k window R = (Inr (n + 1), R')" "counted k e (n + 1) R'"
    using bump_counts Cons.prems by force
  have "answers k limit window ts R' = map (\<lambda>i. n + 2 + int i \<le> limit) [0..<length ts]"
    using Cons.IH [OF R'(2)] Cons.prems by (simp add: add.commute)
  moreover have "map (\<lambda>i. n + 1 + int i \<le> limit) [0..<Suc (length ts)]
      = (n + 1 \<le> limit) # map (\<lambda>i. n + 2 + int i \<le> limit) [0..<length ts]"
    by (subst map_upt_Suc) (auto simp: algebra_simps)
  ultimately show ?case using R'(1) by (simp add: checkLimit_def del: upt_Suc)
qed simp

lemma answers_window:
  assumes "rget t k R = None" "0 < window" "\<forall>u \<in> set ts. u < t + window"
  shows "answers k limit window (t # ts) R = map (\<lambda>i. int i < limit) [0..<Suc (length ts)]"
proof -
  obtain R' where R': "bump True t k window R = (Inr 1, R')" "counted k (t + window) 1 R'"
    using bump_opens assms(1,2) by blast
  have "answers k limit window ts R' = map (\<lambda>i. 1 + 1 + int i \<le> limit) [0..<length ts]"
    using answers_counted [OF R'(2) assms(3)] by simp
  moreover have "map (\<lambda>i. int i < limit) [0..<Suc (length ts)]
      = (1 \<le> limit) # map (\<lambda>i. 1 + 1 + int i \<le> limit) [0..<length ts]"
    by (subst map_upt_Suc) auto
  ultimately show ?thesis using R'(1) by (simp add: checkLimit_def del: upt_Suc)
qed

section \<open>Properties\<close>

text \<open>In a rate-limit window exactly the first \<open>limit\<close> attempts are let through: the \<open>i\<close>-th answer of any
  run of attempts that starts with no live counter and stays inside the window is "allowed" iff \<open>i\<close> is below
  the limit (three password resets an hour, five one-time codes in ten minutes).\<close>

theorem window_admits_the_first_attempts:
  assumes "rget t k R = None" "0 < window" "\<forall>u \<in> set ts. u < t + window" "i \<le> length ts"
  shows "answers k limit window (t # ts) R ! i \<longleftrightarrow> int i < limit"
  using answers_window [OF assms(1-3)] assms(4) by (simp del: answers.simps upt_Suc)

theorem window_admits_the_first_attempts_witness:
  "\<not> answers (otp_key 7) 5 (minutes 10) [0, 1, 2, 3, 4, 5] [] ! 5 \<and> answers (otp_key 7) 5 (minutes 10) [0, 1, 2, 3, 4, 5] [] ! 4"
  using window_admits_the_first_attempts [of 0 "otp_key 7" "[]" "minutes 10" "[1, 2, 3, 4, 5]" 5 5]
    window_admits_the_first_attempts [of 0 "otp_key 7" "[]" "minutes 10" "[1, 2, 3, 4, 5]" 4 5]
  by (simp add: rget_def minutes_def del: answers.simps)

end
