(* ===== verification/Jwt.thy ===== *)
theory Jwt
  imports Go_Strings
begin

text \<open>
  Access-control tokens (\<open>internal/pkg/jwt\<close>) and the middleware that checks them (\<open>internal/middleware\<close>).
  The signature, the time claims and the rounding of dates are the JWT library's: \<open>jwt_lib\<close> carries its
  three functions. A request context maps the keys the middleware sets to typed values.
\<close>

section \<open>Claims\<close>

record claims =
  cl_identity :: id
  cl_roles :: "string list"
  cl_perms :: "string list"
  cl_device :: string
  cl_temp :: bool
  cl_purpose :: string
  cl_extra :: "(string \<times> string) list"
  cl_issuer :: string
  cl_subject :: string
  cl_audience :: "string list"
  cl_exp :: instant
  cl_iat :: instant
  cl_nbf :: instant
  cl_id :: string

definition HasRole :: "claims \<Rightarrow> string \<Rightarrow> bool" where
  "HasRole c r \<longleftrightarrow> list_ex (\<lambda>x. x = r) (cl_roles c)"

definition HasPermission :: "claims \<Rightarrow> string \<Rightarrow> bool" where
  "HasPermission c p \<longleftrightarrow> list_ex (\<lambda>x. x = p) (cl_perms c)"

definition IsSuperAdmin :: "claims \<Rightarrow> bool" where
  "IsSuperAdmin c \<longleftrightarrow> HasRole c ''super_admin''"

definition IsAdmin :: "claims \<Rightarrow> bool" where
  "IsAdmin c \<longleftrightarrow> HasRole c ''admin'' \<or> HasRole c ''super_admin''"

definition VerifyAudience :: "claims \<Rightarrow> string \<Rightarrow> bool \<Rightarrow> bool" where
  "VerifyAudience c aud required \<longleftrightarrow>
     (if cl_audience c = [] then \<not> required else list_ex (\<lambda>x. x = aud) (cl_audience c))"

section \<open>Generating\<close>

record jwt_lib =
  parse_token :: "instant \<Rightarrow> string \<Rightarrow> claims option"
  sign_token :: "claims \<Rightarrow> string"
  numeric_date :: "instant \<Rightarrow> instant"

record generator =
  ge_key :: bool
  ge_issuer :: string
  ge_audience :: string
  ge_kid :: string
  ge_ttl :: int

datatype jwt_error = NoKey | BadToken | BadIssuer | BadAudience | WrongPurpose | TemporaryToken | NotTemporary

definition claims_of ::
  "jwt_lib \<Rightarrow> generator \<Rightarrow> instant \<Rightarrow> string \<Rightarrow> id \<Rightarrow> string list \<Rightarrow> string list \<Rightarrow> string \<Rightarrow> string \<Rightarrow> bool
     \<Rightarrow> (string \<times> string) list \<Rightarrow> claims" where
  "claims_of L g now jti n rs ps device purpose temp extra =
     (let ttl = (if temp then 30 * 60 * 1000000000 else ge_ttl g)
      in \<lparr>cl_identity = n, cl_roles = rs, cl_perms = ps, cl_device = device, cl_temp = temp, cl_purpose = purpose,
          cl_extra = extra, cl_issuer = ge_issuer g, cl_subject = string_of_int n, cl_audience = [ge_audience g],
          cl_exp = numeric_date L (now + ttl), cl_iat = numeric_date L now, cl_nbf = numeric_date L now, cl_id = jti\<rparr>)"

text \<open>\<open>jti\<close> is the fresh ULID; the result is the signed token and its id.\<close>

definition Generate ::
  "jwt_lib \<Rightarrow> generator \<Rightarrow> instant \<Rightarrow> string \<Rightarrow> id \<Rightarrow> string list \<Rightarrow> string list \<Rightarrow> string \<Rightarrow> string \<Rightarrow> bool
     \<Rightarrow> (string \<times> string) list \<Rightarrow> jwt_error + string \<times> string" where
  "Generate L g now jti n rs ps device purpose temp extra =
     (if \<not> ge_key g then Inl NoKey
      else Inr (sign_token L (claims_of L g now jti n rs ps device purpose temp extra), jti))"

definition GenerateAccessToken where
  "GenerateAccessToken L g now jti n rs ps device extra = Generate L g now jti n rs ps device ''access'' False extra"

definition seven_days :: int where
  "seven_days = 7 * 24 * 60 * 60 * 1000000000"

definition GenerateRefreshToken where
  "GenerateRefreshToken L g now jti n device =
     Generate L (g\<lparr>ge_ttl := seven_days\<rparr>) now jti n [] [] device ''refresh'' False []"

definition GeneratePasswordResetToken where
  "GeneratePasswordResetToken L g now jti n extra = Generate L g now jti n [] [] [] ''password_reset'' True extra"

definition GenerateEmailVerificationToken where
  "GenerateEmailVerificationToken L g now jti n email =
     Generate L g now jti n [] [] [] ''email_verification'' True [(''email'', email)]"

definition GeneratePhoneVerificationToken where
  "GeneratePhoneVerificationToken L g now jti n phone =
     Generate L g now jti n [] [] [] ''phone_verification'' True [(''phone'', phone)]"

definition fifteen_minutes :: int where
  "fifteen_minutes = 15 * 60 * 1000000000"

definition GenerateMagicLinkToken where
  "GenerateMagicLinkToken L g now jti n email =
     Generate L (g\<lparr>ge_ttl := fifteen_minutes\<rparr>) now jti n [] [] [] ''magic_link'' True [(''email'', email)]"

section \<open>Verifying\<close>

record verifier =
  ve_key :: bool
  ve_issuer :: string
  ve_audience :: string

definition Verify :: "jwt_lib \<Rightarrow> verifier \<Rightarrow> instant \<Rightarrow> string \<Rightarrow> jwt_error + claims" where
  "Verify L v now tok =
     (if \<not> ve_key v then Inl NoKey
      else (case parse_token L now tok of
          None \<Rightarrow> Inl BadToken
        | Some c \<Rightarrow>
            if cl_issuer c \<noteq> ve_issuer v then Inl BadIssuer
            else if \<not> VerifyAudience c (ve_audience v) True then Inl BadAudience
            else Inr c))"

definition VerifyAccessToken :: "jwt_lib \<Rightarrow> verifier \<Rightarrow> instant \<Rightarrow> string \<Rightarrow> jwt_error + claims" where
  "VerifyAccessToken L v now tok =
     (case Verify L v now tok of
        Inl e \<Rightarrow> Inl e
      | Inr c \<Rightarrow> if cl_purpose c \<noteq> ''access'' then Inl WrongPurpose
                 else if cl_temp c then Inl TemporaryToken else Inr c)"

definition verify_purpose :: "string \<Rightarrow> jwt_lib \<Rightarrow> verifier \<Rightarrow> instant \<Rightarrow> string \<Rightarrow> jwt_error + claims" where
  "verify_purpose p L v now tok =
     (case Verify L v now tok of
        Inl e \<Rightarrow> Inl e
      | Inr c \<Rightarrow> if cl_purpose c \<noteq> p then Inl WrongPurpose else Inr c)"

definition VerifyRefreshToken where "VerifyRefreshToken = verify_purpose ''refresh''"

definition VerifyPasswordResetToken :: "jwt_lib \<Rightarrow> verifier \<Rightarrow> instant \<Rightarrow> string \<Rightarrow> jwt_error + claims" where
  "VerifyPasswordResetToken L v now tok =
     (case Verify L v now tok of
        Inl e \<Rightarrow> Inl e
      | Inr c \<Rightarrow> if cl_purpose c \<noteq> ''password_reset'' then Inl WrongPurpose
                 else if \<not> cl_temp c then Inl NotTemporary else Inr c)"

definition VerifyEmailVerificationToken where "VerifyEmailVerificationToken = verify_purpose ''email_verification''"
definition VerifyPhoneVerificationToken where "VerifyPhoneVerificationToken = verify_purpose ''phone_verification''"
definition VerifyMagicLinkToken where "VerifyMagicLinkToken = verify_purpose ''magic_link''"

definition HasAnyRole :: "claims \<Rightarrow> string list \<Rightarrow> bool" where
  "HasAnyRole c rs \<longleftrightarrow> list_ex (HasRole c) rs"

definition HasAllRoles :: "claims \<Rightarrow> string list \<Rightarrow> bool" where
  "HasAllRoles c rs \<longleftrightarrow> list_all (HasRole c) rs"

definition HasAnyPermission :: "claims \<Rightarrow> string list \<Rightarrow> bool" where
  "HasAnyPermission c ps \<longleftrightarrow> list_ex (HasPermission c) ps"

definition HasAllPermissions :: "claims \<Rightarrow> string list \<Rightarrow> bool" where
  "HasAllPermissions c ps \<longleftrightarrow> list_all (HasPermission c) ps"

section \<open>Middleware\<close>

datatype ctx_value = CId id | CStr string | CStrs "string list" | CBool bool | CNone

type_synonym ctx = "string \<Rightarrow> ctx_value option"

record request =
  rq_auth :: string
  rq_token :: string

text \<open>\<open>strings.Split(h, " ")\<close>.\<close>

fun split_blank :: "string \<Rightarrow> string list" where
  "split_blank [] = [[]]"
| "split_blank (c # cs) =
     (if c = CHR '' '' then [] # split_blank cs
      else (case split_blank cs of [] \<Rightarrow> [[c]] | w # ws \<Rightarrow> (c # w) # ws))"

definition extractToken :: "request \<Rightarrow> string" where
  "extractToken r =
     (case split_blank (rq_auth r) of
        [a, t] \<Rightarrow> if rq_auth r \<noteq> [] \<and> map ascii_lower a = ''bearer'' then t else rq_token r
      | _ \<Rightarrow> rq_token r)"

text \<open>A middleware answers with a status or passes a context on.\<close>

datatype outcome = Abort int | Next ctx

definition Auth :: "(string \<Rightarrow> 'e + claims) \<Rightarrow> request \<Rightarrow> ctx \<Rightarrow> outcome" where
  "Auth validate r x =
     (let tok = extractToken r in
      if tok = [] then Abort 401
      else (case validate tok of
          Inl _ \<Rightarrow> Abort 401
        | Inr c \<Rightarrow>
            Next (foldl (\<lambda>x (k, v). x(k \<mapsto> CStr v))
              (x(''identity_id'' \<mapsto> CId (cl_identity c), ''jti'' \<mapsto> CStr (cl_id c), ''roles'' \<mapsto> CStrs (cl_roles c),
                 ''permissions'' \<mapsto> CStrs (cl_perms c), ''device'' \<mapsto> CStr (cl_device c),
                 ''session_purpose'' \<mapsto> CStr (cl_purpose c), ''is_temp'' \<mapsto> CBool (cl_temp c))) (cl_extra c))))"

definition OptionalAuth :: "(string \<Rightarrow> 'e + claims) \<Rightarrow> request \<Rightarrow> ctx \<Rightarrow> outcome" where
  "OptionalAuth validate r x =
     (let tok = extractToken r in
      if tok = [] then Next x
      else (case validate tok of
          Inl _ \<Rightarrow> Next x
        | Inr c \<Rightarrow>
            Next (x(''identity_id'' \<mapsto> CId (cl_identity c), ''jti'' \<mapsto> CStr (cl_id c), ''roles'' \<mapsto> CStrs (cl_roles c),
                    ''permissions'' \<mapsto> CStrs (cl_perms c), ''authenticated'' \<mapsto> CBool True))))"

text \<open>The four guards: a missing key is 403, a value of another type 500.\<close>

definition require :: "string \<Rightarrow> (string list \<Rightarrow> bool) \<Rightarrow> ctx \<Rightarrow> outcome" where
  "require k P x =
     (case x k of
        None \<Rightarrow> Abort 403
      | Some (CStrs xs) \<Rightarrow> if P xs then Next x else Abort 403
      | Some _ \<Rightarrow> Abort 500)"

definition RequireRole :: "string list \<Rightarrow> ctx \<Rightarrow> outcome" where
  "RequireRole rs = require ''roles'' (\<lambda>xs. list_ex (\<lambda>x. list_ex (\<lambda>r. x = r) rs) xs)"

definition RequirePermission :: "string list \<Rightarrow> ctx \<Rightarrow> outcome" where
  "RequirePermission ps = require ''permissions'' (\<lambda>xs. list_ex (\<lambda>x. list_ex (\<lambda>p. x = p) ps) xs)"

definition RequireAllRoles :: "string list \<Rightarrow> ctx \<Rightarrow> outcome" where
  "RequireAllRoles rs = require ''roles'' (\<lambda>xs. list_all (\<lambda>r. r \<in> set xs) rs)"

definition RequireAllPermissions :: "string list \<Rightarrow> ctx \<Rightarrow> outcome" where
  "RequireAllPermissions ps = require ''permissions'' (\<lambda>xs. list_all (\<lambda>p. p \<in> set xs) ps)"

text \<open>A chain runs each middleware on the context the previous one passed on.\<close>

fun chain :: "(ctx \<Rightarrow> outcome) list \<Rightarrow> ctx \<Rightarrow> outcome" where
  "chain [] x = Next x"
| "chain (m # ms) x = (case m x of Abort s \<Rightarrow> Abort s | Next y \<Rightarrow> chain ms y)"

definition AdminOnly :: "(string \<Rightarrow> 'e + claims) \<Rightarrow> request \<Rightarrow> (ctx \<Rightarrow> outcome) list" where
  "AdminOnly validate r = [Auth validate r, RequireRole [''admin'', ''super_admin'']]"

definition SuperAdminOnly :: "(string \<Rightarrow> 'e + claims) \<Rightarrow> request \<Rightarrow> (ctx \<Rightarrow> outcome) list" where
  "SuperAdminOnly validate r = [Auth validate r, RequireRole [''super_admin'']]"

definition WithPermission :: "(string \<Rightarrow> 'e + claims) \<Rightarrow> string list \<Rightarrow> request \<Rightarrow> (ctx \<Rightarrow> outcome) list" where
  "WithPermission validate ps r = [Auth validate r, RequirePermission ps]"

definition GetIdentityID :: "ctx \<Rightarrow> id option" where
  "GetIdentityID x = (case x ''identity_id'' of Some (CId n) \<Rightarrow> Some n | _ \<Rightarrow> None)"

definition GetJTI :: "ctx \<Rightarrow> string option" where
  "GetJTI x = (case x ''jti'' of Some (CStr s) \<Rightarrow> Some s | _ \<Rightarrow> None)"

definition GetRoles :: "ctx \<Rightarrow> string list" where
  "GetRoles x = (case x ''roles'' of Some (CStrs rs) \<Rightarrow> rs | _ \<Rightarrow> [])"

definition GetPermissions :: "ctx \<Rightarrow> string list" where
  "GetPermissions x = (case x ''permissions'' of Some (CStrs ps) \<Rightarrow> ps | _ \<Rightarrow> [])"

definition ctx_HasRole :: "ctx \<Rightarrow> string \<Rightarrow> bool" where
  "ctx_HasRole x r \<longleftrightarrow> list_ex (\<lambda>y. y = r) (GetRoles x)"

definition ctx_HasPermission :: "ctx \<Rightarrow> string \<Rightarrow> bool" where
  "ctx_HasPermission x p \<longleftrightarrow> list_ex (\<lambda>y. y = p) (GetPermissions x)"

definition IsAuthenticated :: "ctx \<Rightarrow> bool" where
  "IsAuthenticated x \<longleftrightarrow> x ''identity_id'' \<noteq> None"

definition ctx_IsAdmin :: "ctx \<Rightarrow> bool" where
  "ctx_IsAdmin x \<longleftrightarrow> ctx_HasRole x ''admin'' \<or> ctx_HasRole x ''super_admin''"

definition ctx_IsSuperAdmin :: "ctx \<Rightarrow> bool" where
  "ctx_IsSuperAdmin x \<longleftrightarrow> ctx_HasRole x ''super_admin''"

end
