(* ===== verification/Auth.thy ===== *)
theory Auth
  imports Session Jwt
begin

text \<open>
  The authentication service (\<open>internal/service/auth\<close>). What it takes from libraries is in \<open>env\<close>: the JWT
  functions, password hashing and comparison (bcrypt) and SQL's \<open>LOWER\<close>. Random tokens and ULIDs are
  arguments. E-mails and websocket notices are sent and forgotten, so they leave no trace in the state.
\<close>

section \<open>Environment and requests\<close>

record env =
  en_jwt :: jwt_lib
  en_gen :: generator
  en_ver :: verifier
  en_lc :: "string \<Rightarrow> string"
  en_hash :: "string \<Rightarrow> string option"
  en_match :: "string \<Rightarrow> string \<Rightarrow> bool"

record register_req =
  rr_email :: string
  rr_phone :: string
  rr_password :: string
  rr_token :: string
  rr_full :: string
  rr_first :: string
  rr_last :: string
  rr_device :: string
  rr_ip :: string
  rr_agent :: string

record login_req =
  lr_email :: string
  lr_password :: string
  lr_device :: string
  lr_ip :: string
  lr_agent :: string

record login_resp =
  lp_access :: string
  lp_refresh :: string
  lp_expires_in :: int
  lp_expires :: instant
  lp_identity :: id
  lp_email :: string
  lp_name :: string
  lp_roles :: "string list"
  lp_perms :: "string list"

definition nullable :: "string \<Rightarrow> string option" where
  "nullable s = (if s = [] then None else Some s)"

section \<open>Logging in\<close>

definition getUserRolesAndPermissions :: "instant \<Rightarrow> id \<Rightarrow> auth_db \<Rightarrow> string list \<times> string list" where
  "getUserRolesAndPermissions now n d =
     (let rs = GetUserRoles now n d in (if rs = [] then [''user''] else rs, GetUserPermissions now n d))"

definition login_row :: "instant \<Rightarrow> id \<Rightarrow> string \<Rightarrow> string \<Rightarrow> string \<Rightarrow> string \<Rightarrow> string \<Rightarrow> string \<Rightarrow> dbsession" where
  "login_row e n access refresh prov device ip agent =
     \<lparr>se_id = 0, se_identity = n, se_token = access, se_refresh = Some refresh, se_provider = prov,
      se_ip = nullable ip, se_agent = nullable agent, se_device = nullable device, se_device_name = None,
      se_fingerprint = None, se_status = [], se_login = 0, se_activity = 0, se_expires = e, se_logout = None,
      se_metadata = None\<rparr>"

definition login_session ::
  "instant \<Rightarrow> instant \<Rightarrow> identity \<Rightarrow> id \<Rightarrow> string \<Rightarrow> string list \<Rightarrow> string list \<Rightarrow> string \<Rightarrow> string \<Rightarrow> string \<Rightarrow> string \<Rightarrow> session_data" where
  "login_session now e i sid jti rs ps prov device ip agent =
     \<lparr>sd_jti = jti, sd_identity = iy_id i, sd_session = sid, sd_email = stringFromNull (iy_email i), sd_roles = rs,
      sd_perms = ps, sd_device = device, sd_device_id = device, sd_device_name = [], sd_ip = ip, sd_agent = agent,
      sd_provider = prov, sd_login = now, sd_activity = now, sd_expires = e, sd_active = True, sd_metadata = None\<rparr>"

text \<open>\<open>ja\<close> and \<open>jr\<close> are the ULIDs of the two tokens. A missing profile is a nil dereference.\<close>

definition loginWithIdentity ::
  "env \<Rightarrow> bool \<Rightarrow> instant \<Rightarrow> string \<Rightarrow> string \<Rightarrow> identity \<Rightarrow> provider \<Rightarrow> string \<Rightarrow> string \<Rightarrow> string \<Rightarrow> auth_state
     \<Rightarrow> (auth_error + login_resp) \<times> auth_state" where
  "loginWithIdentity E up now ja jr i p device ip agent st =
     (let (rs, ps) = getUserRolesAndPermissions now (iy_id i) (db st) in
      case GenerateAccessToken (en_jwt E) (en_gen E) now ja (iy_id i) rs ps device [] of
        Inl _ \<Rightarrow> (Inl (AuthErr ''failed to generate access token''), st)
      | Inr (access, _) \<Rightarrow> (case GenerateRefreshToken (en_jwt E) (en_gen E) now jr (iy_id i) device of
          Inl _ \<Rightarrow> (Inl (AuthErr ''failed to generate refresh token''), st)
        | Inr (refresh, _) \<Rightarrow>
            let e = now + ge_ttl (en_gen E) in
            (case db_CreateSession now (login_row e (iy_id i) ja jr (pv_provider p) device ip agent) (db st) of
               (Inl _, d) \<Rightarrow> (Inl (AuthErr ''failed to create session''), st\<lparr>db := d\<rparr>)
             | (Inr s, d) \<Rightarrow>
                 (case mgr_CreateSession up now (login_session now e i (se_id s) ja rs ps (pv_provider p) device ip agent) (st\<lparr>db := d\<rparr>) of
                    (Inl _, st) \<Rightarrow> (Inl (AuthErr ''failed to create session cache''), st)
                  | (Inr _, st) \<Rightarrow> (case GetUserProfile (iy_id i) (db st) of
                      Inl _ \<Rightarrow> (Inl (AuthErr ''nil pointer dereference''), st)
                    | Inr f \<Rightarrow> (Inr \<lparr>lp_access = access, lp_refresh = refresh,
                                 lp_expires_in = ge_ttl (en_gen E) div 1000000000, lp_expires = e, lp_identity = iy_id i,
                                 lp_email = stringFromNull (iy_email i), lp_name = stringFromNull (pf_name f),
                                 lp_roles = rs, lp_perms = ps\<rparr>, st))))))"

text \<open>What \<open>Login\<close> decides before it opens a session: the counter first, then the account.\<close>

definition check_account :: "env \<Rightarrow> instant \<Rightarrow> string \<Rightarrow> auth_db \<Rightarrow> auth_error + identity \<times> provider" where
  "check_account E now email d =
     (case FindIdentityByEmail (en_lc E) email d of
        Inl _ \<Rightarrow> Inl (AuthErr ''invalid credentials'')
      | Inr i \<Rightarrow>
          if iy_status i = ''inactive'' then Inl (AuthErr ''account is inactive'')
          else if iy_status i = ''suspended'' then Inl (AuthErr ''account is suspended'')
          else if (case iy_locked i of None \<Rightarrow> False | Some t \<Rightarrow> now < t) then Inl (AuthErr ''account is temporarily locked'')
          else (case FindProviderByIdentityAndType (iy_id i) ''local'' d of
              Inl _ \<Rightarrow> Inl (AuthErr ''invalid credentials'')
            | Inr p \<Rightarrow> Inr (i, p)))"

definition Login ::
  "env \<Rightarrow> bool \<Rightarrow> instant \<Rightarrow> string \<Rightarrow> string \<Rightarrow> login_req \<Rightarrow> auth_state \<Rightarrow> (auth_error + login_resp) \<times> auth_state" where
  "Login E up now ja jr q st =
     (case CheckLoginAttempt up now (lr_ip q) (lr_email q) (red st) of
        (Inl _, R) \<Rightarrow> (Inl (AuthErr ''rate limiter error''), st\<lparr>red := R\<rparr>)
      | (Inr (allowed, _), R) \<Rightarrow>
          let st = st\<lparr>red := R\<rparr> in
          if \<not> allowed then (Inl (AuthErr ''too many login attempts, please try again in 15 minutes''), st)
          else (case check_account E now (lr_email q) (db st) of
              Inl e \<Rightarrow> (Inl e, st)
            | Inr (i, p) \<Rightarrow>
                if \<not> en_match E (stringFromNull (pv_hash p)) (lr_password q)
                then (Inl (AuthErr ''invalid credentials''),
                      st\<lparr>db := IncrementFailedLoginAttempts now (minutes 30) (iy_id i) (db st)\<rparr>)
                else loginWithIdentity E up now ja jr i p (lr_device q) (lr_ip q) (lr_agent q)
                       (st\<lparr>db := UpdateIdentityLastLogin now (iy_id i) (db st),
                           red := ResetLoginAttempts up (lr_ip q) (lr_email q) (red st)\<rparr>)))"

section \<open>Registering\<close>

definition verified_key :: "string \<Rightarrow> string" where
  "verified_key tok = ''email_verified:'' @ tok"

definition ValidateVerificationToken :: "bool \<Rightarrow> instant \<Rightarrow> string \<Rightarrow> string \<Rightarrow> auth_state \<Rightarrow> auth_error + bool" where
  "ValidateVerificationToken up now tok email st =
     (if tok = [] then Inr False
      else if \<not> up then Inl (AuthErr ''failed to validate token'')
      else (case rget now (verified_key tok) (red st) of
          Some (RStr e) \<Rightarrow> Inr (e = email)
        | Some _ \<Rightarrow> Inl (AuthErr ''failed to validate token'')
        | None \<Rightarrow> Inr False))"

definition local_provider :: "id \<Rightarrow> string \<Rightarrow> provider" where
  "local_provider n h =
     \<lparr>pv_id = 0, pv_identity = n, pv_provider = ''local'', pv_user = None, pv_email = None, pv_username = None,
      pv_hash = Some h, pv_access = None, pv_refresh = None, pv_expires = None, pv_data = None, pv_primary = True,
      pv_changed = None, pv_created = 0, pv_updated = 0\<rparr>"

text \<open>Identity, local provider, profile and role: three statements that may fail and one that is only logged.\<close>

definition create_account ::
  "env \<Rightarrow> instant \<Rightarrow> string option \<Rightarrow> string option \<Rightarrow> string \<Rightarrow> string \<Rightarrow> string option \<Rightarrow> string \<Rightarrow> auth_db
     \<Rightarrow> (auth_error + identity \<times> provider) \<times> auth_db" where
  "create_account E now email phone status h name role d =
     (case CreateIdentity (en_lc E) now email phone status d of
        (Inl _, d) \<Rightarrow> (Inl (AuthErr ''failed to create identity''), d)
      | (Inr i, d) \<Rightarrow> (case CreateProvider now (local_provider (iy_id i) h) d of
          (Inl _, d) \<Rightarrow> (Inl (AuthErr ''failed to create provider''), d)
        | (Inr p, d) \<Rightarrow> (case CreateUserProfile now (iy_id i) name d of
            (Inl _, d) \<Rightarrow> (Inl (AuthErr ''failed to create profile''), d)
          | (Inr _, d) \<Rightarrow> (Inr (i, p), snd (AssignRoleByName now (iy_id i) role d)))))"

definition SendEmailVerification :: "instant \<Rightarrow> string \<Rightarrow> id \<Rightarrow> auth_db \<Rightarrow> (auth_error + unit) \<times> auth_db" where
  "SendEmailVerification now tok n d =
     (case CreateVerificationToken now n ''email_verify'' tok (now + minutes 1440) d of
        (Inl e, d) \<Rightarrow> (Inl e, d)
      | (Inr _, d) \<Rightarrow> (Inr (), d))"

text \<open>The token path deletes the used token before anything else can fail.\<close>

definition register_guard ::
  "env \<Rightarrow> bool \<Rightarrow> instant \<Rightarrow> register_req \<Rightarrow> auth_state \<Rightarrow> (auth_error + unit) \<times> auth_state" where
  "register_guard E up now q st =
     (if rr_token q \<noteq> []
      then (case ValidateVerificationToken up now (rr_token q) (rr_email q) st of
          Inl _ \<Rightarrow> (Inl (AuthErr ''failed to validate verification token''), st)
        | Inr ok \<Rightarrow> if ok then (Inr (), st\<lparr>red := rdel (verified_key (rr_token q)) (red st)\<rparr>)
                     else (Inl (AuthErr ''invalid or expired verification token''), st))
      else if ExistsByEmail (en_lc E) (rr_email q) (db st) then (Inl ErrDuplicateEntry, st) else (Inr (), st))"

definition register_name :: "register_req \<Rightarrow> string" where
  "register_name q = (if rr_full q = [] then rr_first q @ '' '' @ rr_last q else rr_full q)"

definition Register ::
  "env \<Rightarrow> bool \<Rightarrow> instant \<Rightarrow> string \<Rightarrow> string \<Rightarrow> string \<Rightarrow> register_req \<Rightarrow> auth_state \<Rightarrow> (auth_error + login_resp) \<times> auth_state" where
  "Register E up now ja jr tok q st =
     (case register_guard E up now q st of
        (Inl e, st) \<Rightarrow> (Inl e, st)
      | (Inr _, st) \<Rightarrow>
          if rr_phone q \<noteq> [] \<and> ExistsByPhone (rr_phone q) (db st) then (Inl ErrDuplicateEntry, st)
          else (case en_hash E (rr_password q) of
              None \<Rightarrow> (Inl (AuthErr ''failed to hash password''), st)
            | Some h \<Rightarrow>
                (case create_account E now (Some (rr_email q)) (nullable (rr_phone q))
                        (if rr_token q = [] then ''pending_verification'' else ''active'') h
                        (nullable (register_name q)) ''user'' (db st) of
                   (Inl e, d) \<Rightarrow> (Inl e, st\<lparr>db := d\<rparr>)
                 | (Inr (i, p), d) \<Rightarrow>
                     let d = (if rr_token q = [] then snd (SendEmailVerification now tok (iy_id i) d) else d)
                     in loginWithIdentity E up now ja jr i p (rr_device q) (rr_ip q) (rr_agent q) (st\<lparr>db := d\<rparr>))))"

section \<open>Validating, logging out\<close>

definition ValidateToken :: "env \<Rightarrow> bool \<Rightarrow> instant \<Rightarrow> string \<Rightarrow> auth_state \<Rightarrow> (auth_error + claims) \<times> auth_state" where
  "ValidateToken E up now tok st =
     (case VerifyAccessToken (en_jwt E) (en_ver E) now tok of
        Inl _ \<Rightarrow> (Inl (AuthErr ''invalid token''), st)
      | Inr c \<Rightarrow> (case IsTokenBlacklisted up now (cl_id c) st of
          Inl _ \<Rightarrow> (Inl (AuthErr ''failed to check blacklist''), st)
        | Inr b \<Rightarrow> if b then (Inl (AuthErr ''token has been revoked''), st)
            else (case GetSession up now (cl_identity c) (cl_id c) st of
                (Inl _, st) \<Rightarrow> (Inl (AuthErr ''session not found or expired''), st)
              | (Inr _, st) \<Rightarrow> (Inr c, st))))"

text \<open>\<open>Logout\<close> and \<open>RevokeSession\<close>: the session goes, and the id of its token is blacklisted for a token's life.\<close>

definition Logout :: "env \<Rightarrow> bool \<Rightarrow> instant \<Rightarrow> id \<Rightarrow> string \<Rightarrow> auth_state \<Rightarrow> (auth_error + unit) \<times> auth_state" where
  "Logout E up now n jti st =
     (case InvalidateSession up now n jti st of
        (Inl _, st) \<Rightarrow> (Inl (AuthErr ''failed to invalidate session''), st)
      | (Inr _, st) \<Rightarrow> (case BlacklistToken up now jti (ge_ttl (en_gen E)) st of
          (Inl _, st) \<Rightarrow> (Inl (AuthErr ''failed to blacklist token''), st)
        | (Inr _, st) \<Rightarrow> (Inr (), st)))"

definition RevokeSession :: "env \<Rightarrow> bool \<Rightarrow> instant \<Rightarrow> id \<Rightarrow> string \<Rightarrow> auth_state \<Rightarrow> (auth_error + unit) \<times> auth_state" where
  "RevokeSession E up now n jti st =
     (case InvalidateSession up now n jti st of
        (Inl _, st) \<Rightarrow> (Inl (AuthErr ''failed to revoke session''), st)
      | (Inr _, st) \<Rightarrow> (case BlacklistToken up now jti (ge_ttl (en_gen E)) st of
          (Inl _, st) \<Rightarrow> (Inl (AuthErr ''failed to blacklist token''), st)
        | (Inr _, st) \<Rightarrow> (Inr (), st)))"

definition LogoutAllSessions :: "bool \<Rightarrow> instant \<Rightarrow> id \<Rightarrow> auth_state \<Rightarrow> (auth_error + unit) \<times> auth_state" where
  "LogoutAllSessions up now n st =
     (case InvalidateAllUserSessions up now n st of
        (Inl _, st) \<Rightarrow> (Inl (AuthErr ''failed to invalidate sessions''), st)
      | (Inr _, st) \<Rightarrow> (Inr (), st))"

definition GetActiveSessions :: "bool \<Rightarrow> instant \<Rightarrow> id \<Rightarrow> auth_state \<Rightarrow> auth_error + session_data list" where
  "GetActiveSessions up now n st =
     (case GetUserActiveSessions up now n st of
        Inl _ \<Rightarrow> Inl (AuthErr ''failed to get sessions'')
      | Inr ss \<Rightarrow> Inr ss)"

section \<open>Passwords\<close>

definition set_password :: "env \<Rightarrow> instant \<Rightarrow> id \<Rightarrow> string \<Rightarrow> auth_db \<Rightarrow> auth_error + auth_db" where
  "set_password E now pid pw d =
     (case en_hash E pw of
        None \<Rightarrow> Inl (AuthErr ''failed to hash password'')
      | Some h \<Rightarrow> Inr (UpdateProviderPassword now pid h d))"

definition ChangePassword ::
  "env \<Rightarrow> bool \<Rightarrow> instant \<Rightarrow> id \<Rightarrow> string \<Rightarrow> string \<Rightarrow> auth_state \<Rightarrow> (auth_error + unit) \<times> auth_state" where
  "ChangePassword E up now n old new st =
     (case FindProviderByIdentityAndType n ''local'' (db st) of
        Inl _ \<Rightarrow> (Inl (AuthErr ''local auth not found''), st)
      | Inr p \<Rightarrow>
          if \<not> en_match E (stringFromNull (pv_hash p)) old then (Inl (AuthErr ''current password is incorrect''), st)
          else (case set_password E now (pv_id p) new (db st) of
              Inl e \<Rightarrow> (Inl e, st)
            | Inr d \<Rightarrow> LogoutAllSessions up now n (st\<lparr>db := d\<rparr>)))"

definition reset_key :: "id \<Rightarrow> string" where
  "reset_key n = ''password_reset:'' @ string_of_int n"

definition ForgotPassword ::
  "env \<Rightarrow> bool \<Rightarrow> instant \<Rightarrow> string \<Rightarrow> string \<Rightarrow> auth_state \<Rightarrow> (auth_error + unit) \<times> auth_state" where
  "ForgotPassword E up now tok email st =
     (case CheckPasswordResetAttempt up now email (red st) of
        (Inl _, R) \<Rightarrow> (Inl (AuthErr ''rate limiter error''), st\<lparr>red := R\<rparr>)
      | (Inr allowed, R) \<Rightarrow>
          let st = st\<lparr>red := R\<rparr> in
          if \<not> allowed then (Inl (AuthErr ''too many password reset attempts, please try again later''), st)
          else (case FindIdentityByEmail (en_lc E) email (db st) of
              Inl _ \<Rightarrow> (Inr (), st)
            | Inr i \<Rightarrow> (case CreateVerificationToken now (iy_id i) ''password_reset'' tok (now + minutes 60) (db st) of
                (Inl _, d) \<Rightarrow> (Inl (AuthErr ''failed to store token''), st\<lparr>db := d\<rparr>)
              | (Inr _, d) \<Rightarrow>
                  (Inr (), st\<lparr>db := d, red := rset now (minutes 60) (reset_key (iy_id i)) (RStr tok) (red st)\<rparr>))))"

definition ResetPassword ::
  "env \<Rightarrow> bool \<Rightarrow> instant \<Rightarrow> string \<Rightarrow> string \<Rightarrow> auth_state \<Rightarrow> (auth_error + unit) \<times> auth_state" where
  "ResetPassword E up now tok new st =
     (case FindVerificationToken now ''password_reset'' tok (db st) of
        Inl _ \<Rightarrow> (Inl (AuthErr ''invalid or expired token''), st)
      | Inr v \<Rightarrow> (case FindProviderByIdentityAndType (vt_identity v) ''local'' (db st) of
          Inl _ \<Rightarrow> (Inl (AuthErr ''local auth not found''), st)
        | Inr p \<Rightarrow> (case set_password E now (pv_id p) new (db st) of
            Inl e \<Rightarrow> (Inl e, st)
          | Inr d \<Rightarrow> LogoutAllSessions up now (vt_identity v)
                (st\<lparr>db := MarkTokenAsUsed now (vt_id v) d,
                    red := (if up then rdel (reset_key (vt_identity v)) (red st) else red st)\<rparr>))))"

section \<open>Profiles and e-mail verification\<close>

definition GetProfile :: "id \<Rightarrow> auth_db \<Rightarrow> auth_error + profile" where
  "GetProfile n d = (case GetUserProfile n d of Inl _ \<Rightarrow> Inl (AuthErr ''failed to get profile'') | Inr p \<Rightarrow> Inr p)"

definition UpdateProfile ::
  "instant \<Rightarrow> id \<Rightarrow> string \<Rightarrow> string \<Rightarrow> string \<Rightarrow> string option \<Rightarrow> auth_db \<Rightarrow> (auth_error + profile) \<times> auth_db" where
  "UpdateProfile now n name avatar bio meta d =
     (case UpdateUserProfile now n (nullable name, nullable avatar, nullable bio, meta) d of
        (Inl _, d) \<Rightarrow> (Inl (AuthErr ''failed to update profile''), d)
      | (Inr _, d) \<Rightarrow> (case GetUserProfile n d of
          Inl _ \<Rightarrow> (Inl (AuthErr ''failed to get updated profile''), d)
        | Inr p \<Rightarrow> (Inr p, d)))"

definition VerifyEmail :: "instant \<Rightarrow> string \<Rightarrow> auth_db \<Rightarrow> (auth_error + unit) \<times> auth_db" where
  "VerifyEmail now tok d =
     (case FindVerificationToken now ''email_verify'' tok d of
        Inl _ \<Rightarrow> (Inl (AuthErr ''invalid or expired token''), d)
      | Inr v \<Rightarrow> (case FindIdentityByID (vt_identity v) d of
          Inl _ \<Rightarrow> (Inl (AuthErr ''identity not found''), d)
        | Inr i \<Rightarrow> (Inr (), MarkTokenAsUsed now (vt_id v) (UpdateIdentityStatus now (iy_id i) ''active'' d))))"

definition ResendEmailVerification :: "instant \<Rightarrow> string \<Rightarrow> id \<Rightarrow> auth_db \<Rightarrow> (auth_error + unit) \<times> auth_db" where
  "ResendEmailVerification now tok n d =
     (case FindIdentityByID n d of
        Inl _ \<Rightarrow> (Inl (AuthErr ''identity not found''), d)
      | Inr i \<Rightarrow> if iy_email_verified i then (Inl (AuthErr ''email already verified''), d)
                 else SendEmailVerification now tok n d)"

section \<open>One-time codes\<close>

definition otp_code_key :: "string \<Rightarrow> string \<Rightarrow> string" where
  "otp_code_key email tok = ''email_otp:'' @ email @ '':'' @ tok"

definition otp_meta_key :: "string \<Rightarrow> string \<Rightarrow> string" where
  "otp_meta_key email tok = ''email_otp_meta:'' @ email @ '':'' @ tok"

text \<open>The guards of sending and resending: the lock, then the two rate limits.\<close>

definition otp_guard :: "bool \<Rightarrow> instant \<Rightarrow> string \<Rightarrow> redis \<Rightarrow> (auth_error + unit) \<times> redis" where
  "otp_guard up now email R =
     (case IsEmailVerificationLocked up now email R of
        Inl _ \<Rightarrow> (Inl (AuthErr ''rate limiter error''), R)
      | Inr (Some _) \<Rightarrow> (Inl (AuthErr ''too many verification attempts''), R)
      | Inr None \<Rightarrow> (case CheckEmailVerificationAttempt up now email R of
          (Inl e, R) \<Rightarrow> (Inl e, R)
        | (Inr allowed, R) \<Rightarrow> (if allowed then Inr () else Inl (AuthErr ''please wait before requesting another code''), R)))"

definition SendEmailVerificationOTP ::
  "env \<Rightarrow> bool \<Rightarrow> instant \<Rightarrow> string \<Rightarrow> string \<Rightarrow> string \<Rightarrow> auth_state \<Rightarrow> (auth_error + string) \<times> auth_state" where
  "SendEmailVerificationOTP E up now otp tok email st =
     (case otp_guard up now email (red st) of
        (Inl e, R) \<Rightarrow> (Inl e, st\<lparr>red := R\<rparr>)
      | (Inr _, R) \<Rightarrow>
          if ExistsByEmail (en_lc E) email (db st) then (Inl (AuthErr ''email already registered''), st\<lparr>red := R\<rparr>)
          else (Inr tok, st\<lparr>red := rset now (minutes 10) (otp_meta_key email tok) (RMeta email 0)
                  (rset now (minutes 10) (otp_code_key email tok) (RStr otp) R)\<rparr>))"

definition ResendEmailVerificationOTP ::
  "bool \<Rightarrow> instant \<Rightarrow> string \<Rightarrow> string \<Rightarrow> string \<Rightarrow> auth_state \<Rightarrow> (auth_error + string) \<times> auth_state" where
  "ResendEmailVerificationOTP up now otp tok email st =
     (case otp_guard up now email (red st) of
        (Inl e, R) \<Rightarrow> (Inl e, st\<lparr>red := R\<rparr>)
      | (Inr _, R) \<Rightarrow>
          (case (rget now (otp_code_key email tok) R, rget now (otp_meta_key email tok) R) of
             (Some _, Some (RMeta e n)) \<Rightarrow>
               if 3 \<le> n then (Inl (AuthErr ''maximum resend attempts reached''), st\<lparr>red := R\<rparr>)
               else (Inr tok, st\<lparr>red := rset now (minutes 10) (otp_meta_key email tok) (RMeta e (n + 1))
                       (rset now (minutes 10) (otp_code_key email tok) (RStr otp) R)\<rparr>)
           | _ \<Rightarrow> (Inl (AuthErr ''OTP session expired''), st\<lparr>red := R\<rparr>)))"

definition VerifyEmailOTP ::
  "bool \<Rightarrow> instant \<Rightarrow> string \<Rightarrow> string \<Rightarrow> string \<Rightarrow> string \<Rightarrow> auth_state \<Rightarrow> (auth_error + string) \<times> auth_state" where
  "VerifyEmailOTP up now fresh email tok otp st =
     (if \<not> up then (Inl (AuthErr ''failed to verify OTP''), st)
      else (case rget now (otp_code_key email tok) (red st) of
          Some (RStr code) \<Rightarrow>
            if code \<noteq> otp then (Inl (AuthErr ''invalid OTP code''), st)
            else (Inr fresh, st\<lparr>red := rset now (minutes 60) (verified_key fresh) (RStr email)
                    (rdel (otp_code_key email tok) (red st))\<rparr>)
        | Some _ \<Rightarrow> (Inl (AuthErr ''failed to verify OTP''), st)
        | None \<Rightarrow> (Inl (AuthErr ''OTP expired or invalid''), st)))"

section \<open>Administration\<close>

definition CreateAdmin ::
  "env \<Rightarrow> instant \<Rightarrow> string \<Rightarrow> string \<Rightarrow> string \<Rightarrow> string \<Rightarrow> auth_db \<Rightarrow> (auth_error + id \<times> string) \<times> auth_db" where
  "CreateAdmin E now pw email phone name d =
     (if ExistsByEmail (en_lc E) email d then (Inl ErrDuplicateEntry, d)
      else (case en_hash E pw of
          None \<Rightarrow> (Inl (AuthErr ''failed to hash password''), d)
        | Some h \<Rightarrow> (case create_account E now (Some email) (nullable phone) ''active'' h (Some name) ''admin'' d of
            (Inl e, d) \<Rightarrow> (Inl e, d)
          | (Inr (i, p), d) \<Rightarrow> (Inr (iy_id i, pw), d))))"

definition ListAdmins :: "auth_error + unit" where
  "ListAdmins = Inl (AuthErr ''not implemented'')"

definition DeactivateUser :: "bool \<Rightarrow> instant \<Rightarrow> id \<Rightarrow> auth_state \<Rightarrow> (auth_error + unit) \<times> auth_state" where
  "DeactivateUser up now n st = LogoutAllSessions up now n (st\<lparr>db := UpdateIdentityStatus now n ''inactive'' (db st)\<rparr>)"

definition EnsureSuperAdminExists ::
  "env \<Rightarrow> instant \<Rightarrow> string \<Rightarrow> string \<Rightarrow> string \<Rightarrow> auth_db \<Rightarrow> (auth_error + unit) \<times> auth_db" where
  "EnsureSuperAdminExists E now email pw name d =
     (if SuperAdminExists d then (Inr (), d)
      else if email = [] \<or> pw = [] \<or> name = [] then (Inl (AuthErr ''super admin credentials must be provided''), d)
      else if ExistsByEmail (en_lc E) email d then (Inl (AuthErr ''email already exists''), d)
      else (case en_hash E pw of
          None \<Rightarrow> (Inl (AuthErr ''failed to hash password''), d)
        | Some h \<Rightarrow> (case create_account E now (Some email) None ''active'' h (Some name) ''super_admin'' d of
            (Inl e, d) \<Rightarrow> (Inl e, d)
          | (Inr _, d) \<Rightarrow> (Inr (), d))))"

text \<open>A deletion by an administrator; the calls that end the user's sessions are best effort.\<close>

definition AdminDeleteUser :: "bool \<Rightarrow> instant \<Rightarrow> id \<Rightarrow> auth_state \<Rightarrow> (auth_error + unit) \<times> auth_state" where
  "AdminDeleteUser up now n st =
     (if list_ex (\<lambda>i. iy_id i = n \<and> live_identity i) (identities (db st))
      then (Inr (), snd (LogoutAllSessions up now n (st\<lparr>db := (db st)\<lparr>identities := update_where (\<lambda>i. iy_id i = n \<and> live_identity i)
             (\<lambda>i. i\<lparr>iy_deleted := Some now, iy_status := ''inactive'', iy_updated := now\<rparr>) (identities (db st))\<rparr>\<rparr>)))
      else (Inl ErrNotFound, st))"

text \<open>\<open>generateOTP\<close> and \<open>generateTemporaryPassword\<close>: a random byte picks a character of the alphabet.\<close>

definition pick_chars :: "string \<Rightarrow> nat list \<Rightarrow> string" where
  "pick_chars charset bs = map (\<lambda>b. charset ! (b mod length charset)) bs"

definition generateOTP :: "nat list \<Rightarrow> string" where
  "generateOTP bs = pick_chars ''0123456789'' bs"

definition generateTemporaryPassword :: "nat list \<Rightarrow> string" where
  "generateTemporaryPassword bs =
     pick_chars ''abcdefghijklmnopqrstuvwxyzABCDEFGHIJKLMNOPQRSTUVWXYZ0123456789!@#$%'' bs"

end
