(* ===== verification/Auth_Admin.thy ===== *)
theory Auth_Admin
  imports Auth_Data
begin

text \<open>
  The administration queries over identities (\<open>repository/postgres/auth_mngt.go\<close>) and the service methods
  that wrap them (\<open>service/auth/auth_mngt.go\<close>). \<open>DISTINCT\<close> inside the role aggregate keeps one copy of each
  name; the collation order of the copies is left out.
\<close>

section \<open>Rows\<close>

record admin_user =
  au_id :: id
  au_email :: "string option"
  au_name :: "string option"
  au_avatar :: "string option"
  au_status :: string
  au_created :: instant
  au_login :: "instant option"
  au_roles :: "string list"

definition profile_of :: "id \<Rightarrow> auth_db \<Rightarrow> profile option" where
  "profile_of n d = List.find (\<lambda>p. pf_identity p = n) (profiles d)"

definition full_name_of :: "id \<Rightarrow> auth_db \<Rightarrow> string" where
  "full_name_of n d = (case profile_of n d of None \<Rightarrow> [] | Some p \<Rightarrow> (case pf_name p of None \<Rightarrow> [] | Some s \<Rightarrow> s))"

definition admin_row :: "instant \<Rightarrow> auth_db \<Rightarrow> identity \<Rightarrow> admin_user" where
  "admin_row now d i =
     (let name = full_name_of (iy_id i) d in
      \<lparr>au_id = iy_id i, au_email = iy_email i, au_name = (if name = [] then None else Some name),
       au_avatar = (case profile_of (iy_id i) d of None \<Rightarrow> None | Some p \<Rightarrow> pf_avatar p), au_status = iy_status i,
       au_created = iy_created i, au_login = iy_last_login i, au_roles = remdups (GetUserRoles now (iy_id i) d)\<rparr>)"

definition newest :: "identity \<Rightarrow> identity \<Rightarrow> bool" where
  "newest a b \<longleftrightarrow> iy_created b \<le> iy_created a"

definition live_rows :: "(identity \<Rightarrow> bool) \<Rightarrow> auth_db \<Rightarrow> identity list" where
  "live_rows P d = order_by newest (filter (\<lambda>i. live_identity i \<and> P i) (identities d))"

section \<open>Queries\<close>

definition clamp_page :: "int \<Rightarrow> int" where
  "clamp_page p = (if p \<le> 0 then 1 else p)"

definition clamp_size :: "int \<Rightarrow> int" where
  "clamp_size s = (let s = (if s \<le> 0 then 20 else s) in if 100 < s then 100 else s)"

definition repo_AdminListUsers :: "instant \<Rightarrow> int \<Rightarrow> int \<Rightarrow> auth_db \<Rightarrow> admin_user list \<times> int" where
  "repo_AdminListUsers now page sz d =
     (let n = nat (clamp_size sz); k = nat ((clamp_page page - 1) * clamp_size sz)
      in (map (admin_row now d) (take n (drop k (live_rows (\<lambda>_. True) d))), int (length (live_rows (\<lambda>_. True) d))))"

definition repo_AdminGetUser :: "instant \<Rightarrow> id \<Rightarrow> auth_db \<Rightarrow> auth_error + admin_user" where
  "repo_AdminGetUser now n d =
     map_sum id (admin_row now d) (scan_row_of (List.find (\<lambda>i. live_identity i \<and> iy_id i = n) (identities d)))"

text \<open>\<open>LIKE\<close>: \<open>%\<close> is any run of characters, \<open>_\<close> one character, and a backslash takes the next one literally.\<close>

definition next_rune :: "string \<Rightarrow> string" where
  "next_rune s = (case s of [] \<Rightarrow> [] | c # cs \<Rightarrow> dropWhile cont_byte cs)"

function sql_like :: "string \<Rightarrow> string \<Rightarrow> bool" where
  "sql_like [] s = (s = [])"
| "sql_like (c # p) s =
     (if c = CHR ''%'' then sql_like p s \<or> (case s of [] \<Rightarrow> False | x # t \<Rightarrow> sql_like (c # p) t)
      else if c = CHR ''_'' then s \<noteq> [] \<and> sql_like p (next_rune s)
      else if c = CHR 0x5C then (case p of [] \<Rightarrow> False | e # q \<Rightarrow> s \<noteq> [] \<and> hd s = e \<and> sql_like q (tl s))
      else s \<noteq> [] \<and> hd s = c \<and> sql_like p (tl s))"
  by pat_completeness auto
termination
  by (relation "measures [\<lambda>(p, s). length p, \<lambda>(p, s). length s]") auto

definition user_matches :: "(string \<Rightarrow> string) \<Rightarrow> string \<Rightarrow> auth_db \<Rightarrow> identity \<Rightarrow> bool" where
  "user_matches lc q d i =
     (let pat = lc (''%'' @ q @ ''%'')
      in sql_like pat (lc (case iy_email i of None \<Rightarrow> [] | Some e \<Rightarrow> e)) \<or> sql_like pat (lc (full_name_of (iy_id i) d)))"

definition clamp_limit :: "int \<Rightarrow> int" where
  "clamp_limit k = (let k = (if k \<le> 0 then 10 else k) in if 50 < k then 50 else k)"

definition repo_AdminSearchUsers :: "(string \<Rightarrow> string) \<Rightarrow> instant \<Rightarrow> string \<Rightarrow> int \<Rightarrow> auth_db \<Rightarrow> admin_user list" where
  "repo_AdminSearchUsers lc now q k d =
     (let t = trim_space q
      in if t = [] then []
         else map (admin_row now d) (take (nat (clamp_limit k)) (live_rows (user_matches lc t d) d)))"

definition repo_AdminDeleteUser :: "instant \<Rightarrow> id \<Rightarrow> auth_db \<Rightarrow> (auth_error + unit) \<times> auth_db" where
  "repo_AdminDeleteUser now n d =
     (if list_ex (\<lambda>i. iy_id i = n \<and> live_identity i) (identities d)
      then (Inr (), d\<lparr>identities := update_where (\<lambda>i. iy_id i = n \<and> live_identity i)
             (\<lambda>i. i\<lparr>iy_deleted := Some now, iy_status := ''inactive'', iy_updated := now\<rparr>) (identities d)\<rparr>)
      else (Inl ErrNotFound, d))"

record user_stats =
  us_total :: int
  us_active :: int
  us_inactive :: int
  us_suspended :: int
  us_pending :: int
  us_admin :: int
  us_super :: int

definition with_status :: "string \<Rightarrow> auth_db \<Rightarrow> int" where
  "with_status s d = int (length (filter (\<lambda>i. live_identity i \<and> iy_status i = s) (identities d)))"

definition with_role :: "instant \<Rightarrow> string \<Rightarrow> auth_db \<Rightarrow> int" where
  "with_role now name d =
     int (length (filter (\<lambda>(a, r). ro_id r = as_role a \<and> ro_name r = name \<and> ro_active r \<and> as_active a
            \<and> unexpired now (as_expires a) \<and> list_ex (\<lambda>i. iy_id i = as_identity a \<and> live_identity i) (identities d))
          (List.product (assignments d) (roles d))))"

definition repo_AdminUserStats :: "instant \<Rightarrow> auth_db \<Rightarrow> user_stats" where
  "repo_AdminUserStats now d =
     \<lparr>us_total = int (length (filter live_identity (identities d))), us_active = with_status ''active'' d,
      us_inactive = with_status ''inactive'' d, us_suspended = with_status ''suspended'' d,
      us_pending = with_status ''pending_verification'' d, us_admin = with_role now ''admin'' d,
      us_super = with_role now ''super_admin'' d\<rparr>"

section \<open>Service\<close>

record user_card =
  uc_id :: id
  uc_email :: string
  uc_name :: string
  uc_avatar :: string
  uc_status :: string
  uc_roles :: "string list"
  uc_created :: instant
  uc_login :: "instant option"

definition null_string :: "string option \<Rightarrow> string" where
  "null_string s = (case s of None \<Rightarrow> [] | Some x \<Rightarrow> x)"

definition card :: "admin_user \<Rightarrow> user_card" where
  "card r = \<lparr>uc_id = au_id r, uc_email = null_string (au_email r), uc_name = null_string (au_name r),
     uc_avatar = null_string (au_avatar r), uc_status = au_status r, uc_roles = au_roles r, uc_created = au_created r,
     uc_login = au_login r\<rparr>"

text \<open>The page and size of the answer are the ones asked for, not the ones used.\<close>

record users_page =
  up_items :: "user_card list"
  up_total :: int
  up_page :: int
  up_size :: int

definition AdminListUsers :: "instant \<Rightarrow> int \<Rightarrow> int \<Rightarrow> auth_db \<Rightarrow> users_page" where
  "AdminListUsers now page sz d =
     (let (rows, total) = repo_AdminListUsers now page sz d
      in \<lparr>up_items = map card rows, up_total = total, up_page = page, up_size = sz\<rparr>)"

definition AdminGetUser :: "instant \<Rightarrow> id \<Rightarrow> auth_db \<Rightarrow> auth_error + user_card" where
  "AdminGetUser now n d = map_sum id card (repo_AdminGetUser now n d)"

definition AdminSearchUsers :: "(string \<Rightarrow> string) \<Rightarrow> instant \<Rightarrow> string \<Rightarrow> int \<Rightarrow> auth_db \<Rightarrow> user_card list" where
  "AdminSearchUsers lc now q k d = map card (repo_AdminSearchUsers lc now q k d)"

definition AdminUserStats :: "instant \<Rightarrow> auth_db \<Rightarrow> user_stats" where
  "AdminUserStats now d = repo_AdminUserStats now d"

text \<open>Every live account has one of the four statuses, so the status counts add up.\<close>

definition statuses_ok :: "auth_db \<Rightarrow> bool" where
  "statuses_ok d \<longleftrightarrow> (\<forall>i \<in> set (identities d). account_status (iy_status i))"

lemma stats_add_up:
  assumes "statuses_ok d"
  shows "(let s = AdminUserStats now d in us_total s = us_active s + us_inactive s + us_suspended s + us_pending s)"
proof -
  have "int (length (filter live_identity t)) =
      int (length (filter (\<lambda>i. live_identity i \<and> iy_status i = ''active'') t))
    + int (length (filter (\<lambda>i. live_identity i \<and> iy_status i = ''inactive'') t))
    + int (length (filter (\<lambda>i. live_identity i \<and> iy_status i = ''suspended'') t))
    + int (length (filter (\<lambda>i. live_identity i \<and> iy_status i = ''pending_verification'') t))"
    if "\<forall>i \<in> set t. account_status (iy_status i)" for t
    using that by (induction t) (auto simp: account_status_def)
  then show ?thesis
    using assms by (simp add: statuses_ok_def AdminUserStats_def repo_AdminUserStats_def with_status_def Let_def)
qed

end
