(* ===== verification/Auth_Safety.thy ===== *)
theory Auth_Safety
  imports Auth Auth_Admin
begin

text \<open>
  The authentication service as a transition system: every call of the service and every pending
  goroutine is a step, in any order, with a clock that never runs backwards. Invariants of its runs and
  the properties of the single calls.
\<close>

section \<open>Runs\<close>

text \<open>One step at time \<open>now\<close>. Redis may be up or down at each step; arguments are arbitrary.\<close>

inductive auth_step :: "env \<Rightarrow> instant \<Rightarrow> auth_state \<Rightarrow> auth_state \<Rightarrow> bool" for E now where
  login: "Login E up now ja jr q st = (r, st') \<Longrightarrow> auth_step E now st st'"
| register: "Register E up now ja jr tok q st = (r, st') \<Longrightarrow> auth_step E now st st'"
| validate: "ValidateToken E up now tok st = (r, st') \<Longrightarrow> auth_step E now st st'"
| logout: "Logout E up now n jti st = (r, st') \<Longrightarrow> auth_step E now st st'"
| revoke: "RevokeSession E up now n jti st = (r, st') \<Longrightarrow> auth_step E now st st'"
| logout_all: "LogoutAllSessions up now n st = (r, st') \<Longrightarrow> auth_step E now st st'"
| change_password: "ChangePassword E up now n old new st = (r, st') \<Longrightarrow> auth_step E now st st'"
| forgot: "ForgotPassword E up now tok email st = (r, st') \<Longrightarrow> auth_step E now st st'"
| reset: "ResetPassword E up now tok new st = (r, st') \<Longrightarrow> auth_step E now st st'"
| profile: "UpdateProfile now n a b c m (db st) = (r, d) \<Longrightarrow> auth_step E now st (st\<lparr>db := d\<rparr>)"
| verify_email: "VerifyEmail now tok (db st) = (r, d) \<Longrightarrow> auth_step E now st (st\<lparr>db := d\<rparr>)"
| resend: "ResendEmailVerification now tok n (db st) = (r, d) \<Longrightarrow> auth_step E now st (st\<lparr>db := d\<rparr>)"
| send_otp: "SendEmailVerificationOTP E up now otp tok email st = (r, st') \<Longrightarrow> auth_step E now st st'"
| resend_otp: "ResendEmailVerificationOTP up now otp tok email st = (r, st') \<Longrightarrow> auth_step E now st st'"
| verify_otp: "VerifyEmailOTP up now fresh email tok otp st = (r, st') \<Longrightarrow> auth_step E now st st'"
| create_admin: "CreateAdmin E now pw email phone name (db st) = (r, d) \<Longrightarrow> auth_step E now st (st\<lparr>db := d\<rparr>)"
| deactivate: "DeactivateUser up now n st = (r, st') \<Longrightarrow> auth_step E now st st'"
| super_admin: "EnsureSuperAdminExists E now email pw name (db st) = (r, d) \<Longrightarrow> auth_step E now st (st\<lparr>db := d\<rparr>)"
| delete_user: "AdminDeleteUser up now n st = (r, st') \<Longrightarrow> auth_step E now st st'"
| background: "a \<in> set (pend st) \<Longrightarrow> auth_step E now st (run_async up now a (st\<lparr>pend := remove1 a (pend st)\<rparr>))"

inductive auth_run :: "env \<Rightarrow> instant \<Rightarrow> auth_state \<Rightarrow> instant \<Rightarrow> auth_state \<Rightarrow> bool" for E where
  start: "auth_run E now st now st"
| wait: "auth_run E now st t st' \<Longrightarrow> t \<le> t' \<Longrightarrow> auth_run E now st t' st'"
| step: "auth_run E now st t st' \<Longrightarrow> auth_step E t st' st'' \<Longrightarrow> auth_run E now st t st''"

lemma auth_run_time: "auth_run E now st t st' \<Longrightarrow> now \<le> t"
  by (induction rule: auth_run.induct) auto

section \<open>The blacklist only grows\<close>

text \<open>Every other key of the program starts with another letter.\<close>

definition other_key :: "string \<Rightarrow> bool" where
  "other_key k \<longleftrightarrow> (\<forall>j. k \<noteq> blacklistKey j)"

lemma other_keys [simp]:
  "other_key (sessionKey n j)" "other_key (login_key a b)" "other_key (reset_limit_key e)"
  "other_key (verified_key t)" "other_key (reset_key n)" "other_key (otp_code_key a b)" "other_key (otp_meta_key a b)"
  "other_key (verify_short_key e)" "other_key (verify_long_key e)" "other_key (verify_lock_key e)"
  by (simp_all add: other_key_def blacklistKey_def sessionKey_def login_key_def reset_limit_key_def verified_key_def reset_key_def
      otp_code_key_def otp_meta_key_def verify_short_key_def verify_long_key_def verify_lock_key_def)

lemma session_pattern_other [simp]: "\<not> prefix (sessionPattern n) (blacklistKey j)"
  by (simp add: sessionPattern_def blacklistKey_def)

definition banned :: "string \<Rightarrow> instant \<Rightarrow> redis \<Rightarrow> bool" where
  "banned jti e R \<longleftrightarrow> (\<exists>v t. map_of R (blacklistKey jti) = Some (v, Some t) \<and> e \<le> t)"

named_theorems ban "operations that keep a blacklist entry"

lemma ban_put [ban]: "banned j e R \<Longrightarrow> other_key k \<Longrightarrow> banned j e (rput k x R)"
  by (auto simp: banned_def other_key_def)

lemma ban_set [ban]: "banned j e R \<Longrightarrow> other_key k \<Longrightarrow> banned j e (rset now ttl k v R)"
  by (simp add: rset_def ban_put)

lemma ban_del [ban]: "banned j e R \<Longrightarrow> other_key k \<Longrightarrow> banned j e (rdel k R)"
  by (auto simp: banned_def other_key_def)

lemma ban_del_prefix [ban]: "banned j e R \<Longrightarrow> banned j e (rdel_prefix (sessionPattern n) R)"
  by (simp add: banned_def)

lemma ban_bump [ban]: "banned j e R \<Longrightarrow> other_key k \<Longrightarrow> banned j e (snd (bump up now k w R))"
  by (auto simp: bump_def rincr_def rexpire_def ban_put split: option.splits rval.splits sum.splits)

lemma ban_limit [ban]: "banned j e R \<Longrightarrow> other_key k \<Longrightarrow> banned j e (snd (checkLimit up now k m w R))"
  using ban_bump [of j e R k up now w] by (auto simp: checkLimit_def split: prod.splits)

lemma ban_login [ban]: "banned j e R \<Longrightarrow> banned j e (snd (CheckLoginAttempt up now ip email R))"
  using ban_bump [of j e R "login_key ip email" up now "minutes 15"] by (auto simp: CheckLoginAttempt_def split: prod.splits)

lemma ban_reset_attempt [ban]: "banned j e R \<Longrightarrow> banned j e (snd (CheckPasswordResetAttempt up now email R))"
  by (simp add: CheckPasswordResetAttempt_def ban_limit)

lemma ban_verify_attempt [ban]: "banned j e R \<Longrightarrow> banned j e (snd (CheckEmailVerificationAttempt up now email R))"
proof -
  assume *: "banned j e R"
  obtain r1 R1 where 1: "bump up now (verify_short_key email) (minutes 1) R = (r1, R1)" by (cases "bump up now (verify_short_key email) (minutes 1) R")
  have R1: "banned j e R1" using ban_bump [OF *, of "verify_short_key email" up now "minutes 1"] 1 by simp
  obtain r2 R2 where 2: "bump up now (verify_long_key email) (minutes 30) R1 = (r2, R2)" by (cases "bump up now (verify_long_key email) (minutes 30) R1")
  have R2: "banned j e R2" using ban_bump [OF R1, of "verify_long_key email" up now "minutes 30"] 2 by simp
  show ?thesis
    using R1 R2 by (auto simp: CheckEmailVerificationAttempt_def 1 2 LockEmailVerification_def ban_set split: sum.splits)
qed

lemma ban_otp_guard [ban]: "banned j e R \<Longrightarrow> banned j e (snd (otp_guard up now email R))"
  using ban_verify_attempt [of j e R up now email]
  by (auto simp: otp_guard_def split: sum.splits option.splits prod.splits)

lemma ban_mgr_create [ban]: "banned j e (red st) \<Longrightarrow> banned j e (red (snd (mgr_CreateSession up now s st)))"
  by (simp add: mgr_CreateSession_def Let_def ban_set)

lemma ban_get_session [ban]: "banned j e (red st) \<Longrightarrow> banned j e (red (snd (GetSession up now n i st)))"
  by (simp add: GetSession_def Let_def split: option.splits rval.splits sum.splits)

lemma ban_invalidate [ban]: "banned j e (red st) \<Longrightarrow> banned j e (red (snd (InvalidateSession up now n i st)))"
  by (simp add: InvalidateSession_def Let_def ban_del split: sum.splits)

lemma ban_invalidate_all [ban]: "banned j e (red st) \<Longrightarrow> banned j e (red (snd (LogoutAllSessions up now n st)))"
  by (simp add: LogoutAllSessions_def InvalidateAllUserSessions_def Let_def ban_del_prefix split: sum.splits)

lemma ban_blacklist:
  assumes "banned j e (red st)" "e \<le> now + ttl" "0 < ttl"
  shows "banned j e (red (snd (BlacklistToken up now i ttl st)))"
  using assms by (auto simp: BlacklistToken_def banned_def rset_def blacklistKey_def)

lemma ban_login_identity [ban]:
  "banned j e (red st) \<Longrightarrow> banned j e (red (snd (loginWithIdentity E up now ja jr i p device ip agent st)))"
proof -
  assume *: "banned j e (red st)"
  have "banned j e (red (snd (mgr_CreateSession up now s (st\<lparr>db := d\<rparr>))))" for s d using * by (simp add: ban_mgr_create)
  then have "banned j e (red st')" if "mgr_CreateSession up now s (st\<lparr>db := d\<rparr>) = (r, st')" for s d r st' using that by (metis snd_conv)
  then show ?thesis using * by (auto simp: loginWithIdentity_def Let_def split: sum.splits prod.splits)
qed

lemma ban_async [ban]: "banned j e (red st) \<Longrightarrow> banned j e (red (run_async up now a st))"
  by (cases a) (auto simp: touch_write_def restoreToRedis_def Let_def ban_set ban_mgr_create split: option.splits)

lemma ban_login_step [ban]: "banned j e (red st) \<Longrightarrow> banned j e (red (snd (Login E up now ja jr q st)))"
proof -
  assume *: "banned j e (red st)"
  obtain r R where c: "CheckLoginAttempt up now (lr_ip q) (lr_email q) (red st) = (r, R)"
    by (cases "CheckLoginAttempt up now (lr_ip q) (lr_email q) (red st)")
  have R: "banned j e R" using ban_login [OF *, of up now "lr_ip q" "lr_email q"] c by simp
  have "banned j e (ResetLoginAttempts up (lr_ip q) (lr_email q) R)" using R by (simp add: ResetLoginAttempts_def ban_del)
  then have "banned j e (red (snd (loginWithIdentity E up now ja jr i p a b f
      (st\<lparr>db := d, red := ResetLoginAttempts up (lr_ip q) (lr_email q) R\<rparr>))))" for i p a b f d
    by (intro ban_login_identity) simp
  then show ?thesis using R by (auto simp: Login_def c Let_def split: sum.splits)
qed

lemma ban_register [ban]: "banned j e (red st) \<Longrightarrow> banned j e (red (snd (Register E up now ja jr tok q st)))"
proof -
  assume *: "banned j e (red st)"
  obtain r st1 where g: "register_guard E up now q st = (r, st1)" by (cases "register_guard E up now q st")
  then have st1: "banned j e (red st1)" using * by (auto simp: register_guard_def ban_del split: if_splits sum.splits)
  then have "banned j e (red (snd (loginWithIdentity E up now ja jr i p a b f (st1\<lparr>db := d\<rparr>))))" for i p a b f d
    by (intro ban_login_identity) simp
  then show ?thesis using st1 by (auto simp: Register_def g Let_def split: sum.splits option.splits prod.splits)
qed

lemma ban_validate [ban]: "banned j e (red st) \<Longrightarrow> banned j e (red (snd (ValidateToken E up now tok st)))"
proof -
  assume *: "banned j e (red st)"
  then have "banned j e (red st')" if "GetSession up now n i st = (r, st')" for n i r st' using ban_get_session that by (metis snd_conv)
  then show ?thesis using * by (auto simp: ValidateToken_def split: sum.splits prod.splits)
qed

lemma ban_logout:
  assumes "banned j e (red st)" "e \<le> now + ge_ttl (en_gen E)" "0 < ge_ttl (en_gen E)"
  shows "banned j e (red (snd (Logout E up now n i st)))" "banned j e (red (snd (RevokeSession E up now n i st)))"
proof -
  obtain r st1 where i: "InvalidateSession up now n i st = (r, st1)" by (cases "InvalidateSession up now n i st")
  have st1: "banned j e (red st1)" using ban_invalidate [OF assms(1), of up now n i] i by simp
  obtain r2 st2 where b: "BlacklistToken up now i (ge_ttl (en_gen E)) st1 = (r2, st2)"
    by (cases "BlacklistToken up now i (ge_ttl (en_gen E)) st1")
  have "banned j e (red st2)" using ban_blacklist [OF st1 assms(2,3), of up i] b by simp
  then show "banned j e (red (snd (Logout E up now n i st)))" "banned j e (red (snd (RevokeSession E up now n i st)))"
    using st1 by (simp_all add: Logout_def RevokeSession_def i b split: sum.splits)
qed

lemma ban_passwords [ban]:
  assumes "banned j e (red st)"
  shows "banned j e (red (snd (ChangePassword E up now n old new st)))"
    "banned j e (red (snd (ForgotPassword E up now tok email st)))"
    "banned j e (red (snd (ResetPassword E up now tok new st)))"
proof -
  show "banned j e (red (snd (ChangePassword E up now n old new st)))"
    using assms by (auto simp: ChangePassword_def intro!: ban_invalidate_all split: sum.splits)
  obtain r R where c: "CheckPasswordResetAttempt up now email (red st) = (r, R)"
    by (cases "CheckPasswordResetAttempt up now email (red st)")
  have "banned j e R" using ban_reset_attempt [OF assms, of up now email] c by simp
  then show "banned j e (red (snd (ForgotPassword E up now tok email st)))"
    by (auto simp: ForgotPassword_def c Let_def ban_set split: sum.splits prod.splits)
  show "banned j e (red (snd (ResetPassword E up now tok new st)))"
    using assms by (auto simp: ResetPassword_def ban_del intro!: ban_invalidate_all split: sum.splits)
qed

lemma ban_codes [ban]:
  assumes "banned j e (red st)"
  shows "banned j e (red (snd (SendEmailVerificationOTP E up now otp tok email st)))"
    "banned j e (red (snd (ResendEmailVerificationOTP up now otp tok email st)))"
    "banned j e (red (snd (VerifyEmailOTP up now fresh email tok otp st)))"
proof -
  obtain r R where g: "otp_guard up now email (red st) = (r, R)" by (cases "otp_guard up now email (red st)")
  have R: "banned j e R" using ban_otp_guard [OF assms, of up now email] g by simp
  show "banned j e (red (snd (SendEmailVerificationOTP E up now otp tok email st)))"
    using R by (auto simp: SendEmailVerificationOTP_def g ban_set split: sum.splits)
  show "banned j e (red (snd (ResendEmailVerificationOTP up now otp tok email st)))"
    using R by (auto simp: ResendEmailVerificationOTP_def g ban_set split: sum.splits option.splits rval.splits)
  show "banned j e (red (snd (VerifyEmailOTP up now fresh email tok otp st)))"
    using assms by (auto simp: VerifyEmailOTP_def ban_set ban_del split: option.splits rval.splits)
qed

lemma ban_admin [ban]:
  "banned j e (red st) \<Longrightarrow> banned j e (red (snd (DeactivateUser up now n st)))"
  "banned j e (red st) \<Longrightarrow> banned j e (red (snd (AdminDeleteUser up now n st)))"
  by (auto simp: DeactivateUser_def AdminDeleteUser_def intro!: ban_invalidate_all)

lemma ban_snd: "x = (r, st') \<Longrightarrow> banned j e (red (snd x)) \<Longrightarrow> banned j e (red st')"
  by simp

lemma ban_step:
  assumes "auth_step E now st st'" "banned j e (red st)" "e \<le> now + ge_ttl (en_gen E)" "0 < ge_ttl (en_gen E)"
  shows "banned j e (red st')"
  using assms
proof (induction rule: auth_step.induct)
  case (background a st up)
  then have "banned j e (red (st\<lparr>pend := remove1 a (pend st)\<rparr>))" by simp
  then show ?case by (rule ban_async)
qed ((erule ban_snd, (rule ban ban_logout; assumption)) | simp)+

lemma ban_run:
  assumes "auth_run E now st t st'" "banned j e (red st)" "e \<le> now + ge_ttl (en_gen E)" "0 < ge_ttl (en_gen E)"
  shows "banned j e (red st')"
  using assms
proof (induction rule: auth_run.induct)
  case (step now st t st' st'')
  then show ?case using ban_step [of E t st' st''] auth_run_time [OF step.hyps(1)] by auto
qed auto

lemma logout_bans:
  "Logout E up now n jti st = (Inr (), st') \<Longrightarrow> 0 < ge_ttl (en_gen E) \<Longrightarrow> banned jti (now + ge_ttl (en_gen E)) (red st')"
  by (auto simp: Logout_def BlacklistToken_def rset_def banned_def split: sum.splits prod.splits if_splits)

lemma banned_blocks:
  "banned j e (red st) \<Longrightarrow> now < e \<Longrightarrow> VerifyAccessToken (en_jwt E) (en_ver E) now tok = Inr c \<Longrightarrow> cl_id c = j \<Longrightarrow>
   \<exists>x. ValidateToken E up now tok st = (Inl x, st)"
  by (auto simp: ValidateToken_def IsTokenBlacklisted_def banned_def rget_def unexpired_def split: prod.splits)

lemma verified_parses:
  "VerifyAccessToken L v now tok = Inr c \<Longrightarrow> parse_token L now tok = Some c"
  by (auto simp: VerifyAccessToken_def Verify_def split: if_splits sum.splits option.splits)

text \<open>What the code relies on in the JWT library: an expired token does not parse, and dates are rounded down.\<close>

definition checks_expiry :: "jwt_lib \<Rightarrow> bool" where
  "checks_expiry L \<longleftrightarrow> (\<forall>now tok c. parse_token L now tok = Some c \<longrightarrow> now < cl_exp c)"

section \<open>Who is verified\<close>

definition none_verified :: "auth_db \<Rightarrow> bool" where
  "none_verified d \<longleftrightarrow> (\<forall>i \<in> set (identities d). \<not> iy_email_verified i)"

named_theorems unverified "operations that leave the verification column alone"

lemma nv_create [unverified]: "none_verified d \<Longrightarrow> none_verified (snd (CreateIdentity lc now e p s d))"
  by (auto simp: none_verified_def CreateIdentity_def Let_def)

lemma nv_update [unverified]:
  "none_verified d \<Longrightarrow> (\<And>i. iy_email_verified (f i) = iy_email_verified i) \<Longrightarrow> none_verified (update_identity now n f d)"
  by (auto simp: none_verified_def update_identity_def set_update_where)

lemma nv_logins [unverified]:
  "none_verified d \<Longrightarrow> none_verified (UpdateIdentityLastLogin now n d)"
  "none_verified d \<Longrightarrow> none_verified (IncrementFailedLoginAttempts now dur n d)"
  "none_verified d \<Longrightarrow> none_verified (UpdateIdentityStatus now n s d)"
  by (simp_all add: UpdateIdentityLastLogin_def IncrementFailedLoginAttempts_def UpdateIdentityStatus_def nv_update)

text \<open>The other repository calls do not touch the identities.\<close>

lemma same_identities [simp]:
  "identities (snd (CreateProvider now p d)) = identities d" "identities (UpdateProviderPassword now n h d) = identities d"
  "identities (snd (db_CreateSession now s d)) = identities d" "identities (db_UpdateSessionActivity now n d) = identities d"
  "identities (db_InvalidateSession now n d) = identities d" "identities (db_InvalidateAllUserSessions now n d) = identities d"
  "identities (snd (CreateUserProfile now n nm d)) = identities d" "identities (snd (UpdateUserProfile now n r d)) = identities d"
  "identities (snd (CreateVerificationToken now n ty tok e d)) = identities d" "identities (MarkTokenAsUsed now n d) = identities d"
  "identities (snd (AssignRoleByName now n name d)) = identities d"
  by (simp_all add: CreateProvider_def UpdateProviderPassword_def db_CreateSession_def db_UpdateSessionActivity_def
      db_InvalidateSession_def db_InvalidateAllUserSessions_def CreateUserProfile_def UpdateUserProfile_def
      CreateVerificationToken_def MarkTokenAsUsed_def AssignRoleByName_def Let_def)

lemma nv_same: "identities d' = identities d \<Longrightarrow> none_verified d' = none_verified d"
  by (simp add: none_verified_def)

lemma nv_account [unverified]: "none_verified d \<Longrightarrow> none_verified (snd (create_account E now e p s h nm r d))"
proof -
  assume *: "none_verified d"
  obtain r1 d1 where 1: "CreateIdentity (en_lc E) now e p s d = (r1, d1)" by (cases "CreateIdentity (en_lc E) now e p s d")
  have d1: "none_verified d1" using nv_create [OF *, of "en_lc E" now e p s] 1 by simp
  show ?thesis
  proof (cases r1)
    case (Inr i)
    obtain r2 d2 where 2: "CreateProvider now (local_provider (iy_id i) h) d1 = (r2, d2)"
      by (cases "CreateProvider now (local_provider (iy_id i) h) d1")
    obtain r3 d3 where 3: "CreateUserProfile now (iy_id i) nm d2 = (r3, d3)" by (cases "CreateUserProfile now (iy_id i) nm d2")
    have "identities d2 = identities d1" "identities d3 = identities d2"
      using same_identities(1) [of now "local_provider (iy_id i) h" d1] same_identities(7) [of now "iy_id i" nm d2] 2 3 by simp_all
    then have "none_verified d2" "none_verified d3" using d1 nv_same by metis+
    then show ?thesis
      using nv_same [OF same_identities(11)] by (auto simp: create_account_def 1 2 3 Inr split: sum.splits)
  qed (use d1 1 in \<open>simp add: create_account_def\<close>)
qed

lemma ids_mgr [simp]: "identities (db (snd (mgr_CreateSession up now s st))) = identities (db st)"
  by (simp add: mgr_CreateSession_def Let_def)

lemma ids_sessions [simp]:
  "identities (db (snd (GetSession up now n j st))) = identities (db st)"
  "identities (db (snd (InvalidateSession up now n j st))) = identities (db st)"
  "identities (db (snd (BlacklistToken up now j t st))) = identities (db st)"
  "identities (db (snd (LogoutAllSessions up now n st))) = identities (db st)"
  "identities (db (run_async up now a st)) = identities (db st)"
  by (auto simp: GetSession_def InvalidateSession_def BlacklistToken_def LogoutAllSessions_def InvalidateAllUserSessions_def
      touch_write_def restoreToRedis_def Let_def split: option.splits rval.splits sum.splits)
     (cases a; simp add: touch_write_def restoreToRedis_def Let_def split: option.splits)

lemma ids_login_identity [simp]:
  "identities (db (snd (loginWithIdentity E up now ja jr i p a b c st))) = identities (db st)"
proof -
  have 1: "identities d = identities (db st)" if "db_CreateSession now s (db st) = (r, d)" for s r d
    using same_identities(3) [of now s "db st"] that by simp
  have 2: "identities (db st') = identities d" if "mgr_CreateSession up now s (st\<lparr>db := d\<rparr>) = (r, st')" for s r st' d
    using ids_mgr [of up now s "st\<lparr>db := d\<rparr>"] that by simp
  show ?thesis
    by (auto simp: loginWithIdentity_def Let_def 1 dest!: 2 split: sum.splits prod.splits)
qed

lemma send [simp]: "identities (snd (SendEmailVerification now t n d)) = identities d"
proof (cases "CreateVerificationToken now n ''email_verify'' t (now + minutes 1440) d")
  case (Pair r d')
  have "identities d' = identities d" using arg_cong [OF Pair, of "identities \<circ> snd"] by simp
  then show ?thesis by (cases r) (simp_all add: SendEmailVerification_def Pair)
qed

lemma nv_sames [simp]:
  "none_verified (UpdateProviderPassword now n h d) = none_verified d" "none_verified (MarkTokenAsUsed now n d) = none_verified d"
  "none_verified (snd (SendEmailVerification now t n d)) = none_verified d"
  "none_verified (db (snd (loginWithIdentity E up now ja jr i p a b c st))) = none_verified (db st)"
  by (simp_all add: none_verified_def)

lemma nv_login [unverified]: "none_verified (db st) \<Longrightarrow> none_verified (db (snd (Login E up now ja jr q st)))"
  by (auto simp: Login_def Let_def nv_logins split: sum.splits prod.splits)

lemma nv_register [unverified]: "none_verified (db st) \<Longrightarrow> none_verified (db (snd (Register E up now ja jr tok q st)))"
proof -
  assume *: "none_verified (db st)"
  obtain r st1 where g: "register_guard E up now q st = (r, st1)" by (cases "register_guard E up now q st")
  then have "db st1 = db st" by (auto simp: register_guard_def split: if_splits sum.splits)
  then have st1: "none_verified (db st1)" using * by simp
  have acc: "none_verified d" if "create_account E now a b c h nm ro (db st1) = (r, d)" for a b c h nm ro r d
    using nv_account [OF st1, of E now a b c h nm ro] that by simp
  have out: "none_verified (db (snd (loginWithIdentity E up now ja jr i p a b c (st1\<lparr>db := d\<rparr>))))" if "none_verified d" for i p a b c d
    using that by simp
  show ?thesis
  proof (cases "is_ok r \<and> \<not> (rr_phone q \<noteq> [] \<and> ExistsByPhone (rr_phone q) (db st1)) \<and> en_hash E (rr_password q) \<noteq> None")
    case True
    then obtain h where h: "en_hash E (rr_password q) = Some h" by auto
    let ?c = "create_account E now (Some (rr_email q)) (nullable (rr_phone q))
      (if rr_token q = [] then ''pending_verification'' else ''active'') h (nullable (register_name q)) ''user'' (db st1)"
    obtain r2 d where c: "?c = (r2, d)" by (cases ?c)
    have d: "none_verified d" using acc [OF c] .
    then have "none_verified (snd (SendEmailVerification now tok n d))" for n by simp
    then show ?thesis using True h c d out
      by (cases r2) (auto simp: Register_def g is_ok_iff Let_def)
  next
    case False
    then show ?thesis using st1 by (cases r) (auto simp: Register_def g split: option.splits)
  qed
qed

lemma nv_sessions [unverified]:
  assumes "none_verified (db st)"
  shows "none_verified (db (snd (ValidateToken E up now tok st)))" "none_verified (db (snd (Logout E up now n j st)))"
    "none_verified (db (snd (RevokeSession E up now n j st)))" "none_verified (db (snd (LogoutAllSessions up now n st)))"
    "none_verified (db (run_async up now a st))"
proof -
  have 1: "none_verified (db st')" if "GetSession up now n i st = (r, st')" for n i r st'
    using ids_sessions(1) [of up now n i st] that assms nv_same by (metis snd_conv)
  have 2: "none_verified (db st2)"
    if "InvalidateSession up now n i st = (r, st1)" "BlacklistToken up now i t st1 = (r2, st2)" for n i t r r2 st1 st2
    using ids_sessions(2) [of up now n i st] ids_sessions(3) [of up now i t st1] that assms nv_same by (metis snd_conv)
  have 3: "none_verified (db st1)" if "InvalidateSession up now n i st = (r, st1)" for n i r st1
    using ids_sessions(2) [of up now n i st] that assms nv_same by (metis snd_conv)
  show "none_verified (db (snd (ValidateToken E up now tok st)))"
    using assms by (auto simp: ValidateToken_def intro: 1 split: sum.splits prod.splits)
  show "none_verified (db (snd (Logout E up now n j st)))" "none_verified (db (snd (RevokeSession E up now n j st)))"
    using assms by (auto simp: Logout_def RevokeSession_def intro: 2 3 split: sum.splits prod.splits)
  show "none_verified (db (snd (LogoutAllSessions up now n st)))" "none_verified (db (run_async up now a st))"
    using assms nv_same by (metis ids_sessions(4), metis ids_sessions(5))
qed

lemma nv_set_password: "set_password E now p w d = Inr d' \<Longrightarrow> none_verified d \<Longrightarrow> none_verified d'"
  by (auto simp: set_password_def none_verified_def split: option.splits)

lemma nv_logout_all: "none_verified (db st) \<Longrightarrow> none_verified (db (snd (LogoutAllSessions up now n st)))"
  by (rule nv_sessions)

lemma nv_change [unverified]:
  "none_verified (db st) \<Longrightarrow> none_verified (db (snd (ChangePassword E up now n old new st)))"
  by (auto simp: ChangePassword_def split: sum.splits dest: nv_set_password intro!: nv_logout_all)

lemma nv_reset [unverified]:
  "none_verified (db st) \<Longrightarrow> none_verified (db (snd (ResetPassword E up now tok new st)))"
  by (auto simp: ResetPassword_def split: sum.splits dest: nv_set_password intro!: nv_logout_all)

lemma nv_forgot [unverified]:
  assumes "none_verified (db st)"
  shows "none_verified (db (snd (ForgotPassword E up now tok email st)))"
proof -
  have "none_verified d" if "CreateVerificationToken now m ty t e (db st) = (r, d)" for m ty t e r d
    using same_identities(9) [of now m ty t e "db st"] that assms by (simp add: none_verified_def)
  then show ?thesis using assms by (simp add: ForgotPassword_def Let_def split: sum.splits prod.splits)
qed

lemma nv_profile [unverified]:
  assumes "none_verified d"
  shows "none_verified (snd (UpdateProfile now n a b c m d))"
proof -
  have "none_verified d'" if "UpdateUserProfile now n x d = (r, d')" for x r d'
    using same_identities(8) [of now n x d] that assms by (simp add: none_verified_def)
  then show ?thesis by (simp add: UpdateProfile_def split: sum.splits prod.splits)
qed

lemma nv_emails [unverified]:
  "none_verified d \<Longrightarrow> none_verified (snd (VerifyEmail now tok d))"
  "none_verified d \<Longrightarrow> none_verified (snd (ResendEmailVerification now tok n d))"
  by (auto simp: VerifyEmail_def ResendEmailVerification_def nv_logins split: sum.splits)

lemma nv_accounts [unverified]:
  assumes "none_verified d"
  shows "none_verified (snd (CreateAdmin E now pw email phone name d))"
    "none_verified (snd (EnsureSuperAdminExists E now email pw name d))"
proof -
  have "none_verified d'" if "create_account E now x y z h nm ro d = (r, d')" for x y z h nm ro r d'
    using nv_account [OF assms, of E now x y z h nm ro] that by simp
  then show "none_verified (snd (CreateAdmin E now pw email phone name d))"
    "none_verified (snd (EnsureSuperAdminExists E now email pw name d))"
    using assms by (simp_all add: CreateAdmin_def EnsureSuperAdminExists_def split: sum.splits prod.splits option.splits)
qed

lemma nv_codes [unverified]:
  assumes "none_verified (db st)"
  shows "none_verified (db (snd (SendEmailVerificationOTP E up now otp tok email st)))"
    "none_verified (db (snd (ResendEmailVerificationOTP up now otp tok email st)))"
    "none_verified (db (snd (VerifyEmailOTP up now fresh email tok otp st)))"
  using assms
  by (auto simp: SendEmailVerificationOTP_def ResendEmailVerificationOTP_def VerifyEmailOTP_def
      split: sum.splits prod.splits option.splits rval.splits)

lemma nv_admin [unverified]:
  assumes "none_verified (db st)"
  shows "none_verified (db (snd (DeactivateUser up now n st)))" "none_verified (db (snd (AdminDeleteUser up now n st)))"
proof -
  have "none_verified ((db st)\<lparr>identities := update_where P (\<lambda>i. i\<lparr>iy_deleted := Some now, iy_status := ''inactive'', iy_updated := now\<rparr>) (identities (db st))\<rparr>)" for P
    using assms by (auto simp: none_verified_def set_update_where)
  then show "none_verified (db (snd (AdminDeleteUser up now n st)))"
    using assms nv_sessions(4) [of "st\<lparr>db := d\<rparr>" for d] by (simp add: AdminDeleteUser_def)
  show "none_verified (db (snd (DeactivateUser up now n st)))"
    unfolding DeactivateUser_def using assms by (intro nv_sessions) (simp add: nv_logins)
qed

lemma nv_snd: "x = (r, st') \<Longrightarrow> none_verified (db (snd x)) \<Longrightarrow> none_verified (db st')"
  by simp

lemma nv_snd_db: "x = (r, d) \<Longrightarrow> none_verified (snd x) \<Longrightarrow> none_verified (db (st\<lparr>db := d\<rparr>))"
  by simp

lemma nv_step:
  assumes "auth_step E now st st'" "none_verified (db st)"
  shows "none_verified (db st')"
  using assms
proof (induction rule: auth_step.induct)
  case (background a st up)
  then have "none_verified (db (st\<lparr>pend := remove1 a (pend st)\<rparr>))" by simp
  then show ?case by (rule nv_sessions)
qed ((erule nv_snd, (rule unverified; assumption)) | (erule nv_snd_db, (rule unverified; assumption)))+

lemma nv_run: "auth_run E now st t st' \<Longrightarrow> none_verified (db st) \<Longrightarrow> none_verified (db st')"
  by (induction rule: auth_run.induct) (auto dest: nv_step)

section \<open>Sessions of a logged-out user\<close>

lemma session_pattern [simp]: "prefix (sessionPattern n) (sessionKey n jti)"
  by (simp add: sessionPattern_def sessionKey_def)

lemma logout_all_state:
  "LogoutAllSessions True now n st = (Inr (), st\<lparr>red := rdel_prefix (sessionPattern n) (red st),
     db := db_InvalidateAllUserSessions now n (db st)\<rparr>)"
  by (simp add: LogoutAllSessions_def InvalidateAllUserSessions_def)

lemma no_active_sessions:
  assumes "s \<in> set (sessions (db_InvalidateAllUserSessions now n d))" "se_identity s = n"
  shows "se_status s \<noteq> ''active''"
proof -
  let ?P = "\<lambda>s. se_identity s = n \<and> se_status s = ''active''"
  have "s \<in> (\<lambda>s. if ?P s then s\<lparr>se_status := ''revoked'', se_logout := Some now\<rparr> else s) ` set (sessions d)"
    using assms(1) by (simp add: db_InvalidateAllUserSessions_def set_update_where)
  then obtain x where x: "s = (if ?P x then x\<lparr>se_status := ''revoked'', se_logout := Some now\<rparr> else x)" by (rule imageE)
  show ?thesis
  proof (cases "?P x")
    case True
    then have "se_status s = ''revoked''" unfolding x by simp
    then show ?thesis by simp
  next
    case False
    then have "s = x" unfolding x by (rule if_not_P)
    then show ?thesis using False assms(2) by blast
  qed
qed

lemma no_session_after:
  assumes "red st = rdel_prefix (sessionPattern n) R" "db st = db_InvalidateAllUserSessions now n d"
  shows "\<exists>e. fst (GetSession True now n jti st) = Inl e"
proof -
  have miss: "rget now (sessionKey n jti) (red st) = None" by (simp add: rget_def assms(1))
  have "se_identity r \<noteq> n" if "FindSessionByToken now jti (db st) = Inr r" for r
    using that no_active_sessions [of r now n d] assms(2)
    by (auto simp: FindSessionByToken_def scan_row_of_def usable_session_def split: option.splits dest!: find_Some_iff_mem)
  then show ?thesis by (cases "FindSessionByToken now jti (db st)") (simp_all add: GetSession_def miss)
qed

lemma accept_iff:
  assumes "VerifyAccessToken (en_jwt E) (en_ver E) now tok = Inr c" "rget now (blacklistKey (cl_id c)) (red st) = None"
  shows "fst (ValidateToken E True now tok st) = (case fst (GetSession True now (cl_identity c) (cl_id c) st) of
     Inl _ \<Rightarrow> Inl (AuthErr ''session not found or expired'') | Inr _ \<Rightarrow> Inr c)"
  using assms by (auto simp: ValidateToken_def IsTokenBlacklisted_def split: sum.splits prod.splits)

section \<open>Properties\<close>

text \<open>A token that was logged out is refused ever after, whatever calls and goroutines run in between and
  in whatever order: its id is on the blacklist until the token itself has expired.\<close>

theorem logged_out_token_stays_out:
  assumes "checks_expiry (en_jwt E)" "0 < ge_ttl (en_gen E)"
    and "Logout E True now n jti st = (Inr (), st1)" "auth_run E now st1 t st2"
    and "\<And>c. parse_token (en_jwt E) t tok = Some c \<Longrightarrow> cl_id c = jti \<and> cl_exp c \<le> now + ge_ttl (en_gen E)"
  shows "\<exists>e. fst (ValidateToken E up t tok st2) = Inl e"
proof (cases "VerifyAccessToken (en_jwt E) (en_ver E) t tok")
  case (Inr c)
  then have c: "cl_id c = jti" "t < now + ge_ttl (en_gen E)"
    using assms(1,5) verified_parses [OF Inr] by (fastforce simp: checks_expiry_def)+
  have "banned jti (now + ge_ttl (en_gen E)) (red st2)"
    using ban_run [OF assms(4) logout_bans [OF assms(3,2)]] assms(2) by simp
  then obtain x where "ValidateToken E up t tok st2 = (Inl x, st2)" using banned_blocks [OF _ c(2) Inr c(1)] by blast
  then show ?thesis by simp
qed (simp add: ValidateToken_def)

text \<open>Ending all sessions of a user does not hold against a refresh of the last activity that had already
  read the session: once it writes, the ended session's token is accepted again, because nothing was put on
  the blacklist and the copy in Redis is trusted.\<close>

theorem logout_all_can_be_undone:
  assumes "TouchWrite n jti s \<in> set (pend st)" "now < sd_expires s"
    and "LogoutAllSessions True now n st = (Inr (), st1)" "rget now (blacklistKey jti) (red st) = None"
    and "VerifyAccessToken (en_jwt E) (en_ver E) now tok = Inr c" "cl_identity c = n" "cl_id c = jti"
  shows "(\<exists>e. fst (ValidateToken E True now tok st1) = Inl e)
    \<and> (\<exists>st2. auth_step E now st1 st2 \<and> fst (ValidateToken E True now tok st2) = Inr c)"
proof -
  let ?st2 = "run_async True now (TouchWrite n jti s) (st1\<lparr>pend := remove1 (TouchWrite n jti s) (pend st1)\<rparr>)"
  have st1: "st1 = st\<lparr>red := rdel_prefix (sessionPattern n) (red st), db := db_InvalidateAllUserSessions now n (db st)\<rparr>"
    using assms(3) by (simp add: logout_all_state)
  have bl1: "rget now (blacklistKey (cl_id c)) (red st1) = None" using assms(4,7) by (simp add: st1 rget_def)
  have "\<exists>e. fst (ValidateToken E True now tok st1) = Inl e"
    unfolding accept_iff [OF assms(5) bl1] using no_session_after [of st1 n "red st" now "db st" jti] assms(6,7) st1 by auto
  moreover have "auth_step E now st1 ?st2" by (rule auth_step.background) (use assms(1) in \<open>simp add: st1\<close>)
  moreover have "fst (ValidateToken E True now tok ?st2) = Inr c"
  proof -
    have red2: "red ?st2 = rset now (sd_expires s - now) (sessionKey n jti) (RSession s) (red st1)"
      using assms(2) by (simp add: touch_write_def Let_def)
    have "blacklistKey jti \<noteq> sessionKey n jti" by (simp add: blacklistKey_def sessionKey_def)
    then have "rget now (blacklistKey (cl_id c)) (red ?st2) = None" using bl1 assms(7) unfolding red2 by simp
    moreover have "rget now (sessionKey n jti) (red ?st2) = Some (RSession s)" using assms(2) unfolding red2 by simp
    then have "fst (GetSession True now n jti ?st2) = Inr (s\<lparr>sd_activity := now\<rparr>)" by (simp only: GetSession_def if_True) simp
    ultimately show ?thesis using accept_iff [OF assms(5), of ?st2] assms(6,7) by simp
  qed
  ultimately show ?thesis by blast
qed

text \<open>C18. No run of the service ever marks an e-mail address as verified, neither registration with a
  verified token, nor \<open>VerifyEmail\<close>, nor the creation of administrators: so \<open>ResendEmailVerification\<close> never
  answers that the address is already verified.\<close>

theorem email_is_never_marked_verified:
  assumes "auth_run E now st t st'" "none_verified (db st)"
  shows "none_verified (db st') \<and> fst (ResendEmailVerification u tok n (db st')) \<noteq> Inl (AuthErr ''email already verified'')"
proof -
  have nv: "none_verified (db st')" using assms by (rule nv_run)
  moreover have "fst (SendEmailVerification u tok n (db st')) \<noteq> Inl (AuthErr ''email already verified'')"
    by (simp add: SendEmailVerification_def CreateVerificationToken_def Let_def)
  moreover have "\<not> iy_email_verified i" if "FindIdentityByID n (db st') = Inr i" for i
    using that nv by (auto simp: FindIdentityByID_def scan_row_of_def none_verified_def dest: find_Some_iff_mem split: option.splits)
  ultimately show ?thesis by (auto simp: ResendEmailVerification_def split: sum.splits)
qed

text \<open>A permission revoked for one user is still granted when a role grants it: the condition that should
  exclude revoked permissions applies to the user's own grants only.\<close>

theorem revoked_permission_survives:
  assumes "p \<in> set (permissions d)" "from_role now n d (pm_id p)" "overridden False now n d (pm_id p)"
  shows "pm_name p \<in> set (GetUserPermissions now n d)"
  using assms by (auto simp: GetUserPermissions_def)

text \<open>Guessing a one-time code is not limited: any number of wrong guesses leaves the state as it was, and
  the right code is accepted after them.\<close>

theorem code_guesses_are_unlimited:
  assumes "rget now (otp_code_key email tok) (red st) = Some (RStr code)" "\<forall>g \<in> set gs. g \<noteq> code"
  shows "foldl (\<lambda>s g. snd (VerifyEmailOTP True now fresh email tok g s)) st gs = st
    \<and> fst (VerifyEmailOTP True now fresh email tok code st) = Inr fresh"
proof
  show "foldl (\<lambda>s g. snd (VerifyEmailOTP True now fresh email tok g s)) st gs = st"
    using assms(2) by (induction gs) (auto simp: VerifyEmailOTP_def assms(1))
  show "fst (VerifyEmailOTP True now fresh email tok code st) = Inr fresh"
    by (simp add: VerifyEmailOTP_def assms(1))
qed

text \<open>The failure counter survives the lock it caused: once an account has been locked, a single further
  failure after the lock has run out locks it again for thirty minutes.\<close>

theorem one_failure_relocks:
  assumes "check_account E now (lr_email q) (db st) = Inr (i, p)" "4 \<le> iy_failed i"
    and "\<not> en_match E (stringFromNull (pv_hash p)) (lr_password q)"
    and "CheckLoginAttempt up now (lr_ip q) (lr_email q) (red st) = (Inr (True, k), R)"
  shows "\<exists>j \<in> set (identities (db (snd (Login E up now ja jr q st)))).
     iy_id j = iy_id i \<and> iy_locked j = Some (now + minutes 30) \<and> iy_failed j = iy_failed i + 1"
proof -
  have "i \<in> set (identities (db st))"
    using assms(1) by (auto simp: check_account_def FindIdentityByEmail_def scan_row_of_def
        dest!: find_Some_iff_mem split: sum.splits option.splits if_splits)
  moreover have "db (snd (Login E up now ja jr q st)) = IncrementFailedLoginAttempts now (minutes 30) (iy_id i) (db st)"
    by (simp add: Login_def assms(1,3,4) Let_def)
  ultimately have "i\<lparr>iy_failed := iy_failed i + 1, iy_locked := Some (now + minutes 30), iy_updated := now\<rparr>
      \<in> set (identities (db (snd (Login E up now ja jr q st))))"
    using assms(2) unfolding IncrementFailedLoginAttempts_def update_identity_def
    by (simp add: set_update_where image_iff) (rule bexI [of _ i], simp_all)
  then show ?thesis by (rule rev_bexI) simp
qed

text \<open>A successful password reset stores a hash of the new password, ends every session of the user and uses
  up its token; every other token, an older reset token included, is left as it was.\<close>

theorem reset_password_effect:
  assumes "ResetPassword E up now tok new st = (r, st')" "r \<noteq> Inl (AuthErr ''invalid or expired token'')"
    and "r \<noteq> Inl (AuthErr ''local auth not found'')" "r \<noteq> Inl (AuthErr ''failed to hash password'')"
  shows "\<exists>v p h. FindVerificationToken now ''password_reset'' tok (db st) = Inr v \<and> en_hash E new = Some h
    \<and> p \<in> set (providers (db st')) \<and> pv_identity p = vt_identity v \<and> pv_provider p = ''local'' \<and> pv_hash p = Some h
    \<and> (\<forall>s \<in> set (sessions (db st')). se_identity s = vt_identity v \<longrightarrow> se_status s \<noteq> ''active'')
    \<and> (\<forall>w \<in> set (vtokens (db st)). vt_id w \<noteq> vt_id v \<longrightarrow> w \<in> set (vtokens (db st')))
    \<and> (\<forall>w \<in> set (vtokens (db st')). vt_id w = vt_id v \<longrightarrow> vt_used w = Some now)"
proof -
  obtain v where v: "FindVerificationToken now ''password_reset'' tok (db st) = Inr v"
    using assms(1,2) by (cases "FindVerificationToken now ''password_reset'' tok (db st)") (auto simp: ResetPassword_def)
  obtain p where p: "FindProviderByIdentityAndType (vt_identity v) ''local'' (db st) = Inr p"
    using assms(1,3) v by (cases "FindProviderByIdentityAndType (vt_identity v) ''local'' (db st)") (auto simp: ResetPassword_def)
  obtain h where h: "en_hash E new = Some h"
    using assms(1,4) v p by (cases "en_hash E new") (auto simp: ResetPassword_def set_password_def)
  let ?d = "MarkTokenAsUsed now (vt_id v) (UpdateProviderPassword now (pv_id p) h (db st))"
  have db: "db st' = db_InvalidateAllUserSessions now (vt_identity v) ?d"
    using assms(1) v p h
    by (auto simp: ResetPassword_def set_password_def LogoutAllSessions_def InvalidateAllUserSessions_def Let_def
        split: sum.splits if_splits)
  have mem: "p \<in> set (providers (db st))" "pv_identity p = vt_identity v" "pv_provider p = ''local''"
    using p by (auto simp: FindProviderByIdentityAndType_def scan_row_of_def dest!: find_Some_iff_mem split: option.splits)
  have prov: "providers (db st') = update_where (\<lambda>x. pv_id x = pv_id p \<and> pv_provider x = ''local'')
      (\<lambda>x. x\<lparr>pv_hash := Some h, pv_changed := Some now, pv_updated := now\<rparr>) (providers (db st))"
    and toks: "vtokens (db st') = update_where (\<lambda>t. vt_id t = vt_id v) (\<lambda>t. t\<lparr>vt_used := Some now, vt_verified := Some now\<rparr>) (vtokens (db st))"
    unfolding db by (simp_all add: db_InvalidateAllUserSessions_def MarkTokenAsUsed_def UpdateProviderPassword_def)
  have "p\<lparr>pv_hash := Some h, pv_changed := Some now, pv_updated := now\<rparr> \<in> set (providers (db st'))"
    unfolding prov set_update_where using mem by (intro image_eqI [of _ _ p]) simp_all
  moreover have "\<forall>s \<in> set (sessions (db st')). se_identity s = vt_identity v \<longrightarrow> se_status s \<noteq> ''active''"
    unfolding db using no_active_sessions by blast
  moreover have "\<forall>w \<in> set (vtokens (db st)). vt_id w \<noteq> vt_id v \<longrightarrow> w \<in> set (vtokens (db st'))"
    unfolding toks set_update_where by force
  moreover have "\<forall>w \<in> set (vtokens (db st')). vt_id w = vt_id v \<longrightarrow> vt_used w = Some now"
    unfolding toks set_update_where by auto
  ultimately show ?thesis using v h mem by (intro exI [of _ v] exI [of _ "p\<lparr>pv_hash := Some h, pv_changed := Some now, pv_updated := now\<rparr>"] exI [of _ h]) simp
qed

text \<open>What the JWT library promises on a token it signed, while its claims are in force.\<close>

definition reads_back :: "jwt_lib \<Rightarrow> instant \<Rightarrow> claims \<Rightarrow> bool" where
  "reads_back L now c \<longleftrightarrow> (cl_nbf c \<le> now \<longrightarrow> now < cl_exp c \<longrightarrow> parse_token L now (sign_token L c) = Some c)"

lemma login_identity_result:
  assumes "loginWithIdentity E True now ja jr i p device ip agent st = (Inr r, st')"
  shows "\<exists>s. lp_access r = sign_token (en_jwt E) (claims_of (en_jwt E) (en_gen E) now ja (iy_id i) (lp_roles r) (lp_perms r) device ''access'' False [])
    \<and> lp_identity r = iy_id i \<and> 0 < ge_ttl (en_gen E)
    \<and> red st' = rset now (ge_ttl (en_gen E)) (sessionKey (iy_id i) ja) (RSession s) (red st)"
  using assms
  by (auto simp: loginWithIdentity_def Let_def GenerateAccessToken_def GenerateRefreshToken_def Generate_def
      mgr_CreateSession_def login_session_def split: prod.splits sum.splits if_splits)

text \<open>C19. The access token a successful login returns is accepted at once, and its claims are the identity, the
  roles and the permissions of the response.\<close>

theorem login_then_validate:
  assumes "reads_back (en_jwt E) now (claims_of (en_jwt E) (en_gen E) now ja (lp_identity r) (lp_roles r) (lp_perms r) (lr_device q) ''access'' False [])"
    and "ve_key (en_ver E)" "ve_issuer (en_ver E) = ge_issuer (en_gen E)"
    and "ve_audience (en_ver E) = ge_audience (en_gen E)"
    and "numeric_date (en_jwt E) now \<le> now" "now < numeric_date (en_jwt E) (now + ge_ttl (en_gen E))"
    and "Login E True now ja jr q st = (Inr r, st')" "rget now (blacklistKey ja) (red st) = None"
  shows "\<exists>c. fst (ValidateToken E True now (lp_access r) st') = Inr c \<and> cl_id c = ja
    \<and> cl_identity c = lp_identity r \<and> cl_roles c = lp_roles r \<and> cl_perms c = lp_perms r"
proof -
  obtain k R i p d where R: "CheckLoginAttempt True now (lr_ip q) (lr_email q) (red st) = (Inr (True, k), R)"
    and l: "loginWithIdentity E True now ja jr i p (lr_device q) (lr_ip q) (lr_agent q)
      (st\<lparr>db := d, red := ResetLoginAttempts True (lr_ip q) (lr_email q) R\<rparr>) = (Inr r, st')"
    using assms(7) by (auto simp: Login_def Let_def split: sum.splits prod.splits if_splits)
  let ?st2 = "st\<lparr>db := d, red := ResetLoginAttempts True (lr_ip q) (lr_email q) R\<rparr>"
  let ?c = "claims_of (en_jwt E) (en_gen E) now ja (iy_id i) (lp_roles r) (lp_perms r) (lr_device q) ''access'' False []"
  obtain s where s: "lp_access r = sign_token (en_jwt E) ?c" "lp_identity r = iy_id i" "0 < ge_ttl (en_gen E)"
    "red st' = rset now (ge_ttl (en_gen E)) (sessionKey (iy_id i) ja) (RSession s) (red ?st2)"
    using login_identity_result [OF l] by blast
  have c: "cl_id ?c = ja" "cl_identity ?c = iy_id i" "cl_roles ?c = lp_roles r" "cl_perms ?c = lp_perms r"
    "cl_issuer ?c = ge_issuer (en_gen E)" "cl_audience ?c = [ge_audience (en_gen E)]" "cl_purpose ?c = ''access''" "\<not> cl_temp ?c"
    "cl_nbf ?c \<le> now" "now < cl_exp ?c"
    using assms(5,6) by (simp_all add: claims_of_def)
  then have "parse_token (en_jwt E) now (lp_access r) = Some ?c" using assms(1) s(1,2) by (simp add: reads_back_def)
  then have v: "VerifyAccessToken (en_jwt E) (en_ver E) now (lp_access r) = Inr ?c"
    using c assms(2-4) by (simp add: VerifyAccessToken_def Verify_def VerifyAudience_def)
  have "rget now (blacklistKey ja) R = None"
  proof -
    have "login_key (lr_ip q) (lr_email q) \<noteq> blacklistKey ja" using other_keys(2) by (simp add: other_key_def)
    then show ?thesis using R assms(8)
      by (auto simp: CheckLoginAttempt_def bump_def rincr_def rexpire_def rget_def split: option.splits rval.splits sum.splits if_splits)
  qed
  moreover have "blacklistKey ja \<noteq> login_key (lr_ip q) (lr_email q)" "blacklistKey ja \<noteq> sessionKey (iy_id i) ja"
    by (simp_all add: blacklistKey_def login_key_def sessionKey_def)
  ultimately have free: "rget now (blacklistKey (cl_id ?c)) (red st') = None"
    unfolding c(1) by (simp add: s(4) ResetLoginAttempts_def)
  have "rget now (sessionKey (iy_id i) ja) (red st') = Some (RSession s)" using s(3) by (simp add: s(4))
  then have get: "fst (GetSession True now (iy_id i) ja st') = Inr (s\<lparr>sd_activity := now\<rparr>)" by (simp add: GetSession_def)
  have "fst (ValidateToken E True now (lp_access r) st') = Inr ?c"
    unfolding accept_iff [OF v free] c(1,2) get by simp
  then show ?thesis by (intro exI [of _ ?c] conjI) (simp_all only: c s(2))
qed

section \<open>Witnesses\<close>

definition sample_identity :: identity where
  "sample_identity = \<lparr>iy_id = 1, iy_email = Some ''a@b.c'', iy_email_verified = False, iy_email_verified_at = None,
     iy_phone = None, iy_phone_verified = False, iy_phone_verified_at = None, iy_status = ''active'', iy_last_login = None,
     iy_failed = 0, iy_locked = None, iy_created = 0, iy_updated = 0, iy_deleted = None\<rparr>"

definition sample_profile :: profile where
  "sample_profile = \<lparr>pf_id = 3, pf_identity = 1, pf_name = Some ''Ann'', pf_avatar = None, pf_bio = None, pf_metadata = None,
     pf_created = 0, pf_updated = 0\<rparr>"

definition sample_db :: auth_db where
  "sample_db = \<lparr>identities = [sample_identity], providers = [(local_provider 1 ''hpw'')\<lparr>pv_id := 2\<rparr>], sessions = [],
     profiles = [sample_profile],
     vtokens = [\<lparr>vt_id = 4, vt_identity = 1, vt_type = ''password_reset'', vt_token = ''R'', vt_code = None, vt_expires = 100,
                 vt_used = None, vt_verified = None, vt_attempts = 0, vt_metadata = None, vt_created = 0\<rparr>],
     roles = [], assignments = [\<lparr>as_identity = 1, as_role = 5, as_by = None, as_at = 0, as_expires = None, as_active = True\<rparr>],
     permissions = [\<lparr>pm_id = 6, pm_name = ''reports.read'', pm_active = True\<rparr>], role_permissions = [(5, 6)],
     overrides = [\<lparr>ov_identity = 1, ov_permission = 6, ov_granted = False, ov_expires = None\<rparr>], ad_next = 7\<rparr>"

definition sample_state :: auth_state where
  "sample_state = \<lparr>db = sample_db, red = [], pend = []\<rparr>"

definition sample_claims :: claims where
  "sample_claims = \<lparr>cl_identity = 1, cl_roles = [''user''], cl_perms = [''reports.read''], cl_device = ''d'', cl_temp = False,
     cl_purpose = ''access'', cl_extra = [], cl_issuer = ''z'', cl_subject = ''1'', cl_audience = [''w''], cl_exp = 1000,
     cl_iat = 0, cl_nbf = 0, cl_id = ''J''\<rparr>"

definition sample_env :: env where
  "sample_env = \<lparr>en_jwt = \<lparr>parse_token = (\<lambda>now tok. if tok = ''T'' \<and> now < 1000 then Some sample_claims else None),
       sign_token = (\<lambda>c. ''T''), numeric_date = (\<lambda>t. t)\<rparr>,
     en_gen = \<lparr>ge_key = True, ge_issuer = ''z'', ge_audience = ''w'', ge_kid = [], ge_ttl = 1000\<rparr>,
     en_ver = \<lparr>ve_key = True, ve_issuer = ''z'', ve_audience = ''w''\<rparr>, en_lc = map ascii_lower,
     en_hash = (\<lambda>p. Some (CHR ''h'' # p)), en_match = (\<lambda>h p. h = CHR ''h'' # p)\<rparr>"

definition sample_login :: "string \<Rightarrow> login_req" where
  "sample_login pw = \<lparr>lr_email = ''A@b.c'', lr_password = pw, lr_device = ''d'', lr_ip = ''1.2.3.4'', lr_agent = ''x''\<rparr>"

definition signed_in :: auth_state where
  "signed_in = snd (Login sample_env True 0 ''J'' ''K'' (sample_login ''pw'') sample_state)"

lemma sample_login_ok:
  "map_sum id (\<lambda>r. (lp_access r, lp_identity r, lp_roles r, lp_perms r))
     (fst (Login sample_env True 0 ''J'' ''K'' (sample_login ''pw'') sample_state))
   = Inr (''T'', 1, [''user''], [''reports.read''])"
  by code_simp

lemma sample_expiry: "checks_expiry (en_jwt sample_env)"
  by (simp add: checks_expiry_def sample_env_def sample_claims_def)

lemma sample_parse: "parse_token (en_jwt sample_env) now tok = Some c \<Longrightarrow> c = sample_claims"
  by (simp add: sample_env_def split: if_splits)

lemma digit_one: "string_of_int 1 = ''1''" by code_simp

theorem login_then_validate_witness:
  "\<exists>r st'. Login sample_env True 0 ''J'' ''K'' (sample_login ''pw'') sample_state = (Inr r, st')
     \<and> (\<exists>c. fst (ValidateToken sample_env True 0 (lp_access r) st') = Inr c \<and> cl_roles c = [''user''])"
proof -
  obtain x st' where run: "Login sample_env True 0 ''J'' ''K'' (sample_login ''pw'') sample_state = (x, st')"
    by (cases "Login sample_env True 0 ''J'' ''K'' (sample_login ''pw'') sample_state")
  from sample_login_ok [unfolded run] obtain r where r: "x = Inr r" "lp_access r = ''T''" "lp_identity r = 1"
    "lp_roles r = [''user'']" "lp_perms r = [''reports.read'']" by (cases x) auto
  have ok: "reads_back (en_jwt sample_env) 0 (claims_of (en_jwt sample_env) (en_gen sample_env) 0 ''J'' (lp_identity r)
      (lp_roles r) (lp_perms r) (lr_device (sample_login ''pw'')) ''access'' False [])"
    unfolding r by (simp add: reads_back_def claims_of_def sample_env_def sample_login_def sample_claims_def digit_one)
  have free: "rget 0 (blacklistKey ''J'') (red sample_state) = None" by (simp add: sample_state_def rget_def)
  have env: "ve_key (en_ver sample_env)" "ve_issuer (en_ver sample_env) = ge_issuer (en_gen sample_env)"
    "ve_audience (en_ver sample_env) = ge_audience (en_gen sample_env)" "numeric_date (en_jwt sample_env) 0 \<le> 0"
    "0 < numeric_date (en_jwt sample_env) (0 + ge_ttl (en_gen sample_env))"
    by (simp_all add: sample_env_def)
  from login_then_validate [OF ok env run [unfolded r(1)] free] show ?thesis
    using run r by auto
qed

theorem logged_out_token_stays_out_witness:
  "\<exists>e. fst (ValidateToken sample_env True 20 ''T'' (snd (Logout sample_env True 10 1 ''J'' signed_in))) = Inl e"
proof -
  let ?st1 = "snd (Logout sample_env True 10 1 ''J'' signed_in)"
  have "fst (Logout sample_env True 10 1 ''J'' signed_in) = Inr ()" by code_simp
  then have out: "Logout sample_env True 10 1 ''J'' signed_in = (Inr (), ?st1)" by (metis prod.collapse)
  have run: "auth_run sample_env 10 ?st1 20 ?st1" by (rule auth_run.wait [OF auth_run.start]) simp
  have ttl: "0 < ge_ttl (en_gen sample_env)" by (simp add: sample_env_def)
  have tok: "cl_id c = ''J'' \<and> cl_exp c \<le> 10 + ge_ttl (en_gen sample_env)" if "parse_token (en_jwt sample_env) 20 ''T'' = Some c" for c
    unfolding sample_parse [OF that] by (simp add: sample_claims_def sample_env_def)
  show ?thesis by (rule logged_out_token_stays_out [OF sample_expiry ttl out run tok])
qed

definition touched :: auth_state where
  "touched = (let st = snd (ValidateToken sample_env True 5 ''T'' signed_in)
              in run_async True 6 (Touch 1 ''J'') (st\<lparr>pend := remove1 (Touch 1 ''J'') (pend st)\<rparr>))"

theorem logout_all_can_be_undone_witness:
  "\<exists>st2. auth_step sample_env 7 (snd (LogoutAllSessions True 7 1 touched)) st2
     \<and> fst (ValidateToken sample_env True 7 ''T'' st2) = Inr sample_claims"
proof -
  have "map (\<lambda>a. case a of TouchWrite n j s \<Rightarrow> n = 1 \<and> j = ''J'' \<and> 7 < sd_expires s | _ \<Rightarrow> False)
    (pend touched) = [True]" by code_simp
  then obtain a where a: "pend touched = [a]"
    "case a of TouchWrite n j s \<Rightarrow> n = 1 \<and> j = ''J'' \<and> 7 < sd_expires s | _ \<Rightarrow> False"
    by (cases "pend touched") auto
  then obtain s where s: "TouchWrite 1 ''J'' s \<in> set (pend touched)" "7 < sd_expires s" by (cases a) auto
  have free: "rget 7 (blacklistKey ''J'') (red touched) = None" by code_simp
  have v: "VerifyAccessToken (en_jwt sample_env) (en_ver sample_env) 7 ''T'' = Inr sample_claims"
    by (simp add: VerifyAccessToken_def Verify_def VerifyAudience_def sample_env_def sample_claims_def)
  have c: "cl_identity sample_claims = 1" "cl_id sample_claims = ''J''" by (simp_all add: sample_claims_def)
  have out: "LogoutAllSessions True 7 1 touched = (Inr (), snd (LogoutAllSessions True 7 1 touched))" by (simp add: logout_all_state)
  show ?thesis using logout_all_can_be_undone [OF s out free v c] by blast
qed

theorem email_is_never_marked_verified_witness:
  "\<exists>d. EnsureSuperAdminExists sample_env 0 ''root@b.c'' ''pw'' ''Root'' sample_db = (Inr (), d)
     \<and> length (identities d) = 2 \<and> none_verified d"
proof -
  obtain r d where d: "EnsureSuperAdminExists sample_env 0 ''root@b.c'' ''pw'' ''Root'' sample_db = (r, d)"
    by (cases "EnsureSuperAdminExists sample_env 0 ''root@b.c'' ''pw'' ''Root'' sample_db")
  have "(fst (EnsureSuperAdminExists sample_env 0 ''root@b.c'' ''pw'' ''Root'' sample_db),
      length (identities (snd (EnsureSuperAdminExists sample_env 0 ''root@b.c'' ''pw'' ''Root'' sample_db)))) = (Inr (), 2)" by code_simp
  then have r: "r = Inr ()" "length (identities d) = 2" unfolding d by simp_all
  have "auth_step sample_env 0 sample_state (sample_state\<lparr>db := d\<rparr>)"
    by (rule auth_step.super_admin) (use d in \<open>simp add: sample_state_def\<close>)
  from email_is_never_marked_verified [OF auth_run.step [OF auth_run.start this]]
  have "none_verified d" by (simp add: sample_state_def none_verified_def sample_db_def sample_identity_def)
  then show ?thesis using d r by auto
qed

theorem revoked_permission_survives_witness: "''reports.read'' \<in> set (GetUserPermissions 0 1 sample_db)"
  using revoked_permission_survives [of "\<lparr>pm_id = 6, pm_name = ''reports.read'', pm_active = True\<rparr>" sample_db 0 1]
  by (simp add: sample_db_def from_role_def overridden_def holds_role_def unexpired_def)

definition coded :: auth_state where
  "coded = snd (SendEmailVerificationOTP sample_env True 0 ''123456'' ''V'' ''new@b.c'' sample_state)"

theorem code_guesses_are_unlimited_witness:
  "foldl (\<lambda>s g. snd (VerifyEmailOTP True 1 ''F'' ''new@b.c'' ''V'' g s)) coded (replicate 100 ''000000'') = coded
     \<and> fst (VerifyEmailOTP True 1 ''F'' ''new@b.c'' ''V'' ''123456'' coded) = Inr ''F''"
proof (rule code_guesses_are_unlimited)
  show "rget 1 (otp_code_key ''new@b.c'' ''V'') (red coded) = Some (RStr ''123456'')" by code_simp
qed simp

theorem one_failure_relocks_witness:
  "\<exists>j \<in> set (identities (db (snd (Login sample_env True 9 ''J'' ''K'' (sample_login ''bad'')
       (sample_state\<lparr>db := sample_db\<lparr>identities := [sample_identity\<lparr>iy_failed := 5, iy_locked := Some 8\<rparr>]\<rparr>\<rparr>))))).
     iy_locked j = Some (9 + minutes 30)"
proof -
  let ?st = "sample_state\<lparr>db := sample_db\<lparr>identities := [sample_identity\<lparr>iy_failed := 5, iy_locked := Some 8\<rparr>]\<rparr>\<rparr>"
    and ?q = "sample_login ''bad''"
  let ?p = "(local_provider 1 ''hpw'')\<lparr>pv_id := 2\<rparr>"
  have acc: "check_account sample_env 9 (lr_email ?q) (db ?st) = Inr (sample_identity\<lparr>iy_failed := 5, iy_locked := Some 8\<rparr>, ?p)" by code_simp
  have four: "4 \<le> iy_failed (sample_identity\<lparr>iy_failed := 5, iy_locked := Some 8\<rparr>)" by simp
  have bad: "\<not> en_match sample_env (stringFromNull (pv_hash ?p)) (lr_password ?q)"
    by (simp add: sample_env_def sample_login_def local_provider_def stringFromNull_def)
  have "fst (CheckLoginAttempt True 9 (lr_ip ?q) (lr_email ?q) (red ?st)) = Inr (True, 4)" by code_simp
  then have "CheckLoginAttempt True 9 (lr_ip ?q) (lr_email ?q) (red ?st)
      = (Inr (True, 4), snd (CheckLoginAttempt True 9 (lr_ip ?q) (lr_email ?q) (red ?st)))" by (metis prod.collapse)
  from one_failure_relocks [OF acc four bad this] show ?thesis by blast
qed

theorem reset_password_effect_witness:
  "\<exists>p \<in> set (providers (db (snd (ResetPassword sample_env True 9 ''R'' ''new'' signed_in)))). pv_hash p = Some ''hnew''"
proof -
  obtain r st' where run: "ResetPassword sample_env True 9 ''R'' ''new'' signed_in = (r, st')"
    by (cases "ResetPassword sample_env True 9 ''R'' ''new'' signed_in")
  have "fst (ResetPassword sample_env True 9 ''R'' ''new'' signed_in) = Inr ()" by code_simp
  then have r: "r = Inr ()" unfolding run by simp
  have "en_hash sample_env ''new'' = Some ''hnew''" by (simp add: sample_env_def)
  with reset_password_effect [OF run] r run show ?thesis by auto
qed

end
