(* ===== verification/Router.thy ===== *)
theory Router
  imports Jwt
begin

text \<open>
  The route table (\<open>internal/app/router.go\<close>, with the routes the merchant and sitemap handlers register) and
  what its middleware guarantees. A route is its method, its path pattern, the guard of its group and the
  name of its handler; static file routes are left out.
\<close>

section \<open>Routes\<close>

datatype verb = GET | POST | PUT | DELETE

datatype guard = Public | Optional | SignedIn | Admins | SuperAdmins | Permitted string

record route =
  rt_verb :: verb
  rt_path :: string
  rt_guard :: guard
  rt_handler :: string

definition group :: "guard \<Rightarrow> string \<Rightarrow> (verb \<times> string \<times> string) list \<Rightarrow> route list" where
  "group g base = map (\<lambda>(v, p, h). \<lparr>rt_verb = v, rt_path = base @ p, rt_guard = g, rt_handler = h\<rparr>)"

definition root_routes :: "route list" where
  "root_routes = group Public []
    [(GET, ''/feeds/google-merchant.xml'', ''PublicFeed''),
     (GET, ''/sitemaps/sitemap-index.xml'', ''SitemapIndex''),
     (GET, ''/sitemaps/products-:chunk.xml'', ''ProductSitemap''), (GET, ''/api/v1/delivery-policy'', ''Get''),
     (GET, ''/ws'', ''HandleConnection''), (GET, ''/api/v1/health'', ''health'')]"

definition deliveryAdmin_routes :: "route list" where
  "deliveryAdmin_routes = group Admins ''/api/v1/admin/delivery-policy''
    [(GET, '''', ''Get''), (PUT, '''', ''Update'')]"

definition authPublic_routes :: "route list" where
  "authPublic_routes = group Public ''/api/v1/auth''
    [(POST, ''/register'', ''Register''), (POST, ''/login'', ''Login''),
     (POST, ''/forgot-password'', ''ForgotPassword''), (POST, ''/reset-password'', ''ResetPassword''),
     (GET, ''/verify-email'', ''VerifyEmail''),
     (POST, ''/verify-email/send-otp'', ''SendEmailVerificationOTP''),
     (POST, ''/verify-email/verify-otp'', ''VerifyEmailOTP''),
     (POST, ''/verify-email/resend-otp'', ''ResendEmailVerificationOTP'')]"

definition authProtected_routes :: "route list" where
  "authProtected_routes = group SignedIn ''/api/v1/auth''
    [(POST, ''/logout'', ''Logout''), (POST, ''/logout-all'', ''LogoutAll''),
     (PUT, ''/change-password'', ''ChangePassword''), (GET, ''/me'', ''GetMe''),
     (PUT, ''/profile'', ''UpdateProfile''), (POST, ''/resend-verification'', ''ResendVerificationEmail''),
     (GET, ''/sessions'', ''GetActiveSessions''), (DELETE, ''/sessions/:session_id'', ''RevokeSession'')]"

definition notifications_routes :: "route list" where
  "notifications_routes = group SignedIn ''/api/v1/notifications''
    [(GET, '''', ''GetNotifications''), (GET, ''/latest'', ''GetLatestNotifications''),
     (GET, ''/:id'', ''GetNotification''), (GET, ''/count/unread'', ''GetUnreadCount''),
     (GET, ''/summary'', ''GetSummary''), (PUT, ''/:id/read'', ''MarkAsRead''),
     (PUT, ''/read-all'', ''MarkAllAsRead''), (DELETE, ''/:id'', ''DeleteNotification'')]"

definition adminAuth_routes :: "route list" where
  "adminAuth_routes = group Admins ''/api/v1/admin/auth''
    [(GET, ''/users'', ''AdminListUsers''), (GET, ''/users/stats'', ''AdminUserStats''),
     (GET, ''/users/search'', ''AdminSearchUsers''), (GET, ''/users/:id'', ''AdminGetUser''),
     (DELETE, ''/users/:id'', ''AdminDeleteUser'')]"

definition adminNotifications_routes :: "route list" where
  "adminNotifications_routes = group Admins ''/api/v1/admin/notifications''
    [(POST, '''', ''CreateNotification''), (POST, ''/bulk'', ''SendBulkNotifications''),
     (POST, ''/broadcast'', ''BroadcastNotification'')]"

definition ordersPublic_routes :: "route list" where
  "ordersPublic_routes = group Public ''/api/v1/orders''
    [(POST, ''/guest'', ''CreateGuestOrder'')]"

definition ordersProtected_routes :: "route list" where
  "ordersProtected_routes = group SignedIn ''/api/v1/orders''
    [(POST, '''', ''CreateUserOrder''), (GET, '''', ''ListOrders''), (GET, ''/details'', ''GetOrderByID'')]"

definition adminOrders_routes :: "route list" where
  "adminOrders_routes = group Admins ''/api/v1/admin/orders''
    [(GET, '''', ''ListOrders''), (GET, ''/stats'', ''AdminOrderStats''),
     (GET, ''/by-number'', ''AdminGetOrderByNumber''), (PUT, ''/:id/status'', ''AdminUpdateOrderStatus'')]"

definition userRoutes_routes :: "route list" where
  "userRoutes_routes = group SignedIn ''/api/v1/me''
    [(GET, ''/addresses'', ''ListAddresses''), (POST, ''/addresses'', ''CreateAddress''),
     (GET, ''/addresses/:id'', ''GetAddress''), (PUT, ''/addresses/:id'', ''UpdateAddress''),
     (DELETE, ''/addresses/:id'', ''DeleteAddress''), (PUT, ''/addresses/:id/default'', ''SetDefaultAddress''),
     (GET, ''/cart'', ''GetMyCart''), (POST, ''/cart/items'', ''AddOrUpdateItem''),
     (DELETE, ''/cart/items/:id'', ''RemoveItem''), (GET, ''/wishlist'', ''GetMyWishlist''),
     (POST, ''/wishlist/items'', ''Add''), (DELETE, ''/wishlist/items'', ''Remove''),
     (DELETE, ''/wishlist'', ''Clear''), (POST, ''/reviews'', ''Add'')]"

definition catalogPublic_routes :: "route list" where
  "catalogPublic_routes = group Public ''/api/v1/catalog''
    [(GET, ''/categories'', ''ListCategories''), (GET, ''/categories/:id'', ''GetCategory''),
     (GET, ''/categories/:id/tree'', ''GetCategoryTree''),
     (GET, ''/categories/:id/descendants'', ''GetCategoryDescendants''), (GET, ''/brands'', ''ListBrands''),
     (GET, ''/brands/:id'', ''GetBrand''), (GET, ''/tags'', ''ListTags''), (GET, ''/tags/:id'', ''GetTag''),
     (GET, ''/attributes'', ''ListAttributes''), (GET, ''/attributes/:id'', ''GetAttribute''),
     (GET, ''/attributes/:id/values'', ''ListAttributeValues''), (GET, ''/products'', ''ListProducts''),
     (GET, ''/products/slug/:slug'', ''GetProductBySlug''), (GET, ''/products/:id'', ''GetProduct''),
     (GET, ''/products/:id/images'', ''GetProductImages''), (GET, ''/products/:id/tags'', ''GetProductTags''),
     (GET, ''/products/:id/categories'', ''GetProductCategories''),
     (GET, ''/products/:id/attribute-values'', ''GetProductAttributeValues''),
     (GET, ''/products/:id/variants'', ''ListVariantsByProduct''),
     (GET, ''/products/:id/variants/:variant_id'', ''GetVariant''),
     (GET, ''/products/:id/variants/:variant_id/attribute-values'', ''GetVariantAttributeValues''),
     (GET, ''/products/:id/reviews'', ''ListProductReviews''),
     (GET, ''/inventory/variants/:variant_id'', ''GetInventoryByVariant''),
     (GET, ''/inventory/variants/:variant_id/stock'', ''GetStockSummary''),
     (GET, ''/inventory/locations'', ''ListLocations''), (GET, ''/inventory/locations/:id'', ''GetLocation'')]"

definition discoveryRoutes_routes :: "route list" where
  "discoveryRoutes_routes = group Optional ''/api/v1/discovery''
    [(GET, ''/feed'', ''GetFeedCandidates''), (GET, ''/search'', ''Search''), (GET, ''/suggest'', ''Suggest''),
     (POST, ''/search/events'', ''TrackSearch''), (POST, ''/search/clicks'', ''TrackSearchClick'')]"

definition superAdmin_routes :: "route list" where
  "superAdmin_routes = group SuperAdmins ''/api/v1/admin''
    [(POST, ''/admins'', ''CreateAdmin''), (GET, ''/admins'', ''ListAdmins''),
     (DELETE, ''/admins/:id'', ''DeactivateAdmin''), (GET, ''/ws/stats'', ''GetStats'')]"

definition adminCatalog_routes :: "route list" where
  "adminCatalog_routes = group Admins ''/api/v1/admin/catalog''
    [(POST, ''/categories'', ''CreateCategory''), (PUT, ''/categories/:id'', ''UpdateCategory''),
     (DELETE, ''/categories/:id'', ''DeleteCategory''), (POST, ''/brands'', ''CreateBrand''),
     (PUT, ''/brands/:id'', ''UpdateBrand''), (DELETE, ''/brands/:id'', ''DeleteBrand''),
     (POST, ''/attributes'', ''CreateAttribute''), (PUT, ''/attributes/:id'', ''UpdateAttribute''),
     (DELETE, ''/attributes/:id'', ''DeleteAttribute''),
     (POST, ''/attributes/:id/values'', ''AddAttributeValue''),
     (DELETE, ''/attributes/:id/values/:value_id'', ''DeleteAttributeValue''),
     (POST, ''/products'', ''CreateProduct''), (PUT, ''/products/:id'', ''UpdateProduct''),
     (DELETE, ''/products/:id'', ''DeleteProduct''), (POST, ''/products/:id/images'', ''AddProductImage''),
     (DELETE, ''/products/:id/images/:image_id'', ''DeleteProductImage''),
     (PUT, ''/products/:id/images/:image_id/primary'', ''SetPrimaryImage''),
     (POST, ''/products/:id/categories'', ''AddProductCategory''),
     (DELETE, ''/products/:id/categories/:cat_id'', ''RemoveProductCategory''),
     (POST, ''/products/:id/tags'', ''AddTagToProduct''),
     (DELETE, ''/products/:id/tags/:tag_id'', ''RemoveTagFromProduct''),
     (PUT, ''/products/:id/tags'', ''SetProductTags''),
     (PUT, ''/products/:id/attribute-values'', ''SetProductAttributeValues''),
     (POST, ''/products/:id/variants'', ''CreateVariant''),
     (PUT, ''/products/:id/variants/:variant_id'', ''UpdateVariant''),
     (DELETE, ''/products/:id/variants/:variant_id'', ''DeleteVariant''),
     (PUT, ''/products/:id/variants/:variant_id/attribute-values'', ''SetVariantAttributeValues''),
     (POST, ''/inventory/locations'', ''CreateLocation''),
     (PUT, ''/inventory/locations/:id'', ''UpdateLocation''),
     (DELETE, ''/inventory/locations/:id'', ''DeleteLocation''),
     (PUT, ''/inventory/items'', ''UpsertInventoryItem''),
     (DELETE, ''/inventory/variants/:variant_id/locations/:location_id'', ''DeleteInventoryItem''),
     (PUT, ''/inventory/variants/:variant_id/locations/:location_id/adjust'', ''AdjustAvailableStock''),
     (PUT, ''/inventory/variants/:variant_id/locations/:location_id/reserve'', ''ReserveStock''),
     (PUT, ''/inventory/variants/:variant_id/locations/:location_id/release'', ''ReleaseStock''),
     (GET, ''/discounts'', ''ListDiscounts''), (GET, ''/discounts/:id'', ''GetDiscount''),
     (POST, ''/discounts'', ''CreateDiscount''), (PUT, ''/discounts/:id'', ''UpdateDiscount''),
     (DELETE, ''/discounts/:id'', ''DeleteDiscount''), (PUT, ''/discounts/:id/targets'', ''SetDiscountTargets'')]"

definition adminDiscovery_routes :: "route list" where
  "adminDiscovery_routes = group Admins ''/api/v1/admin/discovery''
    [(POST, ''/metrics/recompute'', ''RecomputeMetrics'')]"

definition adminMerchant_routes :: "route list" where
  "adminMerchant_routes = group Admins ''/api/v1/admin/merchant''
    [(GET, ''/feed/full'', ''GenerateFull''), (GET, ''/feed/incremental'', ''GenerateIncremental''),
     (GET, ''/feed/stats'', ''Stats''), (GET, ''/feed/ping'', ''Ping'')]"

definition routes :: "route list" where
  "routes = concat
    [root_routes, deliveryAdmin_routes, authPublic_routes, authProtected_routes, notifications_routes, adminAuth_routes, adminNotifications_routes, ordersPublic_routes, ordersProtected_routes, adminOrders_routes, userRoutes_routes, catalogPublic_routes, discoveryRoutes_routes, superAdmin_routes, adminCatalog_routes, adminDiscovery_routes, adminMerchant_routes]"

section \<open>Serving\<close>

text \<open>The middleware of a guard.\<close>

fun middlewares :: "(string \<Rightarrow> 'e + claims) \<Rightarrow> request \<Rightarrow> guard \<Rightarrow> (ctx \<Rightarrow> outcome) list" where
  "middlewares validate r Public = []"
| "middlewares validate r Optional = [OptionalAuth validate r]"
| "middlewares validate r SignedIn = [Auth validate r]"
| "middlewares validate r Admins = AdminOnly validate r"
| "middlewares validate r SuperAdmins = SuperAdminOnly validate r"
| "middlewares validate r (Permitted p) = WithPermission validate [p] r"

definition serve :: "(string \<Rightarrow> 'e + claims) \<Rightarrow> request \<Rightarrow> route \<Rightarrow> outcome" where
  "serve validate r t = chain (middlewares validate r (rt_guard t)) (\<lambda>_. None)"

section \<open>What the guards check\<close>

lemma extra_keeps_roles:
  "foldl (\<lambda>x (k, v). x(k \<mapsto> CStr v)) x ex k = Some (CStrs rs) \<Longrightarrow> x k = Some (CStrs rs)"
proof (induction ex arbitrary: x)
  case (Cons a ex)
  obtain j v where a: "a = (j, v)" by (cases a)
  from Cons.IH [of "x(j \<mapsto> CStr v)"] Cons.prems show ?case by (simp add: a split: if_splits)
qed simp

lemma Auth_passes:
  "Auth validate r x = Next y \<Longrightarrow> \<exists>c. validate (extractToken r) = Inr c \<and> extractToken r \<noteq> []
     \<and> (\<forall>rs. y ''roles'' = Some (CStrs rs) \<longrightarrow> rs = cl_roles c)
     \<and> (\<forall>ps. y ''permissions'' = Some (CStrs ps) \<longrightarrow> ps = cl_perms c)"
  by (auto simp: Auth_def Let_def split: if_splits sum.splits dest!: extra_keeps_roles)

lemma require_passes: "require k P x = Next y \<longleftrightarrow> y = x \<and> (\<exists>xs. x k = Some (CStrs xs) \<and> P xs)"
  by (auto simp: require_def split: option.splits ctx_value.splits if_splits)

lemma role_guard_passes:
  "chain [Auth validate r, RequireRole rs] x = Next y \<Longrightarrow>
   \<exists>c. validate (extractToken r) = Inr c \<and> (\<exists>role \<in> set rs. HasRole c role)"
  by (auto simp: RequireRole_def require_passes list_ex_iff HasRole_def split: outcome.splits dest!: Auth_passes)

definition admin_path :: "string \<Rightarrow> bool" where
  "admin_path p \<longleftrightarrow> prefix ''/api/v1/admin'' p"

definition changes_state :: "verb \<Rightarrow> bool" where
  "changes_state v \<longleftrightarrow> v \<noteq> GET"

text \<open>The state-changing routes that anybody may call.\<close>

definition open_writes :: "string list" where
  "open_writes = map rt_handler (filter (\<lambda>t. changes_state (rt_verb t) \<and> rt_guard t \<in> {Public, Optional}) routes)"

lemma admin_routes_guarded: "list_all (\<lambda>t. admin_path (rt_path t) \<longrightarrow> rt_guard t \<in> {Admins, SuperAdmins}) routes"
  by code_simp

section \<open>Properties\<close>

text \<open>C17. No handler below \<open>/api/v1/admin\<close> runs unless the token of the request validates and its claims
  hold the role \<open>admin\<close> or \<open>super_admin\<close>.\<close>

theorem admin_routes_need_an_admin:
  assumes "t \<in> set routes" "admin_path (rt_path t)" "serve validate r t = Next y"
  shows "\<exists>c. validate (extractToken r) = Inr c \<and> IsAdmin c"
proof -
  have "rt_guard t = Admins \<or> rt_guard t = SuperAdmins"
    using admin_routes_guarded assms(1,2) by (auto simp: list_all_iff)
  then obtain rs where "chain [Auth validate r, RequireRole rs] (\<lambda>_. None) = Next y" "set rs \<subseteq> {''admin'', ''super_admin''}"
    using assms(3) by (auto simp: serve_def AdminOnly_def SuperAdminOnly_def)
  then show ?thesis using role_guard_passes by (fastforce simp: IsAdmin_def)
qed

definition admin_claims :: claims where
  "admin_claims = \<lparr>cl_identity = 1, cl_roles = [''admin''], cl_perms = [], cl_device = [], cl_temp = False,
     cl_purpose = ''access'', cl_extra = [], cl_issuer = [], cl_subject = ''1'', cl_audience = [], cl_exp = 9, cl_iat = 0,
     cl_nbf = 0, cl_id = ''J''\<rparr>"

definition admin_only_token :: "string \<Rightarrow> jwt_error + claims" where
  "admin_only_token tok = (if tok = ''T'' then Inr admin_claims else Inl BadToken)"

theorem admin_routes_need_an_admin_witness:
  "\<exists>c y. serve admin_only_token \<lparr>rq_auth = ''Bearer T'', rq_token = []\<rparr>
       \<lparr>rt_verb = PUT, rt_path = ''/api/v1/admin/delivery-policy'', rt_guard = Admins, rt_handler = ''Update''\<rparr> = Next y
     \<and> admin_only_token ''T'' = Inr c \<and> IsAdmin c"
proof -
  let ?t = "\<lparr>rt_verb = PUT, rt_path = ''/api/v1/admin/delivery-policy'', rt_guard = Admins, rt_handler = ''Update''\<rparr>"
    and ?r = "\<lparr>rq_auth = ''Bearer T'', rq_token = []\<rparr>"
  have tok: "extractToken ?r = ''T''" by code_simp
  have "\<exists>y. serve admin_only_token ?r ?t = Next y"
    by (simp add: serve_def AdminOnly_def Auth_def tok admin_only_token_def RequireRole_def require_def admin_claims_def)
  moreover have "?t \<in> set routes" by (simp add: routes_def group_def deliveryAdmin_routes_def)
  moreover have "admin_path (rt_path ?t)" by code_simp
  ultimately show ?thesis using admin_routes_need_an_admin [of ?t admin_only_token ?r] tok by auto
qed

text \<open>The only routes with a writing method open to a caller without a token are the account entry points,
  the guest checkout and the search tracking.\<close>

lemma open_writes_are:
  "open_writes = [''Register'', ''Login'', ''ForgotPassword'', ''ResetPassword'', ''SendEmailVerificationOTP'',
     ''VerifyEmailOTP'', ''ResendEmailVerificationOTP'', ''CreateGuestOrder'', ''TrackSearch'', ''TrackSearchClick'']"
  by code_simp

end
