(* ===== verification/Notifications.thy ===== *)
theory Notifications
  imports Go_Strings
begin

text \<open>
  The notification repository (\<open>repository/postgres/notification_repo.go\<close>, entities of
  \<open>domain/notification/entity.go\<close>) on the table \<open>notifications\<close> of \<open>000_auth_init.sql\<close>: the type is an
  enumeration, the title at most 255 characters and the identity must exist. Metadata is kept as its JSON
  text. A database that answers is assumed; \<open>created_at\<close> is the instant of the statement.
\<close>

section \<open>Data\<close>

record notification =
  nt_id :: id
  nt_identity :: id
  nt_title :: string
  nt_message :: string
  nt_type :: string
  nt_metadata :: "string option"
  nt_read :: bool
  nt_created :: instant
  nt_read_at :: "instant option"
  nt_expires :: "instant option"

record notif_request =
  nq_identity :: id
  nq_title :: string
  nq_message :: string
  nq_type :: string
  nq_metadata :: "string option"
  nq_expires :: "instant option"

record notif_filter =
  nf_read :: "bool option"
  nf_type :: "string option"
  nf_page :: int
  nf_size :: int

record notif_summary =
  ns_unread :: int
  ns_read :: int
  ns_total :: int

record notif_db =
  note_rows :: "notification list"
  next_note :: id
  note_owners :: "id list"

datatype note_error = NoteErr string | NoteDb

section \<open>Operations\<close>

definition note_type :: "string \<Rightarrow> bool" where
  "note_type t \<longleftrightarrow> t \<in> {''system'', ''alert'', ''info''}"

definition note_Create :: "instant \<Rightarrow> notification \<Rightarrow> notif_db \<Rightarrow> (note_error + notification) \<times> notif_db" where
  "note_Create now n d =
     (if rune_count (nt_title n) \<le> 255 \<and> note_type (nt_type n) \<and> nt_identity n \<in> set (note_owners d)
      then let r = n\<lparr>nt_id := next_note d, nt_created := now\<rparr>
           in (Inr r, d\<lparr>note_rows := note_rows d @ [r\<lparr>nt_read := False, nt_read_at := None\<rparr>], next_note := next_note d + 1\<rparr>)
      else (Inl NoteDb, d))"

definition note_FindByID :: "id \<Rightarrow> notif_db \<Rightarrow> note_error + notification" where
  "note_FindByID i d =
     (case List.find (\<lambda>r. nt_id r = i) (note_rows d) of None \<Rightarrow> Inl (NoteErr ''failed to find notification'') | Some r \<Rightarrow> Inr r)"

definition current :: "instant \<Rightarrow> notification \<Rightarrow> bool" where
  "current now r \<longleftrightarrow> (case nt_expires r of None \<Rightarrow> True | Some e \<Rightarrow> now < e)"

definition latest_first :: "notification \<Rightarrow> notification \<Rightarrow> bool" where
  "latest_first a b \<longleftrightarrow> nt_created b \<le> nt_created a"

definition note_matches :: "instant \<Rightarrow> id \<Rightarrow> notif_filter \<Rightarrow> notification \<Rightarrow> bool" where
  "note_matches now n f r \<longleftrightarrow> nt_identity r = n \<and> current now r
     \<and> (case nf_read f of None \<Rightarrow> True | Some b \<Rightarrow> nt_read r = b)
     \<and> (case nf_type f of None \<Rightarrow> True | Some t \<Rightarrow> nt_type r = t)"

definition default_page :: "notif_filter \<Rightarrow> notif_filter" where
  "default_page f = f\<lparr>nf_page := (if nf_page f < 1 then 1 else nf_page f), nf_size := (if nf_size f < 1 then 20 else nf_size f)\<rparr>"

text \<open>A filter type outside the enumeration and a negative offset (the product wraps) are database errors.\<close>

definition repo_GetUserNotifications ::
  "instant \<Rightarrow> id \<Rightarrow> notif_filter \<Rightarrow> notif_db \<Rightarrow> note_error + notification list \<times> int" where
  "repo_GetUserNotifications now n f0 d =
     (let f = default_page f0;
          rows = filter (note_matches now n f) (note_rows d);
          offset = i64 (i64 (nf_page f - 1) * nf_size f)
      in if (case nf_type f of None \<Rightarrow> False | Some t \<Rightarrow> \<not> note_type t) then Inl (NoteErr ''failed to count notifications'')
         else if offset < 0 then Inl (NoteErr ''failed to list notifications'')
         else Inr (take (nat (nf_size f)) (drop (nat offset) (order_by latest_first rows)), int (length rows)))"

definition repo_GetLatestNotifications :: "instant \<Rightarrow> id \<Rightarrow> int \<Rightarrow> notif_db \<Rightarrow> notification list" where
  "repo_GetLatestNotifications now n k d =
     take (nat k) (order_by latest_first (filter (\<lambda>r. nt_identity r = n \<and> current now r) (note_rows d)))"

definition mark :: "instant \<Rightarrow> notification \<Rightarrow> notification" where
  "mark now r = r\<lparr>nt_read := True, nt_read_at := Some now\<rparr>"

definition repo_MarkAsRead :: "instant \<Rightarrow> id \<Rightarrow> id \<Rightarrow> notif_db \<Rightarrow> (note_error + unit) \<times> notif_db" where
  "repo_MarkAsRead now i n d =
     (let P = (\<lambda>r. nt_id r = i \<and> nt_identity r = n \<and> \<not> nt_read r)
      in if list_ex P (note_rows d) then (Inr (), d\<lparr>note_rows := update_where P (mark now) (note_rows d)\<rparr>)
         else (Inl (NoteErr ''notification not found or already read''), d))"

definition repo_MarkAllAsRead :: "instant \<Rightarrow> id \<Rightarrow> notif_db \<Rightarrow> notif_db" where
  "repo_MarkAllAsRead now n d = d\<lparr>note_rows := update_where (\<lambda>r. nt_identity r = n \<and> \<not> nt_read r) (mark now) (note_rows d)\<rparr>"

definition repo_GetUnreadCount :: "instant \<Rightarrow> id \<Rightarrow> notif_db \<Rightarrow> int" where
  "repo_GetUnreadCount now n d = int (length (filter (\<lambda>r. nt_identity r = n \<and> \<not> nt_read r \<and> current now r) (note_rows d)))"

definition repo_GetSummary :: "instant \<Rightarrow> id \<Rightarrow> notif_db \<Rightarrow> notif_summary" where
  "repo_GetSummary now n d =
     (let rows = filter (\<lambda>r. nt_identity r = n \<and> current now r) (note_rows d)
      in \<lparr>ns_unread = int (length (filter (\<lambda>r. \<not> nt_read r) rows)), ns_read = int (length (filter nt_read rows)),
          ns_total = int (length rows)\<rparr>)"

definition repo_DeleteNotification :: "id \<Rightarrow> id \<Rightarrow> notif_db \<Rightarrow> (note_error + unit) \<times> notif_db" where
  "repo_DeleteNotification i n d =
     (let P = (\<lambda>r. nt_id r = i \<and> nt_identity r = n)
      in if list_ex P (note_rows d) then (Inr (), d\<lparr>note_rows := delete_where P (note_rows d)\<rparr>)
         else (Inl (NoteErr ''notification not found''), d))"

definition expired :: "instant \<Rightarrow> notification \<Rightarrow> bool" where
  "expired now r \<longleftrightarrow> (case nt_expires r of None \<Rightarrow> False | Some e \<Rightarrow> e < now)"

definition repo_DeleteExpiredNotifications :: "instant \<Rightarrow> notif_db \<Rightarrow> int \<times> notif_db" where
  "repo_DeleteExpiredNotifications now d =
     (int (length (filter (expired now) (note_rows d))), d\<lparr>note_rows := delete_where (expired now) (note_rows d)\<rparr>)"

section \<open>Facts\<close>

text \<open>Every row id is below the sequence and used once.\<close>

definition notes_ok :: "notif_db \<Rightarrow> bool" where
  "notes_ok d \<longleftrightarrow> distinct (map nt_id (note_rows d)) \<and> (\<forall>r \<in> set (note_rows d). nt_id r < next_note d \<and> note_type (nt_type r))"

lemma notes_ok_update:
  assumes "notes_ok d" and "\<And>r. nt_id (f r) = nt_id r \<and> nt_type (f r) = nt_type r"
  shows "notes_ok (d\<lparr>note_rows := update_where P f (note_rows d)\<rparr>)"
proof -
  have "map nt_id (update_where P f (note_rows d)) = map nt_id (note_rows d)"
    using assms(2) by (simp add: update_where_def)
  then show ?thesis using assms by (auto simp: notes_ok_def set_update_where)
qed

lemma notes_ok_delete: "notes_ok d \<Longrightarrow> notes_ok (d\<lparr>note_rows := delete_where P (note_rows d)\<rparr>)"
  by (auto simp: notes_ok_def set_delete_where distinct_map_delete_where)

lemma mark_keeps [simp]: "nt_id (mark now r) = nt_id r" "nt_type (mark now r) = nt_type r"
  "nt_identity (mark now r) = nt_identity r" "nt_read (mark now r)" "nt_expires (mark now r) = nt_expires r"
  by (simp_all add: mark_def)

lemma note_Create_ok: "notes_ok d \<Longrightarrow> notes_ok (snd (note_Create now n d))"
  by (auto simp: note_Create_def notes_ok_def Let_def)

lemma note_ops_ok:
  assumes "notes_ok d"
  shows "notes_ok (snd (repo_MarkAsRead now i n d))" "notes_ok (repo_MarkAllAsRead now n d)"
    "notes_ok (snd (repo_DeleteNotification i n d))" "notes_ok (snd (repo_DeleteExpiredNotifications now d))"
  using assms by (auto simp: repo_MarkAsRead_def repo_MarkAllAsRead_def repo_DeleteNotification_def
      repo_DeleteExpiredNotifications_def Let_def intro!: notes_ok_update notes_ok_delete)

lemma length_filter_split: "length xs = length (filter (\<lambda>r. \<not> P r) xs) + length (filter P xs)"
  by (induction xs) auto

lemma summary_adds_up:
  "ns_total (repo_GetSummary now n d) = ns_unread (repo_GetSummary now n d) + ns_read (repo_GetSummary now n d)"
  using length_filter_split [of "filter (\<lambda>r. nt_identity r = n \<and> current now r) (note_rows d)" nt_read]
  by (simp add: repo_GetSummary_def Let_def)

lemma summary_unread: "ns_unread (repo_GetSummary now n d) = repo_GetUnreadCount now n d"
  by (simp add: repo_GetSummary_def repo_GetUnreadCount_def Let_def filter_filter conj_ac)

lemma unread_after_all: "repo_GetUnreadCount now n (repo_MarkAllAsRead now n d) = 0"
  by (auto simp: repo_GetUnreadCount_def repo_MarkAllAsRead_def update_where_def filter_empty_conv split: if_splits)

lemma mark_counts_once:
  assumes d: "distinct (map nt_id xs)" and x: "\<exists>r \<in> set xs. nt_id r = i \<and> nt_identity r = n \<and> \<not> nt_read r \<and> current now r"
  shows "length (filter (\<lambda>r. nt_identity r = n \<and> \<not> nt_read r \<and> current now r) xs)
     = Suc (length (filter (\<lambda>r. nt_identity r = n \<and> \<not> nt_read r \<and> current now r)
         (update_where (\<lambda>r. nt_id r = i \<and> nt_identity r = n \<and> \<not> nt_read r) (mark now) xs)))"
  using assms
proof (induction xs)
  case (Cons a xs)
  show ?case
  proof (cases "nt_id a = i")
    case True
    with Cons.prems have "update_where (\<lambda>r. nt_id r = i \<and> nt_identity r = n \<and> \<not> nt_read r) (mark now) xs = xs"
      by (intro update_where_none) (force simp: image_iff)
    moreover have "nt_identity a = n \<and> \<not> nt_read a \<and> current now a" using Cons.prems True by (auto simp: image_iff)
    ultimately show ?thesis using True by (simp add: update_where_def)
  next
    case False
    then show ?thesis using Cons by (auto simp: update_where_def current_def)
  qed
qed simp

end
