(* ===== verification/Hub.thy ===== *)
theory Hub
  imports Notifications Session Jwt
begin

text \<open>
  The web-socket hub: messages (\<open>domain/websocket/types.go\<close>), connections (\<open>websocket/client.go\<close>), the
  handler registry (\<open>websocket/handler.go\<close>) and the hub itself (\<open>websocket/hub.go\<close>).

  A connection is an object on a heap (\<open>hb_objs\<close>, indexed by allocation) that the hub, the two pumps and any
  broadcaster share: its send channel is the list of messages not yet written, with the flag of a closed
  channel and the flag of a cancelled context. Operations that hold the mutex of the hub are atomic; what a
  goroutine does when it cannot go on is a value: \<open>Waits\<close> when it blocks on the unregister channel, \<open>Panics\<close>
  when it sends on, or closes, a closed channel (which ends the process). A send whose channel has room and
  whose context is cancelled may take either case of the select: \<open>pick\<close> decides. The order in which Go walks a
  map is the argument \<open>ord\<close>. Encoding a message as JSON is taken to succeed.
\<close>

section \<open>Messages\<close>

datatype payload =
    NoData
  | Welcome id string "string list" "string list" string
  | ErrorData string string string
  | Channels "string list" string
  | NoteData id string string string bool "string option" instant
  | Unread int
  | PermissionChange string string string bool "instant option"
  | Alert string string string string
  | SessionEvent string string string
  | Reason string
  | MarkedRead id int
  | AllRead
  | NoteList "notification list"
  | ProfileUpdate id string string string instant

record ws_message =
  wm_type :: string
  wm_data :: payload
  wm_at :: instant
  wm_id :: string

definition NewMessage :: "instant \<Rightarrow> string \<Rightarrow> payload \<Rightarrow> ws_message" where
  "NewMessage now t d = \<lparr>wm_type = t, wm_data = d, wm_at = now, wm_id = string_of_int now\<rparr>"

section \<open>Connections\<close>

record client_auth =
  ca_identity :: id
  ca_session :: string
  ca_roles :: "string list"
  ca_perms :: "string list"
  ca_email :: string
  ca_device :: string

record ws_client =
  cn_identity :: id
  cn_session :: string
  cn_roles :: "string list"
  cn_perms :: "string list"
  cn_device :: string
  cn_email :: string
  cn_subs :: "string list"
  cn_send :: "ws_message list"
  cn_closed :: bool
  cn_done :: bool

definition NewClient :: "client_auth \<Rightarrow> ws_client" where
  "NewClient a = \<lparr>cn_identity = ca_identity a, cn_session = ca_session a, cn_roles = ca_roles a, cn_perms = ca_perms a,
     cn_device = ca_device a, cn_email = ca_email a, cn_subs = [], cn_send = [], cn_closed = False, cn_done = False\<rparr>"

definition cn_HasRole :: "ws_client \<Rightarrow> string \<Rightarrow> bool" where
  "cn_HasRole c r = list_ex (\<lambda>x. x = r) (cn_roles c)"

definition cn_HasPermission :: "ws_client \<Rightarrow> string \<Rightarrow> bool" where
  "cn_HasPermission c p = list_ex (\<lambda>x. x = p) (cn_perms c)"

definition may_subscribe :: "ws_client \<Rightarrow> string \<Rightarrow> bool" where
  "may_subscribe c ch =
     (if ch = ''permissions'' then cn_HasRole c ''admin'' \<or> cn_HasRole c ''super_admin''
      else if ch = ''audit'' then cn_HasRole c ''super_admin'' else True)"

definition Subscribe :: "string \<Rightarrow> ws_client \<Rightarrow> ws_client" where
  "Subscribe ch c = (if may_subscribe c ch then c\<lparr>cn_subs := List.insert ch (cn_subs c)\<rparr> else c)"

definition Unsubscribe :: "string \<Rightarrow> ws_client \<Rightarrow> ws_client" where
  "Unsubscribe ch c = c\<lparr>cn_subs := removeAll ch (cn_subs c)\<rparr>"

definition IsSubscribed :: "ws_client \<Rightarrow> string \<Rightarrow> bool" where
  "IsSubscribed c ch \<longleftrightarrow> ch \<in> set (cn_subs c)"

text \<open>The capacity of the send channel and of the broadcast channel.\<close>

definition chan_cap :: nat where
  "chan_cap = 256"

datatype send_result = Sent ws_client | Dropped | Overflow ws_client | SendPanic

text \<open>
  The select of \<open>SendMessage\<close>. Its send case is ready when the channel has room or is closed (and then
  panics); with neither case ready the default closes the channel and sends the client to the hub.
\<close>

definition SendMessage :: "bool \<Rightarrow> ws_message \<Rightarrow> ws_client \<Rightarrow> send_result" where
  "SendMessage pick m c =
     (let can = cn_closed c \<or> length (cn_send c) < chan_cap in
      if can \<and> \<not> (cn_done c \<and> pick)
      then (if cn_closed c then SendPanic else Sent (c\<lparr>cn_send := cn_send c @ [m]\<rparr>))
      else if cn_done c then Dropped
      else Overflow (c\<lparr>cn_closed := True\<rparr>))"

definition error_message :: "instant \<Rightarrow> string \<Rightarrow> string \<Rightarrow> string \<Rightarrow> ws_message" where
  "error_message now code msg details = NewMessage now ''error'' (ErrorData code msg details)"

text \<open>\<open>Close\<close>: cancel the context, close the channel; \<open>None\<close> is the panic of closing it twice.\<close>

definition Close :: "ws_client \<Rightarrow> ws_client option" where
  "Close c = (if cn_closed c then None else Some (c\<lparr>cn_done := True, cn_closed := True\<rparr>))"

section \<open>Handlers\<close>

record 'j in_message =
  im_type :: string
  im_data :: 'j

text \<open>A handler returns the messages it sends, in order, its error and the state it leaves.\<close>

type_synonym ('j, 's) handler = "ws_client \<Rightarrow> 'j in_message \<Rightarrow> 's \<Rightarrow> (ws_message list \<times> string option) \<times> 's"

type_synonym ('j, 's) registry = "string \<Rightarrow> ('j, 's) handler option"

definition register_handler :: "string list \<Rightarrow> ('j, 's) handler \<Rightarrow> ('j, 's) registry \<Rightarrow> ('j, 's) registry" where
  "register_handler evs h R = foldl (\<lambda>R e. R(e := Some h)) R evs"

definition HandleClientMessage ::
  "('j, 's) registry \<Rightarrow> ws_client \<Rightarrow> 'j in_message \<Rightarrow> 's \<Rightarrow> (ws_message list \<times> string option) \<times> 's" where
  "HandleClientMessage R c m st = (case R (im_type m) of None \<Rightarrow> (([], None), st) | Some h \<Rightarrow> h c m st)"

definition built_in ::
  "('j \<Rightarrow> string + string list) \<Rightarrow> instant \<Rightarrow> 'j in_message \<Rightarrow> ws_client \<Rightarrow> ws_message list \<times> ws_client" where
  "built_in decode now m c =
     (if im_type m = ''ping'' then ([NewMessage now ''pong'' NoData], c)
      else if im_type m = ''subscribe'' then (case decode (im_data m) of
          Inl e \<Rightarrow> ([error_message now ''invalid_subscribe'' ''Invalid subscribe request'' e], c)
        | Inr chs \<Rightarrow> ([NewMessage now ''subscribe'' (Channels chs ''subscribed'')], foldl (\<lambda>c ch. Subscribe ch c) c chs))
      else if im_type m = ''unsubscribe'' then (case decode (im_data m) of
          Inl e \<Rightarrow> ([error_message now ''invalid_unsubscribe'' ''Invalid unsubscribe request'' e], c)
        | Inr chs \<Rightarrow> ([NewMessage now ''unsubscribe'' (Channels chs ''unsubscribed'')], foldl (\<lambda>c ch. Unsubscribe ch c) c chs))
      else ([], c))"

text \<open>
  \<open>handleMessage\<close> on a message that JSON decoding has read or refused: the messages the read pump then
  sends, the connection with its new subscriptions, the state the handler leaves.
\<close>

definition handleMessage ::
  "('j \<Rightarrow> string + string list) \<Rightarrow> instant \<Rightarrow> ('j, 's) registry \<Rightarrow> string + 'j in_message \<Rightarrow> ws_client \<Rightarrow> 's
     \<Rightarrow> (ws_message list \<times> ws_client) \<times> 's" where
  "handleMessage decode now R raw c st =
     (case raw of
        Inl e \<Rightarrow> (([error_message now ''invalid_message'' ''Failed to parse message'' e], c), st)
      | Inr m \<Rightarrow> (case HandleClientMessage R c m st of
          ((ms, Some e), st) \<Rightarrow> ((ms @ [error_message now ''handler_error'' ''Failed to process message'' e], c), st)
        | ((ms, None), st) \<Rightarrow> (let (bs, c') = built_in decode now m c in ((ms @ bs, c'), st))))"

section \<open>The hub\<close>

record bcast =
  bc_ids :: "id list option"
  bc_channel :: string
  bc_message :: ws_message

record hub =
  hb_clients :: "(id \<times> nat list) list"
  hb_objs :: "ws_client list"
  hb_queue :: "bcast list"

definition NewHub :: hub where
  "NewHub = \<lparr>hb_clients = [], hb_objs = [], hb_queue = []\<rparr>"

definition AuthenticateClient ::
  "jwt_lib \<Rightarrow> verifier \<Rightarrow> bool \<Rightarrow> instant \<Rightarrow> string \<Rightarrow> auth_state \<Rightarrow> (auth_error + client_auth) \<times> auth_state" where
  "AuthenticateClient L v up now tok st =
     (case VerifyAccessToken L v now tok of
        Inl _ \<Rightarrow> (Inl (AuthErr ''invalid token''), st)
      | Inr c \<Rightarrow> (case IsTokenBlacklisted up now (cl_id c) st of
          Inl e \<Rightarrow> (Inl e, st)
        | Inr black \<Rightarrow>
            if black then (Inl (AuthErr ''token is blacklisted''), st)
            else (case GetSession up now (cl_identity c) (cl_id c) st of
                (Inl e, st) \<Rightarrow> (Inl e, st)
              | (Inr s, st) \<Rightarrow>
                  (Inr \<lparr>ca_identity = cl_identity c, ca_session = cl_id c, ca_roles = cl_roles c,
                     ca_perms = cl_perms c, ca_email = sd_email s, ca_device = cl_device c\<rparr>, st))))"

definition clients_of :: "id \<Rightarrow> hub \<Rightarrow> nat list" where
  "clients_of n h = (case map_of (hb_clients h) n of None \<Rightarrow> [] | Some cs \<Rightarrow> cs)"

definition GetConnectedClients :: "id \<Rightarrow> hub \<Rightarrow> nat" where
  "GetConnectedClients n h = length (clients_of n h)"

definition TotalClients :: "hub \<Rightarrow> nat" where
  "TotalClients h = sum_list (map (\<lambda>(n, cs). length cs) (hb_clients h))"

definition IsUserConnected :: "id \<Rightarrow> hub \<Rightarrow> bool" where
  "IsUserConnected n h \<longleftrightarrow> 0 < GetConnectedClients n h"

definition all_clients :: "hub \<Rightarrow> nat list" where
  "all_clients h = concat (map snd (hb_clients h))"

text \<open>How an operation ends: done, blocked on the unregister channel with a client, or in a panic.\<close>

datatype hub_result = Done hub | Waits nat hub | Panics

fun send_all :: "(nat \<Rightarrow> bool) \<Rightarrow> ws_message \<Rightarrow> nat list \<Rightarrow> hub \<Rightarrow> hub_result" where
  "send_all pick m [] h = Done h"
| "send_all pick m (c # cs) h =
     (case SendMessage (pick c) m (hb_objs h ! c) of
        Sent x \<Rightarrow> send_all pick m cs (h\<lparr>hb_objs := (hb_objs h)[c := x]\<rparr>)
      | Dropped \<Rightarrow> send_all pick m cs h
      | Overflow x \<Rightarrow> Waits c (h\<lparr>hb_objs := (hb_objs h)[c := x]\<rparr>)
      | SendPanic \<Rightarrow> Panics)"

definition targets :: "id list option \<Rightarrow> hub \<Rightarrow> nat list" where
  "targets ids h = (case ids of None \<Rightarrow> all_clients h | Some ns \<Rightarrow> concat (map (\<lambda>n. clients_of n h) ns))"

definition hub_BroadcastMessage :: "(nat list \<Rightarrow> nat list) \<Rightarrow> (nat \<Rightarrow> bool) \<Rightarrow> bcast \<Rightarrow> hub \<Rightarrow> hub_result" where
  "hub_BroadcastMessage ord pick b h =
     send_all pick (bc_message b)
       (filter (\<lambda>c. IsSubscribed (hb_objs h ! c) (bc_channel b)) (ord (targets (bc_ids b) h))) h"

definition put_clients :: "id \<Rightarrow> nat list \<Rightarrow> (id \<times> nat list) list \<Rightarrow> (id \<times> nat list) list" where
  "put_clients n cs m = (n, cs) # filter (\<lambda>(k, _). k \<noteq> n) m"

definition welcome_message :: "instant \<Rightarrow> ws_client \<Rightarrow> ws_message" where
  "welcome_message now c = NewMessage now ''connected'' (Welcome (cn_identity c) (cn_session c) (cn_roles c) (cn_perms c) (cn_device c))"

text \<open>A new connection is allocated and registered; the hub sends the welcome message itself.\<close>

definition registerClient :: "instant \<Rightarrow> (nat \<Rightarrow> bool) \<Rightarrow> client_auth \<Rightarrow> hub \<Rightarrow> hub_result" where
  "registerClient now pick a h =
     (let c = length (hb_objs h); x = NewClient a
      in send_all pick (welcome_message now x) [c]
           (h\<lparr>hb_objs := hb_objs h @ [x],
              hb_clients := put_clients (cn_identity x) (List.insert c (clients_of (cn_identity x) h)) (hb_clients h)\<rparr>))"

definition unregisterClient :: "nat \<Rightarrow> hub \<Rightarrow> hub_result" where
  "unregisterClient c h =
     (let x = hb_objs h ! c; n = cn_identity x; cs = clients_of n h
      in if c \<in> set cs
         then (case Close x of
             None \<Rightarrow> Panics
           | Some y \<Rightarrow> Done (h\<lparr>hb_objs := (hb_objs h)[c := y],
               hb_clients := (if remove1 c cs = [] then filter (\<lambda>(k, _). k \<noteq> n) (hb_clients h)
                              else put_clients n (remove1 c cs) (hb_clients h))\<rparr>))
         else Done h)"

fun close_all :: "nat list \<Rightarrow> hub \<Rightarrow> hub_result" where
  "close_all [] h = Done h"
| "close_all (c # cs) h =
     (case Close (hb_objs h ! c) of
        None \<Rightarrow> Panics
      | Some y \<Rightarrow> close_all cs (h\<lparr>hb_objs := (hb_objs h)[c := y]\<rparr>))"

text \<open>\<open>DisconnectUser\<close> tells each connection and closes it, then forgets the user.\<close>

fun say_goodbye :: "(nat \<Rightarrow> bool) \<Rightarrow> ws_message \<Rightarrow> nat list \<Rightarrow> hub \<Rightarrow> hub_result" where
  "say_goodbye pick m [] h = Done h"
| "say_goodbye pick m (c # cs) h =
     (case send_all pick m [c] h of
        Done h \<Rightarrow> (case close_all [c] h of Done h \<Rightarrow> say_goodbye pick m cs h | r \<Rightarrow> r)
      | r \<Rightarrow> r)"

definition DisconnectUser :: "instant \<Rightarrow> (nat list \<Rightarrow> nat list) \<Rightarrow> (nat \<Rightarrow> bool) \<Rightarrow> id \<Rightarrow> string \<Rightarrow> hub \<Rightarrow> hub_result" where
  "DisconnectUser now ord pick n reason h =
     (case say_goodbye pick (NewMessage now ''disconnected'' (Reason reason)) (ord (clients_of n h)) h of
        Done h \<Rightarrow> Done (h\<lparr>hb_clients := filter (\<lambda>(k, _). k \<noteq> n) (hb_clients h)\<rparr>)
      | r \<Rightarrow> r)"

definition shutdown :: "(nat list \<Rightarrow> nat list) \<Rightarrow> hub \<Rightarrow> hub_result" where
  "shutdown ord h = close_all (ord (all_clients h)) h"

text \<open>The public broadcasts put a message on the broadcast channel; \<open>None\<close> when it is full.\<close>

definition enqueue :: "bcast \<Rightarrow> hub \<Rightarrow> hub option" where
  "enqueue b h = (if length (hb_queue h) < chan_cap then Some (h\<lparr>hb_queue := hb_queue h @ [b]\<rparr>) else None)"

definition BroadcastNotification :: "instant \<Rightarrow> id \<Rightarrow> payload \<Rightarrow> bcast" where
  "BroadcastNotification now n d = \<lparr>bc_ids = Some [n], bc_channel = ''notifications'', bc_message = NewMessage now ''notification'' d\<rparr>"

definition BroadcastNotificationCount :: "instant \<Rightarrow> id \<Rightarrow> int \<Rightarrow> bcast" where
  "BroadcastNotificationCount now n k =
     \<lparr>bc_ids = Some [n], bc_channel = ''notifications'', bc_message = NewMessage now ''notification:count'' (Unread k)\<rparr>"

definition BroadcastPermissionChange :: "instant \<Rightarrow> id \<Rightarrow> payload \<Rightarrow> bcast" where
  "BroadcastPermissionChange now n d =
     \<lparr>bc_ids = Some [n], bc_channel = ''permissions'', bc_message = NewMessage now ''permission:granted'' d\<rparr>"

definition BroadcastSystemAlert :: "instant \<Rightarrow> string \<Rightarrow> string \<Rightarrow> string \<Rightarrow> string \<Rightarrow> bcast" where
  "BroadcastSystemAlert now sev title msg url =
     \<lparr>bc_ids = None, bc_channel = ''system'', bc_message = NewMessage now ''system:alert'' (Alert sev title msg url)\<rparr>"

definition ForceLogout :: "instant \<Rightarrow> id \<Rightarrow> string \<Rightarrow> string \<Rightarrow> bcast" where
  "ForceLogout now n sess reason =
     \<lparr>bc_ids = Some [n], bc_channel = ''system'',
      bc_message = NewMessage now ''session:force_logout'' (SessionEvent sess reason ''You have been logged out'')\<rparr>"

definition broadcastProfileUpdate :: "instant \<Rightarrow> id \<Rightarrow> profile \<Rightarrow> bcast" where
  "broadcastProfileUpdate now n p =
     \<lparr>bc_ids = Some [n], bc_channel = ''system'', bc_message = NewMessage now ''profile:updated''
        (ProfileUpdate n (stringFromNull (pf_name p)) (stringFromNull (pf_avatar p)) (stringFromNull (pf_bio p)) (pf_updated p))\<rparr>"

end
