(* ===== verification/Hub_Safety.thy ===== *)
theory Hub_Safety
  imports Hub
begin

text \<open>
  The hub as a transition system: the run loop, the goroutines of the connections and the request handlers
  that broadcast or disconnect. \<open>sy_waiting\<close> are the clients whose goroutine blocks on the unregister channel;
  the run loop itself may block there (\<open>StuckOn\<close>), and then nobody receives. A panic ends the process.

  The rest of a broadcast that blocks on one client is not continued: what follows the block is a panic of the
  run loop, or the block is for ever. Handling one message of a connection is one step.
\<close>

section \<open>The system\<close>

datatype run_state = Idle | StuckOn nat | Stopped

record ws_sys =
  sy_hub :: hub
  sy_waiting :: "nat list"
  sy_run :: run_state
  sy_locked :: bool
  sy_crashed :: bool

definition ws_start :: ws_sys where
  "ws_start = \<lparr>sy_hub = NewHub, sy_waiting = [], sy_run = Idle, sy_locked = False, sy_crashed = False\<rparr>"

definition by_run :: "hub_result \<Rightarrow> ws_sys \<Rightarrow> ws_sys" where
  "by_run r s = (case r of
       Done h \<Rightarrow> s\<lparr>sy_hub := h\<rparr>
     | Waits c h \<Rightarrow> s\<lparr>sy_hub := h, sy_run := StuckOn c\<rparr>
     | Panics \<Rightarrow> s\<lparr>sy_crashed := True\<rparr>)"

definition by_other :: "hub_result \<Rightarrow> ws_sys \<Rightarrow> ws_sys" where
  "by_other r s = (case r of
       Done h \<Rightarrow> s\<lparr>sy_hub := h\<rparr>
     | Waits c h \<Rightarrow> s\<lparr>sy_hub := h, sy_waiting := c # sy_waiting s\<rparr>
     | Panics \<Rightarrow> s\<lparr>sy_crashed := True\<rparr>)"

text \<open>A disconnection that blocks keeps the write lock.\<close>

definition by_disconnect :: "hub_result \<Rightarrow> ws_sys \<Rightarrow> ws_sys" where
  "by_disconnect r s = (case r of Waits c h \<Rightarrow> (by_other r s)\<lparr>sy_locked := True\<rparr> | _ \<Rightarrow> by_other r s)"

text \<open>The read pump sends the answers to a message one after the other.\<close>

fun answer :: "(nat \<Rightarrow> bool) \<Rightarrow> ws_message list \<Rightarrow> nat \<Rightarrow> hub \<Rightarrow> hub_result" where
  "answer pick [] c h = Done h"
| "answer pick (m # ms) c h = (case send_all pick m [c] h of Done h \<Rightarrow> answer (\<lambda>k. pick (Suc k)) ms c h | r \<Rightarrow> r)"

definition reorders :: "(nat list \<Rightarrow> nat list) \<Rightarrow> bool" where
  "reorders ord \<longleftrightarrow> (\<forall>xs. mset (ord xs) = mset xs)"

text \<open>
  What the run loop does in one round, when it is free. While a blocked disconnection keeps the lock, taking
  the blocked client is the one round that can end.
\<close>

inductive run_step :: "ws_sys \<Rightarrow> ws_sys \<Rightarrow> bool" where
  connect: "sy_run s = Idle \<Longrightarrow> \<not> sy_locked s \<Longrightarrow> run_step s (by_run (registerClient now pick a (sy_hub s)) s)"
| leave: "sy_run s = Idle \<Longrightarrow> \<not> sy_locked s \<Longrightarrow> c < length (hb_objs (sy_hub s)) \<Longrightarrow> c \<notin> set (sy_waiting s)
    \<Longrightarrow> run_step s (by_run (unregisterClient c (sy_hub s)) s)"
| receive: "sy_run s = Idle \<Longrightarrow> c \<in> set (sy_waiting s)
    \<Longrightarrow> run_step s (by_run (unregisterClient c (sy_hub s)) (s\<lparr>sy_waiting := remove1 c (sy_waiting s)\<rparr>))"
| broadcast: "sy_run s = Idle \<Longrightarrow> \<not> sy_locked s \<Longrightarrow> hb_queue (sy_hub s) = b # q \<Longrightarrow> reorders ord
    \<Longrightarrow> run_step s (by_run (hub_BroadcastMessage ord pick b (sy_hub s\<lparr>hb_queue := q\<rparr>)) s)"
| stop: "sy_run s = Idle \<Longrightarrow> \<not> sy_locked s \<Longrightarrow> reorders ord
    \<Longrightarrow> run_step s (by_run (shutdown ord (sy_hub s)) (s\<lparr>sy_run := Stopped\<rparr>))"

inductive ws_step :: "('j \<Rightarrow> string + string list) \<Rightarrow> ('j, 's) registry \<Rightarrow> ws_sys \<Rightarrow> ws_sys \<Rightarrow> bool" for dec R where
  run: "\<not> sy_crashed s \<Longrightarrow> run_step s t \<Longrightarrow> ws_step dec R s t"
| queue: "\<not> sy_crashed s \<Longrightarrow> enqueue b (sy_hub s) = Some h \<Longrightarrow> ws_step dec R s (s\<lparr>sy_hub := h\<rparr>)"
| direct: "\<not> sy_crashed s \<Longrightarrow> \<not> sy_locked s \<Longrightarrow> reorders ord
    \<Longrightarrow> ws_step dec R s (by_other (hub_BroadcastMessage ord pick b (sy_hub s)) s)"
| disconnect: "\<not> sy_crashed s \<Longrightarrow> \<not> sy_locked s \<Longrightarrow> (\<forall>c. sy_run s \<noteq> StuckOn c) \<Longrightarrow> reorders ord
    \<Longrightarrow> ws_step dec R s (by_disconnect (DisconnectUser now ord pick n reason (sy_hub s)) s)"
| written: "\<not> sy_crashed s \<Longrightarrow> c < length (hb_objs (sy_hub s)) \<Longrightarrow> cn_send (hb_objs (sy_hub s) ! c) = m # ms
    \<Longrightarrow> ws_step dec R s (s\<lparr>sy_hub := sy_hub s\<lparr>hb_objs := (hb_objs (sy_hub s))[c := (hb_objs (sy_hub s) ! c)\<lparr>cn_send := ms\<rparr>]\<rparr>\<rparr>)"
| message: "\<not> sy_crashed s \<Longrightarrow> c < length (hb_objs (sy_hub s)) \<Longrightarrow> c \<notin> set (sy_waiting s)
    \<Longrightarrow> handleMessage dec now R raw (hb_objs (sy_hub s) ! c) st = ((ms, x), st')
    \<Longrightarrow> ws_step dec R s (by_other (answer pick ms c (sy_hub s\<lparr>hb_objs := (hb_objs (sy_hub s))[c := x]\<rparr>)) s)"

inductive ws_reach :: "('j \<Rightarrow> string + string list) \<Rightarrow> ('j, 's) registry \<Rightarrow> ws_sys \<Rightarrow> ws_sys \<Rightarrow> bool" for dec R where
  refl: "ws_reach dec R s s"
| step: "ws_reach dec R s t \<Longrightarrow> ws_step dec R t u \<Longrightarrow> ws_reach dec R s u"

section \<open>The invariant\<close>

definition client_ok :: "ws_client \<Rightarrow> bool" where
  "client_ok x \<longleftrightarrow> length (cn_send x) \<le> chan_cap \<and> (\<forall>ch \<in> set (cn_subs x). may_subscribe x ch) \<and> (cn_done x \<longrightarrow> cn_closed x)"

text \<open>
  \<open>W\<close> are the connections that overflowed: their channel is closed, their context is not. \<open>D\<close> are the
  connections that may be registered although they are closed.
\<close>

definition hub_ok :: "nat set \<Rightarrow> nat set \<Rightarrow> hub \<Rightarrow> bool" where
  "hub_ok D W h \<longleftrightarrow>
     distinct (map fst (hb_clients h))
     \<and> (\<forall>(n, cs) \<in> set (hb_clients h). cs \<noteq> [] \<and> distinct cs
          \<and> (\<forall>c \<in> set cs. c < length (hb_objs h) \<and> cn_identity (hb_objs h ! c) = n))
     \<and> (\<forall>c < length (hb_objs h). client_ok (hb_objs h ! c))
     \<and> (\<forall>c < length (hb_objs h). \<not> cn_done (hb_objs h ! c) \<longrightarrow> c \<in> set (all_clients h))
     \<and> (\<forall>c \<in> set (all_clients h). cn_done (hb_objs h ! c) \<longrightarrow> c \<in> D)
     \<and> (\<forall>c < length (hb_objs h). cn_closed (hb_objs h ! c) \<and> \<not> cn_done (hb_objs h ! c) \<longleftrightarrow> c \<in> W)
     \<and> (\<forall>c \<in> W. c < length (hb_objs h))"

lemma all_clients_iff: "c \<in> set (all_clients h) \<longleftrightarrow> (\<exists>n cs. (n, cs) \<in> set (hb_clients h) \<and> c \<in> set cs)"
  by (force simp: all_clients_def)

lemma clients_of_all: "set (clients_of n h) \<subseteq> set (all_clients h)"
  by (force simp: clients_of_def all_clients_iff split: option.splits dest: map_of_SomeD [OF sym] map_of_SomeD)

lemma hub_ok_bound: "hub_ok D W h \<Longrightarrow> c \<in> set (all_clients h) \<Longrightarrow> c < length (hb_objs h)"
  by (auto simp: hub_ok_def all_clients_iff)

lemma targets_all: "set (targets ids h) \<subseteq> set (all_clients h)"
  using clients_of_all by (fastforce simp: targets_def split: option.splits)

lemma hub_ok_set:
  assumes h: "hub_ok D W h" and c: "c < length (hb_objs h)" and x: "client_ok x"
    and same: "cn_identity x = cn_identity (hb_objs h ! c)" "cn_done x = cn_done (hb_objs h ! c)"
    and W: "cn_closed x \<and> \<not> cn_done x \<longleftrightarrow> c \<in> W'" "W' - {c} = W - {c}"
  shows "hub_ok D W' (h\<lparr>hb_objs := (hb_objs h)[c := x]\<rparr>)"
proof -
  have mem: "k \<in> W' \<longleftrightarrow> k \<in> W" if "k \<noteq> c" for k using W(2) that by blast
  have all: "all_clients (h\<lparr>hb_objs := os\<rparr>) = all_clients h" for os by (simp add: all_clients_def)
  have ids: "cn_identity ((hb_objs h)[c := x] ! k) = cn_identity (hb_objs h ! k)" if "k < length (hb_objs h)" for k
    using same(1) c that by (cases "k = c") auto
  have dones: "cn_done ((hb_objs h)[c := x] ! k) = cn_done (hb_objs h ! k)" if "k < length (hb_objs h)" for k
    using same(2) c that by (cases "k = c") auto
  have w: "cn_closed ((hb_objs h)[c := x] ! k) \<and> \<not> cn_done ((hb_objs h)[c := x] ! k) \<longleftrightarrow> k \<in> W'" if "k < length (hb_objs h)" for k
    using h W(1) c that mem [of k] by (cases "k = c") (auto simp: hub_ok_def)
  have ok: "client_ok ((hb_objs h)[c := x] ! k)" if "k < length (hb_objs h)" for k
    using h x that by (cases "k = c") (auto simp: hub_ok_def)
  have bound: "\<forall>k \<in> W'. k < length (hb_objs h)" 
  proof
    fix k assume "k \<in> W'" then show "k < length (hb_objs h)"
      using h c mem [of k] by (cases "k = c") (auto simp: hub_ok_def)
  qed
  show ?thesis
    unfolding hub_ok_def all
    using h ids dones w ok bound hub_ok_bound [OF h] by (simp add: hub_ok_def) (fastforce simp: hub_ok_def)
qed

lemma SendMessage_cases:
  assumes "client_ok x"
  shows "case SendMessage pick m x of
      Sent y \<Rightarrow> \<not> cn_closed x \<and> length (cn_send x) < chan_cap \<and> y = x\<lparr>cn_send := cn_send x @ [m]\<rparr>
    | Dropped \<Rightarrow> cn_done x
    | Overflow y \<Rightarrow> \<not> cn_closed x \<and> \<not> cn_done x \<and> length (cn_send x) = chan_cap \<and> y = x\<lparr>cn_closed := True\<rparr>
    | SendPanic \<Rightarrow> cn_closed x"
  using assms by (auto simp: SendMessage_def client_ok_def Let_def)

lemma may_subscribe_cong [simp]:
  "may_subscribe (x\<lparr>cn_send := a\<rparr>) ch = may_subscribe x ch" "may_subscribe (x\<lparr>cn_closed := b\<rparr>) ch = may_subscribe x ch"
  "may_subscribe (x\<lparr>cn_done := b\<rparr>) ch = may_subscribe x ch" "may_subscribe (x\<lparr>cn_subs := ss\<rparr>) ch = may_subscribe x ch"
  by (simp_all add: may_subscribe_def cn_HasRole_def)

definition same_table :: "hub \<Rightarrow> hub \<Rightarrow> bool" where
  "same_table h h' \<longleftrightarrow> hb_clients h' = hb_clients h \<and> hb_queue h' = hb_queue h \<and> length (hb_objs h') = length (hb_objs h)"

definition kept :: "nat set \<Rightarrow> nat set \<Rightarrow> hub \<Rightarrow> hub_result \<Rightarrow> bool" where
  "kept D W h r = (case r of
       Done h' \<Rightarrow> hub_ok D W h' \<and> same_table h h'
     | Waits c h' \<Rightarrow> hub_ok D (insert c W) h' \<and> same_table h h'
     | Panics \<Rightarrow> True)"

lemma kept_trans: "same_table h h' \<Longrightarrow> kept D W h' r \<Longrightarrow> kept D W h r"
  by (auto simp: kept_def same_table_def split: hub_result.splits)

lemma hub_ok_at: "hub_ok D W h \<Longrightarrow> c < length (hb_objs h) \<Longrightarrow> client_ok (hb_objs h ! c)"
  by (simp add: hub_ok_def)

lemma hub_ok_W: "hub_ok D W h \<Longrightarrow> c < length (hb_objs h) \<Longrightarrow> c \<in> W \<longleftrightarrow> cn_closed (hb_objs h ! c) \<and> \<not> cn_done (hb_objs h ! c)"
  by (simp add: hub_ok_def)

lemma send_all_kept:
  "hub_ok D W h \<Longrightarrow> \<forall>c \<in> set cs. c < length (hb_objs h) \<Longrightarrow> kept D W h (send_all pick m cs h)"
proof (induction cs arbitrary: h)
  case Nil
  then show ?case by (simp add: kept_def same_table_def)
next
  case (Cons c cs)
  let ?x = "hb_objs h ! c"
  have c: "c < length (hb_objs h)" "client_ok ?x" using Cons.prems hub_ok_at by auto
  note W = hub_ok_W [OF Cons.prems(1) c(1)]
  note r = SendMessage_cases [OF c(2), where pick = "pick c" and m = m]
  show ?case
  proof (cases "SendMessage (pick c) m ?x")
    case (Sent y)
    then have y: "\<not> cn_closed ?x" "length (cn_send ?x) < chan_cap" "y = ?x\<lparr>cn_send := cn_send ?x @ [m]\<rparr>" using r by simp_all
    let ?h = "h\<lparr>hb_objs := (hb_objs h)[c := y]\<rparr>"
    have "hub_ok D W ?h" using c y W by (intro hub_ok_set [OF Cons.prems(1)]) (auto simp: client_ok_def)
    moreover have "same_table h ?h" by (simp add: same_table_def)
    moreover have "\<forall>k \<in> set cs. k < length (hb_objs ?h)" using Cons.prems(2) by simp
    ultimately show ?thesis using Sent Cons.IH [of ?h] kept_trans by simp
  next
    case Dropped
    then show ?thesis using Cons by simp
  next
    case (Overflow y)
    then have y: "\<not> cn_closed ?x" "\<not> cn_done ?x" "y = ?x\<lparr>cn_closed := True\<rparr>" using r by simp_all
    have "hub_ok D (insert c W) (h\<lparr>hb_objs := (hb_objs h)[c := y]\<rparr>)"
      using c y W by (intro hub_ok_set [OF Cons.prems(1)]) (auto simp: client_ok_def)
    then show ?thesis using Overflow by (simp add: kept_def same_table_def)
  next
    case SendPanic
    then show ?thesis by (simp add: kept_def)
  qed
qed

lemma broadcast_kept:
  assumes "hub_ok D W h" "reorders ord"
  shows "kept D W h (hub_BroadcastMessage ord pick b h)"
proof -
  have "set (ord (targets (bc_ids b) h)) = set (targets (bc_ids b) h)"
    using assms(2) by (metis reorders_def set_mset_mset)
  then show ?thesis
    unfolding hub_BroadcastMessage_def
    using targets_all hub_ok_bound [OF assms(1)] by (intro send_all_kept [OF assms(1)]) fastforce
qed

lemma answer_kept: "hub_ok D W h \<Longrightarrow> c < length (hb_objs h) \<Longrightarrow> kept D W h (answer pick ms c h)"
proof (induction ms arbitrary: h pick)
  case (Cons m ms)
  have s: "kept D W h (send_all pick m [c] h)" using Cons.prems by (intro send_all_kept) simp_all
  show ?case
  proof (cases "send_all pick m [c] h")
    case (Done h')
    then have h': "hub_ok D W h'" "same_table h h'" using s by (simp_all add: kept_def)
    then have "kept D W h' (answer (\<lambda>k. pick (Suc k)) ms c h')" using Cons.prems by (intro Cons.IH) (simp_all add: same_table_def)
    then show ?thesis using Done kept_trans [OF h'(2)] by simp
  qed (use s in \<open>simp_all add: kept_def\<close>)
qed (simp add: kept_def same_table_def)

lemma clients_of_put [simp]:
  "clients_of k (h\<lparr>hb_objs := os, hb_clients := put_clients n cs (hb_clients h)\<rparr>) = (if k = n then cs else clients_of k h)"
  "clients_of k (h\<lparr>hb_clients := put_clients n cs (hb_clients h)\<rparr>) = (if k = n then cs else clients_of k h)"
proof -
  have "map_of (filter (\<lambda>(j, _). j \<noteq> n) m) k = (if k = n then None else map_of m k)" for m :: "(id \<times> nat list) list"
    by (induction m) auto
  then show "clients_of k (h\<lparr>hb_objs := os, hb_clients := put_clients n cs (hb_clients h)\<rparr>) = (if k = n then cs else clients_of k h)"
    "clients_of k (h\<lparr>hb_clients := put_clients n cs (hb_clients h)\<rparr>) = (if k = n then cs else clients_of k h)"
    by (simp_all add: clients_of_def put_clients_def)
qed

lemma clients_of_drop [simp]:
  "clients_of k (h\<lparr>hb_objs := os, hb_clients := filter (\<lambda>(j, _). j \<noteq> n) (hb_clients h)\<rparr>) = (if k = n then [] else clients_of k h)"
  "clients_of k (h\<lparr>hb_clients := filter (\<lambda>(j, _). j \<noteq> n) (hb_clients h)\<rparr>) = (if k = n then [] else clients_of k h)"
proof -
  have "map_of (filter (\<lambda>(j, _). j \<noteq> n) m) k = (if k = n then None else map_of m k)" for m :: "(id \<times> nat list) list"
    by (induction m) auto
  then show "clients_of k (h\<lparr>hb_objs := os, hb_clients := filter (\<lambda>(j, _). j \<noteq> n) (hb_clients h)\<rparr>) = (if k = n then [] else clients_of k h)"
    "clients_of k (h\<lparr>hb_clients := filter (\<lambda>(j, _). j \<noteq> n) (hb_clients h)\<rparr>) = (if k = n then [] else clients_of k h)"
    by (simp_all add: clients_of_def)
qed

lemma distinct_keys_drop: "distinct (map fst m) \<Longrightarrow> distinct (map fst (filter (\<lambda>(j, _). j \<noteq> n) m))"
  by (induction m) auto

lemma distinct_keys_put: "distinct (map fst m) \<Longrightarrow> distinct (map fst (put_clients n cs m))"
  by (auto simp: put_clients_def distinct_keys_drop)

lemma all_clients_of: "distinct (map fst (hb_clients h)) \<Longrightarrow> c \<in> set (all_clients h) \<longleftrightarrow> (\<exists>n. c \<in> set (clients_of n h))"
proof
  assume d: "distinct (map fst (hb_clients h))" and "c \<in> set (all_clients h)"
  then obtain n cs where "(n, cs) \<in> set (hb_clients h)" "c \<in> set cs" by (auto simp: all_clients_iff)
  with d have "clients_of n h = cs" by (simp add: clients_of_def)
  then show "\<exists>n. c \<in> set (clients_of n h)" using \<open>c \<in> set cs\<close> by blast
next
  assume "\<exists>n. c \<in> set (clients_of n h)"
  then show "c \<in> set (all_clients h)" using clients_of_all by blast
qed

text \<open>The invariant in terms of the lists the hub looks up.\<close>

lemma hub_ok_iff:
  "hub_ok D W h \<longleftrightarrow>
     distinct (map fst (hb_clients h)) \<and> (\<forall>(n, cs) \<in> set (hb_clients h). cs \<noteq> [])
     \<and> (\<forall>n. distinct (clients_of n h) \<and> (\<forall>c \<in> set (clients_of n h). c < length (hb_objs h) \<and> cn_identity (hb_objs h ! c) = n
          \<and> (cn_done (hb_objs h ! c) \<longrightarrow> c \<in> D)))
     \<and> (\<forall>c < length (hb_objs h). client_ok (hb_objs h ! c))
     \<and> (\<forall>c < length (hb_objs h). \<not> cn_done (hb_objs h ! c) \<longrightarrow> c \<in> set (clients_of (cn_identity (hb_objs h ! c)) h))
     \<and> (\<forall>c < length (hb_objs h). cn_closed (hb_objs h ! c) \<and> \<not> cn_done (hb_objs h ! c) \<longleftrightarrow> c \<in> W)
     \<and> (\<forall>c \<in> W. c < length (hb_objs h))" (is "_ \<longleftrightarrow> ?R")
proof
  assume h: "hub_ok D W h"
  then have d: "distinct (map fst (hb_clients h))" by (simp add: hub_ok_def)
  have e: "clients_of n h = [] \<or> (n, clients_of n h) \<in> set (hb_clients h)" for n
    by (auto simp: clients_of_def split: option.splits dest: map_of_SomeD)
  have f: "distinct (clients_of n h) \<and> (\<forall>c \<in> set (clients_of n h). c < length (hb_objs h) \<and> cn_identity (hb_objs h ! c) = n
      \<and> (cn_done (hb_objs h ! c) \<longrightarrow> c \<in> D))" for n
    using e [of n] h clients_of_all [of n h] by (fastforce simp: hub_ok_def)
  have g: "c \<in> set (clients_of (cn_identity (hb_objs h ! c)) h)" if "c < length (hb_objs h)" "\<not> cn_done (hb_objs h ! c)" for c
  proof -
    have "c \<in> set (all_clients h)" using h that by (simp add: hub_ok_def)
    then obtain n where "c \<in> set (clients_of n h)" using all_clients_of [OF d] by blast
    then show ?thesis using f [of n] by auto
  qed
  show ?R using h f g by (auto simp: hub_ok_def)
next
  assume r: ?R
  then have d: "distinct (map fst (hb_clients h))" by simp
  have e: "clients_of n h = cs" if "(n, cs) \<in> set (hb_clients h)" for n cs using d that by (simp add: clients_of_def)
  show "hub_ok D W h" unfolding hub_ok_def using r all_clients_of [OF d] e by fastforce
qed

lemma put_entries: "\<forall>(n, cs) \<in> set m. cs \<noteq> [] \<Longrightarrow> cs \<noteq> [] \<Longrightarrow> \<forall>(k, ds) \<in> set (put_clients n cs m). ds \<noteq> []"
  by (auto simp: put_clients_def)

lemma client_ok_new: "client_ok (NewClient a)"
  by (simp add: client_ok_def NewClient_def)

lemma hub_ok_register:
  assumes h: "hub_ok D W h"
  shows "hub_ok D W (h\<lparr>hb_objs := hb_objs h @ [NewClient a],
     hb_clients := put_clients (ca_identity a) (List.insert (length (hb_objs h)) (clients_of (ca_identity a) h)) (hb_clients h)\<rparr>)"
    (is "hub_ok D W ?h")
proof -
  let ?c = "length (hb_objs h)" and ?n = "ca_identity a" and ?os = "hb_objs h @ [NewClient a]"
  have keys: "distinct (map fst (hb_clients h))" "\<forall>(n, cs) \<in> set (hb_clients h). cs \<noteq> []" using h by (simp_all add: hub_ok_iff)
  have reg: "distinct (clients_of n h)" "k \<in> set (clients_of n h) \<Longrightarrow> k < ?c \<and> cn_identity (hb_objs h ! k) = n \<and> (cn_done (hb_objs h ! k) \<longrightarrow> k \<in> D)"
    for n k using h by (simp_all add: hub_ok_iff)
  have alive: "k < ?c \<Longrightarrow> \<not> cn_done (hb_objs h ! k) \<Longrightarrow> k \<in> set (clients_of (cn_identity (hb_objs h ! k)) h)" for k
    using h by (simp add: hub_ok_iff)
  have old: "?os ! k = hb_objs h ! k" if "k < ?c" for k using that by (simp add: nth_append)
  have new: "?os ! ?c = NewClient a" by simp
  have a: "cn_identity (NewClient a) = ?n" "\<not> cn_done (NewClient a)" "\<not> cn_closed (NewClient a)" by (simp_all add: NewClient_def)
  have w: "k < ?c" if "k \<in> W" for k using h that by (simp add: hub_ok_iff)
  have fresh: "?c \<notin> set (clients_of n h)" for n using reg(2) by blast
  have split: "k < length ?os \<longleftrightarrow> k < ?c \<or> k = ?c" for k by auto
  have lists: "distinct (clients_of n ?h) \<and> (\<forall>k \<in> set (clients_of n ?h). k < length ?os \<and> cn_identity (?os ! k) = n
      \<and> (cn_done (?os ! k) \<longrightarrow> k \<in> D))" for n
    unfolding split using reg fresh a old new by (cases "n = ?n") auto
  have ok: "client_ok (?os ! k)" if "k < length ?os" for k
    using that hub_ok_at [OF h] old new client_ok_new unfolding split by auto
  have live: "k \<in> set (clients_of (cn_identity (?os ! k)) ?h)" if "k < length ?os" "\<not> cn_done (?os ! k)" for k
  proof (cases "k = ?c")
    case True
    then show ?thesis using a new by simp
  next
    case False
    then have k: "k < ?c" "?os ! k = hb_objs h ! k" using that(1) old by simp_all
    have "k \<in> set (clients_of (cn_identity (hb_objs h ! k)) h)" using alive [OF k(1)] that(2) k(2) by simp
    then show ?thesis unfolding k(2) by (cases "cn_identity (hb_objs h ! k) = ?n") simp_all
  qed
  have blocked: "cn_closed (?os ! k) \<and> \<not> cn_done (?os ! k) \<longleftrightarrow> k \<in> W" if "k < length ?os" for k
  proof (cases "k = ?c")
    case True
    then show ?thesis using a new w [of k] by auto
  next
    case False
    then have "k < ?c" using that by simp
    then show ?thesis unfolding old [OF \<open>k < ?c\<close>] using hub_ok_W [OF h] by blast
  qed
  have entries: "\<forall>(k, ds) \<in> set (put_clients ?n (List.insert ?c (clients_of ?n h)) (hb_clients h)). ds \<noteq> []"
    by (rule put_entries [OF keys(2)]) (metis fresh in_set_insert list.distinct(1) not_in_set_insert)
  have bound: "\<forall>k \<in> W. k < length ?os" by (auto dest: w)
  show ?thesis
    unfolding hub_ok_iff using lists ok live blocked entries bound distinct_keys_put [OF keys(1)]
    by (simp del: clients_of_put)
qed

lemma registerClient_kept:
  assumes h: "hub_ok D W h"
  shows "case registerClient now pick a h of
      Done h' \<Rightarrow> hub_ok D W h' \<and> hb_queue h' = hb_queue h
    | Waits c h' \<Rightarrow> hub_ok D (insert c W) h' \<and> hb_queue h' = hb_queue h
    | Panics \<Rightarrow> True"
proof -
  let ?h = "h\<lparr>hb_objs := hb_objs h @ [NewClient a],
     hb_clients := put_clients (ca_identity a) (List.insert (length (hb_objs h)) (clients_of (ca_identity a) h)) (hb_clients h)\<rparr>"
  have n: "cn_identity (NewClient a) = ca_identity a" by (simp add: NewClient_def)
  have r: "registerClient now pick a h = send_all pick (welcome_message now (NewClient a)) [length (hb_objs h)] ?h"
    unfolding registerClient_def Let_def by (simp only: n)
  have "kept D W ?h (registerClient now pick a h)" unfolding r by (rule send_all_kept [OF hub_ok_register [OF h]]) simp
  then show ?thesis by (auto simp: kept_def same_table_def split: hub_result.splits)
qed

lemma hub_ok_close:
  assumes h: "hub_ok D W h" and c: "c < length (hb_objs h)" and y: "Close (hb_objs h ! c) = Some y"
  shows "hub_ok (insert c D) W (h\<lparr>hb_objs := (hb_objs h)[c := y]\<rparr>) \<and> c \<notin> W"
proof -
  have y': "\<not> cn_closed (hb_objs h ! c)" "y = (hb_objs h ! c)\<lparr>cn_done := True, cn_closed := True\<rparr>"
    using y by (auto simp: Close_def split: if_splits)
  then have w: "c \<notin> W" using hub_ok_W [OF h c] by simp
  have nth: "(hb_objs h)[c := y] ! k = (if k = c then y else hb_objs h ! k)" for k using c by simp
  have cl: "clients_of n (h\<lparr>hb_objs := os\<rparr>) = clients_of n h" for n os by (simp add: clients_of_def)
  have ok: "client_ok y" using hub_ok_at [OF h c] y'(2) by (auto simp: client_ok_def)
  have f: "cn_identity y = cn_identity (hb_objs h ! c)" "cn_done y" "cn_closed y" using y'(2) by simp_all
  show ?thesis
    unfolding hub_ok_iff cl using h w ok f by (auto simp: hub_ok_iff nth)
qed

lemma close_all_kept:
  "hub_ok D W h \<Longrightarrow> \<forall>c \<in> set cs. c < length (hb_objs h) \<Longrightarrow>
     (case close_all cs h of
        Done h' \<Rightarrow> hub_ok (D \<union> set cs) W h' \<and> same_table h h' \<and> set cs \<inter> W = {}
          \<and> (\<forall>c \<in> set cs. cn_done (hb_objs h' ! c)) \<and> (\<forall>c. cn_done (hb_objs h ! c) \<longrightarrow> cn_done (hb_objs h' ! c))
      | Waits c h' \<Rightarrow> False
      | Panics \<Rightarrow> True)"
proof (induction cs arbitrary: h D)
  case Nil
  then show ?case by (simp add: same_table_def)
next
  case (Cons c cs)
  show ?case
  proof (cases "Close (hb_objs h ! c)")
    case (Some y)
    let ?h = "h\<lparr>hb_objs := (hb_objs h)[c := y]\<rparr>"
    have c: "c < length (hb_objs h)" using Cons.prems by simp
    have k: "hub_ok (insert c D) W ?h" "c \<notin> W" using hub_ok_close [OF Cons.prems(1) c Some] by simp_all
    have y: "cn_done y" using Some by (auto simp: Close_def split: if_splits)
    have "\<forall>k \<in> set cs. k < length (hb_objs ?h)" using Cons.prems(2) by simp
    from Cons.IH [OF k(1) this] show ?thesis
      using Some k(2) y c by (auto simp: same_table_def nth_list_update split: hub_result.splits)
  qed simp
qed

lemma hub_ok_unlist:
  assumes h: "hub_ok D W h" and m: "distinct (map fst m)" "\<forall>(n, cs) \<in> set m. cs \<noteq> []"
    and sub: "\<And>n. distinct (clients_of n (h\<lparr>hb_clients := m\<rparr>)) \<and> set (clients_of n (h\<lparr>hb_clients := m\<rparr>)) \<subseteq> set (clients_of n h)"
    and gone: "\<And>n k. k \<in> set (clients_of n h) \<Longrightarrow> k \<notin> set (clients_of n (h\<lparr>hb_clients := m\<rparr>)) \<Longrightarrow> cn_done (hb_objs h ! k)"
    and stay: "\<And>n k. k \<in> set (clients_of n (h\<lparr>hb_clients := m\<rparr>)) \<Longrightarrow> cn_done (hb_objs h ! k) \<Longrightarrow> k \<in> D'"
  shows "hub_ok D' W (h\<lparr>hb_clients := m\<rparr>)"
proof -
  let ?h = "h\<lparr>hb_clients := m\<rparr>"
  have lists: "distinct (clients_of n ?h) \<and> (\<forall>k \<in> set (clients_of n ?h). k < length (hb_objs h) \<and> cn_identity (hb_objs h ! k) = n
      \<and> (cn_done (hb_objs h ! k) \<longrightarrow> k \<in> D'))" for n
    using sub [of n] stay [of _ n] h by (auto simp: hub_ok_iff)
  have live: "k \<in> set (clients_of (cn_identity (hb_objs h ! k)) ?h)" if "k < length (hb_objs h)" "\<not> cn_done (hb_objs h ! k)" for k
    using gone that h unfolding hub_ok_iff by blast
  show ?thesis unfolding hub_ok_iff using lists live m h by (simp add: hub_ok_iff)
qed

lemma hub_ok_mono: "hub_ok D W h \<Longrightarrow> D \<subseteq> D' \<Longrightarrow> hub_ok D' W h"
  by (auto simp: hub_ok_def)

lemma entries_drop: "\<forall>(n, cs) \<in> set m. cs \<noteq> [] \<Longrightarrow> \<forall>(k, ds) \<in> set (filter (\<lambda>(k, _). k \<noteq> n) m). ds \<noteq> []"
  by auto

lemma clients_of_objs [simp]: "clients_of n (h\<lparr>hb_objs := os\<rparr>) = clients_of n h"
  by (simp add: clients_of_def)

lemma hub_ok_keys: "hub_ok D W h \<Longrightarrow> distinct (map fst (hb_clients h)) \<and> (\<forall>(n, cs) \<in> set (hb_clients h). cs \<noteq> [])"
  by (simp add: hub_ok_iff)

lemma hub_ok_reg: "hub_ok D W h \<Longrightarrow> k \<in> set (clients_of n h)
    \<Longrightarrow> k < length (hb_objs h) \<and> cn_identity (hb_objs h ! k) = n \<and> (cn_done (hb_objs h ! k) \<longrightarrow> k \<in> D)"
  by (simp add: hub_ok_iff)

lemma hub_ok_forget_user:
  assumes h: "hub_ok D W h" and d: "\<forall>k \<in> set (clients_of n h). cn_done (hb_objs h ! k)" and D: "D \<subseteq> D' \<union> set (clients_of n h)"
  shows "hub_ok D' W (h\<lparr>hb_clients := filter (\<lambda>(k, _). k \<noteq> n) (hb_clients h)\<rparr>)"
proof (rule hub_ok_unlist [OF h])
  show "distinct (map fst (filter (\<lambda>(k, _). k \<noteq> n) (hb_clients h)))" "\<forall>(k, cs) \<in> set (filter (\<lambda>(k, _). k \<noteq> n) (hb_clients h)). cs \<noteq> []"
    using hub_ok_keys [OF h] by (simp_all add: distinct_keys_drop entries_drop)
  show "k \<in> D'" if "k \<in> set (clients_of j (h\<lparr>hb_clients := filter (\<lambda>(k, _). k \<noteq> n) (hb_clients h)\<rparr>))" "cn_done (hb_objs h ! k)" for j k
    using that hub_ok_reg [OF h, of k j] hub_ok_reg [OF h, of k n] D by (auto split: if_splits)
qed (use h d in \<open>auto simp: hub_ok_iff split: if_splits\<close>)

lemma unregister_kept:
  assumes h: "hub_ok {} W h" and c: "c < length (hb_objs h)"
  shows "case unregisterClient c h of
      Done h' \<Rightarrow> hub_ok {} W h' \<and> hb_queue h' = hb_queue h | Waits k h' \<Rightarrow> False | Panics \<Rightarrow> True"
proof (cases "c \<in> set (clients_of (cn_identity (hb_objs h ! c)) h)")
  case True
  let ?n = "cn_identity (hb_objs h ! c)"
  let ?cs = "clients_of ?n h"
  show ?thesis
  proof (cases "Close (hb_objs h ! c)")
    case None
    then show ?thesis using True by (simp add: unregisterClient_def Let_def)
  next
    case (Some y)
    let ?g = "h\<lparr>hb_objs := (hb_objs h)[c := y]\<rparr>"
    have g: "hub_ok {c} W ?g" using hub_ok_close [OF h c Some] by simp
    have y: "cn_done y" using Some by (auto simp: Close_def split: if_splits)
    have dc: "distinct ?cs" using h by (simp add: hub_ok_iff)
    show ?thesis
    proof (cases "remove1 c ?cs = []")
      case last: True
      then have "set ?cs = {c}" using True dc by (metis empty_set insert_Diff set_remove1_eq)
      then have "hub_ok {} W (?g\<lparr>hb_clients := filter (\<lambda>(k, _). k \<noteq> ?n) (hb_clients ?g)\<rparr>)"
        using y c by (intro hub_ok_forget_user [OF g]) simp_all
      then show ?thesis using True Some last by (simp add: unregisterClient_def Let_def)
    next
      case False
      have "hub_ok {} W (?g\<lparr>hb_clients := put_clients ?n (remove1 c ?cs) (hb_clients ?g)\<rparr>)"
      proof (rule hub_ok_unlist [OF g])
        show "distinct (map fst (put_clients ?n (remove1 c ?cs) (hb_clients ?g)))"
          using hub_ok_keys [OF g] by (simp add: distinct_keys_put)
        show "\<forall>(k, ds) \<in> set (put_clients ?n (remove1 c ?cs) (hb_clients ?g)). ds \<noteq> []"
          by (rule put_entries [OF conjunct2 [OF hub_ok_keys [OF g]] False])
        have d: "distinct (clients_of j h)" for j using h by (simp add: hub_ok_iff)
        show "distinct (clients_of j (?g\<lparr>hb_clients := put_clients ?n (remove1 c ?cs) (hb_clients ?g)\<rparr>))
          \<and> set (clients_of j (?g\<lparr>hb_clients := put_clients ?n (remove1 c ?cs) (hb_clients ?g)\<rparr>)) \<subseteq> set (clients_of j ?g)" for j
          using d [of j] dc by (simp add: set_remove1_subset)
        show "cn_done (hb_objs ?g ! k)" if "k \<in> set (clients_of j ?g)"
          "k \<notin> set (clients_of j (?g\<lparr>hb_clients := put_clients ?n (remove1 c ?cs) (hb_clients ?g)\<rparr>))" for j k
          using that dc y c by (auto split: if_splits)
        show "k \<in> {}" if "k \<in> set (clients_of j (?g\<lparr>hb_clients := put_clients ?n (remove1 c ?cs) (hb_clients ?g)\<rparr>))"
          "cn_done (hb_objs ?g ! k)" for j k
        proof -
          have k: "k \<in> set (clients_of j h)" using that(1) by (auto split: if_splits dest: set_mp [OF set_remove1_subset])
          then have "k < length (hb_objs h)" "cn_identity (hb_objs h ! k) = j" "\<not> cn_done (hb_objs h ! k)" using hub_ok_reg [OF h] by auto
          then show ?thesis using that dc c by (auto simp: nth_list_update split: if_splits)
        qed
      qed
      then show ?thesis using True Some False by (simp add: unregisterClient_def Let_def)
    qed
  qed
qed (use h in \<open>simp add: unregisterClient_def Let_def\<close>)

lemma goodbye_kept:
  "hub_ok D W h \<Longrightarrow> \<forall>c \<in> set cs. c < length (hb_objs h) \<Longrightarrow>
     (case say_goodbye pick m cs h of
        Done h' \<Rightarrow> hub_ok (D \<union> set cs) W h' \<and> same_table h h'
          \<and> (\<forall>c \<in> set cs. cn_done (hb_objs h' ! c)) \<and> (\<forall>c. cn_done (hb_objs h ! c) \<longrightarrow> cn_done (hb_objs h' ! c))
      | Waits c h' \<Rightarrow> hub_ok UNIV (insert c W) h' \<and> same_table h h'
      | Panics \<Rightarrow> True)"
proof (induction cs arbitrary: h D)
  case Nil
  then show ?case by (simp add: same_table_def)
next
  case (Cons c cs)
  have c: "\<forall>k \<in> set [c]. k < length (hb_objs h)" using Cons.prems by simp
  have s: "kept D W h (send_all pick m [c] h)" by (rule send_all_kept [OF Cons.prems(1) c])
  show ?case
  proof (cases "send_all pick m [c] h")
    case (Done h1)
    then have h1: "hub_ok D W h1" "same_table h h1" using s by (simp_all add: kept_def)
    have d1: "cn_done (hb_objs h1 ! k) = cn_done (hb_objs h ! k)" for k
      using Done c by (auto simp: SendMessage_def Let_def nth_list_update split: send_result.splits if_splits)
    have c1: "\<forall>k \<in> set [c]. k < length (hb_objs h1)" using c h1(2) by (simp add: same_table_def)
    note k = close_all_kept [OF h1(1) c1]
    show ?thesis
    proof (cases "close_all [c] h1")
      case two: (Done h2)
      then have h2: "hub_ok (insert c D) W h2" "same_table h1 h2" "cn_done (hb_objs h2 ! c)"
        "\<forall>j. cn_done (hb_objs h1 ! j) \<longrightarrow> cn_done (hb_objs h2 ! j)" using k by (simp_all only: hub_result.case list.set) auto
      have "\<forall>j \<in> set cs. j < length (hb_objs h2)" using Cons.prems(2) h1(2) h2(2) by (simp add: same_table_def)
      from Cons.IH [OF h2(1) this] show ?thesis
        using Done two h1(2) h2 d1 by (auto simp: same_table_def split: hub_result.splits)
    qed (use k Done in simp_all)
  next
    case (Waits k h1)
    then show ?thesis using s by (auto simp: kept_def intro: hub_ok_mono)
  qed simp
qed

lemma reorders_set: "reorders ord \<Longrightarrow> set (ord xs) = set xs"
  by (metis reorders_def set_mset_mset)

lemma disconnect_kept:
  assumes h: "hub_ok D W h" and ord: "reorders ord"
  shows "case DisconnectUser now ord pick n reason h of
      Done h' \<Rightarrow> hub_ok D W h' \<and> hb_queue h' = hb_queue h
    | Waits c h' \<Rightarrow> hub_ok UNIV (insert c W) h' \<and> hb_queue h' = hb_queue h
    | Panics \<Rightarrow> True"
proof -
  let ?m = "NewMessage now ''disconnected'' (Reason reason)"
  have "\<forall>c \<in> set (ord (clients_of n h)). c < length (hb_objs h)" using hub_ok_reg [OF h] reorders_set [OF ord] by blast
  note g = goodbye_kept [OF h this, of pick ?m]
  show ?thesis
  proof (cases "say_goodbye pick ?m (ord (clients_of n h)) h")
    case (Done h1)
    then have h1: "hub_ok (D \<union> set (clients_of n h)) W h1" "same_table h h1" "\<forall>c \<in> set (clients_of n h). cn_done (hb_objs h1 ! c)"
      using g reorders_set [OF ord] by simp_all
    have same: "clients_of n h1 = clients_of n h" using h1(2) by (simp add: same_table_def clients_of_def)
    have "hub_ok D W (h1\<lparr>hb_clients := filter (\<lambda>(k, _). k \<noteq> n) (hb_clients h1)\<rparr>)"
      using h1(3) same by (intro hub_ok_forget_user [OF h1(1)]) auto
    then show ?thesis using Done h1(2) by (simp add: DisconnectUser_def same_table_def)
  qed (use g in \<open>simp_all add: DisconnectUser_def same_table_def\<close>)
qed

lemma Subscribe_ok: "client_ok x \<Longrightarrow> client_ok (Subscribe ch x)"
  by (auto simp: Subscribe_def client_ok_def)

lemma Unsubscribe_ok: "client_ok x \<Longrightarrow> client_ok (Unsubscribe ch x)"
  by (auto simp: Unsubscribe_def client_ok_def)

definition same_conn :: "ws_client \<Rightarrow> ws_client \<Rightarrow> bool" where
  "same_conn x y \<longleftrightarrow> cn_identity y = cn_identity x \<and> cn_done y = cn_done x \<and> cn_closed y = cn_closed x"

lemma subscribe_all: "client_ok x \<Longrightarrow> client_ok (foldl (\<lambda>c ch. Subscribe ch c) x chs) \<and> same_conn x (foldl (\<lambda>c ch. Subscribe ch c) x chs)"
proof (induction chs arbitrary: x)
  case (Cons ch chs)
  have "same_conn x (Subscribe ch x)" by (simp add: same_conn_def Subscribe_def)
  then show ?case using Cons.IH [OF Subscribe_ok [OF Cons.prems, of ch]] by (simp add: same_conn_def)
qed (simp add: same_conn_def)

lemma unsubscribe_all: "client_ok x \<Longrightarrow> client_ok (foldl (\<lambda>c ch. Unsubscribe ch c) x chs) \<and> same_conn x (foldl (\<lambda>c ch. Unsubscribe ch c) x chs)"
proof (induction chs arbitrary: x)
  case (Cons ch chs)
  have "same_conn x (Unsubscribe ch x)" by (simp add: same_conn_def Unsubscribe_def)
  then show ?case using Cons.IH [OF Unsubscribe_ok [OF Cons.prems, of ch]] by (simp add: same_conn_def)
qed (simp add: same_conn_def)

lemma handleMessage_ok:
  assumes "client_ok x" and "handleMessage dec now R raw x st = ((ms, y), st')"
  shows "client_ok y \<and> same_conn x y"
proof -
  have b: "client_ok (snd (built_in dec now m x)) \<and> same_conn x (snd (built_in dec now m x))" for m
    using assms(1) subscribe_all unsubscribe_all by (auto simp: built_in_def same_conn_def split: sum.splits)
  have "y = x \<or> (\<exists>m. y = snd (built_in dec now m x))"
    using assms(2) by (auto simp: handleMessage_def split: sum.splits prod.splits option.splits) (metis snd_conv)
  then show ?thesis using b assms(1) by (auto simp: same_conn_def)
qed

section \<open>Every step keeps the invariant\<close>

definition overflowed :: "ws_sys \<Rightarrow> nat set" where
  "overflowed s = set (sy_waiting s) \<union> (case sy_run s of StuckOn c \<Rightarrow> {c} | _ \<Rightarrow> {})"

definition may_linger :: "ws_sys \<Rightarrow> nat set" where
  "may_linger s = (if sy_run s = Stopped \<or> sy_locked s then UNIV else {})"

definition sys_ok :: "ws_sys \<Rightarrow> bool" where
  "sys_ok s \<longleftrightarrow> sy_crashed s \<or> (hub_ok (may_linger s) (overflowed s) (sy_hub s) \<and> length (hb_queue (sy_hub s)) \<le> chan_cap)"

lemma hub_ok_queue [simp]: "hub_ok D W (h\<lparr>hb_queue := q\<rparr>) = hub_ok D W h"
  by (simp add: hub_ok_def all_clients_def)

lemma by_run_ok:
  assumes "sy_run s = Idle" "\<not> sy_locked s" and "length (hb_queue h) \<le> chan_cap"
    and "case r of Done h' \<Rightarrow> hub_ok {} (set (sy_waiting s)) h' \<and> hb_queue h' = hb_queue h
      | Waits c h' \<Rightarrow> hub_ok {} (insert c (set (sy_waiting s))) h' \<and> hb_queue h' = hb_queue h | Panics \<Rightarrow> True"
  shows "sys_ok (by_run r s)"
  using assms by (auto simp: sys_ok_def by_run_def may_linger_def overflowed_def split: hub_result.splits)

lemma by_other_ok:
  assumes "length (hb_queue h) \<le> chan_cap"
    and "case r of Done h' \<Rightarrow> hub_ok (may_linger s) (overflowed s) h' \<and> hb_queue h' = hb_queue h
      | Waits c h' \<Rightarrow> hub_ok (may_linger s) (insert c (overflowed s)) h' \<and> hb_queue h' = hb_queue h | Panics \<Rightarrow> True"
  shows "sys_ok (by_other r s)"
  using assms by (auto simp: sys_ok_def by_other_def may_linger_def overflowed_def split: hub_result.splits run_state.splits)

lemma kept_result: "kept D W h r \<Longrightarrow> case r of Done h' \<Rightarrow> hub_ok D W h' \<and> hb_queue h' = hb_queue h
      | Waits c h' \<Rightarrow> hub_ok D (insert c W) h' \<and> hb_queue h' = hb_queue h | Panics \<Rightarrow> True"
  by (auto simp: kept_def same_table_def split: hub_result.splits)

text \<open>Taking an overflowed client closes its channel a second time.\<close>

lemma receive_panics:
  assumes h: "hub_ok D W h" and c: "c \<in> W"
  shows "unregisterClient c h = Panics"
proof -
  have b: "c < length (hb_objs h)" using h c by (simp add: hub_ok_def)
  then have x: "cn_closed (hb_objs h ! c)" "\<not> cn_done (hb_objs h ! c)" using hub_ok_W [OF h] c by auto
  then have "c \<in> set (clients_of (cn_identity (hb_objs h ! c)) h)" using h b by (simp add: hub_ok_iff)
  then show ?thesis using x by (simp add: unregisterClient_def Close_def Let_def)
qed

lemma idle_unlocked: "sy_run s = Idle \<Longrightarrow> \<not> sy_locked s \<Longrightarrow> may_linger s = {} \<and> overflowed s = set (sy_waiting s)"
  by (simp add: may_linger_def overflowed_def)

lemma run_step_ok: "run_step s t \<Longrightarrow> \<not> sy_crashed s \<Longrightarrow> sys_ok s \<Longrightarrow> sys_ok t"
proof (induction rule: run_step.induct)
  case (connect s now pick a)
  then have h: "hub_ok {} (set (sy_waiting s)) (sy_hub s)" "length (hb_queue (sy_hub s)) \<le> chan_cap"
    by (simp_all add: sys_ok_def idle_unlocked)
  show ?case by (rule by_run_ok [OF connect(1,2) h(2) registerClient_kept [OF h(1)]])
next
  case (leave s c)
  then have h: "hub_ok {} (set (sy_waiting s)) (sy_hub s)" "length (hb_queue (sy_hub s)) \<le> chan_cap"
    by (simp_all add: sys_ok_def idle_unlocked)
  have "case unregisterClient c (sy_hub s) of Done h' \<Rightarrow> hub_ok {} (set (sy_waiting s)) h' \<and> hb_queue h' = hb_queue (sy_hub s)
      | Waits c h' \<Rightarrow> hub_ok {} (insert c (set (sy_waiting s))) h' \<and> hb_queue h' = hb_queue (sy_hub s) | Panics \<Rightarrow> True"
    using unregister_kept [OF h(1) leave(3)] by (auto split: hub_result.splits)
  then show ?case by (rule by_run_ok [OF leave(1,2) h(2)])
next
  case (receive s c)
  then have "unregisterClient c (sy_hub s) = Panics"
    by (intro receive_panics [of "may_linger s" "overflowed s"]) (auto simp: sys_ok_def overflowed_def)
  then show ?case by (simp add: by_run_def sys_ok_def)
next
  case (broadcast s b q ord pick)
  then have h: "hub_ok {} (set (sy_waiting s)) (sy_hub s\<lparr>hb_queue := q\<rparr>)" "length (hb_queue (sy_hub s\<lparr>hb_queue := q\<rparr>)) \<le> chan_cap"
    by (simp_all add: sys_ok_def idle_unlocked)
  show ?case by (rule by_run_ok [OF broadcast(1,2) h(2) kept_result [OF broadcast_kept [OF h(1) broadcast(4)]]])
next
  case (stop s ord)
  then have h: "hub_ok {} (set (sy_waiting s)) (sy_hub s)" "length (hb_queue (sy_hub s)) \<le> chan_cap"
    by (simp_all add: sys_ok_def idle_unlocked)
  have "\<forall>c \<in> set (ord (all_clients (sy_hub s))). c < length (hb_objs (sy_hub s))"
    using reorders_set [OF stop(3)] hub_ok_bound [OF h(1)] by blast
  note k = close_all_kept [OF h(1) this]
  show ?case
  proof (cases "close_all (ord (all_clients (sy_hub s))) (sy_hub s)")
    case (Done h')
    then have "hub_ok UNIV (set (sy_waiting s)) h'" "hb_queue h' = hb_queue (sy_hub s)"
      using k hub_ok_mono by (auto simp: same_table_def)
    then show ?thesis using h(2) by (simp add: Done shutdown_def by_run_def sys_ok_def may_linger_def overflowed_def)
  next
    case (Waits c h')
    then show ?thesis using k by simp
  next
    case Panics
    then show ?thesis by (simp add: shutdown_def by_run_def sys_ok_def)
  qed
qed

lemma ws_step_ok: "ws_step dec R s t \<Longrightarrow> sys_ok s \<Longrightarrow> sys_ok t"
proof (induction rule: ws_step.induct)
  case (run s t)
  then show ?case using run_step_ok by blast
next
  case (queue s b h)
  then show ?case by (auto simp: sys_ok_def enqueue_def may_linger_def overflowed_def split: if_splits)
next
  case (direct s ord pick b)
  then have h: "hub_ok (may_linger s) (overflowed s) (sy_hub s)" "length (hb_queue (sy_hub s)) \<le> chan_cap" by (simp_all add: sys_ok_def)
  show ?case by (rule by_other_ok [OF h(2) kept_result [OF broadcast_kept [OF h(1) direct(3)]]])
next
  case (disconnect s ord now pick n reason)
  then have h: "hub_ok (may_linger s) (overflowed s) (sy_hub s)" "length (hb_queue (sy_hub s)) \<le> chan_cap" by (simp_all add: sys_ok_def)
  note k = disconnect_kept [OF h(1) disconnect(4), of now pick n reason]
  show ?case
  proof (cases "DisconnectUser now ord pick n reason (sy_hub s)")
    case (Done h')
    then have "sys_ok (by_other (Done h') s)" using k by (intro by_other_ok [OF h(2)]) simp
    then show ?thesis using Done by (simp add: by_disconnect_def)
  next
    case (Waits c h')
    then show ?thesis using k h(2) disconnect(3)
      by (auto simp: by_disconnect_def by_other_def sys_ok_def may_linger_def overflowed_def split: run_state.splits)
  next
    case Panics
    then show ?thesis by (simp add: by_disconnect_def by_other_def sys_ok_def)
  qed
next
  case (written s c m ms)
  then have h: "hub_ok (may_linger s) (overflowed s) (sy_hub s)" "length (hb_queue (sy_hub s)) \<le> chan_cap" by (simp_all add: sys_ok_def)
  let ?x = "hb_objs (sy_hub s) ! c"
  have "client_ok (?x\<lparr>cn_send := ms\<rparr>)" using hub_ok_at [OF h(1) written(2)] written(3) by (auto simp: client_ok_def)
  then have "hub_ok (may_linger s) (overflowed s) (sy_hub s\<lparr>hb_objs := (hb_objs (sy_hub s))[c := ?x\<lparr>cn_send := ms\<rparr>]\<rparr>)"
    using hub_ok_W [OF h(1) written(2)] by (intro hub_ok_set [OF h(1) written(2)]) simp_all
  then show ?case using h(2) by (simp add: sys_ok_def may_linger_def overflowed_def)
next
  case (message s c now raw st ms x st' pick)
  then have h: "hub_ok (may_linger s) (overflowed s) (sy_hub s)" "length (hb_queue (sy_hub s)) \<le> chan_cap" by (simp_all add: sys_ok_def)
  let ?h = "sy_hub s\<lparr>hb_objs := (hb_objs (sy_hub s))[c := x]\<rparr>"
  have x: "client_ok x" "same_conn (hb_objs (sy_hub s) ! c) x"
    using handleMessage_ok [OF hub_ok_at [OF h(1) message(2)] message(4)] by simp_all
  have "hub_ok (may_linger s) (overflowed s) ?h"
    using x hub_ok_W [OF h(1) message(2)] by (intro hub_ok_set [OF h(1) message(2)]) (simp_all add: same_conn_def)
  then have "kept (may_linger s) (overflowed s) ?h (answer pick ms c ?h)" using message(2) by (intro answer_kept) simp_all
  then show ?case by (intro by_other_ok [of ?h]) (use h(2) kept_result in simp_all)
qed

lemma sys_ok_start: "sys_ok ws_start"
  by (simp add: sys_ok_def ws_start_def NewHub_def hub_ok_def all_clients_def overflowed_def)

lemma ws_reach_ok: "ws_reach dec R s t \<Longrightarrow> sys_ok s \<Longrightarrow> sys_ok t"
  by (induction rule: ws_reach.induct) (auto intro: ws_step_ok)

section \<open>An overflow is fatal\<close>

text \<open>The process is down, the run loop blocks on itself, or some client has overflowed.\<close>

definition doomed :: "ws_sys \<Rightarrow> bool" where
  "doomed s \<longleftrightarrow> sy_crashed s \<or> overflowed s \<noteq> {}"

lemma by_run_stuck: "sy_run s = StuckOn c \<Longrightarrow> \<not> run_step s t"
  by (auto elim: run_step.cases)

lemma doomed_iff: "doomed s \<longleftrightarrow> sy_crashed s \<or> sy_waiting s \<noteq> [] \<or> (\<exists>c. sy_run s = StuckOn c)"
  by (cases "sy_run s") (auto simp: doomed_def overflowed_def)

lemma by_other_doomed: "doomed s \<Longrightarrow> doomed (by_other r s)" "doomed s \<Longrightarrow> doomed (by_disconnect r s)"
  by (auto simp: doomed_iff by_other_def by_disconnect_def split: hub_result.splits)

lemma by_run_waiting: "sy_waiting s \<noteq> [] \<Longrightarrow> doomed (by_run r s)"
  by (auto simp: doomed_iff by_run_def split: hub_result.splits)

lemma idle_doomed: "doomed s \<Longrightarrow> sy_run s = Idle \<Longrightarrow> \<not> sy_crashed s \<Longrightarrow> sy_waiting s \<noteq> []"
  by (simp add: doomed_iff)

lemma run_step_doomed: "run_step s t \<Longrightarrow> \<not> sy_crashed s \<Longrightarrow> sys_ok s \<Longrightarrow> doomed s \<Longrightarrow> doomed t"
proof (induction rule: run_step.induct)
  case (receive s c)
  then have "unregisterClient c (sy_hub s) = Panics"
    by (intro receive_panics [of "may_linger s" "overflowed s"]) (auto simp: sys_ok_def overflowed_def)
  then show ?case by (simp add: by_run_def doomed_def)
qed (auto intro!: by_run_waiting dest: idle_doomed)

lemma ws_step_doomed: "ws_step dec R s t \<Longrightarrow> sys_ok s \<Longrightarrow> doomed s \<Longrightarrow> doomed t"
proof (induction rule: ws_step.induct)
  case (run s t)
  then show ?case using run_step_doomed by blast
next
  case (queue s b h)
  then show ?case by (simp add: doomed_iff)
next
  case (written s c m ms)
  then show ?case by (simp add: doomed_iff)
next
  case (direct s ord pick b)
  then show ?case by (intro by_other_doomed)
next
  case (disconnect s ord now pick n reason)
  then show ?case by (intro by_other_doomed)
next
  case (message s c now raw st ms x st' pick)
  then show ?case by (intro by_other_doomed)
qed

lemma doomed_stays: "ws_reach dec R s t \<Longrightarrow> sys_ok s \<Longrightarrow> doomed s \<Longrightarrow> doomed t"
  by (induction rule: ws_reach.induct) (auto intro: ws_step_doomed ws_reach_ok)

text \<open>A step of the run loop that ends well from a state with an overflowed client leaves it there.\<close>

lemma stuck_stays: "ws_reach dec R s t \<Longrightarrow> sy_run s = StuckOn c \<Longrightarrow> sy_run t = StuckOn c"
proof (induction rule: ws_reach.induct)
  case (step s t u)
  from step.hyps(2) step.IH [OF step.prems] show ?case
    by (induction rule: ws_step.induct)
       (auto simp: by_run_stuck by_other_def by_disconnect_def split: hub_result.splits)
qed

text \<open>Sending to a list of connections, one of which is open and full, never ends well.\<close>

lemma send_all_full:
  "hub_ok D W h \<Longrightarrow> \<forall>k \<in> set cs. k < length (hb_objs h) \<Longrightarrow> c \<in> set cs \<Longrightarrow> \<not> cn_done (hb_objs h ! c)
     \<Longrightarrow> length (cn_send (hb_objs h ! c)) = chan_cap \<Longrightarrow> \<forall>h'. send_all pick m cs h \<noteq> Done h'"
proof (induction cs arbitrary: h)
  case (Cons k cs)
  let ?x = "hb_objs h ! k"
  have k: "k < length (hb_objs h)" "client_ok ?x" using Cons.prems hub_ok_at by auto
  note r = SendMessage_cases [OF k(2), where pick = "pick k" and m = m]
  show ?case
  proof (cases "SendMessage (pick k) m ?x")
    case (Sent y)
    then have y: "\<not> cn_closed ?x" "length (cn_send ?x) < chan_cap" "y = ?x\<lparr>cn_send := cn_send ?x @ [m]\<rparr>" using r by simp_all
    then have "k \<noteq> c" using Cons.prems(5) by auto
    let ?h = "h\<lparr>hb_objs := (hb_objs h)[k := y]\<rparr>"
    have "hub_ok D W ?h" using k y hub_ok_W [OF Cons.prems(1) k(1)]
      by (intro hub_ok_set [OF Cons.prems(1)]) (auto simp: client_ok_def)
    then have "\<forall>h'. send_all pick m cs ?h \<noteq> Done h'"
      using Cons.prems \<open>k \<noteq> c\<close> by (intro Cons.IH) simp_all
    then show ?thesis using Sent by simp
  next
    case Dropped
    then have "k \<noteq> c" using r Cons.prems(4) by auto
    then show ?thesis using Dropped Cons by simp
  qed simp_all
qed simp

lemma crashed_stays: "ws_reach dec R s t \<Longrightarrow> sy_crashed s \<Longrightarrow> t = s"
proof (induction rule: ws_reach.induct)
  case (step s t u)
  then show ?case by (auto elim: ws_step.cases)
qed simp

lemma reach_ok: "ws_reach dec R ws_start s \<Longrightarrow> sys_ok s"
  using ws_reach_ok sys_ok_start by blast

lemma reach_hub: "ws_reach dec R ws_start s \<Longrightarrow> \<not> sy_crashed s \<Longrightarrow> hub_ok (may_linger s) (overflowed s) (sy_hub s)"
  using reach_ok [of dec R s] by (simp add: sys_ok_def)

lemma live_targets: "hub_ok {} W h \<Longrightarrow> c \<in> set (targets ids h) \<Longrightarrow> c < length (hb_objs h) \<and> \<not> cn_done (hb_objs h ! c)"
  using targets_all [of ids h] hub_ok_bound [of "{}" W h c] unfolding hub_ok_def by blast

section \<open>Properties\<close>

lemma subscription_rules:
  assumes "client_ok x"
  shows "''permissions'' \<in> set (cn_subs x) \<longrightarrow> ''admin'' \<in> set (cn_roles x) \<or> ''super_admin'' \<in> set (cn_roles x)"
    and "''audit'' \<in> set (cn_subs x) \<longrightarrow> ''super_admin'' \<in> set (cn_roles x)"
  using assms by (auto simp: client_ok_def may_subscribe_def cn_HasRole_def list_ex_iff)

text \<open>C20. In every reachable state of the web-socket hub, whatever the interleaving of connections, messages,
  broadcasts and disconnections: a connection is listed once and under its own identity only, no buffer exceeds
  its capacity, only administrators receive permission changes and only super administrators the audit log,
  and while the loop runs exactly the connections whose context lives are listed.\<close>

theorem hub_invariant:
  assumes "ws_reach dec R ws_start s" and "\<not> sy_crashed s"
  shows "(\<forall>n. distinct (clients_of n (sy_hub s)) \<and> (\<forall>c \<in> set (clients_of n (sy_hub s)). cn_identity (hb_objs (sy_hub s) ! c) = n))
    \<and> length (hb_queue (sy_hub s)) \<le> 256
    \<and> (\<forall>x \<in> set (hb_objs (sy_hub s)). length (cn_send x) \<le> 256
        \<and> (''permissions'' \<in> set (cn_subs x) \<longrightarrow> ''admin'' \<in> set (cn_roles x) \<or> ''super_admin'' \<in> set (cn_roles x))
        \<and> (''audit'' \<in> set (cn_subs x) \<longrightarrow> ''super_admin'' \<in> set (cn_roles x)))
    \<and> (sy_run s = Idle \<and> \<not> sy_locked s \<longrightarrow> (\<forall>c < length (hb_objs (sy_hub s)).
        c \<in> set (clients_of (cn_identity (hb_objs (sy_hub s) ! c)) (sy_hub s)) \<longleftrightarrow> \<not> cn_done (hb_objs (sy_hub s) ! c)))"
proof -
  have h: "hub_ok (may_linger s) (overflowed s) (sy_hub s)" by (rule reach_hub [OF assms])
  have q: "length (hb_queue (sy_hub s)) \<le> 256" using reach_ok [OF assms(1)] assms(2) by (simp add: sys_ok_def chan_cap_def)
  have x: "client_ok x" if "x \<in> set (hb_objs (sy_hub s))" for x
    using that hub_ok_at [OF h] by (auto simp: in_set_conv_nth)
  show ?thesis
    using h q x subscription_rules hub_ok_reg [OF h] idle_unlocked [of s] by (auto simp: hub_ok_iff client_ok_def chan_cap_def)
qed



text \<open>C22. One client that does not read ends the hub: when the loop broadcasts to a subscriber whose buffer
  is full, it panics or blocks for ever on its own unregister channel, and in no later state does it take a
  registration, an unregistration or a broadcast again.\<close>

theorem slow_reader_stops_the_hub:
  assumes "ws_reach dec R ws_start s" "\<not> sy_crashed s" "sy_run s = Idle" "\<not> sy_locked s"
    and "hb_queue (sy_hub s) = b # q" "reorders ord" "c \<in> set (targets (bc_ids b) (sy_hub s))"
    and "IsSubscribed (hb_objs (sy_hub s) ! c) (bc_channel b)" "length (cn_send (hb_objs (sy_hub s) ! c)) = 256"
    and "ws_reach dec R (by_run (hub_BroadcastMessage ord pick b (sy_hub s\<lparr>hb_queue := q\<rparr>)) s) t"
  shows "sy_crashed t \<or> (\<forall>u. \<not> run_step t u)"
proof -
  let ?h = "sy_hub s\<lparr>hb_queue := q\<rparr>"
  have h: "hub_ok {} (set (sy_waiting s)) ?h" using reach_hub [OF assms(1,2)] idle_unlocked [OF assms(3,4)] by simp
  have tg: "targets (bc_ids b) ?h = targets (bc_ids b) (sy_hub s)"
    by (simp add: targets_def clients_of_def all_clients_def split: option.splits)
  let ?cs = "filter (\<lambda>c. IsSubscribed (hb_objs ?h ! c) (bc_channel b)) (ord (targets (bc_ids b) ?h))"
  have c: "c \<in> set ?cs" using assms(7,8) reorders_set [OF assms(6)] tg by simp
  have live: "\<not> cn_done (hb_objs ?h ! c)" using live_targets [OF h, of c "bc_ids b"] assms(7) tg by simp
  have "\<forall>k \<in> set ?cs. k < length (hb_objs ?h)"
  proof
    fix k assume "k \<in> set ?cs"
    then have "k \<in> set (targets (bc_ids b) ?h)" using reorders_set [OF assms(6)] by (simp only: set_filter mem_Collect_eq)
    then show "k < length (hb_objs ?h)" using live_targets [OF h] by blast
  qed
  from send_all_full [OF h this c live] assms(9)
  have "\<forall>h'. hub_BroadcastMessage ord pick b ?h \<noteq> Done h'" by (simp add: hub_BroadcastMessage_def chan_cap_def)
  then consider "sy_crashed (by_run (hub_BroadcastMessage ord pick b ?h) s)"
    | k where "sy_run (by_run (hub_BroadcastMessage ord pick b ?h) s) = StuckOn k"
    by (cases "hub_BroadcastMessage ord pick b ?h") (auto simp: by_run_def)
  then show ?thesis
  proof cases
    case 1
    then show ?thesis using crashed_stays [OF assms(10)] by simp
  next
    case (2 k)
    then show ?thesis using stuck_stays [OF assms(10)] by_run_stuck by blast
  qed
qed

section \<open>Concrete runs\<close>

definition sample_auth :: client_auth where
  "sample_auth = \<lparr>ca_identity = 1, ca_session = ''J'', ca_roles = [''admin''], ca_perms = [], ca_email = ''a@b.c'', ca_device = ''d''\<rparr>"

definition no_handlers :: "(string list, unit) registry" where
  "no_handlers = (\<lambda>_. None)"

text \<open>One administrator, subscribed to system messages and permission changes, with \<open>ms\<close> not yet written.\<close>

definition listening :: "ws_message list \<Rightarrow> bcast list \<Rightarrow> ws_sys" where
  "listening ms q = \<lparr>sy_hub = \<lparr>hb_clients = [(1, [0])],
       hb_objs = [(NewClient sample_auth)\<lparr>cn_subs := [''permissions'', ''system''], cn_send := ms\<rparr>], hb_queue = q\<rparr>,
     sy_waiting = [], sy_run = Idle, sy_locked = False, sy_crashed = False\<rparr>"

definition hello :: "ws_message list" where
  "hello = [welcome_message 0 (NewClient sample_auth),
     NewMessage 1 ''subscribe'' (Channels [''system'', ''permissions'', ''audit''] ''subscribed'')]"

lemma listening_reached: "ws_reach Inr no_handlers ws_start (listening hello [])"
proof -
  let ?s1 = "by_run (registerClient 0 (\<lambda>_. False) sample_auth (sy_hub ws_start)) ws_start"
  have "ws_step Inr no_handlers ws_start ?s1"
    by (rule ws_step.run [OF _ run_step.connect]) (simp_all add: ws_start_def)
  then have r1: "ws_reach Inr no_handlers ws_start ?s1" by (rule ws_reach.step [OF ws_reach.refl])
  have e1: "?s1 = (listening hello [])\<lparr>sy_hub := (sy_hub (listening hello []))\<lparr>hb_objs :=
      [(NewClient sample_auth)\<lparr>cn_send := [welcome_message 0 (NewClient sample_auth)]\<rparr>]\<rparr>\<rparr>"
    by (simp add: by_run_def registerClient_def ws_start_def NewHub_def listening_def Let_def SendMessage_def NewClient_def
        sample_auth_def put_clients_def clients_of_def chan_cap_def)
  have m: "handleMessage Inr 1 no_handlers (Inr \<lparr>im_type = ''subscribe'', im_data = [''system'', ''permissions'', ''audit'']\<rparr>)
      (hb_objs (sy_hub ?s1) ! 0) () = (([NewMessage 1 ''subscribe'' (Channels [''system'', ''permissions'', ''audit''] ''subscribed'')],
        (NewClient sample_auth)\<lparr>cn_subs := [''permissions'', ''system''], cn_send := [welcome_message 0 (NewClient sample_auth)]\<rparr>), ())"
    unfolding e1 by (simp add: listening_def handleMessage_def HandleClientMessage_def no_handlers_def built_in_def Subscribe_def
        may_subscribe_def cn_HasRole_def NewClient_def sample_auth_def List.insert_def)
  have "ws_step Inr no_handlers ?s1 (by_other (answer (\<lambda>_. False) [NewMessage 1 ''subscribe'' (Channels [''system'', ''permissions'', ''audit''] ''subscribed'')] 0
      (sy_hub ?s1\<lparr>hb_objs := (hb_objs (sy_hub ?s1))[0 := (NewClient sample_auth)\<lparr>cn_subs := [''permissions'', ''system''], cn_send := [welcome_message 0 (NewClient sample_auth)]\<rparr>]\<rparr>)) ?s1)"
    by (rule ws_step.message [OF _ _ _ m]) (simp_all add: e1, simp_all add: listening_def)
  also have "by_other (answer (\<lambda>_. False) [NewMessage 1 ''subscribe'' (Channels [''system'', ''permissions'', ''audit''] ''subscribed'')] 0
      (sy_hub ?s1\<lparr>hb_objs := (hb_objs (sy_hub ?s1))[0 := (NewClient sample_auth)\<lparr>cn_subs := [''permissions'', ''system''], cn_send := [welcome_message 0 (NewClient sample_auth)]\<rparr>]\<rparr>)) ?s1
      = listening hello []"
    unfolding e1 by (simp add: listening_def by_other_def SendMessage_def Let_def NewClient_def chan_cap_def hello_def)
  finally show ?thesis by (rule ws_reach.step [OF r1])
qed

definition pong :: ws_message where
  "pong = NewMessage 2 ''pong'' NoData"

lemma ping_step: "length ms < 256 \<Longrightarrow> ws_step Inr no_handlers (listening ms []) (listening (ms @ [pong]) [])"
proof -
  assume l: "length ms < 256"
  let ?s = "listening ms []" and ?x = "hb_objs (sy_hub (listening ms [])) ! 0"
  have "handleMessage Inr 2 no_handlers (Inr \<lparr>im_type = ''ping'', im_data = []\<rparr>) ?x () = (([pong], ?x), ())"
    by (simp add: handleMessage_def HandleClientMessage_def no_handlers_def built_in_def pong_def)
  then have "ws_step Inr no_handlers ?s (by_other (answer (\<lambda>_. False) [pong] 0 (sy_hub ?s\<lparr>hb_objs := (hb_objs (sy_hub ?s))[0 := ?x]\<rparr>)) ?s)"
    by (rule ws_step.message [rotated 3]) (simp_all add: listening_def)
  moreover have "by_other (answer (\<lambda>_. False) [pong] 0 (sy_hub ?s\<lparr>hb_objs := (hb_objs (sy_hub ?s))[0 := ?x]\<rparr>)) ?s = listening (ms @ [pong]) []"
    using l by (simp add: listening_def by_other_def SendMessage_def Let_def NewClient_def chan_cap_def)
  ultimately show ?thesis by simp
qed

lemma pings_reach: "length ms + n \<le> 256 \<Longrightarrow> ws_reach Inr no_handlers ws_start (listening ms [])
    \<Longrightarrow> ws_reach Inr no_handlers ws_start (listening (ms @ replicate n pong) [])"
proof (induction n)
  case (Suc n)
  then have "ws_reach Inr no_handlers ws_start (listening (ms @ replicate n pong) [])" by simp
  moreover have "ws_step Inr no_handlers (listening (ms @ replicate n pong) []) (listening ((ms @ replicate n pong) @ [pong]) [])"
    using Suc.prems(1) by (intro ping_step) simp
  ultimately have "ws_reach Inr no_handlers ws_start (listening ((ms @ replicate n pong) @ [pong]) [])" by (rule ws_reach.step)
  then show ?case by (simp add: replicate_append_same)
qed simp

definition alert :: bcast where
  "alert = BroadcastSystemAlert 3 ''info'' ''T'' ''M'' []"

lemma queued_reach:
  assumes "ws_reach Inr no_handlers ws_start (listening ms [])"
  shows "ws_reach Inr no_handlers ws_start (listening ms [alert])"
proof -
  have "enqueue alert (sy_hub (listening ms [])) = Some (sy_hub (listening ms [alert]))"
    by (simp add: enqueue_def listening_def chan_cap_def)
  then have "ws_step Inr no_handlers (listening ms []) ((listening ms [])\<lparr>sy_hub := sy_hub (listening ms [alert])\<rparr>)"
    by (intro ws_step.queue) (simp_all add: listening_def)
  moreover have "(listening ms [])\<lparr>sy_hub := sy_hub (listening ms [alert])\<rparr> = listening ms [alert]" by (simp add: listening_def)
  ultimately show ?thesis using ws_reach.step [OF assms] by simp
qed

lemma reorders_id: "reorders (\<lambda>x. x)"
  by (simp add: reorders_def)

theorem hub_invariant_witness:
  "sy_run (listening hello [alert]) = Idle \<and> ''permissions'' \<in> set (cn_subs (hb_objs (sy_hub (listening hello [alert])) ! 0))
     \<and> length (hb_queue (sy_hub (listening hello [alert]))) \<le> 256
     \<and> cn_identity (hb_objs (sy_hub (listening hello [alert])) ! 0) = 1"
proof -
  have "\<not> sy_crashed (listening hello [alert])" by (simp add: listening_def)
  note i = hub_invariant [OF queued_reach [OF listening_reached] this]
  have "0 \<in> set (clients_of 1 (sy_hub (listening hello [alert])))" by (simp add: listening_def clients_of_def)
  then have "cn_identity (hb_objs (sy_hub (listening hello [alert])) ! 0) = 1" using i by blast
  then show ?thesis using i by (simp add: listening_def)
qed


theorem slow_reader_stops_the_hub_witness:
  "\<exists>s t. sy_run s = Idle \<and> run_step s t \<and> (sy_crashed t \<or> (\<forall>u. \<not> run_step t u))"
proof -
  let ?ms = "hello @ replicate 254 pong"
  let ?s = "listening ?ms [alert]"
  have r: "ws_reach Inr no_handlers ws_start ?s"
    by (rule queued_reach [OF pings_reach [OF _ listening_reached]]) (simp add: hello_def)
  let ?t = "by_run (hub_BroadcastMessage (\<lambda>x. x) (\<lambda>_. False) alert (sy_hub ?s\<lparr>hb_queue := []\<rparr>)) ?s"
  have s: "\<not> sy_crashed ?s" "sy_run ?s = Idle" "\<not> sy_locked ?s" "hb_queue (sy_hub ?s) = alert # []" by (simp_all add: listening_def)
  have c: "0 \<in> set (targets (bc_ids alert) (sy_hub ?s))" "IsSubscribed (hb_objs (sy_hub ?s) ! 0) (bc_channel alert)"
    by (simp_all add: targets_def alert_def BroadcastSystemAlert_def all_clients_def listening_def IsSubscribed_def)
  have l: "length (cn_send (hb_objs (sy_hub ?s) ! 0)) = 256" by (simp add: listening_def hello_def)
  have "run_step ?s ?t" by (rule run_step.broadcast [OF s(2-4) reorders_id])
  moreover have "sy_crashed ?t \<or> (\<forall>u. \<not> run_step ?t u)"
    by (rule slow_reader_stops_the_hub [OF r s reorders_id c l ws_reach.refl])
  ultimately show ?thesis using s(2) by blast
qed

end
