(* ===== verification/Notify.thy ===== *)
theory Notify
  imports Hub
begin

text \<open>
  The notification service (\<open>service/notification/service.go\<close>) and the web-socket handler of notification
  messages (\<open>websocket/handler/notification.go\<close>). A call returns its result, the tables it leaves and the
  broadcasts it puts on the channel of the hub, in order; it waits while that channel is full. Decoding the
  data of a web-socket message is the JSON library's: \<open>dec_id\<close> and \<open>dec_limit\<close>.
\<close>

section \<open>The service\<close>

definition notification_of :: "notif_request \<Rightarrow> notification" where
  "notification_of q = \<lparr>nt_id = 0, nt_identity = nq_identity q, nt_title = nq_title q, nt_message = nq_message q,
     nt_type = nq_type q, nt_metadata = nq_metadata q, nt_read = False, nt_created = 0, nt_read_at = None,
     nt_expires = nq_expires q\<rparr>"

definition notification_data :: "notification \<Rightarrow> payload" where
  "notification_data n = NoteData (nt_id n) (nt_title n) (nt_message n) (nt_type n) (nt_read n) (nt_metadata n) (nt_created n)"

definition pushToWebSocket :: "instant \<Rightarrow> notification \<Rightarrow> bcast" where
  "pushToWebSocket now n = BroadcastNotification now (nt_identity n) (notification_data n)"

definition CreateNotification :: "instant \<Rightarrow> notif_request \<Rightarrow> notif_db \<Rightarrow> (note_error + notification) \<times> notif_db" where
  "CreateNotification now q d =
     (case note_Create now (notification_of q) d of
        (Inl e, d) \<Rightarrow> (Inl (NoteErr ''failed to create notification''), d)
      | (Inr n, d) \<Rightarrow> (Inr n, d))"

definition CreateAndPush ::
  "instant \<Rightarrow> notif_request \<Rightarrow> notif_db \<Rightarrow> (note_error + notification) \<times> notif_db \<times> bcast list" where
  "CreateAndPush now q d =
     (case note_Create now (notification_of q) d of
        (Inl e, d) \<Rightarrow> (Inl (NoteErr ''failed to create notification''), d, [])
      | (Inr n, d) \<Rightarrow> (Inr n, d, [pushToWebSocket now n]))"

definition GetNotificationByID :: "id \<Rightarrow> id \<Rightarrow> notif_db \<Rightarrow> note_error + notification" where
  "GetNotificationByID i owner d =
     (case note_FindByID i d of
        Inl e \<Rightarrow> Inl e
      | Inr n \<Rightarrow> if nt_identity n \<noteq> owner then Inl (NoteErr ''notification not found'') else Inr n)"

record notif_page =
  np_items :: "notification list"
  np_summary :: notif_summary
  np_total :: int
  np_page :: int
  np_size :: int
  np_pages :: int

definition total_pages :: "int \<Rightarrow> int \<Rightarrow> int" where
  "total_pages tot sz = tot div sz + (if 0 < tot mod sz then 1 else 0)"

definition GetUserNotifications :: "instant \<Rightarrow> id \<Rightarrow> notif_filter \<Rightarrow> notif_db \<Rightarrow> note_error + notif_page" where
  "GetUserNotifications now n f0 d =
     (let f = default_page f0 in
      case repo_GetUserNotifications now n f d of
        Inl e \<Rightarrow> Inl e
      | Inr (ns, tot) \<Rightarrow> Inr \<lparr>np_items = ns, np_summary = repo_GetSummary now n d, np_total = tot,
            np_page = nf_page f, np_size = nf_size f, np_pages = total_pages tot (nf_size f)\<rparr>)"

definition GetLatestNotifications :: "instant \<Rightarrow> id \<Rightarrow> int \<Rightarrow> notif_db \<Rightarrow> notification list" where
  "GetLatestNotifications now n k d =
     (let k = (if k \<le> 0 then 10 else k); k = (if 50 < k then 50 else k) in repo_GetLatestNotifications now n k d)"

definition MarkAsRead :: "instant \<Rightarrow> id \<Rightarrow> id \<Rightarrow> notif_db \<Rightarrow> (note_error + unit) \<times> notif_db \<times> bcast list" where
  "MarkAsRead now i n d =
     (case repo_MarkAsRead now i n d of
        (Inl e, d) \<Rightarrow> (Inl e, d, [])
      | (Inr _, d) \<Rightarrow> (Inr (), d, [BroadcastNotificationCount now n (repo_GetUnreadCount now n d)]))"

definition MarkAllAsRead :: "instant \<Rightarrow> id \<Rightarrow> notif_db \<Rightarrow> (note_error + unit) \<times> notif_db \<times> bcast list" where
  "MarkAllAsRead now n d = (Inr (), repo_MarkAllAsRead now n d, [BroadcastNotificationCount now n 0])"

definition DeleteNotification :: "id \<Rightarrow> id \<Rightarrow> notif_db \<Rightarrow> (note_error + unit) \<times> notif_db" where
  "DeleteNotification i n d = repo_DeleteNotification i n d"

definition DeleteExpiredNotifications :: "instant \<Rightarrow> notif_db \<Rightarrow> int \<times> notif_db" where
  "DeleteExpiredNotifications now d = repo_DeleteExpiredNotifications now d"

text \<open>In bulk, a request that fails is skipped.\<close>

fun CreateBulkAndPush :: "instant \<Rightarrow> notif_request list \<Rightarrow> notif_db \<Rightarrow> notification list \<times> notif_db \<times> bcast list" where
  "CreateBulkAndPush now [] d = ([], d, [])"
| "CreateBulkAndPush now (q # qs) d =
     (case CreateAndPush now q d of
        (Inl e, d, bs) \<Rightarrow> CreateBulkAndPush now qs d
      | (Inr n, d, bs) \<Rightarrow> (let (ns, d, bs') = CreateBulkAndPush now qs d in (n # ns, d, bs @ bs')))"

definition BroadcastSystemNotification :: "instant \<Rightarrow> string \<Rightarrow> string \<Rightarrow> bcast list" where
  "BroadcastSystemNotification now title msg = [BroadcastSystemAlert now ''info'' title msg []]"

definition typed_request :: "string \<Rightarrow> id \<Rightarrow> string \<Rightarrow> string \<Rightarrow> string option \<Rightarrow> instant option \<Rightarrow> notif_request" where
  "typed_request ty n title msg meta e =
     \<lparr>nq_identity = n, nq_title = title, nq_message = msg, nq_type = ty, nq_metadata = meta, nq_expires = e\<rparr>"

definition SendAlertNotification where
  "SendAlertNotification now n title msg meta d = CreateAndPush now (typed_request ''alert'' n title msg meta None) d"

definition SendInfoNotification where
  "SendInfoNotification now n title msg meta d = CreateAndPush now (typed_request ''info'' n title msg meta None) d"

definition SendTimedNotification where
  "SendTimedNotification now n title msg dur meta d =
     CreateAndPush now (typed_request ''info'' n title msg meta (Some (now + dur))) d"

section \<open>Web-socket messages\<close>

definition supported_events :: "string list" where
  "supported_events = [''notification:read'', ''notification:read_all'', ''notification:list'', ''notification:count'']"

definition handleMarkAsRead :: "instant \<Rightarrow> ('j \<Rightarrow> string + id) \<Rightarrow> ('j, notif_db) handler" where
  "handleMarkAsRead now dec_id c m d =
     (case dec_id (im_data m) of
        Inl e \<Rightarrow> (([error_message now ''invalid_request'' ''Invalid mark as read request'' e], Some e), d)
      | Inr i \<Rightarrow> (case repo_MarkAsRead now i (cn_identity c) d of
          (Inl _, d) \<Rightarrow> (let e = ''notification not found or already read''
              in (([error_message now ''mark_read_failed'' ''Failed to mark notification as read'' e], Some e), d))
        | (Inr _, d) \<Rightarrow> (([NewMessage now ''notification:read'' (MarkedRead i (repo_GetUnreadCount now (cn_identity c) d))], None), d)))"

definition handleMarkAllAsRead :: "instant \<Rightarrow> ('j, notif_db) handler" where
  "handleMarkAllAsRead now c m d = (([NewMessage now ''notification:read_all'' AllRead], None), repo_MarkAllAsRead now (cn_identity c) d)"

definition handleListNotifications :: "instant \<Rightarrow> ('j \<Rightarrow> string + int) \<Rightarrow> ('j, notif_db) handler" where
  "handleListNotifications now dec_limit c m d =
     (case dec_limit (im_data m) of
        Inl e \<Rightarrow> (([error_message now ''invalid_request'' ''Invalid list request'' e], Some e), d)
      | Inr k \<Rightarrow> (let k = (if k \<le> 0 \<or> 50 < k then 10 else k)
          in (([NewMessage now ''notification:list'' (NoteList (repo_GetLatestNotifications now (cn_identity c) k d))], None), d)))"

definition handleGetCount :: "instant \<Rightarrow> ('j, notif_db) handler" where
  "handleGetCount now c m d = (([NewMessage now ''notification:count'' (Unread (repo_GetUnreadCount now (cn_identity c) d))], None), d)"

definition HandleMessage :: "instant \<Rightarrow> ('j \<Rightarrow> string + id) \<Rightarrow> ('j \<Rightarrow> string + int) \<Rightarrow> ('j, notif_db) handler" where
  "HandleMessage now dec_id dec_limit c m d =
     (if im_type m = ''notification:read'' then handleMarkAsRead now dec_id c m d
      else if im_type m = ''notification:read_all'' then handleMarkAllAsRead now c m d
      else if im_type m = ''notification:list'' then handleListNotifications now dec_limit c m d
      else if im_type m = ''notification:count'' then handleGetCount now c m d
      else (([], Some (''unsupported event type: '' @ im_type m)), d))"

definition notification_registry :: "instant \<Rightarrow> ('j \<Rightarrow> string + id) \<Rightarrow> ('j \<Rightarrow> string + int) \<Rightarrow> ('j, notif_db) registry" where
  "notification_registry now dec_id dec_limit = register_handler supported_events (HandleMessage now dec_id dec_limit) (\<lambda>_. None)"

section \<open>Facts\<close>

lemma registry_lookup:
  "notification_registry now di dl t = (if t \<in> set supported_events then Some (HandleMessage now di dl) else None)"
  by (auto simp: notification_registry_def register_handler_def supported_events_def)

text \<open>Rows of other users.\<close>

definition others :: "id \<Rightarrow> notif_db \<Rightarrow> notification list" where
  "others n d = filter (\<lambda>r. nt_identity r \<noteq> n) (note_rows d)"

lemma others_update: "(\<And>r. P r \<Longrightarrow> nt_identity r = n) \<Longrightarrow> (\<And>r. nt_identity (f r) = nt_identity r)
    \<Longrightarrow> filter (\<lambda>r. nt_identity r \<noteq> n) (update_where P f rs) = filter (\<lambda>r. nt_identity r \<noteq> n) rs"
  by (induction rs) (auto simp: update_where_def)

lemma others_delete: "(\<And>r. P r \<Longrightarrow> nt_identity r = n)
    \<Longrightarrow> filter (\<lambda>r. nt_identity r \<noteq> n) (delete_where P rs) = filter (\<lambda>r. nt_identity r \<noteq> n) rs"
  by (induction rs) (auto simp: delete_where_def)

lemma repo_others:
  "others n (snd (repo_MarkAsRead now i n d)) = others n d" "others n (repo_MarkAllAsRead now n d) = others n d"
  "others n (snd (repo_DeleteNotification i n d)) = others n d"
  unfolding others_def repo_MarkAsRead_def repo_MarkAllAsRead_def repo_DeleteNotification_def Let_def
  by (auto intro!: others_update others_delete)

lemma HandleMessage_others: "others (cn_identity c) (snd (HandleMessage now di dl c m d)) = others (cn_identity c) d"
proof -
  have "others (cn_identity c) d' = others (cn_identity c) d" if "repo_MarkAsRead now i (cn_identity c) d = (r, d')" for i r d'
    using repo_others(1) [of "cn_identity c" now i d] that by simp
  then show ?thesis
    by (auto simp: HandleMessage_def handleMarkAsRead_def handleMarkAllAsRead_def handleListNotifications_def
        handleGetCount_def Let_def repo_others(2) split: sum.splits prod.splits)
qed

lemma total_pages_ceil:
  assumes "0 < sz" "0 \<le> tot"
  shows "tot \<le> total_pages tot sz * sz" "total_pages tot sz * sz < tot + sz"
proof -
  have e: "tot = tot div sz * sz + tot mod sz" by simp
  have m: "0 \<le> tot mod sz" "tot mod sz < sz" using assms by simp_all
  have p: "total_pages tot sz * sz = tot div sz * sz + (if 0 < tot mod sz then sz else 0)"
    by (simp add: total_pages_def distrib_right)
  show "tot \<le> total_pages tot sz * sz" unfolding p using m e by (split if_split, linarith)
  show "total_pages tot sz * sz < tot + sz" unfolding p using m e assms(1) by (split if_split, linarith)
qed

lemma HandleClientMessage_others:
  "others (cn_identity c) (snd (HandleClientMessage (notification_registry now di dl) c m d)) = others (cn_identity c) d"
  by (simp add: HandleClientMessage_def registry_lookup HandleMessage_others)

text \<open>A message that lists notifications, and whose they are.\<close>

fun lists_only :: "id \<Rightarrow> payload \<Rightarrow> bool" where
  "lists_only n (NoteList ns) = (\<forall>r \<in> set ns. nt_identity r = n)"
| "lists_only n p = True"

lemma lists_only_simps [simp]: "lists_only n (wm_data (error_message now a b e))"
  "lists_only n (wm_data (NewMessage now t (ErrorData a b e)))" "wm_data (NewMessage now t p) = p"
  by (simp_all add: error_message_def NewMessage_def)

lemma latest_own: "r \<in> set (repo_GetLatestNotifications now n k d) \<Longrightarrow> nt_identity r = n"
  by (auto simp: repo_GetLatestNotifications_def dest: in_set_takeD)

lemma built_in_lists: "m \<in> set (fst (built_in dec now x c)) \<Longrightarrow> lists_only n (wm_data m)"
  by (auto simp: built_in_def split: sum.splits if_splits)

lemma HandleMessage_lists: "m \<in> set (fst (fst (HandleMessage now di dl c x d))) \<Longrightarrow> lists_only (cn_identity c) (wm_data m)"
  by (auto simp: HandleMessage_def handleMarkAsRead_def handleMarkAllAsRead_def handleListNotifications_def
      handleGetCount_def Let_def latest_own split: sum.splits prod.splits if_splits)

text \<open>C23. Whatever a client sends over its web socket, the notifications of every other user are left as they
  were, and the lists it gets back hold its own notifications only.\<close>

theorem message_touches_own_notifications:
  assumes "handleMessage dec now (notification_registry now di dl) raw c d = ((ms, c'), d')"
  shows "filter (\<lambda>r. nt_identity r \<noteq> cn_identity c) (note_rows d') = filter (\<lambda>r. nt_identity r \<noteq> cn_identity c) (note_rows d)
    \<and> (\<forall>m \<in> set ms. lists_only (cn_identity c) (wm_data m))"
proof -
  have *: "others (cn_identity c) d' = others (cn_identity c) d \<and> (\<forall>m \<in> set ms. lists_only (cn_identity c) (wm_data m))"
  proof (cases raw)
    case (Inl e)
    then show ?thesis using assms by (auto simp: handleMessage_def)
  next
    case (Inr x)
    obtain ns err d1 where h: "HandleClientMessage (notification_registry now di dl) c x d = ((ns, err), d1)"
      by (metis prod.exhaust)
    have o1: "others (cn_identity c) d1 = others (cn_identity c) d"
      using HandleClientMessage_others [of c now di dl x d] h by simp
    have l1: "\<forall>m \<in> set ns. lists_only (cn_identity c) (wm_data m)"
    proof (cases "im_type x \<in> set supported_events")
      case True
      then have "HandleMessage now di dl c x d = ((ns, err), d1)" using h by (simp add: HandleClientMessage_def registry_lookup)
      then show ?thesis using HandleMessage_lists [of _ now di dl c x d] by simp
    next
      case False
      then show ?thesis using h by (simp add: HandleClientMessage_def registry_lookup)
    qed
    show ?thesis
      using assms Inr h o1 l1 built_in_lists [of _ dec now x c "cn_identity c"]
      by (auto simp: handleMessage_def split: option.splits prod.splits)
  qed
  then show ?thesis by (simp add: others_def)
qed

lemma mark_not_current:
  "distinct (map nt_id xs) \<Longrightarrow> \<exists>r \<in> set xs. nt_id r = i \<and> nt_identity r = n \<and> \<not> nt_read r \<and> \<not> current now r \<Longrightarrow>
   length (filter (\<lambda>r. nt_identity r = n \<and> \<not> nt_read r \<and> current now r)
       (update_where (\<lambda>r. nt_id r = i \<and> nt_identity r = n \<and> \<not> nt_read r) (mark now) xs))
   = length (filter (\<lambda>r. nt_identity r = n \<and> \<not> nt_read r \<and> current now r) xs)"
proof (induction xs)
  case (Cons a xs)
  show ?case
  proof (cases "nt_id a = i")
    case True
    with Cons.prems have "update_where (\<lambda>r. nt_id r = i \<and> nt_identity r = n \<and> \<not> nt_read r) (mark now) xs = xs"
      by (intro update_where_none) (force simp: image_iff)
    moreover have "nt_identity a = n \<and> \<not> nt_read a \<and> \<not> current now a" using Cons.prems True by (auto simp: image_iff)
    ultimately show ?thesis using True by (simp add: update_where_def current_def)
  next
    case False
    then show ?thesis using Cons by (auto simp: update_where_def current_def)
  qed
qed simp

text \<open>Marking a notification as read pushes exactly one message, to the connections of its owner, and the
  count in it is the owner's unread count, which went down by one unless the notification had expired.\<close>

theorem mark_as_read_pushes_the_count:
  assumes "notes_ok d" and "MarkAsRead now i n d = (Inr (), d', bs)"
  shows "\<exists>r \<in> set (note_rows d). nt_id r = i \<and> nt_identity r = n \<and> \<not> nt_read r
    \<and> bs = [BroadcastNotificationCount now n (repo_GetUnreadCount now n d - (if current now r then 1 else 0))]
    \<and> repo_GetUnreadCount now n d' = repo_GetUnreadCount now n d - (if current now r then 1 else 0)"
proof -
  let ?P = "\<lambda>r. nt_id r = i \<and> nt_identity r = n \<and> \<not> nt_read r"
  have d: "distinct (map nt_id (note_rows d))" using assms(1) by (simp add: notes_ok_def)
  have ex: "list_ex ?P (note_rows d)" and d': "d' = d\<lparr>note_rows := update_where ?P (mark now) (note_rows d)\<rparr>"
    and bs: "bs = [BroadcastNotificationCount now n (repo_GetUnreadCount now n d')]"
    using assms(2) by (auto simp: MarkAsRead_def repo_MarkAsRead_def Let_def split: if_splits)
  from ex obtain r where r: "r \<in> set (note_rows d)" "?P r" by (auto simp: list_ex_iff)
  have "repo_GetUnreadCount now n d' = repo_GetUnreadCount now n d - (if current now r then 1 else 0)"
  proof (cases "current now r")
    case True
    then have "\<exists>r \<in> set (note_rows d). nt_id r = i \<and> nt_identity r = n \<and> \<not> nt_read r \<and> current now r" using r by blast
    from mark_counts_once [OF d this] show ?thesis using True by (simp add: repo_GetUnreadCount_def d')
  next
    case False
    then have "\<exists>r \<in> set (note_rows d). nt_id r = i \<and> nt_identity r = n \<and> \<not> nt_read r \<and> \<not> current now r" using r by blast
    from mark_not_current [OF d this] show ?thesis using False by (simp add: repo_GetUnreadCount_def d')
  qed
  then show ?thesis using r bs by auto
qed

definition sample_notes :: notif_db where
  "sample_notes = (let q = (\<lambda>n t. \<lparr>nq_identity = n, nq_title = t, nq_message = ''M'', nq_type = ''info'', nq_metadata = None, nq_expires = None\<rparr>);
     d0 = \<lparr>note_rows = [], next_note = 1, note_owners = [1, 2]\<rparr>
   in fst (snd (CreateBulkAndPush 5 [q 1 ''A'', q 2 ''B'', q 3 ''C'', q 1 ''D''] d0)))"

theorem mark_as_read_pushes_the_count_witness:
  "\<exists>d'. MarkAsRead 9 1 1 sample_notes = (Inr (), d', [BroadcastNotificationCount 9 1 1]) \<and> repo_GetUnreadCount 9 1 d' = 1"
proof -
  have ok: "notes_ok sample_notes" unfolding notes_ok_def by code_simp
  obtain d' bs where m: "MarkAsRead 9 1 1 sample_notes = (Inr (), d', bs)"
  proof (cases "MarkAsRead 9 1 1 sample_notes")
    case (fields r d' bs)
    have "fst (MarkAsRead 9 1 1 sample_notes) = Inr ()" by code_simp
    then show ?thesis using fields that by simp
  qed
  have u: "repo_GetUnreadCount 9 1 sample_notes = 2" by code_simp
  have c: "list_all (\<lambda>r. current 9 r) (note_rows sample_notes)" by code_simp
  from mark_as_read_pushes_the_count [OF ok m] show ?thesis using m u c by (auto simp: list_all_iff)
qed

theorem message_touches_own_notifications_witness:
  "\<exists>ms c' d'. handleMessage (\<lambda>_. Inr []) 9 (notification_registry 9 Inr Inr) (Inr \<lparr>im_type = ''notification:read'', im_data = 1\<rparr>)
       (NewClient \<lparr>ca_identity = 1, ca_session = ''J'', ca_roles = [], ca_perms = [], ca_email = [], ca_device = []\<rparr>) sample_notes
       = ((ms, c'), d') \<and> filter (\<lambda>r. nt_identity r \<noteq> 1) (note_rows d') = filter (\<lambda>r. nt_identity r \<noteq> 1) (note_rows sample_notes)"
proof -
  let ?c = "NewClient \<lparr>ca_identity = 1, ca_session = ''J'', ca_roles = [], ca_perms = [], ca_email = [], ca_device = []\<rparr>"
  let ?h = "handleMessage (\<lambda>_. Inr []) 9 (notification_registry 9 Inr Inr) (Inr \<lparr>im_type = ''notification:read'', im_data = 1\<rparr>) ?c sample_notes"
  obtain ms c' d' where h: "?h = ((ms, c'), d')" by (metis prod.exhaust)
  have "cn_identity ?c = 1" by (simp add: NewClient_def)
  then show ?thesis using h message_touches_own_notifications [OF h] by auto
qed

end
