(* ===== verification/Catalog_Meta.thy ===== *)
theory Catalog_Meta
  imports Category
begin

text \<open>
  Brands, tags and attributes: \<open>internal/domain/{brand,tag,attribute}\<close>, the repositories \<open>brand_repo.go\<close>,
  \<open>tag_repo.go\<close>, \<open>attribute_repo.go\<close> and the services \<open>brand.go\<close>, \<open>tag.go\<close>, \<open>atrributes.go\<close> of
  \<open>internal/service/catalog\<close>. Which products and variants exist, and which brands products refer to, are
  arguments here; \<open>Product\<close> supplies them.
\<close>

section \<open>Data\<close>

datatype meta_error =
    BrandNotFound | BrandSlugConflict | BrandNameConflict | BrandInvalidName | BrandInvalidLogo | BrandSlugExhausted
  | TagNotFound | TagInvalidName
  | AttrNotFound | ValueNotFound | AttrSlugConflict | ValueConflict | AttrInvalidName | AttrInvalidValue
  | AttrSlugExhausted | MetaDbError

record brand =
  b_id :: id
  b_name :: string
  b_slug :: string
  b_logo :: "string option"
  b_active :: bool
  b_created :: instant

record tag =
  t_id :: id
  t_name :: string
  t_slug :: string

record attr =
  a_id :: id
  a_name :: string
  a_slug :: string
  a_variant_dim :: bool

record attr_value =
  av_id :: id
  av_attr :: id
  av_value :: string

text \<open>The three link tables hold pairs: product and tag, product and value, variant and value.\<close>

record meta_db =
  brands :: "brand list"
  tags :: "tag list"
  attrs :: "attr list"
  attr_values :: "attr_value list"
  product_tags :: "(id \<times> id) list"
  product_values :: "(id \<times> id) list"
  variant_values :: "(id \<times> id) list"

record brand_create_req =
  bc_name :: string
  bc_logo :: "string option"
  bc_active :: "bool option"

record brand_update_req =
  bu_name :: "string option"
  bu_logo :: "string option"
  bu_active :: "bool option"

record attr_create_req =
  ac_name :: string
  ac_variant_dim :: bool

record attr_update_req =
  au_name :: "string option"
  au_variant_dim :: "bool option"

section \<open>Validation\<close>

definition name_ok :: "nat \<Rightarrow> string \<Rightarrow> bool" where
  "name_ok n s \<longleftrightarrow> s \<noteq> [] \<and> rune_count s \<le> n"

definition opt_all :: "('a \<Rightarrow> bool) \<Rightarrow> 'a option \<Rightarrow> bool" where
  "opt_all P x = (case x of None \<Rightarrow> True | Some y \<Rightarrow> P y)"

lemma opt_all_simps [simp]: "opt_all P None" "opt_all P (Some x) = P x"
  by (simp_all add: opt_all_def)

definition BrandCreate_Validate :: "brand_create_req \<Rightarrow> meta_error + brand_create_req" where
  "BrandCreate_Validate r0 =
     (let r = r0\<lparr>bc_name := trim_space (bc_name r0)\<rparr> in
      if \<not> name_ok 255 (bc_name r) then Inl BrandInvalidName
      else if \<not> opt_all (\<lambda>l. rune_count l \<le> 500) (bc_logo r) then Inl BrandInvalidLogo
      else Inr r)"

definition BrandUpdate_Validate :: "brand_update_req \<Rightarrow> meta_error + brand_update_req" where
  "BrandUpdate_Validate r0 =
     (let r = r0\<lparr>bu_name := map_option trim_space (bu_name r0)\<rparr> in
      if \<not> opt_all (name_ok 255) (bu_name r) then Inl BrandInvalidName
      else if \<not> opt_all (\<lambda>l. rune_count l \<le> 500) (bu_logo r) then Inl BrandInvalidLogo
      else Inr r)"

definition TagCreate_Validate :: "string \<Rightarrow> meta_error + string" where
  "TagCreate_Validate n0 = (let n = trim_space n0 in if name_ok 100 n then Inr n else Inl TagInvalidName)"

definition AttrCreate_Validate :: "attr_create_req \<Rightarrow> meta_error + attr_create_req" where
  "AttrCreate_Validate r0 =
     (let r = r0\<lparr>ac_name := trim_space (ac_name r0)\<rparr> in
      if name_ok 100 (ac_name r) then Inr r else Inl AttrInvalidName)"

definition AttrUpdate_Validate :: "attr_update_req \<Rightarrow> meta_error + attr_update_req" where
  "AttrUpdate_Validate r0 =
     (let r = r0\<lparr>au_name := map_option trim_space (au_name r0)\<rparr> in
      if opt_all (name_ok 100) (au_name r) then Inr r else Inl AttrInvalidName)"

definition ValueCreate_Validate :: "string \<Rightarrow> meta_error + string" where
  "ValueCreate_Validate v0 = (let v = trim_space v0 in if name_ok 100 v then Inr v else Inl AttrInvalidValue)"

section \<open>Brands: repository\<close>

text \<open>The index on the name is older than the one on the slug and is checked first.\<close>

definition repo_CreateBrand :: "id \<Rightarrow> instant \<Rightarrow> brand \<Rightarrow> meta_db \<Rightarrow> (meta_error + brand) \<times> meta_db" where
  "repo_CreateBrand nid now b d =
     (if 255 < rune_count (b_name b) \<or> 255 < rune_count (b_slug b)
         \<or> \<not> opt_all (\<lambda>l. rune_count l \<le> 500) (b_logo b) then (Inl MetaDbError, d)
      else if list_ex (\<lambda>r. b_name r = b_name b) (brands d) then (Inl BrandNameConflict, d)
      else if list_ex (\<lambda>r. b_slug r = b_slug b) (brands d) then (Inl BrandSlugConflict, d)
      else let b1 = b\<lparr>b_id := nid, b_created := now\<rparr> in (Inr b1, d\<lparr>brands := brands d @ [b1]\<rparr>))"

definition brand_scanOne :: "(brand \<Rightarrow> bool) \<Rightarrow> meta_db \<Rightarrow> meta_error + brand" where
  "brand_scanOne P d = (case List.find P (brands d) of None \<Rightarrow> Inl BrandNotFound | Some b \<Rightarrow> Inr b)"

definition GetBrandByID :: "id \<Rightarrow> meta_db \<Rightarrow> meta_error + brand" where
  "GetBrandByID i d = brand_scanOne (\<lambda>b. b_id b = i) d"

definition GetBrandBySlug :: "string \<Rightarrow> meta_db \<Rightarrow> meta_error + brand" where
  "GetBrandBySlug s d = brand_scanOne (\<lambda>b. b_slug b = s) d"

definition brand_edit :: "brand \<Rightarrow> brand \<Rightarrow> brand" where
  "brand_edit b r = r\<lparr>b_name := b_name b, b_slug := b_slug b, b_logo := b_logo b, b_active := b_active b\<rparr>"

definition repo_UpdateBrand :: "brand \<Rightarrow> meta_db \<Rightarrow> (meta_error + brand) \<times> meta_db" where
  "repo_UpdateBrand b d =
     (if \<not> list_ex (\<lambda>r. b_id r = b_id b) (brands d) then (Inl BrandNotFound, d)
      else if 255 < rune_count (b_name b) \<or> 255 < rune_count (b_slug b)
         \<or> \<not> opt_all (\<lambda>l. rune_count l \<le> 500) (b_logo b) then (Inl MetaDbError, d)
      else if list_ex (\<lambda>r. b_id r \<noteq> b_id b \<and> b_name r = b_name b) (brands d) then (Inl BrandNameConflict, d)
      else if list_ex (\<lambda>r. b_id r \<noteq> b_id b \<and> b_slug r = b_slug b) (brands d) then (Inl BrandSlugConflict, d)
      else (Inr b, d\<lparr>brands := update_where (\<lambda>r. b_id r = b_id b) (brand_edit b) (brands d)\<rparr>))"

text \<open>\<open>products.brand_id\<close> refers to brands without a cascade: \<open>used\<close> are the brands with products.\<close>

definition DeleteBrand :: "(id \<Rightarrow> bool) \<Rightarrow> id \<Rightarrow> meta_db \<Rightarrow> (meta_error + unit) \<times> meta_db" where
  "DeleteBrand used i d =
     (if \<not> list_ex (\<lambda>b. b_id b = i) (brands d) then (Inl BrandNotFound, d)
      else if used i then (Inl MetaDbError, d)
      else (Inr (), d\<lparr>brands := delete_where (\<lambda>b. b_id b = i) (brands d)\<rparr>))"

definition ListBrands :: "(string \<Rightarrow> string \<Rightarrow> bool) \<Rightarrow> bool \<Rightarrow> meta_db \<Rightarrow> brand list" where
  "ListBrands collate active_only d =
     order_by (\<lambda>a b. collate (b_name a) (b_name b)) (filter (\<lambda>b. active_only \<longrightarrow> b_active b) (brands d))"

section \<open>Tags: repository\<close>

text \<open>
  What a \<open>VARCHAR(n)\<close> column stores: a longer value is cut when the excess is all spaces and is an error
  otherwise.
\<close>

definition varchar :: "nat \<Rightarrow> string \<Rightarrow> string option" where
  "varchar n s =
     (if rune_count s \<le> n then Some s
      else let t = take_runes n s in
           if list_all (\<lambda>c. c = CHR '' '') (drop (length t) s) then Some t else None)"

text \<open>
  \<open>FindOrCreateTagTx\<close> is one statement: the insert meets every committed row (\<open>tags d\<close>), the select reads the
  snapshot \<open>snap\<close> of the statement's start. Called alone, \<open>snap\<close> is \<open>tags d\<close>.
\<close>

definition FindOrCreateTagTx ::
  "unicode \<Rightarrow> id \<Rightarrow> tag list \<Rightarrow> string \<Rightarrow> meta_db \<Rightarrow> meta_error + tag \<times> meta_db" where
  "FindOrCreateTagTx u nid snap name d =
     (let slug = GenerateSlug u name in
      case varchar 100 name of None \<Rightarrow> Inl MetaDbError
      | Some n \<Rightarrow> (case varchar 100 slug of None \<Rightarrow> Inl MetaDbError
        | Some s \<Rightarrow>
            if \<not> list_ex (\<lambda>t. t_name t = n \<or> t_slug t = s) (tags d)
            then let t = \<lparr>t_id = nid, t_name = n, t_slug = s\<rparr> in Inr (t, d\<lparr>tags := tags d @ [t]\<rparr>)
            else (case List.find (\<lambda>t. t_name t = name \<or> t_slug t = slug) snap of
                    None \<Rightarrow> Inl MetaDbError | Some t \<Rightarrow> Inr (t, d))))"

definition FindOrCreateByName :: "unicode \<Rightarrow> id \<Rightarrow> string \<Rightarrow> meta_db \<Rightarrow> (meta_error + tag) \<times> meta_db" where
  "FindOrCreateByName u nid name d =
     (case FindOrCreateTagTx u nid (tags d) name d of Inl e \<Rightarrow> (Inl e, d) | Inr (t, d') \<Rightarrow> (Inr t, d'))"

definition GetTagByID :: "id \<Rightarrow> meta_db \<Rightarrow> meta_error + tag" where
  "GetTagByID i d = (case List.find (\<lambda>t. t_id t = i) (tags d) of None \<Rightarrow> Inl TagNotFound | Some t \<Rightarrow> Inr t)"

definition ListTags :: "(string \<Rightarrow> string \<Rightarrow> bool) \<Rightarrow> meta_db \<Rightarrow> tag list" where
  "ListTags collate d = order_by (\<lambda>a b. collate (t_name a) (t_name b)) (tags d)"

text \<open>\<open>INSERT ... ON CONFLICT DO NOTHING\<close> into a table of pairs, with its foreign keys.\<close>

definition link_pair :: "(id \<Rightarrow> bool) \<Rightarrow> (id \<Rightarrow> bool) \<Rightarrow> id \<times> id \<Rightarrow> (id \<times> id) list \<Rightarrow> (id \<times> id) list option" where
  "link_pair ex1 ex2 l t =
     (if l \<in> set t then Some t else if ex1 (fst l) \<and> ex2 (snd l) then Some (t @ [l]) else None)"

definition has_tag :: "meta_db \<Rightarrow> id \<Rightarrow> bool" where
  "has_tag d i = list_ex (\<lambda>t. t_id t = i) (tags d)"

definition has_value :: "meta_db \<Rightarrow> id \<Rightarrow> bool" where
  "has_value d i = list_ex (\<lambda>v. av_id v = i) (attr_values d)"

definition linkTag :: "(id \<Rightarrow> bool) \<Rightarrow> id \<Rightarrow> id \<Rightarrow> meta_db \<Rightarrow> meta_error + meta_db" where
  "linkTag pexists p t d =
     (case link_pair pexists (has_tag d) (p, t) (product_tags d) of
        None \<Rightarrow> Inl MetaDbError | Some l \<Rightarrow> Inr (d\<lparr>product_tags := l\<rparr>))"

definition repo_AddTagToProduct :: "(id \<Rightarrow> bool) \<Rightarrow> id \<Rightarrow> id \<Rightarrow> meta_db \<Rightarrow> (meta_error + unit) \<times> meta_db" where
  "repo_AddTagToProduct pexists p t d =
     (case linkTag pexists p t d of Inl e \<Rightarrow> (Inl e, d) | Inr d' \<Rightarrow> (Inr (), d'))"

definition RemoveTagFromProduct :: "id \<Rightarrow> id \<Rightarrow> meta_db \<Rightarrow> (meta_error + unit) \<times> meta_db" where
  "RemoveTagFromProduct p t d =
     (if (p, t) \<notin> set (product_tags d) then (Inl TagNotFound, d)
      else (Inr (), d\<lparr>product_tags := filter (\<lambda>l. l \<noteq> (p, t)) (product_tags d)\<rparr>))"

definition GetProductTags :: "(string \<Rightarrow> string \<Rightarrow> bool) \<Rightarrow> id \<Rightarrow> meta_db \<Rightarrow> tag list" where
  "GetProductTags collate p d =
     order_by (\<lambda>a b. collate (t_name a) (t_name b)) (filter (\<lambda>t. (p, t_id t) \<in> set (product_tags d)) (tags d))"

text \<open>One round of the loop; \<open>nid\<close> numbers the rows the rounds may insert.\<close>

definition set_tag :: "unicode \<Rightarrow> (id \<Rightarrow> bool) \<Rightarrow> id \<Rightarrow> id \<times> string \<Rightarrow> meta_db \<Rightarrow> meta_error + meta_db" where
  "set_tag u pexists p nn d =
     (case FindOrCreateTagTx u (fst nn) (tags d) (snd nn) d of
        Inl e \<Rightarrow> Inl e | Inr (t, d1) \<Rightarrow> linkTag pexists p (t_id t) d1)"

definition setProductTagsTx ::
  "unicode \<Rightarrow> (nat \<Rightarrow> id) \<Rightarrow> (id \<Rightarrow> bool) \<Rightarrow> id \<Rightarrow> string list \<Rightarrow> meta_db \<Rightarrow> meta_error + unit \<times> meta_db" where
  "setProductTagsTx u nid pexists p names d =
     (case try_all (set_tag u pexists p) (zip (map nid [0..<length names]) names)
             (d\<lparr>product_tags := filter (\<lambda>l. fst l \<noteq> p) (product_tags d)\<rparr>) of
        Inl e \<Rightarrow> Inl e | Inr d' \<Rightarrow> Inr ((), d'))"

definition repo_SetProductTags where
  "repo_SetProductTags flt u nid pexists p names d =
     run_tx flt MetaDbError (setProductTagsTx u nid pexists p names) d"


section \<open>Attributes: repository\<close>

definition repo_CreateAttribute :: "id \<Rightarrow> attr \<Rightarrow> meta_db \<Rightarrow> (meta_error + attr) \<times> meta_db" where
  "repo_CreateAttribute nid a d =
     (if 100 < rune_count (a_name a) \<or> 100 < rune_count (a_slug a) then (Inl MetaDbError, d)
      else if list_ex (\<lambda>r. a_slug r = a_slug a) (attrs d) then (Inl AttrSlugConflict, d)
      else let a1 = a\<lparr>a_id := nid\<rparr> in (Inr a1, d\<lparr>attrs := attrs d @ [a1]\<rparr>))"

definition attr_scanOne :: "(attr \<Rightarrow> bool) \<Rightarrow> meta_db \<Rightarrow> meta_error + attr" where
  "attr_scanOne P d = (case List.find P (attrs d) of None \<Rightarrow> Inl AttrNotFound | Some a \<Rightarrow> Inr a)"

definition GetAttributeByID :: "id \<Rightarrow> meta_db \<Rightarrow> meta_error + attr" where
  "GetAttributeByID i d = attr_scanOne (\<lambda>a. a_id a = i) d"

definition GetAttributeBySlug :: "string \<Rightarrow> meta_db \<Rightarrow> meta_error + attr" where
  "GetAttributeBySlug s d = attr_scanOne (\<lambda>a. a_slug a = s) d"

definition attr_edit :: "attr \<Rightarrow> attr \<Rightarrow> attr" where
  "attr_edit a r = r\<lparr>a_name := a_name a, a_slug := a_slug a, a_variant_dim := a_variant_dim a\<rparr>"

definition repo_UpdateAttribute :: "attr \<Rightarrow> meta_db \<Rightarrow> (meta_error + attr) \<times> meta_db" where
  "repo_UpdateAttribute a d =
     (if \<not> list_ex (\<lambda>r. a_id r = a_id a) (attrs d) then (Inl AttrNotFound, d)
      else if 100 < rune_count (a_name a) \<or> 100 < rune_count (a_slug a) then (Inl MetaDbError, d)
      else if list_ex (\<lambda>r. a_id r \<noteq> a_id a \<and> a_slug r = a_slug a) (attrs d) then (Inl AttrSlugConflict, d)
      else (Inr a, d\<lparr>attrs := update_where (\<lambda>r. a_id r = a_id a) (attr_edit a) (attrs d)\<rparr>))"

text \<open>
  Deleting values takes the product links with them; \<open>variant_attribute_values\<close> has no cascade, so a value a
  variant uses stays and the statement fails.
\<close>

definition delete_values :: "(attr_value \<Rightarrow> bool) \<Rightarrow> meta_db \<Rightarrow> meta_db option" where
  "delete_values P d =
     (let gone = map av_id (filter P (attr_values d)) in
      if list_ex (\<lambda>l. snd l \<in> set gone) (variant_values d) then None
      else Some (d\<lparr>attr_values := delete_where P (attr_values d),
                  product_values := filter (\<lambda>l. snd l \<notin> set gone) (product_values d)\<rparr>))"

definition DeleteAttribute :: "id \<Rightarrow> meta_db \<Rightarrow> (meta_error + unit) \<times> meta_db" where
  "DeleteAttribute i d =
     (if \<not> list_ex (\<lambda>a. a_id a = i) (attrs d) then (Inl AttrNotFound, d)
      else case delete_values (\<lambda>v. av_attr v = i) d of
             None \<Rightarrow> (Inl MetaDbError, d)
           | Some d1 \<Rightarrow> (Inr (), d1\<lparr>attrs := delete_where (\<lambda>a. a_id a = i) (attrs d1)\<rparr>))"

definition ListAttributes :: "(string \<Rightarrow> string \<Rightarrow> bool) \<Rightarrow> meta_db \<Rightarrow> attr list" where
  "ListAttributes collate d = order_by (\<lambda>a b. collate (a_name a) (a_name b)) (attrs d)"

text \<open>The left join: an attribute without values gives one row whose value is NULL, which sorts last.\<close>

definition attr_block :: "attr \<Rightarrow> attr_value list \<Rightarrow> (attr \<times> attr_value option) list" where
  "attr_block a vs = (if vs = [] then [(a, None)] else map (\<lambda>v. (a, Some v)) vs)"

definition attr_rows :: "meta_db \<Rightarrow> (attr \<times> attr_value option) list" where
  "attr_rows d = concat (map (\<lambda>a. attr_block a (filter (\<lambda>v. av_attr v = a_id a) (attr_values d))) (attrs d))"

definition null_last :: "(string \<Rightarrow> string \<Rightarrow> bool) \<Rightarrow> attr_value option \<Rightarrow> attr_value option \<Rightarrow> bool" where
  "null_last collate x y =
     (case y of None \<Rightarrow> True | Some w \<Rightarrow> (case x of None \<Rightarrow> False | Some v \<Rightarrow> collate (av_value v) (av_value w)))"

definition row_le ::
  "(string \<Rightarrow> string \<Rightarrow> bool) \<Rightarrow> attr \<times> attr_value option \<Rightarrow> attr \<times> attr_value option \<Rightarrow> bool" where
  "row_le collate x y \<longleftrightarrow>
     (if collate (a_name (fst x)) (a_name (fst y))
      then collate (a_name (fst y)) (a_name (fst x)) \<longrightarrow> null_last collate (snd x) (snd y)
      else False)"

text \<open>The grouping loop: \<open>index\<close> and \<open>order\<close> together are the list of entries in order of first sight.\<close>

fun group_row :: "attr \<times> attr_value option \<Rightarrow> (attr \<times> attr_value list) list \<Rightarrow> (attr \<times> attr_value list) list" where
  "group_row (a, v) es =
     (let vs = (case v of None \<Rightarrow> [] | Some x \<Rightarrow> [x]) in
      if list_ex (\<lambda>e. a_id (fst e) = a_id a) es
      then map (\<lambda>e. if a_id (fst e) = a_id a then (fst e, snd e @ vs) else e) es
      else es @ [(a, vs)])"

definition ListAttributesWithValues ::
  "(string \<Rightarrow> string \<Rightarrow> bool) \<Rightarrow> meta_db \<Rightarrow> (attr \<times> attr_value list) list" where
  "ListAttributesWithValues collate d = fold group_row (order_by (row_le collate) (attr_rows d)) []"

definition repo_CreateAttributeValue :: "id \<Rightarrow> attr_value \<Rightarrow> meta_db \<Rightarrow> (meta_error + attr_value) \<times> meta_db" where
  "repo_CreateAttributeValue nid v d =
     (if 100 < rune_count (av_value v) then (Inl MetaDbError, d)
      else if list_ex (\<lambda>r. av_attr r = av_attr v \<and> av_value r = av_value v) (attr_values d) then (Inl ValueConflict, d)
      else if \<not> list_ex (\<lambda>a. a_id a = av_attr v) (attrs d) then (Inl MetaDbError, d)
      else let v1 = v\<lparr>av_id := nid\<rparr> in (Inr v1, d\<lparr>attr_values := attr_values d @ [v1]\<rparr>))"

definition GetAttributeValueByID :: "id \<Rightarrow> meta_db \<Rightarrow> meta_error + attr_value" where
  "GetAttributeValueByID i d =
     (case List.find (\<lambda>v. av_id v = i) (attr_values d) of None \<Rightarrow> Inl ValueNotFound | Some v \<Rightarrow> Inr v)"

definition repo_ListAttributeValues :: "(string \<Rightarrow> string \<Rightarrow> bool) \<Rightarrow> id \<Rightarrow> meta_db \<Rightarrow> attr_value list" where
  "repo_ListAttributeValues collate i d =
     order_by (\<lambda>a b. collate (av_value a) (av_value b)) (filter (\<lambda>v. av_attr v = i) (attr_values d))"

definition DeleteAttributeValue :: "id \<Rightarrow> meta_db \<Rightarrow> (meta_error + unit) \<times> meta_db" where
  "DeleteAttributeValue i d =
     (if \<not> has_value d i then (Inl ValueNotFound, d)
      else case delete_values (\<lambda>v. av_id v = i) d of None \<Rightarrow> (Inl MetaDbError, d) | Some d1 \<Rightarrow> (Inr (), d1))"

definition linkValue :: "(id \<Rightarrow> bool) \<Rightarrow> id \<Rightarrow> id \<Rightarrow> meta_db \<Rightarrow> meta_error + meta_db" where
  "linkValue pexists p v d =
     (case link_pair pexists (has_value d) (p, v) (product_values d) of
        None \<Rightarrow> Inl MetaDbError | Some l \<Rightarrow> Inr (d\<lparr>product_values := l\<rparr>))"

definition setProductAttributeValuesTx ::
  "(id \<Rightarrow> bool) \<Rightarrow> id \<Rightarrow> id list \<Rightarrow> meta_db \<Rightarrow> meta_error + unit \<times> meta_db" where
  "setProductAttributeValuesTx pexists p vs d =
     (case try_all (linkValue pexists p) vs (d\<lparr>product_values := filter (\<lambda>l. fst l \<noteq> p) (product_values d)\<rparr>) of
        Inl e \<Rightarrow> Inl e | Inr d' \<Rightarrow> Inr ((), d'))"

definition SetProductAttributeValues where
  "SetProductAttributeValues flt pexists p vs d =
     run_tx flt MetaDbError (setProductAttributeValuesTx pexists p vs) d"

definition GetProductAttributeValues :: "(string \<Rightarrow> string \<Rightarrow> bool) \<Rightarrow> id \<Rightarrow> meta_db \<Rightarrow> attr_value list" where
  "GetProductAttributeValues collate p d =
     order_by (\<lambda>a b. if av_attr a = av_attr b then collate (av_value a) (av_value b) else av_attr a < av_attr b)
       (filter (\<lambda>v. (p, av_id v) \<in> set (product_values d)) (attr_values d))"

text \<open>Variant links, the statements of \<open>setVariantAttributeValuesTx\<close> in \<open>variant_repo.go\<close>.\<close>

definition linkVariantValue :: "(id \<Rightarrow> bool) \<Rightarrow> id \<Rightarrow> id \<Rightarrow> meta_db \<Rightarrow> meta_error + meta_db" where
  "linkVariantValue vexists w v d =
     (case link_pair vexists (has_value d) (w, v) (variant_values d) of
        None \<Rightarrow> Inl MetaDbError | Some l \<Rightarrow> Inr (d\<lparr>variant_values := l\<rparr>))"

definition setVariantAttributeValuesTx ::
  "(id \<Rightarrow> bool) \<Rightarrow> id \<Rightarrow> id list \<Rightarrow> meta_db \<Rightarrow> meta_error + unit \<times> meta_db" where
  "setVariantAttributeValuesTx vexists w vs d =
     (case try_all (linkVariantValue vexists w) vs (d\<lparr>variant_values := filter (\<lambda>l. fst l \<noteq> w) (variant_values d)\<rparr>) of
        Inl e \<Rightarrow> Inl e | Inr d' \<Rightarrow> Inr ((), d'))"

section \<open>Service\<close>

text \<open>
  The four loops over slugs have one shape: attempt \<open>k\<close> of ten writes the slug of the attempt; a slug conflict
  goes on, anything else ends the loop. \<open>left\<close> attempts are left.
\<close>

fun slug_loop ::
  "(string \<Rightarrow> 'd \<Rightarrow> ('e + 'r) \<times> 'd) \<Rightarrow> 'e \<Rightarrow> 'e \<Rightarrow> string \<Rightarrow> nat \<Rightarrow> 'd \<Rightarrow> ('e + 'r) \<times> 'd" where
  "slug_loop f conflict exhausted base 0 d = (Inl exhausted, d)"
| "slug_loop f conflict exhausted base (Suc left) d =
     (case f (attempt_slug base (10 - left)) d of
        (Inr r, d') \<Rightarrow> (Inr r, d')
      | (Inl e, d') \<Rightarrow> if e = conflict then slug_loop f conflict exhausted base left d' else (Inl e, d'))"

definition createBrandWithSlugRetry where
  "createBrandWithSlugRetry nid now b base d =
     slug_loop (\<lambda>s. repo_CreateBrand nid now (b\<lparr>b_slug := s\<rparr>)) BrandSlugConflict BrandSlugExhausted base 10 d"

definition updateBrandWithSlugRetry where
  "updateBrandWithSlugRetry u b d =
     slug_loop (\<lambda>s. repo_UpdateBrand (b\<lparr>b_slug := s\<rparr>)) BrandSlugConflict BrandSlugExhausted
       (GenerateSlug u (b_name b)) 10 d"

definition createAttributeWithSlugRetry where
  "createAttributeWithSlugRetry nid a base d =
     slug_loop (\<lambda>s. repo_CreateAttribute nid (a\<lparr>a_slug := s\<rparr>)) AttrSlugConflict AttrSlugExhausted base 10 d"

definition updateAttributeWithSlugRetry where
  "updateAttributeWithSlugRetry u a d =
     slug_loop (\<lambda>s. repo_UpdateAttribute (a\<lparr>a_slug := s\<rparr>)) AttrSlugConflict AttrSlugExhausted
       (GenerateSlug u (a_name a)) 10 d"

definition CreateBrand ::
  "unicode \<Rightarrow> id \<Rightarrow> instant \<Rightarrow> brand_create_req \<Rightarrow> meta_db \<Rightarrow> (meta_error + brand) \<times> meta_db" where
  "CreateBrand u nid now req d =
     (case BrandCreate_Validate req of
        Inl e \<Rightarrow> (Inl e, d)
      | Inr r \<Rightarrow> createBrandWithSlugRetry nid now
          \<lparr>b_id = 0, b_name = bc_name r, b_slug = [], b_logo = bc_logo r,
           b_active = (case bc_active r of None \<Rightarrow> True | Some x \<Rightarrow> x), b_created = 0\<rparr>
          (GenerateSlug u (bc_name r)) d)"

definition brand_patch :: "brand_update_req \<Rightarrow> brand \<Rightarrow> brand" where
  "brand_patch r b = b\<lparr>b_name := (case bu_name r of None \<Rightarrow> b_name b | Some n \<Rightarrow> n),
     b_active := (case bu_active r of None \<Rightarrow> b_active b | Some x \<Rightarrow> x),
     b_logo := (case bu_logo r of None \<Rightarrow> b_logo b | Some l \<Rightarrow> if l = [] then None else Some l)\<rparr>"

definition UpdateBrand ::
  "unicode \<Rightarrow> id \<Rightarrow> brand_update_req \<Rightarrow> meta_db \<Rightarrow> (meta_error + brand) \<times> meta_db" where
  "UpdateBrand u i req d =
     (case BrandUpdate_Validate req of
        Inl e \<Rightarrow> (Inl e, d)
      | Inr r \<Rightarrow> (case GetBrandByID i d of
          Inl e \<Rightarrow> (Inl e, d)
        | Inr b \<Rightarrow>
            let b1 = brand_patch r b in
            if b_name b1 \<noteq> b_name b then updateBrandWithSlugRetry u b1 d else repo_UpdateBrand b1 d))"

definition FindOrCreateTag :: "unicode \<Rightarrow> id \<Rightarrow> string \<Rightarrow> meta_db \<Rightarrow> (meta_error + tag) \<times> meta_db" where
  "FindOrCreateTag u nid name d =
     (case TagCreate_Validate name of Inl e \<Rightarrow> (Inl e, d) | Inr n \<Rightarrow> FindOrCreateByName u nid n d)"

text \<open>Two calls of the repository: the tag stays when the link fails.\<close>

definition AddTagToProduct ::
  "unicode \<Rightarrow> id \<Rightarrow> (id \<Rightarrow> bool) \<Rightarrow> id \<Rightarrow> string \<Rightarrow> meta_db \<Rightarrow> (meta_error + tag) \<times> meta_db" where
  "AddTagToProduct u nid pexists p name d =
     (case TagCreate_Validate name of
        Inl e \<Rightarrow> (Inl e, d)
      | Inr n \<Rightarrow> (case FindOrCreateByName u nid n d of
          (Inl e, d1) \<Rightarrow> (Inl e, d1)
        | (Inr t, d1) \<Rightarrow> (case repo_AddTagToProduct pexists p (t_id t) d1 of
            (Inl e, d2) \<Rightarrow> (Inl e, d2) | (Inr _, d2) \<Rightarrow> (Inr t, d2))))"

text \<open>The names are validated as trimmed copies and passed on as they came.\<close>

definition SetProductTags ::
  "tx_fault \<Rightarrow> unicode \<Rightarrow> (nat \<Rightarrow> id) \<Rightarrow> (id \<Rightarrow> bool) \<Rightarrow> id \<Rightarrow> string list \<Rightarrow> meta_db
     \<Rightarrow> (meta_error + unit) \<times> meta_db" where
  "SetProductTags flt u nid pexists p names d =
     (if list_ex (\<lambda>n. \<not> is_ok (TagCreate_Validate n)) names then (Inl TagInvalidName, d)
      else repo_SetProductTags flt u nid pexists p names d)"

definition CreateAttribute :: "unicode \<Rightarrow> id \<Rightarrow> attr_create_req \<Rightarrow> meta_db \<Rightarrow> (meta_error + attr) \<times> meta_db" where
  "CreateAttribute u nid req d =
     (case AttrCreate_Validate req of
        Inl e \<Rightarrow> (Inl e, d)
      | Inr r \<Rightarrow> createAttributeWithSlugRetry nid
          \<lparr>a_id = 0, a_name = ac_name r, a_slug = [], a_variant_dim = ac_variant_dim r\<rparr>
          (GenerateSlug u (ac_name r)) d)"

definition attr_patch :: "attr_update_req \<Rightarrow> attr \<Rightarrow> attr" where
  "attr_patch r a = a\<lparr>a_name := (case au_name r of None \<Rightarrow> a_name a | Some n \<Rightarrow> n),
     a_variant_dim := (case au_variant_dim r of None \<Rightarrow> a_variant_dim a | Some x \<Rightarrow> x)\<rparr>"

definition UpdateAttribute :: "unicode \<Rightarrow> id \<Rightarrow> attr_update_req \<Rightarrow> meta_db \<Rightarrow> (meta_error + attr) \<times> meta_db" where
  "UpdateAttribute u i req d =
     (case AttrUpdate_Validate req of
        Inl e \<Rightarrow> (Inl e, d)
      | Inr r \<Rightarrow> (case GetAttributeByID i d of
          Inl e \<Rightarrow> (Inl e, d)
        | Inr a \<Rightarrow>
            let a1 = attr_patch r a in
            if a_name a1 \<noteq> a_name a then updateAttributeWithSlugRetry u a1 d else repo_UpdateAttribute a1 d))"

definition AddAttributeValue :: "id \<Rightarrow> id \<Rightarrow> string \<Rightarrow> meta_db \<Rightarrow> (meta_error + attr_value) \<times> meta_db" where
  "AddAttributeValue nid i v0 d =
     (case ValueCreate_Validate v0 of
        Inl e \<Rightarrow> (Inl e, d)
      | Inr v \<Rightarrow> (case GetAttributeByID i d of
          Inl e \<Rightarrow> (Inl e, d)
        | Inr _ \<Rightarrow> repo_CreateAttributeValue nid \<lparr>av_id = 0, av_attr = i, av_value = v\<rparr> d))"

definition ListAttributeValues ::
  "(string \<Rightarrow> string \<Rightarrow> bool) \<Rightarrow> id \<Rightarrow> meta_db \<Rightarrow> meta_error + attr_value list" where
  "ListAttributeValues collate i d =
     (case GetAttributeByID i d of Inl e \<Rightarrow> Inl e | Inr _ \<Rightarrow> Inr (repo_ListAttributeValues collate i d))"

end
