(* ===== verification/Catalog_Safety.thy ===== *)
theory Catalog_Safety
  imports Catalog_Meta
begin

text \<open>
  What holds of brands, tags and attributes: the constraints of their tables on every reachable state, the
  slug loops, the reuse of tags, the replacement of links and the grouping of attribute values.
\<close>

section \<open>Tables with keys\<close>

lemma no_key_iff: "\<not> list_ex (\<lambda>r. k r = x) t \<longleftrightarrow> x \<notin> k ` set t"
  by (auto simp: list_ex_iff)

lemma no_other_key:
  "\<not> list_ex (\<lambda>r. i r \<noteq> j \<and> k r = x) t \<Longrightarrow> r \<in> set t \<Longrightarrow> i r \<noteq> j \<Longrightarrow> k r \<noteq> x"
  by (auto simp: list_ex_iff)

text \<open>Replacing the row of a number by one whose other key no other row has keeps that key unique.\<close>

lemma distinct_replace_key:
  assumes "distinct (map i t)" "distinct (map k t)" "\<not> list_ex (\<lambda>r. i r \<noteq> j \<and> k r = x) t" "\<And>r. k (f r) = x"
  shows "distinct (map k (update_where (\<lambda>r. i r = j) f t))"
  by (rule distinct_update_key [OF assms(1,2) _ assms(4)]) (rule no_other_key [OF assms(3)])

text \<open>Rows numbered by a key keep distinct keys when a row with a fresh number is added.\<close>

definition keyed :: "('r \<Rightarrow> id) \<Rightarrow> 'r list \<Rightarrow> bool" where
  "keyed k t \<longleftrightarrow> distinct (map k t)"

definition linked :: "id set \<Rightarrow> (id \<times> id) list \<Rightarrow> bool" where
  "linked ks t \<longleftrightarrow> distinct t \<and> (\<forall>l \<in> set t. snd l \<in> ks)"

lemma linked_mono: "linked ks t \<Longrightarrow> ks \<subseteq> ks' \<Longrightarrow> linked ks' t"
  by (auto simp: linked_def)

lemma linked_filter: "linked ks t \<Longrightarrow> linked ks (filter P t)"
  by (auto simp: linked_def)

lemma linked_link:
  "link_pair ex1 ex2 l t = Some t' \<Longrightarrow> linked ks t \<Longrightarrow> (\<And>i. ex2 i \<Longrightarrow> i \<in> ks) \<Longrightarrow> linked ks t'"
  by (force simp: link_pair_def linked_def split: if_splits)

section \<open>The invariant\<close>

definition brands_ok :: "brand list \<Rightarrow> bool" where
  "brands_ok t \<longleftrightarrow> keyed b_id t \<and> distinct (map b_name t) \<and> distinct (map b_slug t)"

definition tags_ok :: "tag list \<Rightarrow> bool" where
  "tags_ok t \<longleftrightarrow> keyed t_id t \<and> distinct (map t_name t) \<and> distinct (map t_slug t)"

definition attrs_ok :: "attr list \<Rightarrow> bool" where
  "attrs_ok t \<longleftrightarrow> keyed a_id t \<and> distinct (map a_slug t)"

definition values_ok :: "id set \<Rightarrow> attr_value list \<Rightarrow> bool" where
  "values_ok as t \<longleftrightarrow>
     keyed av_id t \<and> distinct (map (\<lambda>v. (av_attr v, av_value v)) t) \<and> (\<forall>v \<in> set t. av_attr v \<in> as)"

definition meta_inv :: "meta_db \<Rightarrow> bool" where
  "meta_inv d \<longleftrightarrow>
     brands_ok (brands d) \<and> tags_ok (tags d) \<and> attrs_ok (attrs d) \<and>
     values_ok (a_id ` set (attrs d)) (attr_values d) \<and>
     linked (t_id ` set (tags d)) (product_tags d) \<and>
     linked (av_id ` set (attr_values d)) (product_values d) \<and>
     linked (av_id ` set (attr_values d)) (variant_values d)"

lemma meta_inv_empty:
  "meta_inv \<lparr>brands = [], tags = [], attrs = [], attr_values = [], product_tags = [], product_values = [],
             variant_values = []\<rparr>"
  by (simp add: meta_inv_def brands_ok_def tags_ok_def attrs_ok_def values_ok_def keyed_def linked_def)

section \<open>Each operation keeps it\<close>

named_theorems meta_kept "operations that keep the invariant"

lemma repo_CreateBrand_inv [meta_kept]:
  "repo_CreateBrand nid now b d = (r, d') \<Longrightarrow> nid \<notin> b_id ` set (brands d) \<Longrightarrow> meta_inv d \<Longrightarrow> meta_inv d'"
  by (auto simp: repo_CreateBrand_def meta_inv_def brands_ok_def keyed_def Let_def no_key_iff split: if_splits)

lemma repo_UpdateBrand_inv [meta_kept]:
  assumes "repo_UpdateBrand b d = (r, d')" "meta_inv d"
  shows "meta_inv d'"
proof (cases r)
  case (Inr c)
  define t where "t = update_where (\<lambda>r. b_id r = b_id b) (brand_edit b) (brands d)"
  have d': "d' = d\<lparr>brands := t\<rparr>"
    and free: "\<not> list_ex (\<lambda>r. b_id r \<noteq> b_id b \<and> b_name r = b_name b) (brands d)"
      "\<not> list_ex (\<lambda>r. b_id r \<noteq> b_id b \<and> b_slug r = b_slug b) (brands d)"
    using assms(1) Inr by (auto simp: repo_UpdateBrand_def t_def split: if_splits)
  have ok: "distinct (map b_id (brands d))" "distinct (map b_name (brands d))" "distinct (map b_slug (brands d))"
    using assms(2) by (simp_all add: meta_inv_def brands_ok_def keyed_def)
  have "map b_id t = map b_id (brands d)" unfolding t_def by (rule map_update_where) (simp add: brand_edit_def)
  moreover have "distinct (map b_name t)" unfolding t_def
    by (rule distinct_replace_key [OF ok(1,2) free(1)]) (simp add: brand_edit_def)
  moreover have "distinct (map b_slug t)" unfolding t_def
    by (rule distinct_replace_key [OF ok(1,3) free(2)]) (simp add: brand_edit_def)
  ultimately have "brands_ok t" using ok(1) by (simp add: brands_ok_def keyed_def)
  then show ?thesis using assms(2) d' by (simp add: meta_inv_def)
qed (use assms in \<open>auto simp: repo_UpdateBrand_def split: if_splits\<close>)

lemma DeleteBrand_inv [meta_kept]: "DeleteBrand used i d = (r, d') \<Longrightarrow> meta_inv d \<Longrightarrow> meta_inv d'"
  by (auto simp: DeleteBrand_def meta_inv_def brands_ok_def keyed_def table_simps split: if_splits)

lemma FindOrCreateTagTx_inv:
  assumes "FindOrCreateTagTx u nid snap name d = Inr (t, d')" "nid \<notin> t_id ` set (tags d)" "meta_inv d"
  shows "meta_inv d'"
proof (cases "d' = d")
  case False
  then obtain n s where new: "d' = d\<lparr>tags := tags d @ [\<lparr>t_id = nid, t_name = n, t_slug = s\<rparr>]\<rparr>"
    and free: "\<not> list_ex (\<lambda>t. t_name t = n \<or> t_slug t = s) (tags d)"
    using assms(1) by (auto simp: FindOrCreateTagTx_def Let_def split: option.splits if_splits)
  have "tags_ok (tags d')"
    using assms(2,3) free new by (auto simp: meta_inv_def tags_ok_def keyed_def list_ex_iff)
  moreover have "linked (t_id ` set (tags d')) (product_tags d)"
    using assms(3) new by (auto simp: meta_inv_def intro: linked_mono)
  ultimately show ?thesis using assms(3) new by (simp add: meta_inv_def)
qed (use assms(3) in simp)

lemma linkTag_inv: "linkTag pexists p t d = Inr d' \<Longrightarrow> meta_inv d \<Longrightarrow> meta_inv d'"
  by (auto simp: linkTag_def meta_inv_def has_tag_def list_ex_iff split: option.splits
      elim!: linked_link)

lemma linkValue_inv: "linkValue pexists p t d = Inr d' \<Longrightarrow> meta_inv d \<Longrightarrow> meta_inv d'"
  by (auto simp: linkValue_def meta_inv_def has_value_def list_ex_iff split: option.splits
      elim!: linked_link)

lemma linkVariantValue_inv: "linkVariantValue vexists p t d = Inr d' \<Longrightarrow> meta_inv d \<Longrightarrow> meta_inv d'"
  by (auto simp: linkVariantValue_def meta_inv_def has_value_def list_ex_iff split: option.splits
      elim!: linked_link)

lemma repo_CreateAttribute_inv [meta_kept]:
  "repo_CreateAttribute nid a d = (r, d') \<Longrightarrow> nid \<notin> a_id ` set (attrs d) \<Longrightarrow> meta_inv d \<Longrightarrow> meta_inv d'"
  by (auto simp: repo_CreateAttribute_def meta_inv_def attrs_ok_def values_ok_def keyed_def Let_def no_key_iff
      split: if_splits)

lemma repo_UpdateAttribute_inv [meta_kept]:
  assumes "repo_UpdateAttribute a d = (r, d')" "meta_inv d"
  shows "meta_inv d'"
proof (cases r)
  case (Inr c)
  define t where "t = update_where (\<lambda>r. a_id r = a_id a) (attr_edit a) (attrs d)"
  have d': "d' = d\<lparr>attrs := t\<rparr>"
    and free: "\<not> list_ex (\<lambda>r. a_id r \<noteq> a_id a \<and> a_slug r = a_slug a) (attrs d)"
    using assms(1) Inr by (auto simp: repo_UpdateAttribute_def t_def split: if_splits)
  have ok: "distinct (map a_id (attrs d))" "distinct (map a_slug (attrs d))"
    using assms(2) by (simp_all add: meta_inv_def attrs_ok_def keyed_def)
  have keys: "map a_id t = map a_id (attrs d)" unfolding t_def
    by (rule map_update_where) (simp add: attr_edit_def)
  moreover have "distinct (map a_slug t)" unfolding t_def
    by (rule distinct_replace_key [OF ok free]) (simp add: attr_edit_def)
  ultimately have "attrs_ok t" using ok(1) by (simp add: attrs_ok_def keyed_def)
  moreover have "a_id ` set t = a_id ` set (attrs d)" using keys by (metis set_map)
  ultimately show ?thesis using assms(2) d' by (simp add: meta_inv_def)
qed (use assms in \<open>auto simp: repo_UpdateAttribute_def split: if_splits\<close>)

lemma delete_values_inv:
  assumes "delete_values P d = Some d'" "meta_inv d"
  shows "meta_inv d'"
proof -
  define gone where "gone = map av_id (filter P (attr_values d))"
  have unused: "\<forall>l \<in> set (variant_values d). snd l \<notin> set gone"
    and d': "d' = d\<lparr>attr_values := delete_where P (attr_values d),
                   product_values := filter (\<lambda>l. snd l \<notin> set gone) (product_values d)\<rparr>"
    using assms(1) by (auto simp: delete_values_def Let_def gone_def list_ex_iff split: if_splits)
  have stay: "i \<in> av_id ` set (attr_values d')" if "i \<in> av_id ` set (attr_values d)" "i \<notin> set gone" for i
    using that d' by (auto simp: gone_def table_simps)
  have "values_ok (a_id ` set (attrs d)) (attr_values d')"
    using assms(2) d' by (simp add: meta_inv_def values_ok_def keyed_def table_simps)
  moreover have "linked (av_id ` set (attr_values d')) (product_values d')"
    "linked (av_id ` set (attr_values d')) (variant_values d)"
    using assms(2) unused stay d' by (auto simp: meta_inv_def linked_def)
  ultimately show ?thesis using assms(2) d' by (simp add: meta_inv_def)
qed

lemma delete_values_gone:
  "delete_values P d = Some d' \<Longrightarrow> set (attr_values d') = {v \<in> set (attr_values d). \<not> P v} \<and> attrs d' = attrs d"
  by (auto simp: delete_values_def Let_def table_simps split: if_splits)

lemma DeleteAttribute_inv [meta_kept]:
  assumes "DeleteAttribute i d = (r, d')" "meta_inv d"
  shows "meta_inv d'"
proof (cases r)
  case (Inr c)
  then obtain d1 where d1: "delete_values (\<lambda>v. av_attr v = i) d = Some d1"
    and d': "d' = d1\<lparr>attrs := delete_where (\<lambda>a. a_id a = i) (attrs d1)\<rparr>"
    using assms(1) by (auto simp: DeleteAttribute_def split: if_splits option.splits)
  have inv: "meta_inv d1" by (rule delete_values_inv [OF d1 assms(2)])
  have "values_ok (a_id ` set (attrs d')) (attr_values d1)"
    using inv delete_values_gone [OF d1] d' by (auto simp: meta_inv_def values_ok_def table_simps image_iff)
  moreover have "attrs_ok (attrs d')"
    using inv d' by (simp add: meta_inv_def attrs_ok_def keyed_def table_simps)
  ultimately show ?thesis using inv d' by (simp add: meta_inv_def)
qed (use assms in \<open>auto simp: DeleteAttribute_def split: if_splits option.splits\<close>)

lemma repo_CreateAttributeValue_inv [meta_kept]:
  assumes "repo_CreateAttributeValue nid v d = (r, d')" "nid \<notin> av_id ` set (attr_values d)" "meta_inv d"
  shows "meta_inv d'"
proof (cases r)
  case (Inr w)
  then have d': "d' = d\<lparr>attr_values := attr_values d @ [v\<lparr>av_id := nid\<rparr>]\<rparr>"
    and free: "\<forall>r \<in> set (attr_values d). \<not> (av_attr r = av_attr v \<and> av_value r = av_value v)"
    and known: "\<exists>a \<in> set (attrs d). a_id a = av_attr v"
    using assms(1) Inr by (auto simp: repo_CreateAttributeValue_def Let_def list_ex_iff split: if_splits)
  from known have known: "av_attr v \<in> a_id ` set (attrs d)" by force
  have "distinct (map (\<lambda>v. (av_attr v, av_value v)) (attr_values d'))"
    using assms(3) free d' by (auto simp: meta_inv_def values_ok_def)
  then have "values_ok (a_id ` set (attrs d)) (attr_values d')"
    using assms(2,3) known d' by (auto simp: meta_inv_def values_ok_def keyed_def)
  then show ?thesis using assms(3) d' by (auto simp: meta_inv_def intro: linked_mono)
qed (use assms in \<open>auto simp: repo_CreateAttributeValue_def Let_def split: if_splits\<close>)

lemma DeleteAttributeValue_inv [meta_kept]: "DeleteAttributeValue i d = (r, d') \<Longrightarrow> meta_inv d \<Longrightarrow> meta_inv d'"
  by (auto simp: DeleteAttributeValue_def split: if_splits option.splits intro: delete_values_inv)

lemma clear_links_inv:
  "meta_inv d \<Longrightarrow> meta_inv (d\<lparr>product_tags := filter P (product_tags d)\<rparr>)"
  "meta_inv d \<Longrightarrow> meta_inv (d\<lparr>product_values := filter P (product_values d)\<rparr>)"
  "meta_inv d \<Longrightarrow> meta_inv (d\<lparr>variant_values := filter P (variant_values d)\<rparr>)"
  by (auto simp: meta_inv_def intro: linked_filter)

lemma setProductAttributeValuesTx_inv:
  "setProductAttributeValuesTx pexists p vs d = Inr (x, d') \<Longrightarrow> meta_inv d \<Longrightarrow> meta_inv d'"
  by (auto simp: setProductAttributeValuesTx_def split: sum.splits
      intro: try_all_invariant [where I = meta_inv] linkValue_inv clear_links_inv(2))

lemma setVariantAttributeValuesTx_inv:
  "setVariantAttributeValuesTx vexists w vs d = Inr (x, d') \<Longrightarrow> meta_inv d \<Longrightarrow> meta_inv d'"
  by (auto simp: setVariantAttributeValuesTx_def split: sum.splits
      intro: try_all_invariant [where I = meta_inv] linkVariantValue_inv clear_links_inv(3))

lemma SetProductAttributeValues_inv [meta_kept]:
  "SetProductAttributeValues flt pexists p vs d = (r, d') \<Longrightarrow> meta_inv d \<Longrightarrow> meta_inv d'"
  unfolding SetProductAttributeValues_def
  by (drule run_tx_cases) (auto dest: setProductAttributeValuesTx_inv)

lemma RemoveTagFromProduct_inv [meta_kept]: "RemoveTagFromProduct p t d = (r, d') \<Longrightarrow> meta_inv d \<Longrightarrow> meta_inv d'"
  by (auto simp: RemoveTagFromProduct_def clear_links_inv(1) split: if_splits)

lemma repo_AddTagToProduct_inv [meta_kept]: "repo_AddTagToProduct pexists p t d = (r, d') \<Longrightarrow> meta_inv d \<Longrightarrow> meta_inv d'"
  by (auto simp: repo_AddTagToProduct_def split: sum.splits intro: linkTag_inv)

text \<open>The rounds of \<open>setProductTagsTx\<close> number the tags they insert with different fresh numbers.\<close>

lemma FindOrCreateTagTx_tags:
  "FindOrCreateTagTx u nid snap name d = Inr (t, d') \<Longrightarrow> t_id ` set (tags d') \<subseteq> insert nid (t_id ` set (tags d))"
  by (auto simp: FindOrCreateTagTx_def Let_def split: option.splits if_splits)

lemma linkTag_tags: "linkTag pexists p t d = Inr d' \<Longrightarrow> tags d' = tags d"
  by (auto simp: linkTag_def split: option.splits)

lemma set_tags_inv:
  assumes "try_all (set_tag u pexists p) nns d = Inr d'" "meta_inv d"
    "distinct (map fst nns)" "\<forall>n \<in> set (map fst nns). n \<notin> t_id ` set (tags d)"
  shows "meta_inv d'"
  using assms
proof (induction nns arbitrary: d)
  case (Cons nn nns)
  obtain t d1 d2 where 1: "FindOrCreateTagTx u (fst nn) (tags d) (snd nn) d = Inr (t, d1)"
    and 2: "linkTag pexists p (t_id t) d1 = Inr d2" and 3: "try_all (set_tag u pexists p) nns d2 = Inr d'"
    using Cons.prems(1) by (auto simp: set_tag_def [of u pexists p nn] split: sum.splits)
  have "meta_inv d1" using FindOrCreateTagTx_inv [OF 1] Cons.prems by simp
  then have "meta_inv d2" using linkTag_inv [OF 2] by simp
  moreover have "n \<notin> t_id ` set (tags d2)" if "n \<in> set (map fst nns)" for n
  proof -
    have "n \<noteq> fst nn" "n \<notin> t_id ` set (tags d)" using that Cons.prems(3,4) by force+
    then show ?thesis using FindOrCreateTagTx_tags [OF 1] linkTag_tags [OF 2] by (simp add: subset_iff) blast
  qed
  ultimately show ?case using Cons.IH [OF 3] Cons.prems(3) by simp
qed simp

lemma setProductTagsTx_inv:
  assumes "setProductTagsTx u nid pexists p names d = Inr (x, d')" "meta_inv d"
    "inj nid" "\<forall>k. nid k \<notin> t_id ` set (tags d)"
  shows "meta_inv d'"
proof -
  let ?d = "d\<lparr>product_tags := filter (\<lambda>l. fst l \<noteq> p) (product_tags d)\<rparr>"
  have "try_all (set_tag u pexists p) (zip (map nid [0..<length names]) names) ?d = Inr d'"
    using assms(1) by (auto simp: setProductTagsTx_def split: sum.splits)
  moreover have keys: "map fst (zip (map nid [0..<length names]) names) = map nid [0..<length names]" by simp
  moreover have "distinct (map nid [0..<length names])"
    using assms(3) by (simp add: distinct_map inj_on_def inj_def)
  ultimately show ?thesis
    using assms(4) by (intro set_tags_inv [OF _ clear_links_inv(1) [OF assms(2)]]) (simp_all only:, auto)
qed

section \<open>The slug loops\<close>

text \<open>
  What the loop needs of the statement it repeats: an error leaves the database alone, and the conflict it goes
  on after is reported exactly when the slug of the attempt is taken.
\<close>

locale slug_writer =
  fixes store :: "string \<Rightarrow> 'd \<Rightarrow> ('e + 'r) \<times> 'd" and conflict :: 'e and taken :: "string \<Rightarrow> 'd \<Rightarrow> bool"
  assumes error_clean: "store s d = (Inl e, d') \<Longrightarrow> d' = d"
    and conflict_iff: "fst (store s d) = Inl conflict \<longleftrightarrow> taken s d"
begin

lemma loop_eq:
  "n \<le> 10 \<Longrightarrow> slug_loop store conflict exhausted base n d =
     (case List.find (\<lambda>k. \<not> taken (attempt_slug base k) d) [11 - n..<11] of
        None \<Rightarrow> (Inl exhausted, d) | Some k \<Rightarrow> store (attempt_slug base k) d)"
proof (induction n)
  case (Suc n)
  have up: "[11 - Suc n..<11] = (10 - n) # [11 - n..<11]"
    using Suc.prems upt_conv_Cons [of "10 - n" 11] by (simp add: Suc_diff_le [symmetric])
  obtain r d' where w: "store (attempt_slug base (10 - n)) d = (r, d')" by (metis prod.exhaust)
  show ?case
  proof (cases "taken (attempt_slug base (10 - n)) d")
    case True
    then have "r = Inl conflict" using w conflict_iff by (metis fst_conv)
    moreover have "d' = d" using w error_clean \<open>r = Inl conflict\<close> by blast
    ultimately show ?thesis using Suc True w up by simp
  next
    case False
    then have "r \<noteq> Inl conflict" using w conflict_iff by (metis fst_conv)
    then show ?thesis using False w up by (auto split: sum.splits)
  qed
qed simp

lemma loop_error:
  "n \<le> 10 \<Longrightarrow> slug_loop store conflict exhausted base n d = (Inl e, d') \<Longrightarrow> d' = d"
  by (auto simp: loop_eq split: option.splits dest: error_clean)

lemma loop_keeps:
  assumes "slug_loop store conflict exhausted base n d = (r, d')" "n \<le> 10" "I d"
    and "\<And>s r d'. store s d = (r, d') \<Longrightarrow> I d'"
  shows "I d'"
  using assms by (auto simp: loop_eq split: option.splits)

end

definition create_brand_conflict :: "brand \<Rightarrow> string \<Rightarrow> meta_db \<Rightarrow> bool" where
  "create_brand_conflict b s d \<longleftrightarrow> rune_count (b_name b) \<le> 255 \<and> rune_count s \<le> 255 \<and>
     opt_all (\<lambda>l. rune_count l \<le> 500) (b_logo b) \<and> \<not> list_ex (\<lambda>r. b_name r = b_name b) (brands d) \<and>
     list_ex (\<lambda>r. b_slug r = s) (brands d)"

definition update_brand_conflict :: "brand \<Rightarrow> string \<Rightarrow> meta_db \<Rightarrow> bool" where
  "update_brand_conflict b s d \<longleftrightarrow> list_ex (\<lambda>r. b_id r = b_id b) (brands d) \<and> rune_count (b_name b) \<le> 255 \<and>
     rune_count s \<le> 255 \<and> opt_all (\<lambda>l. rune_count l \<le> 500) (b_logo b) \<and>
     \<not> list_ex (\<lambda>r. b_id r \<noteq> b_id b \<and> b_name r = b_name b) (brands d) \<and>
     list_ex (\<lambda>r. b_id r \<noteq> b_id b \<and> b_slug r = s) (brands d)"

definition create_attr_conflict :: "attr \<Rightarrow> string \<Rightarrow> meta_db \<Rightarrow> bool" where
  "create_attr_conflict a s d \<longleftrightarrow>
     rune_count (a_name a) \<le> 100 \<and> rune_count s \<le> 100 \<and> list_ex (\<lambda>r. a_slug r = s) (attrs d)"

definition update_attr_conflict :: "attr \<Rightarrow> string \<Rightarrow> meta_db \<Rightarrow> bool" where
  "update_attr_conflict a s d \<longleftrightarrow> list_ex (\<lambda>r. a_id r = a_id a) (attrs d) \<and> rune_count (a_name a) \<le> 100 \<and>
     rune_count s \<le> 100 \<and> list_ex (\<lambda>r. a_id r \<noteq> a_id a \<and> a_slug r = s) (attrs d)"

interpretation new_brand:
  slug_writer "\<lambda>s. repo_CreateBrand nid now (b\<lparr>b_slug := s\<rparr>)" BrandSlugConflict "create_brand_conflict b"
  for nid now b
  by unfold_locales (auto simp: repo_CreateBrand_def create_brand_conflict_def Let_def not_less split: if_splits)

interpretation renamed_brand:
  slug_writer "\<lambda>s. repo_UpdateBrand (b\<lparr>b_slug := s\<rparr>)" BrandSlugConflict "update_brand_conflict b" for b
  by unfold_locales (auto simp: repo_UpdateBrand_def update_brand_conflict_def not_less split: if_splits)

interpretation new_attr:
  slug_writer "\<lambda>s. repo_CreateAttribute nid (a\<lparr>a_slug := s\<rparr>)" AttrSlugConflict "create_attr_conflict a"
  for nid a
  by unfold_locales (auto simp: repo_CreateAttribute_def create_attr_conflict_def Let_def not_less split: if_splits)

interpretation renamed_attr:
  slug_writer "\<lambda>s. repo_UpdateAttribute (a\<lparr>a_slug := s\<rparr>)" AttrSlugConflict "update_attr_conflict a" for a
  by unfold_locales (auto simp: repo_UpdateAttribute_def update_attr_conflict_def not_less split: if_splits)

section \<open>The services keep the invariant\<close>

lemma createBrandWithSlugRetry_inv:
  "createBrandWithSlugRetry nid now b base d = (r, d') \<Longrightarrow> nid \<notin> b_id ` set (brands d) \<Longrightarrow> meta_inv d \<Longrightarrow> meta_inv d'"
  unfolding createBrandWithSlugRetry_def
  by (erule new_brand.loop_keeps) (auto dest: repo_CreateBrand_inv)

lemma updateBrandWithSlugRetry_inv:
  "updateBrandWithSlugRetry u b d = (r, d') \<Longrightarrow> meta_inv d \<Longrightarrow> meta_inv d'"
  unfolding updateBrandWithSlugRetry_def
  by (erule renamed_brand.loop_keeps) (auto dest: repo_UpdateBrand_inv)

lemma createAttributeWithSlugRetry_inv:
  "createAttributeWithSlugRetry nid a base d = (r, d') \<Longrightarrow> nid \<notin> a_id ` set (attrs d) \<Longrightarrow> meta_inv d \<Longrightarrow> meta_inv d'"
  unfolding createAttributeWithSlugRetry_def
  by (erule new_attr.loop_keeps) (auto dest: repo_CreateAttribute_inv)

lemma updateAttributeWithSlugRetry_inv:
  "updateAttributeWithSlugRetry u a d = (r, d') \<Longrightarrow> meta_inv d \<Longrightarrow> meta_inv d'"
  unfolding updateAttributeWithSlugRetry_def
  by (erule renamed_attr.loop_keeps) (auto dest: repo_UpdateAttribute_inv)

lemma CreateBrand_inv:
  "CreateBrand u nid now req d = (r, d') \<Longrightarrow> nid \<notin> b_id ` set (brands d) \<Longrightarrow> meta_inv d \<Longrightarrow> meta_inv d'"
  by (auto simp: CreateBrand_def split: sum.splits dest: createBrandWithSlugRetry_inv)

lemma UpdateBrand_inv: "UpdateBrand u i req d = (r, d') \<Longrightarrow> meta_inv d \<Longrightarrow> meta_inv d'"
  by (auto simp: UpdateBrand_def Let_def split: sum.splits if_splits
      dest: updateBrandWithSlugRetry_inv repo_UpdateBrand_inv)

lemma CreateAttribute_inv:
  "CreateAttribute u nid req d = (r, d') \<Longrightarrow> nid \<notin> a_id ` set (attrs d) \<Longrightarrow> meta_inv d \<Longrightarrow> meta_inv d'"
  by (auto simp: CreateAttribute_def split: sum.splits dest: createAttributeWithSlugRetry_inv)

lemma UpdateAttribute_inv: "UpdateAttribute u i req d = (r, d') \<Longrightarrow> meta_inv d \<Longrightarrow> meta_inv d'"
  by (auto simp: UpdateAttribute_def Let_def split: sum.splits if_splits
      dest: updateAttributeWithSlugRetry_inv repo_UpdateAttribute_inv)

lemma AddAttributeValue_inv:
  "AddAttributeValue nid i v d = (r, d') \<Longrightarrow> nid \<notin> av_id ` set (attr_values d) \<Longrightarrow> meta_inv d \<Longrightarrow> meta_inv d'"
  by (auto simp: AddAttributeValue_def split: sum.splits dest: repo_CreateAttributeValue_inv)

lemma FindOrCreateByName_inv:
  "FindOrCreateByName u nid name d = (r, d') \<Longrightarrow> nid \<notin> t_id ` set (tags d) \<Longrightarrow> meta_inv d \<Longrightarrow> meta_inv d'"
  by (auto simp: FindOrCreateByName_def split: sum.splits dest: FindOrCreateTagTx_inv)

lemma FindOrCreateTag_inv:
  "FindOrCreateTag u nid name d = (r, d') \<Longrightarrow> nid \<notin> t_id ` set (tags d) \<Longrightarrow> meta_inv d \<Longrightarrow> meta_inv d'"
  by (auto simp: FindOrCreateTag_def split: sum.splits dest: FindOrCreateByName_inv)

lemma AddTagToProduct_inv:
  "AddTagToProduct u nid pexists p name d = (r, d') \<Longrightarrow> nid \<notin> t_id ` set (tags d) \<Longrightarrow> meta_inv d \<Longrightarrow> meta_inv d'"
  by (auto simp: AddTagToProduct_def split: sum.splits prod.splits
      dest: FindOrCreateByName_inv repo_AddTagToProduct_inv)

lemma SetProductTags_inv:
  "SetProductTags flt u nid pexists p names d = (r, d') \<Longrightarrow> inj nid \<Longrightarrow> (\<And>k. nid k \<notin> t_id ` set (tags d)) \<Longrightarrow>
   meta_inv d \<Longrightarrow> meta_inv d'"
  unfolding SetProductTags_def repo_SetProductTags_def
  by (auto split: if_splits dest!: run_tx_cases dest: setProductTagsTx_inv)

section \<open>Reachable catalogues\<close>

inductive meta_step :: "unicode \<Rightarrow> meta_db \<Rightarrow> meta_db \<Rightarrow> bool" for u where
  "CreateBrand u nid now req d = (r, d') \<Longrightarrow> nid \<notin> b_id ` set (brands d) \<Longrightarrow> meta_step u d d'"
| "UpdateBrand u i breq d = (r, d') \<Longrightarrow> meta_step u d d'"
| "DeleteBrand used i d = (r', d') \<Longrightarrow> meta_step u d d'"
| "FindOrCreateTag u nid name d = (r'', d') \<Longrightarrow> nid \<notin> t_id ` set (tags d) \<Longrightarrow> meta_step u d d'"
| "AddTagToProduct u nid pexists p name d = (r'', d') \<Longrightarrow> nid \<notin> t_id ` set (tags d) \<Longrightarrow> meta_step u d d'"
| "RemoveTagFromProduct p t d = (r', d') \<Longrightarrow> meta_step u d d'"
| "SetProductTags flt u nids pexists p names d = (r', d') \<Longrightarrow> inj nids \<Longrightarrow>
     (\<And>k. nids k \<notin> t_id ` set (tags d)) \<Longrightarrow> meta_step u d d'"
| "CreateAttribute u nid areq d = (ra, d') \<Longrightarrow> nid \<notin> a_id ` set (attrs d) \<Longrightarrow> meta_step u d d'"
| "UpdateAttribute u i ureq d = (ra, d') \<Longrightarrow> meta_step u d d'"
| "DeleteAttribute i d = (r', d') \<Longrightarrow> meta_step u d d'"
| "AddAttributeValue nid i v d = (rv, d') \<Longrightarrow> nid \<notin> av_id ` set (attr_values d) \<Longrightarrow> meta_step u d d'"
| "DeleteAttributeValue i d = (r', d') \<Longrightarrow> meta_step u d d'"
| "SetProductAttributeValues flt pexists p vs d = (r', d') \<Longrightarrow> meta_step u d d'"

inductive meta_reach :: "unicode \<Rightarrow> meta_db \<Rightarrow> bool" for u where
  "meta_reach u \<lparr>brands = [], tags = [], attrs = [], attr_values = [], product_tags = [], product_values = [],
                variant_values = []\<rparr>"
| "meta_reach u d \<Longrightarrow> meta_step u d d' \<Longrightarrow> meta_reach u d'"

lemma meta_step_inv: "meta_step u d d' \<Longrightarrow> meta_inv d \<Longrightarrow> meta_inv d'"
  by (induction rule: meta_step.induct)
    (auto dest: meta_kept CreateBrand_inv UpdateBrand_inv FindOrCreateTag_inv AddTagToProduct_inv
      CreateAttribute_inv UpdateAttribute_inv AddAttributeValue_inv SetProductTags_inv)

lemma meta_reach_inv: "meta_reach u d \<Longrightarrow> meta_inv d"
  by (induction rule: meta_reach.induct) (auto intro: meta_inv_empty meta_step_inv)

section \<open>Tags by name\<close>

text \<open>For names and slugs the columns hold, the statement is a look-up by name or slug, then an insertion.\<close>

definition fits :: "unicode \<Rightarrow> string \<Rightarrow> bool" where
  "fits u name \<longleftrightarrow> rune_count name \<le> 100 \<and> rune_count (GenerateSlug u name) \<le> 100"

definition resolve :: "unicode \<Rightarrow> string \<Rightarrow> tag list \<Rightarrow> tag option" where
  "resolve u name ts = List.find (\<lambda>t. t_name t = name \<or> t_slug t = GenerateSlug u name) ts"

definition fresh_tag :: "unicode \<Rightarrow> id \<Rightarrow> string \<Rightarrow> tag" where
  "fresh_tag u nid name = \<lparr>t_id = nid, t_name = name, t_slug = GenerateSlug u name\<rparr>"

lemma FindOrCreateTagTx_eq:
  "fits u name \<Longrightarrow> FindOrCreateTagTx u nid (tags d) name d =
     Inr (case resolve u name (tags d) of
            Some t \<Rightarrow> (t, d) | None \<Rightarrow> (fresh_tag u nid name, d\<lparr>tags := tags d @ [fresh_tag u nid name]\<rparr>))"
  by (auto simp: FindOrCreateTagTx_def fits_def varchar_def resolve_def fresh_tag_def Let_def list_ex_iff
      find_None_iff_all split: option.splits dest: find_Some_iff_mem)

lemma resolve_append: "resolve u name ts = Some t \<Longrightarrow> resolve u name (ts @ ts') = Some t"
  by (induction ts) (auto simp: resolve_def)

lemma resolve_fresh [simp]: "resolve u name ts = None \<Longrightarrow> resolve u name (ts @ [fresh_tag u nid name]) = Some (fresh_tag u nid name)"
  by (simp add: resolve_def find_snoc fresh_tag_def)

lemma FindOrCreateTagTx_resolves:
  assumes "FindOrCreateTagTx u nid (tags d) name d = Inr (t, d')" "fits u name"
  shows "resolve u name (tags d') = Some t \<and> (\<exists>ts. tags d' = tags d @ ts) \<and> product_tags d' = product_tags d"
  using assms(1) by (auto simp: FindOrCreateTagTx_eq [OF assms(2)] split: option.splits)

lemma resolve_mem: "resolve u name ts = Some t \<Longrightarrow> t \<in> set ts"
  unfolding resolve_def by (drule find_Some_iff_mem) simp

text \<open>The loop of \<open>setProductTagsTx\<close>: the links it adds are those of the names, read in the final state.\<close>

lemma set_tags_links:
  assumes "try_all (set_tag u pexists p) nns d = Inr d'" "\<forall>n \<in> set (map snd nns). fits u n"
  shows "(\<exists>ts. tags d' = tags d @ ts) \<and>
    set (product_tags d') = set (product_tags d) \<union>
      {(p, t_id t) | t. \<exists>n \<in> set (map snd nns). resolve u n (tags d') = Some t} \<and>
    (\<forall>n \<in> set (map snd nns). resolve u n (tags d') \<noteq> None)"
  using assms
proof (induction nns arbitrary: d)
  case (Cons nn nns)
  obtain t d1 d2 where 1: "FindOrCreateTagTx u (fst nn) (tags d) (snd nn) d = Inr (t, d1)"
    and 2: "linkTag pexists p (t_id t) d1 = Inr d2" and 3: "try_all (set_tag u pexists p) nns d2 = Inr d'"
    using Cons.prems(1) by (auto simp: set_tag_def [of u pexists p nn] split: sum.splits)
  have t: "resolve u (snd nn) (tags d1) = Some t" and d1: "\<exists>ts. tags d1 = tags d @ ts"
    and l1: "product_tags d1 = product_tags d"
    using FindOrCreateTagTx_resolves [OF 1] Cons.prems(2) by auto
  have d2: "tags d2 = tags d1" and l2: "set (product_tags d2) = insert (p, t_id t) (set (product_tags d))"
    using 2 l1 by (auto simp: linkTag_def link_pair_def split: option.splits if_splits)
  have rest: "(\<exists>ts. tags d' = tags d2 @ ts) \<and>
    set (product_tags d') = set (product_tags d2) \<union>
      {(p, t_id t) | t. \<exists>n \<in> set (map snd nns). resolve u n (tags d') = Some t} \<and>
    (\<forall>n \<in> set (map snd nns). resolve u n (tags d') \<noteq> None)"
    using Cons.IH [OF 3] Cons.prems(2) by simp
  have t': "resolve u (snd nn) (tags d') = Some t"
    using rest t d2 resolve_append by metis
  show ?case
  proof (intro conjI)
    show "\<exists>ts. tags d' = tags d @ ts" using rest d2 d1 by auto
    show "set (product_tags d') = set (product_tags d) \<union>
      {(p, t_id t) | t. \<exists>n \<in> set (map snd (nn # nns)). resolve u n (tags d') = Some t}"
      using rest l2 t' by auto
    show "\<forall>n \<in> set (map snd (nn # nns)). resolve u n (tags d') \<noteq> None" using rest t' by simp
  qed
qed simp

section \<open>Attributes with their values\<close>

text \<open>The attributes in order of first sight, and the grouping loop in closed form.\<close>

definition firsts :: "'a list \<Rightarrow> 'a list" where
  "firsts xs = fold (\<lambda>x ys. if x \<in> set ys then ys else ys @ [x]) xs []"

lemma firsts_snoc: "firsts (xs @ [x]) = (if x \<in> set (firsts xs) then firsts xs else firsts xs @ [x])"
  by (simp add: firsts_def)

lemma set_firsts [simp]: "set (firsts xs) = set xs"
  by (induction xs rule: rev_induct) (auto simp: firsts_snoc firsts_def [of "[]"])

lemma distinct_firsts [simp]: "distinct (firsts xs)"
  by (induction xs rule: rev_induct) (auto simp: firsts_snoc firsts_def [of "[]"])

lemma sorted_firsts: "sorted_wrt le xs \<Longrightarrow> sorted_wrt le (firsts xs)"
  by (induction xs rule: rev_induct) (auto simp: firsts_snoc firsts_def [of "[]"] sorted_wrt_append)

definition values_of :: "(attr \<times> attr_value option) list \<Rightarrow> attr \<Rightarrow> attr_value list" where
  "values_of rows a = List.map_filter snd (filter (\<lambda>r. fst r = a) rows)"

lemma values_of_snoc:
  "values_of (rows @ [(b, v)]) a = values_of rows a @ (if b = a then case v of None \<Rightarrow> [] | Some x \<Rightarrow> [x] else [])"
  by (auto simp: values_of_def List.map_filter_def split: option.splits)

lemma values_of_absent: "a \<notin> fst ` set rows \<Longrightarrow> values_of rows a = []"
  by (auto simp: values_of_def List.map_filter_def filter_empty_conv)

lemma group_rows:
  "inj_on a_id (fst ` set rows) \<Longrightarrow>
   fold group_row rows [] = map (\<lambda>a. (a, values_of rows a)) (firsts (map fst rows))"
proof (induction rows rule: rev_induct)
  case (snoc row rows)
  obtain a v where row: "row = (a, v)" by (cases row)
  have IH: "fold group_row rows [] = map (\<lambda>a. (a, values_of rows a)) (firsts (map fst rows))"
    using snoc by (simp add: inj_on_subset)
  have key: "a_id b = a_id a \<longleftrightarrow> b = a" if "b \<in> fst ` set rows" for b
    using snoc.prems that row by (auto simp: inj_on_def)
  let ?vs = "case v of None \<Rightarrow> [] | Some x \<Rightarrow> [x]"
  show ?case
  proof (cases "a \<in> fst ` set rows")
    case True
    then have seen: "list_ex (\<lambda>e. a_id (fst e) = a_id a) (fold group_row rows [])"
      by (auto simp: IH list_ex_iff)
    have "group_row row (fold group_row rows [])
        = map (\<lambda>b. (b, values_of (rows @ [(a, v)]) b)) (firsts (map fst rows))"
      using seen by (simp add: row IH) (auto simp: key values_of_snoc)
    then show ?thesis using True row by (simp add: firsts_snoc)
  next
    case False
    then have unseen: "\<not> list_ex (\<lambda>e. a_id (fst e) = a_id a) (fold group_row rows [])"
      using key by (auto simp: IH list_ex_iff)
    have "group_row row (fold group_row rows [])
        = map (\<lambda>b. (b, values_of (rows @ [(a, v)]) b)) (firsts (map fst rows) @ [a])"
      using unseen False by (simp add: row IH) (auto simp: values_of_snoc values_of_absent)
    then show ?thesis using False row by (simp add: firsts_snoc)
  qed
qed (simp add: firsts_def)

text \<open>The rows of one attribute, and their order.\<close>

lemma fst_attr_rows: "fst ` set (attr_rows d) = set (attrs d)"
proof -
  have "fst ` set (attr_block a vs) = {a}" for a vs by (cases vs) (auto simp: attr_block_def)
  then show ?thesis by (simp add: attr_rows_def image_UN)
qed

lemma map_filter_map_Some: "List.map_filter snd (map (\<lambda>v. (a, Some v)) vs) = vs"
  by (induction vs) (simp_all add: List.map_filter_def)

lemma order_by_map:
  assumes "\<And>x y. le (g x) (g y) \<longleftrightarrow> le' x y"
  shows "order_by le (map g xs) = map g (order_by le' xs)"
proof -
  have "insert_by le (g x) (map g ys) = map g (insert_by le' x ys)" for x ys
    by (induction ys) (simp_all add: assms)
  then show ?thesis by (induction xs) (simp_all add: order_by_def)
qed

lemma filter_attr_rows:
  assumes "a \<in> set (attrs d)" "distinct (attrs d)"
  shows "filter (\<lambda>r. fst r = a) (attr_rows d) = attr_block a (filter (\<lambda>v. av_attr v = a_id a) (attr_values d))"
proof -
  define rows where "rows = (\<lambda>a :: attr. attr_block a (filter (\<lambda>v. av_attr v = a_id a) (attr_values d)))"
  have block: "filter (\<lambda>r. fst r = a) (rows b) = (if b = a then rows a else [])" for b
    by (auto simp: rows_def attr_block_def filter_empty_conv filter_id_conv)
  have "filter (\<lambda>r. fst r = a) (concat (map rows as)) = (if a \<in> set as then rows a else [])"
    if "distinct as" for as
    using that by (induction as) (auto simp: block)
  then show ?thesis using assms by (simp add: attr_rows_def rows_def)
qed

lemma row_le_total: "(\<And>a b. collate a b \<or> collate b a) \<Longrightarrow> row_le collate x y \<or> row_le collate y x"
proof -
  assume ord: "\<And>a b. collate a b \<or> collate b a"
  have "null_last collate v w \<or> null_last collate w v" for v w
    using ord by (auto simp: null_last_def split: option.splits)
  then show ?thesis using ord [of "a_name (fst x)" "a_name (fst y)"] by (auto simp: row_le_def)
qed

lemma row_le_trans:
  assumes trans: "\<And>a b c. collate a b \<Longrightarrow> collate b c \<Longrightarrow> collate a c" and "row_le collate x y" "row_le collate y z"
  shows "row_le collate x z"
proof -
  have xy: "collate (a_name (fst x)) (a_name (fst y))" and yz: "collate (a_name (fst y)) (a_name (fst z))"
    using assms(2,3) by (simp_all add: row_le_def split: if_splits)
  have "null_last collate (snd x) (snd z)" if "collate (a_name (fst z)) (a_name (fst x))"
  proof -
    have "null_last collate (snd x) (snd y)" "null_last collate (snd y) (snd z)"
      using assms(2,3) trans [OF that xy] trans [OF yz that] by (simp_all add: row_le_def split: if_splits)
    then show ?thesis using trans by (auto simp: null_last_def split: option.splits)
  qed
  then show ?thesis using trans [OF xy yz] by (simp add: row_le_def)
qed

text \<open>The blocks of the listing.\<close>

lemma order_by_Nil: "order_by le [] = []"
  by (simp add: order_by_def)

lemma order_by_single: "order_by le [x] = [x]"
  by (simp add: order_by_def)

lemma listing_block:
  assumes "\<And>a b. collate a b \<or> collate b a" "\<And>a b c. collate a b \<Longrightarrow> collate b c \<Longrightarrow> collate a c"
    and "a \<in> set (attrs d)" "distinct (attrs d)"
  shows "values_of (order_by (row_le collate) (attr_rows d)) a = repo_ListAttributeValues collate (a_id a) d"
proof -
  have ord: "\<And>x y. row_le collate x y \<or> row_le collate y x"
    "\<And>x y z. row_le collate x y \<Longrightarrow> row_le collate y z \<Longrightarrow> row_le collate x z"
    by (rule row_le_total [OF assms(1)]) (rule row_le_trans [OF assms(2)])
  let ?vs = "filter (\<lambda>v. av_attr v = a_id a) (attr_values d)"
  have le: "row_le collate (a, Some v) (a, Some w) \<longleftrightarrow> collate (av_value v) (av_value w)" for v w
    using assms(1) [of "a_name a" "a_name a"] by (simp add: row_le_def null_last_def)
  have "order_by (row_le collate) (map (\<lambda>v. (a, Some v)) ?vs)
      = map (\<lambda>v. (a, Some v)) (order_by (\<lambda>v w. collate (av_value v) (av_value w)) ?vs)"
    by (rule order_by_map) (rule le)
  then have "List.map_filter snd (order_by (row_le collate) (attr_block a ?vs))
      = order_by (\<lambda>v w. collate (av_value v) (av_value w)) ?vs"
  proof (cases "?vs = []")
    case True
    then show ?thesis by (simp add: attr_block_def order_by_single order_by_Nil List.map_filter_def)
  next
    case False
    then show ?thesis using \<open>order_by (row_le collate) _ = _\<close> by (simp add: attr_block_def map_filter_map_Some)
  qed
  moreover have "filter (\<lambda>r. fst r = a) (order_by (row_le collate) (attr_rows d))
      = order_by (row_le collate) (filter (\<lambda>r. fst r = a) (attr_rows d))"
    by (rule filter_order_by) (rule ord, erule (1) ord(2))
  ultimately show ?thesis by (simp add: values_of_def repo_ListAttributeValues_def filter_attr_rows [OF assms(3,4)])
qed

section \<open>Properties\<close>

definition sample_meta :: meta_db where
  "sample_meta = \<lparr>brands = [\<lparr>b_id = 1, b_name = ''Tea'', b_slug = ''tea'', b_logo = None, b_active = True, b_created = 0\<rparr>],
     tags = [\<lparr>t_id = 1, t_name = ''Tip'', t_slug = ''tip''\<rparr>],
     attrs = [\<lparr>a_id = 1, a_name = ''size'', a_slug = ''size'', a_variant_dim = True\<rparr>,
              \<lparr>a_id = 2, a_name = ''colour'', a_slug = ''colour'', a_variant_dim = True\<rparr>],
     attr_values = [\<lparr>av_id = 1, av_attr = 1, av_value = ''XL''\<rparr>, \<lparr>av_id = 2, av_attr = 1, av_value = ''L''\<rparr>],
     product_tags = [(7, 1)], product_values = [(7, 2)], variant_values = []\<rparr>"

definition sample_brand_req :: "string \<Rightarrow> brand_create_req" where
  "sample_brand_req n = \<lparr>bc_name = n, bc_logo = None, bc_active = None\<rparr>"

lemma sample_meta_reach: "meta_reach sample_unicode sample_meta"
proof -
  let ?e = "\<lparr>brands = [], tags = [], attrs = [], attr_values = [], product_tags = [], product_values = [], variant_values = []\<rparr>"
  let ?u = sample_unicode
  define d1 where "d1 = snd (CreateBrand ?u 1 0 (sample_brand_req ''Tea'') ?e)"
  define d2 where "d2 = snd (AddTagToProduct ?u 1 (\<lambda>_. True) 7 ''Tip'' d1)"
  define d3 where "d3 = snd (CreateAttribute ?u 1 \<lparr>ac_name = ''size'', ac_variant_dim = True\<rparr> d2)"
  define d4 where "d4 = snd (CreateAttribute ?u 2 \<lparr>ac_name = ''colour'', ac_variant_dim = True\<rparr> d3)"
  define d5 where "d5 = snd (AddAttributeValue 1 1 ''XL'' d4)"
  define d6 where "d6 = snd (AddAttributeValue 2 1 ''L'' d5)"
  define d7 where "d7 = snd (SetProductAttributeValues NoFault (\<lambda>_. True) 7 [2] d6)"
  note defs = d1_def d2_def d3_def d4_def d5_def d6_def d7_def
  have "meta_step ?u ?e d1" unfolding d1_def by (rule meta_step.intros(1) [OF surjective_pairing]) code_simp
  moreover have "meta_step ?u d1 d2" unfolding d2_def
    by (rule meta_step.intros(5) [OF surjective_pairing]) (unfold defs, code_simp)
  moreover have "meta_step ?u d2 d3" unfolding d3_def
    by (rule meta_step.intros(8) [OF surjective_pairing]) (unfold defs, code_simp)
  moreover have "meta_step ?u d3 d4" unfolding d4_def
    by (rule meta_step.intros(8) [OF surjective_pairing]) (unfold defs, code_simp)
  moreover have "meta_step ?u d4 d5" unfolding d5_def
    by (rule meta_step.intros(11) [OF surjective_pairing]) (unfold defs, code_simp)
  moreover have "meta_step ?u d5 d6" unfolding d6_def
    by (rule meta_step.intros(11) [OF surjective_pairing]) (unfold defs, code_simp)
  moreover have "meta_step ?u d6 d7" unfolding d7_def by (rule meta_step.intros(13) [OF surjective_pairing])
  ultimately have "meta_reach ?u d7" by (meson meta_reach.intros)
  moreover have "d7 = sample_meta" unfolding defs by code_simp
  ultimately show ?thesis by simp
qed

text \<open>In every reachable catalogue brand names and slugs, tag names and slugs and attribute slugs are
  unique, a value occurs once per attribute and belongs to an existing attribute, and every link of a product or
  variant leads to an existing tag or value.\<close>

theorem catalog_meta_constraints:
  assumes "meta_reach u d"
  shows "distinct (map b_name (brands d)) \<and> distinct (map b_slug (brands d)) \<and>
    distinct (map t_name (tags d)) \<and> distinct (map t_slug (tags d)) \<and> distinct (map a_slug (attrs d)) \<and>
    distinct (map (\<lambda>v. (av_attr v, av_value v)) (attr_values d)) \<and>
    av_attr ` set (attr_values d) \<subseteq> a_id ` set (attrs d) \<and>
    snd ` set (product_tags d) \<subseteq> t_id ` set (tags d) \<and>
    snd ` set (product_values d) \<subseteq> av_id ` set (attr_values d) \<and>
    snd ` set (variant_values d) \<subseteq> av_id ` set (attr_values d)"
proof -
  have "meta_inv d" by (rule meta_reach_inv [OF assms])
  then show ?thesis
    by (simp add: meta_inv_def brands_ok_def tags_ok_def attrs_ok_def values_ok_def linked_def image_subset_iff)
qed

theorem catalog_meta_constraints_witness:
  "distinct (map t_slug (tags sample_meta)) \<and> snd ` set (product_values sample_meta) \<subseteq> av_id ` set (attr_values sample_meta)"
  using catalog_meta_constraints [OF sample_meta_reach] by blast

text \<open>C24. A valid new brand with an unused name gets the first free slug of its generated slug and the nine
  numbered variants after it; when all ten are taken the call fails and nothing changes.\<close>

theorem brand_gets_first_free_slug:
  assumes "BrandCreate_Validate req = Inr r" "bc_name r \<notin> b_name ` set (brands d)"
    and "\<And>k. k \<in> {1..10} \<Longrightarrow> rune_count (attempt_slug (GenerateSlug u (bc_name r)) k) \<le> 255"
  shows "CreateBrand u nid now req d =
    (case List.find (\<lambda>k. attempt_slug (GenerateSlug u (bc_name r)) k \<notin> b_slug ` set (brands d)) [1..<11] of
       None \<Rightarrow> (Inl BrandSlugExhausted, d)
     | Some k \<Rightarrow>
         let b = \<lparr>b_id = nid, b_name = bc_name r, b_slug = attempt_slug (GenerateSlug u (bc_name r)) k,
                  b_logo = bc_logo r, b_active = (case bc_active r of None \<Rightarrow> True | Some x \<Rightarrow> x), b_created = now\<rparr>
         in (Inr b, d\<lparr>brands := brands d @ [b]\<rparr>))"
proof -
  let ?base = "GenerateSlug u (bc_name r)"
  let ?b = "\<lparr>b_id = 0, b_name = bc_name r, b_slug = [], b_logo = bc_logo r,
             b_active = (case bc_active r of None \<Rightarrow> True | Some x \<Rightarrow> x), b_created = 0\<rparr>"
  have name: "rune_count (bc_name r) \<le> 255" and logo: "opt_all (\<lambda>l. rune_count l \<le> 500) (bc_logo r)"
    using assms(1) by (auto simp: BrandCreate_Validate_def name_ok_def Let_def split: if_splits)
  have short: "\<not> 255 < rune_count (attempt_slug ?base k)" if "Suc 0 \<le> k" "k < 11" for k
    using assms(3) [of k] that by simp
  have new: "\<not> list_ex (\<lambda>b. b_name b = bc_name r) (brands d)" using assms(2) by (simp add: no_key_iff)
  have "create_brand_conflict ?b (attempt_slug ?base k) d \<longleftrightarrow> attempt_slug ?base k \<in> b_slug ` set (brands d)"
    if "k \<in> {1..10}" for k
    using that assms(3) name logo new by (auto simp: create_brand_conflict_def no_key_iff [THEN arg_cong [where f = Not], simplified])
  then have same: "List.find (\<lambda>k. \<not> create_brand_conflict ?b (attempt_slug ?base k) d) [1..<11]
      = List.find (\<lambda>k. attempt_slug ?base k \<notin> b_slug ` set (brands d)) [1..<11]"
    by (intro find_cong) auto
  have "CreateBrand u nid now req d = createBrandWithSlugRetry nid now ?b ?base d"
    using assms(1) by (simp add: CreateBrand_def)
  also have "\<dots> = (case List.find (\<lambda>k. attempt_slug ?base k \<notin> b_slug ` set (brands d)) [1..<11] of
       None \<Rightarrow> (Inl BrandSlugExhausted, d)
     | Some k \<Rightarrow> repo_CreateBrand nid now (?b\<lparr>b_slug := attempt_slug ?base k\<rparr>) d)"
    unfolding createBrandWithSlugRetry_def using same by (subst new_brand.loop_eq) simp_all
  also have "\<dots> = (case List.find (\<lambda>k. attempt_slug ?base k \<notin> b_slug ` set (brands d)) [1..<11] of
       None \<Rightarrow> (Inl BrandSlugExhausted, d)
     | Some k \<Rightarrow>
         let b = \<lparr>b_id = nid, b_name = bc_name r, b_slug = attempt_slug ?base k,
                  b_logo = bc_logo r, b_active = (case bc_active r of None \<Rightarrow> True | Some x \<Rightarrow> x), b_created = now\<rparr>
         in (Inr b, d\<lparr>brands := brands d @ [b]\<rparr>))"
    using name logo new
    by (auto simp: repo_CreateBrand_def Let_def short no_key_iff [symmetric] split: option.split dest!: find_Some_iff_mem)
  finally show ?thesis .
qed

theorem brand_gets_first_free_slug_witness:
  "fst (CreateBrand sample_unicode 2 5 (sample_brand_req ''tea'') sample_meta)
     = Inr \<lparr>b_id = 2, b_name = ''tea'', b_slug = ''tea-2'', b_logo = None, b_active = True, b_created = 5\<rparr>"
proof -
  have valid: "BrandCreate_Validate (sample_brand_req ''tea'') = Inr (sample_brand_req ''tea'')" by code_simp
  have new: "bc_name (sample_brand_req ''tea'') \<notin> b_name ` set (brands sample_meta)" by code_simp
  have all: "list_all (\<lambda>k. rune_count (attempt_slug (GenerateSlug sample_unicode (bc_name (sample_brand_req ''tea''))) k) \<le> 255)
      [1..<11]" by code_simp
  have short: "rune_count (attempt_slug (GenerateSlug sample_unicode (bc_name (sample_brand_req ''tea''))) k) \<le> 255"
    if "k \<in> {1..10}" for k using all that by (auto simp: list_all_iff)
  have pick: "List.find (\<lambda>k. attempt_slug (GenerateSlug sample_unicode (bc_name (sample_brand_req ''tea''))) k
      \<notin> b_slug ` set (brands sample_meta)) [1..<11] = Some 2"
    and slug: "attempt_slug (GenerateSlug sample_unicode (bc_name (sample_brand_req ''tea''))) 2 = ''tea-2''"
    by code_simp+
  note call = brand_gets_first_free_slug [OF valid new short, where nid = 2 and now = 5]
  show ?thesis
    by (subst call) (simp_all only: pick option.case Let_def fst_conv slug, simp_all add: sample_brand_req_def)
qed

text \<open>A tag that was found or created under a name is found again under it: the second call returns the same
  tag and changes nothing.\<close>

theorem tag_found_again:
  assumes "FindOrCreateTag u nid name d = (Inr t, d')" "rune_count (GenerateSlug u (trim_space name)) \<le> 100"
  shows "FindOrCreateTag u nid' name d' = (Inr t, d') \<and> t \<in> set (tags d')"
proof -
  obtain n where n: "TagCreate_Validate name = Inr n" and len: "n = trim_space name" "rune_count n \<le> 100"
    and call: "FindOrCreateByName u nid n d = (Inr t, d')"
    using assms(1) by (auto simp: FindOrCreateTag_def TagCreate_Validate_def name_ok_def Let_def split: sum.splits if_splits)
  have fits: "fits u n" using len assms(2) by (simp add: fits_def)
  have "FindOrCreateTagTx u nid (tags d) n d = Inr (t, d')"
    using call by (auto simp: FindOrCreateByName_def split: sum.splits)
  then have res: "resolve u n (tags d') = Some t" using FindOrCreateTagTx_resolves fits by blast
  then have "FindOrCreateTag u nid' name d' = (Inr t, d')"
    by (simp add: FindOrCreateTag_def n FindOrCreateByName_def FindOrCreateTagTx_eq [OF fits])
  then show ?thesis using resolve_mem [OF res] by simp
qed

theorem tag_found_again_witness:
  "FindOrCreateTag sample_unicode 3 ''Top'' (snd (FindOrCreateTag sample_unicode 2 ''Top'' sample_meta))
     = (Inr \<lparr>t_id = 2, t_name = ''Top'', t_slug = ''top''\<rparr>, snd (FindOrCreateTag sample_unicode 2 ''Top'' sample_meta))"
proof -
  have first: "FindOrCreateTag sample_unicode 2 ''Top'' sample_meta
      = (Inr \<lparr>t_id = 2, t_name = ''Top'', t_slug = ''top''\<rparr>, snd (FindOrCreateTag sample_unicode 2 ''Top'' sample_meta))"
    and len: "rune_count (GenerateSlug sample_unicode (trim_space ''Top'')) \<le> 100" by code_simp+
  show ?thesis using tag_found_again [OF first len, of 3] by simp
qed

text \<open>Setting the tags of a product succeeds or changes nothing; after success the product has exactly the tags
  its names resolve to, and the links of every other product are as before.\<close>

theorem set_product_tags_replaces:
  assumes "SetProductTags flt u nid pexists p names d = (r, d')" "list_all (fits u) names"
  shows "(case r of Inl e \<Rightarrow> d' = d
    | Inr _ \<Rightarrow> {t. (p, t) \<in> set (product_tags d')} = {t_id t | t. \<exists>n \<in> set names. resolve u n (tags d') = Some t} \<and>
              {l \<in> set (product_tags d'). fst l \<noteq> p} = {l \<in> set (product_tags d). fst l \<noteq> p})"
proof (cases r)
  case (Inl e)
  then show ?thesis using assms(1) by (auto simp: SetProductTags_def repo_SetProductTags_def split: if_splits dest: run_tx_error)
next
  case (Inr x)
  let ?nns = "zip (map nid [0..<length names]) names"
  let ?d = "d\<lparr>product_tags := filter (\<lambda>l. fst l \<noteq> p) (product_tags d)\<rparr>"
  have run: "try_all (set_tag u pexists p) ?nns ?d = Inr d'"
    using assms(1) Inr
    by (auto simp: SetProductTags_def repo_SetProductTags_def run_tx_ok setProductTagsTx_def split: if_splits sum.splits)
  have names: "map snd ?nns = names" by simp
  have "set (product_tags d') = set (product_tags ?d) \<union>
      {(p, t_id t) | t. \<exists>n \<in> set names. resolve u n (tags d') = Some t}"
    using set_tags_links [OF run] assms(2) unfolding names list_all_iff by blast
  then show ?thesis using Inr by auto
qed

theorem set_product_tags_replaces_witness:
  "{l \<in> set (product_tags (snd (SetProductTags NoFault sample_unicode (\<lambda>k. 10 + int k) (\<lambda>_. True) 7 [''Top'', ''Tip''] sample_meta))).
     fst l \<noteq> 7} = {}"
proof -
  obtain r d' where run: "SetProductTags NoFault sample_unicode (\<lambda>k. 10 + int k) (\<lambda>_. True) 7 [''Top'', ''Tip''] sample_meta = (r, d')"
    by (metis prod.exhaust)
  have ok: "is_ok (fst (SetProductTags NoFault sample_unicode (\<lambda>k. 10 + int k) (\<lambda>_. True) 7 [''Top'', ''Tip''] sample_meta))"
    and fits: "list_all (fits sample_unicode) [''Top'', ''Tip'']" by code_simp+
  show ?thesis using set_product_tags_replaces [OF run fits] run ok
    by (auto simp: is_ok_iff sample_meta_def split: sum.splits)
qed

text \<open>The grouped listing names every attribute once, in name order, and gives each the values that
  \<open>ListAttributeValues\<close> gives, in the same order.\<close>

theorem attribute_listing_groups:
  assumes "\<And>a b. collate a b \<or> collate b a" "\<And>a b c. collate a b \<Longrightarrow> collate b c \<Longrightarrow> collate a c"
    and "meta_reach u d"
  shows "\<exists>as. mset as = mset (attrs d) \<and> sorted_wrt (\<lambda>a b. collate (a_name a) (a_name b)) as \<and>
    ListAttributesWithValues collate d = map (\<lambda>a. (a, repo_ListAttributeValues collate (a_id a) d)) as"
proof -
  have dist: "distinct (map a_id (attrs d))"
    using meta_reach_inv [OF assms(3)] by (simp add: meta_inv_def attrs_ok_def keyed_def)
  let ?rows = "order_by (row_le collate) (attr_rows d)"
  let ?as = "firsts (map fst ?rows)"
  have attrs: "set ?as = set (attrs d)" using fst_attr_rows [of d] by simp
  have "distinct (attrs d)" using dist by (simp add: distinct_map)
  have "inj_on a_id (fst ` set ?rows)" using dist fst_attr_rows [of d] by (simp add: distinct_map)
  then have "ListAttributesWithValues collate d = map (\<lambda>a. (a, values_of ?rows a)) ?as"
    unfolding ListAttributesWithValues_def by (rule group_rows)
  also have "\<dots> = map (\<lambda>a. (a, repo_ListAttributeValues collate (a_id a) d)) ?as"
    using attrs listing_block [OF assms(1,2) _ \<open>distinct (attrs d)\<close>] by simp
  finally have list: "ListAttributesWithValues collate d = map (\<lambda>a. (a, repo_ListAttributeValues collate (a_id a) d)) ?as" .
  have "mset ?as = mset (attrs d)"
    using attrs \<open>distinct (attrs d)\<close> by (metis distinct_firsts set_eq_iff_mset_eq_distinct)
  moreover have "sorted_wrt (row_le collate) ?rows"
    by (rule sorted_order_by) (rule row_le_total [OF assms(1)], rule row_le_trans [OF assms(2)])
  then have "sorted_wrt (\<lambda>x y. collate (a_name (fst x)) (a_name (fst y))) ?rows"
    by (rule sorted_wrt_mono_rel [rotated]) (auto simp: row_le_def split: if_splits)
  then have "sorted_wrt (\<lambda>a b. collate (a_name a) (a_name b)) ?as"
    by (intro sorted_firsts) (simp add: sorted_wrt_map)
  ultimately show ?thesis using list by blast
qed

theorem attribute_listing_groups_witness:
  "\<exists>as. mset as = mset (attrs sample_meta) \<and>
     ListAttributesWithValues (\<lambda>a b. length a \<le> length b) sample_meta
       = map (\<lambda>a. (a, repo_ListAttributeValues (\<lambda>a b. length a \<le> length b) (a_id a) sample_meta)) as"
proof -
  have t: "length a \<le> length b \<or> length b \<le> length a" for a b :: string by linarith
  have r: "length a \<le> length b \<Longrightarrow> length b \<le> length c \<Longrightarrow> length a \<le> length c" for a b c :: string by linarith
  show ?thesis
    using attribute_listing_groups [where collate = "\<lambda>a b. length a \<le> length b", OF t _ sample_meta_reach] r by blast
qed

section \<open>Two surprises\<close>

text \<open>
  A tag committed by another session after the statement's snapshot was taken blocks the insert and is not seen
  by the select: the statement returns no row and the call fails.
\<close>

lemma tag_insert_race:
  assumes "fits u name" "resolve u name (tags d) \<noteq> None" "resolve u name snap = None"
  shows "FindOrCreateTagTx u nid snap name d = Inl MetaDbError"
  using assms
  by (auto simp: FindOrCreateTagTx_def fits_def varchar_def resolve_def Let_def find_None_iff_all list_ex_iff
      split: option.splits)

text \<open>\<open>SetProductTags\<close> accepts a name by its trimmed copy and stores the name as it came.\<close>

lemma untrimmed_tag_is_stored:
  "map t_name (tags (snd (SetProductTags NoFault sample_unicode (\<lambda>k. 10 + int k) (\<lambda>_. True) 7 ['' Top ''] sample_meta)))
     = [''Tip'', '' Top '']"
  by code_simp

end
