(* ===== verification/Product.thy ===== *)
theory Product
  imports Catalog_Meta Inventory Discount
begin

text \<open>
  Products: \<open>internal/domain/{product,variant}\<close>, the repositories \<open>product_repo.go\<close>, \<open>variant_repo.go\<close> and
  \<open>product_search.go\<close>, \<open>internal/service/productsearch\<close>, and the services \<open>product.go\<close>, \<open>variant.go\<close> and
  \<open>image_helper.go\<close> of \<open>internal/service/catalog\<close>. The state joins the catalogue, the categories, the stock and
  the discounts with the product tables and the upload directory.
\<close>

section \<open>Data\<close>

datatype prod_error =
    ProductNotFound | ImageNotFound | ProductSlugConflict | InvalidName | InvalidPrice | InvalidStatus
  | BrandRequired | CategoryRequired | ImageRequired | VariantRequired
  | VariantNotFound | SKUConflict | InvalidSKU | InvalidVariantPrice | InvalidWeight
  | NoLocation | ImageSaveError | SearchError | ProdDbError
  | OfCategory cat_error | OfMeta meta_error | OfInventory inv_error | OfDiscount disc_error

record product =
  p_id :: id
  p_name :: string
  p_slug :: string
  p_desc :: "string option"
  p_short :: "string option"
  p_brand :: "id option"
  p_price :: f64
  p_status :: string
  p_featured :: bool
  p_digital :: bool
  p_rating :: f64
  p_reviews :: int
  p_creator :: "id option"
  p_created :: instant
  p_updated :: instant

record image =
  im_id :: id
  im_product :: id
  im_url :: string
  im_primary :: bool
  im_sort :: int
  im_created :: instant

record variant =
  v_id :: id
  v_product :: id
  v_sku :: string
  v_price :: f64
  v_weight :: "f64 option"
  v_active :: bool
  v_created :: instant

record shop =
  sh_cats :: cat_db
  sh_meta :: meta_db
  sh_stock :: inv_store
  sh_discs :: disc_db
  products :: "product list"
  images :: "image list"
  variants :: "variant list"
  search_docs :: "(id \<times> string) list"
  saved_files :: "(string \<times> string) list"

text \<open>
  What is outside the repository: Unicode, the \<open>DECIMAL\<close> columns of prices and weights (nothing when a value
  does not fit), the discount columns, the known users, whether \<open>to_tsvector\<close> takes a document, whether the
  upload directory can be written, the carts that hold a product or variant.
\<close>

record prod_env =
  pe_unicode :: unicode
  pe_price :: "f64 \<Rightarrow> f64 option"
  pe_weight :: "f64 \<Rightarrow> f64 option"
  pe_disc :: disc_env
  pe_user :: "id \<Rightarrow> bool"
  pe_tsvector :: "string \<Rightarrow> bool"
  pe_images :: image_env
  pe_disk :: bool
  pe_product_in_cart :: "id \<Rightarrow> bool"
  pe_variant_in_cart :: "id \<Rightarrow> bool"
  pe_collate :: "string \<Rightarrow> string \<Rightarrow> bool"

text \<open>The numbers the sequences give to the rows of one call.\<close>

record new_ids =
  ni_product :: id
  ni_tag :: "nat \<Rightarrow> id"
  ni_image :: "nat \<Rightarrow> id"
  ni_variant :: "nat \<Rightarrow> id"
  ni_item :: "nat \<Rightarrow> id"
  ni_disc :: id

section \<open>Requests\<close>

record variant_input =
  vi_sku :: string
  vi_price :: f64
  vi_weight :: "f64 option"
  vi_active :: "bool option"
  vi_values :: "id list"
  vi_qty :: int
  vi_location :: "id option"

record discount_input =
  di_id :: "id option"
  di_name :: "string option"
  di_code :: "string option"

record product_create_req =
  pc_name :: string
  pc_desc :: "string option"
  pc_short :: "string option"
  pc_brand :: id
  pc_price :: f64
  pc_status :: string
  pc_featured :: bool
  pc_digital :: bool
  pc_categories :: "id list"
  pc_tags :: "string list"
  pc_values :: "id list"
  pc_variants :: "variant_input list"
  pc_discount :: "discount_input option"

record product_update_req =
  pu_name :: "string option"
  pu_desc :: "string option"
  pu_short :: "string option"
  pu_brand :: "id option"
  pu_price :: "f64 option"
  pu_status :: "string option"
  pu_featured :: "bool option"
  pu_digital :: "bool option"

record variant_create_req =
  wc_sku :: string
  wc_price :: f64
  wc_weight :: "f64 option"
  wc_active :: "bool option"
  wc_values :: "id list"

record variant_update_req =
  wu_sku :: "string option"
  wu_price :: "f64 option"
  wu_weight :: "f64 option"
  wu_active :: "bool option"

definition known_status :: "string \<Rightarrow> bool" where
  "known_status s \<longleftrightarrow> s = ''active'' \<or> s = ''draft'' \<or> s = ''archived''"

definition ProductCreate_Validate :: "product_create_req \<Rightarrow> prod_error + product_create_req" where
  "ProductCreate_Validate r0 =
     (let r = r0\<lparr>pc_name := trim_space (pc_name r0)\<rparr> in
      if \<not> name_ok 255 (pc_name r) then Inl InvalidName
      else if pc_brand r \<le> 0 then Inl BrandRequired
      else if pc_price r \<le> 0 then Inl InvalidPrice
      else let r1 = (if pc_status r = [] then r\<lparr>pc_status := ''active''\<rparr> else r) in
      if \<not> known_status (pc_status r1) then Inl InvalidStatus
      else if pc_categories r1 = [] then Inl CategoryRequired
      else if pc_variants r1 = [] then Inl VariantRequired
      else Inr r1)"

definition ProductUpdate_Validate :: "product_update_req \<Rightarrow> prod_error + product_update_req" where
  "ProductUpdate_Validate r0 =
     (let r = r0\<lparr>pu_name := map_option trim_space (pu_name r0)\<rparr> in
      if \<not> opt_all (name_ok 255) (pu_name r) then Inl InvalidName
      else if \<not> opt_all (\<lambda>p. 0 < p) (pu_price r) then Inl InvalidPrice
      else if \<not> opt_all known_status (pu_status r) then Inl InvalidStatus
      else Inr r)"

definition VariantCreate_Validate :: "variant_create_req \<Rightarrow> prod_error + variant_create_req" where
  "VariantCreate_Validate r0 =
     (let r = r0\<lparr>wc_sku := trim_space (wc_sku r0)\<rparr> in
      if \<not> name_ok 100 (wc_sku r) then Inl InvalidSKU
      else if wc_price r \<le> 0 then Inl InvalidVariantPrice
      else if \<not> opt_all (\<lambda>w. 0 < w) (wc_weight r) then Inl InvalidWeight
      else Inr r)"

definition VariantUpdate_Validate :: "variant_update_req \<Rightarrow> prod_error + variant_update_req" where
  "VariantUpdate_Validate r0 =
     (let r = r0\<lparr>wu_sku := map_option trim_space (wu_sku r0)\<rparr> in
      if \<not> opt_all (name_ok 100) (wu_sku r) then Inl InvalidSKU
      else if \<not> opt_all (\<lambda>p. 0 < p) (wu_price r) then Inl InvalidVariantPrice
      else if \<not> opt_all (\<lambda>w. 0 < w) (wu_weight r) then Inl InvalidWeight
      else Inr r)"

section \<open>Image files\<close>

text \<open>\<open>processSingleImage\<close>: read, compress, upload, or else write below \<open>uploads/products\<close>. The result is the path
  or URL and, for a local file, what is written.\<close>

definition processSingleImage ::
  "image_env \<Rightarrow> bool \<Rightarrow> instant \<Rightarrow> upload \<Rightarrow> prod_error + string \<times> string option" where
  "processSingleImage e disk now f =
     (case up_data f of
        None \<Rightarrow> Inl ImageSaveError
      | Some raw \<Rightarrow> (case to_webp e raw of
          None \<Rightarrow> Inl ImageSaveError
        | Some data \<Rightarrow>
            let fname = buildFilename now (up_name f) in
            case (if kit_on e then fst (fst (uploadImageKitFile e fname data [])) else None) of
              Some url \<Rightarrow> Inr (url, None)
            | None \<Rightarrow> if disk then Inr (''uploads/products/'' @ fname, Some data) else Inl ImageSaveError))"

text \<open>\<open>os.WriteFile\<close> replaces a file of the same name.\<close>

definition write_file :: "string \<times> string \<Rightarrow> (string \<times> string) list \<Rightarrow> (string \<times> string) list" where
  "write_file f fs = filter (\<lambda>g. fst g \<noteq> fst f) fs @ [f]"

definition write_image :: "prod_error + string \<times> string option \<Rightarrow> (string \<times> string) list \<Rightarrow> (string \<times> string) list" where
  "write_image r fs = (case r of Inr (path, Some data) \<Rightarrow> write_file (path, data) fs | _ \<Rightarrow> fs)"

text \<open>
  The goroutines of \<open>saveImages\<close>: the image of index \<open>i\<close> reads the clock at \<open>nano i\<close>; \<open>sched\<close> is the order in
  which they finish. All run when none fails; after a failure the rest may never be started.
\<close>

definition saveImages ::
  "image_env \<Rightarrow> bool \<Rightarrow> (nat \<Rightarrow> instant) \<Rightarrow> nat list \<Rightarrow> upload list \<Rightarrow> (string \<times> string) list
     \<Rightarrow> (prod_error + string list) \<times> (string \<times> string) list" where
  "saveImages e disk nano sched files fs =
     (let rs = map (\<lambda>i. processSingleImage e disk (nano i) (files ! i)) [0..<length files];
          run = (if list_all is_ok rs then sched @ filter (\<lambda>i. i \<notin> set sched) [0..<length files] else sched);
          fs' = fold (\<lambda>i. write_image (rs ! i)) (filter (\<lambda>i. i < length files) run) fs
      in (if list_all is_ok rs then (Inr (map (\<lambda>r. case r of Inr (path, _) \<Rightarrow> path | Inl _ \<Rightarrow> []) rs), fs')
          else (Inl ImageSaveError, fs')))"

section \<open>The search document\<close>

record search_input =
  si_product :: product
  si_brand :: string
  si_categories :: "string list"
  si_tags :: "string list"
  si_skus :: "string list"
  si_attrs :: "string list"
  si_values :: "string list"

definition non_blank :: "string list \<Rightarrow> string list" where
  "non_blank ss = filter (\<lambda>s. s \<noteq> []) (map trim_space ss)"

definition opt_list :: "'a option \<Rightarrow> 'a list" where
  "opt_list x = (case x of None \<Rightarrow> [] | Some y \<Rightarrow> [y])"

definition BuildSearchDocument :: "search_input \<Rightarrow> string" where
  "BuildSearchDocument i =
     (let p = si_product i in
      join_with '' '' (non_blank [p_name p] @ non_blank [si_brand i] @ non_blank (si_categories i) @ non_blank (si_tags i)
        @ non_blank (si_attrs i) @ non_blank (si_values i) @ non_blank (si_skus i)
        @ non_blank (opt_list (p_short p)) @ non_blank (opt_list (p_desc p)) @ non_blank [p_slug p]))"

definition dedupInt64 :: "id list \<Rightarrow> id list" where
  "dedupInt64 xs = rev (fold (\<lambda>i out. if i \<in> set out then out else i # out) xs [])"

text \<open>\<open>seenAttr\<close> and \<open>seenVal\<close>: names once, in the order of the rows.\<close>

definition first_seen :: "string list \<Rightarrow> string list" where
  "first_seen ns = rev (fold (\<lambda>n out. if n \<in> set out then out else n # out) ns [])"

record create_variant_in =
  cv_sku :: string
  cv_price :: f64
  cv_weight :: "f64 option"
  cv_active :: bool
  cv_values :: "id list"
  cv_qty :: int
  cv_location :: id

record create_product_in =
  ci_product :: product
  ci_categories :: "id list"
  ci_tags :: "string list"
  ci_images :: "(string \<times> bool \<times> int) list"
  ci_values :: "id list"
  ci_variants :: "create_variant_in list"
  ci_discount :: "id option"

definition buildSearchInput :: "create_product_in \<Rightarrow> product \<Rightarrow> shop \<Rightarrow> search_input" where
  "buildSearchInput ci p s =
     (let vids = dedupInt64 (ci_values ci @ concat (map cv_values (ci_variants ci)));
          rows = concat (map (\<lambda>v. map (\<lambda>a. (a_name a, av_value v)) (filter (\<lambda>a. a_id a = av_attr v) (attrs (sh_meta s))))
                   (filter (\<lambda>v. av_id v \<in> set vids) (attr_values (sh_meta s))))
      in \<lparr>si_product = p,
          si_brand = (case p_brand p of None \<Rightarrow> []
             | Some b \<Rightarrow> if 0 < b then (case GetBrandByID b (sh_meta s) of Inl _ \<Rightarrow> [] | Inr r \<Rightarrow> b_name r) else []),
          si_categories = map c_name (filter (\<lambda>c. c_id c \<in> set (ci_categories ci)) (cats (sh_cats s))),
          si_tags = ci_tags ci,
          si_skus = non_blank (map cv_sku (ci_variants ci)),
          si_attrs = first_seen (map fst rows), si_values = first_seen (map snd rows)\<rparr>)"

definition UpsertForProductTx :: "prod_env \<Rightarrow> id \<Rightarrow> string \<Rightarrow> shop \<Rightarrow> prod_error + shop" where
  "UpsertForProductTx e p doc0 s =
     (let doc = trim_space doc0 in
      if p \<le> 0 \<or> doc = [] then Inl SearchError
      else if \<not> pe_tsvector e doc then Inl ProdDbError
      else Inr (s\<lparr>search_docs := filter (\<lambda>d. fst d \<noteq> p) (search_docs s) @ [(p, doc)]\<rparr>))"

section \<open>Products: statements\<close>

definition has_product :: "shop \<Rightarrow> id \<Rightarrow> bool" where
  "has_product s i = list_ex (\<lambda>p. p_id p = i) (products s)"

definition has_variant :: "shop \<Rightarrow> id \<Rightarrow> bool" where
  "has_variant s i = list_ex (\<lambda>v. v_id v = i) (variants s)"

definition has_brand :: "shop \<Rightarrow> id option \<Rightarrow> bool" where
  "has_brand s b = opt_all (\<lambda>i. list_ex (\<lambda>r. b_id r = i) (brands (sh_meta s))) b"

definition product_fits :: "product \<Rightarrow> bool" where
  "product_fits p \<longleftrightarrow> rune_count (p_name p) \<le> 255 \<and> rune_count (p_slug p) \<le> 255 \<and> rune_count (p_status p) \<le> 20"

text \<open>The row holds the price as the column gives it back; the caller keeps its own value.\<close>

definition insertProductTx :: "prod_env \<Rightarrow> id \<Rightarrow> instant \<Rightarrow> product \<Rightarrow> shop \<Rightarrow> prod_error + product \<times> shop" where
  "insertProductTx e nid now p s =
     (case pe_price e (p_price p) of
        None \<Rightarrow> Inl ProdDbError
      | Some price \<Rightarrow>
          if \<not> product_fits p then Inl ProdDbError
          else if list_ex (\<lambda>r. p_slug r = p_slug p) (products s) then Inl ProductSlugConflict
          else if \<not> has_brand s (p_brand p) \<or> \<not> opt_all (pe_user e) (p_creator p) then Inl ProdDbError
          else let p1 = p\<lparr>p_id := nid, p_rating := 0, p_reviews := 0, p_created := now, p_updated := now\<rparr>
               in Inr (p1, s\<lparr>products := products s @ [p1\<lparr>p_price := price\<rparr>]\<rparr>))"

definition insertProductImageTx :: "id \<Rightarrow> instant \<Rightarrow> image \<Rightarrow> shop \<Rightarrow> prod_error + image \<times> shop" where
  "insertProductImageTx nid now im s =
     (if 500 < rune_count (im_url im) \<or> \<not> int4 (im_sort im) \<or> \<not> has_product s (im_product im) then Inl ProdDbError
      else let i1 = im\<lparr>im_id := nid, im_created := now\<rparr> in Inr (i1, s\<lparr>images := images s @ [i1]\<rparr>))"

definition weight_col :: "prod_env \<Rightarrow> f64 option \<Rightarrow> f64 option option" where
  "weight_col e w = (case w of None \<Rightarrow> Some None | Some x \<Rightarrow> map_option Some (pe_weight e x))"

definition insertVariantTx :: "prod_env \<Rightarrow> id \<Rightarrow> instant \<Rightarrow> variant \<Rightarrow> shop \<Rightarrow> prod_error + variant \<times> shop" where
  "insertVariantTx e nid now v s =
     (case varchar 100 (v_sku v) of None \<Rightarrow> Inl ProdDbError
      | Some sku \<Rightarrow> (case pe_price e (v_price v) of None \<Rightarrow> Inl ProdDbError
        | Some price \<Rightarrow> (case weight_col e (v_weight v) of None \<Rightarrow> Inl ProdDbError
          | Some w \<Rightarrow>
              if list_ex (\<lambda>r. v_sku r = sku) (variants s) then Inl SKUConflict
              else if \<not> has_product s (v_product v) then Inl ProdDbError
              else let v1 = v\<lparr>v_id := nid, v_created := now\<rparr>
                   in Inr (v1, s\<lparr>variants := variants s @ [v1\<lparr>v_sku := sku, v_price := price, v_weight := w\<rparr>]\<rparr>))))"

definition on_meta :: "(meta_db \<Rightarrow> meta_error + 'a \<times> meta_db) \<Rightarrow> shop \<Rightarrow> prod_error + shop" where
  "on_meta f s = (case f (sh_meta s) of Inl err \<Rightarrow> Inl (OfMeta err) | Inr (_, m) \<Rightarrow> Inr (s\<lparr>sh_meta := m\<rparr>))"

definition on_cats :: "(cat_db \<Rightarrow> cat_error + 'a \<times> cat_db) \<Rightarrow> shop \<Rightarrow> prod_error + shop" where
  "on_cats f s = (case f (sh_cats s) of Inl err \<Rightarrow> Inl (OfCategory err) | Inr (_, c) \<Rightarrow> Inr (s\<lparr>sh_cats := c\<rparr>))"

definition on_stock :: "(inv_store \<Rightarrow> inv_error + 'a \<times> inv_store) \<Rightarrow> shop \<Rightarrow> prod_error + shop" where
  "on_stock f s = (case f (sh_stock s) of Inl err \<Rightarrow> Inl (OfInventory err) | Inr (_, c) \<Rightarrow> Inr (s\<lparr>sh_stock := c\<rparr>))"

definition CreateVariantWithAttributesTx ::
  "prod_env \<Rightarrow> id \<Rightarrow> instant \<Rightarrow> variant \<Rightarrow> id list \<Rightarrow> shop \<Rightarrow> prod_error + variant \<times> shop" where
  "CreateVariantWithAttributesTx e nid now v vs s =
     (case insertVariantTx e nid now v s of
        Inl err \<Rightarrow> Inl err
      | Inr (v1, s1) \<Rightarrow>
          if vs = [] then Inr (v1, s1)
          else (case on_meta (setVariantAttributeValuesTx (has_variant s1) (v_id v1) vs) s1 of
                  Inl err \<Rightarrow> Inl err | Inr s2 \<Rightarrow> Inr (v1, s2)))"

definition buildVariantEntity :: "id \<Rightarrow> create_variant_in \<Rightarrow> variant" where
  "buildVariantEntity p vi = \<lparr>v_id = 0, v_product = p, v_sku = cv_sku vi, v_price = cv_price vi,
     v_weight = cv_weight vi, v_active = cv_active vi, v_created = 0\<rparr>"

definition image_step :: "new_ids \<Rightarrow> instant \<Rightarrow> id \<Rightarrow> nat \<times> string \<times> bool \<times> int \<Rightarrow> shop \<Rightarrow> prod_error + shop" where
  "image_step n now p x s =
     (case x of (k, url, prim, ord) \<Rightarrow>
        (case insertProductImageTx (ni_image n k) now
            \<lparr>im_id = 0, im_product = p, im_url = url, im_primary = prim, im_sort = ord, im_created = 0\<rparr> s of
           Inl err \<Rightarrow> Inl err | Inr (_, s1) \<Rightarrow> Inr s1))"

definition variant_step :: "prod_env \<Rightarrow> new_ids \<Rightarrow> instant \<Rightarrow> id \<Rightarrow> nat \<times> create_variant_in \<Rightarrow> shop \<Rightarrow> prod_error + shop" where
  "variant_step e n now p x s =
     (case x of (k, vi) \<Rightarrow>
        (case CreateVariantWithAttributesTx e (ni_variant n k) now (buildVariantEntity p vi) (cv_values vi) s of
           Inl err \<Rightarrow> Inl err
         | Inr (v, s1) \<Rightarrow>
             if 0 < cv_qty vi \<and> 0 < cv_location vi
             then on_stock (upsertItemTx (ni_item n k) now (has_variant s1)
                    \<lparr>it_id = 0, it_variant = v_id v, it_location = cv_location vi, it_available = cv_qty vi,
                     it_reserved = 0, it_incoming = 0, it_updated = 0\<rparr>) s1
             else Inr s1))"

definition link_discount :: "id option \<Rightarrow> id \<Rightarrow> shop \<Rightarrow> prod_error + shop" where
  "link_discount di p s =
     (case di of None \<Rightarrow> Inr s
      | Some i \<Rightarrow> (case insertTargetTx \<lparr>tg_disc = i, tg_type = ''product'', tg_id = p\<rparr> (sh_discs s) of
          Inl err \<Rightarrow> Inl (OfDiscount err) | Inr d \<Rightarrow> Inr (s\<lparr>sh_discs := d\<rparr>)))"

definition bind_res :: "'e + 'a \<Rightarrow> ('a \<Rightarrow> 'e + 'b) \<Rightarrow> 'e + 'b" where
  "bind_res r f = (case r of Inl err \<Rightarrow> Inl err | Inr x \<Rightarrow> f x)"

definition buildProductGraph ::
  "prod_env \<Rightarrow> new_ids \<Rightarrow> instant \<Rightarrow> create_product_in \<Rightarrow> shop \<Rightarrow> prod_error + product \<times> shop" where
  "buildProductGraph e n now ci s =
     bind_res (insertProductTx e (ni_product n) now (ci_product ci) s) (\<lambda>(p, s1).
     bind_res (on_cats (setProductCategoriesTx (has_product s1) (p_id p) (ci_categories ci)) s1) (\<lambda>s2.
     bind_res (on_meta (setProductTagsTx (pe_unicode e) (ni_tag n) (has_product s2) (p_id p) (ci_tags ci)) s2) (\<lambda>s3.
     bind_res (try_all (image_step n now (p_id p)) (zip [0..<length (ci_images ci)] (ci_images ci)) s3) (\<lambda>s4.
     bind_res (if ci_values ci = [] then Inr s4
               else on_meta (setProductAttributeValuesTx (has_product s4) (p_id p) (ci_values ci)) s4) (\<lambda>s5.
     bind_res (try_all (variant_step e n now (p_id p)) (zip [0..<length (ci_variants ci)] (ci_variants ci)) s5) (\<lambda>s6.
     bind_res (link_discount (ci_discount ci) (p_id p) s6) (\<lambda>s7.
     bind_res (UpsertForProductTx e (p_id p) (BuildSearchDocument (buildSearchInput ci p s7)) s7) (\<lambda>s8.
     Inr (p, s8)))))))))"

definition CreateProductTx ::
  "prod_env \<Rightarrow> tx_fault \<Rightarrow> new_ids \<Rightarrow> instant \<Rightarrow> create_product_in \<Rightarrow> shop \<Rightarrow> (prod_error + product) \<times> shop" where
  "CreateProductTx e flt n now ci s = run_tx flt ProdDbError (buildProductGraph e n now ci) s"

section \<open>Products: repository\<close>

definition scanProductOne :: "(product \<Rightarrow> bool) \<Rightarrow> shop \<Rightarrow> prod_error + product" where
  "scanProductOne P s = (case List.find P (products s) of None \<Rightarrow> Inl ProductNotFound | Some p \<Rightarrow> Inr p)"

definition GetProductByID :: "id \<Rightarrow> shop \<Rightarrow> prod_error + product" where
  "GetProductByID i s = scanProductOne (\<lambda>p. p_id p = i) s"

definition product_edit :: "product \<Rightarrow> f64 \<Rightarrow> instant \<Rightarrow> product \<Rightarrow> product" where
  "product_edit p price now r = r\<lparr>p_name := p_name p, p_slug := p_slug p, p_desc := p_desc p, p_short := p_short p,
     p_brand := p_brand p, p_price := price, p_status := p_status p, p_featured := p_featured p,
     p_digital := p_digital p, p_updated := now\<rparr>"

definition repo_UpdateProduct :: "prod_env \<Rightarrow> instant \<Rightarrow> product \<Rightarrow> shop \<Rightarrow> (prod_error + product) \<times> shop" where
  "repo_UpdateProduct e now p s =
     (if \<not> has_product s (p_id p) then (Inl ProductNotFound, s)
      else case pe_price e (p_price p) of
        None \<Rightarrow> (Inl ProdDbError, s)
      | Some price \<Rightarrow>
          if \<not> product_fits p then (Inl ProdDbError, s)
          else if list_ex (\<lambda>r. p_id r \<noteq> p_id p \<and> p_slug r = p_slug p) (products s) then (Inl ProductSlugConflict, s)
          else if \<not> has_brand s (p_brand p) then (Inl ProdDbError, s)
          else (Inr (p\<lparr>p_updated := now\<rparr>),
                s\<lparr>products := update_where (\<lambda>r. p_id r = p_id p) (product_edit p price now) (products s)\<rparr>))"

text \<open>Rows of deleted variants: the stock and the value links cascade; carts keep the statement from happening.\<close>

definition drop_variants :: "(variant \<Rightarrow> bool) \<Rightarrow> shop \<Rightarrow> shop" where
  "drop_variants P s =
     (let gone = map v_id (filter P (variants s)) in
      s\<lparr>variants := delete_where P (variants s),
        sh_stock := (sh_stock s)\<lparr>items := delete_where (\<lambda>r. it_variant r \<in> set gone) (items (sh_stock s))\<rparr>,
        sh_meta := (sh_meta s)\<lparr>variant_values := filter (\<lambda>l. fst l \<notin> set gone) (variant_values (sh_meta s))\<rparr>\<rparr>)"

definition DeleteProduct :: "prod_env \<Rightarrow> id \<Rightarrow> shop \<Rightarrow> (prod_error + unit) \<times> shop" where
  "DeleteProduct e i s =
     (if \<not> has_product s i then (Inl ProductNotFound, s)
      else if pe_product_in_cart e i \<or> list_ex (\<lambda>v. v_product v = i \<and> pe_variant_in_cart e (v_id v)) (variants s)
      then (Inl ProdDbError, s)
      else let s1 = drop_variants (\<lambda>v. v_product v = i) s in
        (Inr (), s1\<lparr>products := delete_where (\<lambda>p. p_id p = i) (products s1),
           images := delete_where (\<lambda>m. im_product m = i) (images s1),
           search_docs := filter (\<lambda>d. fst d \<noteq> i) (search_docs s1),
           sh_cats := (sh_cats s1)\<lparr>links := filter (\<lambda>l. fst l \<noteq> i) (links (sh_cats s1))\<rparr>,
           sh_meta := (sh_meta s1)\<lparr>product_tags := filter (\<lambda>l. fst l \<noteq> i) (product_tags (sh_meta s1)),
                                    product_values := filter (\<lambda>l. fst l \<noteq> i) (product_values (sh_meta s1))\<rparr>\<rparr>))"

definition GetProductImages :: "id \<Rightarrow> shop \<Rightarrow> image list" where
  "GetProductImages i s =
     order_by (\<lambda>a b. if im_primary a = im_primary b then im_sort a \<le> im_sort b else im_primary a)
       (filter (\<lambda>m. im_product m = i) (images s))"

definition DeleteProductImage :: "id \<Rightarrow> shop \<Rightarrow> (prod_error + unit) \<times> shop" where
  "DeleteProductImage i s =
     (if \<not> list_ex (\<lambda>m. im_id m = i) (images s) then (Inl ImageNotFound, s)
      else (Inr (), s\<lparr>images := delete_where (\<lambda>m. im_id m = i) (images s)\<rparr>))"

definition set_primary_body :: "id \<Rightarrow> id \<Rightarrow> shop \<Rightarrow> prod_error + unit \<times> shop" where
  "set_primary_body p i s =
     (let s1 = s\<lparr>images := update_where (\<lambda>m. im_product m = p) (\<lambda>m. m\<lparr>im_primary := False\<rparr>) (images s)\<rparr> in
      if \<not> list_ex (\<lambda>m. im_id m = i \<and> im_product m = p) (images s1) then Inl ImageNotFound
      else Inr ((), s1\<lparr>images := update_where (\<lambda>m. im_id m = i \<and> im_product m = p) (\<lambda>m. m\<lparr>im_primary := True\<rparr>) (images s1)\<rparr>))"

definition SetPrimaryImage :: "tx_fault \<Rightarrow> id \<Rightarrow> id \<Rightarrow> shop \<Rightarrow> (prod_error + unit) \<times> shop" where
  "SetPrimaryImage flt p i s = run_tx flt ProdDbError (set_primary_body p i) s"

text \<open>\<open>ListProducts\<close> of the repository; \<open>ilike\<close> is the pattern match on \<open>%\<close> search \<open>%\<close>.\<close>

record product_filter =
  pf_status :: "string option"
  pf_brand :: "id option"
  pf_featured :: "bool option"
  pf_search :: "string option"
  pf_category :: "id option"

definition buildProductWhere :: "(string \<Rightarrow> string \<Rightarrow> bool) \<Rightarrow> shop \<Rightarrow> product_filter \<Rightarrow> product \<Rightarrow> bool" where
  "buildProductWhere ilike s f p \<longleftrightarrow>
     opt_all (\<lambda>x. p_status p = x) (pf_status f) \<and>
     opt_all (\<lambda>b. p_brand p = Some b) (pf_brand f) \<and>
     opt_all (\<lambda>b. p_featured p = b) (pf_featured f) \<and>
     opt_all (\<lambda>q. ilike (p_name p) q \<or> (case p_short p of None \<Rightarrow> False | Some d \<Rightarrow> ilike d q)) (pf_search f) \<and>
     opt_all (\<lambda>c. (p_id p, c) \<in> set (links (sh_cats s))) (pf_category f)"

definition repo_ListProducts ::
  "(string \<Rightarrow> string \<Rightarrow> bool) \<Rightarrow> product_filter \<Rightarrow> int \<Rightarrow> int \<Rightarrow> shop \<Rightarrow> prod_error + product list \<times> nat" where
  "repo_ListProducts ilike f page page_size s =
     (let rows = filter (buildProductWhere ilike s f) (products s);
          offset = i64 ((page - 1) * page_size)
      in if page_size < 0 \<or> offset < 0 then Inl ProdDbError
         else Inr (take (nat page_size) (drop (nat offset) (order_by (\<lambda>a b. p_created b \<le> p_created a) rows)),
                   length rows))"

section \<open>Variants: repository\<close>

definition scanVariantOne :: "(variant \<Rightarrow> bool) \<Rightarrow> shop \<Rightarrow> prod_error + variant" where
  "scanVariantOne P s = (case List.find P (variants s) of None \<Rightarrow> Inl VariantNotFound | Some v \<Rightarrow> Inr v)"

definition GetVariantByID :: "id \<Rightarrow> shop \<Rightarrow> prod_error + variant" where
  "GetVariantByID i s = scanVariantOne (\<lambda>v. v_id v = i) s"

definition GetVariantBySKU :: "string \<Rightarrow> shop \<Rightarrow> prod_error + variant" where
  "GetVariantBySKU k s = scanVariantOne (\<lambda>v. v_sku v = k) s"

definition repo_CreateVariant :: "prod_env \<Rightarrow> tx_fault \<Rightarrow> id \<Rightarrow> instant \<Rightarrow> variant \<Rightarrow> shop \<Rightarrow> (prod_error + variant) \<times> shop" where
  "repo_CreateVariant e flt nid now v s = run_tx flt ProdDbError (insertVariantTx e nid now v) s"

definition variant_edit :: "variant \<Rightarrow> f64 \<Rightarrow> f64 option \<Rightarrow> variant \<Rightarrow> variant" where
  "variant_edit v price w r = r\<lparr>v_sku := v_sku v, v_price := price, v_weight := w, v_active := v_active v\<rparr>"

definition repo_UpdateVariant :: "prod_env \<Rightarrow> variant \<Rightarrow> shop \<Rightarrow> (prod_error + variant) \<times> shop" where
  "repo_UpdateVariant e v s =
     (if \<not> has_variant s (v_id v) then (Inl VariantNotFound, s)
      else case pe_price e (v_price v) of
        None \<Rightarrow> (Inl ProdDbError, s)
      | Some price \<Rightarrow> (case weight_col e (v_weight v) of
          None \<Rightarrow> (Inl ProdDbError, s)
        | Some w \<Rightarrow>
            if 100 < rune_count (v_sku v) then (Inl ProdDbError, s)
            else if list_ex (\<lambda>r. v_id r \<noteq> v_id v \<and> v_sku r = v_sku v) (variants s) then (Inl SKUConflict, s)
            else (Inr v, s\<lparr>variants := update_where (\<lambda>r. v_id r = v_id v) (variant_edit v price w) (variants s)\<rparr>)))"

definition DeleteVariant :: "prod_env \<Rightarrow> id \<Rightarrow> shop \<Rightarrow> (prod_error + unit) \<times> shop" where
  "DeleteVariant e i s =
     (if \<not> has_variant s i then (Inl VariantNotFound, s)
      else if pe_variant_in_cart e i then (Inl ProdDbError, s)
      else (Inr (), drop_variants (\<lambda>v. v_id v = i) s))"

definition ListVariantsByProduct :: "id \<Rightarrow> bool \<Rightarrow> shop \<Rightarrow> variant list" where
  "ListVariantsByProduct p active_only s =
     order_by (\<lambda>a b. v_id a \<le> v_id b) (filter (\<lambda>v. v_product v = p \<and> (active_only \<longrightarrow> v_active v)) (variants s))"

definition repo_SetVariantAttributeValues :: "tx_fault \<Rightarrow> id \<Rightarrow> id list \<Rightarrow> shop \<Rightarrow> (prod_error + unit) \<times> shop" where
  "repo_SetVariantAttributeValues flt v vs s =
     run_tx flt ProdDbError (\<lambda>s. bind_res (on_meta (setVariantAttributeValuesTx (has_variant s) v vs) s) (\<lambda>s1. Inr ((), s1))) s"

definition repo_GetVariantAttributeValues :: "id \<Rightarrow> shop \<Rightarrow> id list" where
  "repo_GetVariantAttributeValues v s =
     order_by (\<le>) (map snd (filter (\<lambda>l. fst l = v) (variant_values (sh_meta s))))"

section \<open>Service\<close>

definition resolveDefaultLocation :: "prod_env \<Rightarrow> shop \<Rightarrow> prod_error + id" where
  "resolveDefaultLocation e s =
     (let locs = repo_ListLocations (pe_collate e) True (sh_stock s) in
      case List.find (\<lambda>l. loc_code l = Some ''MAIN'') locs of
        Some l \<Rightarrow> Inr (loc_id l)
      | None \<Rightarrow> (case locs of [] \<Rightarrow> Inl NoLocation | l # _ \<Rightarrow> Inr (loc_id l)))"

definition default_discount_req :: "string \<Rightarrow> string option \<Rightarrow> disc_create_req" where
  "default_discount_req name code = \<lparr>xc_name = name, xc_code = (if code = Some [] then None else code), xc_type = ''fixed'',
     xc_value = rnd (1 / 100), xc_min = None, xc_max = None, xc_starts = None, xc_ends = None, xc_active = Some True,
     xc_targets = []\<rparr>"

text \<open>The discount of a request: named by id, found by name among the active ones, or created.\<close>

definition resolveDiscount ::
  "prod_env \<Rightarrow> tx_fault \<Rightarrow> id \<Rightarrow> instant \<Rightarrow> discount_input option \<Rightarrow> shop \<Rightarrow> (prod_error + id option) \<times> shop" where
  "resolveDiscount e flt nid now di s =
     (case di of None \<Rightarrow> (Inr None, s)
      | Some x \<Rightarrow> (case di_id x of
          Some i \<Rightarrow> (case repo_GetDiscountByID i (sh_discs s) of
              Inl err \<Rightarrow> (Inl (OfDiscount err), s) | Inr _ \<Rightarrow> (Inr (Some i), s))
        | None \<Rightarrow>
            let name = opt_or (di_name x) ''default-product-discount'' in
            (case List.find (\<lambda>d. dc_name d = name) (repo_ListDiscounts True None (sh_discs s)) of
               Some d \<Rightarrow> (Inr (Some (dc_id d)), s)
             | None \<Rightarrow> (case CreateDiscount (pe_disc e) flt nid now (default_discount_req name (di_code x)) (sh_discs s) of
                 (Inl err, ds) \<Rightarrow> (Inl (OfDiscount err), s\<lparr>sh_discs := ds\<rparr>)
               | (Inr (d, _), ds) \<Rightarrow> (Inr (Some (dc_id d)), s\<lparr>sh_discs := ds\<rparr>)))))"

definition variant_in :: "id \<Rightarrow> variant_input \<Rightarrow> create_variant_in" where
  "variant_in def_loc vi = \<lparr>cv_sku = vi_sku vi, cv_price = vi_price vi, cv_weight = vi_weight vi,
     cv_active = opt_or (vi_active vi) True, cv_values = vi_values vi, cv_qty = vi_qty vi,
     cv_location = opt_or (vi_location vi) def_loc\<rparr>"

definition new_product :: "prod_env \<Rightarrow> id \<Rightarrow> product_create_req \<Rightarrow> product" where
  "new_product e creator r = \<lparr>p_id = 0, p_name = pc_name r, p_slug = GenerateSlug (pe_unicode e) (pc_name r),
     p_desc = pc_desc r, p_short = pc_short r, p_brand = Some (pc_brand r), p_price = pc_price r,
     p_status = pc_status r, p_featured = pc_featured r, p_digital = pc_digital r, p_rating = 0, p_reviews = 0,
     p_creator = Some creator, p_created = 0, p_updated = 0\<rparr>"

definition product_images :: "string list \<Rightarrow> (string \<times> bool \<times> int) list" where
  "product_images urls = map (\<lambda>i. (urls ! i, i = 0, int i)) [0..<length urls]"

text \<open>The clock of a call: the instant of each image, of the discount, of the two transactions.\<close>

record call_clock =
  ck_nano :: "nat \<Rightarrow> instant"
  ck_disc :: instant
  ck_first :: instant
  ck_retry :: instant

definition retry_slug :: "instant \<Rightarrow> string \<Rightarrow> string" where
  "retry_slug now slug = slug @ ''-'' @ string_of_int (now div 1000000)"

text \<open>
  The first transaction, and after a slug conflict a second one with the time in milliseconds in the slug. The
  reply of the call is the created product; reading its detail is \<open>GetProductDetail\<close>.
\<close>

definition create_with_retry ::
  "prod_env \<Rightarrow> tx_fault \<Rightarrow> tx_fault \<Rightarrow> new_ids \<Rightarrow> new_ids \<Rightarrow> call_clock \<Rightarrow> create_product_in \<Rightarrow> shop
     \<Rightarrow> (prod_error + product) \<times> shop" where
  "create_with_retry e f1 f2 n1 n2 ck ci s =
     (case CreateProductTx e f1 n1 (ck_first ck) ci s of
        (Inl ProductSlugConflict, s1) \<Rightarrow>
          CreateProductTx e f2 n2 (ck_retry ck)
            (ci\<lparr>ci_product := (ci_product ci)\<lparr>p_slug := retry_slug (ck_retry ck) (p_slug (ci_product ci))\<rparr>\<rparr>) s1
      | r \<Rightarrow> r)"

definition CreateProduct ::
  "prod_env \<Rightarrow> tx_fault \<times> tx_fault \<times> tx_fault \<Rightarrow> new_ids \<Rightarrow> new_ids \<Rightarrow> call_clock \<Rightarrow> nat list
     \<Rightarrow> product_create_req \<Rightarrow> upload list \<Rightarrow> id \<Rightarrow> shop \<Rightarrow> (prod_error + product) \<times> shop" where
  "CreateProduct e flts n1 n2 ck sched req files creator s =
     (case ProductCreate_Validate req of Inl err \<Rightarrow> (Inl err, s)
      | Inr r \<Rightarrow>
          if files = [] then (Inl ImageRequired, s)
          else (case GetBrandByID (pc_brand r) (sh_meta s) of Inl err \<Rightarrow> (Inl (OfMeta err), s)
          | Inr _ \<Rightarrow>
              if list_ex (\<lambda>c. \<not> is_ok (repo_GetCategoryByID c (sh_cats s))) (pc_categories r)
              then (Inl (OfCategory Category.ErrNotFound), s)
              else (case saveImages (pe_images e) (pe_disk e) (ck_nano ck) sched files (saved_files s) of
                (Inl err, fs) \<Rightarrow> (Inl err, s\<lparr>saved_files := fs\<rparr>)
              | (Inr urls, fs) \<Rightarrow>
                  let s1 = s\<lparr>saved_files := fs\<rparr> in
                  (case resolveDefaultLocation e s1 of Inl err \<Rightarrow> (Inl err, s1)
                   | Inr loc \<Rightarrow> (case resolveDiscount e (fst flts) (ni_disc n1) (ck_disc ck) (pc_discount r) s1 of
                       (Inl err, s2) \<Rightarrow> (Inl err, s2)
                     | (Inr di, s2) \<Rightarrow>
                         create_with_retry e (fst (snd flts)) (snd (snd flts)) n1 n2 ck
                           \<lparr>ci_product = new_product e creator r, ci_categories = pc_categories r, ci_tags = pc_tags r,
                            ci_images = product_images urls, ci_values = pc_values r,
                            ci_variants = map (variant_in loc) (pc_variants r), ci_discount = di\<rparr> s2)))))"

record product_detail =
  pd_product :: product
  pd_images :: "image list"
  pd_categories :: "(id \<times> string) list"
  pd_tags :: "(id \<times> string) list"
  pd_values :: "(id \<times> string) list"
  pd_variants :: "(id \<times> string) list"

definition buildDetail :: "prod_env \<Rightarrow> product \<Rightarrow> bool \<Rightarrow> shop \<Rightarrow> product_detail" where
  "buildDetail e p related s =
     (if \<not> related
      then \<lparr>pd_product = p, pd_images = GetProductImages (p_id p) s, pd_categories = [], pd_tags = [], pd_values = [], pd_variants = []\<rparr>
      else \<lparr>pd_product = p, pd_images = GetProductImages (p_id p) s,
            pd_categories = map (\<lambda>c. (c_id c, c_name c)) (GetProductCategories (pe_collate e) (p_id p) (sh_cats s)),
            pd_tags = map (\<lambda>t. (t_id t, t_name t)) (GetProductTags (pe_collate e) (p_id p) (sh_meta s)),
            pd_values = map (\<lambda>v. (av_id v, av_value v)) (GetProductAttributeValues (pe_collate e) (p_id p) (sh_meta s)),
            pd_variants = map (\<lambda>v. (v_id v, v_sku v)) (ListVariantsByProduct (p_id p) False s)\<rparr>)"

definition GetProductDetail :: "prod_env \<Rightarrow> id \<Rightarrow> bool \<Rightarrow> shop \<Rightarrow> prod_error + product_detail" where
  "GetProductDetail e i related s =
     (case GetProductByID i s of Inl err \<Rightarrow> Inl err | Inr p \<Rightarrow> Inr (buildDetail e p related s))"

definition product_patch :: "prod_env \<Rightarrow> product_update_req \<Rightarrow> product \<Rightarrow> product" where
  "product_patch e r p = p\<lparr>
     p_name := opt_or (pu_name r) (p_name p),
     p_slug := (case pu_name r of None \<Rightarrow> p_slug p
                | Some n \<Rightarrow> if n \<noteq> p_name p then GenerateSlug (pe_unicode e) n else p_slug p),
     p_desc := opt_set (pu_desc r) (p_desc p), p_short := opt_set (pu_short r) (p_short p),
     p_brand := opt_set (pu_brand r) (p_brand p), p_price := opt_or (pu_price r) (p_price p),
     p_status := opt_or (pu_status r) (p_status p), p_featured := opt_or (pu_featured r) (p_featured p),
     p_digital := opt_or (pu_digital r) (p_digital p)\<rparr>"

definition UpdateProduct ::
  "prod_env \<Rightarrow> instant \<Rightarrow> id \<Rightarrow> product_update_req \<Rightarrow> shop \<Rightarrow> (prod_error + product) \<times> shop" where
  "UpdateProduct e now i req s =
     (case ProductUpdate_Validate req of Inl err \<Rightarrow> (Inl err, s)
      | Inr r \<Rightarrow> (case GetProductByID i s of Inl err \<Rightarrow> (Inl err, s)
        | Inr p \<Rightarrow> repo_UpdateProduct e now (product_patch e r p) s))"

definition AddProductImage ::
  "prod_env \<Rightarrow> id \<Rightarrow> instant \<Rightarrow> id \<Rightarrow> upload \<Rightarrow> bool \<Rightarrow> int \<Rightarrow> shop \<Rightarrow> (prod_error + image) \<times> shop" where
  "AddProductImage e nid now p f prim ord s =
     (case saveImages (pe_images e) (pe_disk e) (\<lambda>_. now) [0] [f] (saved_files s) of
        (Inl err, fs) \<Rightarrow> (Inl err, s\<lparr>saved_files := fs\<rparr>)
      | (Inr urls, fs) \<Rightarrow>
          let s1 = s\<lparr>saved_files := fs\<rparr> in
          (case insertProductImageTx nid now
             \<lparr>im_id = 0, im_product = p, im_url = urls ! 0, im_primary = prim, im_sort = ord, im_created = 0\<rparr> s1 of
             Inl err \<Rightarrow> (Inl err, s1) | Inr (im, s2) \<Rightarrow> (Inr im, s2)))"

text \<open>Variants are created and linked in two transactions.\<close>

definition CreateVariant ::
  "prod_env \<Rightarrow> tx_fault \<Rightarrow> tx_fault \<Rightarrow> id \<Rightarrow> instant \<Rightarrow> id \<Rightarrow> variant_create_req \<Rightarrow> shop
     \<Rightarrow> (prod_error + variant) \<times> shop" where
  "CreateVariant e f1 f2 nid now p req s =
     (case VariantCreate_Validate req of Inl err \<Rightarrow> (Inl err, s)
      | Inr r \<Rightarrow> (case repo_CreateVariant e f1 nid now
          \<lparr>v_id = 0, v_product = p, v_sku = wc_sku r, v_price = wc_price r, v_weight = wc_weight r,
           v_active = opt_or (wc_active r) True, v_created = 0\<rparr> s of
          (Inl err, s1) \<Rightarrow> (Inl err, s1)
        | (Inr v, s1) \<Rightarrow>
            if wc_values r = [] then (Inr v, s1)
            else (case repo_SetVariantAttributeValues f2 (v_id v) (wc_values r) s1 of
              (Inl err, s2) \<Rightarrow> (Inl err, s2) | (Inr _, s2) \<Rightarrow> (Inr v, s2))))"

definition variant_patch :: "variant_update_req \<Rightarrow> variant \<Rightarrow> variant" where
  "variant_patch r v = v\<lparr>v_sku := opt_or (wu_sku r) (v_sku v), v_price := opt_or (wu_price r) (v_price v),
     v_active := opt_or (wu_active r) (v_active v), v_weight := opt_set (wu_weight r) (v_weight v)\<rparr>"

definition UpdateVariant :: "prod_env \<Rightarrow> id \<Rightarrow> variant_update_req \<Rightarrow> shop \<Rightarrow> (prod_error + variant) \<times> shop" where
  "UpdateVariant e i req s =
     (case VariantUpdate_Validate req of Inl err \<Rightarrow> (Inl err, s)
      | Inr r \<Rightarrow> (case GetVariantByID i s of Inl err \<Rightarrow> (Inl err, s)
        | Inr v \<Rightarrow> repo_UpdateVariant e (variant_patch r v) s))"

definition SetVariantAttributeValues :: "tx_fault \<Rightarrow> id \<Rightarrow> id list \<Rightarrow> shop \<Rightarrow> (prod_error + unit) \<times> shop" where
  "SetVariantAttributeValues flt v vs s =
     (case GetVariantByID v s of Inl err \<Rightarrow> (Inl err, s) | Inr _ \<Rightarrow> repo_SetVariantAttributeValues flt v vs s)"

definition GetVariantAttributeValues :: "id \<Rightarrow> shop \<Rightarrow> prod_error + id list" where
  "GetVariantAttributeValues v s =
     (case GetVariantByID v s of Inl err \<Rightarrow> Inl err | Inr _ \<Rightarrow> Inr (repo_GetVariantAttributeValues v s))"

end
