(* ===== verification/Product_Safety.thy ===== *)
theory Product_Safety
  imports Product Catalog_Safety
begin

text \<open>
  What holds of products: the constraints and foreign keys of their tables on every reachable shop, what a
  created product consists of, what a failed creation leaves behind, and the primary image.
\<close>

section \<open>Results in sequence\<close>

lemma bind_res_ok: "bind_res r f = Inr y \<longleftrightarrow> (\<exists>x. r = Inr x \<and> f x = Inr y)"
  by (cases r) (simp_all add: bind_res_def)

lemma on_meta_ok: "on_meta f s = Inr s' \<longleftrightarrow> (\<exists>x m. f (sh_meta s) = Inr (x, m) \<and> s' = s\<lparr>sh_meta := m\<rparr>)"
  by (auto simp: on_meta_def split: sum.splits)

lemma on_cats_ok: "on_cats f s = Inr s' \<longleftrightarrow> (\<exists>x c. f (sh_cats s) = Inr (x, c) \<and> s' = s\<lparr>sh_cats := c\<rparr>)"
  by (auto simp: on_cats_def split: sum.splits)

lemma on_stock_ok: "on_stock f s = Inr s' \<longleftrightarrow> (\<exists>x t. f (sh_stock s) = Inr (x, t) \<and> s' = s\<lparr>sh_stock := t\<rparr>)"
  by (auto simp: on_stock_def split: sum.splits)

section \<open>What the link statements touch\<close>

lemma linkValues_frame:
  "try_all (linkValue pex p) vs d = Inr d' \<Longrightarrow>
   d' = d\<lparr>product_values := product_values d'\<rparr> \<and> set (product_values d') = set (product_values d) \<union> Pair p ` set vs"
proof (induction vs arbitrary: d)
  case (Cons v vs)
  obtain d1 where 1: "linkValue pex p v d = Inr d1" and 2: "try_all (linkValue pex p) vs d1 = Inr d'"
    using Cons.prems by (auto split: sum.splits)
  have "d1 = d\<lparr>product_values := product_values d1\<rparr>" "set (product_values d1) = insert (p, v) (set (product_values d))"
    using 1 by (auto simp: linkValue_def link_pair_def split: option.splits if_splits)
  with Cons.IH [OF 2] show ?case by (cases d; cases d1; cases d') auto
qed simp

lemma setProductAttributeValuesTx_frame:
  assumes "setProductAttributeValuesTx pex p vs d = Inr (x, d')"
  shows "d' = d\<lparr>product_values := product_values d'\<rparr> \<and>
    set (product_values d') = {y \<in> set (product_values d). fst y \<noteq> p} \<union> Pair p ` set vs"
  using assms linkValues_frame [of pex p vs "d\<lparr>product_values := filter (\<lambda>l. fst l \<noteq> p) (product_values d)\<rparr>" d']
  by (auto simp: setProductAttributeValuesTx_def split: sum.splits)

lemma linkVariantValues_frame:
  "try_all (linkVariantValue vex w) vs d = Inr d' \<Longrightarrow>
   d' = d\<lparr>variant_values := variant_values d'\<rparr> \<and> set (variant_values d') = set (variant_values d) \<union> Pair w ` set vs"
proof (induction vs arbitrary: d)
  case (Cons v vs)
  obtain d1 where 1: "linkVariantValue vex w v d = Inr d1" and 2: "try_all (linkVariantValue vex w) vs d1 = Inr d'"
    using Cons.prems by (auto split: sum.splits)
  have "d1 = d\<lparr>variant_values := variant_values d1\<rparr>" "set (variant_values d1) = insert (w, v) (set (variant_values d))"
    using 1 by (auto simp: linkVariantValue_def link_pair_def split: option.splits if_splits)
  with Cons.IH [OF 2] show ?case by (cases d; cases d1; cases d') auto
qed simp

lemma setVariantAttributeValuesTx_frame:
  assumes "setVariantAttributeValuesTx vex w vs d = Inr (x, d')"
  shows "d' = d\<lparr>variant_values := variant_values d'\<rparr> \<and>
    set (variant_values d') = {y \<in> set (variant_values d). fst y \<noteq> w} \<union> Pair w ` set vs"
  using assms linkVariantValues_frame [of vex w vs "d\<lparr>variant_values := filter (\<lambda>l. fst l \<noteq> w) (variant_values d)\<rparr>" d']
  by (auto simp: setVariantAttributeValuesTx_def split: sum.splits)

lemma link_categories_frame:
  "try_all (link_one pex p) cs d = Inr d' \<Longrightarrow>
   d' = d\<lparr>links := links d'\<rparr> \<and> set (links d') = set (links d) \<union> Pair p ` set cs"
proof (induction cs arbitrary: d)
  case (Cons c cs)
  obtain d1 where 1: "link_one pex p c d = Inr d1" and 2: "try_all (link_one pex p) cs d1 = Inr d'"
    using Cons.prems by (auto split: sum.splits)
  have "d1 = d\<lparr>links := links d1\<rparr>" "set (links d1) = insert (p, c) (set (links d))"
    using 1 by (auto simp: link_one_def AddProductCategory_def insert_absorb split: option.splits if_splits)
  with Cons.IH [OF 2] show ?case by (cases d; cases d1; cases d') auto
qed simp

lemma setProductCategoriesTx_frame:
  assumes "setProductCategoriesTx pex p cs d = Inr (x, d')"
  shows "d' = d\<lparr>links := links d'\<rparr> \<and>
    set (links d') = {y \<in> set (links d). fst y \<noteq> p} \<union> Pair p ` set cs"
  using assms link_categories_frame [of pex p cs "d\<lparr>links := filter (\<lambda>l. fst l \<noteq> p) (links d)\<rparr>" d']
  by (auto simp: setProductCategoriesTx_def split: sum.splits)

lemma set_tag_frame:
  "set_tag u pex p nn a = Inr b \<Longrightarrow>
   b = a\<lparr>tags := tags b, product_tags := product_tags b\<rparr> \<and> set (product_tags b) \<subseteq> set (product_tags a) \<union> range (Pair p)"
  by (auto simp: set_tag_def FindOrCreateTagTx_def linkTag_def link_pair_def Let_def
      split: sum.splits option.splits if_splits)

lemma set_tags_frame:
  "try_all (set_tag u pex p) nns d = Inr d' \<Longrightarrow>
   d' = d\<lparr>tags := tags d', product_tags := product_tags d'\<rparr> \<and> set (product_tags d') \<subseteq> set (product_tags d) \<union> range (Pair p)"
proof (induction nns arbitrary: d)
  case (Cons nn nns)
  obtain d1 where 1: "set_tag u pex p nn d = Inr d1" and 2: "try_all (set_tag u pex p) nns d1 = Inr d'"
    using Cons.prems by (auto split: sum.splits)
  from set_tag_frame [OF 1] Cons.IH [OF 2] show ?case by (cases d; cases d1; cases d') auto
qed simp

lemma setProductTagsTx_frame:
  assumes "setProductTagsTx u nid pex p names d = Inr (x, d')"
  shows "d' = d\<lparr>tags := tags d', product_tags := product_tags d'\<rparr> \<and>
    (\<forall>y \<in> set (product_tags d'). y \<in> set (product_tags d) \<or> fst y = p)"
  using assms set_tags_frame [of u pex p "zip (map nid [0..<length names]) names"
      "d\<lparr>product_tags := filter (\<lambda>l. fst l \<noteq> p) (product_tags d)\<rparr>" d']
  by (auto simp: setProductTagsTx_def split: sum.splits)

lemma upsertItemTx_frame:
  "upsertItemTx nid now vex it st = Inr (x, st') \<Longrightarrow>
   locations st' = locations st \<and> (\<forall>r \<in> set (items st'). r \<in> set (items st) \<or> it_variant r = it_variant it)"
  by (auto simp: upsertItemTx_def Let_def table_simps is_row_def split: option.splits if_splits)

section \<open>The invariant\<close>

definition pids :: "shop \<Rightarrow> id set" where
  "pids s = p_id ` set (products s)"

definition vids :: "shop \<Rightarrow> id set" where
  "vids s = v_id ` set (variants s)"

definition owned :: "id set \<Rightarrow> (id \<times> 'a) list \<Rightarrow> bool" where
  "owned ks t \<longleftrightarrow> (\<forall>l \<in> set t. fst l \<in> ks)"

definition product_tables_ok :: "shop \<Rightarrow> bool" where
  "product_tables_ok s \<longleftrightarrow>
     keyed p_id (products s) \<and> distinct (map p_slug (products s)) \<and>
     keyed im_id (images s) \<and> (\<forall>m \<in> set (images s). im_product m \<in> pids s) \<and>
     keyed v_id (variants s) \<and> distinct (map v_sku (variants s)) \<and> (\<forall>v \<in> set (variants s). v_product v \<in> pids s) \<and>
     distinct (map fst (search_docs s)) \<and> owned (pids s) (search_docs s)"

definition links_ok :: "shop \<Rightarrow> bool" where
  "links_ok s \<longleftrightarrow> owned (pids s) (links (sh_cats s)) \<and> owned (pids s) (product_tags (sh_meta s)) \<and>
     owned (pids s) (product_values (sh_meta s)) \<and> owned (vids s) (variant_values (sh_meta s)) \<and>
     (\<forall>r \<in> set (items (sh_stock s)). it_variant r \<in> vids s)"

definition shop_inv :: "shop \<Rightarrow> bool" where
  "shop_inv s \<longleftrightarrow> product_tables_ok s \<and> links_ok s \<and> meta_inv (sh_meta s)"

lemma owned_mono: "owned ks t \<Longrightarrow> ks \<subseteq> ks' \<Longrightarrow> owned ks' t"
  by (auto simp: owned_def)

lemma owned_filter: "owned ks t \<Longrightarrow> owned ks (filter P t)"
  by (simp add: owned_def)

lemma has_product_iff [simp]: "has_product s i \<longleftrightarrow> i \<in> pids s"
  by (auto simp: has_product_def pids_def list_ex_iff)

lemma has_variant_iff [simp]: "has_variant s i \<longleftrightarrow> i \<in> vids s"
  by (auto simp: has_variant_def vids_def list_ex_iff)

lemma pids_upd [simp]: "pids (s\<lparr>sh_cats := c\<rparr>) = pids s" "pids (s\<lparr>sh_meta := m\<rparr>) = pids s" "pids (s\<lparr>sh_stock := t\<rparr>) = pids s"
    "pids (s\<lparr>sh_discs := d\<rparr>) = pids s" "pids (s\<lparr>images := im\<rparr>) = pids s" "pids (s\<lparr>variants := vs\<rparr>) = pids s"
    "pids (s\<lparr>search_docs := sd\<rparr>) = pids s" "pids (s\<lparr>saved_files := fs\<rparr>) = pids s" "pids (s\<lparr>products := ps\<rparr>) = p_id ` set ps"
  by (simp_all add: pids_def)

lemma vids_upd [simp]: "vids (s\<lparr>sh_cats := c\<rparr>) = vids s" "vids (s\<lparr>sh_meta := m\<rparr>) = vids s" "vids (s\<lparr>sh_stock := t\<rparr>) = vids s"
    "vids (s\<lparr>sh_discs := d\<rparr>) = vids s" "vids (s\<lparr>images := im\<rparr>) = vids s" "vids (s\<lparr>products := ps\<rparr>) = vids s"
    "vids (s\<lparr>search_docs := sd\<rparr>) = vids s" "vids (s\<lparr>saved_files := fs\<rparr>) = vids s" "vids (s\<lparr>variants := vs\<rparr>) = v_id ` set vs"
  by (simp_all add: vids_def)

lemma shop_inv_side [simp]:
  "shop_inv (s\<lparr>sh_discs := d\<rparr>) = shop_inv s" "shop_inv (s\<lparr>saved_files := fs\<rparr>) = shop_inv s"
  by (simp_all add: shop_inv_def product_tables_ok_def links_ok_def)

section \<open>The statements keep it\<close>

lemma insertProductTx_ok:
  "insertProductTx e nid now p s = Inr (p', s') \<Longrightarrow>
   \<exists>price. pe_price e (p_price p) = Some price \<and>
     p' = p\<lparr>p_id := nid, p_rating := 0, p_reviews := 0, p_created := now, p_updated := now\<rparr> \<and>
     s' = s\<lparr>products := products s @ [p'\<lparr>p_price := price\<rparr>]\<rparr> \<and> p_slug p \<notin> p_slug ` set (products s)"
  by (auto simp: insertProductTx_def Let_def no_key_iff split: option.splits if_splits)

lemma insertProductTx_inv:
  assumes "insertProductTx e nid now p s = Inr (p', s')" "nid \<notin> pids s" "shop_inv s"
  shows "shop_inv s'"
proof -
  obtain price where p': "p' = p\<lparr>p_id := nid, p_rating := 0, p_reviews := 0, p_created := now, p_updated := now\<rparr>"
    and s': "s' = s\<lparr>products := products s @ [p'\<lparr>p_price := price\<rparr>]\<rparr>" and free: "p_slug p \<notin> p_slug ` set (products s)"
    using insertProductTx_ok [OF assms(1)] by blast
  have sub: "pids s \<subseteq> pids s'" using s' by (auto simp: pids_def)
  have "product_tables_ok s'"
    using assms(2,3) s' p' free sub
    by (auto simp: shop_inv_def product_tables_ok_def keyed_def pids_def owned_def)
  moreover have "links_ok s'" using assms(3) s' sub by (auto simp: shop_inv_def links_ok_def intro: owned_mono)
  ultimately show ?thesis using assms(3) s' by (simp add: shop_inv_def)
qed

lemma insertProductImageTx_ok:
  "insertProductImageTx nid now im s = Inr (im', s') \<Longrightarrow>
   im' = im\<lparr>im_id := nid, im_created := now\<rparr> \<and> s' = s\<lparr>images := images s @ [im']\<rparr> \<and> im_product im \<in> pids s"
  by (auto simp: insertProductImageTx_def Let_def split: if_splits)

lemma images_inv:
  "shop_inv s \<Longrightarrow> keyed im_id t \<Longrightarrow> (\<And>m. m \<in> set t \<Longrightarrow> im_product m \<in> pids s) \<Longrightarrow> shop_inv (s\<lparr>images := t\<rparr>)"
  by (simp add: shop_inv_def product_tables_ok_def links_ok_def)

lemma insertProductImageTx_inv:
  assumes "insertProductImageTx nid now im s = Inr (im', s')" "nid \<notin> im_id ` set (images s)" "shop_inv s"
  shows "shop_inv s'"
  using insertProductImageTx_ok [OF assms(1)] assms(2,3)
  by (auto simp: shop_inv_def product_tables_ok_def keyed_def links_ok_def)

lemma insertVariantTx_ok:
  "insertVariantTx e nid now v s = Inr (v', s') \<Longrightarrow>
   \<exists>sku price w. varchar 100 (v_sku v) = Some sku \<and> pe_price e (v_price v) = Some price \<and>
     v' = v\<lparr>v_id := nid, v_created := now\<rparr> \<and>
     s' = s\<lparr>variants := variants s @ [v'\<lparr>v_sku := sku, v_price := price, v_weight := w\<rparr>]\<rparr> \<and>
     sku \<notin> v_sku ` set (variants s) \<and> v_product v \<in> pids s"
  by (auto simp: insertVariantTx_def Let_def no_key_iff split: option.splits if_splits)

lemma insertVariantTx_inv:
  assumes "insertVariantTx e nid now v s = Inr (v', s')" "nid \<notin> vids s" "shop_inv s"
  shows "shop_inv s'"
proof -
  obtain sku price w where v': "v' = v\<lparr>v_id := nid, v_created := now\<rparr>"
    and s': "s' = s\<lparr>variants := variants s @ [v'\<lparr>v_sku := sku, v_price := price, v_weight := w\<rparr>]\<rparr>"
    and free: "sku \<notin> v_sku ` set (variants s)" and known: "v_product v \<in> pids s"
    using insertVariantTx_ok [OF assms(1)] by blast
  have sub: "vids s \<subseteq> vids s'" using s' by (auto simp: vids_def)
  have "product_tables_ok s'"
    using assms(2,3) s' v' free known by (auto simp: shop_inv_def product_tables_ok_def keyed_def vids_def)
  moreover have "links_ok s'" using assms(3) s' sub by (auto simp: shop_inv_def links_ok_def intro: owned_mono)
  ultimately show ?thesis using assms(3) s' by (simp add: shop_inv_def)
qed

lemma on_cats_inv:
  assumes "on_cats (setProductCategoriesTx pex p cs) s = Inr s'" "p \<in> pids s" "shop_inv s"
  shows "shop_inv s'"
proof -
  obtain x c where run: "setProductCategoriesTx pex p cs (sh_cats s) = Inr (x, c)" and s': "s' = s\<lparr>sh_cats := c\<rparr>"
    using assms(1) by (auto simp: on_cats_ok)
  have "set (links c) = {y \<in> set (links (sh_cats s)). fst y \<noteq> p} \<union> Pair p ` set cs"
    using setProductCategoriesTx_frame [OF run] by blast
  then show ?thesis using assms(2,3) s' by (auto simp: shop_inv_def product_tables_ok_def links_ok_def owned_def)
qed

lemma on_meta_tags_inv:
  assumes "on_meta (setProductTagsTx u nid pex p names) s = Inr s'" "p \<in> pids s" "shop_inv s"
    "inj nid" "\<forall>k. nid k \<notin> t_id ` set (tags (sh_meta s))"
  shows "shop_inv s'"
proof -
  obtain x m where run: "setProductTagsTx u nid pex p names (sh_meta s) = Inr (x, m)" and s': "s' = s\<lparr>sh_meta := m\<rparr>"
    using assms(1) by (auto simp: on_meta_ok)
  obtain ts l where "m = (sh_meta s)\<lparr>tags := ts, product_tags := l\<rparr>"
    using setProductTagsTx_frame [OF run] by blast
  then have m: "product_values m = product_values (sh_meta s)" "variant_values m = variant_values (sh_meta s)" by simp_all
  have tags: "\<forall>y \<in> set (product_tags m). y \<in> set (product_tags (sh_meta s)) \<or> fst y = p"
    using setProductTagsTx_frame [OF run] by blast
  have "meta_inv m" using setProductTagsTx_inv [OF run _ assms(4,5)] assms(3) by (simp add: shop_inv_def)
  then show ?thesis using assms(2,3) s' m tags by (auto simp: shop_inv_def product_tables_ok_def links_ok_def owned_def)
qed

lemma on_meta_values_inv:
  assumes "on_meta (setProductAttributeValuesTx pex p vs) s = Inr s'" "p \<in> pids s" "shop_inv s"
  shows "shop_inv s'"
proof -
  obtain x m where run: "setProductAttributeValuesTx pex p vs (sh_meta s) = Inr (x, m)" and s': "s' = s\<lparr>sh_meta := m\<rparr>"
    using assms(1) by (auto simp: on_meta_ok)
  obtain l where "m = (sh_meta s)\<lparr>product_values := l\<rparr>" using setProductAttributeValuesTx_frame [OF run] by blast
  then have m: "product_tags m = product_tags (sh_meta s)" "variant_values m = variant_values (sh_meta s)" by simp_all
  have new: "set (product_values m) = {y \<in> set (product_values (sh_meta s)). fst y \<noteq> p} \<union> Pair p ` set vs"
    using setProductAttributeValuesTx_frame [OF run] by blast
  have "meta_inv m" using setProductAttributeValuesTx_inv [OF run] assms(3) by (simp add: shop_inv_def)
  then show ?thesis using assms(2,3) s' m new by (auto simp: shop_inv_def product_tables_ok_def links_ok_def owned_def)
qed

lemma on_meta_variant_values_inv:
  assumes "on_meta (setVariantAttributeValuesTx vex w vs) s = Inr s'" "w \<in> vids s" "shop_inv s"
  shows "shop_inv s'"
proof -
  obtain x m where run: "setVariantAttributeValuesTx vex w vs (sh_meta s) = Inr (x, m)" and s': "s' = s\<lparr>sh_meta := m\<rparr>"
    using assms(1) by (auto simp: on_meta_ok)
  obtain l where "m = (sh_meta s)\<lparr>variant_values := l\<rparr>" using setVariantAttributeValuesTx_frame [OF run] by blast
  then have m: "product_tags m = product_tags (sh_meta s)" "product_values m = product_values (sh_meta s)" by simp_all
  have new: "set (variant_values m) = {y \<in> set (variant_values (sh_meta s)). fst y \<noteq> w} \<union> Pair w ` set vs"
    using setVariantAttributeValuesTx_frame [OF run] by blast
  have "meta_inv m" using setVariantAttributeValuesTx_inv [OF run] assms(3) by (simp add: shop_inv_def)
  then show ?thesis using assms(2,3) s' m new by (auto simp: shop_inv_def product_tables_ok_def links_ok_def owned_def)
qed

lemma on_stock_inv:
  assumes "on_stock (upsertItemTx nid now vex it) s = Inr s'" "it_variant it \<in> vids s" "shop_inv s"
  shows "shop_inv s'"
proof -
  obtain x t where run: "upsertItemTx nid now vex it (sh_stock s) = Inr (x, t)" and s': "s' = s\<lparr>sh_stock := t\<rparr>"
    using assms(1) by (auto simp: on_stock_ok)
  show ?thesis using upsertItemTx_frame [OF run] assms(2,3) s'
    by (auto simp: shop_inv_def product_tables_ok_def links_ok_def)
qed

section \<open>The loops of a new product\<close>

definition image_row :: "new_ids \<Rightarrow> instant \<Rightarrow> id \<Rightarrow> nat \<times> string \<times> bool \<times> int \<Rightarrow> image" where
  "image_row n now p x = \<lparr>im_id = ni_image n (fst x), im_product = p, im_url = fst (snd x), im_primary = fst (snd (snd x)),
     im_sort = snd (snd (snd x)), im_created = now\<rparr>"

lemma image_step_ok:
  "image_step n now p x s = Inr s' \<Longrightarrow> s' = s\<lparr>images := images s @ [image_row n now p x]\<rparr> \<and> p \<in> pids s"
  by (auto simp: image_step_def image_row_def split: prod.splits sum.splits dest!: insertProductImageTx_ok)

lemma image_loop:
  "try_all (image_step n now p) xs s = Inr s' \<Longrightarrow>
   s' = s\<lparr>images := images s @ map (image_row n now p) xs\<rparr> \<and> (xs = [] \<or> p \<in> pids s)"
proof (induction xs arbitrary: s)
  case (Cons x xs)
  obtain s1 where 1: "image_step n now p x s = Inr s1" and 2: "try_all (image_step n now p) xs s1 = Inr s'"
    using Cons.prems by (auto split: sum.splits)
  show ?case using image_step_ok [OF 1] Cons.IH [OF 2] by auto
qed simp

lemma image_loop_inv:
  assumes "try_all (image_step n now p) xs s = Inr s'" "distinct (map fst xs)" "inj (ni_image n)"
    "\<forall>k. ni_image n k \<notin> im_id ` set (images s)" "shop_inv s"
  shows "shop_inv s'"
proof -
  have s': "s' = s\<lparr>images := images s @ map (image_row n now p) xs\<rparr>" and p: "xs = [] \<or> p \<in> pids s"
    using image_loop [OF assms(1)] by auto
  have "map im_id (map (image_row n now p) xs) = map (ni_image n) (map fst xs)" by (simp add: image_row_def)
  then have new: "keyed im_id (map (image_row n now p) xs)"
    using assms(2,3) by (simp add: keyed_def distinct_map inj_on_def inj_def)
  have "im_id ` set (images s) \<inter> im_id ` set (map (image_row n now p) xs) = {}"
    using assms(4) by (auto simp: image_row_def) (metis image_eqI)
  then have "keyed im_id (images s @ map (image_row n now p) xs)"
    using new assms(5) by (auto simp: keyed_def shop_inv_def product_tables_ok_def)
  then show ?thesis unfolding s'
  proof (rule images_inv [OF assms(5)])
    fix m assume "m \<in> set (images s @ map (image_row n now p) xs)"
    then show "im_product m \<in> pids s"
      using p assms(5) by (auto simp: shop_inv_def product_tables_ok_def image_row_def)
  qed
qed

text \<open>One variant: its row, its value links and its stock.\<close>

definition stocked :: "inv_store \<Rightarrow> id \<Rightarrow> create_variant_in \<Rightarrow> bool" where
  "stocked st v vi \<longleftrightarrow> (0 < cv_qty vi \<and> 0 < cv_location vi \<longrightarrow>
     map_option (\<lambda>r. (it_available r, it_reserved r)) (List.find (is_row v (cv_location vi)) (items st)) = Some (cv_qty vi, 0))"

lemma upsertItemTx_other:
  assumes "upsertItemTx nid now vex it st = Inr (x, st')" "v \<noteq> it_variant it"
  shows "List.find (is_row v l) (items st') = List.find (is_row v l) (items st)"
proof -
  have "List.find (is_row v l) (update_where (is_row (it_variant it) (it_location it)) f t) = List.find (is_row v l) t"
    if "\<And>r. it_variant (f r) = it_variant r \<and> it_location (f r) = it_location r" for f t
    using that assms(2) by (induction t) (auto simp: update_where_def is_row_def)
  then show ?thesis
    using assms by (auto simp: upsertItemTx_def Let_def find_snoc is_row_def split: option.splits if_splits)
qed

lemma upsertItemTx_new:
  assumes "upsertItemTx nid now vex it st = Inr (x, st')" "\<forall>r \<in> set (items st). it_variant r \<noteq> it_variant it"
  shows "List.find (is_row (it_variant it) (it_location it)) (items st') = Some (it\<lparr>it_id := nid, it_updated := now\<rparr>)"
proof -
  have "List.find (is_row (it_variant it) (it_location it)) (items st) = None"
    using assms(2) by (auto simp: find_None_iff_all is_row_def)
  then show ?thesis using assms(1) by (auto simp: upsertItemTx_def Let_def find_snoc is_row_def split: if_splits)
qed

lemma variant_step_ok:
  assumes "variant_step e n now p (k, vi) s = Inr s'"
  shows "\<exists>v m st. s' = s\<lparr>variants := variants s @ [v], sh_meta := m, sh_stock := st\<rparr> \<and> v_id v = ni_variant n k \<and>
    v_product v = p \<and> varchar 100 (cv_sku vi) = Some (v_sku v) \<and> p \<in> pids s \<and>
    (\<exists>l. m = (sh_meta s)\<lparr>variant_values := l\<rparr>) \<and>
    (if 0 < cv_qty vi \<and> 0 < cv_location vi
     then \<exists>x. upsertItemTx (ni_item n k) now (\<lambda>i. i \<in> vids s \<or> i = ni_variant n k)
        \<lparr>it_id = 0, it_variant = ni_variant n k, it_location = cv_location vi, it_available = cv_qty vi,
         it_reserved = 0, it_incoming = 0, it_updated = 0\<rparr> (sh_stock s) = Inr (x, st)
     else st = sh_stock s)"
proof -
  let ?v = "buildVariantEntity p vi"
  obtain v s1 where cr: "CreateVariantWithAttributesTx e (ni_variant n k) now ?v (cv_values vi) s = Inr (v, s1)"
    and rest: "(if 0 < cv_qty vi \<and> 0 < cv_location vi
             then on_stock (upsertItemTx (ni_item n k) now (has_variant s1)
                    \<lparr>it_id = 0, it_variant = v_id v, it_location = cv_location vi, it_available = cv_qty vi,
                     it_reserved = 0, it_incoming = 0, it_updated = 0\<rparr>) s1
             else Inr s1) = Inr s'"
    using assms by (auto simp: variant_step_def split: sum.splits)
  obtain s0 where ins: "insertVariantTx e (ni_variant n k) now ?v s = Inr (v, s0)"
    and vals: "s1 = s0 \<or> on_meta (setVariantAttributeValuesTx (has_variant s0) (v_id v) (cv_values vi)) s0 = Inr s1"
    using cr by (auto simp: CreateVariantWithAttributesTx_def split: sum.splits if_splits)
  obtain sku price w where v: "v = ?v\<lparr>v_id := ni_variant n k, v_created := now\<rparr>"
    and sku: "varchar 100 (v_sku ?v) = Some sku" and s0: "s0 = s\<lparr>variants := variants s @ [v\<lparr>v_sku := sku, v_price := price, v_weight := w\<rparr>]\<rparr>"
    and known: "v_product ?v \<in> pids s"
    using insertVariantTx_ok [OF ins] by blast
  obtain m where s1: "s1 = s0\<lparr>sh_meta := m\<rparr>" and m: "\<exists>l. m = (sh_meta s)\<lparr>variant_values := l\<rparr>"
  proof (cases "s1 = s0")
    case True
    have "s1 = s0\<lparr>sh_meta := sh_meta s\<rparr>" "sh_meta s = (sh_meta s)\<lparr>variant_values := variant_values (sh_meta s)\<rparr>"
      using True s0 by simp_all
    then show ?thesis using that by blast
  next
    case False
    then obtain x m where "setVariantAttributeValuesTx (has_variant s0) (v_id v) (cv_values vi) (sh_meta s0) = Inr (x, m)"
      and "s1 = s0\<lparr>sh_meta := m\<rparr>" using vals by (auto simp: on_meta_ok)
    moreover have "sh_meta s0 = sh_meta s" using s0 by simp
    ultimately show ?thesis using setVariantAttributeValuesTx_frame that by metis
  qed
  have hv: "has_variant s1 = (\<lambda>i. i \<in> vids s \<or> i = ni_variant n k)"
    using s1 s0 v by (auto simp: fun_eq_iff vids_def)
  have st1: "sh_stock s1 = sh_stock s" using s1 s0 by simp
  have vid: "v_id v = ni_variant n k" using v by simp
  obtain st where s': "s' = s1\<lparr>sh_stock := st\<rparr>" and st: "(if 0 < cv_qty vi \<and> 0 < cv_location vi
     then \<exists>x. upsertItemTx (ni_item n k) now (\<lambda>i. i \<in> vids s \<or> i = ni_variant n k)
        \<lparr>it_id = 0, it_variant = ni_variant n k, it_location = cv_location vi, it_available = cv_qty vi,
         it_reserved = 0, it_incoming = 0, it_updated = 0\<rparr> (sh_stock s) = Inr (x, st)
     else st = sh_stock s)"
  proof (cases "0 < cv_qty vi \<and> 0 < cv_location vi")
    case True
    then show ?thesis using rest that unfolding hv st1 [symmetric] vid by (auto simp: on_stock_ok)
  next
    case False
    then have "s' = s1\<lparr>sh_stock := sh_stock s\<rparr>" using rest st1 by auto
    then show ?thesis using False that [of "sh_stock s"] by auto
  qed
  show ?thesis
    apply (rule exI [where x = "v\<lparr>v_sku := sku, v_price := price, v_weight := w\<rparr>"], rule exI [where x = m], rule exI [where x = st])
    using s' s1 s0 v sku known m st by (simp add: buildVariantEntity_def)
qed

lemma variant_step_inv:
  assumes "variant_step e n now p (k, vi) s = Inr s'" "ni_variant n k \<notin> vids s" "shop_inv s"
  shows "shop_inv s'"
proof -
  let ?v = "buildVariantEntity p vi"
  obtain v s1 where cr: "CreateVariantWithAttributesTx e (ni_variant n k) now ?v (cv_values vi) s = Inr (v, s1)"
    and rest: "s' = s1 \<or> on_stock (upsertItemTx (ni_item n k) now (has_variant s1)
                    \<lparr>it_id = 0, it_variant = v_id v, it_location = cv_location vi, it_available = cv_qty vi,
                     it_reserved = 0, it_incoming = 0, it_updated = 0\<rparr>) s1 = Inr s'"
    using assms(1) by (auto simp: variant_step_def split: sum.splits if_splits)
  obtain s0 where ins: "insertVariantTx e (ni_variant n k) now ?v s = Inr (v, s0)"
    and vals: "s1 = s0 \<or> on_meta (setVariantAttributeValuesTx (has_variant s0) (v_id v) (cv_values vi)) s0 = Inr s1"
    using cr by (auto simp: CreateVariantWithAttributesTx_def split: sum.splits if_splits)
  have inv0: "shop_inv s0" by (rule insertVariantTx_inv [OF ins assms(2,3)])
  have v0: "v_id v \<in> vids s0" using insertVariantTx_ok [OF ins] by (auto simp: vids_def)
  have inv1: "shop_inv s1" using vals inv0 on_meta_variant_values_inv [OF _ v0] by blast
  have "vids s1 = vids s0" using vals by (auto simp: on_meta_ok)
  then show ?thesis using rest inv1 v0 on_stock_inv by fastforce
qed

text \<open>
  What the loop over the variants does, with rows numbered by different fresh numbers: it appends a row for each,
  leaves the other tables and the stock of older variants alone, and stocks each new variant.
\<close>

lemma variant_loop:
  assumes "try_all (variant_step e n now p) xs s = Inr s'" "shop_inv s" "inj (ni_variant n)" "distinct (map fst xs)"
    "\<forall>k \<in> fst ` set xs. ni_variant n k \<notin> vids s"
  shows "shop_inv s' \<and> products s' = products s \<and> images s' = images s \<and> sh_cats s' = sh_cats s \<and>
    sh_discs s' = sh_discs s \<and> search_docs s' = search_docs s \<and> saved_files s' = saved_files s \<and>
    (\<exists>l. sh_meta s' = (sh_meta s)\<lparr>variant_values := l\<rparr>) \<and>
    (\<forall>v l. v \<notin> ni_variant n ` fst ` set xs \<longrightarrow>
       List.find (is_row v l) (items (sh_stock s')) = List.find (is_row v l) (items (sh_stock s))) \<and>
    (\<exists>vs. variants s' = variants s @ vs \<and>
       list_all2 (\<lambda>x v. v_id v = ni_variant n (fst x) \<and> v_product v = p \<and> varchar 100 (cv_sku (snd x)) = Some (v_sku v) \<and>
                        stocked (sh_stock s') (v_id v) (snd x)) xs vs)"
  using assms
proof (induction xs arbitrary: s)
  case Nil
  have "\<exists>l. sh_meta s = (sh_meta s)\<lparr>variant_values := l\<rparr>"
    by (rule exI [where x = "variant_values (sh_meta s)"]) simp
  then show ?case using Nil by simp
next
  case (Cons x xs)
  obtain k vi where x: "x = (k, vi)" by (cases x)
  obtain s1 where 1: "variant_step e n now p (k, vi) s = Inr s1" and 2: "try_all (variant_step e n now p) xs s1 = Inr s'"
    using Cons.prems(1) x by (auto split: sum.splits)
  let ?w = "ni_variant n k"
  obtain v m st where s1: "s1 = s\<lparr>variants := variants s @ [v], sh_meta := m, sh_stock := st\<rparr>"
    and v: "v_id v = ?w" "v_product v = p" "varchar 100 (cv_sku vi) = Some (v_sku v)"
    and m: "\<exists>l. m = (sh_meta s)\<lparr>variant_values := l\<rparr>"
    and st: "if 0 < cv_qty vi \<and> 0 < cv_location vi
     then \<exists>x. upsertItemTx (ni_item n k) now (\<lambda>i. i \<in> vids s \<or> i = ?w)
        \<lparr>it_id = 0, it_variant = ?w, it_location = cv_location vi, it_available = cv_qty vi,
         it_reserved = 0, it_incoming = 0, it_updated = 0\<rparr> (sh_stock s) = Inr (x, st)
     else st = sh_stock s"
    using variant_step_ok [OF 1] by blast
  have fresh: "?w \<notin> vids s" using Cons.prems(5) x by simp
  have inv1: "shop_inv s1" by (rule variant_step_inv [OF 1 fresh Cons.prems(2)])
  have other: "ni_variant n j \<noteq> ?w" if "j \<in> fst ` set xs" for j
    using that Cons.prems(3,4) x by (auto simp: inj_def)
  have "\<forall>j \<in> fst ` set xs. ni_variant n j \<notin> vids s1"
    using Cons.prems(5) other s1 v(1) by (auto simp: vids_def)
  then have IH: "shop_inv s' \<and> products s' = products s1 \<and> images s' = images s1 \<and> sh_cats s' = sh_cats s1 \<and>
    sh_discs s' = sh_discs s1 \<and> search_docs s' = search_docs s1 \<and> saved_files s' = saved_files s1 \<and>
    (\<exists>l. sh_meta s' = (sh_meta s1)\<lparr>variant_values := l\<rparr>) \<and>
    (\<forall>v l. v \<notin> ni_variant n ` fst ` set xs \<longrightarrow>
       List.find (is_row v l) (items (sh_stock s')) = List.find (is_row v l) (items (sh_stock s1))) \<and>
    (\<exists>vs. variants s' = variants s1 @ vs \<and>
       list_all2 (\<lambda>x v. v_id v = ni_variant n (fst x) \<and> v_product v = p \<and> varchar 100 (cv_sku (snd x)) = Some (v_sku v) \<and>
                        stocked (sh_stock s') (v_id v) (snd x)) xs vs)"
    using Cons.IH [OF 2 inv1] Cons.prems(3,4) by simp
  have no_stock: "\<forall>r \<in> set (items (sh_stock s)). it_variant r \<noteq> ?w"
    using Cons.prems(2) fresh by (auto simp: shop_inv_def links_ok_def)
  have w_last: "?w \<notin> ni_variant n ` fst ` set xs" using other by fastforce
  have "stocked st ?w vi"
  proof (cases "0 < cv_qty vi \<and> 0 < cv_location vi")
    case True
    then obtain x where up: "upsertItemTx (ni_item n k) now (\<lambda>i. i \<in> vids s \<or> i = ?w)
        \<lparr>it_id = 0, it_variant = ?w, it_location = cv_location vi, it_available = cv_qty vi,
         it_reserved = 0, it_incoming = 0, it_updated = 0\<rparr> (sh_stock s) = Inr (x, st)"
      using st by auto
    show ?thesis using upsertItemTx_new [OF up] no_stock by (simp add: stocked_def)
  qed (auto simp: stocked_def)
  then have stocked: "stocked (sh_stock s') ?w vi" using IH w_last s1 by (simp add: stocked_def)
  have same: "List.find (is_row v' l) (items (sh_stock s')) = List.find (is_row v' l) (items (sh_stock s))"
    if "v' \<notin> ni_variant n ` fst ` set (x # xs)" for v' l
  proof -
    have "v' \<noteq> ?w" "v' \<notin> ni_variant n ` fst ` set xs" using that x by auto
    then have "List.find (is_row v' l) (items (sh_stock s')) = List.find (is_row v' l) (items st)" using IH s1 by simp
    also have "\<dots> = List.find (is_row v' l) (items (sh_stock s))"
      using st upsertItemTx_other [where v = v' and l = l] \<open>v' \<noteq> ?w\<close> by (auto split: if_splits)
    finally show ?thesis .
  qed
  obtain vs where vs: "variants s' = variants s1 @ vs"
    "list_all2 (\<lambda>x v. v_id v = ni_variant n (fst x) \<and> v_product v = p \<and> varchar 100 (cv_sku (snd x)) = Some (v_sku v) \<and>
                        stocked (sh_stock s') (v_id v) (snd x)) xs vs"
    using IH by blast
  have rows: "variants s' = variants s @ (v # vs)" using vs(1) s1 by simp
  have meta: "\<exists>l. sh_meta s' = (sh_meta s)\<lparr>variant_values := l\<rparr>"
  proof -
    obtain l1 where "m = (sh_meta s)\<lparr>variant_values := l1\<rparr>" using m by blast
    moreover obtain l2 where "sh_meta s' = (sh_meta s1)\<lparr>variant_values := l2\<rparr>" using IH by blast
    ultimately show ?thesis using s1 by auto
  qed
  have "list_all2 (\<lambda>x v. v_id v = ni_variant n (fst x) \<and> v_product v = p \<and> varchar 100 (cv_sku (snd x)) = Some (v_sku v) \<and>
                        stocked (sh_stock s') (v_id v) (snd x)) (x # xs) (v # vs)"
    using vs(2) v stocked x by simp
  then show ?case using IH s1 rows meta same by auto
qed

section \<open>A created product\<close>

text \<open>The numbers a call gets from the sequences are new and different from each other.\<close>

definition fresh_ids :: "new_ids \<Rightarrow> shop \<Rightarrow> bool" where
  "fresh_ids n s \<longleftrightarrow> ni_product n \<notin> pids s \<and> inj (ni_image n) \<and> inj (ni_variant n) \<and> inj (ni_tag n) \<and>
     (\<forall>k. ni_image n k \<notin> im_id ` set (images s)) \<and> (\<forall>k. ni_variant n k \<notin> vids s) \<and>
     (\<forall>k. ni_tag n k \<notin> t_id ` set (tags (sh_meta s)))"

text \<open>The graph of a product \<open>p\<close> in \<open>s'\<close>, made from the input \<open>ci\<close> in the shop \<open>s\<close>.\<close>

definition graph_of :: "create_product_in \<Rightarrow> product \<Rightarrow> shop \<Rightarrow> shop \<Rightarrow> bool" where
  "graph_of ci p s s' \<longleftrightarrow>
     (\<exists>price. products s' = products s @ [p\<lparr>p_price := price\<rparr>]) \<and>
     {c. (p_id p, c) \<in> set (links (sh_cats s'))} = set (ci_categories ci) \<and>
     {l \<in> set (links (sh_cats s')). fst l \<noteq> p_id p} = set (links (sh_cats s)) \<and>
     map (\<lambda>m. (im_url m, im_primary m, im_sort m)) (filter (\<lambda>m. im_product m = p_id p) (images s')) = ci_images ci \<and>
     filter (\<lambda>m. im_product m \<noteq> p_id p) (images s') = images s \<and>
     list_all2 (\<lambda>vi v. varchar 100 (cv_sku vi) = Some (v_sku v) \<and> stocked (sh_stock s') (v_id v) vi)
       (ci_variants ci) (filter (\<lambda>v. v_product v = p_id p) (variants s')) \<and>
     filter (\<lambda>v. v_product v \<noteq> p_id p) (variants s') = variants s \<and>
     {v. (p_id p, v) \<in> set (product_values (sh_meta s'))} = set (ci_values ci) \<and>
     (\<forall>d. ci_discount ci = Some d \<longrightarrow> \<lparr>tg_disc = d, tg_type = ''product'', tg_id = p_id p\<rparr> \<in> set (disc_targets (sh_discs s'))) \<and>
     p_id p \<in> fst ` set (search_docs s')"

lemma insertTargetTx_mem: "insertTargetTx x d = Inr d' \<Longrightarrow> x \<in> set (disc_targets d')"
  by (auto simp: insertTargetTx_def split: if_splits)

lemma link_discount_ok:
  assumes "link_discount di p s = Inr s'"
  shows "\<exists>d. s' = s\<lparr>sh_discs := d\<rparr> \<and>
     (\<forall>i. di = Some i \<longrightarrow> \<lparr>tg_disc = i, tg_type = ''product'', tg_id = p\<rparr> \<in> set (disc_targets d))"
proof (cases di)
  case None
  then have "s' = s\<lparr>sh_discs := sh_discs s\<rparr>" using assms by (simp add: link_discount_def)
  then show ?thesis using None by blast
next
  case (Some i)
  then obtain d where "insertTargetTx \<lparr>tg_disc = i, tg_type = ''product'', tg_id = p\<rparr> (sh_discs s) = Inr d"
    and "s' = s\<lparr>sh_discs := d\<rparr>" using assms by (auto simp: link_discount_def split: sum.splits)
  then show ?thesis using Some insertTargetTx_mem by blast
qed

lemma UpsertForProductTx_ok:
  "UpsertForProductTx e p doc s = Inr s' \<Longrightarrow> \<exists>d. s' = s\<lparr>search_docs := filter (\<lambda>d. fst d \<noteq> p) (search_docs s) @ [(p, d)]\<rparr>"
  by (auto simp: UpsertForProductTx_def Let_def split: if_splits)

lemma owned_snoc: "owned ks (t @ [x]) \<longleftrightarrow> owned ks t \<and> fst x \<in> ks"
  by (auto simp: owned_def)

lemma owned_absent: "owned ks t \<Longrightarrow> p \<notin> ks \<Longrightarrow> {y \<in> set t. fst y \<noteq> p} = set t"
  by (fastforce simp: owned_def)

lemma UpsertForProductTx_inv:
  assumes "UpsertForProductTx e p doc s = Inr s'" "p \<in> pids s" "shop_inv s"
  shows "shop_inv s'"
proof -
  obtain d where s': "s' = s\<lparr>search_docs := filter (\<lambda>d. fst d \<noteq> p) (search_docs s) @ [(p, d)]\<rparr>"
    using UpsertForProductTx_ok [OF assms(1)] by blast
  have "distinct (map fst (filter (\<lambda>d. fst d \<noteq> p) (search_docs s) @ [(p, d)]))"
    using assms(3) by (auto simp: shop_inv_def product_tables_ok_def distinct_map_filter)
  then show ?thesis using assms(2,3) s'
    by (simp add: shop_inv_def product_tables_ok_def links_ok_def owned_snoc owned_filter)
qed

lemma buildProductGraph_ok:
  assumes run: "buildProductGraph e n now ci s = Inr (p, s')" and inv: "shop_inv s" and fresh: "fresh_ids n s"
  shows "shop_inv s' \<and> graph_of ci p s s' \<and>
    p = (ci_product ci)\<lparr>p_id := ni_product n, p_rating := 0, p_reviews := 0, p_created := now, p_updated := now\<rparr> \<and>
    saved_files s' = saved_files s"
proof -
  obtain s1 s2 s3 s4 s5 s6 s7 where 1: "insertProductTx e (ni_product n) now (ci_product ci) s = Inr (p, s1)"
    and 2: "on_cats (setProductCategoriesTx (has_product s1) (p_id p) (ci_categories ci)) s1 = Inr s2"
    and 3: "on_meta (setProductTagsTx (pe_unicode e) (ni_tag n) (has_product s2) (p_id p) (ci_tags ci)) s2 = Inr s3"
    and 4: "try_all (image_step n now (p_id p)) (zip [0..<length (ci_images ci)] (ci_images ci)) s3 = Inr s4"
    and 5: "(if ci_values ci = [] then Inr s4
               else on_meta (setProductAttributeValuesTx (has_product s4) (p_id p) (ci_values ci)) s4) = Inr s5"
    and 6: "try_all (variant_step e n now (p_id p)) (zip [0..<length (ci_variants ci)] (ci_variants ci)) s5 = Inr s6"
    and 7: "link_discount (ci_discount ci) (p_id p) s6 = Inr s7"
    and 8: "UpsertForProductTx e (p_id p) (BuildSearchDocument (buildSearchInput ci p s7)) s7 = Inr s'"
    using run by (auto simp: buildProductGraph_def bind_res_ok)
  have new: "ni_product n \<notin> pids s" and inj: "inj (ni_image n)" "inj (ni_variant n)" "inj (ni_tag n)"
    and free: "\<forall>k. ni_image n k \<notin> im_id ` set (images s)" "\<forall>k. ni_variant n k \<notin> vids s"
      "\<forall>k. ni_tag n k \<notin> t_id ` set (tags (sh_meta s))"
    using fresh by (auto simp: fresh_ids_def)
  obtain price where p: "p = (ci_product ci)\<lparr>p_id := ni_product n, p_rating := 0, p_reviews := 0, p_created := now, p_updated := now\<rparr>"
    and s1: "s1 = s\<lparr>products := products s @ [p\<lparr>p_price := price\<rparr>]\<rparr>"
    using insertProductTx_ok [OF 1] by blast
  have pid: "p_id p = ni_product n" "p_id p \<in> pids s1" "p_id p \<notin> pids s" using p s1 new by (auto simp: pids_def)
  have inv1: "shop_inv s1" by (rule insertProductTx_inv [OF 1 new inv])
  obtain c where s2: "s2 = s1\<lparr>sh_cats := c\<rparr>"
    and c: "set (links c) = {y \<in> set (links (sh_cats s1)). fst y \<noteq> p_id p} \<union> Pair (p_id p) ` set (ci_categories ci)"
    using 2 setProductCategoriesTx_frame by (force simp: on_cats_ok)
  have inv2: "shop_inv s2" by (rule on_cats_inv [OF 2 pid(2) inv1])
  obtain m where s3: "s3 = s2\<lparr>sh_meta := m\<rparr>" and m: "\<exists>ts l. m = (sh_meta s2)\<lparr>tags := ts, product_tags := l\<rparr>"
    using 3 setProductTagsTx_frame by (force simp: on_meta_ok)
  have inv3: "shop_inv s3"
    by (rule on_meta_tags_inv [OF 3 _ inv2 inj(3)]) (use pid s1 s2 free in simp_all)
  let ?ims = "map (image_row n now (p_id p)) (zip [0..<length (ci_images ci)] (ci_images ci))"
  have s4: "s4 = s3\<lparr>images := images s3 @ ?ims\<rparr>" using image_loop [OF 4] by simp
  have inv4: "shop_inv s4"
    by (rule image_loop_inv [OF 4 _ inj(1) _ inv3]) (use s1 s2 s3 free in \<open>simp_all add: map_fst_zip\<close>)
  obtain m5 where s5: "s5 = s4\<lparr>sh_meta := m5\<rparr>"
    and m5: "set (product_values m5) = {y \<in> set (product_values (sh_meta s4)). fst y \<noteq> p_id p} \<union> Pair (p_id p) ` set (ci_values ci)"
  proof (cases "ci_values ci = []")
    case True
    have "{y \<in> set (product_values (sh_meta s4)). fst y \<noteq> p_id p} = set (product_values (sh_meta s4))"
    proof (rule owned_absent [OF _ pid(3)])
      obtain ts l where "m = (sh_meta s2)\<lparr>tags := ts, product_tags := l\<rparr>" using m by blast
      then show "owned (pids s) (product_values (sh_meta s4))"
        using inv s1 s2 s3 s4 by (simp add: shop_inv_def links_ok_def)
    qed
    then show ?thesis using True 5 that [of "sh_meta s4"] by simp
  next
    case False
    then obtain x m' where "setProductAttributeValuesTx (has_product s4) (p_id p) (ci_values ci) (sh_meta s4) = Inr (x, m')"
      and "s5 = s4\<lparr>sh_meta := m'\<rparr>" using 5 by (auto simp: on_meta_ok)
    then show ?thesis using that setProductAttributeValuesTx_frame by blast
  qed
  have pid4: "p_id p \<in> pids s4" using pid s1 s2 s3 s4 by simp
  have inv5: "shop_inv s5" using 5 inv4 on_meta_values_inv [OF _ pid4 inv4] by (auto split: if_splits)
  have keys: "distinct (map fst (zip [0..<length (ci_variants ci)] (ci_variants ci)))" by (simp add: map_fst_zip)
  have newv: "\<forall>k \<in> fst ` set (zip [0..<length (ci_variants ci)] (ci_variants ci)). ni_variant n k \<notin> vids s5"
    using free s1 s2 s3 s4 s5 by simp
  have loop: "shop_inv s6" "products s6 = products s5" "images s6 = images s5" "sh_cats s6 = sh_cats s5"
    "search_docs s6 = search_docs s5" "saved_files s6 = saved_files s5" "\<exists>l. sh_meta s6 = (sh_meta s5)\<lparr>variant_values := l\<rparr>"
    and rows: "\<exists>vs. variants s6 = variants s5 @ vs \<and>
       list_all2 (\<lambda>x v. v_id v = ni_variant n (fst x) \<and> v_product v = p_id p \<and> varchar 100 (cv_sku (snd x)) = Some (v_sku v) \<and>
                        stocked (sh_stock s6) (v_id v) (snd x)) (zip [0..<length (ci_variants ci)] (ci_variants ci)) vs"
    using variant_loop [OF 6 inv5 inj(2) keys newv] by blast+
  obtain d where s7: "s7 = s6\<lparr>sh_discs := d\<rparr>"
    and d: "\<forall>i. ci_discount ci = Some i \<longrightarrow> \<lparr>tg_disc = i, tg_type = ''product'', tg_id = p_id p\<rparr> \<in> set (disc_targets d)"
    using link_discount_ok [OF 7] by blast
  obtain doc where s': "s' = s7\<lparr>search_docs := filter (\<lambda>d. fst d \<noteq> p_id p) (search_docs s7) @ [(p_id p, doc)]\<rparr>"
    using UpsertForProductTx_ok [OF 8] by blast
  have pid7: "p_id p \<in> pids s7" using pid4 s5 loop(2) s7 by (simp add: pids_def)
  have "shop_inv s'" using UpsertForProductTx_inv [OF 8 pid7] loop(1) s7 by simp
  moreover have "graph_of ci p s s'"
  proof -
    have old: "\<forall>m \<in> set (images s). im_product m \<noteq> p_id p" "\<forall>v \<in> set (variants s). v_product v \<noteq> p_id p"
      "{y \<in> set (links (sh_cats s)). fst y \<noteq> p_id p} = set (links (sh_cats s))"
      using inv pid(3) owned_absent by (auto simp: shop_inv_def product_tables_ok_def links_ok_def)
    have g1: "products s' = products s @ [p\<lparr>p_price := price\<rparr>]" using s' s7 loop(2) s5 s4 s3 s2 s1 by simp
    have cats: "set (links (sh_cats s')) = set (links (sh_cats s)) \<union> Pair (p_id p) ` set (ci_categories ci)"
      using s' s7 loop(4) s5 s4 s3 s2 s1 c old(3) by simp
    have nolink: "(p_id p, x) \<notin> set (links (sh_cats s))" for x
      using old(3) by (metis (mono_tags, lifting) fst_conv mem_Collect_eq)
    have g2: "{c. (p_id p, c) \<in> set (links (sh_cats s'))} = set (ci_categories ci)"
      "{l \<in> set (links (sh_cats s')). fst l \<noteq> p_id p} = set (links (sh_cats s))"
      using cats old(3) nolink by auto
    have ims: "images s' = images s @ ?ims" using s' s7 loop(3) s5 s4 s3 s2 s1 by simp
    have "filter (\<lambda>m. im_product m = p_id p) (images s) = []" "filter (\<lambda>m. im_product m \<noteq> p_id p) (images s) = images s"
      using old(1) by (simp_all add: filter_empty_conv)
    moreover have "filter (\<lambda>m. im_product m = p_id p) ?ims = ?ims" "filter (\<lambda>m. im_product m \<noteq> p_id p) ?ims = []"
      by (simp_all add: filter_id_conv filter_empty_conv image_row_def)
    moreover have "map (\<lambda>m. (im_url m, im_primary m, im_sort m)) ?ims = ci_images ci"
      by (simp add: image_row_def comp_def)
    ultimately have g3: "map (\<lambda>m. (im_url m, im_primary m, im_sort m)) (filter (\<lambda>m. im_product m = p_id p) (images s')) = ci_images ci"
      "filter (\<lambda>m. im_product m \<noteq> p_id p) (images s') = images s" using ims by simp_all
    obtain vs where vs: "variants s6 = variants s5 @ vs" and all: "list_all2 (\<lambda>x v. v_id v = ni_variant n (fst x) \<and> v_product v = p_id p \<and>
          varchar 100 (cv_sku (snd x)) = Some (v_sku v) \<and> stocked (sh_stock s6) (v_id v) (snd x))
          (zip [0..<length (ci_variants ci)] (ci_variants ci)) vs"
      using rows by blast
    have own: "\<forall>v \<in> set vs. v_product v = p_id p" using all by (auto simp: list_all2_conv_all_nth in_set_conv_nth)
    have "variants s' = variants s @ vs" using vs s' s7 s5 s4 s3 s2 s1 by simp
    moreover have "filter (\<lambda>v. v_product v = p_id p) (variants s) = []" "filter (\<lambda>v. v_product v \<noteq> p_id p) (variants s) = variants s"
      "filter (\<lambda>v. v_product v = p_id p) vs = vs" "filter (\<lambda>v. v_product v \<noteq> p_id p) vs = []"
      using old(2) own by (simp_all add: filter_empty_conv filter_id_conv)
    ultimately have g4: "filter (\<lambda>v. v_product v = p_id p) (variants s') = vs"
      "filter (\<lambda>v. v_product v \<noteq> p_id p) (variants s') = variants s" by simp_all
    have "sh_stock s' = sh_stock s6" using s' s7 by simp
    then have g5: "list_all2 (\<lambda>vi v. varchar 100 (cv_sku vi) = Some (v_sku v) \<and> stocked (sh_stock s') (v_id v) vi) (ci_variants ci) vs"
    proof -
      have "list_all2 (\<lambda>x v. varchar 100 (cv_sku (snd x)) = Some (v_sku v) \<and> stocked (sh_stock s6) (v_id v) (snd x))
          (zip [0..<length (ci_variants ci)] (ci_variants ci)) vs"
        using all by (rule list_all2_mono) blast
      then show ?thesis using \<open>sh_stock s' = sh_stock s6\<close> by (simp add: list_all2_conv_all_nth)
    qed
    obtain l where "sh_meta s6 = (sh_meta s5)\<lparr>variant_values := l\<rparr>" using loop(7) by blast
    then have "product_values (sh_meta s') = product_values m5" using s' s7 s5 by simp
    then have g6: "{v. (p_id p, v) \<in> set (product_values (sh_meta s'))} = set (ci_values ci)" using m5 by auto
    have g7: "sh_discs s' = d" "p_id p \<in> fst ` set (search_docs s')" using s' s7 by simp_all
    have "\<exists>price. products s' = products s @ [p\<lparr>p_price := price\<rparr>]" using g1 by blast
    then show ?thesis unfolding graph_of_def g4 using g2 g3 g4 g5 g6 g7 d by (intro conjI) simp_all
  qed
  moreover have "saved_files s' = saved_files s" using s' s7 loop(6) s5 s4 s3 s2 s1 by simp
  ultimately show ?thesis using p by blast
qed

section \<open>The other operations\<close>

lemma CreateProductTx_inv:
  "CreateProductTx e flt n now ci s = (r, s') \<Longrightarrow> fresh_ids n s \<Longrightarrow> shop_inv s \<Longrightarrow> shop_inv s'"
  unfolding CreateProductTx_def by (drule run_tx_cases) (auto dest: buildProductGraph_ok)

lemma create_with_retry_inv:
  assumes "create_with_retry e f1 f2 n1 n2 ck ci s = (r, s')" "fresh_ids n1 s" "fresh_ids n2 s" "shop_inv s"
  shows "shop_inv s'"
proof -
  obtain r1 s1 where 1: "CreateProductTx e f1 n1 (ck_first ck) ci s = (r1, s1)" by (metis prod.exhaust)
  show ?thesis
  proof (cases "r1 = Inl ProductSlugConflict")
    case True
    then have "s1 = s" using 1 run_tx_error unfolding CreateProductTx_def by metis
    then show ?thesis using assms 1 True by (auto simp: create_with_retry_def dest: CreateProductTx_inv)
  next
    case False
    then have "s' = s1" using assms(1) 1 by (auto simp: create_with_retry_def split: sum.splits prod_error.splits)
    then show ?thesis using CreateProductTx_inv [OF 1] assms by simp
  qed
qed

lemma fresh_ids_side [simp]:
  "fresh_ids n (s\<lparr>sh_discs := d\<rparr>) = fresh_ids n s" "fresh_ids n (s\<lparr>saved_files := fs\<rparr>) = fresh_ids n s"
  by (simp_all add: fresh_ids_def)

lemma resolveDiscount_frame: "resolveDiscount e flt nid now di s = (r, s') \<Longrightarrow> s' = s\<lparr>sh_discs := sh_discs s'\<rparr>"
  by (auto simp: resolveDiscount_def Let_def split: option.splits sum.splits prod.splits)

text \<open>A call that reaches its transactions does so on the shop with its files saved and its discount resolved.\<close>

lemma CreateProduct_cases:
  assumes "CreateProduct e flts n1 n2 ck sched req files creator s = (r, s')"
  shows "(\<exists>err. r = Inl err \<and> s' = s\<lparr>saved_files := saved_files s', sh_discs := sh_discs s'\<rparr>) \<or>
    (\<exists>q urls fs loc di d. ProductCreate_Validate req = Inr q \<and> files \<noteq> [] \<and>
       saveImages (pe_images e) (pe_disk e) (ck_nano ck) sched files (saved_files s) = (Inr urls, fs) \<and>
       create_with_retry e (fst (snd flts)) (snd (snd flts)) n1 n2 ck
         \<lparr>ci_product = new_product e creator q, ci_categories = pc_categories q, ci_tags = pc_tags q,
          ci_images = product_images urls, ci_values = pc_values q,
          ci_variants = map (variant_in loc) (pc_variants q), ci_discount = di\<rparr> (s\<lparr>saved_files := fs, sh_discs := d\<rparr>) = (r, s'))"
    (is "?early \<or> ?late")
proof (cases ?early)
  case False
  obtain q where q: "ProductCreate_Validate req = Inr q"
    using assms False by (cases "ProductCreate_Validate req") (auto simp: CreateProduct_def)
  have files: "files \<noteq> []" using assms False q by (auto simp: CreateProduct_def)
  obtain b where b: "GetBrandByID (pc_brand q) (sh_meta s) = Inr b"
    using assms False q files by (cases "GetBrandByID (pc_brand q) (sh_meta s)") (auto simp: CreateProduct_def)
  have cats: "\<not> list_ex (\<lambda>c. \<not> is_ok (repo_GetCategoryByID c (sh_cats s))) (pc_categories q)"
    using assms False q files b by (auto simp: CreateProduct_def)
  obtain ri fs where save: "saveImages (pe_images e) (pe_disk e) (ck_nano ck) sched files (saved_files s) = (ri, fs)"
    by (metis prod.exhaust)
  obtain urls where urls: "ri = Inr urls"
    using assms False q files b cats save by (cases ri) (auto simp: CreateProduct_def)
  let ?s1 = "s\<lparr>saved_files := fs\<rparr>"
  obtain loc where loc: "resolveDefaultLocation e ?s1 = Inr loc"
    using assms False q files b cats save urls
    by (cases "resolveDefaultLocation e ?s1") (auto simp: CreateProduct_def)
  obtain rd s2 where rd: "resolveDiscount e (fst flts) (ni_disc n1) (ck_disc ck) (pc_discount q) ?s1 = (rd, s2)"
    by (metis prod.exhaust)
  obtain d where s2: "s2 = s\<lparr>saved_files := fs, sh_discs := d\<rparr>" using resolveDiscount_frame [OF rd] by blast
  obtain di where di: "rd = Inr di"
    using assms False q files b cats save urls loc rd s2 by (cases rd) (auto simp: CreateProduct_def)
  have "create_with_retry e (fst (snd flts)) (snd (snd flts)) n1 n2 ck
         \<lparr>ci_product = new_product e creator q, ci_categories = pc_categories q, ci_tags = pc_tags q,
          ci_images = product_images urls, ci_values = pc_values q,
          ci_variants = map (variant_in loc) (pc_variants q), ci_discount = di\<rparr> s2 = (r, s')"
    using assms q files b cats save urls loc rd di by (simp add: CreateProduct_def)
  then show ?thesis using q files save urls s2 by blast
qed blast

lemma CreateProduct_inv:
  assumes "CreateProduct e flts n1 n2 ck sched req files creator s = (r, s')" "fresh_ids n1 s" "fresh_ids n2 s" "shop_inv s"
  shows "shop_inv s'"
  using CreateProduct_cases [OF assms(1)]
proof (elim disjE exE conjE)
  fix err assume "s' = s\<lparr>saved_files := saved_files s', sh_discs := sh_discs s'\<rparr>"
  then have "shop_inv s' = shop_inv s" by (metis shop_inv_side)
  then show ?thesis using assms(4) by simp
next
  fix q urls fs loc di d
  assume "create_with_retry e (fst (snd flts)) (snd (snd flts)) n1 n2 ck
         \<lparr>ci_product = new_product e creator q, ci_categories = pc_categories q, ci_tags = pc_tags q,
          ci_images = product_images urls, ci_values = pc_values q,
          ci_variants = map (variant_in loc) (pc_variants q), ci_discount = di\<rparr> (s\<lparr>saved_files := fs, sh_discs := d\<rparr>) = (r, s')"
  then show ?thesis by (rule create_with_retry_inv) (use assms in simp_all)
qed

lemma repo_UpdateProduct_inv:
  assumes "repo_UpdateProduct e now p s = (r, s')" "shop_inv s"
  shows "shop_inv s'"
proof (cases r)
  case (Inr q)
  then obtain price where s': "s' = s\<lparr>products := update_where (\<lambda>r. p_id r = p_id p) (product_edit p price now) (products s)\<rparr>"
    and free: "\<not> list_ex (\<lambda>r. p_id r \<noteq> p_id p \<and> p_slug r = p_slug p) (products s)"
    using assms(1) by (auto simp: repo_UpdateProduct_def split: option.splits if_splits)
  have keys: "map p_id (products s') = map p_id (products s)" unfolding s'
    by (simp add: product_edit_def map_update_where)
  then have ids: "pids s' = pids s" unfolding pids_def by (metis set_map)
  have "distinct (map p_slug (products s'))"
    using distinct_replace_key [OF _ _ free, of "product_edit p price now"] assms(2) s'
    by (simp add: shop_inv_def product_tables_ok_def keyed_def product_edit_def)
  then show ?thesis using assms(2) keys ids s'
    by (simp add: shop_inv_def product_tables_ok_def links_ok_def keyed_def)
qed (use assms in \<open>auto simp: repo_UpdateProduct_def split: option.splits if_splits\<close>)

lemma repo_UpdateVariant_inv:
  assumes "repo_UpdateVariant e v s = (r, s')" "shop_inv s"
  shows "shop_inv s'"
proof (cases r)
  case (Inr q)
  then obtain price w where s': "s' = s\<lparr>variants := update_where (\<lambda>r. v_id r = v_id v) (variant_edit v price w) (variants s)\<rparr>"
    and free: "\<not> list_ex (\<lambda>r. v_id r \<noteq> v_id v \<and> v_sku r = v_sku v) (variants s)"
    using assms(1) by (auto simp: repo_UpdateVariant_def split: option.splits if_splits)
  have keys: "map v_id (variants s') = map v_id (variants s)" and own: "map v_product (variants s') = map v_product (variants s)"
    unfolding s' by (simp_all add: variant_edit_def map_update_where)
  then have ids: "vids s' = vids s" unfolding vids_def by (metis set_map)
  have "\<forall>w \<in> set (variants s'). v_product w \<in> pids s"
    using assms(2) own by (metis (no_types, lifting) image_iff list.set_map product_tables_ok_def shop_inv_def)
  moreover have "distinct (map v_sku (variants s'))"
    using distinct_replace_key [OF _ _ free, of "variant_edit v price w"] assms(2) s'
    by (simp add: shop_inv_def product_tables_ok_def keyed_def variant_edit_def)
  ultimately show ?thesis using assms(2) keys ids s'
    by (simp add: shop_inv_def product_tables_ok_def links_ok_def keyed_def)
qed (use assms in \<open>auto simp: repo_UpdateVariant_def split: option.splits if_splits\<close>)

lemma meta_inv_links:
  "meta_inv d \<Longrightarrow> meta_inv (d\<lparr>product_tags := filter P (product_tags d), product_values := filter Q (product_values d)\<rparr>)"
  using clear_links_inv(1) [of d P] clear_links_inv(2) [of "d\<lparr>product_tags := filter P (product_tags d)\<rparr>" Q] by simp

lemma drop_variants_inv: "shop_inv s \<Longrightarrow> shop_inv (drop_variants P s)"
proof -
  assume inv: "shop_inv s"
  have key: "distinct (map v_id (variants s))" using inv by (simp add: shop_inv_def product_tables_ok_def keyed_def)
  have left: "i \<in> v_id ` set (delete_where P (variants s))"
    if "i \<in> vids s" "i \<notin> set (map v_id (filter P (variants s)))" for i
    using that by (auto simp: vids_def table_simps)
  have "product_tables_ok (drop_variants P s)"
    using inv by (auto simp: shop_inv_def product_tables_ok_def drop_variants_def Let_def keyed_def table_simps)
  moreover have "links_ok (drop_variants P s)"
    using inv left by (auto simp: shop_inv_def links_ok_def drop_variants_def Let_def owned_def table_simps)
  moreover have "meta_inv (sh_meta (drop_variants P s))"
    using inv clear_links_inv(3) by (simp add: shop_inv_def drop_variants_def Let_def)
  ultimately show ?thesis by (simp add: shop_inv_def)
qed

lemma drop_variants_frame:
  "products (drop_variants P s) = products s" "images (drop_variants P s) = images s"
  "search_docs (drop_variants P s) = search_docs s" "sh_cats (drop_variants P s) = sh_cats s"
  "variants (drop_variants P s) = delete_where P (variants s)"
  by (simp_all add: drop_variants_def Let_def)

lemma DeleteProduct_inv:
  assumes "DeleteProduct e i s = (r, s')" "shop_inv s"
  shows "shop_inv s'"
proof (cases r)
  case (Inr u)
  define s1 where "s1 = drop_variants (\<lambda>v. v_product v = i) s"
  have s': "s' = s1\<lparr>products := delete_where (\<lambda>p. p_id p = i) (products s1),
           images := delete_where (\<lambda>m. im_product m = i) (images s1),
           search_docs := filter (\<lambda>d. fst d \<noteq> i) (search_docs s1),
           sh_cats := (sh_cats s1)\<lparr>links := filter (\<lambda>l. fst l \<noteq> i) (links (sh_cats s1))\<rparr>,
           sh_meta := (sh_meta s1)\<lparr>product_tags := filter (\<lambda>l. fst l \<noteq> i) (product_tags (sh_meta s1)),
                                    product_values := filter (\<lambda>l. fst l \<noteq> i) (product_values (sh_meta s1))\<rparr>\<rparr>"
    using assms(1) Inr by (auto simp: DeleteProduct_def Let_def s1_def split: if_splits)
  have inv: "shop_inv s1" unfolding s1_def by (rule drop_variants_inv [OF assms(2)])
  have ids: "pids s' = pids s1 - {i}" "vids s' = vids s1" using s' by (auto simp: pids_def vids_def table_simps)
  have own: "\<forall>v \<in> set (variants s1). v_product v \<noteq> i" by (simp add: s1_def drop_variants_frame table_simps)
  have "product_tables_ok s'"
    using inv own ids s'
    by (auto simp: shop_inv_def product_tables_ok_def keyed_def owned_def table_simps distinct_map_filter)
  moreover have "links_ok s'" using inv ids s' by (auto simp: shop_inv_def links_ok_def owned_def)
  moreover have "meta_inv (sh_meta s')" using inv s' meta_inv_links by (simp add: shop_inv_def)
  ultimately show ?thesis by (simp add: shop_inv_def)
qed (use assms in \<open>auto simp: DeleteProduct_def Let_def split: if_splits\<close>)

lemma DeleteVariant_inv: "DeleteVariant e i s = (r, s') \<Longrightarrow> shop_inv s \<Longrightarrow> shop_inv s'"
  by (auto simp: DeleteVariant_def drop_variants_inv split: if_splits)

lemma DeleteProductImage_inv:
  assumes "DeleteProductImage i s = (r, s')" "shop_inv s"
  shows "shop_inv s'"
proof -
  have "shop_inv (s\<lparr>images := delete_where (\<lambda>m. im_id m = i) (images s)\<rparr>)"
    by (rule images_inv [OF assms(2)])
      (use assms(2) in \<open>auto simp: shop_inv_def product_tables_ok_def keyed_def table_simps\<close>)
  then show ?thesis using assms by (auto simp: DeleteProductImage_def split: if_splits)
qed

lemma SetPrimaryImage_inv:
  assumes "SetPrimaryImage flt p i s = (r, s')" "shop_inv s"
  shows "shop_inv s'"
proof -
  have "shop_inv s2" if "set_primary_body p i s = Inr (u, s2)" for u s2
  proof -
    define t where "t = update_where (\<lambda>m. im_id m = i \<and> im_product m = p) (\<lambda>m. m\<lparr>im_primary := True\<rparr>)
      (update_where (\<lambda>m. im_product m = p) (\<lambda>m. m\<lparr>im_primary := False\<rparr>) (images s))"
    have s2: "s2 = s\<lparr>images := t\<rparr>" using that by (auto simp: set_primary_body_def Let_def t_def split: if_splits)
    have t: "map im_id t = map im_id (images s)" "map im_product t = map im_product (images s)"
      unfolding t_def by (simp_all add: map_update_where)
    have "im_product m \<in> pids s" if "m \<in> set t" for m
    proof -
      have "im_product m \<in> im_product ` set (images s)" using t(2) that by (metis image_eqI list.set_map)
      then show ?thesis using assms(2) by (auto simp: shop_inv_def product_tables_ok_def)
    qed
    moreover have "keyed im_id t" using t(1) assms(2) by (simp add: keyed_def shop_inv_def product_tables_ok_def)
    ultimately show ?thesis using images_inv [OF assms(2)] s2 by blast
  qed
  then show ?thesis using assms run_tx_cases unfolding SetPrimaryImage_def by metis
qed

lemma AddProductImage_inv:
  assumes "AddProductImage e nid now p f prim ord s = (r, s')" "nid \<notin> im_id ` set (images s)" "shop_inv s"
  shows "shop_inv s'"
proof -
  obtain ri fs where save: "saveImages (pe_images e) (pe_disk e) (\<lambda>_. now) [0] [f] (saved_files s) = (ri, fs)"
    by (metis prod.exhaust)
  have inv: "shop_inv (s\<lparr>saved_files := fs\<rparr>)" using assms(3) by simp
  show ?thesis using assms(1,2) save inv insertProductImageTx_inv [of nid now _ "s\<lparr>saved_files := fs\<rparr>"]
    by (auto simp: AddProductImage_def Let_def split: sum.splits)
qed

lemma repo_CreateVariant_inv:
  "repo_CreateVariant e flt nid now v s = (r, s') \<Longrightarrow> nid \<notin> vids s \<Longrightarrow> shop_inv s \<Longrightarrow> shop_inv s'"
  unfolding repo_CreateVariant_def by (drule run_tx_cases) (auto dest: insertVariantTx_inv)

lemma repo_SetVariantAttributeValues_inv:
  "repo_SetVariantAttributeValues flt w vs s = (r, s') \<Longrightarrow> w \<in> vids s \<Longrightarrow> shop_inv s \<Longrightarrow> shop_inv s'"
  unfolding repo_SetVariantAttributeValues_def
  by (drule run_tx_cases) (auto simp: bind_res_ok dest: on_meta_variant_values_inv)

lemma CreateVariant_inv:
  assumes "CreateVariant e f1 f2 nid now p req s = (r, s')" "nid \<notin> vids s" "shop_inv s"
  shows "shop_inv s'"
proof (cases "VariantCreate_Validate req")
  case (Inr q)
  let ?v = "\<lparr>v_id = 0, v_product = p, v_sku = wc_sku q, v_price = wc_price q, v_weight = wc_weight q,
           v_active = opt_or (wc_active q) True, v_created = 0\<rparr>"
  obtain r1 s1 where 1: "repo_CreateVariant e f1 nid now ?v s = (r1, s1)" by (metis prod.exhaust)
  have inv: "shop_inv s1" by (rule repo_CreateVariant_inv [OF 1 assms(2,3)])
  show ?thesis
  proof (cases r1)
    case (Inr v)
    then have v: "v_id v \<in> vids s1"
      using 1 insertVariantTx_ok [of e nid now ?v s v s1] by (auto simp: repo_CreateVariant_def run_tx_ok vids_def)
    show ?thesis using assms(1) 1 \<open>VariantCreate_Validate req = Inr q\<close> Inr inv
        repo_SetVariantAttributeValues_inv [OF _ v inv]
      by (auto simp: CreateVariant_def split: if_splits prod.splits sum.splits)
  qed (use assms(1) 1 \<open>VariantCreate_Validate req = Inr q\<close> inv in \<open>auto simp: CreateVariant_def\<close>)
qed (use assms in \<open>auto simp: CreateVariant_def\<close>)

lemma UpdateProduct_inv: "UpdateProduct e now i req s = (r, s') \<Longrightarrow> shop_inv s \<Longrightarrow> shop_inv s'"
  by (auto simp: UpdateProduct_def split: sum.splits dest: repo_UpdateProduct_inv)

lemma UpdateVariant_inv: "UpdateVariant e i req s = (r, s') \<Longrightarrow> shop_inv s \<Longrightarrow> shop_inv s'"
  by (auto simp: UpdateVariant_def split: sum.splits dest: repo_UpdateVariant_inv)

lemma GetVariantByID_mem: "GetVariantByID i s = Inr v \<Longrightarrow> i \<in> vids s"
  by (auto simp: GetVariantByID_def scanVariantOne_def vids_def split: option.splits dest: find_Some_iff_mem)

lemma SetVariantAttributeValues_inv: "SetVariantAttributeValues flt w vs s = (r, s') \<Longrightarrow> shop_inv s \<Longrightarrow> shop_inv s'"
  by (auto simp: SetVariantAttributeValues_def split: sum.splits
      dest: GetVariantByID_mem repo_SetVariantAttributeValues_inv)

section \<open>Reachable shops\<close>

inductive shop_step :: "prod_env \<Rightarrow> shop \<Rightarrow> shop \<Rightarrow> bool" for e where
  "CreateProduct e flts n1 n2 ck sched req files creator s = (r, s') \<Longrightarrow> fresh_ids n1 s \<Longrightarrow> fresh_ids n2 s \<Longrightarrow> shop_step e s s'"
| "UpdateProduct e now i ureq s = (r, s') \<Longrightarrow> shop_step e s s'"
| "DeleteProduct e i s = (ru, s') \<Longrightarrow> shop_step e s s'"
| "AddProductImage e nid now p f prim ord s = (ri, s') \<Longrightarrow> nid \<notin> im_id ` set (images s) \<Longrightarrow> shop_step e s s'"
| "DeleteProductImage i s = (ru, s') \<Longrightarrow> shop_step e s s'"
| "SetPrimaryImage flt p i s = (ru, s') \<Longrightarrow> shop_step e s s'"
| "CreateVariant e f1 f2 nid now p creq s = (rv, s') \<Longrightarrow> nid \<notin> vids s \<Longrightarrow> shop_step e s s'"
| "UpdateVariant e i wreq s = (rv, s') \<Longrightarrow> shop_step e s s'"
| "DeleteVariant e i s = (ru, s') \<Longrightarrow> shop_step e s s'"
| "SetVariantAttributeValues flt w vs s = (ru, s') \<Longrightarrow> shop_step e s s'"

text \<open>A shop without products over any categories, catalogue, locations and discounts.\<close>

definition no_products :: "cat_db \<Rightarrow> meta_db \<Rightarrow> location list \<Rightarrow> disc_db \<Rightarrow> shop" where
  "no_products c m ls d = \<lparr>sh_cats = c\<lparr>links := []\<rparr>, sh_meta = m\<lparr>product_tags := [], product_values := [], variant_values := []\<rparr>,
     sh_stock = \<lparr>locations = ls, items = []\<rparr>, sh_discs = d, products = [], images = [], variants = [],
     search_docs = [], saved_files = []\<rparr>"

inductive shop_reach :: "prod_env \<Rightarrow> shop \<Rightarrow> bool" for e where
  "meta_inv m \<Longrightarrow> shop_reach e (no_products c m ls d)"
| "shop_reach e s \<Longrightarrow> shop_step e s s' \<Longrightarrow> shop_reach e s'"

lemma shop_step_inv: "shop_step e s s' \<Longrightarrow> shop_inv s \<Longrightarrow> shop_inv s'"
  by (induction rule: shop_step.induct)
    (auto dest: CreateProduct_inv UpdateProduct_inv DeleteProduct_inv AddProductImage_inv DeleteProductImage_inv
      SetPrimaryImage_inv CreateVariant_inv UpdateVariant_inv DeleteVariant_inv SetVariantAttributeValues_inv)

lemma no_products_inv: "meta_inv m \<Longrightarrow> shop_inv (no_products c m ls d)"
  by (simp add: no_products_def shop_inv_def product_tables_ok_def links_ok_def keyed_def owned_def meta_inv_def linked_def)

lemma shop_reach_inv: "shop_reach e s \<Longrightarrow> shop_inv s"
  by (induction rule: shop_reach.induct) (auto intro: no_products_inv shop_step_inv)

end
