(* ===== verification/Product_Results.thy ===== *)
theory Product_Results
  imports Product_Safety
begin

text \<open>
  The properties of the product component, on top of \<open>Product_Safety\<close>, and the surprises its model shows.
\<close>

section \<open>A sample shop\<close>

definition sample_env :: prod_env where
  "sample_env = \<lparr>pe_unicode = sample_unicode, pe_price = Some, pe_weight = Some,
     pe_disc = \<lparr>col_value = Some, col_min = Some, col_time = (\<lambda>t. t), known_user = (\<lambda>_. True)\<rparr>, pe_user = (\<lambda>_. True),
     pe_tsvector = (\<lambda>_. True), pe_images = sample_images\<lparr>kit_on := False\<rparr>, pe_disk = True,
     pe_product_in_cart = (\<lambda>_. False), pe_variant_in_cart = (\<lambda>_. False), pe_collate = (\<lambda>a b. length a \<le> length b)\<rparr>"

definition sample_shop :: shop where
  "sample_shop = no_products sample_cats sample_meta [\<lparr>loc_id = 1, loc_name = ''Hall'', loc_code = Some ''MAIN'', loc_active = True\<rparr>]
     \<lparr>discs = [], disc_targets = [], redemptions = []\<rparr>"

definition sample_ids :: "nat \<Rightarrow> new_ids" where
  "sample_ids b = \<lparr>ni_product = 10 + int b, ni_tag = (\<lambda>k. 100 + int k), ni_image = (\<lambda>k. 200 + 100 * int b + int k),
     ni_variant = (\<lambda>k. 1000 + 100 * int b + int k), ni_item = (\<lambda>k. 5000 + int k), ni_disc = 9\<rparr>"

definition sample_clock :: call_clock where
  "sample_clock = \<lparr>ck_nano = (\<lambda>i. 7 + int i), ck_disc = 20, ck_first = 30, ck_retry = 5000000\<rparr>"

definition sample_variant :: "string \<Rightarrow> f64 \<Rightarrow> int \<Rightarrow> variant_input" where
  "sample_variant sku price qty = \<lparr>vi_sku = sku, vi_price = price, vi_weight = None, vi_active = None, vi_values = [1],
     vi_qty = qty, vi_location = None\<rparr>"

definition sample_product_req :: "string \<Rightarrow> variant_input list \<Rightarrow> product_create_req" where
  "sample_product_req name vs = \<lparr>pc_name = name, pc_desc = None, pc_short = None, pc_brand = 1, pc_price = 50, pc_status = [],
     pc_featured = False, pc_digital = False, pc_categories = [1, 2], pc_tags = [''Tip'', ''hot''], pc_values = [2],
     pc_variants = vs, pc_discount = None\<rparr>"

definition sample_upload :: "string \<Rightarrow> string \<Rightarrow> upload" where
  "sample_upload n d = \<lparr>up_name = n, up_size = 3, up_data = Some d\<rparr>"

definition sample_created :: "(prod_error + product) \<times> shop" where
  "sample_created = CreateProduct sample_env (NoFault, NoFault, NoFault) (sample_ids 0) (sample_ids 1) sample_clock [1, 0]
     (sample_product_req ''saw'' [sample_variant ''S1'' 60 5, sample_variant ''S2'' 70 0])
     [sample_upload ''a.png'' ''abc'', sample_upload ''b.png'' ''def''] 3 sample_shop"





section \<open>Properties\<close>




lemma create_with_retry_error:
  assumes "create_with_retry e f1 f2 n1 n2 ck ci s = (Inl err, s')" shows "s' = s"
proof -
  obtain r1 s1 where 1: "CreateProductTx e f1 n1 (ck_first ck) ci s = (r1, s1)" by (metis prod.exhaust)
  show ?thesis
  proof (cases "r1 = Inl ProductSlugConflict")
    case True
    then have "s1 = s" using 1 run_tx_error unfolding CreateProductTx_def by metis
    then show ?thesis using assms 1 True run_tx_error by (simp add: create_with_retry_def CreateProductTx_def)
  next
    case False
    then have "r1 = Inl err" "s1 = s'" using assms 1 by (auto simp: create_with_retry_def split: sum.splits prod_error.splits)
    then show ?thesis using 1 run_tx_error unfolding CreateProductTx_def by metis
  qed
qed




text \<open>When the creation of a product fails, for whatever reason and at whatever point, products, images,
  variants, categories, tags, attribute values, stock and search documents are as they were.\<close>

theorem failed_creation_keeps_shop:
  assumes "CreateProduct e flts n1 n2 ck sched req files creator s = (Inl err, s')"
  shows "products s' = products s \<and> images s' = images s \<and> variants s' = variants s \<and> sh_cats s' = sh_cats s \<and>
    sh_meta s' = sh_meta s \<and> sh_stock s' = sh_stock s \<and> search_docs s' = search_docs s"
  using CreateProduct_cases [OF assms]
proof (elim disjE exE conjE)
  fix err' assume "s' = s\<lparr>saved_files := saved_files s', sh_discs := sh_discs s'\<rparr>"
  then obtain fs d where "s' = s\<lparr>saved_files := fs, sh_discs := d\<rparr>" by blast
  then show ?thesis by simp
next
  fix q urls fs loc di d
  assume "create_with_retry e (fst (snd flts)) (snd (snd flts)) n1 n2 ck
         \<lparr>ci_product = new_product e creator q, ci_categories = pc_categories q, ci_tags = pc_tags q,
          ci_images = product_images urls, ci_values = pc_values q,
          ci_variants = map (variant_in loc) (pc_variants q), ci_discount = di\<rparr> (s\<lparr>saved_files := fs, sh_discs := d\<rparr>) = (Inl err, s')"
  from create_with_retry_error [OF this] show ?thesis by simp
qed

text \<open>Setting the primary image succeeds or changes nothing; after success the image is the only primary one of
  its product and comes first in its list, and the images of other products are as before.\<close>

theorem primary_image_is_the_one:
  assumes "SetPrimaryImage flt p i s = (r, s')"
  shows "(case r of Inl err \<Rightarrow> s' = s
    | Inr _ \<Rightarrow> (\<forall>m \<in> set (images s'). im_product m = p \<longrightarrow> (im_primary m \<longleftrightarrow> im_id m = i)) \<and>
        im_id (hd (GetProductImages p s')) = i \<and>
        filter (\<lambda>m. im_product m \<noteq> p) (images s') = filter (\<lambda>m. im_product m \<noteq> p) (images s))"
proof (cases r)
  case (Inl err)
  then show ?thesis using assms run_tx_error unfolding SetPrimaryImage_def by fastforce
next
  case (Inr u)
  then have body: "set_primary_body p i s = Inr (u, s')" using assms by (simp add: SetPrimaryImage_def run_tx_ok)
  let ?ims = "update_where (\<lambda>m. im_product m = p) (\<lambda>m. m\<lparr>im_primary := False\<rparr>) (images s)"
  have there: "list_ex (\<lambda>m. im_id m = i \<and> im_product m = p) ?ims"
    using body by (simp add: set_primary_body_def Let_def split: if_splits)
  have "s' = s\<lparr>images := update_where (\<lambda>m. im_id m = i \<and> im_product m = p) (\<lambda>m. m\<lparr>im_primary := True\<rparr>) ?ims\<rparr>"
    using body there by (simp add: set_primary_body_def Let_def)
  then have s': "images s' = update_where (\<lambda>m. im_id m = i \<and> im_product m = p) (\<lambda>m. m\<lparr>im_primary := True\<rparr>) ?ims" by simp
  obtain m0 where m0: "m0 \<in> set ?ims" "im_id m0 = i" "im_product m0 = p"
    using there unfolding list_ex_iff by blast
  have one: "\<forall>m \<in> set (images s'). im_product m = p \<longrightarrow> (im_primary m \<longleftrightarrow> im_id m = i)"
  proof -
    have "\<forall>m \<in> set ?ims. im_product m = p \<longrightarrow> \<not> im_primary m" by (simp add: update_where_def ball_Un)
    then show ?thesis unfolding s' update_where_def [where t = "?ims"] by (simp add: ball_Un) blast
  qed
  have other: "filter (\<lambda>m. im_product m \<noteq> p) (images s') = filter (\<lambda>m. im_product m \<noteq> p) (images s)"
  proof -
    have "filter (\<lambda>m. im_product m \<noteq> p) (update_where (\<lambda>m. im_id m = i \<and> im_product m = p) (\<lambda>m. m\<lparr>im_primary := True\<rparr>) t)
        = filter (\<lambda>m. im_product m \<noteq> p) t" for t :: "image list"
      by (rule filter_update_where_other) simp_all
    moreover have "filter (\<lambda>m. im_product m \<noteq> p) ?ims = filter (\<lambda>m. im_product m \<noteq> p) (images s)"
      by (rule filter_update_where_other) simp_all
    ultimately show ?thesis unfolding s' by simp
  qed
  let ?le = "\<lambda>a b. if im_primary a = im_primary b then im_sort a \<le> im_sort b else im_primary a"
  let ?mine = "filter (\<lambda>m. im_product m = p) (images s')"
  have "m0\<lparr>im_primary := True\<rparr> \<in> set (images s')"
    unfolding s' set_update_where [where t = "?ims"] by (rule image_eqI [where x = m0]) (use m0 in simp_all)
  then have "m0\<lparr>im_primary := True\<rparr> \<in> set ?mine" "im_id (m0\<lparr>im_primary := True\<rparr>) = i" using m0(2,3) by simp_all
  then obtain m where m: "m \<in> set ?mine" "im_id m = i" by blast
  have sorted: "sorted_wrt ?le (GetProductImages p s')"
    unfolding GetProductImages_def by (rule sorted_order_by) (auto split: if_splits)
  have mem: "set (GetProductImages p s') = set ?mine" by (simp add: GetProductImages_def)
  obtain h t where ht: "GetProductImages p s' = h # t" using m mem by (cases "GetProductImages p s'") auto
  have "im_primary h"
  proof (cases "m = h")
    case False
    then have "?le h m" using sorted ht m mem by auto
    then show ?thesis using one m by (auto split: if_splits)
  qed (use one m in auto)
  then have "im_id h = i" using one ht mem by (metis (mono_tags, lifting) list.set_intros(1) mem_Collect_eq set_filter)
  then show ?thesis using Inr one other ht by simp
qed

theorem primary_image_is_the_one_witness:
  "im_id (hd (GetProductImages 10 (snd (SetPrimaryImage NoFault 10 201 (snd sample_created))))) = 201"
proof -
  obtain r s' where run: "SetPrimaryImage NoFault 10 201 (snd sample_created) = (r, s')" by (metis prod.exhaust)
  have "is_ok (fst (SetPrimaryImage NoFault 10 201 (snd sample_created)))" unfolding sample_created_def by code_simp
  then obtain u where "r = Inr u" using run by (auto simp: is_ok_iff)
  then show ?thesis using primary_image_is_the_one [OF run] run by simp
qed

text \<open>A creation that fails in its transaction, by a second variant with a SKU already taken.\<close>

definition sample_failed :: "(prod_error + product) \<times> shop" where
  "sample_failed = CreateProduct sample_env (NoFault, NoFault, NoFault) (sample_ids 0) (sample_ids 1) sample_clock [0]
     ((sample_product_req ''saw'' [sample_variant ''S1'' 60 5, sample_variant ''S1'' 70 0])
        \<lparr>pc_discount := Some \<lparr>di_id = None, di_name = Some ''Launch'', di_code = None\<rparr>\<rparr>)
     [sample_upload ''a.png'' ''abc''] 3 sample_shop"

theorem failed_creation_keeps_shop_witness:
  "products (snd sample_failed) = products sample_shop \<and> sh_meta (snd sample_failed) = sh_meta sample_shop"
proof -
  have "fst sample_failed = Inl SKUConflict" unfolding sample_failed_def by code_simp
  then have run: "CreateProduct sample_env (NoFault, NoFault, NoFault) (sample_ids 0) (sample_ids 1) sample_clock [0]
     ((sample_product_req ''saw'' [sample_variant ''S1'' 60 5, sample_variant ''S1'' 70 0])
        \<lparr>pc_discount := Some \<lparr>di_id = None, di_name = Some ''Launch'', di_code = None\<rparr>\<rparr>)
     [sample_upload ''a.png'' ''abc''] 3 sample_shop = (Inl SKUConflict, snd sample_failed)"
    by (simp add: sample_failed_def prod_eq_iff)
  show ?thesis using failed_creation_keeps_shop [OF run] by simp
qed

section \<open>Surprises\<close>

text \<open>The failed creation leaves its file and the discount it made for the product.\<close>

lemma failed_creation_leaves_file_and_discount:
  "length (saved_files (snd sample_failed)) = 1 \<and> map dc_name (discs (sh_discs (snd sample_failed))) = [''Launch'']"
  unfolding sample_failed_def by code_simp

text \<open>The variants of a new product are not validated: a blank SKU and a negative price are stored.\<close>

lemma new_product_takes_any_variant:
  "map (\<lambda>v. (v_sku v, v_price v)) (variants (snd (CreateProduct sample_env (NoFault, NoFault, NoFault) (sample_ids 0) (sample_ids 1)
     sample_clock [0] (sample_product_req ''saw'' [sample_variant '' '' (-5) 0]) [sample_upload ''a.png'' ''abc''] 3 sample_shop)))
   = [('' '', -5)]"
  by code_simp

text \<open>Two files of the same name in the same nanosecond get the same path, and one of them is lost.\<close>

lemma equal_names_collide:
  assumes "saveImages e disk (\<lambda>_. now) sched [f, g] fs = (Inr urls, fs')" "up_name f = up_name g" "\<not> kit_on e"
  shows "urls ! 0 = urls ! 1"
proof -
  have same: "fst (projr (processSingleImage e disk now f)) = fst (projr (processSingleImage e disk now g))"
    if "is_ok (processSingleImage e disk now f)" "is_ok (processSingleImage e disk now g)"
    using that assms(2,3) by (auto simp: processSingleImage_def Let_def split: option.splits if_splits)
  have "is_ok (processSingleImage e disk now f)" "is_ok (processSingleImage e disk now g)"
    and "urls = map (\<lambda>r. case r of Inr (path, _) \<Rightarrow> path | Inl _ \<Rightarrow> [])
       [processSingleImage e disk now f, processSingleImage e disk now g]"
    using assms(1) by (auto simp: saveImages_def Let_def upt_rec split: if_splits)
  then show ?thesis using same by (auto simp: is_ok_iff split: prod.splits)
qed

text \<open>A second image added as primary does not replace the first.\<close>

lemma added_primary_is_second:
  "map im_primary (images (snd (AddProductImage sample_env 300 40 10 (sample_upload ''c.png'' ''ghi'') True 0 (snd sample_created))))
     = [True, False, True]"
  unfolding sample_created_def by code_simp

text \<open>A variant whose attribute values cannot be linked stays behind without them.\<close>

lemma variant_left_without_values:
  "case CreateVariant sample_env NoFault NoFault 1500 40 10
       \<lparr>wc_sku = ''S9'', wc_price = 5, wc_weight = None, wc_active = None, wc_values = [77]\<rparr> (snd sample_created) of
     (r, s') \<Rightarrow> \<not> is_ok r \<and> has_variant s' 1500"
  unfolding sample_created_def by code_simp

text \<open>Renaming a product to the name of another one fails, although creating it under that name works.\<close>

lemma rename_has_no_retry:
  assumes "GetProductByID i s = Inr p" "pu_name r = Some n" "n \<noteq> p_name p" "ProductUpdate_Validate req = Inr r"
    and "\<exists>q \<in> set (products s). p_id q \<noteq> i \<and> p_slug q = GenerateSlug (pe_unicode e) n"
    and "is_ok (fst (UpdateProduct e now i req s))"
  shows False
proof -
  have id: "p_id p = i" using assms(1) by (auto simp: GetProductByID_def scanProductOne_def split: option.splits dest: find_Some_iff_mem)
  have "list_ex (\<lambda>r. p_id r \<noteq> i \<and> p_slug r = GenerateSlug (pe_unicode e) n) (products s)"
    using assms(5) by (auto simp: list_ex_iff)
  then show False using assms id
    by (auto simp: UpdateProduct_def repo_UpdateProduct_def product_patch_def is_ok_iff split: option.splits if_splits)
qed

end
