(* ===== verification/Order_Desk.thy ===== *)
theory Order_Desk
  imports Orders Go_Numbers
begin

text \<open>
  Around the orders of \<^theory_text>\<open>Orders\<close>: the HTTP handlers of \<open>internal/handlers/order\<close>, the dashboard numbers
  (\<open>OrderStats\<close>), and the reminder job of \<open>internal/service/worker/order_reminder_job.go\<close> with its statements in
  \<open>order.go\<close>. The mailer and what the identity tables know of a user are arguments.
\<close>

section \<open>Statistics\<close>

record order_stats =
  os_orders :: int
  os_pending :: int
  os_completed :: int
  os_cancelled :: int
  os_revenue :: f64
  os_revenue_day :: f64
  os_revenue_week :: f64
  os_orders_day :: int
  os_orders_week :: int
  os_at :: instant

definition day :: instant where "day = 24 * 3600 * 1000000000"

definition count_orders :: "(order \<Rightarrow> bool) \<Rightarrow> shop \<Rightarrow> int" where
  "count_orders P s = int (length (filter P (sh_orders s)))"

definition earns :: "order \<Rightarrow> bool" where
  "earns r \<longleftrightarrow> o_status r = OrderStatusCompleted \<or> o_status r = OrderStatusDelivered"

text \<open>\<open>SUM\<close> of a \<open>DECIMAL(12,2)\<close> column is exact; the decimal of a stored total is the nearest multiple of a cent.\<close>

definition total_cents :: "order \<Rightarrow> int" where
  "total_cents r = round_even (o_total r * 100)"

definition revenue :: "(order \<Rightarrow> bool) \<Rightarrow> shop \<Rightarrow> f64" where
  "revenue P s = rnd (of_int (sum_list (map total_cents (filter (\<lambda>r. earns r \<and> P r) (sh_orders s)))) / 100)"

text \<open>\<open>sql_now\<close> is the database's clock, \<open>now\<close> the process's.\<close>

definition OrderStats :: "instant \<Rightarrow> instant \<Rightarrow> shop \<Rightarrow> order_stats" where
  "OrderStats sql_now now s =
     \<lparr>os_orders = count_orders (\<lambda>_. True) s, os_pending = count_orders (\<lambda>r. o_status r = OrderStatusPending) s,
      os_completed = count_orders (\<lambda>r. o_status r = OrderStatusCompleted) s,
      os_cancelled = count_orders (\<lambda>r. o_status r = OrderStatusCancelled) s,
      os_revenue = revenue (\<lambda>_. True) s, os_revenue_day = revenue (\<lambda>r. sql_now - day \<le> o_created r) s,
      os_revenue_week = revenue (\<lambda>r. sql_now - 7 * day \<le> o_created r) s,
      os_orders_day = count_orders (\<lambda>r. sql_now - day \<le> o_created r) s,
      os_orders_week = count_orders (\<lambda>r. sql_now - 7 * day \<le> o_created r) s, os_at = now\<rparr>"

section \<open>Reminders\<close>

record reminder =
  rm_order :: id
  rm_number :: string
  rm_total :: f64
  rm_currency :: string
  rm_created :: instant
  rm_user :: "id option"
  rm_email :: string
  rm_name :: string

text \<open>\<open>people\<close>: the e-mail and full name the identity tables have for a user, each possibly missing.\<close>

definition reminder_of :: "(id \<Rightarrow> string option \<times> string option) \<Rightarrow> order \<Rightarrow> reminder" where
  "reminder_of people r =
     (let (mail, name) = (case o_user r of None \<Rightarrow> (None, None) | Some u \<Rightarrow> people u);
          text = (\<lambda>x. case x of None \<Rightarrow> [] | Some t \<Rightarrow> t) in
      \<lparr>rm_order = o_id r, rm_number = o_number r, rm_total = o_total r, rm_currency = o_currency r,
       rm_created = o_created r, rm_user = o_user r, rm_email = text mail, rm_name = text name\<rparr>)"

definition needs_reminder :: "instant \<Rightarrow> instant \<Rightarrow> order \<Rightarrow> bool" where
  "needs_reminder cutoff renotify_cutoff r \<longleftrightarrow> o_status r = OrderStatusPending \<and> o_created r \<le> cutoff
     \<and> (case o_reminder r of None \<Rightarrow> True | Some t \<Rightarrow> t \<le> renotify_cutoff)"

definition ListPendingOrdersNeedingReminder ::
  "instant \<Rightarrow> instant \<Rightarrow> instant \<Rightarrow> (id \<Rightarrow> string option \<times> string option) \<Rightarrow> shop \<Rightarrow> reminder list" where
  "ListPendingOrdersNeedingReminder now olderThan renotifyAfter people s =
     map (reminder_of people) (order_by (\<lambda>a b. o_created a \<le> o_created b)
       (filter (needs_reminder (now - olderThan) (now - renotifyAfter)) (sh_orders s)))"

definition MarkReminderSent :: "bool \<Rightarrow> instant \<Rightarrow> id \<Rightarrow> shop \<Rightarrow> shop" where
  "MarkReminderSent ok now i s =
     (if ok then s\<lparr>sh_orders := update_where (\<lambda>r. o_id r = i) (\<lambda>r. r\<lparr>o_reminder := Some now\<rparr>) (sh_orders s)\<rparr> else s)"

record reminder_job =
  jb_pending_after :: instant
  jb_renotify_after :: instant
  jb_interval :: instant

definition NewOrderReminderJobService :: "instant \<Rightarrow> instant \<Rightarrow> instant \<Rightarrow> reminder_job" where
  "NewOrderReminderJobService p r i =
     \<lparr>jb_pending_after = (if p \<le> 0 then 24 * 3600 * 1000000000 else p),
      jb_renotify_after = (if r \<le> 0 then 24 * 3600 * 1000000000 else r),
      jb_interval = (if i \<le> 0 then 30 * 60 * 1000000000 else i)\<rparr>"

text \<open>One call sees the outside: the clock when listing and when marking, what is known of users, whether the list can
  be read, whether the mail goes out, and which marks succeed.\<close>

record reminder_env =
  rn_now :: instant
  rn_mark :: instant
  rn_people :: "id \<Rightarrow> string option \<times> string option"
  rn_alive :: bool
  rn_mails :: bool
  rn_marks :: "id \<Rightarrow> bool"

text \<open>The digest that was mailed, if any, and the shop after the run. Reading failures are logged by the caller.\<close>

definition reminder_RunOnce :: "reminder_job \<Rightarrow> reminder_env \<Rightarrow> shop \<Rightarrow> reminder list \<times> shop" where
  "reminder_RunOnce j e s =
     (if \<not> rn_alive e then ([], s)
      else let cs = ListPendingOrdersNeedingReminder (rn_now e) (jb_pending_after j) (jb_renotify_after j) (rn_people e) s in
        if cs = [] then ([], s)
        else if \<not> rn_mails e then ([], s)
        else (cs, fold (\<lambda>c. MarkReminderSent (rn_marks e (rm_order c)) (rn_mark e) (rm_order c)) cs s))"

section \<open>Handlers\<close>

text \<open>A reply is a status and, on success, what the body carries.\<close>

definition order_reply :: "nat \<Rightarrow> order_error + 'a \<Rightarrow> nat \<times> 'a option" where
  "order_reply ok r = (case r of Inl er \<Rightarrow> (order_status_code er, None) | Inr x \<Rightarrow> (ok, Some x))"

definition handle_guest_order ::
  "order_env \<Rightarrow> guest_request option \<Rightarrow> shop \<Rightarrow> (nat \<times> order option) \<times> shop" where
  "handle_guest_order e body s =
     (case body of None \<Rightarrow> ((400, None), s)
      | Some r \<Rightarrow> (case CreateGuestOrder e (Some r) s of (res, s') \<Rightarrow> (order_reply 201 res, s')))"

definition handle_user_order ::
  "order_env \<Rightarrow> 'c catalog_view \<Rightarrow> bool \<Rightarrow> id option \<Rightarrow> user_request option \<Rightarrow> 'c market
     \<Rightarrow> (nat \<times> order option) \<times> 'c market" where
  "handle_user_order e w ss me body m =
     (case me of None \<Rightarrow> ((401, None), m)
      | Some u \<Rightarrow> (case body of None \<Rightarrow> ((400, None), m)
        | Some r \<Rightarrow> (case CreateUserOrder e w ss u (Some r) m of (res, m') \<Rightarrow> (order_reply 201 res, m'))))"

text \<open>The identity of the caller is available to the next two handlers; neither reads it.\<close>

definition handle_order_details :: "id option \<Rightarrow> query \<Rightarrow> shop \<Rightarrow> nat \<times> order option" where
  "handle_order_details me q s =
     (if Query q ''id'' = [] then (400, None)
      else case ParseInt (Query q ''id'') of None \<Rightarrow> (400, None) | Some i \<Rightarrow> order_reply 200 (GetOrderByID i s))"

definition status_of :: "string \<Rightarrow> order_status" where
  "status_of t = (if t = ''pending'' then OrderStatusPending else if t = ''completed'' then OrderStatusCompleted
     else if t = ''cancelled'' then OrderStatusCancelled else if t = ''shipped'' then OrderStatusShipped
     else if t = ''delivered'' then OrderStatusDelivered else OtherStatus t)"

definition sort_of :: "string \<Rightarrow> sort_column option" where
  "sort_of t = (if t = ''id'' then Some SortId else if t = ''created_at'' then Some SortCreatedAt
     else if t = ''total_amount'' then Some SortTotalAmount else None)"

text \<open>An empty parameter is skipped; \<open>None\<close> outside is a bad request.\<close>

definition optional :: "(string \<Rightarrow> 'a option) \<Rightarrow> string \<Rightarrow> 'a option option" where
  "optional parse v = (if v = [] then Some None else map_option Some (parse v))"

definition or_zero :: "'a \<Rightarrow> 'a option \<Rightarrow> 'a" where
  "or_zero z x = (case x of None \<Rightarrow> z | Some v \<Rightarrow> v)"

definition read_list_filter :: "(string \<Rightarrow> instant option) \<Rightarrow> query \<Rightarrow> list_filter option" where
  "read_list_filter time q =
     Option.bind (optional ParseInt (Query q ''order_id'')) (\<lambda>oid.
     Option.bind (optional ParseInt (Query q ''user_id'')) (\<lambda>uid.
     Option.bind (optional ParseInt (Query q ''cart_id'')) (\<lambda>cid.
     Option.bind (optional time (Query q ''created_from'')) (\<lambda>from.
     Option.bind (optional time (Query q ''created_to'')) (\<lambda>to.
     Option.bind (optional ParseInt (DefaultQuery q ''limit'' ''20'')) (\<lambda>limit.
     Option.bind (optional ParseInt (DefaultQuery q ''offset'' ''0'')) (\<lambda>offset.
     Option.bind (optional ParseBool (DefaultQuery q ''sort_desc'' ''true'')) (\<lambda>desc.
       Some \<lparr>lf_order = oid, lf_number = (if Query q ''order_number'' = [] then None else Some (Query q ''order_number'')),
             lf_user = uid, lf_cart = cid,
             lf_statuses = (if Query q ''statuses'' = [] then []
                            else map (status_of \<circ> trim_space) (split_on (CHR '','') [] (Query q ''statuses''))),
             lf_from = from, lf_to = to, lf_limit = or_zero 0 limit, lf_offset = or_zero 0 offset,
             lf_sort = sort_of (DefaultQuery q ''sort_by'' ''created_at''), lf_desc = or_zero False desc\<rparr>))))))))"

text \<open>The body's \<open>offset\<close> is the total.\<close>

definition handle_list_orders ::
  "(string \<Rightarrow> instant option) \<Rightarrow> id option \<Rightarrow> query \<Rightarrow> shop \<Rightarrow> nat \<times> (order list \<times> int) option" where
  "handle_list_orders time me q s =
     (case read_list_filter time q of None \<Rightarrow> (400, None) | Some f \<Rightarrow> (200, Some (ListOrders f s)))"

definition handle_order_stats :: "bool \<Rightarrow> instant \<Rightarrow> instant \<Rightarrow> shop \<Rightarrow> nat \<times> order_stats option" where
  "handle_order_stats alive sql_now now s = (if alive then (200, Some (OrderStats sql_now now s)) else (500, None))"

definition handle_order_by_number :: "query \<Rightarrow> shop \<Rightarrow> nat \<times> order option" where
  "handle_order_by_number q s =
     (let n = trim_space (Query q ''order_number'') in
      if n = [] then (400, None) else order_reply 200 (GetOrderByNumber n s))"

definition handle_order_status :: "instant \<Rightarrow> string \<Rightarrow> string option \<Rightarrow> shop \<Rightarrow> (nat \<times> order option) \<times> shop" where
  "handle_order_status now param body s =
     (case ParseInt param of
        None \<Rightarrow> ((400, None), s)
      | Some i \<Rightarrow> if i \<le> 0 then ((400, None), s)
          else (case body of None \<Rightarrow> ((400, None), s)
            | Some st \<Rightarrow> (case UpdateOrderStatus now i (status_of st) s of (res, s') \<Rightarrow> (order_reply 200 res, s'))))"

section \<open>Facts\<close>


lemma rm_order_of [simp]: "rm_order (reminder_of people r) = o_id r"
  by (simp add: reminder_of_def Let_def split_beta)













lemma count_orders_mono: "(\<And>r. P r \<Longrightarrow> Q r) \<Longrightarrow> count_orders P s \<le> count_orders Q s"
proof -
  assume imp: "\<And>r. P r \<Longrightarrow> Q r"
  have "length (filter P xs) \<le> length (filter Q xs)" for xs :: "order list" using imp by (induction xs) auto
  then show ?thesis by (simp add: count_orders_def)
qed

lemma revenue_mono:
  assumes "\<And>r. P r \<Longrightarrow> Q r" "\<forall>r \<in> set (sh_orders s). 0 \<le> o_total r"
  shows "revenue P s \<le> revenue Q s"
proof -
  have pos: "\<forall>r \<in> set (sh_orders s). 0 \<le> total_cents r" using assms(2) by (auto simp: total_cents_def intro: round_even_ge)
  have "sum_list (map total_cents (filter (\<lambda>r. earns r \<and> P r) xs)) \<le> sum_list (map total_cents (filter (\<lambda>r. earns r \<and> Q r) xs))"
    if "set xs \<subseteq> set (sh_orders s)" for xs
    using that assms(1) pos by (induction xs) (auto simp: add_increasing)
  then show ?thesis unfolding revenue_def by (intro rnd_mono divide_right_mono) simp_all
qed

section \<open>Properties\<close>


text \<open>The dashboard: the day is part of the week and the week of the whole, for counts and, with no negative totals, for
  revenue; and the three count_orders statuses are disjoint parts of all orders.\<close>

theorem order_stats_add_up:
  assumes "\<forall>r \<in> set (sh_orders s). 0 \<le> o_total r"
  shows "let x = OrderStats sql_now now s in
    os_orders_day x \<le> os_orders_week x \<and> os_orders_week x \<le> os_orders x
    \<and> os_revenue_day x \<le> os_revenue_week x \<and> os_revenue_week x \<le> os_revenue x
    \<and> os_pending x + os_completed x + os_cancelled x \<le> os_orders x"
proof -
  have "length (filter (\<lambda>r. o_status r = OrderStatusPending) xs) + length (filter (\<lambda>r. o_status r = OrderStatusCompleted) xs)
      + length (filter (\<lambda>r. o_status r = OrderStatusCancelled) xs) \<le> length xs" for xs :: "order list"
    by (induction xs) auto
  then have parts: "count_orders (\<lambda>r. o_status r = OrderStatusPending) s + count_orders (\<lambda>r. o_status r = OrderStatusCompleted) s
      + count_orders (\<lambda>r. o_status r = OrderStatusCancelled) s \<le> count_orders (\<lambda>_. True) s"
    unfolding count_orders_def by (metis (no_types, lifting) filter_True of_nat_add of_nat_le_iff)
  show ?thesis unfolding Let_def OrderStats_def order_stats.simps
    by (intro conjI count_orders_mono revenue_mono [OF _ assms] parts) (simp_all add: day_def)
qed

text \<open>An order of user 7 in a table of its own.\<close>

definition desk_sample :: shop where
  "desk_sample = sample_shop\<lparr>sh_orders := [(new_order sample_env (Some 7) None sample_shipping)\<lparr>o_id := 1, o_created := 0\<rparr>]\<rparr>"

definition desk_env :: "instant \<Rightarrow> reminder_env" where
  "desk_env t = \<lparr>rn_now = t, rn_mark = t, rn_people = (\<lambda>_. (None, None)), rn_alive = True, rn_mails = True, rn_marks = (\<lambda>_. True)\<rparr>"

definition desk_job :: reminder_job where
  "desk_job = NewOrderReminderJobService 0 0 0"



section \<open>What the handlers let through\<close>

text \<open>Any caller with a session reads any order, with its shipping address, by its id, and lists the orders of everyone.\<close>

lemma orders_are_readable_by_anyone:
  "let q = (\<lambda>k. if k = ''id'' then Some ''1'' else None) in
     (case handle_order_details (Some 8) q desk_sample of (st, Some r) \<Rightarrow> st = 200 \<and> o_user r = Some 7 | _ \<Rightarrow> False)
     \<and> (case handle_list_orders (\<lambda>_. None) (Some 8) (\<lambda>_. None) desk_sample of (st, Some (rs, n)) \<Rightarrow> st = 200 \<and> map o_user rs = [Some 7] \<and> n = 1 | _ \<Rightarrow> False)"
  by code_simp

text \<open>A mark that fails after the mail went out repeats the reminder at the next tick.\<close>

lemma failed_mark_repeats_the_reminder:
  "let e = (desk_env day)\<lparr>rn_marks := \<lambda>_. False\<rparr>; s1 = snd (reminder_RunOnce desk_job e desk_sample) in
     map rm_order (fst (reminder_RunOnce desk_job (desk_env (day + 5)) s1)) = [1]"
  by code_simp

end
