(* ===== verification/Reviews.thy ===== *)
theory Reviews
  imports Orders Go_Numbers
begin

text \<open>
  Product reviews: \<open>internal/domain/review\<close>, the service of \<open>internal/service/review\<close>, the repository
  \<open>internal/repository/postgres/reviews.go\<close> and the statuses of \<open>internal/handlers/review\<close>, on the orders of
  \<^theory_text>\<open>Orders\<close>. The table has the constraints of \<open>001_svc_init.sql\<close>: one review per user and product, a rating from 1 to 5.
  Instants are at most in the year 9999, so the RFC 3339 text of an instant parses back to its whole seconds.
\<close>

section \<open>Data\<close>

datatype review_error =
    ReviewInvalidInput | ReviewNotFound | ReviewConflict | ReviewForbidden | ErrReviewWindowEnded
  | ErrOrderNotCompleted | ReviewDbError

record review =
  rv_id :: id
  rv_user :: id
  rv_product :: id
  rv_item :: "id option"
  rv_rating :: int
  rv_comment :: "string option"
  rv_verified :: bool
  rv_created :: instant

record create_review =
  cw_product :: id
  cw_item :: id
  cw_rating :: int
  cw_comment :: "string option"

record item_info =
  in_item :: id
  in_order :: id
  in_user :: "id option"
  in_product :: id
  in_status :: order_status
  in_completed :: instant

text \<open>\<open>fk\<close> tells whether the identity and the product of a row exist.\<close>

record review_env =
  re_id :: id
  re_now :: instant
  re_fk :: bool

section \<open>Repository\<close>

definition review_Create :: "review_env \<Rightarrow> review \<Rightarrow> review list \<Rightarrow> review_error + review \<times> review list" where
  "review_Create e rv t =
     (let row = rv\<lparr>rv_id := re_id e, rv_created := re_now e\<rparr> in
      if \<not> (1 \<le> rv_rating rv \<and> rv_rating rv \<le> 5) then Inl ReviewDbError
      else if list_ex (\<lambda>r. rv_user r = rv_user rv \<and> rv_product r = rv_product rv) t then Inl ReviewConflict
      else if \<not> re_fk e then Inl ReviewDbError
      else Inr (row, t @ [row]))"

definition review_newest_first :: "review \<Rightarrow> review \<Rightarrow> bool" where
  "review_newest_first a b \<longleftrightarrow> rv_created b \<le> rv_created a"

definition ListByProduct :: "id \<Rightarrow> int \<Rightarrow> int \<Rightarrow> review list \<Rightarrow> review list \<times> int" where
  "ListByProduct p limit offset t =
     (let n = (if limit \<le> 0 \<or> 200 < limit then 20 else limit);
          off = (if offset < 0 then 0 else offset);
          rows = filter (\<lambda>r. rv_product r = p) t
      in (take (nat n) (drop (nat off) (order_by review_newest_first rows)), int (length rows)))"

text \<open>\<open>updated_at\<close> is formatted with \<open>time.RFC3339\<close>, which drops the fraction of a second.\<close>

definition second :: instant where
  "second = 1000000000"

definition whole_second :: "instant \<Rightarrow> instant" where
  "whole_second t = (t div second) * second"

definition GetOrderItemForReview :: "id \<Rightarrow> shop \<Rightarrow> review_error + item_info" where
  "GetOrderItemForReview i s =
     (case List.find (\<lambda>it. oi_id it = i) (sh_order_items s) of
        None \<Rightarrow> Inl ReviewNotFound
      | Some it \<Rightarrow> (case List.find (\<lambda>o1. o_id o1 = oi_order it) (sh_orders s) of
          None \<Rightarrow> Inl ReviewNotFound
        | Some o1 \<Rightarrow> Inr \<lparr>in_item = oi_id it, in_order = oi_order it, in_user = o_user o1, in_product = oi_product it,
            in_status = o_status o1, in_completed = whole_second (o_updated o1)\<rparr>))"

section \<open>Service\<close>

definition review_window :: instant where
  "review_window = 7 * 24 * 3600 * second"

definition AddReview ::
  "review_env \<Rightarrow> id \<Rightarrow> create_review option \<Rightarrow> shop \<Rightarrow> review list \<Rightarrow> (review_error + review) \<times> review list" where
  "AddReview e u req s t =
     (case req of
        None \<Rightarrow> (Inl ReviewInvalidInput, t)
      | Some r \<Rightarrow>
          if u \<le> 0 \<or> cw_product r \<le> 0 \<or> cw_item r \<le> 0 then (Inl ReviewInvalidInput, t)
          else if cw_rating r < 1 \<or> 5 < cw_rating r then (Inl ReviewInvalidInput, t)
          else (case GetOrderItemForReview (cw_item r) s of
              Inl er \<Rightarrow> (Inl er, t)
            | Inr info \<Rightarrow>
                if in_user info \<noteq> Some u then (Inl ReviewForbidden, t)
                else if in_product info \<noteq> cw_product r then (Inl ReviewInvalidInput, t)
                else if in_status info \<noteq> OrderStatusDelivered \<and> in_status info \<noteq> OrderStatusCompleted
                then (Inl ErrOrderNotCompleted, t)
                else if review_window < re_now e - in_completed info then (Inl ErrReviewWindowEnded, t)
                else (case review_Create e
                         \<lparr>rv_id = 0, rv_user = u, rv_product = cw_product r, rv_item = Some (cw_item r),
                          rv_rating = cw_rating r, rv_comment = cw_comment r, rv_verified = True, rv_created = 0\<rparr> t of
                    Inl er \<Rightarrow> (Inl er, t) | Inr (rv, t') \<Rightarrow> (Inr rv, t'))))"

definition ListProductReviews :: "id \<Rightarrow> int \<Rightarrow> int \<Rightarrow> review list \<Rightarrow> review_error + review list \<times> int" where
  "ListProductReviews p limit offset t =
     (if p \<le> 0 then Inl ReviewInvalidInput else Inr (ListByProduct p limit offset t))"

section \<open>Handlers\<close>

fun review_status :: "review_error \<Rightarrow> nat" where
  "review_status ReviewInvalidInput = 400"
| "review_status ReviewForbidden = 403"
| "review_status ErrOrderNotCompleted = 422"
| "review_status ErrReviewWindowEnded = 422"
| "review_status ReviewConflict = 409"
| "review_status ReviewNotFound = 404"
| "review_status ReviewDbError = 500"

text \<open>\<open>POST /me/reviews\<close> for the identity of the request, if any; \<open>None\<close> as the body is one that does not decode.\<close>

definition handle_add_review ::
  "review_env \<Rightarrow> id option \<Rightarrow> create_review option \<Rightarrow> shop \<Rightarrow> review list \<Rightarrow> nat \<times> review list" where
  "handle_add_review e u body s t =
     (case u of None \<Rightarrow> (401, t)
      | Some i \<Rightarrow> (case body of None \<Rightarrow> (400, t)
        | Some r \<Rightarrow> (case AddReview e i (Some r) s t of
            (Inl er, t') \<Rightarrow> (review_status er, t') | (Inr _, t') \<Rightarrow> (201, t'))))"

text \<open>\<open>n, _ := strconv.Atoi(s)\<close>: zero for text that is no number, the nearest bound for one beyond 64 bits.\<close>

definition lenient_Atoi :: "string \<Rightarrow> int" where
  "lenient_Atoi s = (case ParseInt s of Some n \<Rightarrow> n
     | None \<Rightarrow> let neg = (s \<noteq> [] \<and> hd s = CHR ''-''); body = (if s \<noteq> [] \<and> (hd s = CHR ''-'' \<or> hd s = CHR ''+'') then tl s else s)
         in if body = [] \<or> read_digits 0 body = None then 0 else if neg then - (2 ^ 63) else 2 ^ 63 - 1)"

text \<open>\<open>GET /catalog/products/:id/reviews\<close>: the page, the total, and the limit and offset as the query gave them.\<close>

definition handle_list_reviews :: "string \<Rightarrow> query \<Rightarrow> review list \<Rightarrow> nat \<times> (review list \<times> int \<times> int \<times> int) option" where
  "handle_list_reviews param q t =
     (case ParseInt param of
        None \<Rightarrow> (400, None)
      | Some p \<Rightarrow>
          if p \<le> 0 then (400, None)
          else let limit = lenient_Atoi (Query q ''limit''); offset = lenient_Atoi (Query q ''offset'') in
            (case ListProductReviews p limit offset t of
               Inl er \<Rightarrow> (review_status er, None)
             | Inr (page, n) \<Rightarrow> (200, Some (page, n, limit, offset))))"

section \<open>Adding a review\<close>

text \<open>What a buyer needs: the order of the item is theirs, closed, and touched within the last seven days.\<close>

definition may_review :: "instant \<Rightarrow> id \<Rightarrow> create_review \<Rightarrow> shop \<Rightarrow> bool" where
  "may_review now u r s \<longleftrightarrow> (\<exists>it o1. List.find (\<lambda>it. oi_id it = cw_item r) (sh_order_items s) = Some it
     \<and> List.find (\<lambda>o1. o_id o1 = oi_order it) (sh_orders s) = Some o1
     \<and> o_user o1 = Some u \<and> oi_product it = cw_product r
     \<and> o_status o1 \<in> {OrderStatusDelivered, OrderStatusCompleted}
     \<and> now \<le> whole_second (o_updated o1) + review_window)"

lemma review_Create_ok:
  "review_Create e rv t = Inr (row, t') \<longleftrightarrow>
     1 \<le> rv_rating rv \<and> rv_rating rv \<le> 5 \<and> (\<forall>r \<in> set t. \<not> (rv_user r = rv_user rv \<and> rv_product r = rv_product rv))
     \<and> re_fk e \<and> row = rv\<lparr>rv_id := re_id e, rv_created := re_now e\<rparr> \<and> t' = t @ [row]"
  by (auto simp: review_Create_def Let_def list_ex_iff)

lemma GetOrderItemForReview_ok:
  "GetOrderItemForReview i s = Inr info \<longleftrightarrow>
     (\<exists>it o1. List.find (\<lambda>it. oi_id it = i) (sh_order_items s) = Some it
       \<and> List.find (\<lambda>o1. o_id o1 = oi_order it) (sh_orders s) = Some o1
       \<and> info = \<lparr>in_item = oi_id it, in_order = oi_order it, in_user = o_user o1, in_product = oi_product it,
            in_status = o_status o1, in_completed = whole_second (o_updated o1)\<rparr>)"
  by (auto simp: GetOrderItemForReview_def split: option.splits)

lemma AddReview_ok:
  "AddReview e u (Some r) s t = (Inr rv, t') \<longleftrightarrow>
     0 < u \<and> 0 < cw_product r \<and> 0 < cw_item r \<and> 1 \<le> cw_rating r \<and> cw_rating r \<le> 5 \<and> may_review (re_now e) u r s
     \<and> (\<forall>x \<in> set t. \<not> (rv_user x = u \<and> rv_product x = cw_product r)) \<and> re_fk e
     \<and> rv = \<lparr>rv_id = re_id e, rv_user = u, rv_product = cw_product r, rv_item = Some (cw_item r),
             rv_rating = cw_rating r, rv_comment = cw_comment r, rv_verified = True, rv_created = re_now e\<rparr>
     \<and> t' = t @ [rv]"
proof (cases "GetOrderItemForReview (cw_item r) s")
  case (Inl er)
  then have "\<not> may_review (re_now e) u r s"
    by (auto simp: may_review_def GetOrderItemForReview_def split: option.splits)
  then show ?thesis using Inl by (simp add: AddReview_def)
next
  case (Inr info)
  then obtain it o1 where
      row: "List.find (\<lambda>it. oi_id it = cw_item r) (sh_order_items s) = Some it"
           "List.find (\<lambda>o1. o_id o1 = oi_order it) (sh_orders s) = Some o1"
    and info: "info = \<lparr>in_item = oi_id it, in_order = oi_order it, in_user = o_user o1, in_product = oi_product it,
            in_status = o_status o1, in_completed = whole_second (o_updated o1)\<rparr>"
    by (auto simp: GetOrderItemForReview_ok)
  have may: "may_review (re_now e) u r s \<longleftrightarrow> in_user info = Some u \<and> in_product info = cw_product r
      \<and> (in_status info = OrderStatusDelivered \<or> in_status info = OrderStatusCompleted)
      \<and> \<not> review_window < re_now e - in_completed info"
    by (auto simp: may_review_def row info)
  show ?thesis
    unfolding AddReview_def Inr may
    by (auto simp: review_Create_def Let_def list_ex_iff Inr)
qed

lemma AddReview_kept: "AddReview e u r s t = (Inl er, t') \<Longrightarrow> t' = t"
  by (auto simp: AddReview_def split: option.splits sum.splits if_splits prod.splits)

section \<open>Reviews while orders change\<close>

record review_db =
  rd_shop :: shop
  rd_reviews :: "review list"












lemma review_newest_first_total: "review_newest_first a b \<or> review_newest_first b a"
  and review_newest_first_trans: "review_newest_first a b \<Longrightarrow> review_newest_first b c \<Longrightarrow> review_newest_first a c"
  by (auto simp: review_newest_first_def)

text \<open>A page of a product's reviews: newest first, at most 200, with the number of all.\<close>

lemma page_facts:
  "a \<le> m \<Longrightarrow> length (take a (drop b xs)) \<le> m" "set (take a (drop b xs)) \<subseteq> set xs"
  "sorted_wrt le xs \<Longrightarrow> sorted_wrt le (take a (drop b xs))"
  by (auto simp: sorted_wrt_drop sorted_wrt_take dest: in_set_takeD in_set_dropD)

lemma ListByProduct_page:
  assumes "ListByProduct p limit offset t = (page, n)"
  shows "n = int (length (filter (\<lambda>r. rv_product r = p) t)) \<and> length page \<le> 200
    \<and> sorted_wrt review_newest_first page \<and> set page \<subseteq> {r \<in> set t. rv_product r = p}"
proof -
  let ?all = "order_by review_newest_first (filter (\<lambda>r. rv_product r = p) t)"
  let ?a = "nat (if limit \<le> 0 \<or> 200 < limit then 20 else limit)"
  let ?b = "nat (if offset < 0 then 0 else offset)"
  have sorted: "sorted_wrt review_newest_first ?all" using sorted_order_by review_newest_first_total review_newest_first_trans by blast
  have page: "page = take ?a (drop ?b ?all)" and n: "n = int (length (filter (\<lambda>r. rv_product r = p) t))"
    using assms by (simp_all only: ListByProduct_def Let_def prod.inject)
  have "?a \<le> 200" by (auto simp: nat_le_iff)
  moreover have "set ?all = {r \<in> set t. rv_product r = p}" by simp
  ultimately show ?thesis unfolding page n using page_facts(1) [of ?a 200] page_facts(2) page_facts(3) [OF sorted] by metis
qed

text \<open>Without a limit in the query the page holds up to twenty reviews, but the body says the limit is zero.\<close>

lemma listing_echoes_the_raw_limit:
  "handle_list_reviews ''5'' (\<lambda>_. None) t = (200, Some (fst (ListByProduct 5 20 0 t), int (length (filter (\<lambda>r. rv_product r = 5) t)), 0, 0))"
proof -
  have "ParseInt ''5'' = Some 5" "lenient_Atoi [] = 0" by code_simp+
  then show ?thesis by (simp add: handle_list_reviews_def Query_def ListProductReviews_def ListByProduct_def Let_def)
qed

section \<open>Properties\<close>

text \<open>A review is stored exactly when its request is well formed (positive ids, rating 1 to 5), the order item
  exists and is of the product named, its order belongs to the caller, is delivered or completed and was last updated
  at most seven days before (counted from the whole second), and the caller has not reviewed the product; it is then
  the last row, verified, with the caller as its author, and the answer is 201. Otherwise nothing is stored and the
  answer is the status of the error.\<close>

theorem review_stored_iff_bought:
  "if 0 < u \<and> 0 < cw_product r \<and> 0 < cw_item r \<and> 1 \<le> cw_rating r \<and> cw_rating r \<le> 5
      \<and> may_review (re_now e) u r s \<and> u \<notin> {rv_user x | x. x \<in> set t \<and> rv_product x = cw_product r} \<and> re_fk e
   then \<exists>rv. AddReview e u (Some r) s t = (Inr rv, t @ [rv])
        \<and> rv = \<lparr>rv_id = re_id e, rv_user = u, rv_product = cw_product r, rv_item = Some (cw_item r),
              rv_rating = cw_rating r, rv_comment = cw_comment r, rv_verified = True, rv_created = re_now e\<rparr>
        \<and> handle_add_review e (Some u) (Some r) s t = (201, t @ [rv])
   else \<exists>er. AddReview e u (Some r) s t = (Inl er, t) \<and> handle_add_review e (Some u) (Some r) s t = (review_status er, t)"
  (is "if ?c then _ else _")
proof (cases ?c)
  case True
  then have *: "AddReview e u (Some r) s t = (Inr rv, t') \<longleftrightarrow>
     rv = \<lparr>rv_id = re_id e, rv_user = u, rv_product = cw_product r, rv_item = Some (cw_item r), rv_rating = cw_rating r,
           rv_comment = cw_comment r, rv_verified = True, rv_created = re_now e\<rparr> \<and> t' = t @ [rv]" for rv t'
    by (auto simp: AddReview_ok)
  show ?thesis unfolding if_P [OF True] by (simp only: * simp_thms ex_simps) (simp add: handle_add_review_def iffD2 [OF *])
next
  case False
  obtain res t' where run: "AddReview e u (Some r) s t = (res, t')" by (cases "AddReview e u (Some r) s t")
  then obtain er where "res = Inl er" using False by (cases res) (auto simp: AddReview_ok)
  then have "AddReview e u (Some r) s t = (Inl er, t)" using run AddReview_kept by fastforce
  then show ?thesis using False by (auto simp: handle_add_review_def)
qed


text \<open>An order of user 7, delivered at instant 0, and a review of its lamp.\<close>

definition lamp_line :: order_item where
  "lamp_line = \<lparr>oi_id = 1, oi_order = 1, oi_product = 5, oi_variant = Some 3, oi_name = ''Lamp'', oi_slug = None,
     oi_price = 250, oi_quantity = 1, oi_discount = 0, oi_tax_rate = 0, oi_total = 250, oi_currency = ''KES''\<rparr>"

definition lamp_order :: order where
  "lamp_order = (new_order sample_env (Some 7) None sample_shipping)\<lparr>o_id := 1, o_status := OrderStatusDelivered, o_updated := 0\<rparr>"

definition lamp_db :: review_db where
  "lamp_db = \<lparr>rd_shop = sample_shop\<lparr>sh_orders := [lamp_order], sh_order_items := [lamp_line]\<rparr>, rd_reviews = []\<rparr>"

definition praise :: create_review where
  "praise = \<lparr>cw_product = 5, cw_item = 1, cw_rating = 4, cw_comment = None\<rparr>"


text \<open>The window is counted from \<open>updated_at\<close>: thirty days later the review is refused, but any status call on the
  order, such as marking it delivered once more, opens the window again.\<close>

lemma status_call_reopens_the_review_window:
  "let month = 30 * 24 * 3600 * second; e = \<lparr>re_id = 1, re_now = month + 1, re_fk = True\<rparr>; s = rd_shop lamp_db in
     fst (AddReview e 7 (Some praise) s []) = Inl ErrReviewWindowEnded
     \<and> is_ok (fst (AddReview e 7 (Some praise) (snd (UpdateOrderStatus month 1 OrderStatusDelivered s)) []))"
  by code_simp

text \<open>The table allows one review per product, not one per order item.\<close>

lemma second_purchase_cannot_be_reviewed:
  "let s = rd_shop lamp_db\<lparr>sh_order_items := [lamp_line, lamp_line\<lparr>oi_id := 2\<rparr>]\<rparr>;
       e = \<lparr>re_id = 1, re_now = 9, re_fk = True\<rparr>; t = snd (AddReview e 7 (Some praise) s [])
   in length t = 1 \<and> AddReview e 7 (Some (praise\<lparr>cw_item := 2\<rparr>)) s t = (Inl ReviewConflict, t)"
  by code_simp

end
