(* ===== verification/Listing.thy ===== *)
theory Listing
  imports Product
begin

text \<open>
  Product cards and the catalogue listing: \<open>internal/domain/discovery\<close> (\<open>ProductCard\<close>) and
  \<open>internal/repository/postgres/product_listing.go\<close>, with the service's \<open>ListProducts\<close>. The statements are read
  over the shop of \<open>Product\<close>: every common table expression is a definition.
\<close>

section \<open>What the database does\<close>

text \<open>
  \<open>fe_percent v p\<close> is \<open>((v / p) * 100)::DOUBLE PRECISION\<close> and \<open>fe_round2\<close> is \<open>ROUND(x::NUMERIC, 2)::DOUBLE
  PRECISION\<close>; \<open>fe_ilike\<close> matches \<open>%\<close> text \<open>%\<close>, \<open>fe_like\<close> matches a text against a prefix pattern, \<open>fe_collate\<close>
  is the order of texts, \<open>fe_epoch\<close> is \<open>EXTRACT(EPOCH ...)\<close>, \<open>fe_ratio d\<close> is \<open>1.0 / (d + 1)\<close>; the last ones are
  the functions of full text search and trigrams.
\<close>

record feed_env =
  fe_unicode :: unicode
  fe_percent :: "f64 \<Rightarrow> f64 \<Rightarrow> f64"
  fe_round2 :: "f64 \<Rightarrow> f64"
  fe_ilike :: "string \<Rightarrow> string \<Rightarrow> bool"
  fe_like :: "string \<Rightarrow> string \<Rightarrow> bool"
  fe_collate :: "string \<Rightarrow> string \<Rightarrow> bool"
  fe_lower :: "string \<Rightarrow> string"
  fe_epoch :: "instant \<Rightarrow> f64"
  fe_ratio :: "int \<Rightarrow> f64"
  fe_ts_empty :: "string \<Rightarrow> bool"
  fe_ts_match :: "string \<Rightarrow> string \<Rightarrow> bool"
  fe_ts_rank :: "string \<Rightarrow> string \<Rightarrow> f64"
  fe_similar :: "string \<Rightarrow> string \<Rightarrow> f64"
  fe_word_similar :: "string \<Rightarrow> string \<Rightarrow> f64"
  fe_known_user :: "id \<Rightarrow> bool"

definition coalesce :: "'a \<Rightarrow> 'a option \<Rightarrow> 'a" where
  "coalesce d x = (case x of None \<Rightarrow> d | Some y \<Rightarrow> y)"

text \<open>\<open>COALESCE(MAX(x), 0)\<close> over a group.\<close>

definition max_or_0 :: "f64 list \<Rightarrow> f64" where
  "max_or_0 xs = (if xs = [] then 0 else Max (set xs))"

section \<open>Discounts and stock of a product\<close>

definition active_discounts :: "instant \<Rightarrow> shop \<Rightarrow> disc list" where
  "active_discounts now s =
     filter (\<lambda>d. dc_active d \<and> opt_all (\<lambda>a. a \<le> now) (dc_starts d) \<and> opt_all (\<lambda>b. now \<le> b) (dc_ends d))
       (discs (sh_discs s))"

text \<open>The percentage of a discount on a price; \<open>NULLIF\<close> makes it \<open>NULL\<close> for a fixed amount on a price of 0.\<close>

definition percent_of :: "feed_env \<Rightarrow> f64 \<Rightarrow> disc \<Rightarrow> f64 option" where
  "percent_of e price d =
     (if dc_type d = ''percentage'' then Some (dc_value d)
      else if price = 0 then None else Some (fe_percent e (dc_value d) price))"

definition targeted :: "instant \<Rightarrow> shop \<Rightarrow> string \<Rightarrow> id \<Rightarrow> disc list" where
  "targeted now s ty i =
     concat (map (\<lambda>t. filter (\<lambda>d. dc_id d = tg_disc t) (active_discounts now s))
       (filter (\<lambda>t. tg_type t = ty \<and> tg_id t = i) (disc_targets (sh_discs s))))"

definition categories_of :: "shop \<Rightarrow> id \<Rightarrow> id list" where
  "categories_of s i = map snd (filter (\<lambda>l. fst l = i) (links (sh_cats s)))"

definition product_discounts :: "instant \<Rightarrow> shop \<Rightarrow> product \<Rightarrow> disc list" where
  "product_discounts now s p =
     targeted now s ''product'' (p_id p)
     @ (case p_brand p of None \<Rightarrow> [] | Some b \<Rightarrow> targeted now s ''brand'' b)
     @ concat (map (targeted now s ''category'') (categories_of s (p_id p)))"

definition best_discount_percent :: "feed_env \<Rightarrow> instant \<Rightarrow> shop \<Rightarrow> product \<Rightarrow> f64" where
  "best_discount_percent e now s p =
     max_or_0 (map (\<lambda>d. coalesce 0 (percent_of e (p_price p) d)) (product_discounts now s p))"

text \<open>A \<open>NUMERIC\<close> times a \<open>DOUBLE PRECISION\<close> is computed in \<open>DOUBLE PRECISION\<close>.\<close>

definition effective_price :: "feed_env \<Rightarrow> f64 \<Rightarrow> f64 \<Rightarrow> f64" where
  "effective_price e price pct = fe_round2 e (fmul price (fsub 1 (fdiv pct 100)))"

definition available_inventory :: "shop \<Rightarrow> id \<Rightarrow> int" where
  "available_inventory s i =
     sum_list (map (\<lambda>v. sum_list (map (\<lambda>r. it_available r - it_reserved r)
                          (filter (\<lambda>r. it_variant r = v_id v) (items (sh_stock s)))))
       (filter (\<lambda>v. v_product v = i \<and> v_active v) (variants s)))"

section \<open>Cards\<close>

record card =
  cd_id :: id
  cd_name :: string
  cd_slug :: string
  cd_image :: string
  cd_price :: f64
  cd_discount :: f64
  cd_rating :: f64
  cd_reviews :: int
  cd_stock :: string
  cd_brand :: string
  cd_category :: string

text \<open>\<open>ORDER BY is_primary DESC, sort_order ASC, id ASC\<close> and \<open>ORDER BY name ASC, id ASC\<close>.\<close>

definition image_before :: "image \<Rightarrow> image \<Rightarrow> bool" where
  "image_before a b \<longleftrightarrow> (im_primary a \<and> \<not> im_primary b) \<or>
     (im_primary a = im_primary b \<and> (im_sort a < im_sort b \<or> im_sort a = im_sort b \<and> im_id a \<le> im_id b))"

definition category_before :: "feed_env \<Rightarrow> cat \<Rightarrow> cat \<Rightarrow> bool" where
  "category_before e a b \<longleftrightarrow> fe_collate e (c_name a) (c_name b) \<and>
     (fe_collate e (c_name b) (c_name a) \<longrightarrow> c_id a \<le> c_id b)"

definition primary_image :: "shop \<Rightarrow> id \<Rightarrow> image option" where
  "primary_image s i = (case order_by image_before (filter (\<lambda>m. im_product m = i) (images s)) of [] \<Rightarrow> None | m # _ \<Rightarrow> Some m)"

definition primary_category :: "feed_env \<Rightarrow> shop \<Rightarrow> id \<Rightarrow> cat option" where
  "primary_category e s i =
     (case order_by (category_before e)
             (concat (map (\<lambda>c. filter (\<lambda>r. c_id r = c) (cats (sh_cats s))) (categories_of s i))) of
        [] \<Rightarrow> None | c # _ \<Rightarrow> Some c)"

definition stock_status :: "int \<Rightarrow> string" where
  "stock_status n = (if n \<le> 0 then ''out_of_stock'' else if n \<le> 5 then ''low_stock'' else ''in_stock'')"

text \<open>One row of the final \<open>SELECT\<close>. The stock summary joins the requested ids, so an id requested \<open>k\<close> times counts
  its stock \<open>k\<close> times.\<close>

definition card_of :: "feed_env \<Rightarrow> instant \<Rightarrow> shop \<Rightarrow> nat \<Rightarrow> product \<Rightarrow> card" where
  "card_of e now s k p =
     (let pct = best_discount_percent e now s p in
      \<lparr>cd_id = p_id p, cd_name = p_name p, cd_slug = p_slug p,
       cd_image = (case primary_image s (p_id p) of None \<Rightarrow> [] | Some m \<Rightarrow> im_url m),
       cd_price = effective_price e (p_price p) pct, cd_discount = pct,
       cd_rating = p_rating p, cd_reviews = p_reviews p,
       cd_stock = stock_status (int k * available_inventory s (p_id p)),
       cd_brand = (case p_brand p of None \<Rightarrow> []
          | Some b \<Rightarrow> (case List.find (\<lambda>r. b_id r = b) (brands (sh_meta s)) of None \<Rightarrow> [] | Some r \<Rightarrow> b_name r)),
       cd_category = (case primary_category e s (p_id p) of None \<Rightarrow> [] | Some c \<Rightarrow> c_name c)\<rparr>)"

definition hydrateDiscoveryProductCards :: "feed_env \<Rightarrow> instant \<Rightarrow> shop \<Rightarrow> id list \<Rightarrow> card list" where
  "hydrateDiscoveryProductCards e now s is =
     concat (map (\<lambda>i. map (card_of e now s (count_list is i)) (filter (\<lambda>p. p_id p = i) (products s))) is)"

section \<open>The listing\<close>

datatype list_error = BadPage | BadSort | ListDbError

record catalog_filter =
  kf_status :: "string option"
  kf_brand :: "id option"
  kf_brands :: "id list"
  kf_category :: "id option"
  kf_featured :: "bool option"
  kf_search :: "string option"
  kf_price_min :: "f64 option"
  kf_price_max :: "f64 option"
  kf_min_rating :: "f64 option"
  kf_discount_only :: bool
  kf_in_stock :: bool
  kf_tags :: "id list"

record list_request =
  kr_page :: int
  kr_size :: int
  kr_filter :: catalog_filter

text \<open>\<open>buildCatalogQueryParts\<close>: the joins and the \<open>WHERE\<close> clause, of which the statement keeps each product once.\<close>

definition catalog_matches :: "feed_env \<Rightarrow> instant \<Rightarrow> shop \<Rightarrow> catalog_filter \<Rightarrow> product \<Rightarrow> bool" where
  "catalog_matches e now s f p =
     (let pct = best_discount_percent e now s p; price = effective_price e (p_price p) pct in
      (kf_in_stock f \<longrightarrow> 0 < available_inventory s (p_id p)) \<and>
      opt_all (\<lambda>x. p_status p = x) (kf_status f) \<and>
      opt_all (\<lambda>b. p_brand p = Some b) (kf_brand f) \<and>
      (kf_brands f \<noteq> [] \<longrightarrow> list_ex (\<lambda>b. p_brand p = Some b) (kf_brands f)) \<and>
      opt_all (\<lambda>b. p_featured p = b) (kf_featured f) \<and>
      opt_all (\<lambda>q. trim_space q \<noteq> [] \<longrightarrow> fe_ilike e (p_name p) q \<or> (case p_short p of None \<Rightarrow> False | Some d \<Rightarrow> fe_ilike e d q))
        (kf_search f) \<and>
      opt_all (\<lambda>c. c \<in> set (categories_of s (p_id p))) (kf_category f) \<and>
      (kf_tags f \<noteq> [] \<longrightarrow> list_ex (\<lambda>l. fst l = p_id p \<and> snd l \<in> set (kf_tags f)) (product_tags (sh_meta s))) \<and>
      opt_all (\<lambda>x. x \<le> price) (kf_price_min f) \<and>
      opt_all (\<lambda>x. price \<le> x) (kf_price_max f) \<and>
      opt_all (\<lambda>x. x \<le> p_rating p) (kf_min_rating f) \<and>
      (kf_discount_only f \<longrightarrow> 0 < pct))"

datatype catalog_order = ByNewest | ByMetric | ByRating | ByPriceUp | ByPriceDown

definition catalogOrderBy :: "unicode \<Rightarrow> string \<Rightarrow> catalog_order option" where
  "catalogOrderBy u key =
     (let k = trim_space (to_lower u key) in
      if k = [] \<or> k = ''new_arrivals'' then Some ByNewest
      else if k = ''trending'' \<or> k = ''best_sellers'' then Some ByMetric
      else if k = ''rating'' then Some ByRating
      else if k = ''price_asc'' then Some ByPriceUp
      else if k = ''price_desc'' then Some ByPriceDown
      else None)"

definition id_desc :: "product \<Rightarrow> product \<Rightarrow> bool" where
  "id_desc a b \<longleftrightarrow> p_id b \<le> p_id a"

definition catalog_before :: "catalog_order \<Rightarrow> product \<Rightarrow> product \<Rightarrow> bool" where
  "catalog_before o' a b =
     (case o' of
        ByNewest \<Rightarrow> p_created b < p_created a \<or> p_created a = p_created b \<and> id_desc a b
      | ByMetric \<Rightarrow> id_desc a b
      | ByRating \<Rightarrow> p_rating b < p_rating a
          \<or> p_rating a = p_rating b \<and> (p_reviews b < p_reviews a \<or> p_reviews a = p_reviews b \<and> id_desc a b)
      | ByPriceUp \<Rightarrow> p_price a < p_price b \<or> p_price a = p_price b \<and> id_desc a b
      | ByPriceDown \<Rightarrow> p_price b < p_price a \<or> p_price a = p_price b \<and> id_desc a b)"

definition page_size :: "int \<Rightarrow> int" where
  "page_size n = (let n1 = (if n \<le> 0 then 20 else n) in if 100 < n1 then 100 else n1)"

text \<open>
  The statement for the ids groups by \<open>p.id\<close>. Columns of \<open>products\<close> depend on its primary key, columns of the joined
  \<open>product_metrics\<close> do not: PostgreSQL rejects the two orders that name them. A negative \<open>OFFSET\<close> is an error.
\<close>

definition ListProductsForCatalog ::
  "feed_env \<Rightarrow> instant \<Rightarrow> list_request \<Rightarrow> string \<Rightarrow> shop \<Rightarrow> list_error + card list \<times> int" where
  "ListProductsForCatalog e now r key s =
     (if kr_page r < 1 then Inl BadPage
      else let size = page_size (kr_size r); rows = filter (catalog_matches e now s (kr_filter r)) (products s) in
      (case catalogOrderBy (fe_unicode e) key of
         None \<Rightarrow> Inl BadSort
       | Some o' \<Rightarrow>
           let off = i64 (i64 (kr_page r - 1) * size) in
           if o' = ByMetric \<or> off < 0 then Inl ListDbError
           else Inr (hydrateDiscoveryProductCards e now s
                       (map p_id (take (nat size) (drop (nat off) (order_by (catalog_before o') rows)))),
                     int (length rows))))"

definition ListProducts ::
  "feed_env \<Rightarrow> instant \<Rightarrow> list_request \<Rightarrow> string \<Rightarrow> shop \<Rightarrow> list_error + card list \<times> int" where
  "ListProducts e now r key s =
     (let r1 = (if kr_page r < 1 then r\<lparr>kr_page := 1\<rparr> else r);
          r2 = (if kr_size r1 < 1 \<or> 100 < kr_size r1 then r1\<lparr>kr_size := 20\<rparr> else r1)
      in ListProductsForCatalog e now r2 key s)"

end
