(* ===== verification/Discovery.thy ===== *)
theory Discovery
  imports Listing
begin

text \<open>
  Discovery feeds: the requests of \<open>internal/domain/discovery\<close>, the candidate queries, suggestions and search tracking
  of \<open>discovery_repo.go\<close> and \<open>discovery_queries.go\<close>, and the periodic tables of \<open>discovery_metrics_repo.go\<close>. A
  candidate is a product id with its named signals.
\<close>

section \<open>Requests\<close>

datatype disco_error =
    BadFeedType | FeedCategoryRequired | BadCategoryID | BadUserID | BadFilterID | BadPriceRange | BadRatingFilter
  | FeedUserRequired | UserOrSessionRequired | BadSearchEvent | BadProductID | BadPosition | NegativeResultCount
  | QueryRequired | PrefixRequired | FeedNotImplemented | DiscoDbError | FeedCategoryError cat_error

record feed_filters =
  ff_brands :: "id list"
  ff_tags :: "id list"
  ff_values :: "id list"
  ff_price_min :: "f64 option"
  ff_price_max :: "f64 option"
  ff_min_rating :: "f64 option"
  ff_discount_only :: bool
  ff_in_stock :: bool

record feed_request =
  fq_type :: string
  fq_user :: "id option"
  fq_session :: "string option"
  fq_category :: "id option"
  fq_query :: "string option"
  fq_limit :: int
  fq_filters :: feed_filters

definition feed_types :: "string list" where
  "feed_types = [''trending'', ''best_sellers'', ''recommended'', ''category'', ''deals'', ''new_arrivals'',
     ''highly_rated'', ''most_wishlisted'', ''also_viewed'', ''featured'', ''editorial'', ''search'']"

fun normalize_loop :: "id list \<Rightarrow> id list \<Rightarrow> disco_error + id list" where
  "normalize_loop [] out = Inr out"
| "normalize_loop (v # vs) out =
     (if v \<le> 0 then Inl BadFilterID
      else if v \<in> set out then normalize_loop vs out else normalize_loop vs (out @ [v]))"

definition normalizeFilterIDs :: "id list \<Rightarrow> disco_error + id list" where
  "normalizeFilterIDs vs = (case normalize_loop vs [] of Inl err \<Rightarrow> Inl err | Inr out \<Rightarrow> Inr (sort out))"

definition clamp_limit :: "int \<Rightarrow> int \<Rightarrow> int \<Rightarrow> int" where
  "clamp_limit d m n = (let n1 = (if n \<le> 0 then d else n) in if m < n1 then m else n1)"

definition trim_session :: "string option \<Rightarrow> string option" where
  "trim_session s = (case s of None \<Rightarrow> None | Some x \<Rightarrow> if trim_space x = [] then None else Some (trim_space x))"

definition inverted :: "f64 option \<Rightarrow> f64 option \<Rightarrow> bool" where
  "inverted a b = (case a of None \<Rightarrow> False | Some x \<Rightarrow> (case b of None \<Rightarrow> False | Some y \<Rightarrow> y < x))"

definition validate_filters :: "feed_filters \<Rightarrow> disco_error + feed_filters" where
  "validate_filters f =
     bind_res (normalizeFilterIDs (ff_brands f)) (\<lambda>bs.
     bind_res (normalizeFilterIDs (ff_tags f)) (\<lambda>ts.
     bind_res (normalizeFilterIDs (ff_values f)) (\<lambda>vs.
       if inverted (ff_price_min f) (ff_price_max f) then Inl BadPriceRange
       else if \<not> opt_all (\<lambda>x. 0 \<le> x \<and> x \<le> 5) (ff_min_rating f) then Inl BadRatingFilter
       else Inr (f\<lparr>ff_brands := bs, ff_tags := ts, ff_values := vs\<rparr>))))"

definition FeedRequest_Validate :: "feed_request \<Rightarrow> disco_error + feed_request" where
  "FeedRequest_Validate r =
     (let ty = trim_space (fq_type r); ses = trim_session (fq_session r); qry = map_option trim_space (fq_query r) in
      if ty \<notin> set feed_types then Inl BadFeedType
      else if \<not> opt_all (\<lambda>u. 0 < u) (fq_user r) then Inl BadUserID
      else if \<not> opt_all (\<lambda>c. 0 < c) (fq_category r) then Inl BadCategoryID
      else if ty = ''category'' \<and> fq_category r = None then Inl FeedCategoryRequired
      else if ty = ''search'' \<and> (qry = None \<or> qry = Some []) then Inl QueryRequired
      else if ty = ''recommended'' \<and> fq_user r = None then Inl FeedUserRequired
      else if ty = ''also_viewed'' \<and> fq_user r = None \<and> ses = None then Inl UserOrSessionRequired
      else bind_res (validate_filters (fq_filters r)) (\<lambda>f.
        Inr (r\<lparr>fq_type := ty, fq_session := ses, fq_query := qry, fq_limit := clamp_limit 20 100 (fq_limit r),
               fq_filters := f\<rparr>)))"

record suggest_request =
  sq_prefix :: string
  sq_limit :: int

definition SuggestRequest_Validate :: "suggest_request \<Rightarrow> disco_error + suggest_request" where
  "SuggestRequest_Validate r =
     (let p = trim_space (sq_prefix r) in
      if p = [] then Inl PrefixRequired
      else Inr (r\<lparr>sq_prefix := p, sq_limit := clamp_limit 10 20 (sq_limit r)\<rparr>))"

record search_position =
  sp_product :: id
  sp_position :: int
  sp_score :: f64

record search_report =
  sr_query :: string
  sr_normal :: string
  sr_user :: "id option"
  sr_session :: "string option"
  sr_count :: int
  sr_results :: "search_position list"

fun check_results :: "search_position list \<Rightarrow> disco_error + unit" where
  "check_results [] = Inr ()"
| "check_results (x # xs) =
     (if sp_product x \<le> 0 then Inl BadProductID else if sp_position x \<le> 0 then Inl BadPosition else check_results xs)"

definition SearchEvent_Validate :: "unicode \<Rightarrow> search_report \<Rightarrow> disco_error + search_report" where
  "SearchEvent_Validate u r =
     (let q = trim_space (sr_query r) in
      if q = [] then Inl QueryRequired
      else if \<not> opt_all (\<lambda>i. 0 < i) (sr_user r) then Inl BadUserID
      else if sr_count r < 0 then Inl NegativeResultCount
      else bind_res (check_results (sr_results r)) (\<lambda>_.
        Inr (r\<lparr>sr_query := q, sr_normal := to_lower u q, sr_session := trim_session (sr_session r)\<rparr>)))"

record click_report =
  cr_event :: id
  cr_product :: id
  cr_position :: int
  cr_user :: "id option"
  cr_session :: "string option"

definition SearchClickEvent_Validate :: "click_report \<Rightarrow> disco_error + click_report" where
  "SearchClickEvent_Validate r =
     (if cr_event r \<le> 0 then Inl BadSearchEvent
      else if cr_product r \<le> 0 then Inl BadProductID
      else if cr_position r \<le> 0 then Inl BadPosition
      else if \<not> opt_all (\<lambda>i. 0 < i) (cr_user r) then Inl BadUserID
      else Inr (r\<lparr>cr_session := trim_session (cr_session r)\<rparr>))"

section \<open>Tables\<close>

record metric =
  mt_product :: id
  mt_trending :: f64
  mt_daily :: int
  mt_weekly :: int
  mt_purchases :: int
  mt_conversion :: f64
  mt_updated :: instant

record section_row =
  hs_type :: string
  hs_ref :: "id option"
  hs_sort :: int
  hs_active :: bool

record event_row =
  ev_product :: id
  ev_user :: "id option"
  ev_session :: "string option"
  ev_type :: string
  ev_qty :: int
  ev_at :: instant

text \<open>\<open>bought\<close> is \<open>order_items\<close> joined with \<open>orders\<close>, \<open>wished\<close> is \<open>wishlist_items\<close> joined with \<open>wishlists\<close>.\<close>

record bought_row =
  bt_user :: "id option"
  bt_product :: id
  bt_qty :: int
  bt_at :: instant

record wished_row =
  wi_user :: id
  wi_product :: id
  wi_added :: instant

record search_row =
  se_id :: id
  se_query :: string
  se_normal :: string
  se_user :: "id option"
  se_session :: "string option"
  se_count :: int

record feed_db =
  fd_shop :: shop
  fd_metrics :: "metric list"
  fd_sections :: "section_row list"
  fd_events :: "event_row list"
  fd_bought :: "bought_row list"
  fd_wished :: "wished_row list"
  fd_affinity :: "(id \<times> id \<times> f64) list"
  fd_co_views :: "(id \<times> id \<times> f64) list"
  fd_searches :: "search_row list"
  fd_positions :: "(id \<times> search_position) list"
  fd_clicks :: "click_report list"

section \<open>Eligible products\<close>

text \<open>\<open>buildEligibleProductsCTE\<close>: its discount candidates are those of active products.\<close>

definition eligible_percent :: "feed_env \<Rightarrow> instant \<Rightarrow> shop \<Rightarrow> product \<Rightarrow> f64" where
  "eligible_percent e now s p = (if p_status p = ''active'' then best_discount_percent e now s p else 0)"

definition variant_has_values :: "shop \<Rightarrow> id list \<Rightarrow> variant \<Rightarrow> bool" where
  "variant_has_values s vs v \<longleftrightarrow>
     (let hits = remdups (map snd (filter (\<lambda>l. fst l = v_id v \<and> snd l \<in> set vs) (variant_values (sh_meta s))))
      in hits \<noteq> [] \<and> length hits = length vs)"

definition eligible_product :: "feed_env \<Rightarrow> instant \<Rightarrow> shop \<Rightarrow> feed_filters \<Rightarrow> id option \<Rightarrow> product \<Rightarrow> bool" where
  "eligible_product e now s f cat p =
     (let pct = eligible_percent e now s p; price = effective_price e (p_price p) pct in
      p_status p = ''active'' \<and>
      (ff_in_stock f \<longrightarrow> 0 < available_inventory s (p_id p)) \<and>
      (ff_brands f = [] \<or> list_ex (\<lambda>b. p_brand p = Some b) (ff_brands f)) \<and>
      opt_all (\<lambda>x. x \<le> price) (ff_price_min f) \<and>
      opt_all (\<lambda>x. price \<le> x) (ff_price_max f) \<and>
      (ff_tags f = [] \<or> list_ex (\<lambda>l. fst l = p_id p \<and> snd l \<in> set (ff_tags f)) (product_tags (sh_meta s))) \<and>
      opt_all (\<lambda>x. x \<le> p_rating p) (ff_min_rating f) \<and>
      (ff_discount_only f \<longrightarrow> 0 < pct) \<and>
      (ff_values f = [] \<or> list_ex (\<lambda>v. v_product v = p_id p \<and> v_active v \<and> variant_has_values s (ff_values f) v) (variants s)) \<and>
      opt_all (\<lambda>c. list_ex (\<lambda>l. l = (p_id p, c)) (links (sh_cats s))) cat)"

definition eligibleCategoryID :: "feed_request \<Rightarrow> id option" where
  "eligibleCategoryID r = (if fq_type r = ''category'' then None else fq_category r)"

section \<open>Ranking\<close>

type_synonym ranked = "id \<times> f64 list"
type_synonym candidate = "id \<times> (string \<times> f64) list"

text \<open>\<open>ORDER BY k1 DESC, ..., product_id DESC\<close>.\<close>

fun key_ge :: "f64 list \<Rightarrow> id \<Rightarrow> f64 list \<Rightarrow> id \<Rightarrow> bool" where
  "key_ge [] i [] j \<longleftrightarrow> j \<le> i"
| "key_ge [] i (y # ys) j \<longleftrightarrow> False"
| "key_ge (x # xs) i [] j \<longleftrightarrow> True"
| "key_ge (x # xs) i (y # ys) j \<longleftrightarrow> y < x \<or> x = y \<and> key_ge xs i ys j"

definition ranked_before :: "(f64 list \<Rightarrow> f64 list) \<Rightarrow> ranked \<Rightarrow> ranked \<Rightarrow> bool" where
  "ranked_before key a b = key_ge (key (snd a)) (fst a) (key (snd b)) (fst b)"

definition is_eligible :: "feed_env \<Rightarrow> instant \<Rightarrow> shop \<Rightarrow> feed_request \<Rightarrow> id \<Rightarrow> bool" where
  "is_eligible e now s r i =
     list_ex (\<lambda>p. p_id p = i \<and> eligible_product e now s (fq_filters r) (eligibleCategoryID r) p) (products s)"

definition runFilteredCandidateQuery ::
  "feed_env \<Rightarrow> instant \<Rightarrow> feed_request \<Rightarrow> ranked list \<Rightarrow> (f64 list \<Rightarrow> f64 list) \<Rightarrow> string list \<Rightarrow> shop \<Rightarrow> candidate list" where
  "runFilteredCandidateQuery e now r rows key signals s =
     map (\<lambda>(i, vs). (i, zip signals vs))
       (take (nat (fq_limit r)) (order_by (ranked_before key) (filter (\<lambda>x. is_eligible e now s r (fst x)) rows)))"

section \<open>Candidates\<close>

definition active_products :: "shop \<Rightarrow> product list" where
  "active_products s = filter (\<lambda>p. p_status p = ''active'') (products s)"

text \<open>One row for each active product that has the metric: \<open>product_metrics JOIN products\<close>.\<close>

definition metric_rows :: "(metric \<Rightarrow> bool) \<Rightarrow> (metric \<Rightarrow> f64 list) \<Rightarrow> feed_db \<Rightarrow> ranked list" where
  "metric_rows P f d =
     concat (map (\<lambda>m. map (\<lambda>p. (mt_product m, f m)) (filter (\<lambda>p. p_id p = mt_product m) (active_products (fd_shop d))))
       (filter P (fd_metrics d)))"

definition metric_of :: "feed_db \<Rightarrow> id \<Rightarrow> metric option" where
  "metric_of d i = List.find (\<lambda>m. mt_product m = i) (fd_metrics d)"

definition metric_val :: "(metric \<Rightarrow> f64) \<Rightarrow> feed_db \<Rightarrow> id \<Rightarrow> f64" where
  "metric_val f d i = (case metric_of d i of None \<Rightarrow> 0 | Some m \<Rightarrow> f m)"

definition getTrendingCandidates where
  "getTrendingCandidates e now r d =
     runFilteredCandidateQuery e now r (metric_rows (\<lambda>m. 0 < mt_trending m) (\<lambda>m. [mt_trending m, mt_conversion m]) d) id
       [''trending_score'', ''conversion_rate''] (fd_shop d)"

definition getBestSellerCandidates where
  "getBestSellerCandidates e now r d =
     runFilteredCandidateQuery e now r
       (metric_rows (\<lambda>m. 0 < mt_purchases m) (\<lambda>m. [of_i64 (mt_purchases m), mt_conversion m]) d) id
       [''weekly_purchases'', ''conversion_rate''] (fd_shop d)"

text \<open>The last interaction with each product, and the 20 products of the latest ones.\<close>

definition latest :: "(id \<times> instant) list \<Rightarrow> (id \<times> instant) list" where
  "latest xs = map (\<lambda>i. (i, Max (set (map snd (filter (\<lambda>x. fst x = i) xs))))) (remdups (map fst xs))"

definition recent_products :: "(id \<times> instant) list \<Rightarrow> id list" where
  "recent_products xs =
     map fst (take 20 (order_by (\<lambda>a b. snd b < snd a \<or> snd a = snd b \<and> fst b \<le> fst a) (latest xs)))"

definition user_interactions :: "id \<Rightarrow> feed_db \<Rightarrow> (id \<times> instant) list" where
  "user_interactions u d =
     map (\<lambda>v. (ev_product v, ev_at v)) (filter (\<lambda>v. ev_user v = Some u) (fd_events d))
     @ map (\<lambda>b. (bt_product b, bt_at b)) (filter (\<lambda>b. bt_user b = Some u) (fd_bought d))
     @ map (\<lambda>w. (wi_product w, wi_added w)) (filter (\<lambda>w. wi_user w = u) (fd_wished d))"

definition affinity_scores :: "id \<Rightarrow> feed_db \<Rightarrow> id \<Rightarrow> f64 list" where
  "affinity_scores u d i =
     concat (map (\<lambda>(v, c, x). if v = u then map (\<lambda>_. x) (filter (\<lambda>l. l = (i, c)) (links (sh_cats (fd_shop d)))) else [])
       (fd_affinity d))"

definition co_view_scores :: "id list \<Rightarrow> feed_db \<Rightarrow> id \<Rightarrow> f64 list" where
  "co_view_scores recents d i =
     map (\<lambda>(a, b, x). x) (filter (\<lambda>(a, b, x). b = i \<and> a \<in> set recents) (fd_co_views d))"

definition recommended_rows :: "id \<Rightarrow> feed_db \<Rightarrow> ranked list" where
  "recommended_rows u d =
     (let recents = recent_products (user_interactions u d) in
      map (\<lambda>p. let i = p_id p in
             (i, [max_or_0 (affinity_scores u d i), max_or_0 (co_view_scores recents d i),
                  metric_val mt_conversion d i, metric_val mt_trending d i]))
        (filter (\<lambda>p. (affinity_scores u d (p_id p) \<noteq> [] \<or> co_view_scores recents d (p_id p) \<noteq> []) \<and> p_id p \<notin> set recents)
          (active_products (fd_shop d))))"

definition weighted :: "f64 list \<Rightarrow> f64 list \<Rightarrow> f64 list" where
  "weighted ws vs = (case map2 fmul ws vs of [] \<Rightarrow> [] | t # ts \<Rightarrow> [foldl fadd t ts])"

definition getRecommendedCandidates where
  "getRecommendedCandidates e now r d =
     runFilteredCandidateQuery e now r (recommended_rows (coalesce 0 (fq_user r)) d)
       (weighted [rnd (55 / 100), rnd (25 / 100), rnd (10 / 100), rnd (10 / 100)])
       [''personalization_score'', ''co_view_score'', ''conversion_rate'', ''trending_score''] (fd_shop d)"

definition category_depths :: "id \<Rightarrow> shop \<Rightarrow> id \<Rightarrow> int list" where
  "category_depths c s i =
     concat (map (\<lambda>k. map cl_depth (filter (\<lambda>x. cl_desc x = k \<and> cl_anc x = c) (closure (sh_cats s)))) (categories_of s i))"

definition category_rows :: "feed_env \<Rightarrow> id \<Rightarrow> shop \<Rightarrow> ranked list" where
  "category_rows e c s =
     map (\<lambda>p. let ds = category_depths c s (p_id p) in
            (p_id p, [Max (set (map (fe_ratio e) ds)), of_i64 (Min (set ds))]))
       (filter (\<lambda>p. category_depths c s (p_id p) \<noteq> []) (active_products s))"

definition getCategoryCandidates where
  "getCategoryCandidates e now r d =
     runFilteredCandidateQuery e now r (category_rows e (coalesce 0 (fq_category r)) (fd_shop d))
       (\<lambda>vs. [- (vs ! 1)]) [''category_score'', ''category_depth''] (fd_shop d)"

definition max_percent :: "f64 option list \<Rightarrow> f64" where
  "max_percent xs = max_or_0 (concat (map opt_list xs))"

definition deal_rows :: "feed_env \<Rightarrow> instant \<Rightarrow> shop \<Rightarrow> ranked list" where
  "deal_rows e now s =
     map (\<lambda>p. (p_id p, [max_percent (map (percent_of e (p_price p)) (product_discounts now s p))]))
       (filter (\<lambda>p. product_discounts now s p \<noteq> []) (active_products s))"

definition getDealCandidates where
  "getDealCandidates e now r d =
     runFilteredCandidateQuery e now r (deal_rows e now (fd_shop d)) id [''discount_score''] (fd_shop d)"

definition getNewArrivalCandidates where
  "getNewArrivalCandidates e now r d =
     runFilteredCandidateQuery e now r (map (\<lambda>p. (p_id p, [fe_epoch e (p_created p)])) (active_products (fd_shop d))) id
       [''freshness_score''] (fd_shop d)"

definition getHighlyRatedCandidates where
  "getHighlyRatedCandidates e now r d =
     runFilteredCandidateQuery e now r
       (map (\<lambda>p. (p_id p, [p_rating p, of_i64 (p_reviews p)]))
         (filter (\<lambda>p. 0 < p_reviews p) (active_products (fd_shop d)))) id
       [''rating_score'', ''review_count''] (fd_shop d)"

definition wish_count :: "feed_db \<Rightarrow> id \<Rightarrow> nat" where
  "wish_count d i = length (filter (\<lambda>w. wi_product w = i) (fd_wished d))"

definition getMostWishlistedCandidates where
  "getMostWishlistedCandidates e now r d =
     runFilteredCandidateQuery e now r
       (map (\<lambda>p. (p_id p, [of_i64 (int (wish_count d (p_id p)))]))
         (filter (\<lambda>p. wish_count d (p_id p) \<noteq> 0) (active_products (fd_shop d)))) id
       [''wishlist_count''] (fd_shop d)"

definition viewed_by :: "feed_request \<Rightarrow> event_row \<Rightarrow> bool" where
  "viewed_by r v \<longleftrightarrow> ev_type v = ''view'' \<and>
     (case fq_user r of Some u \<Rightarrow> ev_user v = Some u | None \<Rightarrow> ev_session v = Some (coalesce [] (fq_session r)))"

definition also_viewed_rows :: "feed_request \<Rightarrow> feed_db \<Rightarrow> ranked list" where
  "also_viewed_rows r d =
     (let recents = recent_products (map (\<lambda>v. (ev_product v, ev_at v)) (filter (viewed_by r) (fd_events d))) in
      map (\<lambda>p. let i = p_id p in
             (i, [max_or_0 (co_view_scores recents d i), metric_val (\<lambda>m. of_i64 (mt_weekly m)) d i,
                  metric_val mt_conversion d i]))
        (filter (\<lambda>p. co_view_scores recents d (p_id p) \<noteq> [] \<and> p_id p \<notin> set recents) (active_products (fd_shop d))))"

definition getAlsoViewedCandidates where
  "getAlsoViewedCandidates e now r d =
     runFilteredCandidateQuery e now r (also_viewed_rows r d) id
       [''co_view_score'', ''popularity_score'', ''conversion_rate''] (fd_shop d)"

section \<open>Merchandising\<close>

definition sections_of :: "string \<Rightarrow> feed_db \<Rightarrow> section_row list" where
  "sections_of ty d = filter (\<lambda>h. hs_active h \<and> hs_type h = ty) (fd_sections d)"

text \<open>\<open>GREATEST(base - sort_order, 1)\<close>.\<close>

definition section_score :: "int \<Rightarrow> section_row \<Rightarrow> f64" where
  "section_score base h = of_i64 (max (base - hs_sort h) 1)"

text \<open>A group of candidates with its best score; the freshness is the product's own.\<close>

definition merchandised :: "feed_env \<Rightarrow> (product \<Rightarrow> f64 list) \<Rightarrow> shop \<Rightarrow> ranked list" where
  "merchandised e scores s =
     map (\<lambda>p. (p_id p, [Max (set (scores p)), fe_epoch e (p_created p)]))
       (filter (\<lambda>p. scores p \<noteq> []) (active_products s))"

definition featured_scores :: "feed_db \<Rightarrow> product \<Rightarrow> f64 list" where
  "featured_scores d p =
     (if p_featured p then [1] else [])
     @ map (\<lambda>h. section_score (if hs_type h = ''featured'' then 800 else 1000) h)
         (filter (\<lambda>h. hs_active h \<and> hs_ref h = Some (p_id p) \<and> hs_type h \<in> {''featured'', ''custom''}) (fd_sections d))"

definition getFeaturedCandidates where
  "getFeaturedCandidates e now r d =
     runFilteredCandidateQuery e now r (merchandised e (featured_scores d) (fd_shop d)) id
       [''merchandising_score'', ''freshness_score''] (fd_shop d)"

text \<open>The category branch groups by the section's sort order; \<open>GREATEST\<close> skips the \<open>NULL\<close> of a missing closure row.\<close>

definition section_depths :: "feed_db \<Rightarrow> int \<Rightarrow> product \<Rightarrow> int list" where
  "section_depths d n p =
     concat (map (\<lambda>h. case hs_ref h of None \<Rightarrow> []
         | Some c \<Rightarrow> if c \<in> set (categories_of (fd_shop d) (p_id p))
             then map cl_depth (filter (\<lambda>x. cl_anc x = c \<and> cl_desc x = c) (closure (sh_cats (fd_shop d)))) else [])
       (filter (\<lambda>h. hs_sort h = n) (sections_of ''category'' d)))"

definition category_section_score :: "feed_db \<Rightarrow> product \<Rightarrow> section_row \<Rightarrow> f64" where
  "category_section_score d p h =
     (case section_depths d (hs_sort h) p of
        [] \<Rightarrow> 1 | ds \<Rightarrow> of_i64 (max (600 - hs_sort h - Min (set ds)) 1))"

definition editorial_scores :: "feed_db \<Rightarrow> product \<Rightarrow> f64 list" where
  "editorial_scores d p =
     map (section_score 1000) (filter (\<lambda>h. hs_ref h = Some (p_id p)) (sections_of ''custom'' d))
     @ map (section_score 800)
         (filter (\<lambda>h. hs_ref h = Some (p_id p) \<or> hs_ref h = None \<and> p_featured p) (sections_of ''featured'' d))
     @ map (category_section_score d p)
         (filter (\<lambda>h. opt_all (\<lambda>c. c \<in> set (categories_of (fd_shop d) (p_id p))) (hs_ref h) \<and> hs_ref h \<noteq> None)
           (sections_of ''category'' d))
     @ concat (map (\<lambda>h. map (\<lambda>m. fadd (section_score 400 h) (mt_trending m))
           (filter (\<lambda>m. mt_product m = p_id p \<and> 0 < mt_trending m) (fd_metrics d))) (sections_of ''trending'' d))"

definition getEditorialCandidates where
  "getEditorialCandidates e now r d =
     runFilteredCandidateQuery e now r (merchandised e (editorial_scores d) (fd_shop d)) id
       [''merchandising_score'', ''freshness_score''] (fd_shop d)"

section \<open>Search\<close>

text \<open>\<open>search_docs\<close> are the rows of \<open>product_search_documents\<close>; the relevance of a product is the best of its full
  text rank and its trigram similarity.\<close>

definition text_scores :: "feed_env \<Rightarrow> string \<Rightarrow> shop \<Rightarrow> product \<Rightarrow> f64 list" where
  "text_scores e q s p =
     (let raw = fe_lower e q; name = fe_lower e (p_name p); docs = map snd (filter (\<lambda>x. fst x = p_id p) (search_docs s)) in
      map (\<lambda>x. fe_ts_rank e x raw) (filter (\<lambda>x. \<not> fe_ts_empty e raw \<and> fe_ts_match e x raw) docs)
      @ map (\<lambda>x. min (fmul (max (fe_word_similar e raw name) (fe_similar e (fe_lower e x) raw)) (rnd (12 / 10))) 1)
          (filter (\<lambda>x. fe_like e name raw \<or> rnd (2 / 10) < fe_word_similar e raw name
                     \<or> rnd (15 / 100) < fe_similar e (fe_lower e x) raw) docs))"

definition search_rows :: "feed_env \<Rightarrow> string \<Rightarrow> feed_db \<Rightarrow> ranked list" where
  "search_rows e q d =
     map (\<lambda>p. let i = p_id p in
            (i, [Max (set (text_scores e q (fd_shop d) p)), metric_val (\<lambda>m. of_i64 (mt_purchases m)) d i,
                 metric_val mt_conversion d i, p_rating p, metric_val mt_trending d i]))
       (filter (\<lambda>p. text_scores e q (fd_shop d) p \<noteq> []) (active_products (fd_shop d)))"

definition getSearchCandidates where
  "getSearchCandidates e now r d =
     runFilteredCandidateQuery e now r (search_rows e (coalesce [] (fq_query r)) d)
       (weighted [rnd (50 / 100), rnd (20 / 100), rnd (15 / 100), rnd (10 / 100), rnd (5 / 100)])
       [''text_relevance'', ''popularity_score'', ''conversion_rate'', ''rating_score'', ''trending_score''] (fd_shop d)"

section \<open>The repository\<close>

definition GetFeedCandidates :: "feed_env \<Rightarrow> instant \<Rightarrow> feed_request \<Rightarrow> feed_db \<Rightarrow> disco_error + candidate list" where
  "GetFeedCandidates e now r0 d =
     bind_res (FeedRequest_Validate r0) (\<lambda>r. let ty = fq_type r in
       if ty = ''trending'' then Inr (getTrendingCandidates e now r d)
       else if ty = ''best_sellers'' then Inr (getBestSellerCandidates e now r d)
       else if ty = ''recommended'' then Inr (getRecommendedCandidates e now r d)
       else if ty = ''category'' then Inr (getCategoryCandidates e now r d)
       else if ty = ''deals'' then Inr (getDealCandidates e now r d)
       else if ty = ''new_arrivals'' then Inr (getNewArrivalCandidates e now r d)
       else if ty = ''highly_rated'' then Inr (getHighlyRatedCandidates e now r d)
       else if ty = ''most_wishlisted'' then Inr (getMostWishlistedCandidates e now r d)
       else if ty = ''also_viewed'' then Inr (getAlsoViewedCandidates e now r d)
       else if ty = ''featured'' then Inr (getFeaturedCandidates e now r d)
       else if ty = ''editorial'' then Inr (getEditorialCandidates e now r d)
       else if ty = ''search'' then Inr (getSearchCandidates e now r d)
       else Inl FeedNotImplemented)"

text \<open>The statement of \<open>HydrateProductCards\<close> is the one of the listing.\<close>

definition HydrateProductCards :: "feed_env \<Rightarrow> instant \<Rightarrow> feed_db \<Rightarrow> id list \<Rightarrow> card list" where
  "HydrateProductCards e now d is =
     (if is = [] then []
      else concat (map (\<lambda>i. map (card_of e now (fd_shop d) (count_list is i))
                              (filter (\<lambda>p. p_id p = i) (products (fd_shop d)))) is))"

end
