(* ===== verification/Discovery_Service.thy ===== *)
theory Discovery_Service
  imports Discovery Cache Go_Numbers
begin

text \<open>
  What is built on the feeds: suggestions and search tracking (\<open>discovery_repo.go\<close>), the refresh of the derived tables
  (\<open>discovery_metrics_repo.go\<close> and \<open>internal/service/worker/metrics_jobs.go\<close>), the service with its Redis cache and
  fallback (\<open>internal/service/discovery/service.go\<close>) and the query parameters of \<open>internal/handlers/discovery\<close>.
\<close>

section \<open>Suggestions\<close>

record suggestion =
  sg_text :: string
  sg_type :: string
  sg_ref :: "id option"
  sg_score :: f64

definition text_hit :: "feed_env \<Rightarrow> string \<Rightarrow> string \<Rightarrow> bool" where
  "text_hit e pre x \<longleftrightarrow> fe_like e x pre \<or> rnd (2 / 10) < fe_word_similar e pre x"

definition text_score :: "feed_env \<Rightarrow> string \<Rightarrow> string \<Rightarrow> f64" where
  "text_score e pre x =
     fadd (if fe_like e x pre then 2 else 0) (max (fe_similar e x pre) (fe_word_similar e pre x))"

definition best_first :: "suggestion \<Rightarrow> suggestion \<Rightarrow> bool" where
  "best_first a b \<longleftrightarrow> sg_score b < sg_score a
     \<or> sg_score a = sg_score b \<and> coalesce 0 (sg_ref b) \<le> coalesce 0 (sg_ref a)"

definition product_suggestions :: "feed_env \<Rightarrow> string \<Rightarrow> feed_db \<Rightarrow> suggestion list" where
  "product_suggestions e pre d =
     take 20 (order_by best_first (map (\<lambda>p.
         \<lparr>sg_text = p_name p, sg_type = ''product'', sg_ref = Some (p_id p),
          sg_score = fadd (text_score e pre (fe_lower e (p_name p)))
            (fdiv (metric_val (\<lambda>m. of_i64 (mt_weekly m)) d (p_id p)) 1000)\<rparr>)
       (filter (\<lambda>p. text_hit e pre (fe_lower e (p_name p))) (active_products (fd_shop d)))))"

definition category_suggestions :: "feed_env \<Rightarrow> string \<Rightarrow> shop \<Rightarrow> suggestion list" where
  "category_suggestions e pre s =
     take 10 (order_by best_first (map (\<lambda>c.
         \<lparr>sg_text = c_name c, sg_type = ''category'', sg_ref = Some (c_id c),
          sg_score = text_score e pre (fe_lower e (c_name c))\<rparr>)
       (filter (\<lambda>c. c_active c \<and> text_hit e pre (fe_lower e (c_name c))
           \<and> list_ex (\<lambda>p. c_id c \<in> set (categories_of s (p_id p))) (active_products s)) (cats (sh_cats s)))))"

definition brand_suggestions :: "feed_env \<Rightarrow> string \<Rightarrow> shop \<Rightarrow> suggestion list" where
  "brand_suggestions e pre s =
     take 10 (order_by best_first (map (\<lambda>b.
         \<lparr>sg_text = b_name b, sg_type = ''brand'', sg_ref = Some (b_id b),
          sg_score = text_score e pre (fe_lower e (b_name b))\<rparr>)
       (filter (\<lambda>b. b_active b \<and> text_hit e pre (fe_lower e (b_name b))
           \<and> list_ex (\<lambda>p. p_brand p = Some (b_id b)) (active_products s)) (brands (sh_meta s)))))"

text \<open>Over the last 50000 searches, grouped by their text.\<close>

definition query_suggestions :: "feed_env \<Rightarrow> string \<Rightarrow> feed_db \<Rightarrow> suggestion list" where
  "query_suggestions e pre d =
     (let rows = map se_normal (take 50000 (order_by (\<lambda>a b. se_id b \<le> se_id a) (fd_searches d))) in
      take 10 (order_by best_first (map (\<lambda>q.
          \<lparr>sg_text = q, sg_type = ''query'', sg_ref = None,
           sg_score = fadd (fadd (of_i64 (int (count_list rows q))) (if fe_like e q pre then 2 else 0))
             (max (fe_similar e q pre) (fe_word_similar e pre q))\<rparr>)
        (remdups (filter (text_hit e pre) rows)))))"

definition suggestion_before :: "feed_env \<Rightarrow> suggestion \<Rightarrow> suggestion \<Rightarrow> bool" where
  "suggestion_before e a b \<longleftrightarrow> sg_score b < sg_score a
     \<or> sg_score a = sg_score b \<and> fe_collate e (sg_text a) (sg_text b)"

definition repo_Suggest :: "feed_env \<Rightarrow> suggest_request \<Rightarrow> feed_db \<Rightarrow> disco_error + suggestion list" where
  "repo_Suggest e r0 d =
     bind_res (SuggestRequest_Validate r0) (\<lambda>r. let pre = fe_lower e (sq_prefix r) in
       Inr (take (nat (sq_limit r)) (order_by (suggestion_before e)
         (product_suggestions e pre d @ category_suggestions e pre (fd_shop d)
          @ brand_suggestions e pre (fd_shop d) @ query_suggestions e pre d))))"

definition Suggest :: "feed_env \<Rightarrow> suggest_request \<Rightarrow> feed_db \<Rightarrow> disco_error + suggestion list" where
  "Suggest e r0 d = bind_res (SuggestRequest_Validate r0) (\<lambda>r. repo_Suggest e r d)"

section \<open>Search tracking\<close>

definition session_col :: "string option \<Rightarrow> string option option" where
  "session_col s = (case s of None \<Rightarrow> Some None | Some x \<Rightarrow> map_option Some (varchar 255 x))"

definition insert_search :: "feed_env \<Rightarrow> id \<Rightarrow> search_report \<Rightarrow> feed_db \<Rightarrow> disco_error + feed_db" where
  "insert_search e nid r d =
     (case session_col (sr_session r) of
        None \<Rightarrow> Inl DiscoDbError
      | Some ses \<Rightarrow>
          if \<not> opt_all (fe_known_user e) (sr_user r) \<or> \<not> int4 (sr_count r) \<or> sr_count r < 0 then Inl DiscoDbError
          else Inr (d\<lparr>fd_searches := fd_searches d @
            [\<lparr>se_id = nid, se_query = sr_query r, se_normal = sr_normal r, se_user = sr_user r, se_session = ses,
              se_count = sr_count r\<rparr>]\<rparr>))"

text \<open>Primary key: search and product; unique: search and position; positions are positive; the product exists.\<close>

definition insert_position :: "id \<Rightarrow> search_position \<Rightarrow> feed_db \<Rightarrow> disco_error + feed_db" where
  "insert_position nid x d =
     (if \<not> int4 (sp_position x) \<or> sp_position x \<le> 0 \<or> \<not> has_product (fd_shop d) (sp_product x)
         \<or> list_ex (\<lambda>(k, y). k = nid \<and> (sp_product y = sp_product x \<or> sp_position y = sp_position x)) (fd_positions d)
      then Inl DiscoDbError
      else Inr (d\<lparr>fd_positions := fd_positions d @ [(nid, x)]\<rparr>))"

definition track_body :: "feed_env \<Rightarrow> id \<Rightarrow> search_report \<Rightarrow> feed_db \<Rightarrow> disco_error + id \<times> feed_db" where
  "track_body e nid r d =
     bind_res (insert_search e nid r d) (\<lambda>d1.
     bind_res (try_all (insert_position nid) (sr_results r) d1) (\<lambda>d2. Inr (nid, d2)))"

definition repo_TrackSearch :: "feed_env \<Rightarrow> tx_fault \<Rightarrow> id \<Rightarrow> search_report \<Rightarrow> feed_db \<Rightarrow> (disco_error + id) \<times> feed_db" where
  "repo_TrackSearch e flt nid r0 d =
     (case SearchEvent_Validate (fe_unicode e) r0 of
        Inl err \<Rightarrow> (Inl err, d) | Inr r \<Rightarrow> run_tx flt DiscoDbError (track_body e nid r) d)"

definition TrackSearch :: "feed_env \<Rightarrow> tx_fault \<Rightarrow> id \<Rightarrow> search_report \<Rightarrow> feed_db \<Rightarrow> (disco_error + id) \<times> feed_db" where
  "TrackSearch e flt nid r0 d =
     (case SearchEvent_Validate (fe_unicode e) r0 of
        Inl err \<Rightarrow> (Inl err, d) | Inr r \<Rightarrow> repo_TrackSearch e flt nid r d)"

definition repo_TrackSearchClick :: "feed_env \<Rightarrow> click_report \<Rightarrow> feed_db \<Rightarrow> (disco_error + unit) \<times> feed_db" where
  "repo_TrackSearchClick e r0 d =
     (case SearchClickEvent_Validate r0 of
        Inl err \<Rightarrow> (Inl err, d)
      | Inr r \<Rightarrow> (case session_col (cr_session r) of
          None \<Rightarrow> (Inl DiscoDbError, d)
        | Some ses \<Rightarrow>
            if \<not> list_ex (\<lambda>x. se_id x = cr_event r) (fd_searches d) \<or> \<not> has_product (fd_shop d) (cr_product r)
               \<or> \<not> int4 (cr_position r) \<or> \<not> opt_all (fe_known_user e) (cr_user r)
            then (Inl DiscoDbError, d)
            else (Inr (), d\<lparr>fd_clicks := fd_clicks d @ [r\<lparr>cr_session := ses\<rparr>]\<rparr>)))"

definition TrackSearchClick :: "feed_env \<Rightarrow> click_report \<Rightarrow> feed_db \<Rightarrow> (disco_error + unit) \<times> feed_db" where
  "TrackSearchClick e r0 d =
     (case SearchClickEvent_Validate r0 of Inl err \<Rightarrow> (Inl err, d) | Inr r \<Rightarrow> repo_TrackSearchClick e r d)"

section \<open>Derived tables\<close>

definition days :: "int \<Rightarrow> instant" where
  "days n = n * 86400000000000"

definition views_since :: "instant \<Rightarrow> feed_db \<Rightarrow> id \<Rightarrow> int" where
  "views_since t d i =
     int (length (filter (\<lambda>v. ev_product v = i \<and> ev_type v = ''view'' \<and> t \<le> ev_at v) (fd_events d)))"

definition bought_since :: "instant \<Rightarrow> feed_db \<Rightarrow> id \<Rightarrow> int" where
  "bought_since t d i = sum_list (map bt_qty (filter (\<lambda>b. bt_product b = i \<and> t \<le> bt_at b) (fd_bought d)))"

definition metric_row :: "instant \<Rightarrow> feed_db \<Rightarrow> id \<Rightarrow> metric" where
  "metric_row now d i =
     (let day = views_since (now - days 1) d i; week = views_since (now - days 7) d i;
          sold = bought_since (now - days 7) d i;
          conv = (if 0 < week then fdiv (of_i64 sold) (of_i64 week) else 0)
      in \<lparr>mt_product = i,
          mt_trending = fadd (rnd (of_int day * (4 / 10) + of_int week * (2 / 10) + of_int sold * (12 / 10))) (fmul conv 100),
          mt_daily = day, mt_weekly = week, mt_purchases = sold, mt_conversion = conv, mt_updated = now\<rparr>)"

definition metric_fits :: "metric \<Rightarrow> bool" where
  "metric_fits m \<longleftrightarrow> int4 (mt_daily m) \<and> int4 (mt_weekly m) \<and> int4 (mt_purchases m)"

text \<open>\<open>INSERT ... ON CONFLICT (product_id) DO UPDATE\<close>.\<close>

definition upsert_metric :: "metric \<Rightarrow> metric list \<Rightarrow> metric list" where
  "upsert_metric m ms =
     (if list_ex (\<lambda>x. mt_product x = mt_product m) ms then update_where (\<lambda>x. mt_product x = mt_product m) (\<lambda>_. m) ms
      else ms @ [m])"

definition RefreshProductMetrics :: "instant \<Rightarrow> feed_db \<Rightarrow> (disco_error + unit) \<times> feed_db" where
  "RefreshProductMetrics now d =
     (let rows = map (\<lambda>p. metric_row now d (p_id p)) (products (fd_shop d)) in
      if list_all metric_fits rows then (Inr (), d\<lparr>fd_metrics := fold upsert_metric rows (fd_metrics d)\<rparr>)
      else (Inl DiscoDbError, d))"

definition event_weight :: "event_row \<Rightarrow> rat" where
  "event_weight v =
     (if ev_type v = ''view'' then 1 else if ev_type v = ''add_to_cart'' then 3
      else if ev_type v = ''purchase'' then 5 * of_int (max (ev_qty v) 1) else 0)"

definition in_category :: "shop \<Rightarrow> id \<Rightarrow> id \<Rightarrow> bool" where
  "in_category s i c = list_ex (\<lambda>l. l = (i, c)) (links (sh_cats s))"

text \<open>The scores of a user in a category: one per source that has rows.\<close>

definition affinity_parts :: "instant \<Rightarrow> feed_db \<Rightarrow> id \<Rightarrow> id \<Rightarrow> f64 list" where
  "affinity_parts now d u c =
     (let s = fd_shop d; t = now - days 30;
          es = filter (\<lambda>v. ev_user v = Some u \<and> t \<le> ev_at v \<and> in_category s (ev_product v) c) (fd_events d);
          bs = filter (\<lambda>b. bt_user b = Some u \<and> t \<le> bt_at b \<and> in_category s (bt_product b) c) (fd_bought d);
          ws = filter (\<lambda>w. wi_user w = u \<and> t \<le> wi_added w \<and> in_category s (wi_product w) c) (fd_wished d)
      in (if es = [] then [] else [rnd (sum_list (map event_weight es))])
         @ (if bs = [] then [] else [rnd (sum_list (map (\<lambda>b. 5 * of_int (max (bt_qty b) 1)) bs))])
         @ (if ws = [] then [] else [fmul (of_i64 (int (length ws))) 2]))"

definition affinity_keys :: "feed_db \<Rightarrow> (id \<times> id) list" where
  "affinity_keys d =
     (let us = remdups (concat (map (\<lambda>v. opt_list (ev_user v)) (fd_events d))
                 @ concat (map (\<lambda>b. opt_list (bt_user b)) (fd_bought d)) @ map wi_user (fd_wished d))
      in List.product us (remdups (map snd (links (sh_cats (fd_shop d))))))"

definition affinity_rows :: "instant \<Rightarrow> feed_db \<Rightarrow> (id \<times> id \<times> f64) list" where
  "affinity_rows now d =
     map (\<lambda>(u, c). (u, c, foldl fadd 0 (affinity_parts now d u c)))
       (filter (\<lambda>(u, c). affinity_parts now d u c \<noteq> []) (affinity_keys d))"

definition RefreshUserCategoryAffinity :: "tx_fault \<Rightarrow> instant \<Rightarrow> feed_db \<Rightarrow> (disco_error + unit) \<times> feed_db" where
  "RefreshUserCategoryAffinity flt now d =
     run_tx flt DiscoDbError (\<lambda>d0. let d1 = d0\<lparr>fd_affinity := []\<rparr> in Inr ((), d1\<lparr>fd_affinity := affinity_rows now d1\<rparr>)) d"

definition actor_of :: "event_row \<Rightarrow> string option" where
  "actor_of v = (case ev_user v of Some u \<Rightarrow> Some (''u:'' @ string_of_int u) | None \<Rightarrow> map_option (\<lambda>x. ''s:'' @ x) (ev_session v))"

definition recent_views :: "instant \<Rightarrow> feed_db \<Rightarrow> (string \<times> id) list" where
  "recent_views now d =
     remdups (concat (map (\<lambda>v. map (\<lambda>a. (a, ev_product v)) (opt_list (actor_of v)))
       (filter (\<lambda>v. ev_type v = ''view'' \<and> now - days 30 \<le> ev_at v) (fd_events d))))"

definition co_view_count :: "(string \<times> id) list \<Rightarrow> id \<Rightarrow> id \<Rightarrow> nat" where
  "co_view_count vs i j = length (filter (\<lambda>x. snd x = i \<and> (fst x, j) \<in> set vs) vs)"

definition co_view_rows :: "instant \<Rightarrow> feed_db \<Rightarrow> (id \<times> id \<times> f64) list" where
  "co_view_rows now d =
     (let vs = recent_views now d; ps = remdups (map snd vs) in
      map (\<lambda>(i, j). (i, j, of_i64 (int (co_view_count vs i j))))
        (filter (\<lambda>(i, j). i \<noteq> j \<and> co_view_count vs i j \<noteq> 0) (List.product ps ps)))"

definition RefreshProductCoViews :: "tx_fault \<Rightarrow> instant \<Rightarrow> feed_db \<Rightarrow> (disco_error + unit) \<times> feed_db" where
  "RefreshProductCoViews flt now d =
     run_tx flt DiscoDbError (\<lambda>d0. let d1 = d0\<lparr>fd_co_views := []\<rparr> in Inr ((), d1\<lparr>fd_co_views := co_view_rows now d1\<rparr>)) d"

text \<open>\<open>RunOnce\<close> of the metrics job; \<open>t1\<close>, \<open>t2\<close>, \<open>t3\<close> are the clock of the three statements.\<close>

definition RunOnce ::
  "tx_fault \<Rightarrow> tx_fault \<Rightarrow> instant \<Rightarrow> instant \<Rightarrow> instant \<Rightarrow> feed_db \<Rightarrow> (disco_error + unit) \<times> feed_db" where
  "RunOnce f2 f3 t1 t2 t3 d =
     (case RefreshProductMetrics t1 d of
        (Inl err, d1) \<Rightarrow> (Inl err, d1)
      | (Inr _, d1) \<Rightarrow> (case RefreshUserCategoryAffinity f2 t2 d1 of
          (Inl err, d2) \<Rightarrow> (Inl err, d2)
        | (Inr _, d2) \<Rightarrow> RefreshProductCoViews f3 t3 d2))"

section \<open>The feed service\<close>

type_synonym feed_cache = "(string, card list) cache"

definition pad2 :: "int \<Rightarrow> string" where
  "pad2 n = (if n < 10 then ''0'' @ string_of_int n else string_of_int n)"

text \<open>\<open>strconv.FormatFloat(value, 'f', 2, 64)\<close>: the exact decimal value to two places, ties to even.\<close>

definition formatCacheFloat :: "f64 \<Rightarrow> string" where
  "formatCacheFloat x =
     (let n = round_even (\<bar>x\<bar> * 100) in (if x < 0 then ''-'' else []) @ string_of_int (n div 100) @ ''.'' @ pad2 (n mod 100))"

definition isCacheableFeed :: "feed_request \<Rightarrow> bool" where
  "isCacheableFeed r =
     (if fq_type r \<in> {''trending'', ''best_sellers'', ''deals'', ''new_arrivals'', ''highly_rated'', ''most_wishlisted'',
         ''featured'', ''editorial''} then True
      else if fq_type r = ''recommended'' then fq_user r \<noteq> None else False)"

definition append_ids :: "string \<Rightarrow> id list \<Rightarrow> string list" where
  "append_ids label vs = (if vs = [] then [] else [label @ ''='' @ join_with '','' (map string_of_int (sort vs))])"

definition key_parts :: "unicode \<Rightarrow> feed_request \<Rightarrow> string list" where
  "key_parts u r =
     (let f = fq_filters r in
      [''discovery:feed'', fq_type r, ''limit='' @ string_of_int (fq_limit r)]
      @ (case fq_user r of None \<Rightarrow> [] | Some i \<Rightarrow> [''user='' @ string_of_int i])
      @ (case fq_session r of None \<Rightarrow> [] | Some x \<Rightarrow> [''session='' @ x])
      @ (case fq_category r of None \<Rightarrow> [] | Some c \<Rightarrow> [''category='' @ string_of_int c])
      @ (case fq_query r of None \<Rightarrow> [] | Some q \<Rightarrow> [''query='' @ to_lower u q])
      @ append_ids ''brands'' (ff_brands f) @ append_ids ''tags'' (ff_tags f)
      @ append_ids ''variant_attribute_values'' (ff_values f)
      @ (case ff_price_min f of None \<Rightarrow> [] | Some x \<Rightarrow> [''price_min='' @ formatCacheFloat x])
      @ (case ff_price_max f of None \<Rightarrow> [] | Some x \<Rightarrow> [''price_max='' @ formatCacheFloat x])
      @ (case ff_min_rating f of None \<Rightarrow> [] | Some x \<Rightarrow> [''min_rating='' @ formatCacheFloat x])
      @ (if ff_discount_only f then [''discount_only=true''] else [])
      @ (if ff_in_stock f then [''in_stock_only=true''] else []))"

definition buildFeedCacheKey :: "unicode \<Rightarrow> feed_request \<Rightarrow> string" where
  "buildFeedCacheKey u r = join_with '':'' (key_parts u r)"

definition feedFallbackOrder :: "string \<Rightarrow> string list" where
  "feedFallbackOrder ty = (if ty = ''recommended'' \<or> ty = ''also_viewed'' then [''trending'', ''best_sellers''] else [])"

text \<open>The inner loop: candidates not seen yet, until the limit; \<open>seen\<close> holds the ids of \<open>merged\<close>.\<close>

fun merge_new :: "int \<Rightarrow> candidate list \<Rightarrow> candidate list \<Rightarrow> candidate list" where
  "merge_new n merged [] = merged"
| "merge_new n merged (c # cs) =
     (if fst c \<in> set (map fst merged) then merge_new n merged cs
      else if n \<le> int (length (merged @ [c])) then merged @ [c] else merge_new n (merged @ [c]) cs)"

fun fallback_loop ::
  "(feed_request \<Rightarrow> disco_error + candidate list) \<Rightarrow> feed_request \<Rightarrow> candidate list \<Rightarrow> string list \<Rightarrow> disco_error + candidate list" where
  "fallback_loop get r merged [] = Inr merged"
| "fallback_loop get r merged (ty # tys) =
     (if fq_limit r \<le> int (length merged) then Inr merged
      else bind_res (get (r\<lparr>fq_type := ty, fq_limit := fq_limit r - int (length merged)\<rparr>)) (\<lambda>cs.
             fallback_loop get r (merge_new (fq_limit r) merged cs) tys))"

definition getFeedCandidatesWithFallback ::
  "(feed_request \<Rightarrow> disco_error + candidate list) \<Rightarrow> feed_request \<Rightarrow> disco_error + candidate list" where
  "getFeedCandidatesWithFallback get r =
     bind_res (get r) (\<lambda>cs.
       if feedFallbackOrder (fq_type r) = [] \<or> fq_limit r \<le> int (length cs) then Inr cs
       else fallback_loop get r cs (feedFallbackOrder (fq_type r)))"

definition feedCacheTTL :: instant where
  "feedCacheTTL = 120000000000"

definition check_category :: "feed_request \<Rightarrow> feed_db \<Rightarrow> disco_error + unit" where
  "check_category r d =
     (if fq_type r = ''category''
      then (case repo_GetCategoryByID (coalesce 0 (fq_category r)) (sh_cats (fd_shop d)) of
              Inl err \<Rightarrow> Inl (FeedCategoryError err) | Inr _ \<Rightarrow> Inr ())
      else Inr ())"

definition getCachedFeed :: "feed_env \<Rightarrow> bool \<Rightarrow> instant \<Rightarrow> feed_request \<Rightarrow> feed_cache \<Rightarrow> card list option" where
  "getCachedFeed e on now r c =
     (if \<not> on \<or> \<not> isCacheableFeed r then None else live now c (buildFeedCacheKey (fe_unicode e) r))"

definition storeCachedFeed :: "feed_env \<Rightarrow> bool \<Rightarrow> instant \<Rightarrow> feed_request \<Rightarrow> card list \<Rightarrow> feed_cache \<Rightarrow> feed_cache" where
  "storeCachedFeed e on now r cards c =
     (if \<not> on \<or> \<not> isCacheableFeed r \<or> cards = [] then c
      else put now feedCacheTTL (buildFeedCacheKey (fe_unicode e) r) cards c)"

text \<open>\<open>on\<close>: a cache is configured.\<close>

definition GetFeed ::
  "feed_env \<Rightarrow> bool \<Rightarrow> instant \<Rightarrow> feed_request \<Rightarrow> feed_db \<Rightarrow> feed_cache \<Rightarrow> (disco_error + card list) \<times> feed_cache" where
  "GetFeed e on now r0 d c =
     (case bind_res (FeedRequest_Validate r0) (\<lambda>r. bind_res (check_category r d) (\<lambda>_. Inr r)) of
        Inl err \<Rightarrow> (Inl err, c)
      | Inr r \<Rightarrow> (case getCachedFeed e on now r c of
          Some cards \<Rightarrow> (Inr cards, c)
        | None \<Rightarrow> (case getFeedCandidatesWithFallback (\<lambda>q. GetFeedCandidates e now q d) r of
            Inl err \<Rightarrow> (Inl err, c)
          | Inr cs \<Rightarrow> let cards = HydrateProductCards e now d (map fst cs)
                      in (Inr cards, storeCachedFeed e on now r cards c))))"

section \<open>Query parameters\<close>

definition parseOptionalInt :: "string \<Rightarrow> int option" where
  "parseOptionalInt raw = (if trim_space raw = [] then Some 0 else ParseInt raw)"

fun parse_parts :: "string list \<Rightarrow> id list \<Rightarrow> id list option" where
  "parse_parts [] out = Some out"
| "parse_parts (x # xs) out =
     (if trim_space x = [] then parse_parts xs out
      else (case ParseInt (trim_space x) of None \<Rightarrow> None | Some v \<Rightarrow> parse_parts xs (out @ [v])))"

definition parseCSVInt64 :: "string \<Rightarrow> id list option" where
  "parseCSVInt64 raw = (if trim_space raw = [] then Some [] else parse_parts (split_on (CHR '','') [] (trim_space raw)) [])"

definition parseOptionalFloat64 :: "(string \<Rightarrow> f64 option) \<Rightarrow> string \<Rightarrow> f64 option option" where
  "parseOptionalFloat64 pf raw = (if trim_space raw = [] then Some None else map_option Some (pf (trim_space raw)))"

definition non_empty :: "string \<Rightarrow> string option" where
  "non_empty x = (if trim_space x = [] then None else Some (trim_space x))"

text \<open>\<open>q name\<close> is the query parameter, \<open>user\<close> the identity of the token, \<open>pf\<close> is \<open>strconv.ParseFloat\<close>.\<close>

definition buildFeedRequest :: "(string \<Rightarrow> f64 option) \<Rightarrow> id option \<Rightarrow> (string \<Rightarrow> string) \<Rightarrow> feed_request option" where
  "buildFeedRequest pf user q =
     Option.bind (parseOptionalInt (q ''limit'')) (\<lambda>limit.
     Option.bind (case non_empty (q ''category_id'') of None \<Rightarrow> Some None | Some x \<Rightarrow> map_option Some (ParseInt x)) (\<lambda>cat.
     Option.bind (parseCSVInt64 (q ''brand_ids'')) (\<lambda>bs.
     Option.bind (parseCSVInt64 (q ''tag_ids'')) (\<lambda>ts.
     Option.bind (parseCSVInt64 (q ''variant_attribute_value_ids'')) (\<lambda>vs.
     Option.bind (parseOptionalFloat64 pf (q ''price_min'')) (\<lambda>lo.
     Option.bind (parseOptionalFloat64 pf (q ''price_max'')) (\<lambda>hi.
     Option.bind (parseOptionalFloat64 pf (q ''min_rating'')) (\<lambda>mr.
     Some \<lparr>fq_type = trim_space (q ''feed_type''), fq_user = user, fq_session = non_empty (q ''session_id''),
           fq_category = cat, fq_query = non_empty (q ''query''), fq_limit = limit,
           fq_filters = \<lparr>ff_brands = bs, ff_tags = ts, ff_values = vs, ff_price_min = lo, ff_price_max = hi,
             ff_min_rating = mr, ff_discount_only = (q ''discount_only'' = ''true''),
             ff_in_stock = (q ''in_stock_only'' = ''true'')\<rparr>\<rparr>))))))))"

definition handleError :: "disco_error \<Rightarrow> nat" where
  "handleError err =
     (if err \<in> {BadFeedType, FeedCategoryRequired, BadCategoryID, BadUserID, FeedUserRequired, UserOrSessionRequired,
         BadSearchEvent, BadProductID, BadPosition, NegativeResultCount, QueryRequired, PrefixRequired} then 400
      else if err = FeedCategoryError cat_error.ErrNotFound then 404 else 500)"

definition handle_feed ::
  "feed_env \<Rightarrow> bool \<Rightarrow> (string \<Rightarrow> f64 option) \<Rightarrow> instant \<Rightarrow> id option \<Rightarrow> (string \<Rightarrow> string) \<Rightarrow> feed_db \<Rightarrow> feed_cache
     \<Rightarrow> nat \<times> card list \<times> feed_cache" where
  "handle_feed e on pf now user q d c =
     (case buildFeedRequest pf user q of
        None \<Rightarrow> (400, [], c)
      | Some r \<Rightarrow> (case GetFeed e on now r d c of (Inl err, c1) \<Rightarrow> (handleError err, [], c1) | (Inr cards, c1) \<Rightarrow> (200, cards, c1)))"

definition handle_search ::
  "feed_env \<Rightarrow> bool \<Rightarrow> (string \<Rightarrow> f64 option) \<Rightarrow> instant \<Rightarrow> id option \<Rightarrow> (string \<Rightarrow> string) \<Rightarrow> feed_db \<Rightarrow> feed_cache
     \<Rightarrow> nat \<times> card list \<times> feed_cache" where
  "handle_search e on pf now user q d c =
     (if trim_space (q ''query'') = [] then (400, [], c)
      else (case buildFeedRequest pf user q of
        None \<Rightarrow> (400, [], c)
      | Some r \<Rightarrow> (case GetFeed e on now (r\<lparr>fq_type := ''search'', fq_query := Some (trim_space (q ''query''))\<rparr>) d c of
          (Inl err, c1) \<Rightarrow> (handleError err, [], c1) | (Inr cards, c1) \<Rightarrow> (200, cards, c1))))"

text \<open>The other handlers; the JSON body has been decoded, its user comes from the token.\<close>

definition handle_suggest :: "feed_env \<Rightarrow> (string \<Rightarrow> string) \<Rightarrow> feed_db \<Rightarrow> nat \<times> suggestion list" where
  "handle_suggest e q d =
     (case parseOptionalInt (q ''limit'') of
        None \<Rightarrow> (400, [])
      | Some n \<Rightarrow> (case Suggest e \<lparr>sq_prefix = q ''prefix'', sq_limit = n\<rparr> d of
          Inl err \<Rightarrow> (handleError err, []) | Inr ss \<Rightarrow> (200, ss)))"

definition handle_track_search ::
  "feed_env \<Rightarrow> tx_fault \<Rightarrow> id \<Rightarrow> id option \<Rightarrow> search_report \<Rightarrow> feed_db \<Rightarrow> nat \<times> feed_db" where
  "handle_track_search e flt nid user r d =
     (case TrackSearch e flt nid (r\<lparr>sr_user := user\<rparr>) d of (Inl err, d1) \<Rightarrow> (handleError err, d1) | (Inr _, d1) \<Rightarrow> (201, d1))"

definition handle_track_click :: "feed_env \<Rightarrow> id option \<Rightarrow> click_report \<Rightarrow> feed_db \<Rightarrow> nat \<times> feed_db" where
  "handle_track_click e user r d =
     (case TrackSearchClick e (r\<lparr>cr_user := user\<rparr>) d of (Inl err, d1) \<Rightarrow> (handleError err, d1) | (Inr _, d1) \<Rightarrow> (201, d1))"

definition handle_recompute :: "tx_fault \<Rightarrow> tx_fault \<Rightarrow> instant \<Rightarrow> instant \<Rightarrow> instant \<Rightarrow> feed_db \<Rightarrow> nat \<times> feed_db" where
  "handle_recompute f2 f3 t1 t2 t3 d =
     (case RunOnce f2 f3 t1 t2 t3 d of (Inl _, d1) \<Rightarrow> (500, d1) | (Inr _, d1) \<Rightarrow> (200, d1))"

end
