(* ===== verification/Wishlist.thy ===== *)
theory Wishlist
  imports Discovery_Service
begin

text \<open>
  Product events (\<open>product_events_repository.go\<close>) and wishlists: \<open>internal/domain/wishlist\<close>, the repository
  \<open>wishlist.go\<close>, the service of \<open>internal/service/wishlist\<close> with its cache and the statuses of
  \<open>internal/handlers/wishlist\<close>. A user's wishlist refines a set of (product, variant) pairs.
\<close>

section \<open>Product events\<close>

record event_params =
  ep_product :: id
  ep_user :: "id option"
  ep_session :: "string option"
  ep_type :: string
  ep_qty :: int

text \<open>What the driver does with one call: where it fails, if it does.\<close>

datatype event_fault = EventFine | EventBegin | EventExec | EventCommit

text \<open>The rows, and the transactions that were begun and neither committed nor rolled back.\<close>

record event_log =
  el_rows :: "event_row list"
  el_open :: nat

definition event_fits :: "event_params \<Rightarrow> bool" where
  "event_fits p \<longleftrightarrow> rune_count (ep_type p) \<le> 30 \<and> (case ep_session p of None \<Rightarrow> True | Some x \<Rightarrow> rune_count x \<le> 255)
     \<and> int4 (ep_qty p)"

text \<open>The deferred rollback looks at the \<open>err\<close> of \<open>BeginTx\<close>, which is nil whenever it runs after a failed insert, so
  a failed insert returns with the transaction open.\<close>

definition event_Create :: "event_fault \<Rightarrow> instant \<Rightarrow> event_params \<Rightarrow> event_log \<Rightarrow> bool \<times> event_log" where
  "event_Create flt now p0 s =
     (if ep_product p0 \<le> 0 \<or> ep_type p0 = [] then (False, s)
      else let p = (if ep_qty p0 \<le> 0 then p0\<lparr>ep_qty := 1\<rparr> else p0) in
        if flt = EventBegin then (False, s)
        else if flt = EventExec \<or> \<not> event_fits p then (False, s\<lparr>el_open := el_open s + 1\<rparr>)
        else if flt = EventCommit then (False, s)
        else (True, s\<lparr>el_rows := el_rows s @ [\<lparr>ev_product = ep_product p, ev_user = ep_user p, ev_session = ep_session p,
                ev_type = ep_type p, ev_qty = ep_qty p, ev_at = now\<rparr>]\<rparr>))"

section \<open>Wishlists\<close>

datatype wish_error = WishInvalidInput | WishNotFound | WishDbError

record wish_item =
  wt_list :: id
  wt_product :: id
  wt_variant :: id
  wt_added :: instant

record wishlist =
  wl_id :: id
  wl_user :: id
  wl_created :: instant
  wl_items :: "wish_item list"

record wish_row =
  wr_id :: id
  wr_user :: id
  wr_created :: instant

record wish_db =
  wd_lists :: "wish_row list"
  wd_items :: "wish_item list"
  wd_events :: event_log

text \<open>A call's view of the outside: the next list id, the clock, whether the identity, and the product with the
  variant, exist, and what the driver does.\<close>

record wish_env =
  we_list :: id
  we_now :: instant
  we_user :: bool
  we_fk :: bool
  we_tx :: tx_fault
  we_event :: event_fault

definition struct_of :: "wish_row \<Rightarrow> wishlist" where
  "struct_of r = \<lparr>wl_id = wr_id r, wl_user = wr_user r, wl_created = wr_created r, wl_items = []\<rparr>"

definition get_or_create :: "wish_env \<Rightarrow> id \<Rightarrow> wish_db \<Rightarrow> wish_error + wishlist \<times> wish_db" where
  "get_or_create e u d =
     (case List.find (\<lambda>r. wr_user r = u) (wd_lists d) of
        Some r \<Rightarrow> Inr (struct_of r, d)
      | None \<Rightarrow>
          if \<not> we_user e \<or> we_list e \<in> wr_id ` set (wd_lists d) then Inl WishDbError
          else let r = \<lparr>wr_id = we_list e, wr_user = u, wr_created = we_now e\<rparr>
               in Inr (struct_of r, d\<lparr>wd_lists := wd_lists d @ [r]\<rparr>))"

definition GetOrCreateByUser :: "wish_env \<Rightarrow> id \<Rightarrow> wish_db \<Rightarrow> (wish_error + wishlist) \<times> wish_db" where
  "GetOrCreateByUser e u d =
     (if u \<le> 0 then (Inl WishInvalidInput, d) else run_tx (we_tx e) WishDbError (get_or_create e u) d)"

definition GetByUserWithItems :: "id \<Rightarrow> wish_db \<Rightarrow> wish_error + wishlist option" where
  "GetByUserWithItems u d =
     (if u \<le> 0 then Inl WishInvalidInput
      else case List.find (\<lambda>r. wr_user r = u) (wd_lists d) of
        None \<Rightarrow> Inr None
      | Some r \<Rightarrow> Inr (Some ((struct_of r)\<lparr>wl_items := order_by (\<lambda>a b. wt_added b \<le> wt_added a)
                  (filter (\<lambda>it. wt_list it = wr_id r) (wd_items d))\<rparr>)))"

definition same_entry :: "id \<Rightarrow> id \<Rightarrow> id \<Rightarrow> wish_item \<Rightarrow> bool" where
  "same_entry l p v it \<longleftrightarrow> wt_list it = l \<and> wt_product it = p \<and> wt_variant it = v"

text \<open>\<open>INSERT ... ON CONFLICT DO NOTHING\<close>, in its own transaction, and the event, whose outcome is ignored.\<close>

definition AddItem :: "wish_env \<Rightarrow> id \<Rightarrow> id \<Rightarrow> id \<Rightarrow> wish_db \<Rightarrow> (wish_error + unit) \<times> wish_db" where
  "AddItem e u p v d =
     (if u \<le> 0 \<or> p \<le> 0 \<or> v \<le> 0 then (Inl WishInvalidInput, d)
      else case GetOrCreateByUser e u d of
        (Inl er, d1) \<Rightarrow> (Inl er, d1)
      | (Inr w, d1) \<Rightarrow>
          if \<not> we_fk e then (Inl WishDbError, d1)
          else let its = (if list_ex (same_entry (wl_id w) p v) (wd_items d1) then wd_items d1
                          else wd_items d1 @ [\<lparr>wt_list = wl_id w, wt_product = p, wt_variant = v, wt_added = we_now e\<rparr>]);
                   ev = snd (event_Create (we_event e) (we_now e)
                          \<lparr>ep_product = p, ep_user = Some u, ep_session = None, ep_type = ''wishlist'', ep_qty = 1\<rparr> (wd_events d1))
               in (Inr (), d1\<lparr>wd_items := its, wd_events := ev\<rparr>))"

text \<open>\<open>DELETE FROM wishlist_items wi USING wishlists w WHERE w.user_id = $1 AND wi.wishlist_id = w.id\<close>.\<close>

definition of_user :: "id \<Rightarrow> wish_db \<Rightarrow> wish_item \<Rightarrow> bool" where
  "of_user u d it \<longleftrightarrow> list_ex (\<lambda>r. wr_user r = u \<and> wr_id r = wt_list it) (wd_lists d)"

definition wish_RemoveItem :: "id \<Rightarrow> id \<Rightarrow> id \<Rightarrow> wish_db \<Rightarrow> (wish_error + unit) \<times> wish_db" where
  "wish_RemoveItem u p v d =
     (if u \<le> 0 \<or> p \<le> 0 \<or> v \<le> 0 then (Inl WishInvalidInput, d)
      else let P = (\<lambda>it. of_user u d it \<and> wt_product it = p \<and> wt_variant it = v) in
        if list_ex P (wd_items d) then (Inr (), d\<lparr>wd_items := delete_where P (wd_items d)\<rparr>)
        else (Inl WishNotFound, d))"

definition wish_Clear :: "id \<Rightarrow> wish_db \<Rightarrow> (wish_error + unit) \<times> wish_db" where
  "wish_Clear u d =
     (if u \<le> 0 then (Inl WishInvalidInput, d) else (Inr (), d\<lparr>wd_items := delete_where (of_user u d) (wd_items d)\<rparr>))"

section \<open>Service\<close>

text \<open>\<open>on\<close>: whether Redis answers during the call.\<close>

record wish_state =
  ws_db :: wish_db
  ws_cache :: "(id, wishlist) cache option"

definition wishTTL :: instant where "wishTTL = 30 * 10 ^ 9"

definition wish_invalidate :: "bool \<Rightarrow> id \<Rightarrow> wish_state \<Rightarrow> wish_state" where
  "wish_invalidate on u s = (if on then s\<lparr>ws_cache := map_option (del u) (ws_cache s)\<rparr> else s)"

text \<open>The wishlist, or its empty shape when there is no row yet.\<close>

definition wish_load :: "wish_db \<Rightarrow> id \<Rightarrow> wish_error + wishlist option" where
  "wish_load d u =
     (case GetByUserWithItems u d of
        Inl er \<Rightarrow> Inl er
      | Inr None \<Rightarrow> Inr (Some \<lparr>wl_id = 0, wl_user = u, wl_created = 0, wl_items = []\<rparr>)
      | Inr (Some w) \<Rightarrow> Inr (Some w))"

definition GetMyWishlist :: "bool \<Rightarrow> instant \<Rightarrow> id \<Rightarrow> wish_state \<Rightarrow> (wish_error + wishlist option) \<times> wish_state" where
  "GetMyWishlist on now u s =
     (if u \<le> 0 then (Inl WishInvalidInput, s)
      else case (if on then ws_cache s else None) of
        None \<Rightarrow> (wish_load (ws_db s) u, s)
      | Some c \<Rightarrow> (case cached_read now wishTTL (wish_load (ws_db s)) u c of (r, c') \<Rightarrow> (r, s\<lparr>ws_cache := Some c'\<rparr>)))"

definition wish_write ::
  "bool \<Rightarrow> id \<Rightarrow> (wish_error + unit) \<times> wish_db \<Rightarrow> wish_state \<Rightarrow> (wish_error + unit) \<times> wish_state" where
  "wish_write on u r s =
     (case r of (Inl er, d) \<Rightarrow> (Inl er, s\<lparr>ws_db := d\<rparr>) | (Inr x, d) \<Rightarrow> (Inr x, wish_invalidate on u (s\<lparr>ws_db := d\<rparr>)))"

definition Wishlist_Add :: "bool \<Rightarrow> wish_env \<Rightarrow> id \<Rightarrow> id \<Rightarrow> id \<Rightarrow> wish_state \<Rightarrow> (wish_error + unit) \<times> wish_state" where
  "Wishlist_Add on e u p v s =
     (if u \<le> 0 \<or> p \<le> 0 \<or> v \<le> 0 then (Inl WishInvalidInput, s) else wish_write on u (AddItem e u p v (ws_db s)) s)"

definition Wishlist_Remove :: "bool \<Rightarrow> id \<Rightarrow> id \<Rightarrow> id \<Rightarrow> wish_state \<Rightarrow> (wish_error + unit) \<times> wish_state" where
  "Wishlist_Remove on u p v s =
     (if u \<le> 0 \<or> p \<le> 0 \<or> v \<le> 0 then (Inl WishInvalidInput, s) else wish_write on u (wish_RemoveItem u p v (ws_db s)) s)"

definition Wishlist_Clear :: "bool \<Rightarrow> id \<Rightarrow> wish_state \<Rightarrow> (wish_error + unit) \<times> wish_state" where
  "Wishlist_Clear on u s =
     (if u \<le> 0 then (Inl WishInvalidInput, s) else wish_write on u (wish_Clear u (ws_db s)) s)"

section \<open>Handlers\<close>

fun wish_status :: "wish_error \<Rightarrow> nat" where
  "wish_status WishInvalidInput = 400"
| "wish_status WishNotFound = 404"
| "wish_status WishDbError = 500"

definition handle_wish_add ::
  "bool \<Rightarrow> wish_env \<Rightarrow> id option \<Rightarrow> (id \<times> id) option \<Rightarrow> wish_state \<Rightarrow> nat \<times> wish_state" where
  "handle_wish_add on e me body s =
     (case me of None \<Rightarrow> (401, s)
      | Some u \<Rightarrow> (case body of None \<Rightarrow> (400, s)
        | Some (p, v) \<Rightarrow> (case Wishlist_Add on e u p v s of (Inl er, s') \<Rightarrow> (wish_status er, s') | (Inr _, s') \<Rightarrow> (201, s'))))"

definition handle_wish_remove ::
  "bool \<Rightarrow> id option \<Rightarrow> (string \<Rightarrow> string) \<Rightarrow> wish_state \<Rightarrow> nat \<times> wish_state" where
  "handle_wish_remove on me q s =
     (case me of None \<Rightarrow> (401, s)
      | Some u \<Rightarrow> (case ParseInt (q ''product_id'') of None \<Rightarrow> (400, s)
        | Some p \<Rightarrow> if p \<le> 0 then (400, s) else (case ParseInt (q ''variant_id'') of None \<Rightarrow> (400, s)
          | Some v \<Rightarrow> if v \<le> 0 then (400, s)
              else (case Wishlist_Remove on u p v s of (Inl er, s') \<Rightarrow> (wish_status er, s') | (Inr _, s') \<Rightarrow> (200, s')))))"

definition handle_wish_clear :: "bool \<Rightarrow> id option \<Rightarrow> wish_state \<Rightarrow> nat \<times> wish_state" where
  "handle_wish_clear on me s =
     (case me of None \<Rightarrow> (401, s)
      | Some u \<Rightarrow> (case Wishlist_Clear on u s of (Inl er, s') \<Rightarrow> (wish_status er, s') | (Inr _, s') \<Rightarrow> (200, s')))"

section \<open>A set per user\<close>





















section \<open>The cached service\<close>











section \<open>Properties\<close>






definition wish_call :: wish_env where
  "wish_call = \<lparr>we_list = 1, we_now = 5, we_user = True, we_fk = True, we_tx = NoFault, we_event = EventFine\<rparr>"

definition wish_start :: wish_state where
  "wish_start = \<lparr>ws_db = \<lparr>wd_lists = [], wd_items = [], wd_events = \<lparr>el_rows = [], el_open = 0\<rparr>\<rparr>, ws_cache = Some (\<lambda>_. None)\<rparr>"


section \<open>What the cache and the events get wrong\<close>

text \<open>A reader that loaded before a write committed and stores after the write's delete leaves the old list in the
  cache for its thirty seconds.\<close>

definition store_read :: "instant \<Rightarrow> id \<Rightarrow> wishlist \<Rightarrow> wish_state \<Rightarrow> wish_state" where
  "store_read now u w s = s\<lparr>ws_cache := map_option (put now wishTTL u w) (ws_cache s)\<rparr>"

lemma interleaved_read_hides_an_added_item:
  "let old = (case wish_load (ws_db wish_start) 7 of Inr (Some w) \<Rightarrow> w);
       s1 = snd (Wishlist_Add True wish_call 7 5 3 wish_start); s2 = store_read 6 7 old s1
   in map_option wl_items (case fst (GetMyWishlist True 100 7 s2) of Inr x \<Rightarrow> x) = Some []
     \<and> map_option (length \<circ> wl_items) (case fst (GetMyWishlist True (6 + wishTTL) 7 s2) of Inr x \<Rightarrow> x) = Some 1"
  by code_simp

text \<open>Every insert of an event that fails leaves one more transaction, and so one connection of the pool, open; no
  call ever closes one.\<close>

lemma failed_events_hold_connections:
  "0 < ep_product p \<Longrightarrow> ep_type p \<noteq> [] \<Longrightarrow>
    fst (event_Create EventExec now p s) = False \<and> el_open (snd (event_Create EventExec now p s)) = el_open s + 1"
  "el_open s \<le> el_open (snd (event_Create flt now p s))"
  by (simp_all add: event_Create_def Let_def)

text \<open>A failed \<open>AddItem\<close> keeps the list it created.\<close>

lemma failed_add_keeps_the_new_list:
  "let r = AddItem (wish_call\<lparr>we_fk := False\<rparr>) 7 5 3 (ws_db wish_start)
   in fst r = Inl WishDbError \<and> wd_lists (snd r) = [\<lparr>wr_id = 1, wr_user = 7, wr_created = 5\<rparr>]"
  by code_simp

end
