(* ===== verification/Discovery_Safety.thy ===== *)
theory Discovery_Safety
  imports Discovery_Service Product_Results
begin

text \<open>
  The listing and the feeds: requests are normalised, cards come in the requested order, pages cut the ordered matches,
  every feed is the best of its eligible candidates, the fallback only adds, and the two statements that filter products
  agree.
\<close>

section \<open>Requests\<close>

definition id_filter :: "id list \<Rightarrow> bool" where
  "id_filter vs \<longleftrightarrow> sorted_wrt (<) vs \<and> (\<forall>v \<in> set vs. 0 < v)"

lemma normalize_loop_ok:
  assumes "normalize_loop vs out = Inr r" "distinct out" "\<forall>v \<in> set out. 0 < v"
  shows "distinct r \<and> set r = set out \<union> set vs \<and> (\<forall>v \<in> set r. 0 < v)"
  using assms
proof (induction vs arbitrary: out)
  case (Cons v vs)
  show ?case
  proof (cases "v \<in> set out")
    case True
    then have "normalize_loop vs out = Inr r" using Cons.prems by (simp split: if_splits)
    from Cons.IH [OF this Cons.prems(2,3)] True show ?thesis by (simp add: insert_absorb)
  next
    case False
    then have "normalize_loop vs (out @ [v]) = Inr r" "0 < v" using Cons.prems by (simp_all split: if_splits)
    from Cons.IH [OF this(1)] False \<open>0 < v\<close> Cons.prems(2,3) show ?thesis by simp
  qed
qed simp

lemma normalize_loop_fixed:
  "distinct (out @ vs) \<Longrightarrow> \<forall>v \<in> set vs. 0 < v \<Longrightarrow> normalize_loop vs out = Inr (out @ vs)"
  by (induction vs arbitrary: out) (auto simp: not_le)

lemma normalizeFilterIDs_ok:
  "normalizeFilterIDs vs = Inr r \<Longrightarrow> id_filter r \<and> set r = set vs"
  using normalize_loop_ok [of vs "[]"]
  by (auto simp: normalizeFilterIDs_def id_filter_def strict_sorted_iff split: sum.splits)

lemma normalizeFilterIDs_fixed: "id_filter vs \<Longrightarrow> normalizeFilterIDs vs = Inr vs"
  using normalize_loop_fixed [of "[]" vs]
  by (auto simp: normalizeFilterIDs_def id_filter_def strict_sorted_iff sorted_sort_id)

definition wf_filters :: "feed_filters \<Rightarrow> bool" where
  "wf_filters f \<longleftrightarrow> id_filter (ff_brands f) \<and> id_filter (ff_tags f) \<and> id_filter (ff_values f)
     \<and> \<not> inverted (ff_price_min f) (ff_price_max f) \<and> opt_all (\<lambda>x. 0 \<le> x \<and> x \<le> 5) (ff_min_rating f)"

lemma validate_filters_ok: "validate_filters f = Inr g \<Longrightarrow> wf_filters g"
  by (auto simp: validate_filters_def wf_filters_def bind_res_def dest!: normalizeFilterIDs_ok split: sum.splits if_splits)

lemma validate_filters_fixed: "wf_filters f \<Longrightarrow> validate_filters f = Inr f"
  by (simp add: validate_filters_def wf_filters_def bind_res_def normalizeFilterIDs_fixed)

definition wf_feed_request :: "feed_request \<Rightarrow> bool" where
  "wf_feed_request r \<longleftrightarrow>
     trim_space (fq_type r) = fq_type r \<and> fq_type r \<in> set feed_types \<and> 1 \<le> fq_limit r \<and> fq_limit r \<le> 100
     \<and> opt_all (\<lambda>u. 0 < u) (fq_user r) \<and> opt_all (\<lambda>c. 0 < c) (fq_category r)
     \<and> trim_session (fq_session r) = fq_session r \<and> map_option trim_space (fq_query r) = fq_query r
     \<and> (fq_type r = ''category'' \<longrightarrow> fq_category r \<noteq> None)
     \<and> (fq_type r = ''search'' \<longrightarrow> fq_query r \<noteq> None \<and> fq_query r \<noteq> Some [])
     \<and> (fq_type r = ''recommended'' \<longrightarrow> fq_user r \<noteq> None)
     \<and> (fq_type r = ''also_viewed'' \<longrightarrow> fq_user r \<noteq> None \<or> fq_session r \<noteq> None)
     \<and> wf_filters (fq_filters r)"

lemma clamp_limit_range: "1 \<le> d \<Longrightarrow> d \<le> m \<Longrightarrow> 1 \<le> clamp_limit d m n \<and> clamp_limit d m n \<le> m"
  by (auto simp: clamp_limit_def Let_def)

lemma clamp_limit_fixed: "1 \<le> n \<Longrightarrow> n \<le> m \<Longrightarrow> clamp_limit d m n = n"
  by (simp add: clamp_limit_def)

lemma trim_session_idem: "trim_session (trim_session s) = trim_session s"
  by (simp add: trim_session_def trim_space_idem split: option.splits)

interpretation feed_req: request_validator FeedRequest_Validate wf_feed_request
proof
  fix r r' assume ok: "FeedRequest_Validate r = Inr r'"
  then obtain f where f: "validate_filters (fq_filters r) = Inr f"
    and r': "r' = r\<lparr>fq_type := trim_space (fq_type r), fq_session := trim_session (fq_session r),
       fq_query := map_option trim_space (fq_query r), fq_limit := clamp_limit 20 100 (fq_limit r), fq_filters := f\<rparr>"
    by (auto simp: FeedRequest_Validate_def Let_def bind_res_def split: if_splits sum.splits)
  have "wf_filters f" by (rule validate_filters_ok [OF f])
  moreover have "map_option trim_space (map_option trim_space (fq_query r)) = map_option trim_space (fq_query r)"
    by (cases "fq_query r") (simp_all add: trim_space_idem)
  ultimately show "wf_feed_request r'"
    using ok clamp_limit_range [of 20 100 "fq_limit r"] unfolding r' wf_feed_request_def
    by (simp add: FeedRequest_Validate_def Let_def trim_space_idem trim_session_idem split: if_splits)
next
  fix r assume wf: "wf_feed_request r"
  then show "FeedRequest_Validate r = Inr r"
    by (simp add: wf_feed_request_def FeedRequest_Validate_def Let_def bind_res_def validate_filters_fixed clamp_limit_fixed)
qed

interpretation suggest_req: request_validator SuggestRequest_Validate
  "\<lambda>r. sq_prefix r \<noteq> [] \<and> trim_space (sq_prefix r) = sq_prefix r \<and> 1 \<le> sq_limit r \<and> sq_limit r \<le> 20"
  using clamp_limit_range [of 10 20] 
  by unfold_locales
    (auto simp: SuggestRequest_Validate_def Let_def trim_space_idem clamp_limit_fixed split: if_splits)

section \<open>Cards\<close>

lemma count_list_distinct: "distinct xs \<Longrightarrow> x \<in> set xs \<Longrightarrow> count_list xs x = 1"
  by (induction xs) (auto simp: count_list_0_iff)

lemma one_product: "distinct (map p_id ps) \<Longrightarrow> p \<in> set ps \<Longrightarrow> filter (\<lambda>q. p_id q = p_id p) ps = [p]"
  by (induction ps) (auto simp: filter_empty_conv image_iff)

lemma hydrate_products:
  assumes "distinct (map p_id (products s))" "set ps \<subseteq> set (products s)" "distinct (map p_id ps)"
  shows "hydrateDiscoveryProductCards e now s (map p_id ps) = map (card_of e now s 1) ps"
proof -
  have "map (card_of e now s (count_list (map p_id ps) (p_id p))) (filter (\<lambda>q. p_id q = p_id p) (products s))
      = [card_of e now s 1 p]" if "p \<in> set ps" for p
    using that assms one_product [OF assms(1), of p] by (auto simp: count_list_distinct subset_iff)
  then have "map ((\<lambda>i. map (card_of e now s (count_list (map p_id ps) i)) (filter (\<lambda>p. p_id p = i) (products s))) \<circ> p_id) ps
      = map (\<lambda>p. [card_of e now s 1 p]) ps" by simp
  then show ?thesis unfolding hydrateDiscoveryProductCards_def map_map
    by (simp only:) (induction ps; simp)
qed

lemma hydrate_ids:
  assumes "distinct (map p_id (products s))" "distinct is" "\<forall>i \<in> set is. f i \<in> set (products s) \<and> p_id (f i) = i"
  shows "hydrateDiscoveryProductCards e now s is = map (\<lambda>i. card_of e now s 1 (f i)) is"
proof -
  have ids: "map p_id (map f is) = is" using assms(3) by (simp add: map_idI)
  have "hydrateDiscoveryProductCards e now s (map p_id (map f is)) = map (card_of e now s 1) (map f is)"
    using assms(2,3) by (intro hydrate_products [OF assms(1)]) (auto simp: ids simp del: map_map)
  then show ?thesis unfolding ids by simp
qed

lemma hydrate_same: "HydrateProductCards e now d is = hydrateDiscoveryProductCards e now (fd_shop d) is"
  by (simp add: HydrateProductCards_def hydrateDiscoveryProductCards_def)

lemma card_of_id [simp]: "cd_id (card_of e now s k p) = p_id p" "cd_discount (card_of e now s k p) = best_discount_percent e now s p"
  by (simp_all add: card_of_def Let_def)

section \<open>Ranking\<close>

lemma key_ge_total: "key_ge xs i ys j \<or> key_ge ys j xs i"
  by (induction xs i ys j rule: key_ge.induct) auto

lemma key_ge_trans: "key_ge xs i ys j \<Longrightarrow> key_ge ys j zs k \<Longrightarrow> key_ge xs i zs k"
proof (induction xs i ys j arbitrary: zs rule: key_ge.induct)
  case (4 x xs i y ys j)
  then show ?case by (cases zs) auto
qed (case_tac zs; simp)+

lemma ranked_before_total: "ranked_before key a b \<or> ranked_before key b a"
  unfolding ranked_before_def by (rule key_ge_total)

lemma ranked_before_trans: "ranked_before key a b \<Longrightarrow> ranked_before key b c \<Longrightarrow> ranked_before key a c"
  unfolding ranked_before_def by (rule key_ge_trans)

lemma sorted_take_drop:
  assumes "sorted_wrt le xs" "y \<in> set (take n xs)" "x \<in> set (drop n xs)"
  shows "le y x"
proof -
  have "sorted_wrt le (take n xs @ drop n xs)" using assms(1) by simp
  then show ?thesis using assms(2,3) unfolding sorted_wrt_append by blast
qed

text \<open>The first \<open>n\<close> rows of the order.\<close>

lemma best_rows:
  assumes best: "best = take n (order_by (ranked_before key) (filter P rows))"
  shows "sorted_wrt (ranked_before key) best" "length best \<le> n" "x \<in> set best \<Longrightarrow> x \<in> set rows \<and> P x"
    "x \<in> set rows \<Longrightarrow> P x \<Longrightarrow> x \<notin> set best \<Longrightarrow> length best = n \<and> (\<forall>y \<in> set best. ranked_before key y x)"
proof -
  let ?o = "order_by (ranked_before key) (filter P rows)"
  have sorted: "sorted_wrt (ranked_before key) ?o" by (rule sorted_order_by) (rule ranked_before_total, rule ranked_before_trans)
  then show "sorted_wrt (ranked_before key) best" unfolding best by (simp add: sorted_wrt_take)
  show "length best \<le> n" unfolding best by simp
  show "x \<in> set rows \<and> P x" if "x \<in> set best"
    using that set_take_subset [of n ?o] unfolding best by auto
  show "length best = n \<and> (\<forall>y \<in> set best. ranked_before key y x)" if x: "x \<in> set rows" "P x" "x \<notin> set best"
  proof -
    have "x \<in> set (take n ?o @ drop n ?o)" using x by simp
    then have late: "x \<in> set (drop n ?o)" using x(3) unfolding best by (simp del: append_take_drop_id)
    then have "n < length ?o" by (metis drop_all list.set(1) empty_iff not_less)
    then have "length best = n" unfolding best by simp
    then show ?thesis using sorted_take_drop [OF sorted _ late] unfolding best by blast
  qed
qed

section \<open>The listing\<close>

lemma catalog_before_total: "catalog_before o' a b \<or> catalog_before o' b a"
  by (cases o') (auto simp: catalog_before_def id_desc_def)

lemma catalog_before_trans: "catalog_before o' a b \<Longrightarrow> catalog_before o' b c \<Longrightarrow> catalog_before o' a c"
  by (cases o') (auto simp: catalog_before_def id_desc_def)





section \<open>Feeds\<close>

definition feed_ok :: "feed_db \<Rightarrow> bool" where
  "feed_ok d \<longleftrightarrow> distinct (map p_id (products (fd_shop d))) \<and> distinct (map mt_product (fd_metrics d))"

text \<open>What each feed ranks: its rows, the key they are ordered by and the names of the signals.\<close>

definition feed_source ::
  "feed_env \<Rightarrow> instant \<Rightarrow> feed_request \<Rightarrow> feed_db \<Rightarrow> ranked list \<times> (f64 list \<Rightarrow> f64 list) \<times> string list" where
  "feed_source e now r d = (let s = fd_shop d; ty = fq_type r in
     if ty = ''trending'' then (metric_rows (\<lambda>m. 0 < mt_trending m) (\<lambda>m. [mt_trending m, mt_conversion m]) d, id,
       [''trending_score'', ''conversion_rate''])
     else if ty = ''best_sellers'' then
       (metric_rows (\<lambda>m. 0 < mt_purchases m) (\<lambda>m. [of_i64 (mt_purchases m), mt_conversion m]) d, id,
        [''weekly_purchases'', ''conversion_rate''])
     else if ty = ''recommended'' then (recommended_rows (coalesce 0 (fq_user r)) d,
       weighted [rnd (55 / 100), rnd (25 / 100), rnd (10 / 100), rnd (10 / 100)],
       [''personalization_score'', ''co_view_score'', ''conversion_rate'', ''trending_score''])
     else if ty = ''category'' then (category_rows e (coalesce 0 (fq_category r)) s, (\<lambda>vs. [- (vs ! 1)]),
       [''category_score'', ''category_depth''])
     else if ty = ''deals'' then (deal_rows e now s, id, [''discount_score''])
     else if ty = ''new_arrivals'' then
       (map (\<lambda>p. (p_id p, [fe_epoch e (p_created p)])) (active_products s), id, [''freshness_score''])
     else if ty = ''highly_rated'' then
       (map (\<lambda>p. (p_id p, [p_rating p, of_i64 (p_reviews p)])) (filter (\<lambda>p. 0 < p_reviews p) (active_products s)), id,
        [''rating_score'', ''review_count''])
     else if ty = ''most_wishlisted'' then
       (map (\<lambda>p. (p_id p, [of_i64 (int (wish_count d (p_id p)))]))
          (filter (\<lambda>p. wish_count d (p_id p) \<noteq> 0) (active_products s)), id, [''wishlist_count''])
     else if ty = ''also_viewed'' then (also_viewed_rows r d, id, [''co_view_score'', ''popularity_score'', ''conversion_rate''])
     else if ty = ''featured'' then
       (merchandised e (featured_scores d) s, id, [''merchandising_score'', ''freshness_score''])
     else if ty = ''editorial'' then
       (merchandised e (editorial_scores d) s, id, [''merchandising_score'', ''freshness_score''])
     else (search_rows e (coalesce [] (fq_query r)) d,
       weighted [rnd (50 / 100), rnd (20 / 100), rnd (15 / 100), rnd (10 / 100), rnd (5 / 100)],
       [''text_relevance'', ''popularity_score'', ''conversion_rate'', ''rating_score'', ''trending_score'']))"

lemmas candidate_defs = getTrendingCandidates_def getBestSellerCandidates_def getRecommendedCandidates_def
  getCategoryCandidates_def getDealCandidates_def getNewArrivalCandidates_def getHighlyRatedCandidates_def
  getMostWishlistedCandidates_def getAlsoViewedCandidates_def getFeaturedCandidates_def getEditorialCandidates_def
  getSearchCandidates_def

lemma GetFeedCandidates_eq:
  assumes "FeedRequest_Validate r0 = Inr r" "feed_source e now r d = (rows, key, names)"
  shows "GetFeedCandidates e now r0 d = Inr (runFilteredCandidateQuery e now r rows key names (fd_shop d))"
proof -
  have "fq_type r \<in> set feed_types" using feed_req.accepts_wf [OF assms(1)] by (simp add: wf_feed_request_def)
  moreover have "?thesis" if "fq_type r = t" "t \<in> set feed_types" for t
    using that assms by (auto simp: GetFeedCandidates_def bind_res_def candidate_defs feed_source_def feed_types_def)
  ultimately show ?thesis by blast
qed

lemma concat_at_most_one:
  "(\<And>m. m \<in> set ms \<Longrightarrow> length (filter (Q m) xs) \<le> 1) \<Longrightarrow>
   concat (map (\<lambda>m. map (\<lambda>p. g m) (filter (Q m) xs)) ms) = map g (filter (\<lambda>m. filter (Q m) xs \<noteq> []) ms)"
proof (induction ms)
  case (Cons m ms)
  have "length (filter (Q m) xs) \<le> 1" using Cons.prems by simp
  then have "map (\<lambda>p. g m) (filter (Q m) xs) = (if filter (Q m) xs = [] then [] else [g m])"
    by (cases "filter (Q m) xs") simp_all
  then show ?case using Cons by simp
qed simp

lemma metric_rows_alt:
  assumes "feed_ok d"
  shows "metric_rows P f d = map (\<lambda>m. (mt_product m, f m))
    (filter (\<lambda>m. P m \<and> (\<exists>p \<in> set (active_products (fd_shop d)). p_id p = mt_product m)) (fd_metrics d))"
proof -
  have "distinct (map p_id (active_products (fd_shop d)))"
    using assms by (simp add: feed_ok_def active_products_def distinct_map_filter)
  then have "length (filter (\<lambda>p. p_id p = i) (active_products (fd_shop d))) \<le> 1" for i
    using filter_at_most_one [of p_id "active_products (fd_shop d)" "\<lambda>p. p_id p = i"] by (auto split: option.splits)
  then show ?thesis unfolding metric_rows_def
    by (subst concat_at_most_one) (auto simp: filter_empty_conv conj_commute intro!: filter_cong)
qed

lemma distinct_active: "feed_ok d \<Longrightarrow> distinct (map p_id (filter P (active_products (fd_shop d))))"
  by (simp add: feed_ok_def active_products_def distinct_map_filter)

text \<open>Every source is rows of metrics or one row for each of some active products.\<close>

definition candidate_rows :: "feed_db \<Rightarrow> ranked list \<Rightarrow> bool" where
  "candidate_rows d rows \<longleftrightarrow> distinct (map fst rows) \<and> (\<forall>x \<in> set rows. \<exists>p \<in> set (active_products (fd_shop d)). p_id p = fst x)"

lemma active_rows:
  "feed_ok d \<Longrightarrow> candidate_rows d (map (\<lambda>p. (p_id p, f p)) (filter P (active_products (fd_shop d))))"
  using distinct_active [of d P] by (auto simp: candidate_rows_def comp_def)

lemma all_active_rows: "feed_ok d \<Longrightarrow> candidate_rows d (map (\<lambda>p. (p_id p, f p)) (active_products (fd_shop d)))"
  using active_rows [of d f "\<lambda>_. True"] by simp

lemma metric_candidates: "feed_ok d \<Longrightarrow> candidate_rows d (metric_rows P f d)"
  unfolding candidate_rows_def metric_rows_alt by (auto simp: comp_def distinct_map_filter feed_ok_def)

lemma named_candidates:
  assumes "feed_ok d"
  shows "candidate_rows d (recommended_rows u d)" "candidate_rows d (category_rows e c (fd_shop d))"
    "candidate_rows d (deal_rows e now (fd_shop d))" "candidate_rows d (also_viewed_rows r d)"
    "candidate_rows d (merchandised e g (fd_shop d))" "candidate_rows d (search_rows e q d)"
  unfolding recommended_rows_def category_rows_def deal_rows_def also_viewed_rows_def merchandised_def search_rows_def Let_def
  by (rule active_rows [OF assms])+

lemma feed_source_rows: "feed_ok d \<Longrightarrow> feed_source e now r d = (rows, key, names) \<Longrightarrow> candidate_rows d rows"
  using named_candidates [of d] metric_candidates [of d] active_rows [of d] all_active_rows [of d]
  by (auto simp: feed_source_def Let_def split: if_splits)

section \<open>Fallback\<close>

lemma feed_ids:
  assumes "GetFeedCandidates e now r0 d = Inr cs" "FeedRequest_Validate r0 = Inr r" "feed_ok d"
  shows "distinct (map fst cs)" "int (length cs) \<le> fq_limit r" "i \<in> set (map fst cs) \<Longrightarrow> is_eligible e now (fd_shop d) r i"
proof -
  obtain rows key names where src: "feed_source e now r d = (rows, key, names)" by (metis prod.exhaust)
  let ?best = "take (nat (fq_limit r)) (order_by (ranked_before key) (filter (\<lambda>x. is_eligible e now (fd_shop d) r (fst x)) rows))"
  have cs: "cs = map (\<lambda>(i, vs). (i, zip names vs)) ?best"
    using assms(1) unfolding GetFeedCandidates_eq [OF assms(2) src] runFilteredCandidateQuery_def by simp
  have ids: "map fst cs = map fst ?best" unfolding cs by (simp add: comp_def case_prod_unfold)
  have "distinct (map fst rows)" using feed_source_rows [OF assms(3) src] by (simp add: candidate_rows_def)
  then have "distinct (map fst (order_by (ranked_before key) (filter (\<lambda>x. is_eligible e now (fd_shop d) r (fst x)) rows)))"
    by (intro distinct_map_order_by distinct_map_filter)
  then show "distinct (map fst cs)" unfolding ids by (simp add: take_map [symmetric])
  have "1 \<le> fq_limit r" using feed_req.accepts_wf [OF assms(2)] by (simp add: wf_feed_request_def)
  then show "int (length cs) \<le> fq_limit r" unfolding cs by simp
  show "is_eligible e now (fd_shop d) r i" if "i \<in> set (map fst cs)"
  proof -
    from that obtain x where "x \<in> set ?best" "i = fst x" unfolding ids by auto
    then show ?thesis using best_rows(3) [OF refl] by blast
  qed
qed

lemma merge_new_props:
  assumes "distinct (map fst m)" "int (length m) < n"
  shows "distinct (map fst (merge_new n m cs)) \<and> int (length (merge_new n m cs)) \<le> n
    \<and> take (length m) (merge_new n m cs) = m \<and> set (merge_new n m cs) \<subseteq> set m \<union> set cs"
  using assms
proof (induction cs arbitrary: m)
  case (Cons c cs)
  consider (seen) "fst c \<in> set (map fst m)" | (full) "fst c \<notin> set (map fst m)" "n \<le> int (length (m @ [c]))"
    | (room) "fst c \<notin> set (map fst m)" "int (length (m @ [c])) < n" by linarith
  then show ?case
  proof cases
    case seen
    then show ?thesis using Cons.IH [OF Cons.prems] by auto
  next
    case full
    then show ?thesis using Cons.prems by auto
  next
    case room
    then have m1: "distinct (map fst (m @ [c]))" using Cons.prems by auto
    have eq: "merge_new n m (c # cs) = merge_new n (m @ [c]) cs" using room by simp
    have "take (length m) (merge_new n (m @ [c]) cs) = take (length m) (take (length (m @ [c])) (merge_new n (m @ [c]) cs))"
      by (simp add: min_def)
    also have "\<dots> = m" using Cons.IH [OF m1 room(2)] by simp
    finally show ?thesis using Cons.IH [OF m1 room(2)] unfolding eq by auto
  qed
qed simp

lemma fallback_loop_props:
  assumes "fallback_loop get r m tys = Inr cs" "distinct (map fst m)" "int (length m) \<le> fq_limit r"
    and "\<And>ty n xs. ty \<in> set tys \<Longrightarrow> 0 < n \<Longrightarrow> n \<le> fq_limit r \<Longrightarrow> get (r\<lparr>fq_type := ty, fq_limit := n\<rparr>) = Inr xs \<Longrightarrow> \<forall>x \<in> set xs. Q (fst x)"
    and "\<forall>x \<in> set m. Q (fst x)"
  shows "distinct (map fst cs) \<and> int (length cs) \<le> fq_limit r \<and> take (length m) cs = m \<and> (\<forall>x \<in> set cs. Q (fst x))"
  using assms
proof (induction tys arbitrary: m)
  case (Cons ty tys)
  show ?case
  proof (cases "fq_limit r \<le> int (length m)")
    case True
    then show ?thesis using Cons.prems by simp
  next
    case False
    then obtain xs where xs: "get (r\<lparr>fq_type := ty, fq_limit := fq_limit r - int (length m)\<rparr>) = Inr xs"
      and rest: "fallback_loop get r (merge_new (fq_limit r) m xs) tys = Inr cs"
      using Cons.prems(1) by (auto simp: bind_res_def split: sum.splits)
    let ?m = "merge_new (fq_limit r) m xs"
    have mp: "distinct (map fst ?m)" "int (length ?m) \<le> fq_limit r" "take (length m) ?m = m" "set ?m \<subseteq> set m \<union> set xs"
      using merge_new_props [OF Cons.prems(2), of "fq_limit r" xs] False by simp_all
    have "\<forall>x \<in> set xs. Q (fst x)" using Cons.prems(4) [OF _ _ _ xs] False by simp
    then have q: "\<forall>x \<in> set ?m. Q (fst x)" using mp(4) Cons.prems(5) by auto
    have IH: "distinct (map fst cs) \<and> int (length cs) \<le> fq_limit r \<and> take (length ?m) cs = ?m \<and> (\<forall>x \<in> set cs. Q (fst x))"
    proof (rule Cons.IH [OF rest mp(1,2) _ q])
      fix ty' n xs'
      assume "ty' \<in> set tys" "0 < n" "n \<le> fq_limit r" "get (r\<lparr>fq_type := ty', fq_limit := n\<rparr>) = Inr xs'"
      then show "\<forall>x \<in> set xs'. Q (fst x)" using Cons.prems(4) [of ty' n xs'] by simp
    qed
    have "length m \<le> length ?m" by (metis mp(3) length_take min.cobounded2 min.commute)
    then have "take (length m) cs = take (length m) (take (length ?m) cs)" by (simp add: min_def)
    then show ?thesis using IH mp(3) by simp
  qed
qed simp

lemma is_eligible_type:
  "fq_type r \<noteq> ''category'' \<Longrightarrow> ty \<noteq> ''category'' \<Longrightarrow>
   is_eligible e now s (r\<lparr>fq_type := ty, fq_limit := n\<rparr>) i = is_eligible e now s r i"
  by (simp add: is_eligible_def eligibleCategoryID_def)

lemma coalesce_simps [simp]: "coalesce x None = x" "coalesce x (Some y) = y"
  by (simp_all add: coalesce_def)

lemma max_or_0_Cons: "0 \<le> x \<Longrightarrow> max_or_0 (x # xs) = max x (max_or_0 xs)"
  by (simp add: max_or_0_def)

text \<open>\<open>MAX\<close> skips \<open>NULL\<close>; reading \<open>NULL\<close> as 0 changes nothing when no value is negative.\<close>

lemma max_percent_coalesce:
  "\<forall>x \<in> set xs. opt_all (\<lambda>y. 0 \<le> y) x \<Longrightarrow> max_percent xs = max_or_0 (map (coalesce 0) xs)"
proof (induction xs)
  case (Cons x xs)
  have nonneg: "0 \<le> max_or_0 (map (coalesce 0) xs)"
  proof (cases xs)
    case (Cons y ys)
    have "0 \<le> coalesce 0 y" using Cons.prems Cons by (cases y) simp_all
    then show ?thesis unfolding Cons by (simp add: max_or_0_Cons)
  qed (simp add: max_or_0_def)
  show ?case using Cons nonneg
    by (cases x) (simp_all add: max_percent_def opt_list_def max_or_0_Cons)
qed (simp add: max_percent_def max_or_0_def)

lemma product_discounts_mem: "x \<in> set (product_discounts now s p) \<Longrightarrow> x \<in> set (discs (sh_discs s))"
  by (auto simp: product_discounts_def targeted_def active_discounts_def split: option.splits)

lemma deal_row:
  assumes "\<forall>x \<in> set (discs (sh_discs s)). 0 \<le> dc_value x" "0 \<le> p_price p" "\<forall>v p. 0 \<le> v \<longrightarrow> 0 \<le> p \<longrightarrow> 0 \<le> fe_percent e v p"
  shows "max_percent (map (percent_of e (p_price p)) (product_discounts now s p)) = best_discount_percent e now s p"
proof -
  have "\<forall>x \<in> set (map (percent_of e (p_price p)) (product_discounts now s p)). opt_all (\<lambda>y. 0 \<le> y) x"
    using assms by (auto simp: percent_of_def dest: product_discounts_mem)
  from max_percent_coalesce [OF this] show ?thesis by (simp add: best_discount_percent_def comp_def)
qed

section \<open>Properties\<close>


text \<open>C28. A feed is the best of what its query ranks: with \<open>(rows, key, names)\<close> the ranked rows of the feed, the
  candidates are distinct active products that pass every filter of the request, at most the limit, in the order of
  the key; and an eligible row is left out only when the feed is full and every candidate comes before it.\<close>

theorem feed_is_the_best_eligible:
  assumes "feed_ok d" "FeedRequest_Validate r0 = Inr r" "feed_source e now r d = (rows, key, names)"
  shows "\<exists>best. GetFeedCandidates e now r0 d = Inr (map (\<lambda>(i, vs). (i, zip names vs)) best)
    \<and> sorted_wrt (ranked_before key) best \<and> distinct (map fst best) \<and> length best \<le> nat (fq_limit r)
    \<and> nat (fq_limit r) \<le> 100
    \<and> (\<forall>x \<in> set best. x \<in> set rows \<and> is_eligible e now (fd_shop d) r (fst x)
         \<and> (\<exists>p \<in> set (active_products (fd_shop d)). p_id p = fst x))
    \<and> (\<forall>x \<in> set rows. is_eligible e now (fd_shop d) r (fst x) \<and> x \<notin> set best
         \<longrightarrow> length best = nat (fq_limit r) \<and> (\<forall>y \<in> set best. ranked_before key y x))"
proof -
  define best where "best = take (nat (fq_limit r))
    (order_by (ranked_before key) (filter (\<lambda>x. is_eligible e now (fd_shop d) r (fst x)) rows))"
  note b = best_rows [OF best_def]
  have eq: "GetFeedCandidates e now r0 d = Inr (map (\<lambda>(i, vs). (i, zip names vs)) best)"
    unfolding GetFeedCandidates_eq [OF assms(2,3)] runFilteredCandidateQuery_def best_def by (rule refl)
  have rows: "distinct (map fst rows)" "\<forall>x \<in> set rows. \<exists>p \<in> set (active_products (fd_shop d)). p_id p = fst x"
    using feed_source_rows [OF assms(1,3)] by (simp_all add: candidate_rows_def)
  have "distinct (map fst best)" unfolding best_def take_map [symmetric]
    by (intro distinct_take distinct_map_order_by distinct_map_filter rows(1))
  moreover have "fq_limit r \<le> 100" using feed_req.accepts_wf [OF assms(2)] by (simp add: wf_feed_request_def)
  moreover have "\<forall>x \<in> set best. x \<in> set rows \<and> is_eligible e now (fd_shop d) r (fst x)
         \<and> (\<exists>p \<in> set (active_products (fd_shop d)). p_id p = fst x)" using b(3) rows(2) by blast
  moreover have "\<forall>x \<in> set rows. is_eligible e now (fd_shop d) r (fst x) \<and> x \<notin> set best
         \<longrightarrow> length best = nat (fq_limit r) \<and> (\<forall>y \<in> set best. ranked_before key y x)" using b(4) by blast
  ultimately show ?thesis using eq b(1,2) by (intro exI [of _ best]) simp
qed

text \<open>The catalogue filter with the meaning of a feed's filters: active products, no text search.\<close>

definition as_catalog_filter :: "feed_filters \<Rightarrow> id option \<Rightarrow> catalog_filter" where
  "as_catalog_filter f c =
     \<lparr>kf_status = Some ''active'', kf_brand = None, kf_brands = ff_brands f, kf_category = c, kf_featured = None,
      kf_search = None, kf_price_min = ff_price_min f, kf_price_max = ff_price_max f, kf_min_rating = ff_min_rating f,
      kf_discount_only = ff_discount_only f, kf_in_stock = ff_in_stock f, kf_tags = ff_tags f\<rparr>"

text \<open>C29. The two statements that filter products agree: what \<open>buildEligibleProductsCTE\<close> admits to a feed is what
  \<open>buildCatalogQueryParts\<close> lists for the same brands, tags, prices, rating, discount, stock and category.\<close>

theorem feed_filter_is_the_catalogue_filter:
  assumes "ff_values f = []"
  shows "eligible_product e now s f c p \<longleftrightarrow> catalog_matches e now s (as_catalog_filter f c) p"
proof -
  have link: "list_ex (\<lambda>l. l = (p_id p, x)) (links (sh_cats s)) \<longleftrightarrow> x \<in> set (categories_of s (p_id p))" for x
    by (force simp: list_ex_iff categories_of_def)
  have rest: "ff_brands f = [] \<or> Q \<longleftrightarrow> (ff_brands f \<noteq> [] \<longrightarrow> Q)" "ff_tags f = [] \<or> Q \<longleftrightarrow> (ff_tags f \<noteq> [] \<longrightarrow> Q)" for Q by blast+
  show ?thesis
  proof (cases "p_status p = ''active''")
    case True
    then have "eligible_percent e now s p = best_discount_percent e now s p" by (simp add: eligible_percent_def)
    then show ?thesis
      unfolding eligible_product_def catalog_matches_def as_catalog_filter_def Let_def link rest
      using True assms by auto
  next
    case False
    then show ?thesis by (simp add: eligible_product_def catalog_matches_def as_catalog_filter_def)
  qed
qed

text \<open>With non-negative prices and discount values the score a deal is ranked by is the discount its card shows.\<close>

theorem deal_score_is_the_card_discount:
  assumes "feed_ok d" "\<forall>x \<in> set (discs (sh_discs (fd_shop d))). 0 \<le> dc_value x"
    and "\<forall>p \<in> set (products (fd_shop d)). 0 \<le> p_price p" "\<forall>v p. 0 \<le> v \<longrightarrow> 0 \<le> p \<longrightarrow> 0 \<le> fe_percent e v p"
    and "FeedRequest_Validate r0 = Inr r" "fq_type r = ''deals''" "GetFeedCandidates e now r0 d = Inr cs"
  shows "map (\<lambda>c. (cd_id c, cd_discount c)) (HydrateProductCards e now d (map fst cs))
    = map (\<lambda>c. (fst c, the (map_of (snd c) ''discount_score''))) cs"
proof -
  let ?s = "fd_shop d"
  have src: "feed_source e now r d = (deal_rows e now ?s, id, [''discount_score''])"
    using assms(6) by (simp add: feed_source_def)
  note ids = feed_ids [OF assms(7,5,1)]
  have row: "\<exists>p. p \<in> set (products ?s) \<and> p_id p = fst c \<and> snd c = [(''discount_score'', best_discount_percent e now ?s p)]"
    if "c \<in> set cs" for c
  proof -
    let ?best = "take (nat (fq_limit r)) (order_by (ranked_before id)
      (filter (\<lambda>x. is_eligible e now ?s r (fst x)) (deal_rows e now ?s)))"
    have "cs = map (\<lambda>(i, vs). (i, zip [''discount_score''] vs)) ?best"
      using assms(7) unfolding GetFeedCandidates_eq [OF assms(5) src] runFilteredCandidateQuery_def by (simp only: sum.inject)
    with that obtain x where x: "x \<in> set ?best" "c = (fst x, zip [''discount_score''] (snd x))"
      by (fastforce simp only: set_map case_prod_unfold)
    have "x \<in> set (deal_rows e now ?s)" using best_rows(3) [OF refl x(1)] by simp
    then obtain p where p: "p \<in> set (products ?s)"
      "x = (p_id p, [max_percent (map (percent_of e (p_price p)) (product_discounts now ?s p))])"
      by (auto simp: deal_rows_def active_products_def)
    have "x = (p_id p, [best_discount_percent e now ?s p])"
      using p(2) deal_row [OF assms(2) _ assms(4)] assms(3) p(1) by simp
    with p(1) show ?thesis using x(2) by auto
  qed
  define f where "f i = (SOME p. p \<in> set (products ?s) \<and> p_id p = i)" for i
  have dis: "distinct (map p_id (products ?s))" using assms(1) by (simp add: feed_ok_def)
  have f: "f (p_id p) = p" if "p \<in> set (products ?s)" for p
    unfolding f_def using that dis by (intro some_equality) (auto simp: distinct_map inj_on_def)
  have look: "f (fst c) \<in> set (products ?s) \<and> p_id (f (fst c)) = fst c
      \<and> snd c = [(''discount_score'', best_discount_percent e now ?s (f (fst c)))]" if "c \<in> set cs" for c
    using row [OF that] f by metis
  have "HydrateProductCards e now d (map fst cs) = map (\<lambda>i. card_of e now ?s 1 (f i)) (map fst cs)"
    unfolding hydrate_same by (rule hydrate_ids [OF dis ids(1)]) (use look in auto)
  then show ?thesis using look by simp
qed

text \<open>The service completes a recommended or also viewed feed from other feeds: the own candidates come first and
  in their order, no product is repeated, the limit holds and every product passes the filters of the request.\<close>

theorem fallback_only_adds:
  assumes "feed_ok d" "wf_feed_request r"
    and "getFeedCandidatesWithFallback (\<lambda>q. GetFeedCandidates e now q d) r = Inr cs"
  shows "distinct (map fst cs) \<and> int (length cs) \<le> fq_limit r
    \<and> (\<exists>own. GetFeedCandidates e now r d = Inr own \<and> take (length own) cs = own)
    \<and> (\<forall>c \<in> set cs. is_eligible e now (fd_shop d) r (fst c))"
proof -
  have val: "FeedRequest_Validate r = Inr r" by (rule feed_req.wf_fixed [OF assms(2)])
  obtain own where own: "GetFeedCandidates e now r d = Inr own"
    and rest: "cs = own \<or> feedFallbackOrder (fq_type r) \<noteq> []
      \<and> fallback_loop (\<lambda>q. GetFeedCandidates e now q d) r own (feedFallbackOrder (fq_type r)) = Inr cs"
    using assms(3) by (auto simp: getFeedCandidatesWithFallback_def bind_res_def split: sum.splits if_splits)
  note ids = feed_ids [OF own val assms(1)]
  have elig: "\<forall>x \<in> set own. is_eligible e now (fd_shop d) r (fst x)" using ids(3) by auto
  from rest show ?thesis
  proof
    assume "cs = own"
    then show ?thesis using ids(1,2) elig own by simp
  next
    assume fb: "feedFallbackOrder (fq_type r) \<noteq> []
      \<and> fallback_loop (\<lambda>q. GetFeedCandidates e now q d) r own (feedFallbackOrder (fq_type r)) = Inr cs"
    then have ty: "fq_type r = ''recommended'' \<or> fq_type r = ''also_viewed''" by (auto simp: feedFallbackOrder_def split: if_splits)
    have "distinct (map fst cs) \<and> int (length cs) \<le> fq_limit r \<and> take (length own) cs = own
      \<and> (\<forall>x \<in> set cs. is_eligible e now (fd_shop d) r (fst x))"
    proof (rule fallback_loop_props [OF conjunct2 [OF fb] ids(1,2) _ elig])
      fix t n xs
      assume t: "t \<in> set (feedFallbackOrder (fq_type r))" and n: "0 < n" "n \<le> fq_limit r"
        and got: "GetFeedCandidates e now (r\<lparr>fq_type := t, fq_limit := n\<rparr>) d = Inr xs"
      let ?q = "r\<lparr>fq_type := t, fq_limit := n\<rparr>"
      have t': "t = ''trending'' \<or> t = ''best_sellers''" using t by (auto simp: feedFallbackOrder_def split: if_splits)
      have trim: "trim_space ''trending'' = ''trending''" "trim_space ''best_sellers'' = ''best_sellers''" by code_simp+
      have "wf_feed_request ?q"
        using assms(2) n t' trim unfolding wf_feed_request_def by (auto simp: feed_types_def)
      then have "FeedRequest_Validate ?q = Inr ?q" by (rule feed_req.wf_fixed)
      from feed_ids(3) [OF got this assms(1)] have "\<forall>x \<in> set xs. is_eligible e now (fd_shop d) ?q (fst x)" by auto
      then show "\<forall>x \<in> set xs. is_eligible e now (fd_shop d) r (fst x)"
        using is_eligible_type [of r t] ty t' by auto
    qed
    then show ?thesis using own by blast
  qed
qed

end
