(* ===== verification/Discovery_Keys.thy ===== *)
theory Discovery_Keys
  imports Discovery_Safety
begin

text \<open>
  Text forms of feed requests: numbers and id lists read back what was printed, and the key of the feed cache
  determines the request, up to two decimals of its prices and rating, when session and query have no colon.
\<close>

section \<open>Joining and splitting\<close>

lemma split_on_plain: "sep \<notin> set xs \<Longrightarrow> split_on sep acc (xs @ ys) = split_on sep (acc @ xs) ys"
  by (induction xs arbitrary: acc) auto

lemma split_on_join:
  "ps \<noteq> [] \<Longrightarrow> \<forall>p \<in> set ps. sep \<notin> set p \<Longrightarrow> split_on sep [] (join_with [sep] ps) = ps"
proof (induction "[sep]" ps rule: join_with.induct)
  case (2 x)
  then show ?case using split_on_plain [of sep x "[]" "[]"] by simp
next
  case (3 x y ys)
  then show ?case by (simp add: split_on_plain)
qed simp

lemma join_with_inj:
  assumes "\<forall>p \<in> set ps. sep \<notin> set p" "\<forall>p \<in> set qs. sep \<notin> set p" "ps \<noteq> []" "qs \<noteq> []"
    and "join_with [sep] ps = join_with [sep] qs"
  shows "ps = qs"
  using split_on_join assms by metis

lemma join_with_chars: "c \<in> set (join_with sep ps) \<Longrightarrow> c \<in> set sep \<or> (\<exists>p \<in> set ps. c \<in> set p)"
  by (induction sep ps rule: join_with.induct) auto

lemma trim_visible:
  assumes "\<forall>c \<in> set s. 33 \<le> (of_char c :: nat) \<and> (of_char c :: nat) < 127"
  shows "trim_space s = s"
proof -
  have out: "\<forall>x \<in> set space_encodings. x \<noteq> [] \<and> (\<forall>c \<in> set x. \<not> (33 \<le> (of_char c :: nat) \<and> (of_char c :: nat) < 127))"
    by (simp add: space_encodings_def)
  have "\<not> set x \<subseteq> set s" if "x \<in> set space_encodings" for x
    using bspec [OF out that] assms by (cases x) auto
  then have "strip_left s = s" "strip_right s = s"
    by (intro strip_left_id strip_right_id; use set_mono_prefix set_mono_suffix in blast)+
  then show ?thesis by (simp add: trim_space_def)
qed

lemma string_of_int_visible: "c \<in> set (string_of_int n) \<Longrightarrow> 33 \<le> (of_char c :: nat) \<and> (of_char c :: nat) < 127"
  using string_of_int_chars [of c n] by auto

lemma id_list_visible: "c \<in> set (join_with '','' (map string_of_int vs)) \<Longrightarrow> 33 \<le> (of_char c :: nat) \<and> (of_char c :: nat) < 127"
  using string_of_int_visible by (auto dest!: join_with_chars)

lemma parse_parts_ints:
  "\<forall>v \<in> set vs. - (2 ^ 63) \<le> v \<and> v < 2 ^ 63 \<Longrightarrow> parse_parts (map string_of_int vs) out = Some (out @ vs)"
proof (induction vs arbitrary: out)
  case (Cons v vs)
  have "trim_space (string_of_int v) = string_of_int v" by (rule trim_visible) (use string_of_int_visible in blast)
  then show ?case using Cons ParseInt_string_of_int [of v] by (simp add: string_of_int_plain(3))
qed simp

section \<open>Labelled parts\<close>

definition labelled :: "string \<times> string option \<Rightarrow> string list" where
  "labelled x = (case snd x of None \<Rightarrow> [] | Some v \<Rightarrow> [fst x @ v])"

definition unrelated :: "string list \<Rightarrow> bool" where
  "unrelated ls \<longleftrightarrow> sorted_wrt (\<lambda>a b. \<not> prefix a b \<and> \<not> prefix b a) ls"

lemma filter_other_labels:
  "\<forall>x \<in> set ps. \<not> prefix l (fst x) \<and> \<not> prefix (fst x) l \<Longrightarrow> filter (prefix l) (concat (map labelled ps)) = []"
proof (induction ps)
  case (Cons x ps)
  have "\<not> prefix l (fst x @ v)" for v using Cons.prems prefix_same_cases [of l "fst x @ v" "fst x"] by auto
  then show ?case using Cons by (simp add: labelled_def split: option.splits)
qed simp

lemma labelled_inj:
  assumes "map fst ps = map fst qs" "unrelated (map fst ps)" "concat (map labelled ps) = concat (map labelled qs)"
  shows "ps = qs"
  using assms
proof (induction ps arbitrary: qs)
  case (Cons p ps)
  then obtain q qs' where qs: "qs = q # qs'" "fst q = fst p" "map fst ps = map fst qs'" by (cases qs) auto
  have other: "\<forall>x \<in> set ps. \<not> prefix (fst p) (fst x) \<and> \<not> prefix (fst x) (fst p)"
    "unrelated (map fst ps)" using Cons.prems(2) by (auto simp: unrelated_def)
  have other': "\<forall>x \<in> set qs'. \<not> prefix (fst p) (fst x) \<and> \<not> prefix (fst x) (fst p)"
    using other(1) qs(3) by (metis (no_types, lifting) image_iff list.set_map)
  have own: "filter (prefix (fst p)) (labelled x) = labelled x" if "fst x = fst p" for x
    using that by (simp add: labelled_def split: option.splits)
  have "labelled p @ concat (map labelled ps) = labelled q @ concat (map labelled qs')" using Cons.prems(3) qs(1) by simp
  moreover from arg_cong [OF this, of "filter (prefix (fst p))"]
  have "labelled p = labelled q"
    by (simp add: own qs(2) filter_other_labels [OF other(1)] filter_other_labels [OF other'])
  ultimately have "concat (map labelled ps) = concat (map labelled qs')" "p = q"
    using qs(2) by (auto simp: labelled_def prod_eq_iff split: option.splits)
  then show ?case using Cons.IH [OF qs(3) other(2)] qs(1) by simp
qed simp

definition ids_text :: "id list \<Rightarrow> string option" where
  "ids_text vs = (if vs = [] then None else Some (join_with '','' (map string_of_int (sort vs))))"

definition key_fields :: "unicode \<Rightarrow> feed_request \<Rightarrow> (string \<times> string option) list" where
  "key_fields u r = (let f = fq_filters r in
     [(''limit='', Some (string_of_int (fq_limit r))), (''user='', map_option string_of_int (fq_user r)),
      (''session='', fq_session r), (''category='', map_option string_of_int (fq_category r)),
      (''query='', map_option (to_lower u) (fq_query r)), (''brands='', ids_text (ff_brands f)),
      (''tags='', ids_text (ff_tags f)), (''variant_attribute_values='', ids_text (ff_values f)),
      (''price_min='', map_option formatCacheFloat (ff_price_min f)),
      (''price_max='', map_option formatCacheFloat (ff_price_max f)),
      (''min_rating='', map_option formatCacheFloat (ff_min_rating f)),
      (''discount_only='', if ff_discount_only f then Some ''true'' else None),
      (''in_stock_only='', if ff_in_stock f then Some ''true'' else None)])"

lemma key_parts_fields: "key_parts u r = ''discovery:feed'' # fq_type r # concat (map labelled (key_fields u r))"
proof -
  have one: "labelled (l, Some x) = [l @ x]" for l x by (simp add: labelled_def)
  have ids: "append_ids l vs = labelled (l @ ''='', ids_text vs)" for l vs by (simp add: append_ids_def ids_text_def labelled_def)
  show ?thesis unfolding key_parts_def key_fields_def Let_def
    by (simp add: one ids) (simp add: labelled_def split: option.splits)
qed

section \<open>The key of the feed cache\<close>

definition no_colon :: "unicode \<Rightarrow> feed_request \<Rightarrow> bool" where
  "no_colon u r \<longleftrightarrow> opt_all (\<lambda>x. CHR '':'' \<notin> set x) (fq_session r) \<and> opt_all (\<lambda>x. CHR '':'' \<notin> set (to_lower u x)) (fq_query r)"

lemma ids_text_plain: "opt_all (\<lambda>x. CHR '':'' \<notin> set x) (ids_text vs)"
  using string_of_int_plain(1) by (auto simp: ids_text_def dest!: join_with_chars)

lemma formatCacheFloat_plain: "CHR '':'' \<notin> set (formatCacheFloat x)"
  using string_of_int_plain(1) by (auto simp: formatCacheFloat_def pad2_def Let_def)

lemma ids_text_inj:
  assumes "ids_text vs = ids_text ws" "id_filter vs" "id_filter ws"
  shows "vs = ws"
proof (cases "vs = [] \<or> ws = []")
  case True
  then show ?thesis using assms(1) by (auto simp: ids_text_def split: if_splits)
next
  case False
  have sorted: "sort vs = vs" "sort ws = ws"
    using assms(2,3) by (simp_all add: id_filter_def strict_sorted_iff sorted_sort_id)
  have "join_with '','' (map string_of_int vs) = join_with '','' (map string_of_int ws)"
    using assms(1) False by (simp add: ids_text_def sorted)
  then have "map string_of_int vs = map string_of_int ws"
    using False string_of_int_plain(2) by (intro join_with_inj [where sep = "CHR '',''"]) auto
  then show ?thesis using string_of_int_inj by (metis list.inj_map_strong)
qed

lemma feed_type_plain: "ty \<in> set feed_types \<Longrightarrow> CHR '':'' \<notin> set ty"
  by (auto simp: feed_types_def)

lemma key_fields_labels: "map fst (key_fields u r) = map fst (key_fields u q)" "unrelated (map fst (key_fields u r))"
  by (simp_all add: key_fields_def Let_def unrelated_def)

lemma key_fields_plain:
  assumes "no_colon u r"
  shows "\<forall>x \<in> set (key_fields u r). CHR '':'' \<notin> set (fst x) \<and> opt_all (\<lambda>v. CHR '':'' \<notin> set v) (snd x)"
proof -
  have opt: "opt_all P (map_option g x) = opt_all (\<lambda>y. P (g y)) x" for P :: "string \<Rightarrow> bool" and g and x :: "'x option"
    by (cases x) simp_all
  have ok: "opt_all (\<lambda>y. True) x" for x :: "'x option" by (cases x) simp_all
  show ?thesis
    using assms string_of_int_plain(1) formatCacheFloat_plain ids_text_plain
    by (simp add: key_fields_def Let_def opt ok no_colon_def)
qed

lemma key_tail_plain:
  assumes "no_colon u r" "fq_type r \<in> set feed_types"
  shows "\<forall>x \<in> set (fq_type r # concat (map labelled (key_fields u r))). CHR '':'' \<notin> set x"
proof -
  have "CHR '':'' \<notin> set v" if "x \<in> set (key_fields u r)" "v \<in> set (labelled x)" for x v
    using bspec [OF key_fields_plain [OF assms(1)] that(1)] that(2) by (cases "snd x") (auto simp: labelled_def)
  then show ?thesis using feed_type_plain [OF assms(2)] by auto
qed

text \<open>C30. The key of the feed cache determines the validated request: its type, limit, user, session, category, query
  in lower case, id filters and flags, and prices and rating to two decimals, provided that neither the session nor
  the query contains a colon. So a cached feed is only ever served to a request for the same feed.\<close>

theorem feed_cache_key_identifies:
  assumes "wf_feed_request r" "wf_feed_request q" "no_colon u r" "no_colon u q"
    and "buildFeedCacheKey u r = buildFeedCacheKey u q"
  shows "fq_type r = fq_type q \<and> fq_limit r = fq_limit q \<and> fq_user r = fq_user q \<and> fq_session r = fq_session q
    \<and> fq_category r = fq_category q \<and> map_option (to_lower u) (fq_query r) = map_option (to_lower u) (fq_query q)
    \<and> ff_brands (fq_filters r) = ff_brands (fq_filters q) \<and> ff_tags (fq_filters r) = ff_tags (fq_filters q)
    \<and> ff_values (fq_filters r) = ff_values (fq_filters q)
    \<and> ff_discount_only (fq_filters r) = ff_discount_only (fq_filters q) \<and> ff_in_stock (fq_filters r) = ff_in_stock (fq_filters q)
    \<and> map_option formatCacheFloat (ff_price_min (fq_filters r)) = map_option formatCacheFloat (ff_price_min (fq_filters q))
    \<and> map_option formatCacheFloat (ff_price_max (fq_filters r)) = map_option formatCacheFloat (ff_price_max (fq_filters q))
    \<and> map_option formatCacheFloat (ff_min_rating (fq_filters r)) = map_option formatCacheFloat (ff_min_rating (fq_filters q))"
proof -
  let ?tail = "\<lambda>r. fq_type r # concat (map labelled (key_fields u r))"
  have types: "fq_type r \<in> set feed_types" "fq_type q \<in> set feed_types" using assms(1,2) by (simp_all add: wf_feed_request_def)
  have "join_with '':'' (?tail r) = join_with '':'' (?tail q)"
    using assms(5) by (simp add: buildFeedCacheKey_def key_parts_fields)
  then have "?tail r = ?tail q"
    by (intro join_with_inj [where sep = "CHR '':''"]) (use key_tail_plain assms(3,4) types in \<open>simp_all only: list.distinct not_False_eq_True\<close>)
  then have ty: "fq_type r = fq_type q" and "concat (map labelled (key_fields u r)) = concat (map labelled (key_fields u q))"
    by simp_all
  then have fields: "key_fields u r = key_fields u q" by (intro labelled_inj key_fields_labels)
  have opt: "x = y" if "map_option string_of_int x = map_option string_of_int y" for x y
    using that string_of_int_inj by (cases x; cases y) auto
  have flag: "b = c" if "(if b then Some ''true'' else None) = (if c then Some ''true'' else None)" for b c
    using that by (cases b; cases c) simp_all
  have ids: "id_filter (ff_brands (fq_filters r))" "id_filter (ff_brands (fq_filters q))" "id_filter (ff_tags (fq_filters r))"
    "id_filter (ff_tags (fq_filters q))" "id_filter (ff_values (fq_filters r))" "id_filter (ff_values (fq_filters q))"
    using assms(1,2) by (simp_all add: wf_feed_request_def wf_filters_def)
  show ?thesis using fields ty unfolding key_fields_def Let_def
    by (auto dest: string_of_int_inj opt flag ids_text_inj [OF _ ids(1,2)] ids_text_inj [OF _ ids(3,4)] ids_text_inj [OF _ ids(5,6)])
qed

text \<open>A comma separated list of ids in a query string reads back as the ids that were printed.\<close>

theorem id_list_parameter_roundtrip:
  assumes "\<forall>v \<in> set vs. - (2 ^ 63) \<le> v \<and> v < 2 ^ 63"
  shows "parseCSVInt64 (join_with '','' (map string_of_int vs)) = Some vs"
proof (cases "vs = []")
  case False
  let ?text = "join_with '','' (map string_of_int vs)"
  have trim: "trim_space ?text = ?text" by (rule trim_visible) (use id_list_visible in blast)
  have split: "split_on (CHR '','') [] ?text = map string_of_int vs"
    using False string_of_int_plain(2) by (intro split_on_join) auto
  have "?text \<noteq> []" using split False by (cases vs; cases ?text) (auto dest: sym simp: string_of_int_plain(3))
  then show ?thesis using parse_parts_ints [OF assms, of "[]"] by (simp add: parseCSVInt64_def trim split)
qed (simp add: parseCSVInt64_def)

end
