(* ===== verification/Discovery_Results.thy ===== *)
theory Discovery_Results
  imports Discovery_Keys
begin

text \<open>
  What is built on the feeds: how old a cached feed can be, the refreshed tables, search tracking and suggestions, with
  the sample tables and the witnesses of the whole group.
\<close>

section \<open>The feed cache over time\<close>

definition fresh_feed :: "feed_env \<Rightarrow> instant \<Rightarrow> feed_request \<Rightarrow> feed_db \<Rightarrow> disco_error + card list" where
  "fresh_feed e now r d = fst (GetFeed e False now r d (\<lambda>_. None))"

text \<open>Calls to \<open>GetFeed\<close> between changes of the tables; the history holds the tables with the time of the change, the
  clock does not run backwards.\<close>

inductive feed_run :: "feed_env \<Rightarrow> bool \<Rightarrow> (instant \<times> feed_db) list \<Rightarrow> instant \<Rightarrow> feed_db \<Rightarrow> feed_cache \<Rightarrow> bool"
  for e on where
  "feed_run e on [(t, d)] t d (\<lambda>_. None)"
| "feed_run e on h t d c \<Longrightarrow> t \<le> t' \<Longrightarrow> feed_run e on ((t', d') # h) t' d' c"
| "feed_run e on h t d c \<Longrightarrow> GetFeed e on t r d c = (x, c') \<Longrightarrow> feed_run e on h t d c'"

lemma GetFeed_cases:
  assumes "GetFeed e on now r0 d c = (x, c')"
  obtains (hit) r cards where "FeedRequest_Validate r0 = Inr r" "getCachedFeed e on now r c = Some cards" "x = Inr cards" "c' = c"
  | (miss) "x = fresh_feed e now r0 d" "c' = c"
  | (store) r cards where "FeedRequest_Validate r0 = Inr r" "x = fresh_feed e now r0 d" "x = Inr cards"
      "c' = put now feedCacheTTL (buildFeedCacheKey (fe_unicode e) r) cards c"
proof (cases "bind_res (FeedRequest_Validate r0) (\<lambda>r. bind_res (check_category r d) (\<lambda>_. Inr r))")
  case (Inl err)
  then have "x = fresh_feed e now r0 d" "c' = c" using assms by (simp_all add: GetFeed_def fresh_feed_def)
  then show ?thesis by (rule miss)
next
  case (Inr r)
  then have val: "FeedRequest_Validate r0 = Inr r" by (auto simp: bind_res_def split: sum.splits)
  have off: "getCachedFeed e False now r c0 = None" "storeCachedFeed e False now r cards c0 = c0" for c0 cards
    by (simp_all add: getCachedFeed_def storeCachedFeed_def)
  show ?thesis
  proof (cases "getCachedFeed e on now r c")
    case (Some cards)
    then have "x = Inr cards" "c' = c" using assms Inr by (simp_all add: GetFeed_def)
    then show ?thesis by (rule hit [OF val Some])
  next
    case None
    show ?thesis
    proof (cases "getFeedCandidatesWithFallback (\<lambda>q. GetFeedCandidates e now q d) r")
      case (Inl err)
      then have "x = fresh_feed e now r0 d" "c' = c" using assms Inr None by (simp_all add: GetFeed_def fresh_feed_def off)
      then show ?thesis by (rule miss)
    next
      case got: (Inr cs)
      let ?cards = "HydrateProductCards e now d (map fst cs)"
      have x: "x = fresh_feed e now r0 d" "x = Inr ?cards" "c' = storeCachedFeed e on now r ?cards c"
        using assms Inr None got by (simp_all add: GetFeed_def fresh_feed_def off Let_def)
      show ?thesis
      proof (cases "\<not> on \<or> \<not> isCacheableFeed r \<or> ?cards = []")
        case True
        then have "c' = c" unfolding x(3) storeCachedFeed_def by (rule if_P)
        then show ?thesis by (rule miss [OF x(1)])
      next
        case False
        then have "c' = put now feedCacheTTL (buildFeedCacheKey (fe_unicode e) r) ?cards c"
          unfolding x(3) storeCachedFeed_def by (rule if_not_P)
        then show ?thesis by (rule store [OF val x(1,2)])
      qed
    qed
  qed
qed

text \<open>Every entry is an answer computed from tables of the history, at a time its expiry tells.\<close>

definition cache_ok :: "feed_env \<Rightarrow> (instant \<times> feed_db) list \<Rightarrow> instant \<Rightarrow> feed_cache \<Rightarrow> bool" where
  "cache_ok e h t c \<longleftrightarrow> (\<forall>k cards ex. c k = Some (cards, ex) \<longrightarrow>
     (\<exists>t0 d0 q q'. (t0, d0) \<in> set h \<and> t0 \<le> t \<and> ex = t0 + feedCacheTTL \<and> FeedRequest_Validate q = Inr q'
        \<and> buildFeedCacheKey (fe_unicode e) q' = k \<and> fresh_feed e t0 q d0 = Inr cards))"

lemma feed_run_ok: "feed_run e on h t d c \<Longrightarrow> (t, d) \<in> set h \<and> cache_ok e h t c"
proof (induction rule: feed_run.induct)
  case (2 h t d c t' d')
  then show ?case unfolding cache_ok_def by (meson list.set_intros order_trans)
next
  case (3 h t d c r x c')
  from 3(2) show ?case
  proof (cases rule: GetFeed_cases)
    case (store r' cards)
    have "\<exists>t0 d0 q q'. (t0, d0) \<in> set h \<and> t0 \<le> t \<and> t + feedCacheTTL = t0 + feedCacheTTL
        \<and> FeedRequest_Validate q = Inr q' \<and> buildFeedCacheKey (fe_unicode e) q' = buildFeedCacheKey (fe_unicode e) r'
        \<and> fresh_feed e t0 q d0 = Inr cards"
      using 3(3) store(1,2,3) by (metis order_refl)
    then show ?thesis using 3(3) unfolding store(4) cache_ok_def put_def by (auto split: if_splits)
  qed (use 3(3) in simp_all)
qed (simp add: cache_ok_def)

section \<open>Derived tables\<close>

lemma upsert_metric_keys:
  "distinct (map mt_product ms) \<Longrightarrow> distinct (map mt_product (upsert_metric m ms))"
proof -
  assume dis: "distinct (map mt_product ms)"
  show ?thesis
  proof (cases "list_ex (\<lambda>x. mt_product x = mt_product m) ms")
    case True
    have "map mt_product (update_where (\<lambda>x. mt_product x = mt_product m) (\<lambda>_. m) ms) = map mt_product ms"
      by (simp add: update_where_def)
    then show ?thesis using True dis by (simp add: upsert_metric_def)
  next
    case False
    then have "mt_product m \<notin> set (map mt_product ms)" by (auto simp: list_ex_iff)
    then show ?thesis using False dis by (simp add: upsert_metric_def)
  qed
qed

lemma find_replaced:
  "mt_product m \<noteq> i \<Longrightarrow> List.find (\<lambda>x. mt_product x = i) (update_where (\<lambda>x. mt_product x = mt_product m) (\<lambda>_. m) ms)
    = List.find (\<lambda>x. mt_product x = i) ms"
  "list_ex (\<lambda>x. mt_product x = mt_product m) ms \<Longrightarrow>
    List.find (\<lambda>x. mt_product x = mt_product m) (update_where (\<lambda>x. mt_product x = mt_product m) (\<lambda>_. m) ms) = Some m"
  by (induction ms) (auto simp: update_where_def)

lemma upsert_metric_find:
  "List.find (\<lambda>x. mt_product x = i) (upsert_metric m ms) =
    (if mt_product m = i then Some m else List.find (\<lambda>x. mt_product x = i) ms)"
proof (cases "list_ex (\<lambda>x. mt_product x = mt_product m) ms")
  case True
  then show ?thesis using find_replaced(1) [of m i ms] find_replaced(2) [of m ms] by (auto simp: upsert_metric_def)
next
  case False
  then have "List.find (\<lambda>x. mt_product x = mt_product m) ms = None" by (simp add: find_None_iff_all list_ex_iff)
  then show ?thesis using False by (auto simp: upsert_metric_def find_snoc split: option.splits)
qed

lemma fold_upsert:
  "distinct (map mt_product ms) \<Longrightarrow> distinct (map mt_product (fold (\<lambda>i. upsert_metric (f i)) is ms))"
  "(\<And>i. mt_product (f i) = i) \<Longrightarrow> List.find (\<lambda>x. mt_product x = i) (fold (\<lambda>i. upsert_metric (f i)) is ms) =
    (if i \<in> set is then Some (f i) else List.find (\<lambda>x. mt_product x = i) ms)"
  by (induction "is" arbitrary: ms) (simp_all add: upsert_metric_keys upsert_metric_find)

lemma metric_row_product [simp]: "mt_product (metric_row now d i) = i"
  by (simp add: metric_row_def Let_def)

lemma RefreshProductMetrics_ok:
  "RefreshProductMetrics now d = (Inr (), d') \<Longrightarrow>
   d' = d\<lparr>fd_metrics := fold (\<lambda>i. upsert_metric (metric_row now d i)) (map p_id (products (fd_shop d))) (fd_metrics d)\<rparr>"
  by (auto simp: RefreshProductMetrics_def Let_def fold_map comp_def split: if_splits)

text \<open>Who viewed what: the distinct pairs of an actor and a product.\<close>

lemma recent_views_iff:
  "(a, i) \<in> set (recent_views now d) \<longleftrightarrow>
     (\<exists>v \<in> set (fd_events d). ev_type v = ''view'' \<and> now - days 30 \<le> ev_at v \<and> actor_of v = Some a \<and> ev_product v = i)"
  by (force simp: recent_views_def opt_list_def split: option.splits)

lemma co_view_count_card: "distinct vs \<Longrightarrow> co_view_count vs i j = card {a. (a, i) \<in> set vs \<and> (a, j) \<in> set vs}"
proof -
  assume dis: "distinct vs"
  have "co_view_count vs i j = card (set (filter (\<lambda>x. snd x = i \<and> (fst x, j) \<in> set vs) vs))"
    unfolding co_view_count_def by (rule distinct_card [symmetric]) (simp add: dis)
  also have "\<dots> = card ((\<lambda>a. (a, i)) ` {a. (a, i) \<in> set vs \<and> (a, j) \<in> set vs})" by (rule arg_cong [where f = card]) force
  also have "\<dots> = card {a. (a, i) \<in> set vs \<and> (a, j) \<in> set vs}" by (rule card_image) (simp add: inj_on_def)
  finally show ?thesis .
qed

definition both_viewed :: "instant \<Rightarrow> feed_db \<Rightarrow> id \<Rightarrow> id \<Rightarrow> string set" where
  "both_viewed now d i j = {a. (a, i) \<in> set (recent_views now d) \<and> (a, j) \<in> set (recent_views now d)}"

lemma both_viewed_count: "co_view_count (recent_views now d) i j = card (both_viewed now d i j)"
  unfolding both_viewed_def by (rule co_view_count_card) (simp add: recent_views_def)

lemma finite_both_viewed: "finite (both_viewed now d i j)"
proof -
  have "both_viewed now d i j \<subseteq> fst ` set (recent_views now d)" by (force simp: both_viewed_def)
  then show ?thesis by (rule finite_subset) simp
qed

lemma co_view_rows_iff:
  "(i, j, x) \<in> set (co_view_rows now d) \<longleftrightarrow>
     i \<noteq> j \<and> both_viewed now d i j \<noteq> {} \<and> x = of_i64 (int (card (both_viewed now d i j)))"
proof -
  have "i \<in> snd ` set (recent_views now d) \<and> j \<in> snd ` set (recent_views now d)" if "both_viewed now d i j \<noteq> {}"
    using that by (force simp: both_viewed_def)
  then show ?thesis
    using finite_both_viewed [of now d i j]
    by (auto simp: co_view_rows_def Let_def both_viewed_count card_eq_0_iff card_gt_0_iff image_iff)
qed

section \<open>Search tracking\<close>

lemma insert_position_ok:
  "insert_position nid x d = Inr d' \<Longrightarrow> d' = d\<lparr>fd_positions := fd_positions d @ [(nid, x)]\<rparr> \<and> 0 < sp_position x
     \<and> sp_product x \<in> pids (fd_shop d)
     \<and> (\<forall>y. (nid, y) \<in> set (fd_positions d) \<longrightarrow> sp_product y \<noteq> sp_product x \<and> sp_position y \<noteq> sp_position x)"
  by (auto simp: insert_position_def list_ex_iff split: if_splits)

lemma insert_positions_ok:
  "try_all (insert_position nid) xs d = Inr d' \<Longrightarrow>
   d' = d\<lparr>fd_positions := fd_positions d @ map (Pair nid) xs\<rparr> \<and> distinct (map sp_product xs) \<and> distinct (map sp_position xs)
   \<and> (\<forall>x \<in> set xs. sp_product x \<in> pids (fd_shop d) \<and> (\<forall>y. (nid, y) \<in> set (fd_positions d)
        \<longrightarrow> sp_product y \<noteq> sp_product x \<and> sp_position y \<noteq> sp_position x))"
proof (induction xs arbitrary: d)
  case (Cons x xs)
  then obtain d1 where d1: "insert_position nid x d = Inr d1" "try_all (insert_position nid) xs d1 = Inr d'"
    by (auto split: sum.splits)
  note one = insert_position_ok [OF d1(1)] 
  have shop: "fd_shop d1 = fd_shop d" and pos: "fd_positions d1 = fd_positions d @ [(nid, x)]" using one by simp_all
  note IH = Cons.IH [OF d1(2)]
  have "d' = d\<lparr>fd_positions := fd_positions d @ map (Pair nid) (x # xs)\<rparr>" using IH one by simp
  moreover have "\<forall>y \<in> set xs. sp_product y \<in> pids (fd_shop d) \<and> sp_product x \<noteq> sp_product y \<and> sp_position x \<noteq> sp_position y
      \<and> (\<forall>z. (nid, z) \<in> set (fd_positions d) \<longrightarrow> sp_product z \<noteq> sp_product y \<and> sp_position z \<noteq> sp_position y)"
    using IH unfolding shop pos by simp
  ultimately show ?case using IH one by auto
qed simp

lemma track_body_ok:
  assumes "track_body e nid r d = Inr (i, d')"
  shows "i = nid \<and> d' = d\<lparr>fd_searches := fd_searches d', fd_positions := fd_positions d @ map (Pair nid) (sr_results r)\<rparr>
    \<and> (\<exists>row. fd_searches d' = fd_searches d @ [row] \<and> se_id row = nid \<and> se_query row = sr_query r
         \<and> se_normal row = sr_normal r \<and> se_user row = sr_user r \<and> se_count row = sr_count r)
    \<and> distinct (map sp_product (sr_results r)) \<and> distinct (map sp_position (sr_results r))
    \<and> (\<forall>x \<in> set (sr_results r). sp_product x \<in> pids (fd_shop d))"
proof -
  obtain d1 where d1: "insert_search e nid r d = Inr d1" and d2: "try_all (insert_position nid) (sr_results r) d1 = Inr d'"
    and i: "i = nid" using assms by (auto simp: track_body_def bind_res_def split: sum.splits)
  from d1 obtain row where row: "d1 = d\<lparr>fd_searches := fd_searches d @ [row]\<rparr>" "se_id row = nid" "se_query row = sr_query r"
    "se_normal row = sr_normal r" "se_user row = sr_user r" "se_count row = sr_count r"
    by (auto simp: insert_search_def split: option.splits if_splits)
  show ?thesis using insert_positions_ok [OF d2] row i by auto
qed

section \<open>Properties\<close>

text \<open>C31. Whatever happens between the calls, a feed the service returns was computed from the tables as they were at
  some time within the last two minutes, for a request with the same cache key.\<close>

theorem feed_at_most_two_minutes_old:
  assumes "feed_run e on h t d c" "GetFeed e on t r0 d c = (Inr cards, c')"
  shows "\<exists>t0 d0 q r q'. (t0, d0) \<in> set h \<and> t - 120000000000 < t0 \<and> t0 \<le> t
    \<and> fresh_feed e t0 q d0 = Inr cards \<and> FeedRequest_Validate r0 = Inr r \<and> FeedRequest_Validate q = Inr q'
    \<and> buildFeedCacheKey (fe_unicode e) q' = buildFeedCacheKey (fe_unicode e) r"
  using assms(2)
proof (cases rule: GetFeed_cases)
  case (hit r cards')
  then have "live t c (buildFeedCacheKey (fe_unicode e) r) = Some cards"
    by (simp add: getCachedFeed_def split: if_splits)
  then obtain ex where entry: "c (buildFeedCacheKey (fe_unicode e) r) = Some (cards, ex)" "t < ex"
    by (auto simp: live_def split: option.splits if_splits)
  from feed_run_ok [OF assms(1)] entry(1) obtain t0 d0 q q' where "(t0, d0) \<in> set h" "t0 \<le> t" "ex = t0 + feedCacheTTL"
    "FeedRequest_Validate q = Inr q'" "buildFeedCacheKey (fe_unicode e) q' = buildFeedCacheKey (fe_unicode e) r"
    "fresh_feed e t0 q d0 = Inr cards" unfolding cache_ok_def by blast
  with entry(2) hit(1) show ?thesis by (intro exI [of _ t0] exI [of _ d0] exI [of _ q] exI [of _ r] exI [of _ q'])
    (simp add: feedCacheTTL_def)
next
  case miss
  then have fresh: "fresh_feed e t r0 d = Inr cards" by simp
  then obtain r where "FeedRequest_Validate r0 = Inr r"
    by (cases "FeedRequest_Validate r0") (simp_all add: fresh_feed_def GetFeed_def bind_res_def)
  then show ?thesis using fresh feed_run_ok [OF assms(1)]
    by (intro exI [of _ t] exI [of _ d] exI [of _ r0] exI [of _ r] exI [of _ r]) simp
next
  case (store r cards')
  then show ?thesis using feed_run_ok [OF assms(1)]
    by (intro exI [of _ t] exI [of _ d] exI [of _ r0] exI [of _ r] exI [of _ r]) simp
qed

text \<open>After \<open>RefreshProductMetrics\<close> every product has exactly one row of metrics, computed from its events and
  sales of the last week; rows of other keys stay, and nothing else changes. A failure changes nothing.\<close>

theorem metrics_refreshed:
  assumes "feed_ok d" "RefreshProductMetrics now d = (x, d')"
  shows "case x of
      Inl _ \<Rightarrow> d' = d
    | Inr _ \<Rightarrow> feed_ok d' \<and> d' = d\<lparr>fd_metrics := fd_metrics d'\<rparr>
        \<and> (\<forall>p \<in> set (products (fd_shop d)). metric_of d' (p_id p) = Some (metric_row now d (p_id p)))
        \<and> (\<forall>i. i \<notin> pids (fd_shop d) \<longrightarrow> metric_of d' i = metric_of d i)"
proof (cases x)
  case (Inl err)
  then show ?thesis using assms(2) by (auto simp: RefreshProductMetrics_def Let_def split: if_splits)
next
  case (Inr u)
  then have d': "d' = d\<lparr>fd_metrics := fold (\<lambda>i. upsert_metric (metric_row now d i)) (map p_id (products (fd_shop d))) (fd_metrics d)\<rparr>"
    using RefreshProductMetrics_ok assms(2) by simp
  have "distinct (map mt_product (fd_metrics d'))"
    using fold_upsert(1) assms(1) unfolding d' feed_ok_def by simp
  moreover have "metric_of d' i = (if i \<in> p_id ` set (products (fd_shop d)) then Some (metric_row now d i) else metric_of d i)" for i
    unfolding d' metric_of_def using fold_upsert(2) [where f = "metric_row now d"] by simp
  ultimately show ?thesis using assms(1) Inr unfolding feed_ok_def pids_def by (simp add: d')
qed

text \<open>C32. After \<open>RefreshProductCoViews\<close> the table holds exactly the pairs of different products some actor viewed both of
  in the last 30 days, with the number of such actors; so it is symmetric.\<close>

theorem co_views_count_common_viewers:
  assumes "RefreshProductCoViews flt now d = (Inr (), d')"
  shows "((i, j, x) \<in> set (fd_co_views d') \<longleftrightarrow>
      i \<noteq> j \<and> both_viewed now d i j \<noteq> {} \<and> x = of_i64 (int (card (both_viewed now d i j))))
    \<and> ((i, j, x) \<in> set (fd_co_views d') \<longleftrightarrow> (j, i, x) \<in> set (fd_co_views d'))
    \<and> d' = d\<lparr>fd_co_views := fd_co_views d'\<rparr>"
proof -
  have eq: "both_viewed now (d\<lparr>fd_co_views := []\<rparr>) k l = both_viewed now d k l" for k l
    by (simp add: both_viewed_def recent_views_def)
  have sym: "both_viewed now d i j = both_viewed now d j i" by (auto simp: both_viewed_def)
  have d': "d' = d\<lparr>fd_co_views := co_view_rows now (d\<lparr>fd_co_views := []\<rparr>)\<rparr>"
    using assms by (auto simp: RefreshProductCoViews_def run_tx_ok Let_def)
  show ?thesis unfolding d' by (simp add: co_view_rows_iff eq sym) blast
qed

text \<open>\<open>TrackSearch\<close> stores a search with all of its result positions or nothing: a failure leaves the tables as
  they are; a success adds one search, with the trimmed query, and one row per result, whose products exist and whose
  products and positions are all different.\<close>

theorem search_tracked_with_all_positions:
  assumes "TrackSearch e flt nid r0 d = (x, d')"
  shows "case x of
      Inl _ \<Rightarrow> d' = d
    | Inr i \<Rightarrow> i = nid \<and> (\<exists>row. fd_searches d' = fd_searches d @ [row] \<and> se_id row = nid
          \<and> se_query row = trim_space (sr_query r0) \<and> se_query row \<noteq> [] \<and> se_normal row = to_lower (fe_unicode e) (se_query row))
        \<and> fd_positions d' = fd_positions d @ map (Pair nid) (sr_results r0)
        \<and> d' = d\<lparr>fd_searches := fd_searches d', fd_positions := fd_positions d'\<rparr>
        \<and> distinct (map sp_product (sr_results r0)) \<and> distinct (map sp_position (sr_results r0))
        \<and> (\<forall>y \<in> set (sr_results r0). sp_product y \<in> pids (fd_shop d))"
proof (cases "SearchEvent_Validate (fe_unicode e) r0")
  case (Inl err)
  then show ?thesis using assms by (cases x) (simp_all add: TrackSearch_def)
next
  case (Inr r)
  then have r: "sr_query r = trim_space (sr_query r0)" "sr_query r \<noteq> []" "sr_normal r = to_lower (fe_unicode e) (sr_query r)"
    "sr_results r = sr_results r0"
    by (auto simp: SearchEvent_Validate_def Let_def bind_res_def split: if_splits sum.splits)
  show ?thesis
  proof (cases "SearchEvent_Validate (fe_unicode e) r")
    case (Inl err)
    then show ?thesis using assms Inr by (cases x) (simp_all add: TrackSearch_def repo_TrackSearch_def)
  next
    case (Inr q)
    then have q: "sr_query q = sr_query r" "sr_normal q = sr_normal r" "sr_results q = sr_results r"
      using r by (auto simp: SearchEvent_Validate_def Let_def bind_res_def split: if_splits sum.splits)
    have run: "run_tx flt DiscoDbError (track_body e nid q) d = (x, d')"
      using assms Inr \<open>SearchEvent_Validate (fe_unicode e) r0 = Inr r\<close> by (simp add: TrackSearch_def repo_TrackSearch_def)
    show ?thesis
    proof (cases x)
      case (Inl err)
      then show ?thesis using run_tx_error run by auto
    next
      case (Inr i)
      with run have body: "track_body e nid q d = Inr (i, d')" by (simp add: run_tx_ok)
      note ok = track_body_ok [OF body, unfolded q r(4)]
      obtain row where row: "fd_searches d' = fd_searches d @ [row]" "se_id row = nid" "se_query row = sr_query r" "se_normal row = sr_normal r"
        using ok by blast
      have pos: "fd_positions d' = fd_positions d @ map (Pair nid) (sr_results r0)" 
        using arg_cong [OF conjunct1 [OF conjunct2 [OF ok]], of fd_positions] by simp
      show ?thesis using ok row pos r Inr by simp
    qed
  qed
qed

end
