(* ===== verification/Discovery_Samples.thy ===== *)
theory Discovery_Samples
  imports Discovery_Results
begin

text \<open>
  A small shop with its events, on which the properties of listing, feeds, cache, tables and tracking are applied, and
  concrete runs that show what the code does beside its intention.
\<close>

section \<open>Sample tables\<close>

definition sample_feed_env :: feed_env where
  "sample_feed_env = \<lparr>fe_unicode = sample_unicode, fe_percent = (\<lambda>v p. v / p * 100),
     fe_round2 = (\<lambda>x. of_int (round_even (x * 100)) / 100), fe_ilike = (\<lambda>x q. True), fe_like = (\<lambda>x q. take (length q) x = q),
     fe_collate = (\<lambda>a b. True), fe_lower = id, fe_epoch = of_int, fe_ratio = (\<lambda>d. 1 / (1 + of_int d)),
     fe_ts_empty = (\<lambda>q. q = []), fe_ts_match = (\<lambda>x q. True), fe_ts_rank = (\<lambda>x q. 1), fe_similar = (\<lambda>x q. 0),
     fe_word_similar = (\<lambda>q x. 0), fe_known_user = (\<lambda>i. True)\<rparr>"

definition sample_product :: "id \<Rightarrow> f64 \<Rightarrow> string \<Rightarrow> instant \<Rightarrow> product" where
  "sample_product i price status t = \<lparr>p_id = i, p_name = ''saw'', p_slug = string_of_int i, p_desc = None, p_short = None,
     p_brand = Some 1, p_price = price, p_status = status, p_featured = False, p_digital = False, p_rating = 4,
     p_reviews = 2, p_creator = None, p_created = t, p_updated = t\<rparr>"

definition sample_disc :: "id \<Rightarrow> string \<Rightarrow> f64 \<Rightarrow> disc" where
  "sample_disc i ty v = \<lparr>dc_id = i, dc_name = ''sale'', dc_code = None, dc_type = ty, dc_value = v, dc_min = None,
     dc_max = None, dc_starts = None, dc_ends = None, dc_active = True, dc_created = 0\<rparr>"

definition sample_disc_db :: disc_db where
  "sample_disc_db = \<lparr>discs = [sample_disc 1 ''percentage'' 10, sample_disc 2 ''fixed'' 200],
     disc_targets = [\<lparr>tg_disc = 1, tg_type = ''category'', tg_id = 1\<rparr>, \<lparr>tg_disc = 2, tg_type = ''product'', tg_id = 11\<rparr>],
     redemptions = []\<rparr>"

text \<open>Products 10 and 11 are active, 12 is archived; 10 is in category 1; a fixed discount of 200 targets product 11,
  which costs 50.\<close>

definition sample_listing :: shop where
  "sample_listing = (no_products sample_cats sample_meta [] sample_disc_db)
     \<lparr>products := [sample_product 10 100 ''active'' 50, sample_product 11 50 ''active'' 60, sample_product 12 80 ''archived'' 70],
      sh_cats := sample_cats\<lparr>links := [(10, 1), (12, 1)]\<rparr>, search_docs := [(10, ''saw'')]\<rparr>"

definition sample_metric :: "id \<Rightarrow> f64 \<Rightarrow> metric" where
  "sample_metric i x = \<lparr>mt_product = i, mt_trending = x, mt_daily = 0, mt_weekly = 0, mt_purchases = 0, mt_conversion = 0, mt_updated = 0\<rparr>"

definition sample_view :: "id \<Rightarrow> id \<Rightarrow> instant \<Rightarrow> event_row" where
  "sample_view u i t = \<lparr>ev_product = i, ev_user = Some u, ev_session = None, ev_type = ''view'', ev_qty = 1, ev_at = t\<rparr>"

definition sample_feed_db :: feed_db where
  "sample_feed_db = \<lparr>fd_shop = sample_listing, fd_metrics = [sample_metric 10 5, sample_metric 11 3, sample_metric 12 9],
     fd_sections = [], fd_events = [sample_view 1 10 5, sample_view 1 11 6, sample_view 2 10 7],
     fd_bought = [\<lparr>bt_user = Some 1, bt_product = 10, bt_qty = 2, bt_at = 8\<rparr>], fd_wished = [\<lparr>wi_user = 3, wi_product = 12, wi_added = 1\<rparr>],
     fd_affinity = [(3, 1, 2)], fd_co_views = [], fd_searches = [], fd_positions = [], fd_clicks = []\<rparr>"

definition no_filters :: feed_filters where
  "no_filters = \<lparr>ff_brands = [], ff_tags = [], ff_values = [], ff_price_min = None, ff_price_max = None, ff_min_rating = None,
     ff_discount_only = False, ff_in_stock = False\<rparr>"

definition sample_feed :: "string \<Rightarrow> id option \<Rightarrow> int \<Rightarrow> feed_request" where
  "sample_feed ty u n = \<lparr>fq_type = ty, fq_user = u, fq_session = None, fq_category = None, fq_query = None, fq_limit = n,
     fq_filters = no_filters\<rparr>"


lemma sample_feed_ok: "feed_ok sample_feed_db"
  unfolding feed_ok_def by code_simp

lemma sample_feed_valid:
  "FeedRequest_Validate (sample_feed ''deals'' None 10) = Inr (sample_feed ''deals'' None 10)"
  "FeedRequest_Validate (sample_feed ''recommended'' (Some 3) 2) = Inr (sample_feed ''recommended'' (Some 3) 2)"
  by code_simp+

section \<open>Witnesses\<close>


theorem feed_is_the_best_eligible_witness:
  "\<exists>best. GetFeedCandidates sample_feed_env 100 (sample_feed ''deals'' None 10) sample_feed_db
      = Inr (map (\<lambda>(i, vs). (i, zip [''discount_score''] vs)) best) \<and> length best \<le> 10"
proof -
  have src: "feed_source sample_feed_env 100 (sample_feed ''deals'' None 10) sample_feed_db
    = (deal_rows sample_feed_env 100 (fd_shop sample_feed_db), id, [''discount_score''])"
    by (simp add: feed_source_def sample_feed_def)
  show ?thesis using feed_is_the_best_eligible [OF sample_feed_ok sample_feed_valid(1) src]
    by (auto simp: sample_feed_def)
qed

theorem feed_filter_is_the_catalogue_filter_witness:
  "eligible_product sample_feed_env 100 sample_listing no_filters None (sample_product 10 100 ''active'' 50)"
proof -
  have "catalog_matches sample_feed_env 100 sample_listing (as_catalog_filter no_filters None) (sample_product 10 100 ''active'' 50)"
    by code_simp
  then show ?thesis by (subst feed_filter_is_the_catalogue_filter) (simp_all add: no_filters_def)
qed

theorem deal_score_is_the_card_discount_witness:
  "map (\<lambda>c. (cd_id c, cd_discount c)) (HydrateProductCards sample_feed_env 100 sample_feed_db [11, 10]) = [(11, 400), (10, 10)]"
proof -
  have got: "GetFeedCandidates sample_feed_env 100 (sample_feed ''deals'' None 10) sample_feed_db
    = Inr [(11, [(''discount_score'', 400)]), (10, [(''discount_score'', 10)])]" by code_simp
  have vals: "\<forall>x \<in> set (discs (sh_discs (fd_shop sample_feed_db))). 0 \<le> dc_value x" by code_simp
  have prices: "\<forall>p \<in> set (products (fd_shop sample_feed_db)). 0 \<le> p_price p" by code_simp
  have pct: "\<forall>v p. 0 \<le> v \<longrightarrow> 0 \<le> p \<longrightarrow> 0 \<le> fe_percent sample_feed_env v p" by (simp add: sample_feed_env_def)
  have deals: "fq_type (sample_feed ''deals'' None 10) = ''deals''" by (simp add: sample_feed_def)
  show ?thesis
    using deal_score_is_the_card_discount [OF sample_feed_ok vals prices pct sample_feed_valid(1) deals got] by simp
qed

theorem fallback_only_adds_witness:
  "\<exists>cs. getFeedCandidatesWithFallback (\<lambda>q. GetFeedCandidates sample_feed_env 100 q sample_feed_db) (sample_feed ''recommended'' (Some 3) 2)
      = Inr cs \<and> distinct (map fst cs) \<and> int (length cs) \<le> 2"
proof -
  have wf: "wf_feed_request (sample_feed ''recommended'' (Some 3) 2)"
    using feed_req.wf_iff_fixed sample_feed_valid(2) by blast
  obtain cs where got: "getFeedCandidatesWithFallback (\<lambda>q. GetFeedCandidates sample_feed_env 100 q sample_feed_db)
      (sample_feed ''recommended'' (Some 3) 2) = Inr cs"
  proof
    show "getFeedCandidatesWithFallback (\<lambda>q. GetFeedCandidates sample_feed_env 100 q sample_feed_db)
      (sample_feed ''recommended'' (Some 3) 2) = Inr [(10, [(''personalization_score'', 2), (''co_view_score'', 0),
        (''conversion_rate'', 0), (''trending_score'', 5)])]" by code_simp
  qed
  show ?thesis using fallback_only_adds [OF sample_feed_ok wf got] got by (auto simp: sample_feed_def)
qed

definition keyed_feed :: "string option \<Rightarrow> id option \<Rightarrow> f64 option \<Rightarrow> feed_request" where
  "keyed_feed ses cat lo = (sample_feed ''deals'' None 10)
     \<lparr>fq_session := ses, fq_category := cat, fq_filters := no_filters\<lparr>ff_price_min := lo\<rparr>\<rparr>"

theorem feed_cache_key_identifies_witness:
  "buildFeedCacheKey sample_unicode (keyed_feed (Some ''x'') None None) \<noteq> buildFeedCacheKey sample_unicode (keyed_feed (Some ''x'') (Some 5) None)"
proof
  assume eq: "buildFeedCacheKey sample_unicode (keyed_feed (Some ''x'') None None)
    = buildFeedCacheKey sample_unicode (keyed_feed (Some ''x'') (Some 5) None)"
  have "FeedRequest_Validate (keyed_feed (Some ''x'') None None) = Inr (keyed_feed (Some ''x'') None None)"
    "FeedRequest_Validate (keyed_feed (Some ''x'') (Some 5) None) = Inr (keyed_feed (Some ''x'') (Some 5) None)" by code_simp+
  then have wf: "wf_feed_request (keyed_feed (Some ''x'') None None)" "wf_feed_request (keyed_feed (Some ''x'') (Some 5) None)"
    using feed_req.wf_iff_fixed by blast+
  have plain: "no_colon sample_unicode (keyed_feed (Some ''x'') None None)" "no_colon sample_unicode (keyed_feed (Some ''x'') (Some 5) None)"
    by (simp_all add: no_colon_def keyed_feed_def sample_feed_def)
  show False using feed_cache_key_identifies [OF wf plain eq] by (simp add: keyed_feed_def sample_feed_def)
qed

theorem id_list_parameter_roundtrip_witness: "parseCSVInt64 (join_with '','' (map string_of_int [7, - 12, 300])) = Some [7, - 12, 300]"
  by (rule id_list_parameter_roundtrip) simp

theorem feed_at_most_two_minutes_old_witness:
  "\<exists>t0 d0 q. 100 - 120000000000 < t0 \<and> t0 \<le> 100 \<and> fresh_feed sample_feed_env t0 q d0
     = fst (GetFeed sample_feed_env True 100 (sample_feed ''deals'' None 10) sample_feed_db (\<lambda>_. None))"
proof -
  let ?call = "GetFeed sample_feed_env True 100 (sample_feed ''deals'' None 10) sample_feed_db (\<lambda>_. None)"
  have "is_ok (fst ?call)" by code_simp
  then obtain cards where cards: "fst ?call = Inr cards" by (auto simp: is_ok_iff)
  then have call: "?call = (Inr cards, snd ?call)" by (metis prod.collapse)
  obtain t0 d0 q where "100 - 120000000000 < t0 \<and> t0 \<le> 100 \<and> fresh_feed sample_feed_env t0 q d0 = Inr cards"
    using feed_at_most_two_minutes_old [OF feed_run.intros(1) call] by blast
  then show ?thesis unfolding cards by blast
qed

theorem metrics_refreshed_witness:
  "metric_of (snd (RefreshProductMetrics 100 sample_feed_db)) 10 = Some (metric_row 100 sample_feed_db 10)"
proof -
  have "list_all (\<lambda>p. int4 (views_since (100 - days 1) sample_feed_db (p_id p)) \<and> int4 (views_since (100 - days 7) sample_feed_db (p_id p))
      \<and> int4 (bought_since (100 - days 7) sample_feed_db (p_id p))) (products (fd_shop sample_feed_db))" by code_simp
  then have "is_ok (fst (RefreshProductMetrics 100 sample_feed_db))"
    by (simp add: RefreshProductMetrics_def Let_def metric_fits_def metric_row_def list_all_iff)
  then obtain u where u: "fst (RefreshProductMetrics 100 sample_feed_db) = Inr u" by (auto simp: is_ok_iff)
  have p: "sample_product 10 100 ''active'' 50 \<in> set (products (fd_shop sample_feed_db))"
    by (simp add: sample_feed_db_def sample_listing_def)
  show ?thesis using metrics_refreshed [OF sample_feed_ok surjective_pairing, of 100] p unfolding u by (auto simp: sample_product_def)
qed

theorem co_views_count_common_viewers_witness:
  "\<exists>d'. RefreshProductCoViews NoFault 100 sample_feed_db = (Inr (), d') \<and> ((10, 11, 1) \<in> set (fd_co_views d') \<longleftrightarrow> (11, 10, 1) \<in> set (fd_co_views d'))"
proof -
  have ok: "fst (RefreshProductCoViews NoFault 100 sample_feed_db) = Inr ()" by (simp add: RefreshProductCoViews_def run_tx_def Let_def)
  then have run: "RefreshProductCoViews NoFault 100 sample_feed_db = (Inr (), snd (RefreshProductCoViews NoFault 100 sample_feed_db))"
    by (metis prod.collapse)
  show ?thesis using co_views_count_common_viewers [OF run, of 10 11 1] run by blast
qed

definition sample_search :: search_report where
  "sample_search = \<lparr>sr_query = '' saw '', sr_normal = [], sr_user = None, sr_session = None, sr_count = 1,
     sr_results = [\<lparr>sp_product = 10, sp_position = 1, sp_score = 1\<rparr>]\<rparr>"

theorem search_tracked_with_all_positions_witness:
  "fd_positions (snd (TrackSearch sample_feed_env NoFault 4 sample_search sample_feed_db)) = [(4, \<lparr>sp_product = 10, sp_position = 1, sp_score = 1\<rparr>)]"
proof -
  have "is_ok (fst (TrackSearch sample_feed_env NoFault 4 sample_search sample_feed_db))" by code_simp
  then obtain i where i: "fst (TrackSearch sample_feed_env NoFault 4 sample_search sample_feed_db) = Inr i" by (auto simp: is_ok_iff)
  show ?thesis using search_tracked_with_all_positions [OF surjective_pairing, of sample_feed_env NoFault 4 sample_search sample_feed_db]
    unfolding i by (simp add: sample_search_def sample_feed_db_def)
qed

section \<open>Runs\<close>

text \<open>Asking for two recommendations: the one candidate of its own is also the first of the trending feed, which is asked
  for one more product only, so the feed stays short although product 11 is there to fill it.\<close>

lemma fallback_repeats_and_stays_short:
  "map_sum id (map fst) (getFeedCandidatesWithFallback (\<lambda>q. GetFeedCandidates sample_feed_env 100 q sample_feed_db)
     (sample_feed ''recommended'' (Some 3) 2)) = Inr [10]
   \<and> map_sum id (map fst) (GetFeedCandidates sample_feed_env 100 (sample_feed ''trending'' (Some 3) 2) sample_feed_db) = Inr [10, 11]"
  by code_simp

text \<open>A fixed discount above the price gives a card a negative price.\<close>

lemma card_price_below_zero:
  "map cd_price (hydrateDiscoveryProductCards sample_feed_env 100 sample_listing [11]) = [- 150]"
  by code_simp

text \<open>Two of the documented orders always fail.\<close>

lemma metric_orders_always_fail:
  "1 \<le> kr_page r \<Longrightarrow> catalogOrderBy (fe_unicode e) key = Some ByMetric \<Longrightarrow> ListProductsForCatalog e now r key s = Inl ListDbError"
  by (simp add: ListProductsForCatalog_def Let_def)

lemma trending_is_such_an_order: "catalogOrderBy sample_unicode ''trending'' = Some ByMetric" "catalogOrderBy sample_unicode ''best_sellers'' = Some ByMetric"
  by code_simp+

text \<open>A colon in the session, or two prices that agree to the cent, give different requests one key.\<close>

lemma cache_keys_collide:
  "buildFeedCacheKey sample_unicode (keyed_feed (Some ''x:category=5'') None None)
     = buildFeedCacheKey sample_unicode (keyed_feed (Some ''x'') (Some 5) None)"
  "buildFeedCacheKey sample_unicode (keyed_feed None None (Some (9999 / 1000)))
     = buildFeedCacheKey sample_unicode (keyed_feed None None (Some 10))"
  by code_simp+

text \<open>Filters the validation refuses are answered with status 500.\<close>

lemma bad_filters_are_server_errors: "map handleError [BadFilterID, BadPriceRange, BadRatingFilter] = [500, 500, 500]"
  by code_simp

text \<open>An order counts for the affinity of its user even when its purchase was recorded as an event: 5 for each.\<close>

lemma purchases_count_twice:
  "affinity_parts 100 (sample_feed_db\<lparr>fd_events := [sample_view 1 10 5\<lparr>ev_type := ''purchase''\<rparr>]\<rparr>) 1 1 = [5, 10]"
  by code_simp

end
