(* ===== verification/Sitemap.thy ===== *)
theory Sitemap
  imports Discovery_Samples
begin

text \<open>
  The sitemaps of \<open>internal/sitemap/sitemap.go\<close>: the index, with one entry per chunk of a thousand active products, and
  the chunks. \<open>date\<close> formats an instant as a day; a database that does not answer is the argument \<open>alive\<close>.
\<close>

section \<open>Model\<close>

definition siteURL :: string where "siteURL = ''https://zentorashop.co.ke''"

definition urlsPerChunk :: int where "urlsPerChunk = 1000"

record sitemap_url =
  su_loc :: string
  su_lastmod :: string
  su_changefreq :: string
  su_priority :: f64

record sitemap_entry =
  st_loc :: string
  st_lastmod :: string

definition countActiveProducts :: "shop \<Rightarrow> int" where
  "countActiveProducts s = int (length (filter (\<lambda>p. p_status p = ''active'') (products s)))"

text \<open>\<open>int(math.Ceil(float64(total) / float64(urlsPerChunk)))\<close>.\<close>

definition chunk_count :: "int \<Rightarrow> int" where
  "chunk_count n = (let c = \<lceil>fdiv (of_i64 n) (of_i64 urlsPerChunk)\<rceil> in if c = 0 then 1 else c)"

definition chunk_loc :: "int \<Rightarrow> string" where
  "chunk_loc i = siteURL @ ''/sitemaps/products-'' @ string_of_int i @ ''.xml''"

definition SitemapIndex :: "bool \<Rightarrow> (instant \<Rightarrow> string) \<Rightarrow> instant \<Rightarrow> shop \<Rightarrow> nat \<times> sitemap_entry list" where
  "SitemapIndex alive date now s =
     (if \<not> alive then (500, [])
      else let today = date now in
        (200, [\<lparr>st_loc = siteURL @ ''/sitemap-pages.xml'', st_lastmod = today\<rparr>,
               \<lparr>st_loc = siteURL @ ''/sitemap-categories.xml'', st_lastmod = today\<rparr>]
              @ map (\<lambda>i. \<lparr>st_loc = chunk_loc i, st_lastmod = today\<rparr>) [1..chunk_count (countActiveProducts s)]))"

definition TrimSuffix :: "string \<Rightarrow> string \<Rightarrow> string" where
  "TrimSuffix suf s = (if drop (length s - length suf) s = suf then take (length s - length suf) s else s)"

definition recently_updated :: "product \<Rightarrow> product \<Rightarrow> bool" where
  "recently_updated a b \<longleftrightarrow> p_updated b < p_updated a \<or> p_updated a = p_updated b \<and> p_id b \<le> p_id a"

definition url_of :: "(instant \<Rightarrow> string) \<Rightarrow> product \<Rightarrow> sitemap_url" where
  "url_of date p = \<lparr>su_loc = siteURL @ ''/products/'' @ p_slug p, su_lastmod = date (p_updated p),
     su_changefreq = ''weekly'', su_priority = rnd (8 / 10)\<rparr>"

text \<open>The offset is computed in \<open>int\<close> and may wrap; PostgreSQL refuses a negative \<open>OFFSET\<close>.\<close>

definition ProductSitemap :: "bool \<Rightarrow> (instant \<Rightarrow> string) \<Rightarrow> string \<Rightarrow> shop \<Rightarrow> nat \<times> sitemap_url list" where
  "ProductSitemap alive date raw s =
     (case ParseInt (TrimSuffix ''.xml'' raw) of
        None \<Rightarrow> (400, [])
      | Some chunk \<Rightarrow>
          if chunk < 1 then (400, [])
          else let offset = i64 ((chunk - 1) * urlsPerChunk) in
            if \<not> alive \<or> offset < 0 then (500, [])
            else (200, map (url_of date) (take (nat urlsPerChunk) (drop (nat offset)
                   (order_by recently_updated (filter (\<lambda>p. p_status p = ''active'') (products s)))))))"

section \<open>Chunks\<close>

lemma TrimSuffix_append: "TrimSuffix suf (s @ suf) = s"
  by (simp add: TrimSuffix_def)

lemma chunk_count_exact:
  assumes "0 \<le> n" "n \<le> 2 ^ 40"
  shows "chunk_count n = max 1 ((n + 999) div 1000)"
proof -
  define k r where "k = n div 1000" and "r = n mod 1000"
  then have n: "n = 1000 * k + r" "0 \<le> r" "r < 1000" "0 \<le> k" "k \<le> 2 ^ 31" using assms by auto
  have small: "\<bar>n\<bar> \<le> 2 ^ 53" "\<bar>k\<bar> \<le> 2 ^ 53" "\<bar>k + 1\<bar> \<le> 2 ^ 53" "\<bar>1024 * k + 1\<bar> \<le> 2 ^ 53" using assms n by auto
  have quot: "fdiv (of_i64 n) (of_i64 urlsPerChunk) = rnd (of_int k + of_int r / 1000)"
    using small(1) by (simp add: fdiv_def of_i64_exact urlsPerChunk_def n(1) add_divide_distrib)
  have "\<lceil>rnd (of_int k + of_int r / 1000)\<rceil> = (if r = 0 then k else k + 1)"
  proof (cases "r = 0")
    case True
    then show ?thesis using rnd_of_int [OF small(2)] by simp
  next
    case False
    then have "(1 :: rat) / 1024 \<le> of_int r / 1000" using n(2) by (simp add: field_simps)
    then have "of_int (1024 * k + 1) * 2 powi (- 10) \<le> (of_int k + of_int r / 1000 :: rat)"
      by (simp add: field_simps power_int_minus)
    from rnd_mono [OF this] have "of_int (1024 * k + 1) * 2 powi (- 10) \<le> rnd (of_int k + of_int r / 1000)"
      using rnd_exact [OF small(4), of "- 10"] by simp
    moreover have "of_int k < (of_int (1024 * k + 1) * 2 powi (- 10) :: rat)" by (simp add: field_simps power_int_minus)
    ultimately have low: "of_int k < rnd (of_int k + of_int r / 1000)" by linarith
    have "(of_int k + of_int r / 1000 :: rat) \<le> of_int (k + 1)" using n(3) by simp
    from rnd_mono [OF this] have "rnd (of_int k + of_int r / 1000) \<le> of_int (k + 1)" using rnd_of_int [OF small(3)] by simp
    then show ?thesis using low False by (simp add: ceiling_unique)
  qed
  moreover have "(n + 999) div 1000 = (if r = 0 then k else k + 1)" using n by auto
  ultimately show ?thesis using n(2,4) quot by (auto simp: chunk_count_def Let_def)
qed

lemma recently_updated_total: "recently_updated a b \<or> recently_updated b a"
  and recently_updated_trans: "recently_updated a b \<Longrightarrow> recently_updated b c \<Longrightarrow> recently_updated a c"
  by (auto simp: recently_updated_def)

lemma ProductSitemap_chunk:
  assumes "int k < 2 ^ 40"
  shows "ProductSitemap True date (string_of_int (int k + 1) @ ''.xml'') s = (200, map (url_of date) (take 1000 (drop (k * 1000)
     (order_by recently_updated (filter (\<lambda>p. p_status p = ''active'') (products s))))))"
proof -
  have "ParseInt (TrimSuffix ''.xml'' (string_of_int (int k + 1) @ ''.xml'')) = Some (int k + 1)"
    using assms by (simp only: TrimSuffix_append) (rule ParseInt_string_of_int, simp_all)
  moreover have "i64 ((int k + 1 - 1) * urlsPerChunk) = int (k * 1000)" using assms by (simp add: urlsPerChunk_def i64_in_range)
  moreover have "nat (int (k * 1000)) = k * 1000" "\<not> int (k * 1000) < 0" "\<not> int k + 1 < 1" "nat urlsPerChunk = 1000"
    by (simp_all add: urlsPerChunk_def del: of_nat_mult)
  ultimately show ?thesis by (simp only: ProductSitemap_def option.case Let_def if_False simp_thms)
qed

text \<open>C35. Following the index finds every active product exactly once: it names the chunks \<open>1..n\<close>, each answers with
  at most 1000 links, and together they are the links of all active products, the most recently updated first.\<close>

theorem sitemap_lists_every_product_once:
  assumes "countActiveProducts s \<le> 2 ^ 40"
  shows "\<exists>n today. SitemapIndex True date now s = (200, [\<lparr>st_loc = siteURL @ ''/sitemap-pages.xml'', st_lastmod = today\<rparr>,
        \<lparr>st_loc = siteURL @ ''/sitemap-categories.xml'', st_lastmod = today\<rparr>] @ map (\<lambda>i. \<lparr>st_loc = chunk_loc i, st_lastmod = today\<rparr>) [1..int n])
    \<and> 0 < n
    \<and> (\<forall>k < n. fst (ProductSitemap True date (string_of_int (int k + 1) @ ''.xml'') s) = 200
        \<and> length (snd (ProductSitemap True date (string_of_int (int k + 1) @ ''.xml'') s)) \<le> 1000)
    \<and> concat (map (\<lambda>k. snd (ProductSitemap True date (string_of_int (int k + 1) @ ''.xml'') s)) [0..<n])
      = map (url_of date) (order_by recently_updated (filter (\<lambda>p. p_status p = ''active'') (products s)))"
proof -
  let ?all = "order_by recently_updated (filter (\<lambda>p. p_status p = ''active'') (products s))"
  let ?page = "\<lambda>k. ProductSitemap True date (string_of_int (int k + 1) @ ''.xml'') s"
  have len: "countActiveProducts s = int (length ?all)" unfolding length_order_by by (simp add: countActiveProducts_def)
  then have "0 \<le> countActiveProducts s" by (simp only: of_nat_0_le_iff)
  from chunk_count_exact [OF this assms] have count: "chunk_count (countActiveProducts s) = max 1 ((countActiveProducts s + 999) div 1000)" .
  have steps: "n0 \<le> m * 1000 \<and> m \<le> 2 ^ 40 \<and> 0 < m" if "m = max 1 ((n0 + 999) div 1000)" "0 \<le> n0" "n0 \<le> 2 ^ 40" for m n0 :: int
    using that by (auto simp: max_def split: if_splits)
  define n where "n = nat (chunk_count (countActiveProducts s))"
  note bounds = steps [OF count \<open>0 \<le> countActiveProducts s\<close> assms]
  have n: "int n = chunk_count (countActiveProducts s)" "0 < n" using bounds by (simp_all add: n_def)
  have "int (length ?all) \<le> int (n * 1000)" "int n \<le> 2 ^ 40" using bounds by (simp_all only: n(1) len [symmetric] of_nat_mult of_nat_numeral)
  then have "length ?all \<le> n * 1000" by (simp only: of_nat_le_iff)
  have page: "?page k = (200, map (url_of date) (take 1000 (drop (k * 1000) ?all)))" if "k < n" for k
    by (rule ProductSitemap_chunk) (use that \<open>int n \<le> 2 ^ 40\<close> in simp)
  have "concat (map (\<lambda>k. snd (?page k)) [0..<n]) = concat (map (\<lambda>k. map (url_of date) (take 1000 (drop (k * 1000) ?all))) [0..<n])"
    by (rule arg_cong [where f = concat], rule map_cong) (simp_all add: page)
  also have "\<dots> = map (url_of date) (take (n * 1000) ?all)"
    by (simp only: concat_pages [symmetric] map_concat map_map comp_def)
  finally have "concat (map (\<lambda>k. snd (?page k)) [0..<n]) = map (url_of date) ?all" using \<open>length ?all \<le> n * 1000\<close> by simp
  then show ?thesis using n page by (intro exI [of _ n] exI [of _ "date now"]) (simp add: SitemapIndex_def Let_def)
qed

theorem sitemap_lists_every_product_once_witness:
  "\<exists>n. 0 < n \<and> map su_loc (concat (map (\<lambda>k. snd (ProductSitemap True (\<lambda>_. ''2026-01-01'') (string_of_int (int k + 1) @ ''.xml'') sample_listing)) [0..<n]))
     = [siteURL @ ''/products/11'', siteURL @ ''/products/10'']"
proof -
  let ?d = "\<lambda>_ :: instant. ''2026-01-01''"
  let ?all = "order_by recently_updated (filter (\<lambda>p. p_status p = ''active'') (products sample_listing))"
  have "countActiveProducts sample_listing \<le> 2 ^ 40" by code_simp
  from sitemap_lists_every_product_once [OF this, of ?d 0] obtain n where n: "0 < n"
    "concat (map (\<lambda>k. snd (ProductSitemap True ?d (string_of_int (int k + 1) @ ''.xml'') sample_listing)) [0..<n]) = map (url_of ?d) ?all"
    by (elim exE conjE) (rule that)
  moreover have "map (su_loc \<circ> url_of ?d) ?all = [siteURL @ ''/products/11'', siteURL @ ''/products/10'']" by code_simp
  ultimately show ?thesis by (intro exI [of _ n]) simp
qed

text \<open>A chunk number near the end of 64 bits wraps the offset below zero: an internal error, not an empty chunk.\<close>

lemma huge_chunk_is_an_internal_error:
  "fst (ProductSitemap True date ''9300000000000001.xml'' s) = 500"
proof -
  have "ParseInt (TrimSuffix ''.xml'' ''9300000000000001.xml'') = Some 9300000000000001" by code_simp
  then show ?thesis by (simp add: ProductSitemap_def urlsPerChunk_def i64_def)
qed

end
