(* ===== verification/Homepage.thy ===== *)
theory Homepage
  imports Go_Strings Cache Float64
begin

text \<open>
  Homepage sections: the requests of \<open>internal/domain/homepage\<close>, the repository \<open>homepage_sections.go\<close> and the service
  of \<open>internal/service/homapage\<close> with its two caches, the assembled page and the products of each section. The
  catalogue the service reads products from is the argument \<open>rd\<close>, which may answer differently at every instant.
\<close>

section \<open>Data\<close>

datatype home_error =
    HomeNotFound | HomeInvalidType | HomeInvalidTitle | HomeInvalidSortOrder | HomeReferenceRequired
  | HomeEmptyReorder | HomeInvalidID | HomeDuplicateID | HomeDbError

record home_section =
  hm_id :: id
  hm_title :: "string option"
  hm_type :: string
  hm_ref :: "id option"
  hm_sort :: int
  hm_active :: bool

record section_product =
  hp_id :: id
  hp_name :: string
  hp_slug :: string
  hp_price :: f64
  hp_image :: string
  hp_rating :: f64
  hp_reviews :: int
  hp_featured :: bool
  hp_brand :: string
  hp_key :: string

record home_page =
  pg_sections :: "(home_section \<times> section_product list) list"
  pg_generated :: instant

definition section_types :: "string list" where
  "section_types = [''trending'', ''featured'', ''category'', ''custom'']"

section \<open>Requests\<close>

record create_section =
  cs_title :: "string option"
  cs_type :: string
  cs_ref :: "id option"
  cs_sort :: int
  cs_active :: "bool option"

record update_section =
  us_title :: "string option"
  us_type :: "string option"
  us_ref :: "id option"
  us_sort :: "int option"
  us_active :: "bool option"

definition title_fits :: "string option \<Rightarrow> bool" where
  "title_fits t = (case t of None \<Rightarrow> True | Some x \<Rightarrow> rune_count x \<le> 255)"

definition references :: "id option \<Rightarrow> bool" where
  "references r = (case r of None \<Rightarrow> False | Some i \<Rightarrow> 0 < i)"

definition CreateSection_Validate :: "create_section \<Rightarrow> home_error + create_section" where
  "CreateSection_Validate r =
     (let t = map_option trim_space (cs_title r) in
      if cs_type r \<notin> set section_types then Inl HomeInvalidType
      else if \<not> title_fits t then Inl HomeInvalidTitle
      else if cs_type r = ''category'' \<and> \<not> references (cs_ref r) then Inl HomeReferenceRequired
      else if cs_sort r < 0 then Inl HomeInvalidSortOrder
      else Inr (r\<lparr>cs_title := t\<rparr>))"

definition UpdateSection_Validate :: "update_section \<Rightarrow> home_error + update_section" where
  "UpdateSection_Validate r =
     (let t = map_option trim_space (us_title r) in
      if (case us_type r of None \<Rightarrow> False | Some y \<Rightarrow> y \<notin> set section_types) then Inl HomeInvalidType
      else if \<not> title_fits t then Inl HomeInvalidTitle
      else if (case us_sort r of None \<Rightarrow> False | Some n \<Rightarrow> n < 0) then Inl HomeInvalidSortOrder
      else Inr (r\<lparr>us_title := t\<rparr>))"

fun check_reorder :: "(id \<times> int) list \<Rightarrow> id set \<Rightarrow> home_error + unit" where
  "check_reorder [] seen = Inr ()"
| "check_reorder ((i, n) # xs) seen =
     (if i \<le> 0 then Inl HomeInvalidID else if n < 0 then Inl HomeInvalidSortOrder
      else if i \<in> seen then Inl HomeDuplicateID else check_reorder xs (insert i seen))"

definition ReorderRequest_Validate :: "(id \<times> int) list \<Rightarrow> home_error + unit" where
  "ReorderRequest_Validate xs = (if xs = [] then Inl HomeEmptyReorder else check_reorder xs {})"

section \<open>Repository\<close>

definition section_before :: "home_section \<Rightarrow> home_section \<Rightarrow> bool" where
  "section_before a b \<longleftrightarrow> hm_sort a < hm_sort b \<or> hm_sort a = hm_sort b \<and> hm_id a \<le> hm_id b"


definition home_ListSections :: "bool \<Rightarrow> string option \<Rightarrow> home_section list \<Rightarrow> home_section list" where
  "home_ListSections active ty t = order_by section_before
     (filter (\<lambda>s. (active \<longrightarrow> hm_active s) \<and> (case ty of None \<Rightarrow> True | Some y \<Rightarrow> hm_type s = y)) t)"

definition repo_GetSectionByID :: "id \<Rightarrow> home_section list \<Rightarrow> home_error + home_section" where
  "repo_GetSectionByID i t = (case List.find (\<lambda>s. hm_id s = i) t of None \<Rightarrow> Inl HomeNotFound | Some s \<Rightarrow> Inr s)"


definition repo_UpdateSection :: "home_section \<Rightarrow> home_section list \<Rightarrow> home_error + home_section list" where
  "repo_UpdateSection s t =
     (if \<not> int4 (hm_sort s) then Inl HomeDbError
      else if hm_id s \<notin> hm_id ` set t then Inl HomeNotFound
      else Inr (update_where (\<lambda>r. hm_id r = hm_id s) (\<lambda>_. s) t))"


definition set_order :: "id \<times> int \<Rightarrow> home_section list \<Rightarrow> home_error + home_section list" where
  "set_order x t =
     (if \<not> int4 (snd x) then Inl HomeDbError
      else if fst x \<notin> hm_id ` set t then Inl HomeNotFound
      else Inr (update_where (\<lambda>r. hm_id r = fst x) (\<lambda>r. r\<lparr>hm_sort := snd x\<rparr>) t))"

definition repo_ReorderSections ::
  "tx_fault \<Rightarrow> (id \<times> int) list \<Rightarrow> home_section list \<Rightarrow> (home_error + unit) \<times> home_section list" where
  "repo_ReorderSections flt xs t =
     run_tx flt HomeDbError (\<lambda>t. case try_all set_order xs t of Inl er \<Rightarrow> Inl er | Inr t' \<Rightarrow> Inr ((), t')) t"


section \<open>Service\<close>

text \<open>\<open>None\<close>: no cache is configured. \<open>up\<close> tells whether Redis answers during a call.\<close>

record home_cache =
  hc_page :: "(unit, home_page) cache"
  hc_products :: "(id, section_product list) cache"

record home_state =
  ht_rows :: "home_section list"
  ht_cache :: "home_cache option"

type_synonym reader = "instant \<Rightarrow> string \<Rightarrow> id option \<Rightarrow> int \<Rightarrow> home_error + section_product list"


text \<open>\<open>CacheKey\<close> is not part of the JSON.\<close>

definition through_json :: "section_product \<Rightarrow> section_product" where
  "through_json p = p\<lparr>hp_key := []\<rparr>"








definition bustHomepageCache :: "bool \<Rightarrow> home_cache option \<Rightarrow> home_cache option" where
  "bustHomepageCache up c = (if up then map_option (\<lambda>h. h\<lparr>hc_page := del () (hc_page h)\<rparr>) c else c)"

definition bustSectionCache :: "bool \<Rightarrow> id \<Rightarrow> home_cache option \<Rightarrow> home_cache option" where
  "bustSectionCache up i c = (if up then map_option (\<lambda>h. h\<lparr>hc_products := del i (hc_products h)\<rparr>) c else c)"

definition orElse :: "'a option \<Rightarrow> 'a \<Rightarrow> 'a" where
  "orElse x d = (case x of None \<Rightarrow> d | Some v \<Rightarrow> v)"


definition merge_section :: "update_section \<Rightarrow> home_section \<Rightarrow> home_section" where
  "merge_section r s =
     s\<lparr>hm_title := (case us_title r of None \<Rightarrow> hm_title s | Some t \<Rightarrow> Some t), hm_type := orElse (us_type r) (hm_type s),
       hm_ref := (case us_ref r of None \<Rightarrow> hm_ref s | Some i \<Rightarrow> Some i), hm_sort := orElse (us_sort r) (hm_sort s),
       hm_active := orElse (us_active r) (hm_active s)\<rparr>"

definition UpdateSection ::
  "bool \<Rightarrow> id \<Rightarrow> update_section \<Rightarrow> home_state \<Rightarrow> (home_error + home_section) \<times> home_state" where
  "UpdateSection up i r0 st =
     (case UpdateSection_Validate r0 of
        Inl er \<Rightarrow> (Inl er, st)
      | Inr r \<Rightarrow> (case repo_GetSectionByID i (ht_rows st) of
          Inl er \<Rightarrow> (Inl er, st)
        | Inr s0 \<Rightarrow> let s = merge_section r s0 in
            (case repo_UpdateSection s (ht_rows st) of
               Inl er \<Rightarrow> (Inl er, st)
             | Inr t \<Rightarrow> (Inr s, st\<lparr>ht_rows := t, ht_cache := bustHomepageCache up (bustSectionCache up i (ht_cache st))\<rparr>))))"


definition ReorderSections :: "tx_fault \<Rightarrow> bool \<Rightarrow> (id \<times> int) list \<Rightarrow> home_state \<Rightarrow> (home_error + unit) \<times> home_state" where
  "ReorderSections flt up xs st =
     (case ReorderRequest_Validate xs of
        Inl er \<Rightarrow> (Inl er, st)
      | Inr _ \<Rightarrow> (case repo_ReorderSections flt xs (ht_rows st) of
          (Inl er, t) \<Rightarrow> (Inl er, st\<lparr>ht_rows := t\<rparr>)
        | (Inr _, t) \<Rightarrow> (Inr (), st\<lparr>ht_rows := t, ht_cache := bustHomepageCache up (ht_cache st)\<rparr>)))"


section \<open>What the caches hold\<close>

text \<open>\<open>shown_at rd a b s ps\<close>: the catalogue answered \<open>ps\<close> for the section's type and reference between \<open>a\<close> and \<open>b\<close>.\<close>

definition shown_at :: "reader \<Rightarrow> instant \<Rightarrow> instant \<Rightarrow> home_section \<Rightarrow> section_product list \<Rightarrow> bool" where
  "shown_at rd a b s ps \<longleftrightarrow> (\<exists>t ps'. a \<le> t \<and> t \<le> b \<and> rd t (hm_type s) (hm_ref s) 20 = Inr ps'
     \<and> map through_json ps = map through_json ps')"

lemma through_json_idem [simp]: "through_json (through_json p) = through_json p"
  by (simp add: through_json_def)

lemma shown_at_json [simp]: "shown_at rd a b s (map through_json ps) \<longleftrightarrow> shown_at rd a b s ps"
  by (simp add: shown_at_def comp_def)














section \<open>Runs\<close>















section \<open>Properties\<close>



definition home_sample :: home_state where
  "home_sample = \<lparr>ht_rows = [\<lparr>hm_id = 1, hm_title = None, hm_type = ''trending'', hm_ref = None, hm_sort = 2, hm_active = True\<rparr>,
       \<lparr>hm_id = 2, hm_title = None, hm_type = ''custom'', hm_ref = None, hm_sort = 0, hm_active = True\<rparr>,
       \<lparr>hm_id = 3, hm_title = None, hm_type = ''featured'', hm_ref = None, hm_sort = 1, hm_active = True\<rparr>],
     ht_cache = Some \<lparr>hc_page = (\<lambda>_. None), hc_products = (\<lambda>_. None)\<rparr>\<rparr>"



text \<open>An update may turn a section into a category section without a reference, which creation refuses.\<close>

lemma update_makes_a_category_without_reference:
  "let r = \<lparr>us_title = None, us_type = Some ''category'', us_ref = None, us_sort = None, us_active = None\<rparr> in
     (case fst (UpdateSection True 1 r home_sample) of Inl _ \<Rightarrow> False | Inr s \<Rightarrow> hm_type s = ''category'' \<and> hm_ref s = None)
     \<and> CreateSection_Validate \<lparr>cs_title = None, cs_type = ''category'', cs_ref = None, cs_sort = 2, cs_active = None\<rparr> = Inl HomeReferenceRequired"
  by code_simp

text \<open>A reorder with one unknown section changes no order at all.\<close>

lemma failed_reorder_changes_nothing:
  "ReorderSections flt up xs st = (Inl er, st') \<Longrightarrow> st' = st"
  using run_tx_error by (fastforce simp: ReorderSections_def repo_ReorderSections_def split: sum.splits prod.splits)

end
