(* ===== verification/Auth_Handlers.thy ===== *)
theory Auth_Handlers
  imports Auth_Safety Router Http
begin

text \<open>
  The HTTP handlers of the authentication service (\<open>internal/handlers/auth\<close>), behind the middleware of their
  routes. The checks of the \<open>binding\<close> tags are definitions, with the library's test for an e-mail address
  as an argument. The service may panic in
  a handler (\<open>MustGet\<close>); the recovery middleware turns that into 500.
\<close>

section \<open>Requests behind their guard\<close>

text \<open>The guard of a route validates the token of the request against the state, once, and runs the handler with
  the context it leaves.\<close>

definition guarded ::
  "env \<Rightarrow> bool \<Rightarrow> instant \<Rightarrow> guard \<Rightarrow> request \<Rightarrow> (ctx \<Rightarrow> auth_state \<Rightarrow> 'a reply \<times> auth_state) \<Rightarrow> auth_state \<Rightarrow> 'a reply \<times> auth_state" where
  "guarded E up now g r h st =
     (let tok = extractToken r;
          (v, st') = (if g = Public \<or> tok = [] then (Inl ErrNotFound, st) else ValidateToken E up now tok st)
      in case chain (middlewares (\<lambda>_. v) r g) (\<lambda>_. None) of
           Abort s \<Rightarrow> ((nat s, None), st')
         | Next x \<Rightarrow> h x st')"

definition must_identity :: "ctx \<Rightarrow> 's \<Rightarrow> (id \<Rightarrow> 'a reply \<times> 's) \<Rightarrow> 'a reply \<times> 's" where
  "must_identity x st h = (case GetIdentityID x of None \<Rightarrow> ((500, None), st) | Some n \<Rightarrow> h n)"

definition must_jti :: "ctx \<Rightarrow> 's \<Rightarrow> (string \<Rightarrow> 'a reply \<times> 's) \<Rightarrow> 'a reply \<times> 's" where
  "must_jti x st h = (case GetJTI x of None \<Rightarrow> ((500, None), st) | Some j \<Rightarrow> h j)"

text \<open>A service call that only touches the tables.\<close>

definition on_db :: "(auth_db \<Rightarrow> 'r \<times> auth_db) \<Rightarrow> auth_state \<Rightarrow> 'r \<times> auth_state" where
  "on_db f st = (case f (db st) of (r, d) \<Rightarrow> (r, st\<lparr>db := d\<rparr>))"

section \<open>Bodies\<close>

definition required_email :: "(string \<Rightarrow> bool) \<Rightarrow> string \<Rightarrow> bool" where
  "required_email is_email s \<longleftrightarrow> s \<noteq> [] \<and> is_email s"

definition min_runes :: "nat \<Rightarrow> string \<Rightarrow> bool" where
  "min_runes n s \<longleftrightarrow> s \<noteq> [] \<and> n \<le> rune_count s"

definition RegisterRequest_ok :: "(string \<Rightarrow> bool) \<Rightarrow> register_req \<Rightarrow> bool" where
  "RegisterRequest_ok is_email q \<longleftrightarrow> required_email is_email (rr_email q) \<and> min_runes 8 (rr_password q)"

definition LoginRequest_ok :: "(string \<Rightarrow> bool) \<Rightarrow> login_req \<Rightarrow> bool" where
  "LoginRequest_ok is_email q \<longleftrightarrow> required_email is_email (lr_email q) \<and> lr_password q \<noteq> []"

record password_body =
  pb_current :: string
  pb_new :: string

definition ChangePasswordRequest_ok :: "password_body \<Rightarrow> bool" where
  "ChangePasswordRequest_ok b \<longleftrightarrow> pb_current b \<noteq> [] \<and> min_runes 8 (pb_new b)"

text \<open>\<open>ResetPasswordRequest\<close>: the token stands for the current password.\<close>

definition ResetPasswordRequest_ok :: "password_body \<Rightarrow> bool" where
  "ResetPasswordRequest_ok b \<longleftrightarrow> pb_current b \<noteq> [] \<and> min_runes 8 (pb_new b)"

record profile_body =
  fb_name :: string
  fb_avatar :: string
  fb_bio :: string
  fb_metadata :: "string option"

record otp_body =
  ob_email :: string
  ob_token :: string
  ob_otp :: string

definition ResendOTPRequest_ok :: "(string \<Rightarrow> bool) \<Rightarrow> otp_body \<Rightarrow> bool" where
  "ResendOTPRequest_ok is_email b \<longleftrightarrow> required_email is_email (ob_email b) \<and> ob_token b \<noteq> []"

definition OTPVerificationRequest_ok :: "(string \<Rightarrow> bool) \<Rightarrow> otp_body \<Rightarrow> bool" where
  "OTPVerificationRequest_ok is_email b \<longleftrightarrow> ResendOTPRequest_ok is_email b \<and> ob_otp b \<noteq> [] \<and> rune_count (ob_otp b) = 6"

record admin_body =
  ab_email :: string
  ab_phone :: string
  ab_name :: string
  ab_roles :: "string list option"

definition CreateAdminRequest_ok :: "(string \<Rightarrow> bool) \<Rightarrow> admin_body \<Rightarrow> bool" where
  "CreateAdminRequest_ok is_email b \<longleftrightarrow> required_email is_email (ab_email b) \<and> ab_name b \<noteq> [] \<and> ab_roles b \<noteq> None"

section \<open>Accounts\<close>

text \<open>\<open>Register\<close> and \<open>Login\<close> take the address and the agent from the connection, not from the body.\<close>

definition handle_Register ::
  "env \<Rightarrow> (string \<Rightarrow> bool) \<Rightarrow> bool \<Rightarrow> instant \<Rightarrow> string \<Rightarrow> string \<Rightarrow> string \<Rightarrow> string \<Rightarrow> string \<Rightarrow> register_req option
     \<Rightarrow> ctx \<Rightarrow> auth_state \<Rightarrow> login_resp reply \<times> auth_state" where
  "handle_Register E is_email up now ja jr tok ip agent body x st =
     bound (RegisterRequest_ok is_email) body st (\<lambda>q.
       answered 400 201 (Register E up now ja jr tok (q\<lparr>rr_ip := ip, rr_agent := agent\<rparr>) st))"

definition handle_Login ::
  "env \<Rightarrow> (string \<Rightarrow> bool) \<Rightarrow> bool \<Rightarrow> instant \<Rightarrow> string \<Rightarrow> string \<Rightarrow> string \<Rightarrow> string \<Rightarrow> login_req option
     \<Rightarrow> ctx \<Rightarrow> auth_state \<Rightarrow> login_resp reply \<times> auth_state" where
  "handle_Login E is_email up now ja jr ip agent body x st =
     bound (LoginRequest_ok is_email) body st (\<lambda>q.
       answered 401 200 (Login E up now ja jr (q\<lparr>lr_ip := ip, lr_agent := agent\<rparr>) st))"

definition handle_Logout :: "env \<Rightarrow> bool \<Rightarrow> instant \<Rightarrow> ctx \<Rightarrow> auth_state \<Rightarrow> unit reply \<times> auth_state" where
  "handle_Logout E up now x st =
     must_identity x st (\<lambda>n. must_jti x st (\<lambda>j. answered 500 200 (Logout E up now n j st)))"

definition handle_LogoutAll :: "bool \<Rightarrow> instant \<Rightarrow> ctx \<Rightarrow> auth_state \<Rightarrow> unit reply \<times> auth_state" where
  "handle_LogoutAll up now x st = must_identity x st (\<lambda>n. answered 500 200 (LogoutAllSessions up now n st))"

definition handle_ChangePassword ::
  "env \<Rightarrow> bool \<Rightarrow> instant \<Rightarrow> password_body option \<Rightarrow> ctx \<Rightarrow> auth_state \<Rightarrow> unit reply \<times> auth_state" where
  "handle_ChangePassword E up now body x st =
     must_identity x st (\<lambda>n. bound ChangePasswordRequest_ok body st (\<lambda>b.
       answered 400 200 (ChangePassword E up now n (pb_current b) (pb_new b) st)))"

text \<open>Whatever the service says, a well-formed request is answered with success.\<close>

definition handle_ForgotPassword ::
  "env \<Rightarrow> (string \<Rightarrow> bool) \<Rightarrow> bool \<Rightarrow> instant \<Rightarrow> string \<Rightarrow> string option \<Rightarrow> ctx \<Rightarrow> auth_state \<Rightarrow> unit reply \<times> auth_state" where
  "handle_ForgotPassword E is_email up now tok body x st =
     bound (required_email is_email) body st (\<lambda>email. ((200, None), snd (ForgotPassword E up now tok email st)))"

definition handle_ResetPassword ::
  "env \<Rightarrow> bool \<Rightarrow> instant \<Rightarrow> password_body option \<Rightarrow> ctx \<Rightarrow> auth_state \<Rightarrow> unit reply \<times> auth_state" where
  "handle_ResetPassword E up now body x st =
     bound ResetPasswordRequest_ok body st (\<lambda>b. answered 400 200 (ResetPassword E up now (pb_current b) (pb_new b) st))"

definition handle_GetMe :: "ctx \<Rightarrow> auth_state \<Rightarrow> profile reply \<times> auth_state" where
  "handle_GetMe x st = must_identity x st (\<lambda>n. answered 500 200 (GetProfile n (db st), st))"

definition handle_UpdateProfile :: "instant \<Rightarrow> profile_body option \<Rightarrow> ctx \<Rightarrow> auth_state \<Rightarrow> profile reply \<times> auth_state" where
  "handle_UpdateProfile now body x st =
     must_identity x st (\<lambda>n. bound (\<lambda>_. True) body st (\<lambda>b.
       answered 500 200 (on_db (UpdateProfile now n (fb_name b) (fb_avatar b) (fb_bio b) (fb_metadata b)) st)))"

section \<open>E-mail verification\<close>

definition handle_VerifyEmail :: "instant \<Rightarrow> query \<Rightarrow> ctx \<Rightarrow> auth_state \<Rightarrow> unit reply \<times> auth_state" where
  "handle_VerifyEmail now q x st =
     (if Query q ''token'' = [] then ((400, None), st)
      else answered 400 200 (on_db (VerifyEmail now (Query q ''token'')) st))"

definition handle_ResendVerificationEmail :: "instant \<Rightarrow> string \<Rightarrow> ctx \<Rightarrow> auth_state \<Rightarrow> unit reply \<times> auth_state" where
  "handle_ResendVerificationEmail now tok x st =
     must_identity x st (\<lambda>n. answered 500 200 (on_db (ResendEmailVerification now tok n) st))"

definition handle_SendEmailVerificationOTP ::
  "env \<Rightarrow> (string \<Rightarrow> bool) \<Rightarrow> bool \<Rightarrow> instant \<Rightarrow> string \<Rightarrow> string \<Rightarrow> string option \<Rightarrow> ctx \<Rightarrow> auth_state \<Rightarrow> string reply \<times> auth_state" where
  "handle_SendEmailVerificationOTP E is_email up now otp tok body x st =
     bound (required_email is_email) body st (\<lambda>email.
       answered 400 200 (SendEmailVerificationOTP E up now otp tok email st))"

definition handle_ResendEmailVerificationOTP ::
  "(string \<Rightarrow> bool) \<Rightarrow> bool \<Rightarrow> instant \<Rightarrow> string \<Rightarrow> otp_body option \<Rightarrow> ctx \<Rightarrow> auth_state \<Rightarrow> string reply \<times> auth_state" where
  "handle_ResendEmailVerificationOTP is_email up now otp body x st =
     bound (ResendOTPRequest_ok is_email) body st (\<lambda>b.
       answered 400 200 (ResendEmailVerificationOTP up now otp (ob_token b) (ob_email b) st))"

definition handle_VerifyEmailOTP ::
  "(string \<Rightarrow> bool) \<Rightarrow> bool \<Rightarrow> instant \<Rightarrow> string \<Rightarrow> otp_body option \<Rightarrow> ctx \<Rightarrow> auth_state \<Rightarrow> string reply \<times> auth_state" where
  "handle_VerifyEmailOTP is_email up now fresh body x st =
     bound (OTPVerificationRequest_ok is_email) body st (\<lambda>b.
       answered 400 200 (VerifyEmailOTP up now fresh (ob_email b) (ob_token b) (ob_otp b) st))"

section \<open>Sessions of the caller\<close>

definition handle_GetActiveSessions :: "bool \<Rightarrow> instant \<Rightarrow> ctx \<Rightarrow> auth_state \<Rightarrow> session_data list reply \<times> auth_state" where
  "handle_GetActiveSessions up now x st = must_identity x st (\<lambda>n. answered 500 200 (GetActiveSessions up now n st, st))"

definition handle_RevokeSession :: "env \<Rightarrow> bool \<Rightarrow> instant \<Rightarrow> string \<Rightarrow> ctx \<Rightarrow> auth_state \<Rightarrow> unit reply \<times> auth_state" where
  "handle_RevokeSession E up now param x st =
     must_identity x st (\<lambda>n. answered 500 200 (RevokeSession E up now n param st))"

section \<open>Administration\<close>

text \<open>The reply carries the new identity and its temporary password.\<close>

definition handle_CreateAdmin ::
  "env \<Rightarrow> (string \<Rightarrow> bool) \<Rightarrow> instant \<Rightarrow> string \<Rightarrow> admin_body option \<Rightarrow> ctx \<Rightarrow> auth_state \<Rightarrow> (id \<times> string) reply \<times> auth_state" where
  "handle_CreateAdmin E is_email now pw body x st =
     (if \<not> ctx_IsSuperAdmin x then ((403, None), st)
      else bound (CreateAdminRequest_ok is_email) body st (\<lambda>b. must_identity x st (\<lambda>_.
        answered 400 201 (on_db (CreateAdmin E now pw (ab_email b) (ab_phone b) (ab_name b)) st))))"

definition handle_ListAdmins :: "ctx \<Rightarrow> auth_state \<Rightarrow> unit reply \<times> auth_state" where
  "handle_ListAdmins x st = answered 500 200 (ListAdmins, st)"

text \<open>\<open>c.GetInt64("id")\<close> reads the context, not the path.\<close>

definition ctx_id :: "ctx \<Rightarrow> id" where
  "ctx_id x = (case x ''id'' of Some (CId n) \<Rightarrow> n | _ \<Rightarrow> 0)"

definition handle_DeactivateAdmin :: "bool \<Rightarrow> instant \<Rightarrow> string \<Rightarrow> ctx \<Rightarrow> auth_state \<Rightarrow> unit reply \<times> auth_state" where
  "handle_DeactivateAdmin up now param x st =
     (if ctx_id x = 0 then ((400, None), st) else answered 500 200 (DeactivateUser up now (ctx_id x) st))"

definition handle_AdminListUsers :: "instant \<Rightarrow> query \<Rightarrow> ctx \<Rightarrow> auth_state \<Rightarrow> users_page reply \<times> auth_state" where
  "handle_AdminListUsers now q x st =
     (case (query_int q ''page'', query_int q ''page_size'') of
        (Some p, Some n) \<Rightarrow>
          ((200, Some (AdminListUsers now (if p \<le> 0 then 1 else p) (if n \<le> 0 then 20 else n) (db st))), st)
      | _ \<Rightarrow> ((400, None), st))"

definition found_or :: "auth_error + 'a \<Rightarrow> 'a reply" where
  "found_or r = (case r of Inl e \<Rightarrow> (if e = ErrNotFound then 404 else 500, None) | Inr v \<Rightarrow> (200, Some v))"

definition handle_AdminGetUser :: "instant \<Rightarrow> string \<Rightarrow> ctx \<Rightarrow> auth_state \<Rightarrow> user_card reply \<times> auth_state" where
  "handle_AdminGetUser now param x st =
     (case (if ctx_id x \<noteq> 0 then Some (ctx_id x) else path_id param) of
        None \<Rightarrow> ((400, None), st)
      | Some i \<Rightarrow> (found_or (AdminGetUser now i (db st)), st))"

definition handle_AdminSearchUsers ::
  "(string \<Rightarrow> string) \<Rightarrow> instant \<Rightarrow> query \<Rightarrow> ctx \<Rightarrow> auth_state \<Rightarrow> user_card list reply \<times> auth_state" where
  "handle_AdminSearchUsers lc now q x st =
     (case query_int q ''limit'' of
        None \<Rightarrow> ((400, None), st)
      | Some k \<Rightarrow> ((200, Some (AdminSearchUsers lc now (Query q ''q'') k (db st))), st))"

text \<open>The optional reason in the body is not used.\<close>

definition handle_AdminDeleteUser :: "bool \<Rightarrow> instant \<Rightarrow> string \<Rightarrow> ctx \<Rightarrow> auth_state \<Rightarrow> unit reply \<times> auth_state" where
  "handle_AdminDeleteUser up now param x st =
     (case path_id param of
        None \<Rightarrow> ((400, None), st)
      | Some i \<Rightarrow> (case AdminDeleteUser up now i st of (r, st') \<Rightarrow> (found_or r, st')))"

definition handle_AdminUserStats :: "instant \<Rightarrow> ctx \<Rightarrow> auth_state \<Rightarrow> user_stats reply \<times> auth_state" where
  "handle_AdminUserStats now x st = ((200, Some (AdminUserStats now (db st))), st)"

section \<open>What the guards leave\<close>

lemma middlewares_Auth:
  "g \<noteq> Public \<Longrightarrow> g \<noteq> Optional \<Longrightarrow> \<exists>ms. middlewares v r g = Auth v r # ms"
  by (cases g) (simp_all add: AdminOnly_def SuperAdminOnly_def WithPermission_def)

lemma guarded_refuses:
  assumes "g \<noteq> Public" "g \<noteq> Optional" "extractToken r \<noteq> []"
    and "ValidateToken E up now (extractToken r) st = (Inl x, st')"
  shows "guarded E up now g r h st = ((401, None), st')"
proof -
  obtain ms where "middlewares (\<lambda>_. Inl x) r g = Auth (\<lambda>_. Inl x) r # ms" using middlewares_Auth assms(1,2) by blast
  then show ?thesis using assms by (simp add: guarded_def Let_def Auth_def)
qed

lemma guarded_anonymous:
  assumes "ValidateToken E up now (extractToken r) st = (Inl x, st)"
  shows "guarded E up now Optional r h st = h (\<lambda>_. None) st"
  using assms by (simp add: guarded_def Let_def OptionalAuth_def)

lemma guarded_signed_in:
  assumes "guarded E up now SignedIn r h st = ((200, y), st')"
    and "\<And>c. parse_token (en_jwt E) now (extractToken r) = Some c \<Longrightarrow> cl_extra c = []"
  shows "\<exists>c x st1. parse_token (en_jwt E) now (extractToken r) = Some c \<and> extractToken r \<noteq> []
     \<and> GetIdentityID x = Some (cl_identity c) \<and> GetJTI x = Some (cl_id c) \<and> h x st1 = ((200, y), st')"
proof -
  obtain v st1 where v: "ValidateToken E up now (extractToken r) st = (v, st1)"
    by (cases "ValidateToken E up now (extractToken r) st")
  have tok: "extractToken r \<noteq> []" using assms(1) by (auto simp: guarded_def Let_def Auth_def)
  obtain c where c: "v = Inr c" using assms(1) tok v by (cases v) (auto simp: guarded_def Let_def Auth_def)
  have p: "parse_token (en_jwt E) now (extractToken r) = Some c"
    using v c by (auto simp: ValidateToken_def split: sum.splits prod.splits if_splits dest: verified_parses)
  let ?x = "[''identity_id'' \<mapsto> CId (cl_identity c), ''jti'' \<mapsto> CStr (cl_id c), ''roles'' \<mapsto> CStrs (cl_roles c),
    ''permissions'' \<mapsto> CStrs (cl_perms c), ''device'' \<mapsto> CStr (cl_device c), ''session_purpose'' \<mapsto> CStr (cl_purpose c),
    ''is_temp'' \<mapsto> CBool (cl_temp c)]"
  have h: "h ?x st1 = ((200, y), st')"
    using assms(1) assms(2) [OF p] tok v unfolding c by (simp add: guarded_def Let_def Auth_def)
  then show ?thesis using p tok
    by (intro exI [of _ c] exI [of _ ?x] exI [of _ st1]) (simp add: GetIdentityID_def GetJTI_def)
qed

text \<open>The extra claims enter the context as strings, so no token sets the key \<open>id\<close> to a number.\<close>

lemma extra_no_id: "\<nexists>n. x k = Some (CId n) \<Longrightarrow> \<nexists>n. foldl (\<lambda>x (k, v). x(k \<mapsto> CStr v)) x ex k = Some (CId n)"
  by (induction ex arbitrary: x) (auto simp: prod.case_eq_if)

lemma Auth_context:
  assumes "Auth v r (\<lambda>_. None) = Next y"
  shows "\<exists>x ex. y = foldl (\<lambda>x (k, v). x(k \<mapsto> CStr v)) x ex \<and> (\<nexists>n. x ''id'' = Some (CId n))"
proof -
  have "extractToken r \<noteq> []" using assms by (simp only: Auth_def Let_def split: if_splits) simp_all
  then obtain c where c: "v (extractToken r) = Inr c"
    using assms by (cases "v (extractToken r)") (simp_all only: Auth_def Let_def if_False sum.case outcome.distinct)
  let ?m = "[''identity_id'' \<mapsto> CId (cl_identity c), ''jti'' \<mapsto> CStr (cl_id c), ''roles'' \<mapsto> CStrs (cl_roles c),
    ''permissions'' \<mapsto> CStrs (cl_perms c), ''device'' \<mapsto> CStr (cl_device c), ''session_purpose'' \<mapsto> CStr (cl_purpose c),
    ''is_temp'' \<mapsto> CBool (cl_temp c)]"
  have "?m ''id'' = None" by simp
  moreover have "y = foldl (\<lambda>x (k, v). x(k \<mapsto> CStr v)) ?m (cl_extra c)"
    using assms \<open>extractToken r \<noteq> []\<close> by (simp only: Auth_def Let_def c sum.case if_False outcome.inject)
  ultimately show ?thesis by (intro exI conjI) (assumption, simp only: option.distinct not_False_eq_True ex_simps simp_thms)
qed

lemma chain_role_context: "chain [m, RequireRole rs] x = Next y \<Longrightarrow> m x = Next y"
  by (cases "m x") (auto simp: RequireRole_def require_passes split: outcome.splits)

lemma ctx_id_after:
  assumes "chain (middlewares v r SuperAdmins) (\<lambda>_. None) = Next x"
  shows "ctx_id x = 0"
proof -
  have "chain [Auth v r, RequireRole [''super_admin'']] (\<lambda>_. None) = Next x"
    using assms by (simp only: middlewares.simps SuperAdminOnly_def)
  then have "Auth v r (\<lambda>_. None) = Next x" by (rule chain_role_context)
  from Auth_context [OF this] obtain y ex
    where x: "x = foldl (\<lambda>x (k, v). x(k \<mapsto> CStr v)) y ex" "\<nexists>n. y ''id'' = Some (CId n)" by (elim exE conjE)
  have "\<nexists>n. x ''id'' = Some (CId n)" unfolding x(1) by (rule extra_no_id [of y "''id''", OF x(2)])
  then show ?thesis by (auto simp: ctx_id_def split: option.splits ctx_value.splits)
qed

lemma ids_validate: "identities (db (snd (ValidateToken E up now tok st))) = identities (db st)"
proof (cases "VerifyAccessToken (en_jwt E) (en_ver E) now tok")
  case (Inr c)
  obtain q st1 where q: "GetSession up now (cl_identity c) (cl_id c) st = (q, st1)"
    by (cases "GetSession up now (cl_identity c) (cl_id c) st")
  have "identities (db st1) = identities (db st)" using ids_sessions(1) [of up now "cl_identity c" "cl_id c" st] by (simp add: q)
  then show ?thesis by (cases q) (simp_all add: ValidateToken_def Inr q split: sum.split)
qed (simp add: ValidateToken_def)

text \<open>So an administrator cannot be deactivated: the route for it never reaches the service.\<close>

lemma deactivation_never_happens:
  "snd (fst (guarded E up now SuperAdmins r (handle_DeactivateAdmin up now param) st)) = None
   \<and> identities (db (snd (guarded E up now SuperAdmins r (handle_DeactivateAdmin up now param) st))) = identities (db st)"
proof -
  obtain v st1 where v: "(if SuperAdmins = Public \<or> extractToken r = [] then (Inl ErrNotFound, st) else ValidateToken E up now (extractToken r) st) = (v, st1)"
    by (cases "if SuperAdmins = Public \<or> extractToken r = [] then (Inl ErrNotFound, st) else ValidateToken E up now (extractToken r) st")
  have same: "identities (db st1) = identities (db st)"
    using v ids_validate [of E up now "extractToken r" st] by (auto split: if_splits)
  show ?thesis
    by (cases "chain (middlewares (\<lambda>_. v) r SuperAdmins) (\<lambda>_. None)")
      (use v ctx_id_after [of "\<lambda>_. v" r] same in \<open>simp_all add: guarded_def Let_def handle_DeactivateAdmin_def\<close>)
qed

text \<open>Asking for a new password tells nothing about the address; asking for a code does.\<close>

lemma forgotten_password_tells_nothing:
  "fst (handle_ForgotPassword E is_email up now tok body x st) = fst (handle_ForgotPassword E is_email up' now' tok' body x' st')"
  by (simp add: handle_ForgotPassword_def bound_def split: option.split)

lemma code_request_tells_who_is_registered:
  assumes "required_email is_email email" "otp_guard up now email (red st) = (Inr (), R)"
  shows "fst (fst (handle_SendEmailVerificationOTP E is_email up now otp tok (Some email) x st))
    = (if ExistsByEmail (en_lc E) email (db st) then 400 else 200)"
  using assms by (simp add: handle_SendEmailVerificationOTP_def bound_def answered_def handled_def SendEmailVerificationOTP_def)

section \<open>Properties\<close>

text \<open>C38. Once a request with a token was answered 200 by the logout route, every later request with that token, on
  any guarded route and after any other calls, is answered 401 without running its handler and without changing
  the state, and a route with optional sign-in serves it as an anonymous caller. The token is one of the service's
  own: no extra claims, a life of at most the configured one, and the library reads the same claims from it.\<close>

theorem logout_holds_on_every_route:
  fixes h :: "ctx \<Rightarrow> auth_state \<Rightarrow> 'a reply \<times> auth_state"
  assumes lib: "checks_expiry (en_jwt E)" "0 < ge_ttl (en_gen E)"
    and own: "\<And>c. parse_token (en_jwt E) now (extractToken r) = Some c \<Longrightarrow> cl_extra c = [] \<and> cl_exp c \<le> now + ge_ttl (en_gen E)"
    and stable: "\<And>c c'. parse_token (en_jwt E) now (extractToken r) = Some c \<Longrightarrow>
        parse_token (en_jwt E) t (extractToken r) = Some c' \<Longrightarrow> c' = c"
    and out: "guarded E up now SignedIn r (handle_Logout E up now) st = ((200, y), st1)"
    and run: "auth_run E now st1 t st2"
    and later: "extractToken r' = extractToken r"
  shows "(g \<noteq> Public \<longrightarrow> g \<noteq> Optional \<longrightarrow> guarded E up' t g r' h st2 = ((401, None), st2))
    \<and> guarded E up' t Optional r' h st2 = h (\<lambda>_. None) st2"
proof -
  obtain c x st0 where c: "parse_token (en_jwt E) now (extractToken r) = Some c" "extractToken r \<noteq> []"
    "GetIdentityID x = Some (cl_identity c)" "GetJTI x = Some (cl_id c)" "handle_Logout E up now x st0 = ((200, y), st1)"
    using guarded_signed_in [OF out] own by blast
  then have gone: "Logout E up now (cl_identity c) (cl_id c) st0 = (Inr (), st1)"
    by (auto simp: handle_Logout_def must_identity_def must_jti_def answered_def handled_def split: sum.splits)
      (metis old.unit.exhaust prod.collapse)
  have ban: "banned (cl_id c) (now + ge_ttl (en_gen E)) (red st2)"
    using ban_run [OF run logout_bans [OF gone lib(2)]] lib(2) by simp
  have "\<exists>e. ValidateToken E up' t (extractToken r) st2 = (Inl e, st2)"
  proof (cases "VerifyAccessToken (en_jwt E) (en_ver E) t (extractToken r)")
    case (Inr c')
    from verified_parses [OF this] have "c' = c" "t < cl_exp c'" using stable c(1) lib(1) by (auto simp: checks_expiry_def)
    then show ?thesis using banned_blocks [OF ban _ Inr] own c(1) by force
  qed (simp add: ValidateToken_def)
  then obtain e where "ValidateToken E up' t (extractToken r') st2 = (Inl e, st2)" using later by auto
  then show ?thesis using guarded_refuses [of g r'] guarded_anonymous [of E up' t r' st2 e] later c(2) by auto
qed

section \<open>Witnesses\<close>

definition sample_request :: request where
  "sample_request = \<lparr>rq_auth = ''Bearer T'', rq_token = []\<rparr>"

lemma sample_token: "extractToken sample_request = ''T''"
  by code_simp

lemma sample_logout:
  "fst (guarded sample_env True 1 SignedIn sample_request (handle_Logout sample_env True 1) signed_in) = (200, Some ())"
  by code_simp

theorem logout_holds_on_every_route_witness:
  "\<exists>st1. guarded sample_env True 1 SignedIn sample_request (handle_Logout sample_env True 1) signed_in = ((200, Some ()), st1)
     \<and> guarded sample_env True 5 SignedIn sample_request (\<lambda>x st. ((200, Some (GetIdentityID x)), st)) st1 = ((401, None), st1)"
proof -
  obtain st1 where out: "guarded sample_env True 1 SignedIn sample_request (handle_Logout sample_env True 1) signed_in
      = ((200, Some ()), st1)" using sample_logout by (metis prod.collapse)
  have run: "auth_run sample_env 1 st1 5 st1" by (rule auth_run.wait [OF auth_run.start]) simp
  have ttl: "ge_ttl (en_gen sample_env) = 1000" by (simp add: sample_env_def)
  have own: "cl_extra c = [] \<and> cl_exp c \<le> 1 + ge_ttl (en_gen sample_env)"
    if "parse_token (en_jwt sample_env) 1 (extractToken sample_request) = Some c" for c
    using sample_parse [OF that] by (simp add: sample_claims_def ttl)
  have stable: "c' = c" if "parse_token (en_jwt sample_env) 1 (extractToken sample_request) = Some c"
    "parse_token (en_jwt sample_env) 5 (extractToken sample_request) = Some c'" for c c'
    using sample_parse [OF that(1)] sample_parse [OF that(2)] by simp
  from logout_holds_on_every_route [OF sample_expiry _ own stable out run refl, of SignedIn True "\<lambda>x st. ((200, Some (GetIdentityID x)), st)"]
  show ?thesis using out ttl by auto
qed

end
