(* ===== verification/Catalog_Handlers.thy ===== *)
theory Catalog_Handlers
  imports Listing Http
begin

text \<open>
  The HTTP handlers of the catalogue (\<open>internal/handlers/catalog\<close>) on the joined state of
  \<^theory_text>\<open>Product\<close>. A handler reads its path parameters, binds its body, calls one service operation and turns the
  error, if any, into a status. Form uploads, \<open>strconv.ParseFloat\<close> and the caller's identity are arguments.
\<close>

section \<open>Statuses\<close>

text \<open>\<open>handleError\<close>: the errors it does not name are server errors.\<close>

fun category_status :: "cat_error \<Rightarrow> nat" where
  "category_status cat_error.ErrNotFound = 404"
| "category_status cat_error.ErrSlugConflict = 409"
| "category_status cat_error.ErrCircularParent = 422"
| "category_status cat_error.ErrImageUpload = 502"
| "category_status cat_error.ErrInvalidImage = 400"
| "category_status cat_error.ErrInvalidName = 400"
| "category_status cat_error.ErrInvalidParent = 400"
| "category_status _ = 500"

fun meta_status :: "meta_error \<Rightarrow> nat" where
  "meta_status BrandNotFound = 404"
| "meta_status TagNotFound = 404"
| "meta_status AttrNotFound = 404"
| "meta_status ValueNotFound = 404"
| "meta_status BrandSlugConflict = 409"
| "meta_status BrandNameConflict = 409"
| "meta_status AttrSlugConflict = 409"
| "meta_status ValueConflict = 409"
| "meta_status BrandInvalidName = 400"
| "meta_status BrandInvalidLogo = 400"
| "meta_status TagInvalidName = 400"
| "meta_status AttrInvalidName = 400"
| "meta_status AttrInvalidValue = 400"
| "meta_status _ = 500"

fun inventory_status :: "inv_error \<Rightarrow> nat" where
  "inventory_status ErrLocationNotFound = 404"
| "inventory_status ErrItemNotFound = 404"
| "inventory_status ErrLocationCodeConflict = 409"
| "inventory_status ErrItemConflict = 409"
| "inventory_status ErrInsufficientStock = 422"
| "inventory_status inv_error.ErrInvalidName = 400"
| "inventory_status ErrInvalidLocationCode = 400"
| "inventory_status ErrInvalidQuantity = 400"
| "inventory_status _ = 500"

fun discount_status :: "disc_error \<Rightarrow> nat" where
  "discount_status disc_error.ErrNotFound = 404"
| "discount_status ErrCodeConflict = 409"
| "discount_status ErrRedemptionConflict = 409"
| "discount_status ErrExpired = 422"
| "discount_status ErrNotStarted = 422"
| "discount_status ErrInactive = 422"
| "discount_status ErrMaxRedemptions = 422"
| "discount_status ErrMinOrderAmount = 422"
| "discount_status DiscDbError = 500"
| "discount_status _ = 400"

fun catalog_status :: "prod_error \<Rightarrow> nat" where
  "catalog_status ProductNotFound = 404"
| "catalog_status ImageNotFound = 404"
| "catalog_status VariantNotFound = 404"
| "catalog_status ProductSlugConflict = 409"
| "catalog_status SKUConflict = 409"
| "catalog_status NoLocation = 500"
| "catalog_status ImageSaveError = 500"
| "catalog_status SearchError = 500"
| "catalog_status ProdDbError = 500"
| "catalog_status (OfCategory e) = category_status e"
| "catalog_status (OfMeta e) = meta_status e"
| "catalog_status (OfInventory e) = inventory_status e"
| "catalog_status (OfDiscount e) = discount_status e"
| "catalog_status _ = 400"

section \<open>Calls on parts of the state\<close>

text \<open>What one request sees of the world: the environment, the clock, the faults of its transactions and the
  numbers the sequences give it.\<close>

record catalog_call =
  cx_env :: prod_env
  cx_now :: instant
  cx_fault :: "nat \<Rightarrow> tx_fault"
  cx_id :: "nat \<Rightarrow> id"

definition in_cats :: "(cat_db \<Rightarrow> (cat_error + 'a) \<times> cat_db) \<Rightarrow> shop \<Rightarrow> (cat_error + 'a) \<times> shop" where
  "in_cats f s = (case f (sh_cats s) of (r, d) \<Rightarrow> (r, s\<lparr>sh_cats := d\<rparr>))"

definition in_meta :: "(meta_db \<Rightarrow> (meta_error + 'a) \<times> meta_db) \<Rightarrow> shop \<Rightarrow> (meta_error + 'a) \<times> shop" where
  "in_meta f s = (case f (sh_meta s) of (r, d) \<Rightarrow> (r, s\<lparr>sh_meta := d\<rparr>))"

definition in_stock :: "(inv_store \<Rightarrow> (inv_error + 'a) \<times> inv_store) \<Rightarrow> shop \<Rightarrow> (inv_error + 'a) \<times> shop" where
  "in_stock f s = (case f (sh_stock s) of (r, d) \<Rightarrow> (r, s\<lparr>sh_stock := d\<rparr>))"

definition in_discs :: "(disc_db \<Rightarrow> (disc_error + 'a) \<times> disc_db) \<Rightarrow> shop \<Rightarrow> (disc_error + 'a) \<times> shop" where
  "in_discs f s = (case f (sh_discs s) of (r, d) \<Rightarrow> (r, s\<lparr>sh_discs := d\<rparr>))"

abbreviation any_body :: "'b option \<Rightarrow> 's \<Rightarrow> ('b \<Rightarrow> 'a reply \<times> 's) \<Rightarrow> 'a reply \<times> 's" where
  "any_body \<equiv> bound (\<lambda>_. True)"

abbreviation listed :: "'a \<Rightarrow> 's \<Rightarrow> 'a reply \<times> 's" where
  "listed xs s \<equiv> ((200, Some xs), s)"

definition flag :: "query \<Rightarrow> string \<Rightarrow> bool" where
  "flag q k \<longleftrightarrow> Query q k = ''true''"

section \<open>Categories\<close>

definition api_ListCategories :: "prod_env \<Rightarrow> query \<Rightarrow> shop \<Rightarrow> cat list reply \<times> shop" where
  "api_ListCategories e q s =
     (if Query q ''parent_id'' = [] then listed (ListCategories (pe_collate e) None (flag q ''active_only'') (sh_cats s)) s
      else case ParseInt (Query q ''parent_id'') of
        None \<Rightarrow> ((400, None), s)
      | Some i \<Rightarrow> if i < 0 then ((400, None), s)
          else listed (ListCategories (pe_collate e) (Some i) (flag q ''active_only'') (sh_cats s)) s)"

definition api_GetCategory :: "string \<Rightarrow> shop \<Rightarrow> cat reply \<times> shop" where
  "api_GetCategory p s = with_id p s (\<lambda>i. handled category_status 200 (repo_GetCategoryByID i (sh_cats s), s))"

definition api_GetCategoryTree :: "string \<Rightarrow> shop \<Rightarrow> (cat \<times> closure_row list) reply \<times> shop" where
  "api_GetCategoryTree p s = with_id p s (\<lambda>i. handled category_status 200 (GetCategoryTree i (sh_cats s), s))"

definition api_GetCategoryDescendants :: "string \<Rightarrow> shop \<Rightarrow> closure_row list reply \<times> shop" where
  "api_GetCategoryDescendants p s = with_id p s (\<lambda>i. listed (GetCategoryDescendants i (sh_cats s)) s)"

text \<open>\<open>bindCategoryRequest\<close>: JSON, or a form with the JSON in its one value \<open>data\<close> and one file \<open>image\<close>. A body of
  more than nine megabytes does not parse.\<close>

record 'b category_form =
  mp_data :: "'b option list"
  mp_images :: "upload list"
  mp_file_fields :: nat

datatype 'b category_body = Json "'b option" | Multipart "'b category_form option"

definition bindCategoryRequest :: "'b category_body \<Rightarrow> ('b \<times> upload list) option" where
  "bindCategoryRequest body =
     (case body of
        Json b \<Rightarrow> map_option (\<lambda>r. (r, [])) b
      | Multipart None \<Rightarrow> None
      | Multipart (Some m) \<Rightarrow>
          (case mp_data m of
             [Some r] \<Rightarrow>
               (case mp_images m of
                  [f] \<Rightarrow> if mp_file_fields m \<noteq> 1 \<or> 8388608 < up_size f then None else Some (r, [f])
                | _ \<Rightarrow> None)
           | _ \<Rightarrow> None))"

definition api_CreateCategory :: "catalog_call \<Rightarrow> cat_create_req category_body \<Rightarrow> shop \<Rightarrow> cat reply \<times> shop" where
  "api_CreateCategory c body s =
     any_body (bindCategoryRequest body) s (\<lambda>(r, files). handled category_status 201
       (in_cats (CreateCategory (pe_unicode (cx_env c)) (pe_images (cx_env c)) (cx_fault c) (cx_id c 0) (cx_now c) r files) s))"

definition api_UpdateCategory ::
  "catalog_call \<Rightarrow> string \<Rightarrow> cat_update_req category_body \<Rightarrow> shop \<Rightarrow> cat reply \<times> shop" where
  "api_UpdateCategory c p body s =
     with_id p s (\<lambda>i. any_body (bindCategoryRequest body) s (\<lambda>(r, files). handled category_status 200
       (in_cats (UpdateCategory (pe_unicode (cx_env c)) (pe_images (cx_env c)) (cx_now c) i r files) s)))"

definition api_DeleteCategory :: "string \<Rightarrow> shop \<Rightarrow> unit reply \<times> shop" where
  "api_DeleteCategory p s = with_id p s (\<lambda>i. handled category_status 200 (in_cats (DeleteCategory i) s))"

definition api_GetProductCategories :: "prod_env \<Rightarrow> string \<Rightarrow> shop \<Rightarrow> cat list reply \<times> shop" where
  "api_GetProductCategories e p s = with_id p s (\<lambda>i. listed (GetProductCategories (pe_collate e) i (sh_cats s)) s)"

text \<open>Each category is linked by a statement of its own; whatever stops the loop is a server error.\<close>

definition api_AddProductCategory :: "string \<Rightarrow> id list option \<Rightarrow> shop \<Rightarrow> unit reply \<times> shop" where
  "api_AddProductCategory p body s =
     with_id p s (\<lambda>i. any_body body s (\<lambda>cs.
       case SetProductCategoriesRequest_Validate cs of
         Inl _ \<Rightarrow> ((400, None), s)
       | Inr cs' \<Rightarrow> answered 500 200 (in_cats (link_loop (has_product s) i cs') s)))"

definition api_RemoveProductCategory :: "string \<Rightarrow> string \<Rightarrow> shop \<Rightarrow> unit reply \<times> shop" where
  "api_RemoveProductCategory p pc s =
     with_id p s (\<lambda>i. with_id pc s (\<lambda>k. handled category_status 200 (in_cats (RemoveProductCategory i k) s)))"

section \<open>Brands, tags, attributes\<close>

definition api_ListBrands :: "prod_env \<Rightarrow> query \<Rightarrow> shop \<Rightarrow> brand list reply \<times> shop" where
  "api_ListBrands e q s = listed (ListBrands (pe_collate e) (flag q ''active_only'') (sh_meta s)) s"

definition api_GetBrand :: "string \<Rightarrow> shop \<Rightarrow> brand reply \<times> shop" where
  "api_GetBrand p s = with_id p s (\<lambda>i. handled meta_status 200 (GetBrandByID i (sh_meta s), s))"

definition api_CreateBrand :: "catalog_call \<Rightarrow> brand_create_req option \<Rightarrow> shop \<Rightarrow> brand reply \<times> shop" where
  "api_CreateBrand c body s =
     any_body body s (\<lambda>r. handled meta_status 201
       (in_meta (CreateBrand (pe_unicode (cx_env c)) (cx_id c 0) (cx_now c) r) s))"

definition api_UpdateBrand :: "catalog_call \<Rightarrow> string \<Rightarrow> brand_update_req option \<Rightarrow> shop \<Rightarrow> brand reply \<times> shop" where
  "api_UpdateBrand c p body s =
     with_id p s (\<lambda>i. any_body body s (\<lambda>r. handled meta_status 200 (in_meta (UpdateBrand (pe_unicode (cx_env c)) i r) s)))"

text \<open>A product that names the brand keeps it.\<close>

definition api_DeleteBrand :: "string \<Rightarrow> shop \<Rightarrow> unit reply \<times> shop" where
  "api_DeleteBrand p s =
     with_id p s (\<lambda>i. handled meta_status 200
       (in_meta (DeleteBrand (\<lambda>b. list_ex (\<lambda>r. p_brand r = Some b) (products s)) i) s))"

definition api_ListTags :: "prod_env \<Rightarrow> shop \<Rightarrow> tag list reply \<times> shop" where
  "api_ListTags e s = listed (ListTags (pe_collate e) (sh_meta s)) s"

definition api_GetTag :: "string \<Rightarrow> shop \<Rightarrow> tag reply \<times> shop" where
  "api_GetTag p s = with_id p s (\<lambda>i. handled meta_status 200 (GetTagByID i (sh_meta s), s))"

definition api_GetProductTags :: "prod_env \<Rightarrow> string \<Rightarrow> shop \<Rightarrow> tag list reply \<times> shop" where
  "api_GetProductTags e p s = with_id p s (\<lambda>i. listed (GetProductTags (pe_collate e) i (sh_meta s)) s)"

definition api_AddTagToProduct :: "catalog_call \<Rightarrow> string \<Rightarrow> string option \<Rightarrow> shop \<Rightarrow> tag reply \<times> shop" where
  "api_AddTagToProduct c p body s =
     with_id p s (\<lambda>i. any_body body s (\<lambda>n. handled meta_status 200
       (in_meta (AddTagToProduct (pe_unicode (cx_env c)) (cx_id c 0) (has_product s) i n) s)))"

definition api_RemoveTagFromProduct :: "string \<Rightarrow> string \<Rightarrow> shop \<Rightarrow> unit reply \<times> shop" where
  "api_RemoveTagFromProduct p pt s =
     with_id p s (\<lambda>i. with_id pt s (\<lambda>t. handled meta_status 200 (in_meta (RemoveTagFromProduct i t) s)))"

definition api_SetProductTags :: "catalog_call \<Rightarrow> string \<Rightarrow> string list option \<Rightarrow> shop \<Rightarrow> unit reply \<times> shop" where
  "api_SetProductTags c p body s =
     with_id p s (\<lambda>i. any_body body s (\<lambda>ns. handled meta_status 200
       (in_meta (SetProductTags (cx_fault c 0) (pe_unicode (cx_env c)) (cx_id c) (has_product s) i ns) s)))"

definition api_ListAttributes ::
  "prod_env \<Rightarrow> query \<Rightarrow> shop \<Rightarrow> (attr list + (attr \<times> attr_value list) list) reply \<times> shop" where
  "api_ListAttributes e q s =
     (if flag q ''with_values'' then listed (Inr (ListAttributesWithValues (pe_collate e) (sh_meta s))) s
      else listed (Inl (ListAttributes (pe_collate e) (sh_meta s))) s)"

definition api_GetAttribute :: "string \<Rightarrow> shop \<Rightarrow> attr reply \<times> shop" where
  "api_GetAttribute p s = with_id p s (\<lambda>i. handled meta_status 200 (GetAttributeByID i (sh_meta s), s))"

definition api_CreateAttribute :: "catalog_call \<Rightarrow> attr_create_req option \<Rightarrow> shop \<Rightarrow> attr reply \<times> shop" where
  "api_CreateAttribute c body s =
     any_body body s (\<lambda>r. handled meta_status 201 (in_meta (CreateAttribute (pe_unicode (cx_env c)) (cx_id c 0) r) s))"

definition api_UpdateAttribute :: "catalog_call \<Rightarrow> string \<Rightarrow> attr_update_req option \<Rightarrow> shop \<Rightarrow> attr reply \<times> shop" where
  "api_UpdateAttribute c p body s =
     with_id p s (\<lambda>i. any_body body s (\<lambda>r. handled meta_status 200 (in_meta (UpdateAttribute (pe_unicode (cx_env c)) i r) s)))"

definition api_DeleteAttribute :: "string \<Rightarrow> shop \<Rightarrow> unit reply \<times> shop" where
  "api_DeleteAttribute p s = with_id p s (\<lambda>i. handled meta_status 200 (in_meta (DeleteAttribute i) s))"

definition api_ListAttributeValues :: "prod_env \<Rightarrow> string \<Rightarrow> shop \<Rightarrow> attr_value list reply \<times> shop" where
  "api_ListAttributeValues e p s =
     with_id p s (\<lambda>i. handled meta_status 200 (ListAttributeValues (pe_collate e) i (sh_meta s), s))"

definition api_AddAttributeValue :: "catalog_call \<Rightarrow> string \<Rightarrow> string option \<Rightarrow> shop \<Rightarrow> attr_value reply \<times> shop" where
  "api_AddAttributeValue c p body s =
     with_id p s (\<lambda>i. any_body body s (\<lambda>v. handled meta_status 201 (in_meta (AddAttributeValue (cx_id c 0) i v) s)))"

text \<open>The path names the attribute too; only the value is read.\<close>

definition api_DeleteAttributeValue :: "string \<Rightarrow> string \<Rightarrow> shop \<Rightarrow> unit reply \<times> shop" where
  "api_DeleteAttributeValue p pv s = with_id pv s (\<lambda>i. handled meta_status 200 (in_meta (DeleteAttributeValue i) s))"

definition api_GetProductAttributeValues :: "prod_env \<Rightarrow> string \<Rightarrow> shop \<Rightarrow> attr_value list reply \<times> shop" where
  "api_GetProductAttributeValues e p s =
     with_id p s (\<lambda>i. listed (GetProductAttributeValues (pe_collate e) i (sh_meta s)) s)"

definition api_SetProductAttributeValues :: "catalog_call \<Rightarrow> string \<Rightarrow> id list option \<Rightarrow> shop \<Rightarrow> unit reply \<times> shop" where
  "api_SetProductAttributeValues c p body s =
     with_id p s (\<lambda>i. any_body body s (\<lambda>vs. handled meta_status 200
       (in_meta (SetProductAttributeValues (cx_fault c 0) (has_product s) i vs) s)))"

section \<open>Discounts\<close>

definition api_ListDiscounts :: "query \<Rightarrow> shop \<Rightarrow> disc list reply \<times> shop" where
  "api_ListDiscounts q s =
     listed (repo_ListDiscounts (flag q ''active_only'')
       (if Query q ''code'' = [] then None else Some (Query q ''code'')) (sh_discs s)) s"

definition api_GetDiscount :: "string \<Rightarrow> shop \<Rightarrow> (disc \<times> disc_target list) reply \<times> shop" where
  "api_GetDiscount p s = with_id p s (\<lambda>i. handled discount_status 200 (GetDiscountWithTargets i (sh_discs s), s))"

definition api_CreateDiscount ::
  "catalog_call \<Rightarrow> disc_create_req option \<Rightarrow> shop \<Rightarrow> (disc \<times> disc_target list) reply \<times> shop" where
  "api_CreateDiscount c body s =
     any_body body s (\<lambda>r. handled discount_status 201
       (in_discs (CreateDiscount (pe_disc (cx_env c)) (cx_fault c 0) (cx_id c 0) (cx_now c) r) s))"

definition api_UpdateDiscount :: "catalog_call \<Rightarrow> string \<Rightarrow> disc_update_req option \<Rightarrow> shop \<Rightarrow> disc reply \<times> shop" where
  "api_UpdateDiscount c p body s =
     with_id p s (\<lambda>i. any_body body s (\<lambda>r. handled discount_status 200
       (in_discs (UpdateDiscount (pe_disc (cx_env c)) i r) s)))"

definition api_SetDiscountTargets :: "catalog_call \<Rightarrow> string \<Rightarrow> (string \<times> id) list option \<Rightarrow> shop \<Rightarrow> unit reply \<times> shop" where
  "api_SetDiscountTargets c p body s =
     with_id p s (\<lambda>i. any_body body s (\<lambda>ts. handled discount_status 200
       (in_discs (SetDiscountTargets (cx_fault c 0) i ts) s)))"

definition api_DeleteDiscount :: "string \<Rightarrow> shop \<Rightarrow> unit reply \<times> shop" where
  "api_DeleteDiscount p s = with_id p s (\<lambda>i. handled discount_status 200 (in_discs (DeleteDiscount i) s))"

section \<open>Inventory\<close>

definition api_ListLocations :: "prod_env \<Rightarrow> query \<Rightarrow> shop \<Rightarrow> location list reply \<times> shop" where
  "api_ListLocations e q s = listed (repo_ListLocations (pe_collate e) (flag q ''active_only'') (sh_stock s)) s"

definition api_GetLocation :: "string \<Rightarrow> shop \<Rightarrow> location reply \<times> shop" where
  "api_GetLocation p s = with_id p s (\<lambda>i. handled inventory_status 200 (repo_GetLocationByID i (sh_stock s), s))"

definition api_CreateLocation :: "catalog_call \<Rightarrow> create_location_req option \<Rightarrow> shop \<Rightarrow> location reply \<times> shop" where
  "api_CreateLocation c body s =
     any_body body s (\<lambda>r. handled inventory_status 201 (in_stock (CreateLocation (cx_id c 0) r) s))"

definition api_UpdateLocation :: "string \<Rightarrow> update_location_req option \<Rightarrow> shop \<Rightarrow> location reply \<times> shop" where
  "api_UpdateLocation p body s =
     with_id p s (\<lambda>i. any_body body s (\<lambda>r. handled inventory_status 200 (in_stock (UpdateLocation i r) s)))"

definition api_DeleteLocation :: "string \<Rightarrow> shop \<Rightarrow> unit reply \<times> shop" where
  "api_DeleteLocation p s = with_id p s (\<lambda>i. handled inventory_status 200 (in_stock (DeleteLocation i) s))"

definition api_UpsertInventoryItem :: "catalog_call \<Rightarrow> upsert_item_req option \<Rightarrow> shop \<Rightarrow> item reply \<times> shop" where
  "api_UpsertInventoryItem c body s =
     any_body body s (\<lambda>r. handled inventory_status 200
       (in_stock (UpsertInventoryItem (cx_fault c 0) (cx_id c 0) (cx_now c) (has_variant s) r) s))"

definition api_GetInventoryByVariant :: "prod_env \<Rightarrow> string \<Rightarrow> shop \<Rightarrow> (item \<times> string \<times> string option) list reply \<times> shop" where
  "api_GetInventoryByVariant e p s =
     with_id p s (\<lambda>v. listed (repo_GetItemsByVariant (pe_collate e) v (sh_stock s)) s)"

definition api_GetStockSummary :: "string \<Rightarrow> shop \<Rightarrow> stock_summary reply \<times> shop" where
  "api_GetStockSummary p s = with_id p s (\<lambda>v. listed (repo_GetStockSummary v (sh_stock s)) s)"

definition api_AdjustAvailableStock :: "catalog_call \<Rightarrow> string \<Rightarrow> string \<Rightarrow> int option \<Rightarrow> shop \<Rightarrow> unit reply \<times> shop" where
  "api_AdjustAvailableStock c pv pl body s =
     with_id pv s (\<lambda>v. with_id pl s (\<lambda>l. any_body body s (\<lambda>\<delta>. handled inventory_status 200
       (in_stock (AdjustAvailableStock (cx_fault c 0) (cx_now c) v l \<delta>) s))))"

definition api_ReserveStock :: "catalog_call \<Rightarrow> string \<Rightarrow> string \<Rightarrow> query \<Rightarrow> shop \<Rightarrow> unit reply \<times> shop" where
  "api_ReserveStock c pv pl q s =
     with_id pv s (\<lambda>v. with_id pl s (\<lambda>l. with_id (Query q ''qty'') s (\<lambda>n. handled inventory_status 200
       (in_stock (ReserveStock (cx_fault c 0) (cx_now c) v l n) s))))"

definition api_ReleaseStock :: "catalog_call \<Rightarrow> string \<Rightarrow> string \<Rightarrow> query \<Rightarrow> shop \<Rightarrow> unit reply \<times> shop" where
  "api_ReleaseStock c pv pl q s =
     with_id pv s (\<lambda>v. with_id pl s (\<lambda>l. with_id (Query q ''qty'') s (\<lambda>n. handled inventory_status 200
       (in_stock (ReleaseStock (cx_fault c 0) (cx_now c) v l n) s))))"

definition api_DeleteInventoryItem :: "string \<Rightarrow> string \<Rightarrow> shop \<Rightarrow> unit reply \<times> shop" where
  "api_DeleteInventoryItem pv pl s =
     with_id pv s (\<lambda>v. with_id pl s (\<lambda>l. handled inventory_status 200 (in_stock (DeleteInventoryItem v l) s)))"

section \<open>Products\<close>

text \<open>The form of a new product: the text of its field \<open>data\<close>, what JSON decoding makes of it, whether the body is
  a multipart form, and its files \<open>images\<close>. \<open>me\<close> is the identity of the caller, without which the handler panics.\<close>

record product_form =
  pf_data :: string
  pf_req :: "product_create_req option"
  pf_multipart :: bool
  pf_images :: "upload list"

definition parseImageFiles :: "product_form \<Rightarrow> upload list option" where
  "parseImageFiles f = (if \<not> pf_multipart f \<or> pf_images f = [] then None else Some (pf_images f))"

record creation =
  cn_ids :: new_ids
  cn_retry_ids :: new_ids
  cn_clock :: call_clock
  cn_sched :: "nat list"

definition api_CreateProduct ::
  "catalog_call \<Rightarrow> creation \<Rightarrow> id option \<Rightarrow> product_form \<Rightarrow> shop \<Rightarrow> product reply \<times> shop" where
  "api_CreateProduct c k me f s =
     (if pf_data f = [] then ((400, None), s)
      else any_body (pf_req f) s (\<lambda>r. any_body (parseImageFiles f) s (\<lambda>files.
        case me of
          None \<Rightarrow> ((500, None), s)
        | Some u \<Rightarrow> handled catalog_status 201
            (CreateProduct (cx_env c) (cx_fault c 0, cx_fault c 1, cx_fault c 2) (cn_ids k) (cn_retry_ids k) (cn_clock k)
              (cn_sched k) r files u s))))"

definition api_GetProduct :: "prod_env \<Rightarrow> string \<Rightarrow> query \<Rightarrow> shop \<Rightarrow> product_detail reply \<times> shop" where
  "api_GetProduct e p q s =
     with_id p s (\<lambda>i. handled catalog_status 200 (GetProductDetail e i (flag q ''load_related'') s, s))"

definition GetProductBySlug :: "prod_env \<Rightarrow> string \<Rightarrow> shop \<Rightarrow> prod_error + product_detail" where
  "GetProductBySlug e slug s =
     (case scanProductOne (\<lambda>p. p_slug p = slug) s of Inl err \<Rightarrow> Inl err | Inr p \<Rightarrow> Inr (buildDetail e p True s))"

definition api_GetProductBySlug :: "prod_env \<Rightarrow> string \<Rightarrow> shop \<Rightarrow> product_detail reply \<times> shop" where
  "api_GetProductBySlug e slug s = handled catalog_status 200 (GetProductBySlug e slug s, s)"

text \<open>A list of numbers separated by commas; blanks are skipped, and so are numbers that are not positive.\<close>

fun csv_numbers :: "string list \<Rightarrow> int list option" where
  "csv_numbers [] = Some []"
| "csv_numbers (p # ps) =
     (if trim_space p = [] then csv_numbers ps
      else case ParseInt (trim_space p) of
        None \<Rightarrow> None
      | Some v \<Rightarrow> map_option (\<lambda>out. if v \<le> 0 then out else v # out) (csv_numbers ps))"

definition csv_ids :: "string \<Rightarrow> int list" where
  "csv_ids s = (case csv_numbers (split_on (CHR '','') [] s) of None \<Rightarrow> [] | Some is \<Rightarrow> is)"

definition mapFeedToSort :: "string \<Rightarrow> string" where
  "mapFeedToSort f =
     (if f = ''trending'' then ''trending'' else if f = ''best_sellers'' then ''best_sellers''
      else if f = ''new_arrivals'' then ''new_arrivals'' else if f = ''highly_rated'' then ''rating'' else ''new_arrivals'')"

text \<open>A filter that is absent or does not parse is no filter. \<open>pf\<close> is \<open>strconv.ParseFloat\<close>.\<close>

definition read_catalog_filter :: "(string \<Rightarrow> f64 option) \<Rightarrow> query \<Rightarrow> catalog_filter" where
  "read_catalog_filter pf q =
     (let text = (\<lambda>k. if Query q k = [] then None else Some (Query q k)) in
      \<lparr>kf_status = text ''status'', kf_brand = ParseInt (Query q ''brand_id''), kf_brands = csv_ids (Query q ''brand_ids''),
       kf_category = ParseInt (Query q ''category_id''), kf_featured = ParseBool (Query q ''is_featured''),
       kf_search = text ''q'', kf_price_min = Option.bind (text ''price_min'') pf,
       kf_price_max = Option.bind (text ''price_max'') pf, kf_min_rating = Option.bind (text ''min_rating'') pf,
       kf_discount_only = (ParseBool (Query q ''discount_only'') = Some True),
       kf_in_stock = (ParseBool (Query q ''in_stock_only'') = Some True), kf_tags = csv_ids (Query q ''tag_ids'')\<rparr>)"

definition read_catalog_sort :: "query \<Rightarrow> string" where
  "read_catalog_sort q =
     (if Query q ''feed_type'' \<noteq> [] then mapFeedToSort (Query q ''feed_type'') else DefaultQuery q ''sort'' ''new_arrivals'')"

definition read_page :: "query \<Rightarrow> int" where
  "read_page q = (case ParseInt (DefaultQuery q ''page'' ''1'') of None \<Rightarrow> 1 | Some n \<Rightarrow> if n < 1 then 1 else n)"

definition read_page_size :: "query \<Rightarrow> int" where
  "read_page_size q = (case ParseInt (DefaultQuery q ''page_size'' ''20'') of None \<Rightarrow> 20 | Some n \<Rightarrow> if n \<le> 0 then 20 else n)"

text \<open>The errors of the listing are values of their own, which \<open>handleError\<close> does not name. The reply repeats page and
  size as the handler read them.\<close>

record catalog_page =
  pg_items :: "card list"
  pg_total :: int
  pg_page :: int
  pg_size :: int
  pg_sort :: string

definition api_ListProducts ::
  "feed_env \<Rightarrow> (string \<Rightarrow> f64 option) \<Rightarrow> instant \<Rightarrow> query \<Rightarrow> shop \<Rightarrow> catalog_page reply \<times> shop" where
  "api_ListProducts e pf now q s =
     answered 500 200
       (map_sum id (\<lambda>(items, n). \<lparr>pg_items = items, pg_total = n, pg_page = read_page q, pg_size = read_page_size q,
                                 pg_sort = read_catalog_sort q\<rparr>)
         (ListProducts e now \<lparr>kr_page = read_page q, kr_size = read_page_size q, kr_filter = read_catalog_filter pf q\<rparr>
           (read_catalog_sort q) s), s)"

definition api_UpdateProduct :: "catalog_call \<Rightarrow> string \<Rightarrow> product_update_req option \<Rightarrow> shop \<Rightarrow> product reply \<times> shop" where
  "api_UpdateProduct c p body s =
     with_id p s (\<lambda>i. any_body body s (\<lambda>r. handled catalog_status 200 (UpdateProduct (cx_env c) (cx_now c) i r s)))"

definition api_DeleteProduct :: "catalog_call \<Rightarrow> string \<Rightarrow> shop \<Rightarrow> unit reply \<times> shop" where
  "api_DeleteProduct c p s = with_id p s (\<lambda>i. handled catalog_status 200 (DeleteProduct (cx_env c) i s))"

text \<open>\<open>strconv.Atoi\<close> with its error ignored: 0 for text that is no number, the nearest bound for one out of range.\<close>

fun scan_uint :: "int \<Rightarrow> string \<Rightarrow> int option" where
  "scan_uint n [] = Some n"
| "scan_uint n (c # cs) =
     (case digit_value c of
        None \<Rightarrow> None
      | Some v \<Rightarrow> if 2 ^ 64 \<le> 10 * n + v then Some (2 ^ 64) else scan_uint (10 * n + v) cs)"

definition atoi_value :: "string \<Rightarrow> int" where
  "atoi_value s =
     (let neg = (s \<noteq> [] \<and> hd s = CHR ''-''); body = (if s \<noteq> [] \<and> (hd s = CHR ''-'' \<or> hd s = CHR ''+'') then tl s else s)
      in if body = [] then 0
         else case scan_uint 0 body of None \<Rightarrow> 0 | Some n \<Rightarrow> if neg then max (- (2 ^ 63)) (- n) else min (2 ^ 63 - 1) n)"

text \<open>\<open>form\<close> gives the values of the fields, \<open>file\<close> is the one named \<open>image\<close>.\<close>

definition api_AddProductImage ::
  "catalog_call \<Rightarrow> string \<Rightarrow> query \<Rightarrow> upload option \<Rightarrow> shop \<Rightarrow> image reply \<times> shop" where
  "api_AddProductImage c p form file s =
     with_id p s (\<lambda>i. any_body file s (\<lambda>f. handled catalog_status 201
       (AddProductImage (cx_env c) (cx_id c 0) (cx_now c) i f (flag form ''is_primary'')
         (atoi_value (DefaultQuery form ''sort_order'' ''0'')) s)))"

text \<open>The path names the product too; only the image is read.\<close>

definition api_DeleteProductImage :: "string \<Rightarrow> string \<Rightarrow> shop \<Rightarrow> unit reply \<times> shop" where
  "api_DeleteProductImage p pim s = with_id pim s (\<lambda>i. handled catalog_status 200 (DeleteProductImage i s))"

text \<open>The path names the image too; the handler takes it from the body.\<close>

definition api_SetPrimaryImage :: "catalog_call \<Rightarrow> string \<Rightarrow> string \<Rightarrow> id option \<Rightarrow> shop \<Rightarrow> unit reply \<times> shop" where
  "api_SetPrimaryImage c p pim body s =
     with_id p s (\<lambda>i. any_body body s (\<lambda>im. handled catalog_status 200 (SetPrimaryImage (cx_fault c 0) i im s)))"

definition api_GetProductImages :: "string \<Rightarrow> shop \<Rightarrow> image list reply \<times> shop" where
  "api_GetProductImages p s = with_id p s (\<lambda>i. listed (GetProductImages i s) s)"

section \<open>Variants\<close>

definition api_ListVariantsByProduct :: "string \<Rightarrow> query \<Rightarrow> shop \<Rightarrow> variant list reply \<times> shop" where
  "api_ListVariantsByProduct p q s = with_id p s (\<lambda>i. listed (ListVariantsByProduct i (flag q ''active_only'') s) s)"

text \<open>The routes of one variant name its product too; only the variant is read.\<close>

definition api_GetVariant :: "string \<Rightarrow> string \<Rightarrow> shop \<Rightarrow> variant reply \<times> shop" where
  "api_GetVariant p pv s = with_id pv s (\<lambda>v. handled catalog_status 200 (GetVariantByID v s, s))"

definition api_CreateVariant :: "catalog_call \<Rightarrow> string \<Rightarrow> variant_create_req option \<Rightarrow> shop \<Rightarrow> variant reply \<times> shop" where
  "api_CreateVariant c p body s =
     with_id p s (\<lambda>i. any_body body s (\<lambda>r. handled catalog_status 201
       (CreateVariant (cx_env c) (cx_fault c 0) (cx_fault c 1) (cx_id c 0) (cx_now c) i r s)))"

definition api_UpdateVariant ::
  "catalog_call \<Rightarrow> string \<Rightarrow> string \<Rightarrow> variant_update_req option \<Rightarrow> shop \<Rightarrow> variant reply \<times> shop" where
  "api_UpdateVariant c p pv body s =
     with_id pv s (\<lambda>v. any_body body s (\<lambda>r. handled catalog_status 200 (UpdateVariant (cx_env c) v r s)))"

definition api_DeleteVariant :: "catalog_call \<Rightarrow> string \<Rightarrow> string \<Rightarrow> shop \<Rightarrow> unit reply \<times> shop" where
  "api_DeleteVariant c p pv s = with_id pv s (\<lambda>v. handled catalog_status 200 (DeleteVariant (cx_env c) v s))"

definition api_GetVariantAttributeValues :: "string \<Rightarrow> string \<Rightarrow> shop \<Rightarrow> id list reply \<times> shop" where
  "api_GetVariantAttributeValues p pv s = with_id pv s (\<lambda>v. handled catalog_status 200 (GetVariantAttributeValues v s, s))"

definition api_SetVariantAttributeValues ::
  "catalog_call \<Rightarrow> string \<Rightarrow> string \<Rightarrow> id list option \<Rightarrow> shop \<Rightarrow> unit reply \<times> shop" where
  "api_SetVariantAttributeValues c p pv body s =
     with_id pv s (\<lambda>v. any_body body s (\<lambda>vs. handled catalog_status 200
       (SetVariantAttributeValues (cx_fault c 0) v vs s)))"

end
