(* ===== verification/Catalog_Api.thy ===== *)
theory Catalog_Api
  imports Catalog_Handlers Product_Results Router
begin

text \<open>
  What the handlers of \<^theory_text>\<open>Catalog_Handlers\<close> promise to a client: the requests of the administration as a
  relation between states, what a refused request leaves behind, and the stock routes on every branch.
\<close>

section \<open>Requests\<close>

text \<open>\<open>api_call h st s s'\<close>: the handler \<open>h\<close> answers some request with status \<open>st\<close> and takes the shop from \<open>s\<close> to \<open>s'\<close>.
  The rules are the handlers that can write.\<close>

inductive api_call :: "string \<Rightarrow> nat \<Rightarrow> shop \<Rightarrow> shop \<Rightarrow> bool" where
  CreateCategory: "api_CreateCategory c body s = ((st, out), s') \<Longrightarrow> api_call ''CreateCategory'' st s s'"
| UpdateCategory: "api_UpdateCategory c p body s = ((st, out), s') \<Longrightarrow> api_call ''UpdateCategory'' st s s'"
| DeleteCategory: "api_DeleteCategory p s = ((st, out), s') \<Longrightarrow> api_call ''DeleteCategory'' st s s'"
| AddProductCategory: "api_AddProductCategory p body s = ((st, out), s') \<Longrightarrow> api_call ''AddProductCategory'' st s s'"
| RemoveProductCategory: "api_RemoveProductCategory p pc s = ((st, out), s') \<Longrightarrow> api_call ''RemoveProductCategory'' st s s'"
| CreateBrand: "api_CreateBrand c body s = ((st, out), s') \<Longrightarrow> api_call ''CreateBrand'' st s s'"
| UpdateBrand: "api_UpdateBrand c p body s = ((st, out), s') \<Longrightarrow> api_call ''UpdateBrand'' st s s'"
| DeleteBrand: "api_DeleteBrand p s = ((st, out), s') \<Longrightarrow> api_call ''DeleteBrand'' st s s'"
| AddTagToProduct: "api_AddTagToProduct c p body s = ((st, out), s') \<Longrightarrow> api_call ''AddTagToProduct'' st s s'"
| RemoveTagFromProduct: "api_RemoveTagFromProduct p pt s = ((st, out), s') \<Longrightarrow> api_call ''RemoveTagFromProduct'' st s s'"
| SetProductTags: "api_SetProductTags c p body s = ((st, out), s') \<Longrightarrow> api_call ''SetProductTags'' st s s'"
| CreateAttribute: "api_CreateAttribute c body s = ((st, out), s') \<Longrightarrow> api_call ''CreateAttribute'' st s s'"
| UpdateAttribute: "api_UpdateAttribute c p body s = ((st, out), s') \<Longrightarrow> api_call ''UpdateAttribute'' st s s'"
| DeleteAttribute: "api_DeleteAttribute p s = ((st, out), s') \<Longrightarrow> api_call ''DeleteAttribute'' st s s'"
| AddAttributeValue: "api_AddAttributeValue c p body s = ((st, out), s') \<Longrightarrow> api_call ''AddAttributeValue'' st s s'"
| DeleteAttributeValue: "api_DeleteAttributeValue p pv s = ((st, out), s') \<Longrightarrow> api_call ''DeleteAttributeValue'' st s s'"
| SetProductAttributeValues: "api_SetProductAttributeValues c p body s = ((st, out), s') \<Longrightarrow> api_call ''SetProductAttributeValues'' st s s'"
| CreateDiscount: "api_CreateDiscount c body s = ((st, out), s') \<Longrightarrow> api_call ''CreateDiscount'' st s s'"
| UpdateDiscount: "api_UpdateDiscount c p body s = ((st, out), s') \<Longrightarrow> api_call ''UpdateDiscount'' st s s'"
| SetDiscountTargets: "api_SetDiscountTargets c p body s = ((st, out), s') \<Longrightarrow> api_call ''SetDiscountTargets'' st s s'"
| DeleteDiscount: "api_DeleteDiscount p s = ((st, out), s') \<Longrightarrow> api_call ''DeleteDiscount'' st s s'"
| CreateLocation: "api_CreateLocation c body s = ((st, out), s') \<Longrightarrow> api_call ''CreateLocation'' st s s'"
| UpdateLocation: "api_UpdateLocation p body s = ((st, out), s') \<Longrightarrow> api_call ''UpdateLocation'' st s s'"
| DeleteLocation: "api_DeleteLocation p s = ((st, out), s') \<Longrightarrow> api_call ''DeleteLocation'' st s s'"
| UpsertInventoryItem: "api_UpsertInventoryItem c body s = ((st, out), s') \<Longrightarrow> api_call ''UpsertInventoryItem'' st s s'"
| AdjustAvailableStock: "api_AdjustAvailableStock c pv pl body s = ((st, out), s') \<Longrightarrow> api_call ''AdjustAvailableStock'' st s s'"
| ReserveStock: "api_ReserveStock c pv pl q s = ((st, out), s') \<Longrightarrow> api_call ''ReserveStock'' st s s'"
| ReleaseStock: "api_ReleaseStock c pv pl q s = ((st, out), s') \<Longrightarrow> api_call ''ReleaseStock'' st s s'"
| DeleteInventoryItem: "api_DeleteInventoryItem pv pl s = ((st, out), s') \<Longrightarrow> api_call ''DeleteInventoryItem'' st s s'"
| CreateProduct: "api_CreateProduct c k me f s = ((st, out), s') \<Longrightarrow> api_call ''CreateProduct'' st s s'"
| UpdateProduct: "api_UpdateProduct c p body s = ((st, out), s') \<Longrightarrow> api_call ''UpdateProduct'' st s s'"
| DeleteProduct: "api_DeleteProduct c p s = ((st, out), s') \<Longrightarrow> api_call ''DeleteProduct'' st s s'"
| AddProductImage: "api_AddProductImage c p form file s = ((st, out), s') \<Longrightarrow> api_call ''AddProductImage'' st s s'"
| DeleteProductImage: "api_DeleteProductImage p pim s = ((st, out), s') \<Longrightarrow> api_call ''DeleteProductImage'' st s s'"
| SetPrimaryImage: "api_SetPrimaryImage c p pim body s = ((st, out), s') \<Longrightarrow> api_call ''SetPrimaryImage'' st s s'"
| CreateVariant: "api_CreateVariant c p body s = ((st, out), s') \<Longrightarrow> api_call ''CreateVariant'' st s s'"
| UpdateVariant: "api_UpdateVariant c p pv body s = ((st, out), s') \<Longrightarrow> api_call ''UpdateVariant'' st s s'"
| DeleteVariant: "api_DeleteVariant c p pv s = ((st, out), s') \<Longrightarrow> api_call ''DeleteVariant'' st s s'"
| SetVariantAttributeValues: "api_SetVariantAttributeValues c p pv body s = ((st, out), s') \<Longrightarrow> api_call ''SetVariantAttributeValues'' st s s'"

text \<open>They are the handlers of the writing routes below \<open>/api/v1/admin/catalog\<close>.\<close>

definition catalog_writers :: "string list" where
  "catalog_writers = map rt_handler (filter (\<lambda>t. changes_state (rt_verb t)) adminCatalog_routes)"

lemma writers:
  "''CreateCategory'' \<in> set catalog_writers"
  "''UpdateCategory'' \<in> set catalog_writers"
  "''DeleteCategory'' \<in> set catalog_writers"
  "''AddProductCategory'' \<in> set catalog_writers"
  "''RemoveProductCategory'' \<in> set catalog_writers"
  "''CreateBrand'' \<in> set catalog_writers"
  "''UpdateBrand'' \<in> set catalog_writers"
  "''DeleteBrand'' \<in> set catalog_writers"
  "''AddTagToProduct'' \<in> set catalog_writers"
  "''RemoveTagFromProduct'' \<in> set catalog_writers"
  "''SetProductTags'' \<in> set catalog_writers"
  "''CreateAttribute'' \<in> set catalog_writers"
  "''UpdateAttribute'' \<in> set catalog_writers"
  "''DeleteAttribute'' \<in> set catalog_writers"
  "''AddAttributeValue'' \<in> set catalog_writers"
  "''DeleteAttributeValue'' \<in> set catalog_writers"
  "''SetProductAttributeValues'' \<in> set catalog_writers"
  "''CreateDiscount'' \<in> set catalog_writers"
  "''UpdateDiscount'' \<in> set catalog_writers"
  "''SetDiscountTargets'' \<in> set catalog_writers"
  "''DeleteDiscount'' \<in> set catalog_writers"
  "''CreateLocation'' \<in> set catalog_writers"
  "''UpdateLocation'' \<in> set catalog_writers"
  "''DeleteLocation'' \<in> set catalog_writers"
  "''UpsertInventoryItem'' \<in> set catalog_writers"
  "''AdjustAvailableStock'' \<in> set catalog_writers"
  "''ReserveStock'' \<in> set catalog_writers"
  "''ReleaseStock'' \<in> set catalog_writers"
  "''DeleteInventoryItem'' \<in> set catalog_writers"
  "''CreateProduct'' \<in> set catalog_writers"
  "''UpdateProduct'' \<in> set catalog_writers"
  "''DeleteProduct'' \<in> set catalog_writers"
  "''AddProductImage'' \<in> set catalog_writers"
  "''DeleteProductImage'' \<in> set catalog_writers"
  "''SetPrimaryImage'' \<in> set catalog_writers"
  "''CreateVariant'' \<in> set catalog_writers"
  "''UpdateVariant'' \<in> set catalog_writers"
  "''DeleteVariant'' \<in> set catalog_writers"
  "''SetVariantAttributeValues'' \<in> set catalog_writers"
  by code_simp+

lemma api_call_routed: "api_call h st s s' \<Longrightarrow> h \<in> set catalog_writers"
  by (induction rule: api_call.induct) (rule writers)+

section \<open>Refusals\<close>

text \<open>\<open>clean Q s x\<close>: if the reply \<open>x\<close> is an error, the state it comes with is related to \<open>s\<close> by \<open>Q\<close>.\<close>

definition clean :: "(shop \<Rightarrow> shop \<Rightarrow> bool) \<Rightarrow> shop \<Rightarrow> 'a reply \<times> shop \<Rightarrow> bool" where
  "clean Q s x \<longleftrightarrow> (400 \<le> fst (fst x) \<longrightarrow> Q s (snd x))"

named_theorems refusal "errors that leave the state alone"

lemma clean_with_id [refusal]: "(\<And>i. clean Q s (h i)) \<Longrightarrow> Q s s \<Longrightarrow> clean Q s (with_id p s h)"
  by (simp add: with_id_def clean_def split: option.split)

lemma clean_bound [refusal]: "(\<And>b. clean Q s (h b)) \<Longrightarrow> Q s s \<Longrightarrow> clean Q s (bound ok body s h)"
  by (simp add: bound_def clean_def split: option.split)

lemma clean_handled:
  "good < 400 \<Longrightarrow> (\<And>e s'. rs = (Inl e, s') \<Longrightarrow> Q s s') \<Longrightarrow> clean Q s (handled bad good rs)"
  by (cases rs; cases "fst rs") (auto simp: handled_def clean_def)

lemma clean_call: "clean Q s x \<Longrightarrow> x = ((st, out), s') \<Longrightarrow> 400 \<le> st \<Longrightarrow> Q s s'"
  by (simp add: clean_def)

text \<open>A service call on a part of the state that leaves the part alone when it fails.\<close>

definition tidy :: "('d \<Rightarrow> ('e + 'a) \<times> 'd) \<Rightarrow> bool" where
  "tidy f \<longleftrightarrow> (\<forall>d e d'. f d = (Inl e, d') \<longrightarrow> d' = d)"

lemma tidyD: "tidy f \<Longrightarrow> f d = (Inl e, d') \<Longrightarrow> d' = d"
  by (simp add: tidy_def)

lemma clean_part [refusal]:
  "tidy f1 \<Longrightarrow> good < 400 \<Longrightarrow> clean (\<lambda>a b. b = a) s (handled bad1 good (in_cats f1 s))"
  "tidy f2 \<Longrightarrow> good < 400 \<Longrightarrow> clean (\<lambda>a b. b = a) s (handled bad2 good (in_meta f2 s))"
  "tidy f3 \<Longrightarrow> good < 400 \<Longrightarrow> clean (\<lambda>a b. b = a) s (handled bad3 good (in_stock f3 s))"
  "tidy f4 \<Longrightarrow> good < 400 \<Longrightarrow> clean (\<lambda>a b. b = a) s (handled bad4 good (in_discs f4 s))"
  by (auto simp: clean_def handled_def in_cats_def in_meta_def in_stock_def in_discs_def split: prod.splits sum.splits dest!: tidyD)

text \<open>What a failing request may leave behind, by handler.\<close>

definition left_behind :: "string \<Rightarrow> shop \<Rightarrow> shop \<Rightarrow> bool" where
  "left_behind h s s' \<longleftrightarrow>
     (if h = ''CreateProduct'' then s' = s\<lparr>saved_files := saved_files s', sh_discs := sh_discs s'\<rparr>
      else if h = ''AddProductImage'' then s' = s\<lparr>saved_files := saved_files s'\<rparr>
      else if h = ''CreateVariant'' then s' = s\<lparr>variants := variants s'\<rparr>
      else if h = ''AddTagToProduct'' then s' = s\<lparr>sh_meta := (sh_meta s)\<lparr>tags := tags (sh_meta s')\<rparr>\<rparr>
      else if h = ''AddProductCategory'' then s' = s\<lparr>sh_cats := (sh_cats s)\<lparr>links := links (sh_cats s')\<rparr>\<rparr>
      else if h = ''CreateCategory'' \<or> h = ''UpdateCategory''
        then s' = s\<lparr>sh_cats := (sh_cats s)\<lparr>cat_uploads := cat_uploads (sh_cats s')\<rparr>\<rparr>
      else s' = s)"

lemma left_nothing: "left_behind h s s"
  by (simp add: left_behind_def)

section \<open>The service calls are tidy\<close>

lemma tidy_stock [refusal]:
  "tidy (CreateLocation nid r1)" "tidy (UpdateLocation i r2)" "tidy (DeleteLocation i)"
  "tidy (UpsertInventoryItem flt nid now vx r3)" "tidy (AdjustAvailableStock flt now v l n)"
  "tidy (ReserveStock flt now v l n)" "tidy (ReleaseStock flt now v l n)" "tidy (DeleteInventoryItem v l)"
  by (auto simp: tidy_def CreateLocation_def repo_CreateLocation_def UpdateLocation_def repo_UpdateLocation_def DeleteLocation_def
      repo_DeleteLocation_def UpsertInventoryItem_def repo_UpsertItem_def AdjustAvailableStock_def repo_AdjustAvailable_def
      ReserveStock_def repo_Reserve_def ReleaseStock_def repo_Release_def DeleteInventoryItem_def repo_DeleteItem_def Let_def
      split: sum.splits if_splits prod.splits dest: run_tx_error)

lemma tidy_discs [refusal]:
  "tidy (CreateDiscount e flt nid now r1)" "tidy (UpdateDiscount e i r2)" "tidy (SetDiscountTargets flt i ts)" "tidy (DeleteDiscount i)"
  by (auto simp: tidy_def CreateDiscount_def repo_CreateDiscount_def UpdateDiscount_def repo_UpdateDiscount_def SetDiscountTargets_def
      SetTargets_def DeleteDiscount_def repo_DeleteDiscount_def
      split: sum.splits if_splits prod.splits option.splits dest: run_tx_error)

lemma tidy_cats [refusal]: "tidy (DeleteCategory i)" "tidy (RemoveProductCategory p k)"
  by (auto simp: tidy_def DeleteCategory_def repo_DeleteCategory_def RemoveProductCategory_def split: if_splits)

lemma retry_errors:
  "createBrandWithSlugRetry nid now b base d = (Inl e, d') \<Longrightarrow> d' = d"
  "updateBrandWithSlugRetry u b d = (Inl e, d') \<Longrightarrow> d' = d"
  "createAttributeWithSlugRetry nid a base d = (Inl e, d') \<Longrightarrow> d' = d"
  "updateAttributeWithSlugRetry u a d = (Inl e, d') \<Longrightarrow> d' = d"
  unfolding createBrandWithSlugRetry_def updateBrandWithSlugRetry_def createAttributeWithSlugRetry_def updateAttributeWithSlugRetry_def
  by (erule new_brand.loop_error [OF order_refl] renamed_brand.loop_error [OF order_refl]
      new_attr.loop_error [OF order_refl] renamed_attr.loop_error [OF order_refl])+

lemma update_errors:
  "repo_UpdateBrand b d = (Inl e, d') \<Longrightarrow> d' = d" "repo_UpdateAttribute a d = (Inl e, d') \<Longrightarrow> d' = d"
  by (auto simp: repo_UpdateBrand_def repo_UpdateAttribute_def split: if_splits)

lemma tidy_brands [refusal]: "tidy (CreateBrand u nid now r1)" "tidy (UpdateBrand u i r2)" "tidy (DeleteBrand used i)"
  by (auto simp: tidy_def CreateBrand_def UpdateBrand_def DeleteBrand_def Let_def
      split: sum.splits if_splits dest: retry_errors update_errors)

lemma tidy_attrs [refusal]:
  "tidy (CreateAttribute u nid r1)" "tidy (UpdateAttribute u i r2)" "tidy (DeleteAttribute i)" "tidy (AddAttributeValue nid i v)"
  "tidy (DeleteAttributeValue i)" "tidy (SetProductAttributeValues flt px p vs)"
  by (auto simp: tidy_def CreateAttribute_def UpdateAttribute_def DeleteAttribute_def AddAttributeValue_def
      repo_CreateAttributeValue_def DeleteAttributeValue_def SetProductAttributeValues_def Let_def
      split: sum.splits if_splits option.splits dest: retry_errors update_errors run_tx_error)

lemma tidy_tags [refusal]: "tidy (RemoveTagFromProduct p t)" "tidy (SetProductTags flt u nid px p ns)"
  by (auto simp: tidy_def RemoveTagFromProduct_def SetProductTags_def repo_SetProductTags_def split: if_splits dest: run_tx_error)

lemma tidy_products [refusal]:
  "tidy (UpdateProduct e now i r1)" "tidy (DeleteProduct e i)" "tidy (DeleteProductImage k)" "tidy (SetPrimaryImage flt p k)"
  "tidy (UpdateVariant e v r2)" "tidy (DeleteVariant e v)" "tidy (SetVariantAttributeValues flt v vs)"
  by (auto simp: tidy_def UpdateProduct_def repo_UpdateProduct_def DeleteProduct_def DeleteProductImage_def SetPrimaryImage_def
      UpdateVariant_def repo_UpdateVariant_def DeleteVariant_def SetVariantAttributeValues_def repo_SetVariantAttributeValues_def Let_def
      split: sum.splits if_splits option.splits dest: run_tx_error)

section \<open>The exceptions\<close>

lemma CreateCategory_left:
  assumes "CreateCategory u e flt nid now r files d = (Inl er, d')" shows "d' = d\<lparr>cat_uploads := cat_uploads d'\<rparr>"
  using assms
proof (cases rule: CreateCategory_cases)
  case (called h url base c)
  then show ?thesis by (cases rule: with_upload_cases) (auto dest!: create_retry_error)
qed simp

lemma UpdateCategory_left:
  assumes "UpdateCategory u e now i r files d = (Inl er, d')" shows "d' = d\<lparr>cat_uploads := cat_uploads d'\<rparr>"
  using assms
proof (cases rule: UpdateCategory_cases)
  case (called h url c ren)
  then show ?thesis
    by (cases rule: with_upload_cases)
      (auto split: if_splits prod.splits sum.splits dest!: update_retry_error repo_UpdateCategory_error)
qed simp

lemma link_loop_left: "link_loop px p cs d = (r, d') \<Longrightarrow> d' = d\<lparr>links := links d'\<rparr>"
proof (induction cs arbitrary: d)
  case (Cons c cs)
  obtain r1 d1 where 1: "AddProductCategory px p c d = (r1, d1)" by fastforce
  then have "d1 = d\<lparr>links := links d1\<rparr>" by (auto simp: AddProductCategory_def split: if_splits)
  then show ?case using Cons 1 by (cases r1) (auto, metis cat_db.surjective cat_db.update_convs(3))
qed simp

lemma FindOrCreateByName_left: "FindOrCreateByName u nid n d = (r, d') \<Longrightarrow> d' = d\<lparr>tags := tags d'\<rparr>"
  by (auto simp: FindOrCreateByName_def FindOrCreateTagTx_def Let_def split: sum.splits option.splits if_splits prod.splits)

lemma AddTagToProduct_left:
  assumes "AddTagToProduct u nid px p n d = (Inl e, d')" shows "d' = d\<lparr>tags := tags d'\<rparr>"
proof (cases "TagCreate_Validate n")
  case (Inr m)
  obtain r1 d1 where 1: "FindOrCreateByName u nid m d = (r1, d1)" by fastforce
  show ?thesis
    using assms FindOrCreateByName_left [OF 1]
    by (cases r1) (auto simp: AddTagToProduct_def Inr 1 repo_AddTagToProduct_def split: sum.splits prod.splits)
qed (use assms in \<open>simp add: AddTagToProduct_def\<close>)

lemma CreateProduct_left:
  assumes "CreateProduct e flts n1 n2 ck sched req files u s = (Inl err, s')"
  shows "s' = s\<lparr>saved_files := saved_files s', sh_discs := sh_discs s'\<rparr>"
  using CreateProduct_cases [OF assms]
proof (elim disjE exE conjE)
  fix q urls fs loc di d
  assume "create_with_retry e (fst (snd flts)) (snd (snd flts)) n1 n2 ck
         \<lparr>ci_product = new_product e u q, ci_categories = pc_categories q, ci_tags = pc_tags q,
          ci_images = product_images urls, ci_values = pc_values q,
          ci_variants = map (variant_in loc) (pc_variants q), ci_discount = di\<rparr> (s\<lparr>saved_files := fs, sh_discs := d\<rparr>) = (Inl err, s')"
  from create_with_retry_error [OF this] show ?thesis by simp
qed blast

lemma AddProductImage_left: "AddProductImage e nid now p f prim ord s = (Inl err, s') \<Longrightarrow> s' = s\<lparr>saved_files := saved_files s'\<rparr>"
  by (auto simp: AddProductImage_def Let_def split: sum.splits prod.splits)

lemma insertVariantTx_left: "insertVariantTx e nid now v s = Inr (v1, s1) \<Longrightarrow> s1 = s\<lparr>variants := variants s1\<rparr>"
  by (auto simp: insertVariantTx_def Let_def split: option.splits if_splits)

lemma CreateVariant_left:
  assumes "CreateVariant e f1 f2 nid now p r s = (Inl err, s')" shows "s' = s\<lparr>variants := variants s'\<rparr>"
proof (cases "VariantCreate_Validate r")
  case (Inr q)
  obtain r1 s1 where 1: "repo_CreateVariant e f1 nid now
      \<lparr>v_id = 0, v_product = p, v_sku = wc_sku q, v_price = wc_price q, v_weight = wc_weight q,
       v_active = opt_or (wc_active q) True, v_created = 0\<rparr> s = (r1, s1)" by fastforce
  have s1: "s1 = s\<lparr>variants := variants s1\<rparr>"
    using run_tx_cases [OF 1 [unfolded repo_CreateVariant_def]] by (auto dest: insertVariantTx_left)
  show ?thesis
  proof (cases r1)
    case (Inl er)
    then show ?thesis using assms s1 by (simp add: CreateVariant_def Inr 1)
  next
    case (Inr v)
    then show ?thesis using assms s1 \<open>VariantCreate_Validate r = Inr q\<close> 1
      by (auto simp: CreateVariant_def repo_SetVariantAttributeValues_def split: if_splits sum.splits prod.splits dest!: run_tx_error)
  qed
qed (use assms in \<open>simp add: CreateVariant_def\<close>)

section \<open>Refused requests\<close>

lemma clean_writers:
  "clean (\<lambda>a b. b = a) s (api_DeleteCategory p s)"
  "clean (\<lambda>a b. b = a) s (api_RemoveProductCategory p pc s)"
  "clean (\<lambda>a b. b = a) s (api_CreateBrand c b3 s)"
  "clean (\<lambda>a b. b = a) s (api_UpdateBrand c p b4 s)"
  "clean (\<lambda>a b. b = a) s (api_DeleteBrand p s)"
  "clean (\<lambda>a b. b = a) s (api_RemoveTagFromProduct p pt s)"
  "clean (\<lambda>a b. b = a) s (api_SetProductTags c p b7 s)"
  "clean (\<lambda>a b. b = a) s (api_CreateAttribute c b8 s)"
  "clean (\<lambda>a b. b = a) s (api_UpdateAttribute c p b9 s)"
  "clean (\<lambda>a b. b = a) s (api_DeleteAttribute p s)"
  "clean (\<lambda>a b. b = a) s (api_AddAttributeValue c p b11 s)"
  "clean (\<lambda>a b. b = a) s (api_DeleteAttributeValue p pv s)"
  "clean (\<lambda>a b. b = a) s (api_SetProductAttributeValues c p b13 s)"
  "clean (\<lambda>a b. b = a) s (api_CreateDiscount c b14 s)"
  "clean (\<lambda>a b. b = a) s (api_UpdateDiscount c p b15 s)"
  "clean (\<lambda>a b. b = a) s (api_SetDiscountTargets c p b16 s)"
  "clean (\<lambda>a b. b = a) s (api_DeleteDiscount p s)"
  "clean (\<lambda>a b. b = a) s (api_CreateLocation c b18 s)"
  "clean (\<lambda>a b. b = a) s (api_UpdateLocation p b19 s)"
  "clean (\<lambda>a b. b = a) s (api_DeleteLocation p s)"
  "clean (\<lambda>a b. b = a) s (api_UpsertInventoryItem c b21 s)"
  "clean (\<lambda>a b. b = a) s (api_AdjustAvailableStock c pv pl b22 s)"
  "clean (\<lambda>a b. b = a) s (api_ReserveStock c pv pl q s)"
  "clean (\<lambda>a b. b = a) s (api_ReleaseStock c pv pl q s)"
  "clean (\<lambda>a b. b = a) s (api_DeleteInventoryItem pv pl s)"
  unfolding api_DeleteCategory_def api_RemoveProductCategory_def api_CreateBrand_def api_UpdateBrand_def api_DeleteBrand_def api_RemoveTagFromProduct_def api_SetProductTags_def api_CreateAttribute_def api_UpdateAttribute_def api_DeleteAttribute_def api_AddAttributeValue_def api_DeleteAttributeValue_def api_SetProductAttributeValues_def api_CreateDiscount_def api_UpdateDiscount_def api_SetDiscountTargets_def api_DeleteDiscount_def api_CreateLocation_def api_UpdateLocation_def api_DeleteLocation_def api_UpsertInventoryItem_def api_AdjustAvailableStock_def api_ReserveStock_def api_ReleaseStock_def api_DeleteInventoryItem_def
  by (intro refusal refl; simp)+

lemma clean_product_writers:
  "clean (\<lambda>a b. b = a) s (api_UpdateProduct c p b26 s)"
  "clean (\<lambda>a b. b = a) s (api_DeleteProduct c p s)"
  "clean (\<lambda>a b. b = a) s (api_DeleteProductImage p pim s)"
  "clean (\<lambda>a b. b = a) s (api_SetPrimaryImage c p pim b29 s)"
  "clean (\<lambda>a b. b = a) s (api_UpdateVariant c p pv b30 s)"
  "clean (\<lambda>a b. b = a) s (api_DeleteVariant c p pv s)"
  "clean (\<lambda>a b. b = a) s (api_SetVariantAttributeValues c p pv b32 s)"
  unfolding api_UpdateProduct_def api_DeleteProduct_def api_DeleteProductImage_def api_SetPrimaryImage_def api_UpdateVariant_def api_DeleteVariant_def api_SetVariantAttributeValues_def
  by ((intro clean_with_id clean_bound clean_handled refl; (erule tidyD [OF tidy_products(1)] tidyD [OF tidy_products(2)] tidyD [OF tidy_products(3)] tidyD [OF tidy_products(4)]
      tidyD [OF tidy_products(5)] tidyD [OF tidy_products(6)] tidyD [OF tidy_products(7)] | simp))+)

lemma left_exceptions:
  "left_behind ''CreateProduct'' s s' \<longleftrightarrow> s' = s\<lparr>saved_files := saved_files s', sh_discs := sh_discs s'\<rparr>"
  "left_behind ''AddProductImage'' s s' \<longleftrightarrow> s' = s\<lparr>saved_files := saved_files s'\<rparr>"
  "left_behind ''CreateVariant'' s s' \<longleftrightarrow> s' = s\<lparr>variants := variants s'\<rparr>"
  "left_behind ''AddTagToProduct'' s s' \<longleftrightarrow> s' = s\<lparr>sh_meta := (sh_meta s)\<lparr>tags := tags (sh_meta s')\<rparr>\<rparr>"
  "left_behind ''AddProductCategory'' s s' \<longleftrightarrow> s' = s\<lparr>sh_cats := (sh_cats s)\<lparr>links := links (sh_cats s')\<rparr>\<rparr>"
  "left_behind ''CreateCategory'' s s' \<longleftrightarrow> s' = s\<lparr>sh_cats := (sh_cats s)\<lparr>cat_uploads := cat_uploads (sh_cats s')\<rparr>\<rparr>"
  "left_behind ''UpdateCategory'' s s' \<longleftrightarrow> s' = s\<lparr>sh_cats := (sh_cats s)\<lparr>cat_uploads := cat_uploads (sh_cats s')\<rparr>\<rparr>"
  by (simp_all add: left_behind_def)

lemma clean_self: "Q s s \<Longrightarrow> clean Q s (r, s)"
  by (simp add: clean_def)

lemma in_cats_error: "in_cats f s = (Inl e, s') \<Longrightarrow> (\<And>d'. f (sh_cats s) = (Inl e, d') \<Longrightarrow> s' = s\<lparr>sh_cats := d'\<rparr> \<Longrightarrow> P) \<Longrightarrow> P"
  and in_meta_error: "in_meta g s = (Inl e2, s') \<Longrightarrow> (\<And>d'. g (sh_meta s) = (Inl e2, d') \<Longrightarrow> s' = s\<lparr>sh_meta := d'\<rparr> \<Longrightarrow> P) \<Longrightarrow> P"
  by (auto simp: in_cats_def in_meta_def split: prod.splits)

lemma clean_if: "clean Q s a \<Longrightarrow> clean Q s b \<Longrightarrow> clean Q s (if C then a else b)"
  by simp

lemma clean_CreateProduct: "clean (left_behind ''CreateProduct'') s (api_CreateProduct c k me f s)"
proof (cases me)
  case None
  show ?thesis unfolding api_CreateProduct_def None option.case
    by (rule clean_if clean_bound clean_self left_nothing)+
next
  case (Some u)
  show ?thesis unfolding api_CreateProduct_def Some option.case
    by (rule clean_if clean_bound clean_self clean_handled left_nothing)+
      (simp, drule CreateProduct_left, simp only: left_exceptions, (rule left_nothing)+)
qed

lemma clean_AddProductImage: "clean (left_behind ''AddProductImage'') s (api_AddProductImage c p form file s)"
  unfolding api_AddProductImage_def by (intro clean_with_id clean_bound clean_handled left_nothing)
    (simp, drule AddProductImage_left, simp only: left_exceptions)

lemma clean_CreateVariant: "clean (left_behind ''CreateVariant'') s (api_CreateVariant c p body s)"
  unfolding api_CreateVariant_def by (intro clean_with_id clean_bound clean_handled left_nothing)
    (simp, drule CreateVariant_left, simp only: left_exceptions)

lemma clean_AddTagToProduct: "clean (left_behind ''AddTagToProduct'') s (api_AddTagToProduct c p body s)"
  unfolding api_AddTagToProduct_def by (intro clean_with_id clean_bound clean_handled left_nothing)
    (simp, erule in_meta_error, drule AddTagToProduct_left, simp add: left_exceptions)

lemma clean_AddProductCategory: "clean (left_behind ''AddProductCategory'') s (api_AddProductCategory p body s)"
  unfolding api_AddProductCategory_def answered_def
  by (intro clean_with_id clean_bound left_nothing)
    (auto simp: left_exceptions split: sum.split intro!: clean_self clean_handled elim!: in_cats_error dest!: link_loop_left)

lemma clean_CreateCategory: "clean (left_behind ''CreateCategory'') s (api_CreateCategory c body s)"
  unfolding api_CreateCategory_def
  by (intro clean_bound left_nothing)
    (auto simp: left_exceptions intro!: clean_handled elim!: in_cats_error dest!: CreateCategory_left)

lemma clean_UpdateCategory: "clean (left_behind ''UpdateCategory'') s (api_UpdateCategory c p body s)"
  unfolding api_UpdateCategory_def
  by (intro clean_with_id clean_bound left_nothing)
    (auto simp: left_exceptions intro!: clean_handled elim!: in_cats_error dest!: UpdateCategory_left)

lemma clean_left: "clean (\<lambda>a b. b = a) s x \<Longrightarrow> clean (left_behind h) s x"
  by (simp add: clean_def left_nothing)

section \<open>Properties\<close>

text \<open>C39. A request to the catalogue that is answered with an error, be it malformed, refused or failed, leaves the
  shop as it was. The exceptions are named: the image file and discount of a product that was not created, the file
  of an image that was not added, the variant whose attribute values could not be set, the tag that could not be
  linked, the categories linked before the one that failed, the uploaded picture that could not be removed.\<close>

theorem refused_request_leaves_the_shop:
  assumes "api_call h st s s'" "400 \<le> st"
  shows "left_behind h s s'"
  using assms
  by (induction rule: api_call.induct)
    (erule clean_call [rotated], assumption,
      rule clean_writers [THEN clean_left] clean_product_writers [THEN clean_left] clean_CreateProduct clean_AddProductImage
        clean_CreateVariant clean_AddTagToProduct clean_AddProductCategory clean_CreateCategory clean_UpdateCategory)+

section \<open>The stock routes\<close>

text \<open>On every branch: malformed numbers are answered 400, a missing item 404, too little stock 422, and a success moves
  exactly the cell of the ledger the path names.\<close>

lemma reserve_request:
  assumes "distinct (map row_key (items (sh_stock s)))" "cx_fault c 0 = NoFault"
  shows "case (path_id pv, path_id pl, path_id (Query q ''qty'')) of
      (Some v, Some l, Some n) \<Rightarrow>
        (case reserve_cell n (ledger_of (items (sh_stock s)) v l) of
           Inl e \<Rightarrow> api_ReserveStock c pv pl q s = ((inventory_status e, None), s)
         | Inr x \<Rightarrow> \<exists>t. api_ReserveStock c pv pl q s = ((200, Some ()), s\<lparr>sh_stock := t\<rparr>) \<and>
             ledger_of (items t) = put_cell v l x (ledger_of (items (sh_stock s))))
    | _ \<Rightarrow> api_ReserveStock c pv pl q s = ((400, None), s)"
proof -
  show ?thesis
  proof (cases "path_id pv"; cases "path_id pl"; cases "path_id (Query q ''qty'')")
    fix v l n assume p: "path_id pv = Some v" "path_id pl = Some l" "path_id (Query q ''qty'') = Some n"
    have "0 < n" by (rule path_id_pos [OF p(3)])
    moreover have "api_ReserveStock c pv pl q s
      = handled inventory_status 200 (in_stock (ReserveStock NoFault (cx_now c) v l n) s)"
      by (simp only: api_ReserveStock_def with_id_ok [OF p(1)] with_id_ok [OF p(2)] with_id_ok [OF p(3)] assms(2))
    ultimately show ?thesis
      using ReserveStock_refines [OF assms(1), of "cx_now c" v l n]
      by (cases "reserve_cell n (ledger_of (items (sh_stock s)) v l)") (auto simp: call_refines_def in_stock_def p)
  qed (simp_all add: api_ReserveStock_def with_id_def)
qed

section \<open>Surprises\<close>

text \<open>Routes below a product do not look at the product of the path: an image or a variant of another product is
  deleted, read and changed all the same. The primary image is the one of the body, not the one of the path.\<close>

lemma path_product_is_ignored:
  "api_DeleteProductImage p1 pim s = api_DeleteProductImage p2 pim s"
  "api_GetVariant p1 pv s = api_GetVariant p2 pv s" "api_DeleteVariant c p1 pv s = api_DeleteVariant c p2 pv s"
  "api_UpdateVariant c p1 pv b1 s = api_UpdateVariant c p2 pv b1 s"
  "api_SetVariantAttributeValues c p1 pv b2 s = api_SetVariantAttributeValues c p2 pv b2 s"
  "api_DeleteAttributeValue p1 pv s = api_DeleteAttributeValue p2 pv s"
  "api_SetPrimaryImage c p pim1 b3 s = api_SetPrimaryImage c p pim2 b3 s"
  by (simp_all add: api_DeleteProductImage_def api_GetVariant_def api_DeleteVariant_def api_UpdateVariant_def
      api_SetVariantAttributeValues_def api_DeleteAttributeValue_def api_SetPrimaryImage_def)

text \<open>Listing by the feeds \<open>trending\<close> and \<open>best_sellers\<close> always fails, and so does any sort key the listing does not
  know: both are answered as server errors.\<close>

lemma feed_listing_fails:
  assumes "catalogOrderBy (fe_unicode e) (read_catalog_sort q) \<in> {None, Some ByMetric}"
  shows "api_ListProducts e pf now q s = ((500, None), s)"
  using assms by (auto simp: api_ListProducts_def answered_def ListProducts_def ListProductsForCatalog_def Let_def)

text \<open>A page of more than a hundred is answered with twenty, and the reply still names the size asked for.\<close>

lemma large_page_is_misreported:
  assumes "q ''page_size'' = Some (string_of_int n)" "100 < n" "n < 2 ^ 63" "api_ListProducts e pf now q s = ((200, Some r), s')"
  shows "pg_size r = n \<and> Inr (pg_items r, pg_total r) = ListProducts e now
    \<lparr>kr_page = read_page q, kr_size = 20, kr_filter = read_catalog_filter pf q\<rparr> (read_catalog_sort q) s"
proof -
  have size: "read_page_size q = n"
    using assms(1-3) by (simp add: read_page_size_def DefaultQuery_def ParseInt_string_of_int)
  have same: "ListProducts e now \<lparr>kr_page = a, kr_size = n, kr_filter = f\<rparr> k s = ListProducts e now \<lparr>kr_page = a, kr_size = 20, kr_filter = f\<rparr> k s"
    for a f k using assms(2) by (simp add: ListProducts_def Let_def)
  show ?thesis
    using assms(4) unfolding api_ListProducts_def size same answered_def
    by (cases "ListProducts e now \<lparr>kr_page = read_page q, kr_size = 20, kr_filter = read_catalog_filter pf q\<rparr> (read_catalog_sort q) s") auto
qed

text \<open>A tag for a product that does not exist is created, and the request is answered as a server error.\<close>

lemma tag_for_no_product:
  assumes "path_id p = Some i" "\<not> has_product s i" "TagCreate_Validate n = Inr m"
    and "FindOrCreateByName (pe_unicode (cx_env c)) (cx_id c 0) m (sh_meta s) = (Inr t, d)" "(i, t_id t) \<notin> set (product_tags d)"
  shows "api_AddTagToProduct c p (Some n) s = ((500, None), s\<lparr>sh_meta := d\<rparr>)"
  using assms
  by (simp add: api_AddTagToProduct_def with_id_ok bound_def in_meta_def AddTagToProduct_def repo_AddTagToProduct_def linkTag_def
      link_pair_def)

section \<open>Witnesses\<close>

definition stocked_shop :: shop where
  "stocked_shop = sample_shop\<lparr>sh_stock := sample_store\<rparr>"

definition sample_call :: catalog_call where
  "sample_call = \<lparr>cx_env = sample_env, cx_now = 9, cx_fault = (\<lambda>_. NoFault), cx_id = (\<lambda>k. 900 + int k)\<rparr>"

definition qty_query :: "string \<Rightarrow> query" where
  "qty_query n = [''qty'' \<mapsto> n]"

lemma sample_reservation: "fst (api_ReserveStock sample_call ''3'' ''1'' (qty_query ''11'') stocked_shop) = (422, None)"
  by code_simp

theorem refused_request_leaves_the_shop_witness:
  "fst (api_ReserveStock sample_call ''3'' ''1'' (qty_query ''11'') stocked_shop) = (422, None)
   \<and> left_behind ''ReserveStock'' stocked_shop (snd (api_ReserveStock sample_call ''3'' ''1'' (qty_query ''11'') stocked_shop))"
proof -
  obtain s' where run: "api_ReserveStock sample_call ''3'' ''1'' (qty_query ''11'') stocked_shop = ((422, None), s')"
    using sample_reservation by (metis prod.collapse)
  from refused_request_leaves_the_shop [OF api_call.ReserveStock [OF run]] show ?thesis by (simp add: run)
qed

text \<open>Units that are there are reserved.\<close>

lemma sample_reserved:
  "fst (api_ReserveStock sample_call ''3'' ''1'' (qty_query ''4'') stocked_shop) = (200, Some ())"
  "ledger_of (items (sh_stock (snd (api_ReserveStock sample_call ''3'' ''1'' (qty_query ''4'') stocked_shop)))) 3 1 = Some (6, 4, 5)"
  by code_simp+

end
