(* ===== verification/Account_Handlers.thy ===== *)
theory Account_Handlers
  imports Cart Addresses Notify Auth_Handlers
begin

text \<open>
  The HTTP handlers of a user's own account: cart, saved addresses and notifications
  (\<open>internal/handlers/cart\<close>, \<open>user\<close>, \<open>notification\<close>), the administrators' notification calls and the web-socket
  entry (\<open>internal/handlers/websocket\<close>). Decoded bodies come as optional values, the checks of the \<open>binding\<close> tags
  are definitions. The broadcasts of the notification service go to the channel of the hub, in order.
\<close>

section \<open>State\<close>

record 'c accounts =
  cart_state_of :: "'c cart_state"
  address_book :: addresses
  note_db :: notif_db
  pushed :: "bcast list"



definition on_notes :: "(notif_db \<Rightarrow> 'r \<times> notif_db \<times> bcast list) \<Rightarrow> 'c accounts \<Rightarrow> 'r \<times> 'c accounts" where
  "on_notes f st = (case f (note_db st) of (r, d, bs) \<Rightarrow> (r, st\<lparr>note_db := d, pushed := pushed st @ bs\<rparr>))"

text \<open>The cart answers 401 when the context has no identity; the other handlers panic (500).\<close>

definition known_user :: "ctx \<Rightarrow> 's \<Rightarrow> (id \<Rightarrow> 'a reply \<times> 's) \<Rightarrow> 'a reply \<times> 's" where
  "known_user x st h = (case GetIdentityID x of None \<Rightarrow> ((401, None), st) | Some u \<Rightarrow> h u)"

section \<open>Cart\<close>




section \<open>Addresses\<close>

definition required_max :: "nat \<Rightarrow> string \<Rightarrow> bool" where
  "required_max n s \<longleftrightarrow> s \<noteq> [] \<and> rune_count s \<le> n"










section \<open>Notifications\<close>

text \<open>\<open>strconv.ParseBool\<close>, with the empty text of a form as false.\<close>

definition form_bool :: "string \<Rightarrow> bool option" where
  "form_bool s =
     (if s \<in> {''1'', ''t'', ''T'', ''TRUE'', ''true'', ''True''} then Some True
      else if s \<in> {'''', ''0'', ''f'', ''F'', ''FALSE'', ''false'', ''False''} then Some False else None)"

text \<open>\<open>ShouldBindQuery\<close> on the filters; an absent page is 0 and fails \<open>min=1\<close>.\<close>

definition notif_filter_of :: "query \<Rightarrow> notif_filter option" where
  "notif_filter_of q =
     (case (case q ''is_read'' of None \<Rightarrow> Some None | Some t \<Rightarrow> map_option Some (form_bool t)) of
        None \<Rightarrow> None
      | Some r \<Rightarrow> (case (query_int q ''page'', query_int q ''page_size'') of
            (Some p, Some n) \<Rightarrow>
              if 1 \<le> p \<and> 1 \<le> n \<and> n \<le> 100
              then Some \<lparr>nf_read = r, nf_type = q ''type'', nf_page = p, nf_size = n\<rparr> else None
          | _ \<Rightarrow> None))"

definition handle_GetNotifications :: "instant \<Rightarrow> query \<Rightarrow> ctx \<Rightarrow> 'c accounts \<Rightarrow> notif_page reply \<times> 'c accounts" where
  "handle_GetNotifications now q x st =
     must_identity x st (\<lambda>u. bound (\<lambda>_. True) (notif_filter_of q) st (\<lambda>f.
       answered 500 200 (GetUserNotifications now u f (note_db st), st)))"



text \<open>A number in the path, which may be negative here.\<close>

definition with_number :: "string \<Rightarrow> 's \<Rightarrow> (int \<Rightarrow> 'a reply \<times> 's) \<Rightarrow> 'a reply \<times> 's" where
  "with_number param st h = (case ParseInt param of None \<Rightarrow> ((400, None), st) | Some i \<Rightarrow> h i)"


text \<open>A successful call answers with the unread count it leaves.\<close>

definition handle_MarkAsRead :: "instant \<Rightarrow> string \<Rightarrow> ctx \<Rightarrow> 'c accounts \<Rightarrow> int reply \<times> 'c accounts" where
  "handle_MarkAsRead now param x st =
     must_identity x st (\<lambda>u. with_number param st (\<lambda>i.
       case on_notes (MarkAsRead now i u) st of
         (Inl _, st') \<Rightarrow> ((500, None), st')
       | (Inr _, st') \<Rightarrow> ((200, Some (repo_GetUnreadCount now u (note_db st'))), st')))"





section \<open>Calls of the administrators\<close>

definition CreateNotificationRequest_ok :: "notif_request \<Rightarrow> bool" where
  "CreateNotificationRequest_ok q \<longleftrightarrow> nq_identity q \<noteq> 0 \<and> required_max 255 (nq_title q) \<and> nq_message q \<noteq> []"

definition handle_CreateNotification ::
  "instant \<Rightarrow> notif_request option \<Rightarrow> 'c accounts \<Rightarrow> notification reply \<times> 'c accounts" where
  "handle_CreateNotification now body st =
     bound CreateNotificationRequest_ok body st (\<lambda>q. answered 500 201 (on_notes (CreateAndPush now q) st))"

record bulk_body =
  bb_ids :: "id list option"
  bb_title :: string
  bb_message :: string
  bb_type :: string
  bb_metadata :: "string option"

text \<open>The type and the metadata of a broadcast are decoded and then not used.\<close>

definition handle_BroadcastNotification ::
  "instant \<Rightarrow> bulk_body option \<Rightarrow> 'c accounts \<Rightarrow> unit reply \<times> 'c accounts" where
  "handle_BroadcastNotification now body st =
     bound (\<lambda>b. bb_title b \<noteq> [] \<and> bb_message b \<noteq> []) body st (\<lambda>b.
       ((200, None), st\<lparr>pushed := pushed st @ BroadcastSystemNotification now (bb_title b) (bb_message b)\<rparr>))"

definition bulk_requests :: "bulk_body \<Rightarrow> notif_request list" where
  "bulk_requests b = map (\<lambda>n. \<lparr>nq_identity = n, nq_title = bb_title b, nq_message = bb_message b,
       nq_type = bb_type b, nq_metadata = bb_metadata b, nq_expires = None\<rparr>) (case bb_ids b of None \<Rightarrow> [] | Some ns \<Rightarrow> ns)"

definition handle_SendBulkNotifications ::
  "instant \<Rightarrow> bulk_body option \<Rightarrow> 'c accounts \<Rightarrow> nat reply \<times> 'c accounts" where
  "handle_SendBulkNotifications now body st =
     bound (\<lambda>b. bb_ids b \<noteq> None \<and> bb_title b \<noteq> [] \<and> bb_message b \<noteq> []) body st (\<lambda>b.
       case on_notes (CreateBulkAndPush now (bulk_requests b)) st of (ns, st') \<Rightarrow> ((201, Some (length ns)), st'))"

section \<open>The web-socket entry\<close>

text \<open>The query parameter comes before the header; there is no cookie.\<close>

definition socket_token :: "query \<Rightarrow> string \<Rightarrow> string" where
  "socket_token q header =
     (if Query q ''token'' \<noteq> [] then Query q ''token''
      else (case split_blank header of
          [a, t] \<Rightarrow> if header \<noteq> [] \<and> map ascii_lower a = ''bearer'' then t else []
        | _ \<Rightarrow> []))"

text \<open>The upgrade is the library's: it succeeds or answers with a status of its own. A client that comes out goes
  to the register channel of the hub.\<close>

definition HandleConnection ::
  "jwt_lib \<Rightarrow> verifier \<Rightarrow> bool \<Rightarrow> instant \<Rightarrow> nat option \<Rightarrow> query \<Rightarrow> string \<Rightarrow> auth_state \<Rightarrow> ws_client reply \<times> auth_state" where
  "HandleConnection L v up now refused q header st =
     (let tok = socket_token q header in
      if tok = [] then ((401, None), st)
      else (case AuthenticateClient L v up now tok st of
          (Inl _, st') \<Rightarrow> ((401, None), st')
        | (Inr a, st') \<Rightarrow> (case refused of
              Some s \<Rightarrow> ((s, None), st')
            | None \<Rightarrow> ((101, Some (NewClient a)), st'))))"

definition GetStats :: "hub \<Rightarrow> nat reply" where
  "GetStats h = (200, Some (TotalClients h))"

section \<open>All requests of a user\<close>











section \<open>What a call leaves\<close>

text \<open>A result of a handler in which every reply is fine and the state is related to the one before.\<close>

definition leaves :: "('a \<Rightarrow> bool) \<Rightarrow> ('s \<Rightarrow> bool) \<Rightarrow> 'a reply \<times> 's \<Rightarrow> bool" where
  "leaves P Q r \<longleftrightarrow> (\<forall>v. snd (fst r) = Some v \<longrightarrow> P v) \<and> Q (snd r)"












subsection \<open>Cart\<close>













subsection \<open>Addresses\<close>










subsection \<open>Notifications\<close>








section \<open>Each call stays in the account\<close>









text \<open>A refused request changes nothing; a served one has the caller's identity.\<close>

lemma leaves_no_identity:
  assumes "GetIdentityID x = None" "Q st"
  shows "leaves P Q (must_identity x st h)" "leaves P Q (known_user x st h)"
  using assms by (simp_all add: must_identity_def known_user_def leaves_def)








section \<open>What the handlers get wrong\<close>

text \<open>The page and its size may not be left out, although the service has defaults for both.\<close>

lemma listing_needs_a_page:
  assumes "GetIdentityID x = Some u" "q ''page'' = None \<or> q ''page_size'' = None"
  shows "handle_GetNotifications now q x st = ((400, None), st)"
proof -
  have "query_int q ''page'' = Some 0 \<or> query_int q ''page_size'' = Some 0"
    using assms(2) by (auto simp: query_int_def Query_def)
  then have "notif_filter_of q = None" by (auto simp: notif_filter_of_def split: option.splits)
  then show ?thesis using assms(1) by (simp add: handle_GetNotifications_def must_identity_def bound_def)
qed

text \<open>Marking a notification a second time is a server error.\<close>

lemma none_left: "(\<And>r. \<not> P (f r)) \<Longrightarrow> \<not> list_ex P (update_where P f rs)"
  by (induction rs) (simp_all add: update_where_def)

lemma marking_twice_is_a_server_error:
  assumes x: "GetIdentityID x = Some u" and m: "handle_MarkAsRead now p x st = ((200, Some k), st')"
  shows "handle_MarkAsRead later p x st' = ((500, None), st')"
proof -
  obtain i where i: "ParseInt p = Some i"
    using m x by (auto simp: handle_MarkAsRead_def must_identity_def with_number_def split: option.splits)
  let ?P = "\<lambda>r. nt_id r = i \<and> nt_identity r = u \<and> \<not> nt_read r"
  have call: "handle_MarkAsRead n p x s =
      (case on_notes (MarkAsRead n i u) s of (Inl _, st') \<Rightarrow> ((500, None), st')
       | (Inr _, st') \<Rightarrow> ((200, Some (repo_GetUnreadCount n u (note_db st'))), st'))" for n and s :: "'a accounts"
    using x i by (simp add: handle_MarkAsRead_def must_identity_def with_number_def)
  have none: "handle_MarkAsRead n p x s = ((500, None), s)"
    if "\<not> list_ex ?P (note_rows (note_db s))" for n and s :: "'a accounts"
    using that unfolding call by (simp add: on_notes_def MarkAsRead_def repo_MarkAsRead_def Let_def)
  have "list_ex ?P (note_rows (note_db st))" using none [of st now] m by fastforce
  then have rep: "repo_MarkAsRead now i u (note_db st)
      = (Inr (), note_db st\<lparr>note_rows := update_where ?P (mark now) (note_rows (note_db st))\<rparr>)"
    by (simp add: repo_MarkAsRead_def Let_def)
  have st': "st' = snd (handle_MarkAsRead now p x st)" by (simp only: m snd_conv)
  have rows: "note_rows (note_db st') = update_where ?P (mark now) (note_rows (note_db st))"
    unfolding st' call on_notes_def MarkAsRead_def rep by simp
  have "\<not> list_ex ?P (note_rows (note_db st'))" unfolding rows by (rule none_left) simp
  then show ?thesis by (rule none)
qed

text \<open>A bulk message whose type is left out reaches nobody and is answered with success.\<close>

lemma bulk_without_a_type_sends_nothing:
  assumes "bb_ids b = Some ns" "bb_title b \<noteq> []" "bb_message b \<noteq> []" "bb_type b = []"
  shows "handle_SendBulkNotifications now (Some b) st = ((201, Some 0), st)"
proof -
  have n: "CreateAndPush now q d = (Inl (NoteErr ''failed to create notification''), d, [])" if "nq_type q = []" for q d
    using that by (simp add: CreateAndPush_def note_Create_def notification_of_def note_type_def)
  have "CreateBulkAndPush now qs d = ([], d, [])" if "\<forall>q \<in> set qs. nq_type q = []" for qs d
    using that by (induction qs) (simp_all add: n)
  from this [of "bulk_requests b" "note_db st"] show ?thesis
    using assms by (simp add: handle_SendBulkNotifications_def bound_def on_notes_def bulk_requests_def)
qed

section \<open>Properties\<close>










end
